(* ===== verification/Prelude.thy ===== *)
theory Prelude
  imports Main "HOL-Library.Word" "HOL-Library.Char_ord" "HOL-Library.List_Lexorder"
begin

text \<open>
  What the components share: the machine types of the Rust sources, \<open>Result\<close> as a sum
  type, and the part of Rust's \<open>str\<close> library that the memo grammar is written with.

  A Rust \<open>String\<close> or \<open>&str\<close> is its sequence of UTF-8 bytes: the type \<open>str\<close> is a
  \<open>char list\<close>, one \<open>char\<close> per byte, so that \<open>length\<close> is Rust's \<open>len()\<close>,
  \<open>take\<close>/\<open>drop\<close> are \<open>split_at\<close> and a literal is the literal of the source. Where the
  code iterates over \<open>char\<close>s (trimming, \<open>contains(char::is_whitespace)\<close>, globbing) the
  bytes are cut into the encodings of the scalar values first (\<open>scalars\<close>).
\<close>

unbundle bit_operations_syntax

named_theorems text_simps \<open>how the text functions act on well-formed pieces\<close>

section \<open>Machine types and results\<close>

type_synonym str = string
type_synonym bytes = "char list"
type_synonym u32 = nat
type_synonym u64 = "64 word"

definition u32_max :: u32 where
  "u32_max = 4294967295"

definition u64_max :: nat where
  "u64_max = 18446744073709551615"

text \<open>\<open>u32::saturating_add\<close>; \<open>saturating_sub\<close> is the truncated subtraction of \<open>nat\<close>.\<close>

definition sat_add32 :: "u32 \<Rightarrow> u32 \<Rightarrow> u32" where
  "sat_add32 a b = min (a + b) u32_max"

text \<open>\<open>u64::saturating_add\<close>.\<close>

definition sat_add64 :: "u64 \<Rightarrow> u64 \<Rightarrow> u64" where
  "sat_add64 a b = (if unat a + unat b < 2 ^ 64 then a + b else - 1)"

lemma unat_sat_add64: "unat (sat_add64 a b) = min (unat a + unat b) u64_max"
  by (auto simp: sat_add64_def unat_word_ariths u64_max_def unsigned_minus_1_eq_mask mask_eq_exp_minus_1)

abbreviation Err :: "'e \<Rightarrow> 'e + 'a" where "Err \<equiv> Inl"
abbreviation Ok :: "'a \<Rightarrow> 'e + 'a" where "Ok \<equiv> Inr"

text \<open>The \<open>?\<close> operator on a \<open>Result\<close>, and \<open>Option::ok_or\<close>.\<close>

fun try_ok :: "'e + 'a \<Rightarrow> ('a \<Rightarrow> 'e + 'b) \<Rightarrow> 'e + 'b" where
  "try_ok (Inl e) k = Inl e"
| "try_ok (Inr x) k = k x"

fun ok_or :: "'e \<Rightarrow> 'a option \<Rightarrow> 'e + 'a" where
  "ok_or e None = Inl e"
| "ok_or e (Some x) = Inr x"

lemma try_ok_Inr: "try_ok r k = Inr y \<longleftrightarrow> (\<exists>x. r = Inr x \<and> k x = Inr y)"
  by (cases r) auto

lemma ok_or_Inr [simp]: "ok_or e opt = Inr x \<longleftrightarrow> opt = Some x"
  by (cases opt) auto

fun unwrap_or :: "'a option \<Rightarrow> 'a \<Rightarrow> 'a" where
  "unwrap_or None d = d"
| "unwrap_or (Some x) d = x"

section \<open>Scalar values of a UTF-8 string\<close>

definition byte :: "char \<Rightarrow> nat" where
  "byte c = of_char c"

lemma byte_less [simp]: "byte c < 256"
  unfolding byte_def by (cases c) (simp add: of_char_def)

lemma byte_inject [simp]: "byte c = byte d \<longleftrightarrow> c = d"
  by (simp add: byte_def)

definition is_ascii :: "char \<Rightarrow> bool" where
  "is_ascii c \<longleftrightarrow> byte c < 128"

definition scalar_width :: "char \<Rightarrow> nat" where
  "scalar_width c =
     (if byte c < 128 then 1 else if byte c < 224 then 2 else if byte c < 240 then 3 else 4)"

fun scalars :: "str \<Rightarrow> str list" where
  "scalars [] = []"
| "scalars (c # cs) =
     (c # take (scalar_width c - 1) cs) # scalars (drop (scalar_width c - 1) cs)"

lemma concat_scalars [simp]: "concat (scalars s) = s"
  by (induction s rule: scalars.induct) auto

lemma scalars_ascii_Cons: "is_ascii c \<Longrightarrow> scalars (c # cs) = [c] # scalars cs"
  by (simp add: is_ascii_def scalar_width_def)

lemma scalars_ascii: "list_all is_ascii s \<Longrightarrow> scalars s = map (\<lambda>c. [c]) s"
  by (induction s) (auto simp: scalars_ascii_Cons simp del: scalars.simps(2))

text \<open>\<open>std::str::from_utf8\<close>: which scalar encodings are well-formed (Unicode table 3-7).\<close>

definition utf8_cont :: "nat \<Rightarrow> bool" where
  "utf8_cont b \<longleftrightarrow> 128 \<le> b \<and> b \<le> 191"

fun valid_scalar_bytes :: "nat list \<Rightarrow> bool" where
  "valid_scalar_bytes [a] = (a < 128)"
| "valid_scalar_bytes [a, b] = (194 \<le> a \<and> a \<le> 223 \<and> utf8_cont b)"
| "valid_scalar_bytes [a, b, c] =
     (utf8_cont c \<and>
      ((a = 224 \<and> 160 \<le> b \<and> b \<le> 191) \<or> (225 \<le> a \<and> a \<le> 236 \<and> utf8_cont b) \<or>
       (a = 237 \<and> 128 \<le> b \<and> b \<le> 159) \<or> (238 \<le> a \<and> a \<le> 239 \<and> utf8_cont b)))"
| "valid_scalar_bytes [a, b, c, d] =
     (utf8_cont c \<and> utf8_cont d \<and>
      ((a = 240 \<and> 144 \<le> b \<and> b \<le> 191) \<or> (241 \<le> a \<and> a \<le> 243 \<and> utf8_cont b) \<or>
       (a = 244 \<and> 128 \<le> b \<and> b \<le> 143)))"
| "valid_scalar_bytes _ = False"

definition utf8_valid :: "bytes \<Rightarrow> bool" where
  "utf8_valid s \<longleftrightarrow> list_all (\<lambda>sc. valid_scalar_bytes (map byte sc)) (scalars s)"

lemma valid_scalar_width:
  assumes "valid_scalar_bytes (map byte (c # cs))"
  shows "Suc (length cs) = scalar_width c"
  using assms
  by (cases "map byte (c # cs)" rule: valid_scalar_bytes.cases)
     (auto simp: scalar_width_def)

lemma utf8_valid_Nil [simp]: "utf8_valid []"
  by (simp add: utf8_valid_def)

lemma utf8_valid_ascii: "list_all is_ascii s \<Longrightarrow> utf8_valid s"
  by (induction s) (auto simp: utf8_valid_def is_ascii_def scalar_width_def)

lemma scalars_append: "utf8_valid s \<Longrightarrow> scalars (s @ t) = scalars s @ scalars t"
proof (induction s rule: scalars.induct)
  case 1
  then show ?case by simp
next
  case (2 c cs)
  let ?n = "scalar_width c - 1"
  from "2.prems" have v: "valid_scalar_bytes (map byte (c # take ?n cs))"
    and r: "utf8_valid (drop ?n cs)"
    by (auto simp: utf8_valid_def)
  from valid_scalar_width [OF v] have "min (length cs) ?n = ?n"
    by simp
  then have "?n \<le> length cs"
    by simp
  with "2.IH" [OF r] show ?case
    by simp
qed

lemma utf8_valid_append: "utf8_valid s \<Longrightarrow> utf8_valid (s @ t) = utf8_valid t"
  by (simp add: utf8_valid_def scalars_append)

text \<open>An ASCII byte of well-formed text is a scalar of its own, and a place to cut.\<close>

lemma valid_scalar_ascii:
  assumes "valid_scalar_bytes (map byte (c # cs))" and "d \<in> set (c # cs)" and "is_ascii d"
  shows "d = c \<and> cs = []"
  using assms
  by (cases "map byte (c # cs)" rule: valid_scalar_bytes.cases)
     (auto simp: is_ascii_def utf8_cont_def)

lemma ascii_is_scalar: "utf8_valid s \<Longrightarrow> d \<in> set s \<Longrightarrow> is_ascii d \<Longrightarrow> [d] \<in> set (scalars s)"
proof (induction s rule: scalars.induct)
  case (2 c cs)
  let ?n = "scalar_width c - 1"
  from "2.prems"(1) have v: "valid_scalar_bytes (map byte (c # take ?n cs))"
    and r: "utf8_valid (drop ?n cs)"
    by (auto simp: utf8_valid_def)
  have "set (c # cs) = set (c # take ?n cs) \<union> set (drop ?n cs)"
    by (metis append_Cons append_take_drop_id set_append)
  with "2.prems"(2) consider "d \<in> set (c # take ?n cs)" | "d \<in> set (drop ?n cs)" by blast
  then show ?case
  proof cases
    case 1
    from valid_scalar_ascii [OF v 1 "2.prems"(3)] show ?thesis by auto
  next
    case 2
    from "2.IH" [OF r 2 "2.prems"(3)] show ?thesis by simp
  qed
qed simp

lemma utf8_valid_cut:
  assumes "utf8_valid (a @ d # b)" and "is_ascii d"
  shows "utf8_valid a \<and> utf8_valid b"
  using assms
proof (induction a rule: scalars.induct)
  case 1
  then show ?case by (simp add: utf8_valid_def scalars_ascii_Cons del: scalars.simps(2))
next
  case (2 c cs)
  let ?n = "scalar_width c - 1"
  from "2.prems"(1) have v: "valid_scalar_bytes (map byte (c # take ?n (cs @ d # b)))"
    and r: "utf8_valid (drop ?n (cs @ d # b))"
    by (auto simp: utf8_valid_def)
  have le: "?n \<le> length cs"
  proof (rule ccontr)
    assume "\<not> ?n \<le> length cs"
    then have "d \<in> set (take ?n (cs @ d # b))"
      by (cases "?n - length cs") auto
    then have "d \<in> set (c # take ?n (cs @ d # b))" by simp
    with v "2.prems"(2) have "take ?n (cs @ d # b) = []" using valid_scalar_ascii by blast
    with \<open>\<not> ?n \<le> length cs\<close> show False by (simp only: take_eq_Nil) simp
  qed
  with r have "utf8_valid (drop ?n cs @ d # b)" by simp
  from "2.IH" [OF this "2.prems"(2)] v le show ?case
    by (auto simp: utf8_valid_def)
qed

section \<open>White space, control characters, trimming\<close>

text \<open>\<open>char::is_whitespace\<close> (the Unicode property White\_Space) on a scalar's encoding.\<close>

definition whitespace_scalars :: "str list" where
  "whitespace_scalars =
     [[CHR 0x09], [CHR 0x0A], [CHR 0x0B], [CHR 0x0C], [CHR 0x0D], [CHR 0x20],
      [CHR 0xC2, CHR 0x85], [CHR 0xC2, CHR 0xA0], [CHR 0xE1, CHR 0x9A, CHR 0x80],
      [CHR 0xE2, CHR 0x80, CHR 0x80], [CHR 0xE2, CHR 0x80, CHR 0x81],
      [CHR 0xE2, CHR 0x80, CHR 0x82], [CHR 0xE2, CHR 0x80, CHR 0x83],
      [CHR 0xE2, CHR 0x80, CHR 0x84], [CHR 0xE2, CHR 0x80, CHR 0x85],
      [CHR 0xE2, CHR 0x80, CHR 0x86], [CHR 0xE2, CHR 0x80, CHR 0x87],
      [CHR 0xE2, CHR 0x80, CHR 0x88], [CHR 0xE2, CHR 0x80, CHR 0x89],
      [CHR 0xE2, CHR 0x80, CHR 0x8A], [CHR 0xE2, CHR 0x80, CHR 0xA8],
      [CHR 0xE2, CHR 0x80, CHR 0xA9], [CHR 0xE2, CHR 0x80, CHR 0xAF],
      [CHR 0xE2, CHR 0x81, CHR 0x9F], [CHR 0xE3, CHR 0x80, CHR 0x80]]"

definition is_whitespace :: "str \<Rightarrow> bool" where
  "is_whitespace sc \<longleftrightarrow> sc \<in> set whitespace_scalars"

text \<open>\<open>char::is_control\<close> (general category Cc).\<close>

fun is_control :: "str \<Rightarrow> bool" where
  "is_control [c] = (byte c < 32 \<or> byte c = 127)"
| "is_control [c, d] = (c = CHR 0xC2 \<and> 128 \<le> byte d \<and> byte d < 160)"
| "is_control _ = False"

definition is_ascii_whitespace :: "char \<Rightarrow> bool" where
  "is_ascii_whitespace c \<longleftrightarrow> c \<in> {CHR 0x20, CHR 0x09, CHR 0x0A, CHR 0x0C, CHR 0x0D}"

definition is_ascii_hexdigit :: "char \<Rightarrow> bool" where
  "is_ascii_hexdigit c \<longleftrightarrow>
     (48 \<le> byte c \<and> byte c \<le> 57) \<or> (65 \<le> byte c \<and> byte c \<le> 70) \<or>
     (97 \<le> byte c \<and> byte c \<le> 102)"

definition contains_char :: "(str \<Rightarrow> bool) \<Rightarrow> str \<Rightarrow> bool" where
  "contains_char p s \<longleftrightarrow> list_ex p (scalars s)"

definition trim_start :: "str \<Rightarrow> str" where
  "trim_start s = concat (dropWhile is_whitespace (scalars s))"

definition trim_end :: "str \<Rightarrow> str" where
  "trim_end s = concat (rev (dropWhile is_whitespace (rev (scalars s))))"

definition trim :: "str \<Rightarrow> str" where
  "trim s = trim_end (trim_start s)"

text \<open>A plain byte is printable ASCII without the blank: it is its own scalar and never trimmed.\<close>

definition plain :: "char \<Rightarrow> bool" where
  "plain c \<longleftrightarrow> 33 \<le> byte c \<and> byte c \<le> 126"

lemma plain_ascii: "plain c \<Longrightarrow> is_ascii c"
  by (simp add: plain_def is_ascii_def)

lemma plain_not_whitespace: "plain c \<Longrightarrow> \<not> is_whitespace [c]"
  by (auto simp: plain_def is_whitespace_def whitespace_scalars_def byte_def)

lemma plain_not_control: "plain c \<Longrightarrow> \<not> is_control [c]"
  by (simp add: plain_def)

lemma list_all_plain_ascii: "list_all plain s \<Longrightarrow> list_all is_ascii s"
  by (erule list.pred_mono_strong) (simp add: plain_ascii)

lemma hexdigit_plain: "is_ascii_hexdigit c \<Longrightarrow> plain c"
  by (auto simp: is_ascii_hexdigit_def plain_def)

lemma scalars_plain: "list_all plain s \<Longrightarrow> scalars s = map (\<lambda>c. [c]) s"
  by (simp add: scalars_ascii list_all_plain_ascii)

lemma dropWhile_whitespace_plain:
  "list_all plain s \<Longrightarrow> dropWhile is_whitespace (map (\<lambda>c. [c]) s) = map (\<lambda>c. [c]) s"
  by (cases s) (auto simp: plain_not_whitespace)

lemma concat_map_singleton [simp]: "concat (map (\<lambda>c. [c]) s) = s"
  by (induction s) auto

lemma trim_start_plain [text_simps]: "list_all plain s \<Longrightarrow> trim_start s = s"
  by (simp add: trim_start_def scalars_plain dropWhile_whitespace_plain)

lemma trim_end_plain [text_simps]: "list_all plain s \<Longrightarrow> trim_end s = s"
proof -
  assume p: "list_all plain s"
  then have "list_all plain (rev s)"
    by (simp add: list_all_iff)
  then have "dropWhile is_whitespace (rev (map (\<lambda>c. [c]) s)) = rev (map (\<lambda>c. [c]) s)"
    by (simp add: rev_map dropWhile_whitespace_plain)
  with p show ?thesis
    by (simp add: trim_end_def scalars_plain)
qed

lemma trim_plain [text_simps]: "list_all plain s \<Longrightarrow> trim s = s"
  by (simp add: trim_def text_simps)

text \<open>Text that ends in a non-empty plain run is not shortened by \<open>trim_end\<close>.\<close>

lemma trim_end_append_plain [text_simps]:
  assumes "utf8_valid s" and "list_all plain t" and "t \<noteq> []"
  shows "trim_end (s @ t) = s @ t"
proof -
  from assms(3) obtain t' c where t: "t = t' @ [c]"
    by (cases t rule: rev_cases) auto
  with assms(2) have c: "plain c" by simp
  have "scalars (s @ t) = (scalars s @ map (\<lambda>c. [c]) t') @ [[c]]"
    using assms t by (simp add: scalars_append scalars_plain)
  then have "dropWhile is_whitespace (rev (scalars (s @ t))) = rev (scalars (s @ t))"
    using c by (simp add: plain_not_whitespace)
  then show ?thesis
    by (simp add: trim_end_def del: concat_append)
qed

text \<open>Trimming cuts between scalars, so it keeps text well-formed.\<close>

lemma valid_scalar_single:
  "valid_scalar_bytes (map byte x) \<Longrightarrow> scalars x = [x] \<and> utf8_valid x"
proof (cases x)
  case (Cons c cs)
  assume v: "valid_scalar_bytes (map byte x)"
  with Cons valid_scalar_width [of c cs] have "take (scalar_width c - 1) cs = cs"
    and "drop (scalar_width c - 1) cs = []" by auto
  with v Cons show ?thesis by (simp add: utf8_valid_def)
qed simp

lemma utf8_valid_concat:
  "\<forall>x \<in> set xs. valid_scalar_bytes (map byte x) \<Longrightarrow> utf8_valid (concat xs)"
  by (induction xs) (auto simp: utf8_valid_append valid_scalar_single)

lemma utf8_valid_trim_end: "utf8_valid s \<Longrightarrow> utf8_valid (trim_end s)"
  unfolding trim_end_def
  by (rule utf8_valid_concat) (auto simp: utf8_valid_def list_all_iff dest: set_dropWhileD)

section \<open>Splitting and joining\<close>

fun split_once :: "char \<Rightarrow> str \<Rightarrow> (str \<times> str) option" where
  "split_once d [] = None"
| "split_once d (c # cs) =
     (if c = d then Some ([], cs) else map_option (\<lambda>(a, b). (c # a, b)) (split_once d cs))"

lemma split_once_hit [text_simps]: "d \<notin> set a \<Longrightarrow> split_once d (a @ d # b) = Some (a, b)"
  by (induction a) auto

lemma split_once_miss [text_simps]: "d \<notin> set s \<Longrightarrow> split_once d s = None"
  by (induction s) auto

lemma split_once_Some: "split_once d s = Some (a, b) \<Longrightarrow> s = a @ d # b \<and> d \<notin> set a"
  by (induction s arbitrary: a) (auto split: if_splits)

lemma split_once_None: "split_once d s = None \<longleftrightarrow> d \<notin> set s"
  by (induction s) auto

text \<open>\<open>splitn(n, d)\<close>, collected.\<close>

fun splitn :: "nat \<Rightarrow> char \<Rightarrow> str \<Rightarrow> str list" where
  "splitn 0 d s = []"
| "splitn (Suc 0) d s = [s]"
| "splitn (Suc (Suc n)) d s =
     (case split_once d s of None \<Rightarrow> [s] | Some (a, b) \<Rightarrow> a # splitn (Suc n) d b)"

lemma utf8_valid_splitn:
  "utf8_valid s \<Longrightarrow> is_ascii d \<Longrightarrow> t \<in> set (splitn n d s) \<Longrightarrow> utf8_valid t"
proof (induction n d s rule: splitn.induct)
  case (3 n d s)
  show ?case
  proof (cases "split_once d s")
    case None
    with 3 show ?thesis by simp
  next
    case (Some ab)
    obtain a b where ab: "ab = (a, b)" by force
    with Some have "s = a @ d # b" using split_once_Some by blast
    with 3 have "utf8_valid a \<and> utf8_valid b" using utf8_valid_cut by blast
    with 3 Some ab show ?thesis by auto
  qed
qed simp_all

text \<open>\<open>split(d)\<close>, collected; never empty.\<close>

fun split_on :: "char \<Rightarrow> str \<Rightarrow> str list" where
  "split_on d [] = [[]]"
| "split_on d (c # cs) =
     (if c = d then [] # split_on d cs
      else (case split_on d cs of [] \<Rightarrow> [[c]] | w # ws \<Rightarrow> (c # w) # ws))"

text \<open>\<open>join(sep)\<close> on a vector of strings.\<close>

fun join_with :: "str \<Rightarrow> str list \<Rightarrow> str" where
  "join_with sep [] = []"
| "join_with sep [w] = w"
| "join_with sep (w # ws) = w @ sep @ join_with sep ws"

lemma split_on_single [text_simps]: "d \<notin> set w \<Longrightarrow> split_on d w = [w]"
  by (induction w) auto

lemma split_on_append [text_simps]: "d \<notin> set w \<Longrightarrow> split_on d (w @ d # s) = w # split_on d s"
  by (induction w) auto

lemma split_on_join [text_simps]:
  "ws \<noteq> [] \<Longrightarrow> \<forall>w \<in> set ws. d \<notin> set w \<Longrightarrow> split_on d (join_with [d] ws) = ws"
  by (induction "[d]" ws rule: join_with.induct) (auto simp: text_simps)

text \<open>\<open>rsplit_once\<close> at the last byte that satisfies \<open>p\<close>.\<close>

definition rsplit_once :: "(char \<Rightarrow> bool) \<Rightarrow> str \<Rightarrow> (str \<times> str) option" where
  "rsplit_once p s =
     (case dropWhile (\<lambda>c. \<not> p c) (rev s) of
        [] \<Rightarrow> None
      | _ # pre \<Rightarrow> Some (rev pre, rev (takeWhile (\<lambda>c. \<not> p c) (rev s))))"

lemma rsplit_once_hit [text_simps]:
  assumes "p d" and "\<forall>c \<in> set b. \<not> p c"
  shows "rsplit_once p (a @ d # b) = Some (a, b)"
proof -
  have "dropWhile (\<lambda>c. \<not> p c) (rev b @ d # rev a) = d # rev a"
    using assms by (subst dropWhile_append2) auto
  moreover have "takeWhile (\<lambda>c. \<not> p c) (rev b @ d # rev a) = rev b"
    using assms by (subst takeWhile_append2) auto
  ultimately show ?thesis
    by (simp add: rsplit_once_def)
qed

lemma rsplit_once_Some:
  assumes "rsplit_once p s = Some (a, b)"
  shows "\<exists>d. s = a @ d # b \<and> p d"
proof -
  from assms obtain d pre where d: "dropWhile (\<lambda>c. \<not> p c) (rev s) = d # pre"
    and a: "a = rev pre" and b: "b = rev (takeWhile (\<lambda>c. \<not> p c) (rev s))"
    by (auto simp: rsplit_once_def split: list.splits)
  have "rev s = rev b @ d # pre"
    using takeWhile_dropWhile_id [of "\<lambda>c. \<not> p c" "rev s"] by (simp add: d b)
  then have "s = a @ d # b" using a by (simp add: rev_swap)
  moreover have "p d" using hd_dropWhile [of "\<lambda>c. \<not> p c" "rev s"] d by simp
  ultimately show ?thesis by blast
qed

fun strip_prefix :: "str \<Rightarrow> str \<Rightarrow> str option" where
  "strip_prefix [] s = Some s"
| "strip_prefix (p # ps) [] = None"
| "strip_prefix (p # ps) (c # cs) = (if p = c then strip_prefix ps cs else None)"

lemma strip_prefix_append [simp]: "strip_prefix p (p @ s) = Some s"
  by (induction p) auto

lemma strip_prefix_Some: "strip_prefix p s = Some r \<Longrightarrow> s = p @ r"
  by (induction p s rule: strip_prefix.induct) (auto split: if_splits)

text \<open>\<open>split_whitespace().next()\<close>.\<close>

definition first_word :: "str \<Rightarrow> str option" where
  "first_word s =
     (case dropWhile is_whitespace (scalars s) of
        [] \<Rightarrow> None
      | sc # scs \<Rightarrow> Some (concat (takeWhile (\<lambda>x. \<not> is_whitespace x) (sc # scs))))"

section \<open>Decimal numbers\<close>

definition is_digit :: "char \<Rightarrow> bool" where
  "is_digit c \<longleftrightarrow> 48 \<le> byte c \<and> byte c \<le> 57"

definition digit_char :: "nat \<Rightarrow> char" where
  "digit_char d = char_of (48 + d)"

fun dec :: "nat \<Rightarrow> str" where
  "dec n = (if n < 10 then [digit_char n] else dec (n div 10) @ [digit_char (n mod 10)])"

declare dec.simps [simp del]

definition dec_value :: "str \<Rightarrow> nat" where
  "dec_value s = foldl (\<lambda>acc c. acc * 10 + (byte c - 48)) 0 s"

text \<open>
  \<open>str::parse\<close> of an unsigned integer with maximum \<open>m\<close>: one optional leading \<open>+\<close>, then
  at least one ASCII digit and nothing else, and the value must fit.
\<close>

definition parse_uint :: "nat \<Rightarrow> str \<Rightarrow> nat option" where
  "parse_uint m s =
     (let ds = (case s of [] \<Rightarrow> [] | c # cs \<Rightarrow> if c = CHR ''+'' then cs else s)
      in if ds = [] \<or> \<not> list_all is_digit ds \<or> m < dec_value ds then None
         else Some (dec_value ds))"

lemma byte_digit_char [simp]: "d < 10 \<Longrightarrow> byte (digit_char d) = 48 + d"
  by (simp add: byte_def digit_char_def)

lemma dec_value_snoc [simp]: "dec_value (s @ [c]) = dec_value s * 10 + (byte c - 48)"
  by (simp add: dec_value_def)

lemma dec_value_append: "dec_value (s @ t) = dec_value s * 10 ^ length t + dec_value t"
proof (induction t rule: rev_induct)
  case Nil
  then show ?case by (simp add: dec_value_def)
next
  case (snoc c t)
  have "dec_value (s @ t @ [c]) = dec_value (s @ t) * 10 + (byte c - 48)"
    using dec_value_snoc [of "s @ t" c] by simp
  with snoc show ?case by (simp add: algebra_simps)
qed

lemma dec_value_dec [simp]: "dec_value (dec n) = n"
proof (induction n rule: dec.induct)
  case (1 n)
  show ?case
  proof (cases "n < 10")
    case True
    then show ?thesis
      by (simp add: dec.simps [of n] dec_value_def)
  next
    case False
    with 1 show ?thesis
      by (simp add: dec.simps [of n])
  qed
qed

lemma dec_digits: "list_all is_digit (dec n)"
proof (induction n rule: dec.induct)
  case (1 n)
  then show ?case
    by (cases "n < 10") (simp_all add: dec.simps [of n] is_digit_def)
qed

lemma dec_not_Nil [simp]: "dec n \<noteq> []"
  by (subst dec.simps) simp

lemma digit_plain: "is_digit c \<Longrightarrow> plain c"
  by (simp add: is_digit_def plain_def)

lemma dec_plain: "list_all plain (dec n)"
  using dec_digits by (rule list.pred_mono_strong) (simp add: digit_plain)

lemma dec_inject [simp]: "dec m = dec n \<longleftrightarrow> m = n"
  by (metis dec_value_dec)

lemma parse_uint_dec [text_simps]: "n \<le> m \<Longrightarrow> parse_uint m (dec n) = Some n"
proof -
  assume le: "n \<le> m"
  obtain c cs where d: "dec n = c # cs"
    using dec_not_Nil [of n] by (cases "dec n") auto
  with dec_digits [of n] have "is_digit c" by simp
  then have "c \<noteq> CHR ''+''"
    by (auto simp: is_digit_def byte_def)
  with d le dec_digits [of n] dec_value_dec [of n] show ?thesis
    by (simp add: parse_uint_def del: dec_value_dec)
qed

lemma parse_uint_bound: "parse_uint m s = Some n \<Longrightarrow> n \<le> m"
  by (auto simp: parse_uint_def Let_def split: if_splits)

section \<open>Ordered maps whose iteration order is observed\<close>

text \<open>
  A \<open>BTreeMap\<close> that the code only looks up and stores into is a HOL map. Where the code
  iterates over it in key order it is the association list below, kept sorted.
\<close>

type_synonym ('k, 'v) btree = "('k \<times> 'v) list"

fun bt_insert :: "'k::linorder \<Rightarrow> 'v \<Rightarrow> ('k, 'v) btree \<Rightarrow> ('k, 'v) btree" where
  "bt_insert k v [] = [(k, v)]"
| "bt_insert k v ((k', v') # xs) =
     (if k = k' then (k, v) # xs
      else if k < k' then (k, v) # (k', v') # xs
      else (k', v') # bt_insert k v xs)"

definition bt_remove :: "'k \<Rightarrow> ('k, 'v) btree \<Rightarrow> ('k, 'v) btree" where
  "bt_remove k xs = filter (\<lambda>e. fst e \<noteq> k) xs"

definition bt_sorted :: "('k::linorder, 'v) btree \<Rightarrow> bool" where
  "bt_sorted xs \<longleftrightarrow> sorted_wrt (<) (map fst xs)"

lemma map_of_bt_insert [simp]: "map_of (bt_insert k v xs) = (map_of xs)(k \<mapsto> v)"
  by (induction k v xs rule: bt_insert.induct) (auto simp: fun_eq_iff)

lemma map_of_bt_remove [simp]: "map_of (bt_remove k xs) = (map_of xs)(k := None)"
  by (induction xs) (auto simp: bt_remove_def fun_eq_iff)

lemma keys_bt_insert: "fst ` set (bt_insert k v xs) = insert k (fst ` set xs)"
  by (induction k v xs rule: bt_insert.induct) auto

lemma bt_sorted_Nil [simp]: "bt_sorted []"
  by (simp add: bt_sorted_def)

lemma bt_sorted_insert: "bt_sorted xs \<Longrightarrow> bt_sorted (bt_insert k v xs)"
proof (induction k v xs rule: bt_insert.induct)
  case (2 k v k' v' xs)
  then show ?case
    using keys_bt_insert [of k v xs]
    by (force simp: bt_sorted_def)
qed (simp add: bt_sorted_def)

lemma bt_sorted_remove: "bt_sorted xs \<Longrightarrow> bt_sorted (bt_remove k xs)"
  by (induction xs) (auto simp: bt_sorted_def bt_remove_def)

lemma bt_sorted_distinct: "bt_sorted xs \<Longrightarrow> distinct (map fst xs)"
  unfolding bt_sorted_def using strict_sorted_iff by blast

section \<open>Sorted lists split at a downward closed predicate\<close>

lemma sorted_split:
  assumes "sorted (map f xs)" and "\<And>x y. x \<in> set xs \<Longrightarrow> y \<in> set xs \<Longrightarrow> f x \<le> f y \<Longrightarrow> P y \<Longrightarrow> P x"
  shows "filter P xs @ filter (\<lambda>x. \<not> P x) xs = xs"
  using assms
proof (induction xs)
  case (Cons x xs)
  have ih: "filter P xs @ filter (\<lambda>x. \<not> P x) xs = xs"
  proof (rule Cons.IH)
    show "sorted (map f xs)" using Cons.prems(1) by simp
    show "P a" if "a \<in> set xs" "b \<in> set xs" "f a \<le> f b" "P b" for a b
      using Cons.prems(2) [of a b] that by simp
  qed
  show ?case
  proof (cases "P x")
    case True
    with ih show ?thesis by simp
  next
    case False
    have "\<not> P y" if "y \<in> set xs" for y
    proof
      assume "P y"
      moreover have "f x \<le> f y" using Cons.prems(1) that by simp
      ultimately have "P x" using Cons.prems(2) [of x y] that by simp
      with False show False ..
    qed
    then have "filter P xs = []" and "filter (\<lambda>x. \<not> P x) xs = xs" by (simp_all add: filter_empty_conv)
    with False show ?thesis by simp
  qed
qed simp

section \<open>Two folds over the same list\<close>

text \<open>
  Two step functions that keep a relation between their states on every acceptable item keep it
  over a whole list.
\<close>

locale fold_simulation =
  fixes item :: "'x \<Rightarrow> bool" and rel :: "'a \<Rightarrow> 'b \<Rightarrow> bool"
    and step :: "'x \<Rightarrow> 'a \<Rightarrow> 'a" and step' :: "'x \<Rightarrow> 'b \<Rightarrow> 'b"
  assumes step_rel: "item x \<Longrightarrow> rel a b \<Longrightarrow> rel (step x a) (step' x b)"
begin

lemma fold_rel:
  "\<forall>x \<in> set xs. item x \<Longrightarrow> rel a b \<Longrightarrow>
   rel (foldl (\<lambda>s x. step x s) a xs) (foldl (\<lambda>s x. step' x s) b xs)"
  by (induction xs arbitrary: a b) (simp_all add: step_rel)

end

end
