(* ===== verification/Crates.thy ===== *)
theory Crates
  imports Prelude
begin

text \<open>
  The third-party crates the protocol calls, as a parameter. None of this code is under
  \<open>src/\<close>: \<open>hex\<close>, \<open>sha2\<close>, \<open>bech32\<close>, \<open>secp256k1\<close> and the memo type of
  \<open>zcash_protocol\<close>. A record of functions stands for them; every definition that reaches one
  takes the record as its argument \<open>E\<close>. What the code relies on is stated by the predicates
  \<open>hex_laws\<close>, \<open>bech32_laws\<close>, \<open>key_laws\<close>, \<open>sign_laws\<close>, \<open>memo_laws\<close> and \<open>txid_laws\<close>, which the theorems that need
  them carry as hypotheses, and which the record \<open>model_crates\<close> at the end satisfies.
\<close>

record ('pk, 'sk) crates =
  hex_encode :: "bytes \<Rightarrow> str"                          \<comment> \<open>\<open>hex::encode\<close>\<close>
  hex_decode :: "str \<Rightarrow> bytes option"                   \<comment> \<open>\<open>hex::decode\<close>\<close>
  sha256 :: "bytes \<Rightarrow> bytes"                            \<comment> \<open>\<open>Sha256::digest\<close>\<close>
  ecdsa_sign :: "'sk \<Rightarrow> bytes \<Rightarrow> bytes \<times> nat"
    \<comment> \<open>\<open>sign_ecdsa_recoverable\<close>, \<open>serialize_compact\<close>: compact signature and recovery id\<close>
  ecdsa_recover :: "bytes \<Rightarrow> bytes \<Rightarrow> nat \<Rightarrow> 'pk option"
    \<comment> \<open>\<open>from_compact\<close> then \<open>recover_ecdsa\<close> on a digest\<close>
  pk_of_sk :: "'sk \<Rightarrow> 'pk"                              \<comment> \<open>\<open>SecretKey::public_key\<close>\<close>
  pk_serialize :: "'pk \<Rightarrow> bytes"                        \<comment> \<open>\<open>PublicKey::serialize\<close>\<close>
  pk_from_slice :: "bytes \<Rightarrow> 'pk option"                \<comment> \<open>\<open>PublicKey::from_slice\<close>\<close>
  pk_from_str :: "str \<Rightarrow> 'pk option"                    \<comment> \<open>\<open>PublicKey::from_str\<close> (hex)\<close>
  bech32m_encode :: "str \<Rightarrow> bytes \<Rightarrow> str"               \<comment> \<open>\<open>bech32::encode::<Bech32m>\<close>\<close>
  bech32m_checked :: "str \<Rightarrow> (str \<times> bytes) option"
    \<comment> \<open>\<open>CheckedHrpstring::new::<Bech32m>\<close>: the human-readable part and the data bytes\<close>
  memo_fits :: "str \<Rightarrow> bool"
    \<comment> \<open>\<open>Memo::from_str\<close> accepts the text (at most 512 bytes); the memo then carries it verbatim\<close>
  txid_to_string :: "bytes \<Rightarrow> str"
    \<comment> \<open>\<open>TxId::from_bytes(..).to_string()\<close> on 32 stored bytes: the display form\<close>
  memo_decode :: "bytes \<Rightarrow> str option"
    \<comment> \<open>\<open>MemoBytes::from_bytes\<close> then \<open>Memo::try_from\<close>: the text, for a text memo\<close>

section \<open>Documented behaviour\<close>

definition hex_laws :: "('pk, 'sk) crates \<Rightarrow> bool" where
  "hex_laws E \<longleftrightarrow>
     (\<forall>b. hex_decode E (hex_encode E b) = Some b \<and>
          length (hex_encode E b) = 2 * length b \<and>
          list_all is_ascii_hexdigit (hex_encode E b)) \<and>
     (\<forall>s. list_all is_ascii_hexdigit s \<longrightarrow> even (length s) \<longrightarrow>
          (\<exists>b. hex_decode E s = Some b \<and> 2 * length b = length s))"

definition bech32_laws :: "('pk, 'sk) crates \<Rightarrow> bool" where
  "bech32_laws E \<longleftrightarrow>
     (\<forall>h d. bech32m_checked E (bech32m_encode E h d) = Some (h, d) \<and>
            (list_all plain h \<longrightarrow> list_all plain (bech32m_encode E h d)) \<and>
            bech32m_encode E h d \<noteq> [])"

definition key_laws :: "('pk, 'sk) crates \<Rightarrow> bool" where
  "key_laws E \<longleftrightarrow> (\<forall>pk. pk_from_slice E (pk_serialize E pk) = Some pk)"

definition sign_laws :: "('pk, 'sk) crates \<Rightarrow> bool" where
  "sign_laws E \<longleftrightarrow>
     (\<forall>sk d. length (fst (ecdsa_sign E sk d)) = 64 \<and> snd (ecdsa_sign E sk d) < 4 \<and>
             ecdsa_recover E d (fst (ecdsa_sign E sk d)) (snd (ecdsa_sign E sk d)) =
               Some (pk_of_sk E sk))"

definition memo_laws :: "('pk, 'sk) crates \<Rightarrow> bool" where
  "memo_laws E \<longleftrightarrow> (\<forall>s. memo_fits E s \<longrightarrow> length s \<le> 512)"

text \<open>A transaction id is displayed as the hexadecimal of its bytes in reverse order.\<close>

definition txid_laws :: "('pk, 'sk) crates \<Rightarrow> bool" where
  "txid_laws E \<longleftrightarrow> (\<forall>b. txid_to_string E b = hex_encode E (rev b))"

lemma hex_decode_encode [simp]: "hex_laws E \<Longrightarrow> hex_decode E (hex_encode E b) = Some b"
  unfolding hex_laws_def by blast

lemma length_hex_encode [simp]: "hex_laws E \<Longrightarrow> length (hex_encode E b) = 2 * length b"
  unfolding hex_laws_def by blast

lemma hexdigits_hex_encode [simp]:
  "hex_laws E \<Longrightarrow> list_all is_ascii_hexdigit (hex_encode E b)"
  unfolding hex_laws_def by blast

lemma hex_encode_inject [simp]:
  assumes "hex_laws E"
  shows "hex_encode E a = hex_encode E b \<longleftrightarrow> a = b"
proof
  assume "hex_encode E a = hex_encode E b"
  then have "hex_decode E (hex_encode E a) = hex_decode E (hex_encode E b)"
    by (rule arg_cong)
  then show "a = b"
    by (simp add: assms)
qed simp

lemma hexdigits_plain: "list_all is_ascii_hexdigit s \<Longrightarrow> list_all plain s"
  by (erule list.pred_mono_strong) (simp add: hexdigit_plain)

lemma plain_hex_encode [simp]: "hex_laws E \<Longrightarrow> list_all plain (hex_encode E b)"
  by (simp add: hexdigits_plain)

section \<open>A model of the laws\<close>

text \<open>
  Concrete functions that satisfy the six predicates: a real hexadecimal codec, the identity
  as the digest, keys of one byte whose signature repeats the byte, and a human-readable part
  followed by \<open>1\<close> and the hexadecimal data. They instantiate the parameter in the witnesses.
\<close>

definition hex_digit :: "nat \<Rightarrow> char" where
  "hex_digit n = char_of (if n < 10 then 48 + n else 87 + n)"

definition hex_enc :: "bytes \<Rightarrow> str" where
  "hex_enc b = concat (map (\<lambda>c. [hex_digit (byte c div 16), hex_digit (byte c mod 16)]) b)"

definition hex_value :: "char \<Rightarrow> nat option" where
  "hex_value c =
     (if 48 \<le> byte c \<and> byte c \<le> 57 then Some (byte c - 48)
      else if 65 \<le> byte c \<and> byte c \<le> 70 then Some (byte c - 55)
      else if 97 \<le> byte c \<and> byte c \<le> 102 then Some (byte c - 87)
      else None)"

fun hex_dec :: "str \<Rightarrow> bytes option" where
  "hex_dec [] = Some []"
| "hex_dec [c] = None"
| "hex_dec (c # d # s) =
     (case (hex_value c, hex_value d, hex_dec s) of
        (Some h, Some l, Some b) \<Rightarrow> Some (char_of (16 * h + l) # b)
      | _ \<Rightarrow> None)"

lemma byte_hex_digit: "n < 16 \<Longrightarrow> byte (hex_digit n) = (if n < 10 then 48 + n else 87 + n)"
  by (simp add: byte_def hex_digit_def)

lemma hex_value_digit [simp]: "n < 16 \<Longrightarrow> hex_value (hex_digit n) = Some n"
  by (simp add: hex_value_def byte_hex_digit)

lemma hexdigit_hex_digit [simp]: "n < 16 \<Longrightarrow> is_ascii_hexdigit (hex_digit n)"
  by (simp add: is_ascii_hexdigit_def byte_hex_digit)

lemma hex_dec_enc [simp]: "hex_dec (hex_enc b) = Some b"
proof (induction b)
  case (Cons c b)
  have "16 * (byte c div 16) + byte c mod 16 = byte c" by simp
  moreover have "byte c div 16 < 16"
    using byte_less [of c] by linarith
  ultimately show ?case
    using Cons by (simp add: hex_enc_def byte_def)
qed (simp add: hex_enc_def)

lemma length_hex_enc [simp]: "length (hex_enc b) = 2 * length b"
  by (induction b) (auto simp: hex_enc_def)

lemma hexdigits_hex_enc [simp]: "list_all is_ascii_hexdigit (hex_enc b)"
proof (induction b)
  case (Cons c b)
  have "byte c div 16 < 16"
    using byte_less [of c] by linarith
  with Cons show ?case by (simp add: hex_enc_def)
qed (simp add: hex_enc_def)

lemma hex_value_hexdigit: "is_ascii_hexdigit c \<Longrightarrow> hex_value c \<noteq> None"
  by (auto simp: is_ascii_hexdigit_def hex_value_def)

lemma hex_dec_hexdigits:
  "list_all is_ascii_hexdigit s \<Longrightarrow> even (length s) \<Longrightarrow>
   \<exists>b. hex_dec s = Some b \<and> 2 * length b = length s"
proof (induction s rule: hex_dec.induct)
  case (3 c d s)
  then obtain b where "hex_dec s = Some b" and "2 * length b = length s" by auto
  moreover obtain h l where "hex_value c = Some h" and "hex_value d = Some l"
    using 3 hex_value_hexdigit by fastforce
  ultimately show ?case by simp
qed auto

definition model_crates :: "(char, char) crates" where
  "model_crates =
     \<lparr>hex_encode = hex_enc, hex_decode = hex_dec, sha256 = (\<lambda>b. b),
      ecdsa_sign = (\<lambda>sk d. (replicate 64 sk, 0)),
      ecdsa_recover = (\<lambda>d c r. case c of [] \<Rightarrow> None | k # _ \<Rightarrow> Some k),
      pk_of_sk = (\<lambda>sk. sk), pk_serialize = (\<lambda>pk. [pk]),
      pk_from_slice = (\<lambda>b. case b of [k] \<Rightarrow> Some k | _ \<Rightarrow> None),
      pk_from_str = (\<lambda>s. case hex_dec s of Some [k] \<Rightarrow> Some k | _ \<Rightarrow> None),
      bech32m_encode = (\<lambda>h d. hex_enc h @ CHR ''1'' # CHR ''x'' # hex_enc d),
      bech32m_checked = (\<lambda>s. case split_once (CHR ''x'') s of None \<Rightarrow> None
         | Some (a, b) \<Rightarrow> (case (hex_dec (butlast a), hex_dec b) of
             (Some h, Some d) \<Rightarrow> Some (h, d) | _ \<Rightarrow> None)),
      memo_fits = (\<lambda>s. length s \<le> 512),
      txid_to_string = (\<lambda>b. hex_enc (rev b)), memo_decode = Some\<rparr>"

lemmas model_crates_simps = model_crates_def

lemma hex_laws_model [simp]: "hex_laws model_crates"
  by (simp add: hex_laws_def model_crates_def hex_dec_hexdigits)

lemma x_notin_hex_enc: "CHR ''x'' \<notin> set (hex_enc b)"
  using hexdigits_hex_enc [of b]
  by (auto simp: list_all_iff is_ascii_hexdigit_def byte_def dest!: bspec)

lemma bech32_laws_model [simp]: "bech32_laws model_crates"
proof -
  have "split_once (CHR ''x'') (hex_enc h @ CHR ''1'' # CHR ''x'' # hex_enc d) =
      Some (hex_enc h @ ''1'', hex_enc d)" for h d
    using split_once_hit [of "CHR ''x''" "hex_enc h @ ''1''" "hex_enc d"]
    by (simp add: x_notin_hex_enc)
  moreover have "plain (CHR ''1'')" and "plain (CHR ''x'')"
    by (simp_all add: plain_def byte_def)
  ultimately show ?thesis
    by (simp add: bech32_laws_def model_crates_def butlast_append hexdigits_plain)
qed

lemma key_laws_model [simp]: "key_laws model_crates"
  by (simp add: key_laws_def model_crates_def)

lemma sign_laws_model [simp]: "sign_laws model_crates"
  by (simp add: sign_laws_def model_crates_def numeral_eq_Suc)

lemma txid_laws_model [simp]: "txid_laws model_crates"
  by (simp add: txid_laws_def model_crates_def)

lemma memo_laws_model [simp]: "memo_laws model_crates"
  by (simp add: memo_laws_def model_crates_def)

end
