(* ===== verification/Wire_Types.thy ===== *)
theory Wire_Types
  imports Prelude
begin

text \<open>
  The types of \<open>protocol/types.rs\<close>: opcodes, writer capabilities, the block flags of a
  \<open>VERSION\<close> memo, and the standardized reasons for which a memo is dropped, with their wire
  tokens. The three enums share one contract between \<open>as_str\<close> and \<open>parse\<close>, the locale
  \<open>wire_enum\<close>; the two set-valued tokens (\<open>Scope\<close>, \<open>BlockSet\<close>) rest on \<open>wire_token\<close>.
\<close>

section \<open>Constants\<close>

definition WIRE_MAGIC :: str where "WIRE_MAGIC = ''ZKV0''"
definition SIGNED_MAGIC :: bytes where "SIGNED_MAGIC = ''ZKV0''"
definition MAGIC_PREFIX :: str where "MAGIC_PREFIX = ''ZKV''"
definition ZKV_VERSION :: u32 where "ZKV_VERSION = 0"
definition GENESIS_DB_VERSION :: u32 where "GENESIS_DB_VERSION = 0"
definition MAX_DB_VERSION :: u32 where "MAX_DB_VERSION = 0"
definition SIG_LEN :: nat where "SIG_LEN = 65"
definition SIG_HEX_LEN :: nat where "SIG_HEX_LEN = SIG_LEN * 2"

section \<open>The contract of an enum on the wire\<close>

locale wire_enum =
  fixes as_str :: "'a \<Rightarrow> str" and parse :: "str \<Rightarrow> 'a option"
  assumes parse_as_str: "parse (as_str x) = Some x"
    and as_str_parse: "parse s = Some x \<Longrightarrow> as_str x = s"
begin

lemma parse_iff: "parse s = Some x \<longleftrightarrow> s = as_str x"
  using parse_as_str as_str_parse by auto

lemma as_str_inject: "as_str x = as_str y \<longleftrightarrow> x = y"
  by (metis parse_as_str option.inject)

lemma parse_None_iff: "parse s = None \<longleftrightarrow> s \<notin> range as_str"
proof (cases "parse s")
  case None
  with parse_as_str show ?thesis by auto
next
  case (Some x)
  with as_str_parse show ?thesis by auto
qed

end

text \<open>A token that may stand in a comma-separated list: not empty, printable, without a comma.\<close>

locale wire_token = wire_enum +
  assumes token_plain: "list_all plain (as_str x)"
    and token_no_comma: "CHR '','' \<notin> set (as_str x)"
    and token_nonempty: "as_str x \<noteq> []"
begin

lemma trim_token: "trim (as_str x) = as_str x"
  by (simp add: token_plain text_simps)

lemma join_plain: "list_all plain (join_with '','' (map as_str xs))"
proof (induction xs)
  case (Cons x xs)
  have "plain CHR '',''" by (simp add: plain_def byte_def)
  with Cons show ?case
    by (cases xs) (auto simp: token_plain)
qed simp

lemma join_nonempty: "xs \<noteq> [] \<Longrightarrow> join_with '','' (map as_str xs) \<noteq> []"
  by (cases xs; cases "tl xs") (auto simp: token_nonempty)

lemma split_join: "xs \<noteq> [] \<Longrightarrow> split_on CHR '','' (join_with '','' (map as_str xs)) = map as_str xs"
  by (rule split_on_join) (auto simp: token_no_comma)

end

section \<open>Opcodes\<close>

datatype op =
  Set | SetL | Del | Init | OwnerAdd | OwnerDel | WriterAdd | WriterDel | Finalize | Version

fun op_as_str :: "op \<Rightarrow> str" where
  "op_as_str Set = ''SET''"
| "op_as_str SetL = ''SETL''"
| "op_as_str Del = ''DEL''"
| "op_as_str Init = ''INIT''"
| "op_as_str OwnerAdd = ''OWNERADD''"
| "op_as_str OwnerDel = ''OWNERDEL''"
| "op_as_str WriterAdd = ''WRITERADD''"
| "op_as_str WriterDel = ''WRITERDEL''"
| "op_as_str Finalize = ''FINALIZE''"
| "op_as_str Version = ''VERSION''"

definition op_parse :: "str \<Rightarrow> op option" where
  "op_parse s =
     (if s = ''SET'' then Some Set
      else if s = ''SETL'' then Some SetL
      else if s = ''DEL'' then Some Del
      else if s = ''INIT'' then Some Init
      else if s = ''OWNERADD'' then Some OwnerAdd
      else if s = ''OWNERDEL'' then Some OwnerDel
      else if s = ''WRITERADD'' then Some WriterAdd
      else if s = ''WRITERDEL'' then Some WriterDel
      else if s = ''FINALIZE'' then Some Finalize
      else if s = ''VERSION'' then Some Version
      else None)"

interpretation op_wire: wire_token op_as_str op_parse
proof unfold_locales
  show "op_parse (op_as_str x) = Some x" for x by (cases x) (simp_all add: op_parse_def)
  show "op_parse s = Some x \<Longrightarrow> op_as_str x = s" for s x
    by (auto simp: op_parse_def split: if_splits)
  show "list_all plain (op_as_str x)" for x by (cases x) (simp_all add: plain_def byte_def)
  show "CHR '','' \<notin> set (op_as_str x)" for x by (cases x) simp_all
  show "op_as_str x \<noteq> []" for x by (cases x) simp_all
qed

fun is_management :: "op \<Rightarrow> bool" where
  "is_management op \<longleftrightarrow> op \<in> {OwnerAdd, OwnerDel, WriterAdd, WriterDel, Finalize}"

fun is_data :: "op \<Rightarrow> bool" where
  "is_data op \<longleftrightarrow> op \<in> {Set, SetL, Del}"

fun is_versioned :: "op \<Rightarrow> bool" where
  "is_versioned op \<longleftrightarrow> op \<in> {Set, SetL, Del, OwnerAdd, OwnerDel, WriterAdd, WriterDel}"

definition set_for_value :: "str \<Rightarrow> op" where
  "set_for_value v = (if v = [] \<or> CHR 0x0A \<in> set v then SetL else Set)"

section \<open>Writer capabilities\<close>

datatype capability = Create | Update | Destroy

fun capability_as_str :: "capability \<Rightarrow> str" where
  "capability_as_str Create = ''CREATE''"
| "capability_as_str Update = ''UPDATE''"
| "capability_as_str Destroy = ''DESTROY''"

definition capability_parse :: "str \<Rightarrow> capability option" where
  "capability_parse s =
     (if s = ''CREATE'' then Some Create
      else if s = ''UPDATE'' then Some Update
      else if s = ''DESTROY'' then Some Destroy
      else None)"

interpretation cap_wire: wire_token capability_as_str capability_parse
proof unfold_locales
  show "capability_parse (capability_as_str x) = Some x" for x
    by (cases x) (simp_all add: capability_parse_def)
  show "capability_parse s = Some x \<Longrightarrow> capability_as_str x = s" for s x
    by (auto simp: capability_parse_def split: if_splits)
  show "list_all plain (capability_as_str x)" for x
    by (cases x) (simp_all add: plain_def byte_def)
  show "CHR '','' \<notin> set (capability_as_str x)" for x by (cases x) simp_all
  show "capability_as_str x \<noteq> []" for x by (cases x) simp_all
qed

text \<open>\<open>derive(Ord)\<close>: declaration order, the iteration order of a \<open>BTreeSet\<close>.\<close>

fun capability_rank :: "capability \<Rightarrow> nat" where
  "capability_rank Create = 0"
| "capability_rank Update = 1"
| "capability_rank Destroy = 2"

lemma capability_rank_inject: "capability_rank a = capability_rank b \<longleftrightarrow> a = b"
  by (cases a; cases b) simp_all

instantiation capability :: linorder
begin

definition less_eq_capability :: "capability \<Rightarrow> capability \<Rightarrow> bool" where
  "less_eq_capability a b \<longleftrightarrow> capability_rank a \<le> capability_rank b"

definition less_capability :: "capability \<Rightarrow> capability \<Rightarrow> bool" where
  "less_capability a b \<longleftrightarrow> capability_rank a < capability_rank b"

instance
  by standard (auto simp: less_eq_capability_def less_capability_def
      simp flip: capability_rank_inject)

end

instantiation capability :: finite
begin

instance
proof
  have "(UNIV :: capability set) = {Create, Update, Destroy}"
    using capability.exhaust by auto
  then show "finite (UNIV :: capability set)" by (metis finite.emptyI finite.insertI)
qed

end

text \<open>A \<open>Scope\<close> is a newtype over \<open>BTreeSet<Capability>\<close>.\<close>

type_synonym scope = "capability set"

definition scope_from_caps :: "capability list \<Rightarrow> scope" where
  "scope_from_caps caps = List.set caps"

fun scope_tokens :: "str list \<Rightarrow> scope \<Rightarrow> scope option" where
  "scope_tokens [] caps = Some caps"
| "scope_tokens (tok # toks) caps =
     (let t = trim tok in
      if t = [] then scope_tokens toks caps
      else (case capability_parse t of
              None \<Rightarrow> None
            | Some c \<Rightarrow> scope_tokens toks (insert c caps)))"

definition scope_parse :: "str \<Rightarrow> scope option" where
  "scope_parse s =
     (case scope_tokens (split_on CHR '','' s) {} of
        None \<Rightarrow> None
      | Some caps \<Rightarrow> if caps = {} then None else Some caps)"

definition scope_to_wire :: "scope \<Rightarrow> str" where
  "scope_to_wire sc = join_with '','' (map capability_as_str (sorted_list_of_set sc))"

definition scope_contains :: "scope \<Rightarrow> capability \<Rightarrow> bool" where
  "scope_contains sc c \<longleftrightarrow> c \<in> sc"

lemma scope_tokens_wire:
  "scope_tokens (map capability_as_str cs) acc = Some (acc \<union> List.set cs)"
  by (induction cs arbitrary: acc)
     (auto simp: cap_wire.trim_token cap_wire.parse_as_str cap_wire.token_nonempty Let_def)

lemma scope_parse_join:
  "cs \<noteq> [] \<Longrightarrow> scope_parse (join_with '','' (map capability_as_str cs)) = Some (List.set cs)"
  by (simp add: scope_parse_def cap_wire.split_join scope_tokens_wire)

lemma scope_parse_nonempty: "scope_parse s = Some sc \<Longrightarrow> sc \<noteq> {}"
  by (auto simp: scope_parse_def split: option.splits if_splits)

lemma scope_parse_to_wire: "sc \<noteq> {} \<Longrightarrow> scope_parse (scope_to_wire sc) = Some sc"
  by (simp add: scope_to_wire_def scope_parse_join)

lemma scope_to_wire_plain: "list_all plain (scope_to_wire sc)"
  by (simp add: scope_to_wire_def cap_wire.join_plain)

lemma scope_to_wire_nonempty: "sc \<noteq> {} \<Longrightarrow> scope_to_wire sc \<noteq> []"
  by (simp add: scope_to_wire_def cap_wire.join_nonempty)

section \<open>Block flags\<close>

datatype block_cap = Sync | Read | Write

fun block_as_str :: "block_cap \<Rightarrow> str" where
  "block_as_str Sync = ''blocksync''"
| "block_as_str Read = ''blockread''"
| "block_as_str Write = ''blockwrite''"

definition block_parse :: "str \<Rightarrow> block_cap option" where
  "block_parse s =
     (if s = ''blocksync'' then Some Sync
      else if s = ''blockread'' then Some Read
      else if s = ''blockwrite'' then Some Write
      else None)"

interpretation block_wire: wire_token block_as_str block_parse
proof unfold_locales
  show "block_parse (block_as_str x) = Some x" for x by (cases x) (simp_all add: block_parse_def)
  show "block_parse s = Some x \<Longrightarrow> block_as_str x = s" for s x
    by (auto simp: block_parse_def split: if_splits)
  show "list_all plain (block_as_str x)" for x by (cases x) (simp_all add: plain_def byte_def)
  show "CHR '','' \<notin> set (block_as_str x)" for x by (cases x) simp_all
  show "block_as_str x \<noteq> []" for x by (cases x) simp_all
qed

fun block_rank :: "block_cap \<Rightarrow> nat" where
  "block_rank Sync = 0"
| "block_rank Read = 1"
| "block_rank Write = 2"

lemma block_rank_inject: "block_rank a = block_rank b \<longleftrightarrow> a = b"
  by (cases a; cases b) simp_all

instantiation block_cap :: linorder
begin

definition less_eq_block_cap :: "block_cap \<Rightarrow> block_cap \<Rightarrow> bool" where
  "less_eq_block_cap a b \<longleftrightarrow> block_rank a \<le> block_rank b"

definition less_block_cap :: "block_cap \<Rightarrow> block_cap \<Rightarrow> bool" where
  "less_block_cap a b \<longleftrightarrow> block_rank a < block_rank b"

instance
  by standard (auto simp: less_eq_block_cap_def less_block_cap_def
      simp flip: block_rank_inject)

end

lemma block_cap_UNIV: "(UNIV :: block_cap set) = {Sync, Read, Write}"
  using block_cap.exhaust by auto

instantiation block_cap :: finite
begin

instance
  by standard (simp add: block_cap_UNIV)

end

type_synonym block_set = "block_cap set"

definition block_set_all :: block_set where
  "block_set_all = {Sync, Read, Write}"

fun block_tokens :: "str list \<Rightarrow> block_set \<Rightarrow> block_set option" where
  "block_tokens [] caps = Some caps"
| "block_tokens (tok # toks) caps =
     (case block_parse (trim tok) of
        None \<Rightarrow> None
      | Some c \<Rightarrow> block_tokens toks (insert c caps))"

definition block_set_parse :: "str \<Rightarrow> block_set option" where
  "block_set_parse s =
     (let t = trim s in
      if t = [] then None
      else if t = ''warn'' then Some {}
      else if t = ''blockall'' then Some block_set_all
      else (case block_tokens (split_on CHR '','' t) {} of
              None \<Rightarrow> None
            | Some caps \<Rightarrow> if caps = {} then None else Some caps))"

definition block_set_to_wire :: "block_set \<Rightarrow> str" where
  "block_set_to_wire bs =
     (if bs = {} then ''warn''
      else if card bs = 3 then ''blockall''
      else join_with '','' (map block_as_str (sorted_list_of_set bs)))"

definition block_set_contains :: "block_set \<Rightarrow> block_cap \<Rightarrow> bool" where
  "block_set_contains bs c \<longleftrightarrow> c \<in> bs"

lemma block_tokens_wire: "block_tokens (map block_as_str cs) acc = Some (acc \<union> List.set cs)"
  by (induction cs arbitrary: acc) (auto simp: block_wire.trim_token block_wire.parse_as_str)

lemma block_join_not_word:
  assumes "cs \<noteq> []"
  shows "join_with '','' (map block_as_str cs) \<noteq> ''warn''"
    and "join_with '','' (map block_as_str cs) \<noteq> ''blockall''"
  using assms by (cases cs; cases "hd cs"; cases "tl cs"; simp)+

lemma block_set_full: "card (bs :: block_set) = 3 \<Longrightarrow> bs = block_set_all"
proof -
  assume "card bs = 3"
  moreover have "card (UNIV :: block_cap set) = 3"
    by (simp add: block_cap_UNIV)
  ultimately have "bs = UNIV"
    by (metis card_subset_eq finite subset_UNIV)
  then show ?thesis by (simp add: block_set_all_def block_cap_UNIV)
qed

lemma block_set_parse_to_wire: "block_set_parse (block_set_to_wire bs) = Some bs"
proof (cases "bs = {} \<or> card bs = 3")
  case True
  then show ?thesis
    using block_set_full [of bs]
    by (auto simp: block_set_parse_def block_set_to_wire_def trim_plain plain_def byte_def
        block_set_all_def)
next
  case False
  then have ne: "sorted_list_of_set bs \<noteq> []" by simp
  with False block_join_not_word [OF ne] show ?thesis
    by (simp add: block_set_parse_def block_set_to_wire_def trim_plain block_wire.join_plain
        block_wire.split_join block_tokens_wire block_wire.join_nonempty)
qed

section \<open>Authority, and why a memo is dropped\<close>

datatype authority = Owner | Writer scope

datatype memo_format =
  UnknownOpcode | EmptyKey | ControlCharInKey | WrongArity op | MissingValue | MissingScope
| MissingVersionFlag | MissingSignature | BadSignatureFraming | SetlNonNumericLength
| SetlLengthOverrun | SetlMissingSeparator | SetlValueNotUtf8 | SetlCollapsedUnsupported

fun memo_format_str :: "memo_format \<Rightarrow> str" where
  "memo_format_str UnknownOpcode = ''unknown opcode''"
| "memo_format_str EmptyKey = ''empty key''"
| "memo_format_str ControlCharInKey = ''key contains a control character''"
| "memo_format_str (WrongArity op) = ''wrong number of parameters for '' @ op_as_str op"
| "memo_format_str MissingValue = ''SET requires a non-empty value''"
| "memo_format_str MissingScope = ''WRITERADD requires a scope''"
| "memo_format_str MissingVersionFlag = ''VERSION requires block flags''"
| "memo_format_str MissingSignature = ''missing signature''"
| "memo_format_str BadSignatureFraming = ''signature not 130 hex chars''"
| "memo_format_str SetlNonNumericLength = ''SETL length is not a number''"
| "memo_format_str SetlLengthOverrun = ''SETL length runs past the value into the signature''"
| "memo_format_str SetlMissingSeparator = ''SETL value not followed by a newline''"
| "memo_format_str SetlValueNotUtf8 = ''SETL value is not valid UTF-8''"
| "memo_format_str SetlCollapsedUnsupported =
     ''SETL cannot be recovered from a newline-collapsed memo''"

datatype drop_reason =
  MalformedMemo memo_format | BadSignature | DropUnsupportedVersion u32 | ForgedInit
| InitAddressInvalid | InitNetworkMismatch | InitAddressMismatch | DuplicateInit
| NotInitialized | NoWriteAuthority | StaleVersion | OutOfScope capability | NotOwner
| LastOwnerProtected | WriterTargetIsOwner | InvalidTargetPubkey | InvalidScope | Finalized
| VersionNotNumeric | VersionBadFlag | VersionBelowGenesis | VersionNoOp
| VersionJumpTooLarge u32 u32

fun is_signature_failure :: "drop_reason \<Rightarrow> bool" where
  "is_signature_failure (MalformedMemo f) = True"
| "is_signature_failure BadSignature = True"
| "is_signature_failure (DropUnsupportedVersion v) = True"
| "is_signature_failure r = False"

section \<open>Properties of the wire tokens\<close>

text \<open>
  A scope printed by \<open>Scope::to_wire\<close> (canonical order, comma-joined) is read back by
  \<open>Scope::parse\<close> as the same set of capabilities, and every string \<open>Scope::parse\<close> accepts
  denotes a non-empty scope whose canonical form parses to the same scope again.
\<close>

lemma scope_wire_roundtrip:
  "(sc \<noteq> {} \<longrightarrow> scope_parse (scope_to_wire sc) = Some sc) \<and>
   (scope_parse s = Some sc' \<longrightarrow> sc' \<noteq> {} \<and> scope_parse (scope_to_wire sc') = Some sc')"
  using scope_parse_to_wire scope_parse_nonempty by blast

lemma scope_wire_roundtrip_witness:
  "scope_parse '' UPDATE ,,CREATE'' = Some {Create, Update} \<and>
   scope_parse (scope_to_wire {Create, Update}) = Some {Create, Update}"
proof -
  have "trim '' UPDATE '' = ''UPDATE''" and "trim [] = []" and "trim ''CREATE'' = ''CREATE''"
    by (simp_all add: trim_def trim_start_def trim_end_def scalar_width_def byte_def
        is_whitespace_def whitespace_scalars_def)
  then have p: "scope_parse '' UPDATE ,,CREATE'' = Some {Create, Update}"
    by (simp add: scope_parse_def capability_parse_def)
  with scope_wire_roundtrip [of "{Create, Update}" "'' UPDATE ,,CREATE''" "{Create, Update}"]
  show ?thesis by simp
qed

text \<open>
  Every block set, the empty one (\<open>warn\<close>) and the full one (\<open>blockall\<close>) included, is
  read back by \<open>BlockSet::parse\<close> from the canonical token \<open>BlockSet::to_wire\<close> prints.
\<close>

lemma block_set_wire_roundtrip: "block_set_parse (block_set_to_wire bs) = Some bs"
  by (rule block_set_parse_to_wire)

text \<open>
  Opcodes and wire tokens are in bijection: \<open>Op::parse\<close> accepts exactly the ten tokens
  \<open>Op::as_str\<close> prints, each as the opcode that prints it (so a signature over one opcode string
  names one opcode).
\<close>

lemma op_wire_bijection:
  "(op_parse s = Some x \<longleftrightarrow> s = op_as_str x) \<and>
   (op_parse s = None \<longleftrightarrow> s \<notin> range op_as_str) \<and>
   (op_as_str x = op_as_str y \<longleftrightarrow> x = y)"
  using op_wire.parse_iff op_wire.parse_None_iff op_wire.as_str_inject by blast

end
