(* ===== verification/Signing.thy ===== *)
theory Signing
  imports Wire_Types Crates
begin

text \<open>
  \<open>protocol/sign.rs\<close>: the bytes a signature covers, the signature line that carries the
  replay-protection sequence, recoverable signatures, and the canonical \<open>zkvid1...\<close> form of a
  public key. The parsed command and the parse error of \<open>protocol/memo.rs\<close> come first, because
  \<open>payload_for\<close> and \<open>parse_sig_line\<close> mention them.
\<close>

section \<open>The parsed command\<close>

record zkv_command =
  cmd_op :: op
  cmd_key :: str
  cmd_value :: "str option"
  cmd_seq :: u64
  cmd_sig_hex :: str
  cmd_comment :: "str option"

datatype memo_reject = NotZkv | Malformed memo_format | UnsupportedVersion u32

section \<open>The signed payload\<close>

definition NUL :: char where "NUL = CHR 0x00"

definition signed_payload :: "str \<Rightarrow> op \<Rightarrow> str \<Rightarrow> str option \<Rightarrow> bytes" where
  "signed_payload domain op key value =
     SIGNED_MAGIC @ [NUL] @ domain @ [NUL] @ op_as_str op @ [NUL] @ key @ [NUL] @
     unwrap_or value []"

definition VERSION_WINDOW :: u64 where "VERSION_WINDOW = 256"

definition signing_domain :: "str \<Rightarrow> op \<Rightarrow> u64 \<Rightarrow> str" where
  "signing_domain receiver op seq =
     (case op of
        Set \<Rightarrow> receiver @ '':'' @ dec (unat seq)
      | SetL \<Rightarrow> receiver @ '':'' @ dec (unat seq)
      | Del \<Rightarrow> receiver @ '':'' @ dec (unat seq)
      | OwnerAdd \<Rightarrow> receiver @ '':'' @ dec (unat seq)
      | OwnerDel \<Rightarrow> receiver @ '':'' @ dec (unat seq)
      | WriterAdd \<Rightarrow> receiver @ '':'' @ dec (unat seq)
      | WriterDel \<Rightarrow> receiver @ '':'' @ dec (unat seq)
      | Init \<Rightarrow> receiver | Version \<Rightarrow> receiver | Finalize \<Rightarrow> receiver)"

definition bind_comment :: "('pk, 'sk) crates \<Rightarrow> str \<Rightarrow> str option \<Rightarrow> str" where
  "bind_comment E domain comment =
     (case comment of
        None \<Rightarrow> domain
      | Some c \<Rightarrow> domain @ '':c='' @ hex_encode E (sha256 E c))"

definition payload_for :: "('pk, 'sk) crates \<Rightarrow> str \<Rightarrow> zkv_command \<Rightarrow> bytes" where
  "payload_for E receiver cmd =
     (if cmd_op cmd = Init
      then signed_payload (bind_comment E receiver (cmd_comment cmd)) Init [] None
      else signed_payload
             (bind_comment E (signing_domain receiver (cmd_op cmd) (cmd_seq cmd))
                (cmd_comment cmd))
             (cmd_op cmd) (cmd_key cmd) (cmd_value cmd))"

lemma signing_domain_versioned:
  "signing_domain receiver op seq =
     (if is_versioned op then receiver @ '':'' @ dec (unat seq) else receiver)"
  by (cases op) (simp_all add: signing_domain_def)

text \<open>Two texts cut at a separator that neither head contains agree piece by piece.\<close>

lemma sep_cancel:
  fixes d :: char
  assumes "d \<notin> set a" and "d \<notin> set a'"
  shows "a @ d # b = a' @ d # b' \<longleftrightarrow> a = a' \<and> b = b'"
proof
  assume "a @ d # b = a' @ d # b'"
  then have "split_once d (a @ d # b) = split_once d (a' @ d # b')"
    by (rule arg_cong)
  then show "a = a' \<and> b = b'"
    by (simp only: split_once_hit [OF assms(1)] split_once_hit [OF assms(2)]) simp
qed simp

lemma NUL_op [simp]: "NUL \<notin> set (op_as_str op)"
  by (cases op) (simp_all add: NUL_def)

lemma signed_payload_inject:
  assumes "NUL \<notin> set d" and "NUL \<notin> set d'" and "NUL \<notin> set k" and "NUL \<notin> set k'"
  shows "signed_payload d x k v = signed_payload d' x' k' v' \<longleftrightarrow>
         d = d' \<and> x = x' \<and> k = k' \<and> unwrap_or v [] = unwrap_or v' []"
  using assms
  by (simp add: signed_payload_def sep_cancel op_wire.as_str_inject)

section \<open>The signature line\<close>

definition MAX_SEQ_BYTES :: nat where "MAX_SEQ_BYTES = 8"

text \<open>\<open>u64::to_be_bytes\<close>, and the fold that reads big-endian bytes back.\<close>

definition be_bytes :: "u64 \<Rightarrow> bytes" where
  "be_bytes seq = map (\<lambda>i. char_of (unat (drop_bit (8 * i) seq))) (rev [0..<MAX_SEQ_BYTES])"

definition be_fold :: "bytes \<Rightarrow> u64" where
  "be_fold bs = foldl (\<lambda>acc b. push_bit 8 acc OR of_nat (byte b)) 0 bs"

definition encode_sig_line :: "('pk, 'sk) crates \<Rightarrow> u64 \<Rightarrow> str \<Rightarrow> str" where
  "encode_sig_line E seq sig_hex =
     (if seq = 0 then sig_hex
      else hex_encode E (dropWhile (\<lambda>b. byte b = 0) (be_bytes seq)) @ sig_hex)"

definition parse_sig_line :: "('pk, 'sk) crates \<Rightarrow> str \<Rightarrow> memo_reject + (u64 \<times> str)" where
  "parse_sig_line E tok0 =
     (let tok = trim tok0; n = length tok - SIG_HEX_LEN in
      if length tok < SIG_HEX_LEN \<or> odd (length tok) \<or> \<not> list_all is_ascii_hexdigit tok
      then Err (Malformed BadSignatureFraming)
      else if take n tok = [] then Ok (0, drop n tok)
      else (case hex_decode E (take n tok) of
              None \<Rightarrow> Err (Malformed BadSignatureFraming)
            | Some bs \<Rightarrow>
                if (bs \<noteq> [] \<and> byte (hd bs) = 0) \<or> MAX_SEQ_BYTES < length bs
                then Err (Malformed BadSignatureFraming)
                else Ok (be_fold bs, drop n tok)))"

lemma push_or_eq: "b < 256 \<Longrightarrow> push_bit 8 (acc :: u64) OR of_nat b = acc * 256 + of_nat b"
proof -
  assume b: "b < 256"
  have "push_bit 8 acc AND of_nat b = 0"
  proof (rule bit_eqI)
    fix n
    show "bit (push_bit 8 acc AND of_nat b) n = bit (0 :: u64) n"
    proof (cases "n < 8")
      case True
      then show ?thesis by (simp add: bit_simps)
    next
      case False
      then have "256 \<le> (2 :: nat) ^ n"
        using power_increasing [of 8 n "2 :: nat"] by simp
      with b have "b < 2 ^ n" by linarith
      then have "\<not> bit b n" by (simp add: bit_iff_odd)
      then show ?thesis by (simp add: bit_simps)
    qed
  qed
  then have "push_bit 8 acc OR of_nat b = push_bit 8 acc + of_nat b"
    by (simp add: disjunctive_add_eq_or)
  then show ?thesis by (simp add: push_bit_eq_mult)
qed

lemma be_fold_nat: "be_fold bs = of_nat (foldl (\<lambda>a b. a * 256 + byte b) 0 bs)"
proof -
  have "foldl (\<lambda>acc b. push_bit 8 acc OR of_nat (byte b)) (of_nat a :: u64) bs =
        of_nat (foldl (\<lambda>a b. a * 256 + byte b) a bs)" for a
  proof (induction bs arbitrary: a)
    case (Cons b bs)
    have "push_bit 8 (of_nat a :: u64) OR of_nat (byte b) = of_nat (a * 256 + byte b)"
      by (simp add: push_or_eq)
    then show ?case by (simp only: foldl_Cons Cons)
  qed simp
  from this [of 0] show ?thesis by (simp add: be_fold_def)
qed

lemma foldl_base256:
  "foldl (\<lambda>a b. a * 256 + byte b) a (map (\<lambda>i. char_of (n div 256 ^ i)) (rev [0..<k])) =
   a * 256 ^ k + n mod 256 ^ k"
proof (induction k arbitrary: a)
  case (Suc k)
  have b: "byte (char_of (n div 256 ^ k)) = n div 256 ^ k mod 256"
    by (simp add: byte_def)
  have m: "n mod 256 ^ Suc k = n div 256 ^ k mod 256 * 256 ^ k + n mod 256 ^ k"
    using mod_mult2_eq [of n "256 ^ k" 256] by (simp only: power_Suc2 mult.commute)
  show ?case
    unfolding m by (simp add: Suc b) (simp add: algebra_simps)
qed simp

lemma be_bytes_nat: "be_bytes seq = map (\<lambda>i. char_of (unat seq div 256 ^ i)) (rev [0..<8])"
proof -
  have "unat (drop_bit (8 * i) seq) = unat seq div 256 ^ i" for i
  proof -
    have "unat (drop_bit (8 * i) seq) = drop_bit (8 * i) (unat seq)"
      by (rule unat_drop_bit_eq)
    also have "\<dots> = unat seq div 2 ^ (8 * i)"
      by (rule drop_bit_eq_div)
    finally show ?thesis by (simp add: power_mult)
  qed
  then show ?thesis by (simp only: be_bytes_def MAX_SEQ_BYTES_def)
qed

lemma length_be_bytes [simp]: "length (be_bytes seq) = 8"
  by (simp add: be_bytes_def MAX_SEQ_BYTES_def)

lemma be_fold_be_bytes: "be_fold (be_bytes seq) = seq"
proof -
  have "unat seq mod 256 ^ 8 = unat seq"
    using unsigned_less [of seq, where ?'a = nat] by simp
  then show ?thesis
    using foldl_base256 [of 0 "unat seq" 8] by (simp only: be_fold_nat be_bytes_nat) simp
qed

lemma be_fold_strip: "be_fold (dropWhile (\<lambda>b. byte b = 0) bs) = be_fold bs"
  by (induction bs) (simp_all add: be_fold_nat)

lemma stripped_nonempty: "seq \<noteq> 0 \<Longrightarrow> dropWhile (\<lambda>b. byte b = 0) (be_bytes seq) \<noteq> []"
  using be_fold_strip [of "be_bytes seq"] be_fold_be_bytes [of seq]
  by (auto simp: be_fold_def simp del: dropWhile_eq_Nil_conv)

lemma hd_stripped:
  "dropWhile (\<lambda>b. byte b = 0) bs \<noteq> [] \<Longrightarrow> byte (hd (dropWhile (\<lambda>b. byte b = 0) bs)) \<noteq> 0"
  by (rule hd_dropWhile)

lemma encode_sig_line_hexdigits:
  "hex_laws E \<Longrightarrow> list_all is_ascii_hexdigit sig \<Longrightarrow>
   list_all is_ascii_hexdigit (encode_sig_line E seq sig)"
  by (simp add: encode_sig_line_def)

lemma encode_sig_line_nonempty: "sig \<noteq> [] \<Longrightarrow> encode_sig_line E seq sig \<noteq> []"
  by (simp add: encode_sig_line_def)

lemma parse_encode_sig_line:
  assumes E: "hex_laws E" and hex: "list_all is_ascii_hexdigit sig"
    and len: "length sig = SIG_HEX_LEN"
  shows "parse_sig_line E (encode_sig_line E seq sig) = Ok (seq, sig)"
proof -
  let ?be = "dropWhile (\<lambda>b. byte b = 0) (be_bytes seq)"
  have t: "trim (encode_sig_line E seq sig) = encode_sig_line E seq sig"
    using encode_sig_line_hexdigits [OF E hex] by (simp add: hexdigits_plain text_simps)
  have le: "length ?be \<le> 8"
    using length_dropWhile_le [of "\<lambda>b. byte b = 0" "be_bytes seq"] by simp
  show ?thesis
  proof (cases "seq = 0")
    case True
    with t hex len show ?thesis
      by (simp add: parse_sig_line_def encode_sig_line_def SIG_HEX_LEN_def SIG_LEN_def)
  next
    case False
    from stripped_nonempty [OF False] have ne: "?be \<noteq> []" .
    then have "hex_encode E ?be \<noteq> []"
      using length_hex_encode [OF E, of ?be] by auto
    with t hex len le False ne hd_stripped [OF ne] E show ?thesis
      by (simp add: parse_sig_line_def encode_sig_line_def Let_def SIG_HEX_LEN_def SIG_LEN_def
          MAX_SEQ_BYTES_def be_fold_strip be_fold_be_bytes del: dropWhile_eq_Nil_conv)
  qed
qed

lemma parse_sig_line_Ok:
  assumes "parse_sig_line E tok = Ok (seq, sig)"
  shows "length sig = SIG_HEX_LEN \<and> list_all is_ascii_hexdigit sig"
  using assms
  by (auto simp: parse_sig_line_def Let_def list_all_iff dest: in_set_dropD
      split: if_splits option.splits)

section \<open>Recoverable signatures\<close>

definition sign_command :: "('pk, 'sk) crates \<Rightarrow> 'sk \<Rightarrow> bytes \<Rightarrow> bytes" where
  "sign_command E sk payload =
     (let (compact, recid) = ecdsa_sign E sk (sha256 E payload) in compact @ [char_of recid])"

definition recover_signer :: "('pk, 'sk) crates \<Rightarrow> bytes \<Rightarrow> str \<Rightarrow> 'pk option" where
  "recover_signer E payload sig_hex =
     (case hex_decode E sig_hex of
        None \<Rightarrow> None
      | Some sig \<Rightarrow>
          if length sig \<noteq> SIG_LEN then None
          else ecdsa_recover E (sha256 E payload) (take 64 sig) (byte (sig ! 64)))"

definition verify_command :: "('pk, 'sk) crates \<Rightarrow> 'pk \<Rightarrow> bytes \<Rightarrow> str \<Rightarrow> bool" where
  "verify_command E pk payload sig_hex \<longleftrightarrow> recover_signer E payload sig_hex = Some pk"

lemma sign_lawsD:
  assumes "sign_laws E" and "ecdsa_sign E sk d = (c, r)"
  shows "length c = 64" and "r < 4" and "ecdsa_recover E d c r = Some (pk_of_sk E sk)"
  using assms(1) [unfolded sign_laws_def, THEN spec, THEN spec, of sk d] assms(2) by simp_all

lemma length_sign_command: "sign_laws E \<Longrightarrow> length (sign_command E sk payload) = SIG_LEN"
  by (auto simp: sign_command_def SIG_LEN_def sign_lawsD(1) split: prod.splits)

lemma recover_sign:
  assumes "hex_laws E" and "sign_laws E"
  shows "recover_signer E p (hex_encode E (sign_command E sk p)) = Some (pk_of_sk E sk)"
proof -
  obtain c r where s: "ecdsa_sign E sk (sha256 E p) = (c, r)" by force
  note d = sign_lawsD [OF assms(2) s]
  from d(1) have n: "(c @ [char_of r]) ! 64 = char_of r" and t: "take 64 (c @ [char_of r]) = c"
    by (simp_all add: nth_append)
  from d(2) have b: "byte (char_of r) = r" by (simp add: byte_def)
  have "sign_command E sk p = c @ [char_of r]"
    by (simp add: sign_command_def s)
  then show ?thesis
    using d(1) by (simp add: recover_signer_def assms(1) SIG_LEN_def n b d(3) del: nth_append_length)
qed

section \<open>Public keys\<close>

definition PUBKEY_HRP :: str where "PUBKEY_HRP = ''zkvid''"

definition pubkey_bech32 :: "('pk, 'sk) crates \<Rightarrow> 'pk \<Rightarrow> str" where
  "pubkey_bech32 E pk = bech32m_encode E PUBKEY_HRP (pk_serialize E pk)"

definition parse_pubkey :: "('pk, 'sk) crates \<Rightarrow> str \<Rightarrow> 'pk option" where
  "parse_pubkey E s =
     (case bech32m_checked E s of
        Some (hrp, data) \<Rightarrow> if hrp = PUBKEY_HRP then pk_from_slice E data else pk_from_str E s
      | None \<Rightarrow> pk_from_str E s)"

definition canonical_pubkey :: "('pk, 'sk) crates \<Rightarrow> str \<Rightarrow> str option" where
  "canonical_pubkey E s = map_option (pubkey_bech32 E) (parse_pubkey E s)"

lemma parse_pubkey_bech32:
  "bech32_laws E \<Longrightarrow> key_laws E \<Longrightarrow> parse_pubkey E (pubkey_bech32 E pk) = Some pk"
  by (simp add: parse_pubkey_def pubkey_bech32_def bech32_laws_def key_laws_def)

lemma canonical_pubkey_bech32 [simp]:
  "bech32_laws E \<Longrightarrow> key_laws E \<Longrightarrow>
   canonical_pubkey E (pubkey_bech32 E pk) = Some (pubkey_bech32 E pk)"
  by (simp add: canonical_pubkey_def parse_pubkey_bech32)

lemma canonical_pubkey_idem:
  "bech32_laws E \<Longrightarrow> key_laws E \<Longrightarrow> canonical_pubkey E s = Some t \<Longrightarrow> canonical_pubkey E t = Some t"
  by (auto simp: canonical_pubkey_def parse_pubkey_bech32)

lemma pubkey_bech32_inject:
  assumes "bech32_laws E" and "key_laws E"
  shows "pubkey_bech32 E a = pubkey_bech32 E b \<longleftrightarrow> a = b"
  by (metis parse_pubkey_bech32 [OF assms] option.inject)

lemma pubkey_bech32_plain:
  "bech32_laws E \<Longrightarrow> list_all plain (pubkey_bech32 E pk) \<and> pubkey_bech32 E pk \<noteq> []"
  by (simp add: bech32_laws_def pubkey_bech32_def PUBKEY_HRP_def plain_def byte_def)

section \<open>Properties of the signing layer\<close>

text \<open>
  The signature line is a lossless, self-delimiting encoding: for every 64-bit sequence and
  every 130-digit signature, \<open>parse_sig_line\<close> reads back exactly what \<open>encode_sig_line\<close> wrote.
\<close>

lemma sig_line_roundtrip:
  assumes "hex_laws E" and "list_all is_ascii_hexdigit sig" and "length sig = SIG_HEX_LEN"
  shows "parse_sig_line E (encode_sig_line E seq sig) = Ok (seq, sig)"
  using assms by (rule parse_encode_sig_line)

lemma sig_line_roundtrip_witness:
  "parse_sig_line model_crates (encode_sig_line model_crates 256 (replicate 130 CHR ''a''))
     = Ok (256, replicate 130 CHR ''a'')"
  by (rule sig_line_roundtrip)
     (simp_all add: SIG_HEX_LEN_def SIG_LEN_def list_all_iff is_ascii_hexdigit_def byte_def)

text \<open>
  The canonical signed bytes are injective across their NUL-delimited fields: over domains and
  keys free of NUL, two payloads are equal only if domain, opcode and key are equal and the values
  are the same bytes. One signature cannot be re-split into another command.
\<close>

lemma signed_payload_injective:
  assumes "NUL \<notin> set d" and "NUL \<notin> set d'" and "NUL \<notin> set k" and "NUL \<notin> set k'"
    and "signed_payload d x k v = signed_payload d' x' k' v'"
  shows "d = d' \<and> x = x' \<and> k = k' \<and> unwrap_or v [] = unwrap_or v' []"
  using assms(5) unfolding signed_payload_inject [OF assms(1-4)] .

lemma signed_payload_injective_witness:
  "NUL \<notin> set ''main:ab:0'' \<and> signed_payload ''main:ab:0'' Set ''k'' (Some ''v'')
     \<noteq> signed_payload ''main:ab:0'' SetL ''k'' (Some ''v'')"
  using signed_payload_injective [of "''main:ab:0''" "''main:ab:0''" "''k''" "''k''" Set
      "Some ''v''" SetL "Some ''v''"]
  by (auto simp: NUL_def)

text \<open>
  A signature made by \<open>sign_command\<close> over a payload is recovered from its hex form by
  \<open>recover_signer\<close> as the signer's own public key, and the canonical \<open>zkvid1...\<close> form of that key
  parses back to the key: the registry string computed for a signer is the one it is known by.
\<close>

lemma recover_sign_canonical:
  assumes "hex_laws E" and "sign_laws E" and "bech32_laws E" and "key_laws E"
  shows "recover_signer E p (hex_encode E (sign_command E sk p)) = Some (pk_of_sk E sk) \<and>
         canonical_pubkey E (pubkey_bech32 E (pk_of_sk E sk)) =
           Some (pubkey_bech32 E (pk_of_sk E sk))"
  using assms by (simp_all add: recover_sign)

lemma recover_sign_canonical_witness:
  "recover_signer model_crates ''x'' (hex_encode model_crates
     (sign_command model_crates CHR ''A'' ''x'')) = Some CHR ''A''"
proof -
  have "pk_of_sk model_crates CHR ''A'' = CHR ''A''" by (simp add: model_crates_def)
  with recover_sign_canonical [of model_crates "''x''" "CHR ''A''"] show ?thesis by simp
qed

end
