(* ===== verification/Auth_Registry.thy ===== *)
theory Auth_Registry
  imports Signing
begin

text \<open>
  \<open>protocol/auth.rs\<close>: the owner/writer registry, the authorization of data operations and the
  registry mutation of a confirmed management operation. \<open>apply_management\<close> returns the registry
  next to its result, because the Rust method mutates \<open>self\<close> and reports a policy no-op as an
  error. The invariant \<open>auth_wf\<close> is what \<open>BTreeSet\<close> and \<open>BTreeMap\<close> give (finiteness) and what
  the methods keep: no key is both owner and writer, and no writer has an empty scope.
\<close>

record auth_registry =
  owners :: "str set"
  writers :: "str \<rightharpoonup> scope"

definition empty_auth :: auth_registry where
  "empty_auth = \<lparr>owners = {}, writers = Map.empty\<rparr>"

definition is_owner :: "auth_registry \<Rightarrow> str \<Rightarrow> bool" where
  "is_owner a pk \<longleftrightarrow> pk \<in> owners a"

definition authority_of :: "auth_registry \<Rightarrow> str \<Rightarrow> authority option" where
  "authority_of a pk = (if pk \<in> owners a then Some Owner else map_option Writer (writers a pk))"

definition authorize :: "auth_registry \<Rightarrow> str \<Rightarrow> op \<Rightarrow> bool \<Rightarrow> drop_reason + unit" where
  "authorize a signer op key_exists =
     (case authority_of a signer of
        Some Owner \<Rightarrow> Ok ()
      | Some (Writer scope) \<Rightarrow>
          (if op = Set \<or> op = SetL then
             (let cap = (if key_exists then Update else Create) in
              if scope_contains scope cap then Ok () else Err (OutOfScope cap))
           else if op = Del then
             (if scope_contains scope Destroy then Ok () else Err (OutOfScope Destroy))
           else Err NoWriteAuthority)
      | None \<Rightarrow> Err NoWriteAuthority)"

definition may_write :: "auth_registry \<Rightarrow> str \<Rightarrow> op \<Rightarrow> bool \<Rightarrow> bool" where
  "may_write a signer op key_exists \<longleftrightarrow> authorize a signer op key_exists = Ok ()"

definition insert_owner :: "str \<Rightarrow> auth_registry \<Rightarrow> auth_registry" where
  "insert_owner pk a = a\<lparr>writers := (writers a)(pk := None), owners := insert pk (owners a)\<rparr>"

definition apply_management ::
    "('pk, 'sk) crates \<Rightarrow> op \<Rightarrow> str \<Rightarrow> str option \<Rightarrow> auth_registry \<Rightarrow>
     auth_registry \<times> (drop_reason + unit)" where
  "apply_management E op target0 value a =
     (case canonical_pubkey E target0 of
        None \<Rightarrow> (a, Err InvalidTargetPubkey)
      | Some target \<Rightarrow>
          (case op of
             OwnerAdd \<Rightarrow> (insert_owner target a, Ok ())
           | OwnerDel \<Rightarrow>
               (if card (owners a) \<le> 1 then
                  (if target \<in> owners a then (a, Err LastOwnerProtected) else (a, Ok ()))
                else (a\<lparr>owners := owners a - {target}\<rparr>, Ok ()))
           | WriterAdd \<Rightarrow>
               (case Option.bind value scope_parse of
                  None \<Rightarrow> (a, Err InvalidScope)
                | Some scope \<Rightarrow>
                    if target \<in> owners a then (a, Err WriterTargetIsOwner)
                    else (a\<lparr>writers := (writers a)(target \<mapsto> scope)\<rparr>, Ok ()))
           | WriterDel \<Rightarrow> (a\<lparr>writers := (writers a)(target := None)\<rparr>, Ok ())
           | _ \<Rightarrow> (a, Ok ())))"

section \<open>The registry invariant\<close>

definition auth_wf :: "auth_registry \<Rightarrow> bool" where
  "auth_wf a \<longleftrightarrow>
     finite (owners a) \<and> finite (dom (writers a)) \<and> owners a \<inter> dom (writers a) = {} \<and>
     {} \<notin> ran (writers a)"

text \<open>Every identity in the registry is in canonical form.\<close>

definition auth_canonical :: "('pk, 'sk) crates \<Rightarrow> auth_registry \<Rightarrow> bool" where
  "auth_canonical E a \<longleftrightarrow>
     (\<forall>pk \<in> owners a \<union> dom (writers a). canonical_pubkey E pk = Some pk)"

lemma auth_wf_empty [simp]: "auth_wf empty_auth"
  by (simp add: auth_wf_def empty_auth_def)

lemma auth_wf_insert_owner: "auth_wf a \<Longrightarrow> auth_wf (insert_owner pk a)"
  by (auto simp: auth_wf_def insert_owner_def ran_def)

lemma owners_insert_owner [simp]: "owners (insert_owner pk a) = insert pk (owners a)"
  by (simp add: insert_owner_def)

lemma writers_insert_owner [simp]: "writers (insert_owner pk a) = (writers a)(pk := None)"
  by (simp add: insert_owner_def)

lemma apply_management_Err:
  "apply_management E op target value a = (a', Err r) \<Longrightarrow> a' = a"
  by (auto simp: apply_management_def split: option.splits op.splits if_splits)

lemma auth_wf_apply_management:
  "auth_wf a \<Longrightarrow> auth_wf (fst (apply_management E op target value a))"
  by (auto simp: apply_management_def auth_wf_insert_owner auth_wf_def ran_def bind_eq_Some_conv
      dest: scope_parse_nonempty split: option.splits op.splits if_splits)

lemma owners_apply_management_nonempty:
  assumes "owners a \<noteq> {}" and "finite (owners a)"
  shows "owners (fst (apply_management E op target value a)) \<noteq> {}"
proof -
  have "owners a - {t} \<noteq> {}" if "\<not> card (owners a) \<le> 1" for t
  proof
    assume "owners a - {t} = {}"
    then have "owners a \<subseteq> {t}" by auto
    then have "card (owners a) \<le> card {t}" by (rule card_mono [rotated]) simp
    with that show False by simp
  qed
  with assms show ?thesis
    by (auto simp: apply_management_def split: option.splits op.splits if_splits)
qed

lemma canonical_apply_management:
  assumes "bech32_laws E" and "key_laws E" and "auth_canonical E a"
  shows "auth_canonical E (fst (apply_management E op target value a))"
  using assms canonical_pubkey_idem [OF assms(1,2)]
  by (auto simp: apply_management_def auth_canonical_def insert_owner_def
      split: option.splits op.splits if_splits)

lemma authorize_owner [simp]: "signer \<in> owners a \<Longrightarrow> authorize a signer op e = Ok ()"
  by (simp add: authorize_def authority_of_def)

text \<open>What a data operation needs: the abstract access-control rule.\<close>

fun required_capability :: "op \<Rightarrow> bool \<Rightarrow> capability" where
  "required_capability Del key_exists = Destroy"
| "required_capability op key_exists = (if key_exists then Update else Create)"

definition holds_capability :: "auth_registry \<Rightarrow> str \<Rightarrow> capability \<Rightarrow> bool" where
  "holds_capability a signer cap \<longleftrightarrow>
     signer \<in> owners a \<or> (\<exists>scope. writers a signer = Some scope \<and> cap \<in> scope)"

lemma authorize_data_iff:
  assumes "is_data op"
  shows "authorize a signer op e = Ok () \<longleftrightarrow>
         holds_capability a signer (required_capability op e)"
  using assms
  by (auto simp: authorize_def authority_of_def holds_capability_def scope_contains_def Let_def
      split: option.splits)

section \<open>Properties of the registry\<close>

text \<open>
  C14. No management operation ever leaves the registry ownerless or ill-formed: from a
  well-formed registry with an owner, whatever the opcode, target and value, the result is
  well-formed and has an owner, and an operation reported as an error changes nothing.
\<close>

theorem management_keeps_owner:
  assumes "auth_wf a" and "owners a \<noteq> {}"
    and "apply_management E op target value a = (a', r)"
  shows "auth_wf a' \<and> owners a' \<noteq> {} \<and> (r \<noteq> Ok () \<longrightarrow> a' = a)"
proof -
  have "auth_wf a'" and "owners a' \<noteq> {}"
    using assms auth_wf_apply_management [of a E op target "value"]
      owners_apply_management_nonempty [of a E op target "value"]
    by (auto simp: auth_wf_def)
  moreover have "a' = a" if "r \<noteq> Ok ()"
    using that assms(3) apply_management_Err [of E op target "value" a a'] by (cases r) auto
  ultimately show ?thesis by blast
qed

theorem management_keeps_owner_witness:
  "apply_management model_crates OwnerDel ''41'' None (insert_owner (pubkey_bech32 model_crates CHR ''A'') empty_auth)
     = (insert_owner (pubkey_bech32 model_crates CHR ''A'') empty_auth, Err LastOwnerProtected) \<and>
   owners (insert_owner (pubkey_bech32 model_crates CHR ''A'') empty_auth) \<noteq> {}"
proof -
  let ?a = "insert_owner (pubkey_bech32 model_crates CHR ''A'') empty_auth"
  have "hex_dec ''41'' = Some ''A''"
    by (simp add: hex_value_def byte_def char_of_eq_iff)
  then have "canonical_pubkey model_crates ''41'' = Some (pubkey_bech32 model_crates CHR ''A'')"
    by (simp add: canonical_pubkey_def parse_pubkey_def model_crates_def)
  then have m: "apply_management model_crates OwnerDel ''41'' None ?a = (?a, Err LastOwnerProtected)"
    by (simp add: apply_management_def empty_auth_def)
  have "auth_wf ?a" and "owners ?a \<noteq> {}"
    by (simp_all add: auth_wf_insert_owner)
  from management_keeps_owner [OF this m] m show ?thesis by simp
qed

text \<open>
  \<open>AuthRegistry::authorize\<close> implements the access-control rule exactly: for a data operation it
  returns \<open>Ok\<close> if and only if the signer is an owner or a writer whose scope holds the one
  capability the operation needs (\<open>Create\<close> or \<open>Update\<close> by the existence of the key for a set,
  \<open>Destroy\<close> for a delete); otherwise the reason names the missing capability of a writer, and is
  \<open>NoWriteAuthority\<close> for a stranger.
\<close>

lemma authorize_decides:
  assumes "is_data op"
  shows "authorize a signer op e =
     (if holds_capability a signer (required_capability op e) then Ok ()
      else if writers a signer \<noteq> None then Err (OutOfScope (required_capability op e))
      else Err NoWriteAuthority)"
  using assms
  by (auto simp: authorize_def authority_of_def holds_capability_def scope_contains_def Let_def
      split: option.splits)

theorem authorize_decides_witness:
  "authorize (empty_auth\<lparr>writers := [''w'' \<mapsto> {Update}]\<rparr>) ''w'' Set True = Ok () \<and>
   authorize (empty_auth\<lparr>writers := [''w'' \<mapsto> {Update}]\<rparr>) ''w'' Set False = Err (OutOfScope Create)"
  using authorize_decides [of Set "empty_auth\<lparr>writers := [''w'' \<mapsto> {Update}]\<rparr>" "''w''"]
  by (simp add: holds_capability_def empty_auth_def)

end
