(* ===== verification/Db_Version.thy ===== *)
theory Db_Version
  imports Wire_Types
begin

text \<open>
  \<open>protocol/version.rs\<close>: confirmation and initialisation status, and the database epoch that
  \<open>VERSION\<close> memos announce. An epoch is a \<open>u32\<close>; the sum in \<open>transition_allowed\<close> is written with
  its wrap-around.
\<close>

datatype write_status = Confirmed | Confirming (done_confs: u32) (required_confs: u32)

datatype init_state = Uninitialized | Initializing u32 u32 | Initialized

fun is_initialized :: "init_state \<Rightarrow> bool" where
  "is_initialized Initialized = True"
| "is_initialized i = False"

lemma is_initialized_iff [simp]: "is_initialized i \<longleftrightarrow> i = Initialized"
  by (cases i) simp_all

record version_state =
  vs_version :: u32
  vs_blocks :: block_set

definition default_version :: version_state where
  "default_version = \<lparr>vs_version = GENESIS_DB_VERSION, vs_blocks = {}\<rparr>"

definition is_outdated :: "version_state \<Rightarrow> bool" where
  "is_outdated v \<longleftrightarrow> MAX_DB_VERSION < vs_version v"

definition blocks_sync :: "version_state \<Rightarrow> bool" where
  "blocks_sync v \<longleftrightarrow> is_outdated v \<and> block_set_contains (vs_blocks v) Sync"

definition blocks_read :: "version_state \<Rightarrow> bool" where
  "blocks_read v \<longleftrightarrow> is_outdated v \<and> block_set_contains (vs_blocks v) Read"

definition blocks_write :: "version_state \<Rightarrow> bool" where
  "blocks_write v \<longleftrightarrow> is_outdated v \<and> block_set_contains (vs_blocks v) Write"

definition transition_allowed :: "u32 \<Rightarrow> u32 \<Rightarrow> drop_reason + unit" where
  "transition_allowed current requested =
     (if requested < GENESIS_DB_VERSION then Err VersionBelowGenesis
      else if requested = current then Err VersionNoOp
      else if (current + 1) mod 2 ^ 32 < requested
      then Err (VersionJumpTooLarge current requested)
      else Ok ())"

definition apply_version ::
    "str \<Rightarrow> str option \<Rightarrow> version_state \<Rightarrow> version_state \<times> (drop_reason + unit)" where
  "apply_version key value v =
     (case parse_uint u32_max key of
        None \<Rightarrow> (v, Err VersionNotNumeric)
      | Some requested \<Rightarrow>
          (case Option.bind value block_set_parse of
             None \<Rightarrow> (v, Err VersionBadFlag)
           | Some blocks \<Rightarrow>
               (case transition_allowed (vs_version v) requested of
                  Inl e \<Rightarrow> (v, Err e)
                | Inr u \<Rightarrow> (\<lparr>vs_version = requested, vs_blocks = blocks\<rparr>, Ok ()))))"

lemma transition_allowed_iff:
  "current < u32_max \<Longrightarrow>
   transition_allowed current requested = Ok () \<longleftrightarrow>
     requested = current + 1 \<or> requested < current"
  by (auto simp: transition_allowed_def GENESIS_DB_VERSION_def u32_max_def)

lemma transition_allowed_le:
  "transition_allowed current requested = Ok () \<Longrightarrow> requested \<le> current + 1"
  using mod_less_eq_dividend [of "current + 1" "2 ^ 32"]
  by (auto simp: transition_allowed_def split: if_splits)

lemma apply_version_Err: "apply_version key value v = (v', Err r) \<Longrightarrow> v' = v"
  by (auto simp: apply_version_def split: option.splits sum.splits)

lemma apply_version_cases:
  "fst (apply_version key value v) = v \<or>
   (\<exists>n bs. fst (apply_version key value v) = \<lparr>vs_version = n, vs_blocks = bs\<rparr> \<and>
      n \<le> vs_version v + 1 \<and> n \<le> u32_max)"
  by (auto simp: apply_version_def dest: transition_allowed_le parse_uint_bound
      split: option.splits sum.splits)

text \<open>A run of \<open>VERSION\<close> memos over the state.\<close>

fun version_run :: "(str \<times> str option) list \<Rightarrow> version_state \<Rightarrow> version_state" where
  "version_run [] v = v"
| "version_run ((key, value) # ms) v = version_run ms (fst (apply_version key value v))"

lemma version_run_bound: "vs_version (version_run ms v) \<le> vs_version v + length ms"
proof (induction ms v rule: version_run.induct)
  case (2 key "value" ms v)
  have "vs_version (fst (apply_version key value v)) \<le> vs_version v + 1"
    using apply_version_cases [of key "value" v] by auto
  with 2 show ?case by simp
qed simp

section \<open>Properties of the epoch\<close>

text \<open>
  The transition rule is the documented one: below the top of \<open>u32\<close>, \<open>apply_version\<close> is
  honored exactly when the key parses, the flags parse, and the requested epoch is the next one or
  any lower one; it then stores the requested epoch and flags, and otherwise it leaves the state
  unchanged. A database can be raised by at most one epoch per memo, so reaching epoch n costs at
  least n memos.
\<close>

lemma version_transitions:
  assumes "vs_version v < u32_max"
  shows "(snd (apply_version key value v) = Ok () \<longleftrightarrow>
           (\<exists>n bs. parse_uint u32_max key = Some n \<and> Option.bind value block_set_parse = Some bs \<and>
              (n = vs_version v + 1 \<or> n < vs_version v) \<and>
              fst (apply_version key value v) = \<lparr>vs_version = n, vs_blocks = bs\<rparr>)) \<and>
         (snd (apply_version key value v) \<noteq> Ok () \<longrightarrow> fst (apply_version key value v) = v) \<and>
         vs_version (version_run ms v) \<le> vs_version v + length ms"
  using assms version_run_bound [of ms v]
  by (auto simp: apply_version_def transition_allowed_iff split: option.splits sum.splits)

end
