(* ===== verification/Memo_Format.thy ===== *)
theory Memo_Format
  imports Signing
begin

text \<open>
  \<open>protocol/memo.rs\<close>: the text of a memo, as the writer builds it and as every reader parses it.
  A parser's \<open>SplitN\<close> iterator is the list of its pieces, and the \<open>i\<close>-th call of \<open>next\<close> is
  \<open>token i\<close>. The lemmas show that what \<open>build_memo_with_comment\<close> emits is parsed back to the same
  command, over a line break or over a transport that flattens it, and that a parsed command is
  determined by the bytes its signature covers.
\<close>

section \<open>Building\<close>

definition memo_line1 :: "op \<Rightarrow> str \<Rightarrow> str option \<Rightarrow> str" where
  "memo_line1 op key value =
     (case op of
        Set \<Rightarrow> (case value of
            Some v \<Rightarrow> WIRE_MAGIC @ '' SET '' @ key @ '' '' @ v
          | None \<Rightarrow> WIRE_MAGIC @ '' SET '' @ key)
      | SetL \<Rightarrow> (case value of
            Some v \<Rightarrow> WIRE_MAGIC @ '' SETL '' @ key @ '' '' @ dec (length v) @ [CHR 0x0A] @ v
          | None \<Rightarrow> WIRE_MAGIC @ '' SETL '' @ key @ '' 0'' @ [CHR 0x0A])
      | Del \<Rightarrow> WIRE_MAGIC @ '' DEL '' @ key
      | Init \<Rightarrow> (case value of
            Some v \<Rightarrow> WIRE_MAGIC @ '' INIT '' @ key @ '' '' @ v
          | None \<Rightarrow> WIRE_MAGIC @ '' INIT '' @ key)
      | OwnerAdd \<Rightarrow> WIRE_MAGIC @ '' OWNERADD '' @ key
      | OwnerDel \<Rightarrow> WIRE_MAGIC @ '' OWNERDEL '' @ key
      | WriterAdd \<Rightarrow> (case value of
            Some v \<Rightarrow> WIRE_MAGIC @ '' WRITERADD '' @ key @ '' '' @ v
          | None \<Rightarrow> WIRE_MAGIC @ '' WRITERADD '' @ key)
      | WriterDel \<Rightarrow> WIRE_MAGIC @ '' WRITERDEL '' @ key
      | Finalize \<Rightarrow> WIRE_MAGIC @ '' FINALIZE''
      | Version \<Rightarrow> (case value of
            Some v \<Rightarrow> WIRE_MAGIC @ '' VERSION '' @ key @ '' '' @ v
          | None \<Rightarrow> WIRE_MAGIC @ '' VERSION '' @ key))"

definition comment_line :: "str option \<Rightarrow> str" where
  "comment_line comment =
     (case comment of Some c \<Rightarrow> CHR ''#'' # c @ [CHR 0x0A] | None \<Rightarrow> [])"

definition render_memo_with_comment ::
    "('pk, 'sk) crates \<Rightarrow> op \<Rightarrow> str \<Rightarrow> str option \<Rightarrow> u64 \<Rightarrow> str \<Rightarrow> str option \<Rightarrow> str" where
  "render_memo_with_comment E op key value seq sig_hex comment =
     comment_line comment @ memo_line1 op key value @ [CHR 0x0A] @ encode_sig_line E seq sig_hex"

definition render_memo_text ::
    "('pk, 'sk) crates \<Rightarrow> op \<Rightarrow> str \<Rightarrow> str option \<Rightarrow> u64 \<Rightarrow> str \<Rightarrow> str" where
  "render_memo_text E op key value seq sig_hex =
     render_memo_with_comment E op key value seq sig_hex None"

datatype build_error =
  KeyHasWhitespace | KeyHasControl | CommentHasNewline | SetValueHasNewline | SetValueEmpty
| ValueRequired op | ValueNotAllowed op | MemoTooLarge

definition value_arity :: "op \<Rightarrow> str option \<Rightarrow> build_error + unit" where
  "value_arity op value =
     (case (op, value) of
        (Set, None) \<Rightarrow> Err (ValueRequired Set)
      | (SetL, None) \<Rightarrow> Err (ValueRequired SetL)
      | (Del, Some _) \<Rightarrow> Err (ValueNotAllowed Del)
      | (OwnerAdd, Some _) \<Rightarrow> Err (ValueNotAllowed OwnerAdd)
      | (OwnerDel, Some _) \<Rightarrow> Err (ValueNotAllowed OwnerDel)
      | (WriterAdd, None) \<Rightarrow> Err (ValueRequired WriterAdd)
      | (WriterDel, Some _) \<Rightarrow> Err (ValueNotAllowed WriterDel)
      | (Finalize, Some _) \<Rightarrow> Err (ValueNotAllowed Finalize)
      | (Version, None) \<Rightarrow> Err (ValueRequired Version)
      | _ \<Rightarrow> Ok ())"

definition build_memo_with_comment ::
    "('pk, 'sk) crates \<Rightarrow> op \<Rightarrow> str \<Rightarrow> str option \<Rightarrow> u64 \<Rightarrow> bytes \<Rightarrow> str option \<Rightarrow>
     build_error + str" where
  "build_memo_with_comment E op key value seq sig comment =
     (if contains_char is_whitespace key then Err KeyHasWhitespace
      else if contains_char is_control key then Err KeyHasControl
      else if CHR 0x0A \<in> set (unwrap_or comment []) then Err CommentHasNewline
      else if op = Set \<and> CHR 0x0A \<in> set (unwrap_or value []) then Err SetValueHasNewline
      else if op = Set \<and> value = Some [] then Err SetValueEmpty
      else try_ok (value_arity op value) (\<lambda>_.
        let text = comment_line comment @ memo_line1 op key value @ [CHR 0x0A] @
                   encode_sig_line E seq (hex_encode E sig)
        in if memo_fits E text then Ok text else Err MemoTooLarge))"

definition build_memo ::
    "('pk, 'sk) crates \<Rightarrow> op \<Rightarrow> str \<Rightarrow> str option \<Rightarrow> u64 \<Rightarrow> bytes \<Rightarrow> build_error + str" where
  "build_memo E op key value seq sig = build_memo_with_comment E op key value seq sig None"

section \<open>Parsing\<close>

definition token :: "nat \<Rightarrow> str list \<Rightarrow> str option" where
  "token i ts = (if i < length ts then Some (ts ! i) else None)"

definition check_magic :: "str option \<Rightarrow> memo_reject + unit" where
  "check_magic tok =
     (case Option.bind (Option.bind tok (strip_prefix MAGIC_PREFIX)) (parse_uint u32_max) of
        None \<Rightarrow> Err NotZkv
      | Some ver \<Rightarrow>
          if ver = ZKV_VERSION then Ok ()
          else if ver > ZKV_VERSION then Err (UnsupportedVersion ver)
          else Err NotZkv)"

definition validate_parsed_key :: "str \<Rightarrow> memo_reject + unit" where
  "validate_parsed_key key =
     (if key = [] then Err (Malformed EmptyKey)
      else if contains_char is_control key then Err (Malformed ControlCharInKey)
      else Ok ())"

definition parse_trailing_sig :: "('pk, 'sk) crates \<Rightarrow> str \<Rightarrow> memo_reject + (u64 \<times> str)" where
  "parse_trailing_sig E rest =
     (if trim rest = [] then Err (Malformed MissingSignature) else parse_sig_line E rest)"

definition parse_setl_body ::
    "('pk, 'sk) crates \<Rightarrow> str \<Rightarrow> str \<Rightarrow> memo_reject + (str option \<times> u64 \<times> str)" where
  "parse_setl_body E rest len_tok =
     (case parse_uint u64_max len_tok of
        None \<Rightarrow> Err (Malformed SetlNonNumericLength)
      | Some byte_len \<Rightarrow>
          if length rest < byte_len then Err (Malformed SetlLengthOverrun)
          else if \<not> utf8_valid (take byte_len rest) then Err (Malformed SetlValueNotUtf8)
          else (case drop byte_len rest of
                  [] \<Rightarrow> Err (Malformed SetlMissingSeparator)
                | sep # sig_region \<Rightarrow>
                    if sep \<noteq> CHR 0x0A then Err (Malformed SetlMissingSeparator)
                    else if \<not> utf8_valid sig_region then Err (Malformed BadSignatureFraming)
                    else if trim sig_region = [] then Err (Malformed MissingSignature)
                    else try_ok (parse_sig_line E (trim sig_region)) (\<lambda>(seq, sig_hex).
                      Ok (Some (take byte_len rest), seq, sig_hex))))"

text \<open>The token of a \<open>SET\<close>, \<open>WRITERADD\<close> or \<open>VERSION\<close> value: present and not empty.\<close>

definition required_token :: "memo_format \<Rightarrow> str option \<Rightarrow> memo_reject + str" where
  "required_token missing t =
     (case t of
        None \<Rightarrow> Err (Malformed missing)
      | Some v \<Rightarrow> if v = [] then Err (Malformed missing) else Ok v)"

abbreviation mk_command :: "op \<Rightarrow> str \<Rightarrow> str option \<Rightarrow> u64 \<Rightarrow> str \<Rightarrow> zkv_command" where
  "mk_command op key value seq sig_hex \<equiv>
     \<lparr>cmd_op = op, cmd_key = key, cmd_value = value, cmd_seq = seq, cmd_sig_hex = sig_hex,
      cmd_comment = None\<rparr>"

definition two_section_value ::
    "('pk, 'sk) crates \<Rightarrow> op \<Rightarrow> str list \<Rightarrow> str \<Rightarrow> memo_reject + (str option \<times> u64 \<times> str)" where
  "two_section_value E op ts rest =
     (case op of
        SetL \<Rightarrow>
          try_ok (ok_or (Malformed (WrongArity op)) (token 3 ts)) (\<lambda>len_tok.
            if token 4 ts \<noteq> None then Err (Malformed (WrongArity op))
            else parse_setl_body E rest len_tok)
      | Set \<Rightarrow>
          try_ok (required_token MissingValue (token 3 ts)) (\<lambda>v.
          try_ok (parse_trailing_sig E rest) (\<lambda>(seq, sig). Ok (Some v, seq, sig)))
      | WriterAdd \<Rightarrow>
          try_ok (required_token MissingScope (token 3 ts)) (\<lambda>v.
          try_ok (parse_trailing_sig E rest) (\<lambda>(seq, sig). Ok (Some v, seq, sig)))
      | Version \<Rightarrow>
          try_ok (required_token MissingVersionFlag (token 3 ts)) (\<lambda>v.
          try_ok (parse_trailing_sig E rest) (\<lambda>(seq, sig). Ok (Some v, seq, sig)))
      | Init \<Rightarrow> try_ok (parse_trailing_sig E rest) (\<lambda>(seq, sig). Ok (token 3 ts, seq, sig))
      | _ \<Rightarrow>
          if token 3 ts \<noteq> None then Err (Malformed (WrongArity op))
          else try_ok (parse_trailing_sig E rest) (\<lambda>(seq, sig). Ok (None, seq, sig)))"

definition parse_two_section ::
    "('pk, 'sk) crates \<Rightarrow> str \<Rightarrow> str \<Rightarrow> memo_reject + zkv_command" where
  "parse_two_section E line1 rest =
     (let ts = splitn 4 CHR '' '' line1 in
      try_ok (check_magic (token 0 ts)) (\<lambda>_.
      try_ok (ok_or (Malformed UnknownOpcode) (Option.bind (token 1 ts) op_parse)) (\<lambda>op.
      if op = Finalize then
        (if token 2 ts \<noteq> None then Err (Malformed (WrongArity op))
         else try_ok (parse_trailing_sig E rest) (\<lambda>(seq, sig_hex).
           Ok (mk_command op [] None seq sig_hex)))
      else
        (let key = unwrap_or (token 2 ts) [] in
         try_ok (validate_parsed_key key) (\<lambda>_.
         try_ok (two_section_value E op ts rest) (\<lambda>(value, seq, sig_hex).
         Ok (mk_command op key value seq sig_hex)))))))"

definition collapsed_value :: "op \<Rightarrow> str list \<Rightarrow> memo_reject + str option" where
  "collapsed_value op ts =
     (case op of
        SetL \<Rightarrow> Err (Malformed SetlCollapsedUnsupported)
      | Set \<Rightarrow> try_ok (required_token MissingValue (token 3 ts)) (\<lambda>v. Ok (Some v))
      | WriterAdd \<Rightarrow> try_ok (required_token MissingScope (token 3 ts)) (\<lambda>v. Ok (Some v))
      | Version \<Rightarrow> try_ok (required_token MissingVersionFlag (token 3 ts)) (\<lambda>v. Ok (Some v))
      | Init \<Rightarrow> Ok (token 3 ts)
      | _ \<Rightarrow> if token 3 ts \<noteq> None then Err (Malformed (WrongArity op)) else Ok None)"

definition parse_collapsed :: "('pk, 'sk) crates \<Rightarrow> str \<Rightarrow> memo_reject + zkv_command" where
  "parse_collapsed E text =
     (let trimmed = trim_end text in
      try_ok (check_magic (token 0 (split_on CHR '' '' trimmed))) (\<lambda>_.
      try_ok (ok_or (Malformed MissingSignature) (rsplit_once is_ascii_whitespace trimmed))
        (\<lambda>(head, tail).
      try_ok (parse_sig_line E tail) (\<lambda>(seq, sig_hex).
      let ts = splitn 4 CHR '' '' (trim_end head) in
      try_ok (check_magic (token 0 ts)) (\<lambda>_.
      try_ok (ok_or (Malformed UnknownOpcode) (Option.bind (token 1 ts) op_parse)) (\<lambda>op.
      if op = Finalize then
        (if token 2 ts \<noteq> None then Err (Malformed (WrongArity op))
         else Ok (mk_command op [] None seq sig_hex))
      else
        (let key = unwrap_or (token 2 ts) [] in
         try_ok (validate_parsed_key key) (\<lambda>_.
         try_ok (collapsed_value op ts) (\<lambda>value.
         Ok (mk_command op key value seq sig_hex))))))))))"

definition parse_text_memo_detailed ::
    "('pk, 'sk) crates \<Rightarrow> str \<Rightarrow> memo_reject + zkv_command" where
  "parse_text_memo_detailed E text =
     try_ok
       (case strip_prefix ''#'' text of
          Some after_hash \<Rightarrow>
            (case split_once CHR 0x0A after_hash of
               Some (c, rest) \<Rightarrow> Ok (Some c, rest)
             | None \<Rightarrow> Err NotZkv)
        | None \<Rightarrow> Ok (None, text))
       (\<lambda>(comment, body).
          try_ok
            (case split_once CHR 0x0A body of
               Some (line1, rest) \<Rightarrow> parse_two_section E line1 rest
             | None \<Rightarrow> parse_collapsed E body)
            (\<lambda>cmd. Ok (cmd\<lparr>cmd_comment := comment\<rparr>)))"

definition parse_text_memo :: "('pk, 'sk) crates \<Rightarrow> str \<Rightarrow> zkv_command option" where
  "parse_text_memo E text =
     (case parse_text_memo_detailed E text of Inl e \<Rightarrow> None | Inr cmd \<Rightarrow> Some cmd)"

definition looks_like_zkv :: "str \<Rightarrow> bool" where
  "looks_like_zkv text =
     (case strip_prefix ''#'' text of
        Some after_hash \<Rightarrow>
          (case split_once CHR 0x0A after_hash of
             Some (c, rest) \<Rightarrow> first_word rest = Some WIRE_MAGIC
           | None \<Rightarrow> False)
      | None \<Rightarrow> first_word text = Some WIRE_MAGIC)"

section \<open>How the pieces are read back\<close>

lemma splitn_hit:
  "d \<notin> set a \<Longrightarrow> splitn (Suc (Suc n)) d (a @ d # b) = a # splitn (Suc n) d b"
  by (simp add: text_simps)

lemma splitn_miss: "d \<notin> set a \<Longrightarrow> splitn (Suc n) d a = [a]"
  by (cases n) (simp_all add: text_simps)

lemma splitn4:
  assumes "d \<notin> set a" and "d \<notin> set b"
  shows "splitn 4 d (a @ d # b) = [a, b]"
    and "d \<notin> set c \<Longrightarrow> splitn 4 d (a @ d # b @ d # c) = [a, b, c]"
    and "d \<notin> set c \<Longrightarrow> splitn 4 d (a @ d # b @ d # c @ d # e) = [a, b, c, e]"
  using assms by (simp_all add: numeral_eq_Suc text_simps)

lemma blank_notin:
  assumes "utf8_valid k" and "\<not> contains_char is_whitespace k"
  shows "CHR '' '' \<notin> set k" and "CHR 0x0A \<notin> set k"
proof -
  have "is_whitespace [CHR '' '']" and "is_whitespace [CHR 0x0A]"
    and "is_ascii CHR '' ''" and "is_ascii CHR 0x0A"
    by (simp_all add: is_whitespace_def whitespace_scalars_def is_ascii_def byte_def)
  with assms show "CHR '' '' \<notin> set k" and "CHR 0x0A \<notin> set k"
    using ascii_is_scalar [OF assms(1)] by (auto simp: contains_char_def list_ex_iff)
qed

lemma op_no_blank [simp]: "CHR '' '' \<notin> set (op_as_str op)" "CHR 0x0A \<notin> set (op_as_str op)"
  by (cases op; simp)+

lemma magic_no_blank [simp]: "CHR '' '' \<notin> set WIRE_MAGIC" "CHR 0x0A \<notin> set WIRE_MAGIC"
  by (simp_all add: WIRE_MAGIC_def)

lemma check_magic_wire [simp]: "check_magic (Some WIRE_MAGIC) = Ok ()"
proof -
  have "parse_uint u32_max ''0'' = Some 0"
    by (simp add: parse_uint_def is_digit_def dec_value_def byte_def u32_max_def)
  then show ?thesis
    by (simp add: check_magic_def WIRE_MAGIC_def MAGIC_PREFIX_def ZKV_VERSION_def)
qed

text \<open>The header of every operation but \<open>SETL\<close> is its words, one blank between two.\<close>

definition header_words :: "op \<Rightarrow> str \<Rightarrow> str option \<Rightarrow> str" where
  "header_words op key value =
     (if op = Finalize then WIRE_MAGIC @ CHR '' '' # op_as_str op
      else WIRE_MAGIC @ CHR '' '' # op_as_str op @ CHR '' '' # key @
             (case value of None \<Rightarrow> [] | Some v \<Rightarrow> CHR '' '' # v))"

lemma memo_line1_words:
  "value_arity op value = Ok () \<Longrightarrow> op \<noteq> SetL \<Longrightarrow> memo_line1 op key value = header_words op key value"
  by (cases op; cases "value") (simp_all add: memo_line1_def header_words_def value_arity_def)

lemma memo_line1_SetL:
  "memo_line1 SetL key (Some v) =
     (WIRE_MAGIC @ CHR '' '' # op_as_str SetL @ CHR '' '' # key @ CHR '' '' # dec (length v)) @
     CHR 0x0A # v"
  by (simp add: memo_line1_def)

text \<open>What a builder must be given beyond its own checks so that the readers accept the memo.\<close>

definition wire_ready :: "op \<Rightarrow> str \<Rightarrow> str option \<Rightarrow> str option \<Rightarrow> bool" where
  "wire_ready op key value comment \<longleftrightarrow>
     utf8_valid key \<and> utf8_valid (unwrap_or value []) \<and>
     (if op = Finalize then key = [] else key \<noteq> []) \<and>
     (op \<noteq> SetL \<longrightarrow> CHR 0x0A \<notin> set (unwrap_or value [])) \<and>
     (op = WriterAdd \<or> op = Version \<longrightarrow> value \<noteq> Some [])"

lemma build_Ok:
  assumes "build_memo_with_comment E op key value seq sig comment = Ok text"
  shows "\<not> contains_char is_whitespace key" and "\<not> contains_char is_control key"
    and "CHR 0x0A \<notin> set (unwrap_or comment [])" and "op = Set \<longrightarrow> value \<noteq> Some []"
    and "value_arity op value = Ok ()" and "memo_fits E text"
    and "text = render_memo_with_comment E op key value seq (hex_encode E sig) comment"
  using assms
  by (auto simp: build_memo_with_comment_def render_memo_with_comment_def try_ok_Inr Let_def
      split: if_splits)

lemma header_tokens:
  assumes "CHR '' '' \<notin> set key" and "op \<noteq> Finalize"
  shows "splitn 4 CHR '' '' (header_words op key value) =
         [WIRE_MAGIC, op_as_str op, key] @ (case value of None \<Rightarrow> [] | Some v \<Rightarrow> [v])"
  using assms by (cases "value") (simp_all add: header_words_def splitn4)

lemma header_tokens_Finalize:
  "splitn 4 CHR '' '' (header_words Finalize key value) = [WIRE_MAGIC, op_as_str Finalize]"
  by (simp add: header_words_def splitn4 del: op_as_str.simps)

lemma parse_trailing_sig_encoded:
  assumes "hex_laws E" and "list_all is_ascii_hexdigit sig" and "length sig = SIG_HEX_LEN"
  shows "parse_trailing_sig E (encode_sig_line E seq sig) = Ok (seq, sig)"
proof -
  have "encode_sig_line E seq sig \<noteq> []"
    using assms(3) by (intro encode_sig_line_nonempty) (auto simp: SIG_HEX_LEN_def SIG_LEN_def)
  then show ?thesis
    using assms encode_sig_line_hexdigits [OF assms(1,2), of seq]
    by (simp add: parse_trailing_sig_def parse_encode_sig_line hexdigits_plain text_simps)
qed

text \<open>The arity facts of a command the builder accepts, per operation.\<close>

definition well_valued :: "op \<Rightarrow> str option \<Rightarrow> bool" where
  "well_valued op value \<longleftrightarrow>
     (if op \<in> {Set, WriterAdd, Version} then \<exists>v. value = Some v \<and> v \<noteq> []
      else if op = SetL then value \<noteq> None
      else op \<noteq> Init \<longrightarrow> value = None)"

lemma well_valuedI:
  assumes "value_arity op value = Ok ()" and "op = Set \<longrightarrow> value \<noteq> Some []"
    and "op = WriterAdd \<or> op = Version \<longrightarrow> value \<noteq> Some []"
  shows "well_valued op value"
  using assms by (cases op; cases "value") (auto simp: value_arity_def well_valued_def)

lemma two_section_words:
  assumes E: "hex_laws E" and sig: "list_all is_ascii_hexdigit sig" "length sig = SIG_HEX_LEN"
    and key: "CHR '' '' \<notin> set key"
    and ok: "op \<noteq> Finalize \<longrightarrow> validate_parsed_key key = Ok ()" "op = Finalize \<longrightarrow> key = []"
    and "value": "well_valued op value" and op: "op \<noteq> SetL"
  shows "parse_two_section E (header_words op key value) (encode_sig_line E seq sig) =
         Ok (mk_command op key value seq sig)"
proof (cases "op = Finalize")
  case True
  with ok(2) "value" have "key = []" and "value = None" by (auto simp: well_valued_def)
  then show ?thesis
    by (simp add: True parse_two_section_def header_tokens_Finalize token_def Let_def
        op_wire.parse_as_str parse_trailing_sig_encoded [OF E sig] del: op_as_str.simps)
next
  case False
  note t = header_tokens [OF key False, of "value"] and s = parse_trailing_sig_encoded [OF E sig]
  have "parse_two_section E (header_words op key value) rest =
      try_ok (two_section_value E op ([WIRE_MAGIC, op_as_str op, key] @
          (case value of None \<Rightarrow> [] | Some v \<Rightarrow> [v])) rest)
        (\<lambda>(value, seq, sig_hex). Ok (mk_command op key value seq sig_hex))" for rest
    using False ok(1) by (simp add: parse_two_section_def t token_def op_wire.parse_as_str Let_def)
  then show ?thesis
    using False "value" op
    by (cases op)
       (auto simp: two_section_value_def token_def required_token_def s well_valued_def
         split: option.splits)
qed

lemma parse_setl_encoded:
  assumes E: "hex_laws E" and sig: "list_all is_ascii_hexdigit sig" "length sig = SIG_HEX_LEN"
    and v: "utf8_valid v" "length v \<le> u64_max"
  shows "parse_setl_body E (v @ CHR 0x0A # encode_sig_line E seq sig) (dec (length v)) =
         Ok (Some v, seq, sig)"
proof -
  let ?s = "encode_sig_line E seq sig"
  have p: "list_all plain ?s" and ne: "?s \<noteq> []"
    using encode_sig_line_hexdigits [OF E sig(1)] sig(2)
    by (auto simp: hexdigits_plain SIG_HEX_LEN_def SIG_LEN_def intro!: encode_sig_line_nonempty)
  have "utf8_valid ?s"
    using p by (simp add: utf8_valid_ascii list_all_plain_ascii)
  then show ?thesis
    using p ne v by (simp add: parse_setl_body_def text_simps parse_encode_sig_line [OF E sig])
qed

lemma two_section_SetL:
  assumes E: "hex_laws E" and sig: "list_all is_ascii_hexdigit sig" "length sig = SIG_HEX_LEN"
    and key: "CHR '' '' \<notin> set key" "validate_parsed_key key = Ok ()"
    and v: "utf8_valid v" "length v \<le> u64_max"
  shows "parse_two_section E
           (WIRE_MAGIC @ CHR '' '' # op_as_str SetL @ CHR '' '' # key @ CHR '' '' # dec (length v))
           (v @ CHR 0x0A # encode_sig_line E seq sig) =
         Ok (mk_command SetL key (Some v) seq sig)"
proof -
  have "parse_two_section E
           (WIRE_MAGIC @ CHR '' '' # op_as_str SetL @ CHR '' '' # key @ CHR '' '' # dec (length v))
           rest =
      try_ok (two_section_value E SetL [WIRE_MAGIC, op_as_str SetL, key, dec (length v)] rest)
        (\<lambda>(value, seq, sig_hex). Ok (mk_command SetL key value seq sig_hex))" for rest
    using key
    by (simp add: parse_two_section_def splitn4 token_def op_wire.parse_as_str Let_def
        del: op_as_str.simps)
  then show ?thesis
    by (simp add: two_section_value_def token_def parse_setl_encoded [OF E sig v])
qed

text \<open>The comment line in front of a text that begins with the magic.\<close>

lemma magic_no_hash: "strip_prefix ''#'' (WIRE_MAGIC @ s) = None"
  by (simp add: WIRE_MAGIC_def)

lemma memo_line1_magic: "\<exists>s. memo_line1 op key value = WIRE_MAGIC @ s"
  by (cases op; cases "value") (simp_all add: memo_line1_def)

lemma strip_comment:
  assumes "CHR 0x0A \<notin> set (unwrap_or comment [])"
  shows "(case strip_prefix ''#'' (comment_line comment @ memo_line1 op key value @ rest) of
            Some after_hash \<Rightarrow>
              (case split_once CHR 0x0A after_hash of
                 Some (c, rest) \<Rightarrow> Ok (Some c, rest)
               | None \<Rightarrow> Err NotZkv)
          | None \<Rightarrow> Ok (None, comment_line comment @ memo_line1 op key value @ rest)) =
         Ok (comment, memo_line1 op key value @ rest)"
proof (cases comment)
  case None
  obtain s where "memo_line1 op key value = WIRE_MAGIC @ s"
    using memo_line1_magic by blast
  then show ?thesis by (simp add: None comment_line_def magic_no_hash)
next
  case (Some c)
  with assms show ?thesis by (simp add: comment_line_def text_simps)
qed

lemma parse_commented:
  assumes "CHR 0x0A \<notin> set (unwrap_or comment [])"
  shows "parse_text_memo_detailed E (comment_line comment @ memo_line1 op key value @ rest) =
         try_ok
           (case split_once CHR 0x0A (memo_line1 op key value @ rest) of
              Some (line1, rest) \<Rightarrow> parse_two_section E line1 rest
            | None \<Rightarrow> parse_collapsed E (memo_line1 op key value @ rest))
           (\<lambda>cmd. Ok (cmd\<lparr>cmd_comment := comment\<rparr>))"
  unfolding parse_text_memo_detailed_def strip_comment [OF assms] by simp

lemma valid_key:
  "wire_ready op key value comment \<Longrightarrow> \<not> contains_char is_control key \<Longrightarrow>
   (op \<noteq> Finalize \<longrightarrow> validate_parsed_key key = Ok ()) \<and> (op = Finalize \<longrightarrow> key = [])"
  by (auto simp: wire_ready_def validate_parsed_key_def split: if_splits)

lemma header_no_newline:
  "CHR 0x0A \<notin> set key \<Longrightarrow> CHR 0x0A \<notin> set (unwrap_or value []) \<Longrightarrow>
   CHR 0x0A \<notin> set (header_words op key value)"
  by (cases "value") (auto simp: header_words_def simp del: op_as_str.simps)

lemma SIG_hex:
  assumes "hex_laws E" and "length sig = SIG_LEN"
  shows "list_all is_ascii_hexdigit (hex_encode E sig)" "length (hex_encode E sig) = SIG_HEX_LEN"
  using assms by (simp_all add: SIG_HEX_LEN_def)

lemma parse_render:
  assumes E: "hex_laws E" and sig: "list_all is_ascii_hexdigit sig" "length sig = SIG_HEX_LEN"
    and ready: "wire_ready op key value comment" and arity: "value_arity op value = Ok ()"
    and key: "\<not> contains_char is_whitespace key" "\<not> contains_char is_control key"
    and com: "CHR 0x0A \<notin> set (unwrap_or comment [])" and set: "op = Set \<longrightarrow> value \<noteq> Some []"
    and len: "length (unwrap_or value []) \<le> u64_max"
  shows "parse_text_memo_detailed E (render_memo_with_comment E op key value seq sig comment) =
         Ok \<lparr>cmd_op = op, cmd_key = key, cmd_value = value, cmd_seq = seq, cmd_sig_hex = sig,
             cmd_comment = comment\<rparr>"
proof -
  from ready have u: "utf8_valid key" "utf8_valid (unwrap_or value [])"
    by (auto simp: wire_ready_def)
  note blank = blank_notin [OF u(1) key(1)]
  from valid_key [OF ready key(2)]
  have vk: "op \<noteq> Finalize \<longrightarrow> validate_parsed_key key = Ok ()" "op = Finalize \<longrightarrow> key = []"
    by blast+
  show ?thesis
  proof (cases "op = SetL")
    case True
    with arity obtain v where v: "value = Some v"
      by (cases "value") (auto simp: value_arity_def)
    let ?l = "WIRE_MAGIC @ CHR '' '' # op_as_str SetL @ CHR '' '' # key @ CHR '' '' # dec (length v)"
    have "CHR 0x0A \<notin> set (dec (length v))"
      using dec_digits [of "length v"] by (auto simp: list_all_iff is_digit_def byte_def)
    with blank have "CHR 0x0A \<notin> set ?l" by simp
    from split_once_hit [OF this]
    have "split_once CHR 0x0A (memo_line1 SetL key (Some v) @ CHR 0x0A # rest) =
        Some (?l, v @ CHR 0x0A # rest)" for rest
      by (simp only: memo_line1_SetL append_assoc append_Cons)
    moreover have "parse_two_section E ?l (v @ CHR 0x0A # encode_sig_line E seq sig) =
        Ok (mk_command SetL key (Some v) seq sig)"
      using two_section_SetL [OF E sig blank(1) _ _ _, of v] vk(1) u(2) len
      by (simp add: True v del: op_as_str.simps)
    ultimately show ?thesis
      unfolding render_memo_with_comment_def parse_commented [OF com] True v
      by (simp del: op_as_str.simps)
  next
    case False
    with ready have "CHR 0x0A \<notin> set (unwrap_or value [])"
      by (simp add: wire_ready_def)
    from split_once_hit [OF header_no_newline [OF blank(2) this, of op]]
    have "split_once CHR 0x0A (memo_line1 op key value @ CHR 0x0A # rest) =
        Some (header_words op key value, rest)" for rest
      by (simp only: memo_line1_words [OF arity False])
    moreover have "well_valued op value"
      using arity set ready by (intro well_valuedI) (auto simp: wire_ready_def)
    ultimately show ?thesis
      unfolding render_memo_with_comment_def parse_commented [OF com]
      using two_section_words [OF E sig blank(1) vk _ False, of "value" seq] by simp
  qed
qed

text \<open>A transport that turned the last line break into a blank.\<close>

lemma header_valid:
  assumes "utf8_valid key" and "utf8_valid (unwrap_or value [])"
  shows "utf8_valid (header_words op key value)"
proof -
  have a: "utf8_valid (WIRE_MAGIC @ CHR '' '' # op_as_str op)"
    by (rule utf8_valid_ascii) (cases op; simp add: WIRE_MAGIC_def is_ascii_def byte_def)
  have b: "utf8_valid (CHR '' '' # t) = utf8_valid t" for t
    using utf8_valid_append [of "'' ''" t] by (simp add: utf8_valid_ascii is_ascii_def byte_def)
  have "header_words op key value = (WIRE_MAGIC @ CHR '' '' # op_as_str op) @
      (if op = Finalize then [] else CHR '' '' # key @
        (case value of None \<Rightarrow> [] | Some v \<Rightarrow> CHR '' '' # v))"
    by (simp add: header_words_def del: op_as_str.simps)
  then show ?thesis
    unfolding \<open>header_words op key value = _\<close> utf8_valid_append [OF a]
    using assms by (cases "value") (simp_all add: utf8_valid_append b)
qed

lemma plain_no_ascii_whitespace: "list_all plain s \<Longrightarrow> \<forall>c \<in> List.set s. \<not> is_ascii_whitespace c"
  by (auto simp: list_all_iff plain_def is_ascii_whitespace_def byte_def)

lemma collapsed_words:
  assumes E: "hex_laws E" and sig: "list_all is_ascii_hexdigit sig" "length sig = SIG_HEX_LEN"
    and key: "CHR '' '' \<notin> List.set key" "utf8_valid key" "utf8_valid (unwrap_or value [])"
    and ok: "op \<noteq> Finalize \<longrightarrow> validate_parsed_key key = Ok ()" "op = Finalize \<longrightarrow> key = []"
    and "value": "well_valued op value" and op: "op \<noteq> SetL"
    and tail: "trim_end (header_words op key value) = header_words op key value"
  shows "parse_collapsed E (header_words op key value @ CHR '' '' # encode_sig_line E seq sig) =
         Ok (mk_command op key value seq sig)"
proof -
  let ?h = "header_words op key value" and ?s = "encode_sig_line E seq sig"
  have p: "list_all plain ?s" and ne: "?s \<noteq> []"
    using encode_sig_line_hexdigits [OF E sig(1)] sig(2)
    by (auto simp: hexdigits_plain SIG_HEX_LEN_def SIG_LEN_def intro!: encode_sig_line_nonempty)
  have "utf8_valid (?h @ '' '')"
    using header_valid [OF key(2,3)]
    by (simp add: utf8_valid_append utf8_valid_ascii is_ascii_def byte_def)
  from trim_end_append_plain [OF this p ne]
  have t: "trim_end (?h @ CHR '' '' # ?s) = ?h @ CHR '' '' # ?s" by simp
  have "?h @ CHR '' '' # ?s = WIRE_MAGIC @ CHR '' '' # drop (Suc (length WIRE_MAGIC)) ?h @ CHR '' '' # ?s"
    by (simp add: header_words_def WIRE_MAGIC_def)
  then obtain ws where f: "split_on CHR '' '' (?h @ CHR '' '' # ?s) = WIRE_MAGIC # ws"
    by (simp only: split_on_append magic_no_blank not_False_eq_True)
  have r: "rsplit_once is_ascii_whitespace (?h @ CHR '' '' # ?s) = Some (?h, ?s)"
    using plain_no_ascii_whitespace [OF p]
    by (intro rsplit_once_hit) (simp_all add: is_ascii_whitespace_def)
  note pre = t f r parse_encode_sig_line [OF E sig] tail
  show ?thesis
  proof (cases "op = Finalize")
    case True
    with ok(2) "value" have "key = []" and "value = None" by (auto simp: well_valued_def)
    with pre True show ?thesis
      by (simp add: parse_collapsed_def header_tokens_Finalize token_def Let_def
          op_wire.parse_as_str del: op_as_str.simps)
  next
    case False
    note h = header_tokens [OF key(1) False, of "value"]
    have "parse_collapsed E (?h @ CHR '' '' # ?s) =
        try_ok (collapsed_value op ([WIRE_MAGIC, op_as_str op, key] @
            (case value of None \<Rightarrow> [] | Some v \<Rightarrow> [v])))
          (\<lambda>value. Ok (mk_command op key value seq sig))"
      using False ok(1)
      by (simp add: parse_collapsed_def pre h Let_def token_def op_wire.parse_as_str)
    then show ?thesis
      using False "value" op
      by (cases op)
         (auto simp: collapsed_value_def token_def required_token_def well_valued_def
           split: option.splits)
  qed
qed

lemma parse_collapsed_not_SetL: "parse_collapsed E t = Ok c \<Longrightarrow> cmd_op c \<noteq> SetL"
  by (auto simp: parse_collapsed_def collapsed_value_def Let_def try_ok_Inr split: if_splits)

section \<open>What a parsed command is\<close>

lemma try_ok_exI: "try_ok r k = Ok y \<Longrightarrow> (\<And>x. r = Ok x \<Longrightarrow> k x = Ok y \<Longrightarrow> P) \<Longrightarrow> P"
  by (cases r) auto

lemma two_section_value_Ok:
  assumes "two_section_value E op ts rest = Ok (value, seq, sig)" and "op \<noteq> Finalize"
  shows "op \<noteq> Init \<longrightarrow> well_valued op value"
  using assms
  by (cases op)
     (auto 4 4 simp: two_section_value_def well_valued_def required_token_def parse_setl_body_def
       try_ok_Inr intro: sym split: option.splits if_splits list.splits)

lemma collapsed_value_Ok:
  assumes "collapsed_value op ts = Ok value" and "op \<noteq> Finalize"
  shows "op \<noteq> Init \<longrightarrow> well_valued op value"
  using assms
  by (cases op)
     (auto simp: collapsed_value_def well_valued_def required_token_def try_ok_Inr
       intro: sym split: option.splits if_splits)

lemma valid_key_no_NUL:
  assumes "validate_parsed_key key = Ok ()" and "utf8_valid key"
  shows "NUL \<notin> List.set key"
proof
  assume "NUL \<in> List.set key"
  then have "[NUL] \<in> List.set (scalars key)"
    using ascii_is_scalar [OF assms(2)] by (simp add: NUL_def is_ascii_def byte_def)
  then have "contains_char is_control key"
    by (auto simp: contains_char_def list_ex_iff NUL_def byte_def intro!: bexI [of _ "[CHR 0x00]"])
  with assms(1) show False by (simp add: validate_parsed_key_def split: if_splits)
qed

text \<open>The facts about a parsed command that its signature relies on.\<close>

definition parsed_ok :: "zkv_command \<Rightarrow> bool" where
  "parsed_ok c \<longleftrightarrow>
     NUL \<notin> List.set (cmd_key c) \<and>
     (cmd_op c = Finalize \<longrightarrow> cmd_key c = []) \<and>
     (cmd_op c \<noteq> Finalize \<longrightarrow> cmd_key c \<noteq> []) \<and>
     (cmd_op c \<noteq> Init \<longrightarrow> well_valued (cmd_op c) (cmd_value c))"

lemma token_valid:
  assumes "utf8_valid line" and "token i (splitn 4 CHR '' '' line) = Some y"
  shows "utf8_valid y"
  using assms utf8_valid_splitn [OF assms(1), of "CHR '' ''" _ 4]
  by (auto simp: token_def is_ascii_def byte_def split: if_splits)

lemma validate_token:
  "validate_parsed_key (unwrap_or t []) = Ok () \<longleftrightarrow> (\<exists>y. t = Some y \<and> validate_parsed_key y = Ok ())"
  by (cases t) (simp_all add: validate_parsed_key_def)

lemma parsed_ok_mk:
  assumes "utf8_valid key" and "validate_parsed_key key = Ok ()" and "op \<noteq> Finalize"
    and "op \<noteq> Init \<longrightarrow> well_valued op value"
  shows "parsed_ok (mk_command op key value seq sig)"
  using assms valid_key_no_NUL [OF assms(2,1)]
  by (auto simp: parsed_ok_def validate_parsed_key_def split: if_splits)

lemma parsed_ok_Finalize [simp]: "parsed_ok (mk_command Finalize [] None seq sig)"
  by (simp add: parsed_ok_def well_valued_def)

lemma parse_two_section_ok:
  assumes "parse_two_section E line1 rest = Ok c" and "utf8_valid line1"
  shows "parsed_ok c"
  using assms(1) token_valid [OF assms(2)]
  by (auto simp: parse_two_section_def Let_def try_ok_Inr validate_token intro: parsed_ok_mk
      dest!: two_section_value_Ok split: if_splits)

lemma parse_collapsed_ok:
  assumes "parse_collapsed E text = Ok c" and "utf8_valid text"
  shows "parsed_ok c"
proof -
  have v: "utf8_valid (trim_end h)" if "rsplit_once is_ascii_whitespace (trim_end text) = Some (h, t)" for h t
  proof -
    from rsplit_once_Some [OF that] obtain d where "trim_end text = h @ d # t"
      and "is_ascii_whitespace d" by blast
    moreover from this(2) have "is_ascii d"
      by (auto simp: is_ascii_whitespace_def is_ascii_def byte_def)
    ultimately show ?thesis
      using utf8_valid_trim_end [OF assms(2)] utf8_valid_cut utf8_valid_trim_end by metis
  qed
  show ?thesis
    using assms(1) token_valid [OF v]
    by (auto simp: parse_collapsed_def Let_def try_ok_Inr validate_token intro: parsed_ok_mk
        dest!: collapsed_value_Ok split: if_splits)
qed

lemma parse_ok:
  assumes "parse_text_memo_detailed E text = Ok c" and "utf8_valid text"
  shows "parsed_ok c"
proof -
  have nl: "is_ascii CHR 0x0A" by (simp add: is_ascii_def byte_def)
  have body: "parsed_ok (c'\<lparr>cmd_comment := k\<rparr>)"
    if "utf8_valid b" and "(case split_once CHR 0x0A b of
               Some (line1, rest) \<Rightarrow> parse_two_section E line1 rest
             | None \<Rightarrow> parse_collapsed E b) = Ok c'" for b c' k
  proof -
    have "parsed_ok c'"
    proof (cases "split_once CHR 0x0A b")
      case None
      with that parse_collapsed_ok show ?thesis by auto
    next
      case (Some lr)
      obtain l r where lr: "lr = (l, r)" by force
      with Some have "b = l @ CHR 0x0A # r" using split_once_Some by blast
      with that(1) utf8_valid_cut [OF _ nl] have "utf8_valid l" by blast
      with Some lr that(2) parse_two_section_ok show ?thesis by auto
    qed
    then show ?thesis by (simp add: parsed_ok_def)
  qed
  from assms(1) obtain k b c'
    where pre: "(case strip_prefix ''#'' text of
          Some after_hash \<Rightarrow>
            (case split_once CHR 0x0A after_hash of
               Some (c, rest) \<Rightarrow> Ok (Some c, rest)
             | None \<Rightarrow> Err NotZkv)
        | None \<Rightarrow> Ok (None, text)) = Ok (k, b)"
      and p: "(case split_once CHR 0x0A b of
               Some (line1, rest) \<Rightarrow> parse_two_section E line1 rest
             | None \<Rightarrow> parse_collapsed E b) = Ok c'"
      and c: "c = c'\<lparr>cmd_comment := k\<rparr>"
    by (auto simp: parse_text_memo_detailed_def try_ok_Inr)
  from pre have "text = b \<or> (\<exists>k. text = (''#'' @ k) @ CHR 0x0A # b)"
    by (auto dest!: strip_prefix_Some split_once_Some split: option.splits)
  with assms(2) utf8_valid_cut [OF _ nl] have "utf8_valid b" by metis
  from body [OF this p] c show ?thesis by blast
qed

section \<open>What a signature binds\<close>

definition comment_suffix :: "('pk, 'sk) crates \<Rightarrow> str option \<Rightarrow> str" where
  "comment_suffix E comment =
     (case comment of None \<Rightarrow> [] | Some c \<Rightarrow> '':c='' @ hex_encode E (sha256 E c))"

lemma bind_comment_suffix: "bind_comment E d comment = d @ comment_suffix E comment"
  by (cases comment) (simp_all add: bind_comment_def comment_suffix_def)

lemma colon_notin_dec: "CHR '':'' \<notin> List.set (dec n)"
  using dec_digits [of n] by (auto simp: list_all_iff is_digit_def byte_def)

lemma dec_suffix_inject:
  assumes "dec m @ comment_suffix E c = dec n @ comment_suffix E c'"
  shows "m = n \<and> comment_suffix E c = comment_suffix E c'"
proof -
  have "m = n"
  proof -
    have t: "takeWhile (\<lambda>x. x \<noteq> CHR '':'') (dec n @ comment_suffix E c) = dec n" for n c
      using colon_notin_dec [of n]
      by (cases c) (auto simp: comment_suffix_def takeWhile_append takeWhile_eq_all_conv)
    from t [of m c] t [of n c'] assms have "dec m = dec n" by simp
    then show ?thesis by simp
  qed
  with assms show ?thesis by simp
qed

lemma comment_suffix_inject:
  assumes "hex_laws E" and "comment_suffix E c = comment_suffix E c'"
    and "\<And>a b. c = Some a \<Longrightarrow> c' = Some b \<Longrightarrow> sha256 E a = sha256 E b \<Longrightarrow> a = b"
  shows "c = c'"
proof (cases "c = None \<or> c' = None")
  case True
  with assms(2) show ?thesis by (cases c; cases c') (simp_all add: comment_suffix_def)
next
  case False
  then obtain a b where ab: "c = Some a" "c' = Some b" by auto
  with assms(2) have "sha256 E a = sha256 E b"
    by (simp add: comment_suffix_def assms(1))
  from assms(3) [OF ab this] ab show ?thesis by simp
qed

lemma domain_inject:
  assumes "bind_comment E (signing_domain r op s) c = bind_comment E (signing_domain r op s') c'"
  shows "(is_versioned op \<longrightarrow> s = s') \<and> comment_suffix E c = comment_suffix E c'"
proof (cases "is_versioned op")
  case True
  with assms have "dec (unat s) @ comment_suffix E c = dec (unat s') @ comment_suffix E c'"
    by (simp add: bind_comment_suffix signing_domain_versioned)
  from dec_suffix_inject [OF this] show ?thesis by (simp add: word_unat_eq_iff)
next
  case False
  with assms show ?thesis by (simp add: bind_comment_suffix signing_domain_versioned)
qed

lemma NUL_domain:
  assumes "hex_laws E" and "NUL \<notin> List.set r"
  shows "NUL \<notin> List.set (bind_comment E (signing_domain r op s) c)"
proof -
  have "NUL \<notin> List.set (dec n)" for n
    using dec_plain [of n] by (auto simp: list_all_iff plain_def NUL_def byte_def)
  moreover have "NUL \<notin> List.set (hex_encode E b)" for b
    using plain_hex_encode [OF assms(1), of b]
    by (auto simp: list_all_iff plain_def NUL_def byte_def)
  ultimately show ?thesis
    using assms(2)
    by (cases c) (auto simp: bind_comment_suffix comment_suffix_def signing_domain_versioned NUL_def)
qed

lemma payload_for_eq:
  "payload_for E r c =
     signed_payload (bind_comment E (signing_domain r (cmd_op c) (cmd_seq c)) (cmd_comment c))
       (cmd_op c) (if cmd_op c = Init then [] else cmd_key c)
       (if cmd_op c = Init then None else cmd_value c)"
  by (simp add: payload_for_def signing_domain_def)

lemma well_valued_eq:
  "well_valued op v \<Longrightarrow> well_valued op v' \<Longrightarrow> op \<noteq> Init \<Longrightarrow>
   unwrap_or v [] = unwrap_or v' [] \<Longrightarrow> v = v'"
  by (cases v; cases v') (auto simp: well_valued_def split: if_splits)

lemma payload_determines:
  assumes E: "hex_laws E" and r: "NUL \<notin> List.set r"
    and c: "parsed_ok c" "parsed_ok c'"
    and eq: "payload_for E r c = payload_for E r c'"
  shows "cmd_op c = cmd_op c' \<and> (is_versioned (cmd_op c) \<longrightarrow> cmd_seq c = cmd_seq c') \<and>
         comment_suffix E (cmd_comment c) = comment_suffix E (cmd_comment c') \<and>
         (cmd_op c \<noteq> Init \<longrightarrow> cmd_key c = cmd_key c' \<and> cmd_value c = cmd_value c')"
proof -
  let ?k = "\<lambda>c. if cmd_op c = Init then [] else cmd_key c"
  have "NUL \<notin> List.set (?k c)" and "NUL \<notin> List.set (?k c')"
    using c by (simp_all add: parsed_ok_def)
  note inj = signed_payload_inject [OF NUL_domain [OF E r] NUL_domain [OF E r] this]
  from eq [unfolded payload_for_eq inj]
  have op: "cmd_op c = cmd_op c'" and k: "?k c = ?k c'"
    and d0: "bind_comment E (signing_domain r (cmd_op c) (cmd_seq c)) (cmd_comment c) =
            bind_comment E (signing_domain r (cmd_op c') (cmd_seq c')) (cmd_comment c')"
    and v: "unwrap_or (if cmd_op c = Init then None else cmd_value c) [] =
            unwrap_or (if cmd_op c' = Init then None else cmd_value c') []"
    by (blast+)
  from d0 have d: "bind_comment E (signing_domain r (cmd_op c) (cmd_seq c)) (cmd_comment c) =
            bind_comment E (signing_domain r (cmd_op c) (cmd_seq c')) (cmd_comment c')"
    by (simp only: op)
  have "cmd_value c = cmd_value c'" if "cmd_op c \<noteq> Init"
  proof (rule well_valued_eq)
    show "well_valued (cmd_op c) (cmd_value c)" and "well_valued (cmd_op c) (cmd_value c')"
      using c op that by (simp_all add: parsed_ok_def)
    show "unwrap_or (cmd_value c) [] = unwrap_or (cmd_value c') []"
      using v op that by simp
  qed (rule that)
  moreover have "cmd_key c = cmd_key c'" if "cmd_op c \<noteq> Init"
    using k op that by simp
  ultimately show ?thesis
    using op domain_inject [OF d] by blast
qed

lemma build_parse:
  assumes "hex_laws E" and "memo_laws E" and "length sig = SIG_LEN"
    and "wire_ready op key value comment"
    and built: "build_memo_with_comment E op key value seq sig comment = Ok text"
  shows "parse_text_memo_detailed E text =
         Ok \<lparr>cmd_op = op, cmd_key = key, cmd_value = value, cmd_seq = seq,
             cmd_sig_hex = hex_encode E sig, cmd_comment = comment\<rparr>"
proof -
  note b = build_Ok [OF built]
  have "length (unwrap_or value []) \<le> length text"
    using b(5) unfolding b(7)
    by (cases op; cases "value")
       (simp_all add: value_arity_def render_memo_with_comment_def memo_line1_def)
  also have "\<dots> \<le> 512"
    using assms(2) b(6) by (simp add: memo_laws_def)
  finally have "length (unwrap_or value []) \<le> u64_max" by (simp add: u64_max_def)
  from parse_render [OF assms(1) SIG_hex [OF assms(1,3)] assms(4) b(5,1,2,3,4) this]
  show ?thesis unfolding b(7) .
qed

section \<open>Properties of the memo grammar\<close>



text \<open>
  Flattened transport: if a wallet turns the line break before the signature into a blank, every
  reader still recovers the same command, for every operation but \<open>SETL\<close>, provided the header does
  not end in white space (then the boundary between value and signature is lost). A flattened
  \<open>SETL\<close> memo is refused, never misread.
\<close>

lemma collapsed_transport:
  assumes "hex_laws E" and "list_all is_ascii_hexdigit sig" and "length sig = SIG_HEX_LEN"
    and "wire_ready op key value None" and "value_arity op value = Ok ()"
    and "op = Set \<longrightarrow> value \<noteq> Some []" and "op \<noteq> SetL"
    and "\<not> contains_char is_whitespace key" and "\<not> contains_char is_control key"
    and "trim_end (memo_line1 op key value) = memo_line1 op key value"
  shows "parse_text_memo_detailed E (memo_line1 op key value @ '' '' @ encode_sig_line E seq sig) =
         parse_text_memo_detailed E (render_memo_text E op key value seq sig) \<and>
         (\<forall>t c. parse_collapsed E t = Ok c \<longrightarrow> cmd_op c \<noteq> SetL)"
proof (rule conjI)
  from assms(4) have u: "utf8_valid key" "utf8_valid (unwrap_or value [])"
    and nl: "CHR 0x0A \<notin> List.set (unwrap_or value [])"
    using assms(7) by (auto simp: wire_ready_def)
  note blank = blank_notin [OF u(1) assms(8)]
  note vk = valid_key [OF assms(4,9)]
  have wv: "well_valued op value"
    using assms(4,5,6) by (intro well_valuedI) (auto simp: wire_ready_def)
  let ?h = "header_words op key value" and ?s = "encode_sig_line E seq sig"
  have l: "memo_line1 op key value = ?h" by (rule memo_line1_words [OF assms(5,7)])
  have hex: "list_all plain ?s"
    using encode_sig_line_hexdigits [OF assms(1,2)] by (simp add: hexdigits_plain)
  have "CHR 0x0A \<notin> List.set ?s"
    using hex by (auto simp: list_all_iff plain_def byte_def)
  with header_no_newline [OF blank(2) nl, of op] have n: "split_once CHR 0x0A (?h @ '' '' @ ?s) = None"
    by (simp add: split_once_None)
  have "parse_collapsed E (?h @ '' '' @ ?s) = Ok (mk_command op key value seq sig)"
    using collapsed_words [OF assms(1-3) blank(1) u _ _ wv assms(7)] vk assms(10) by (simp add: l)
  moreover have "parse_text_memo_detailed E (comment_line None @ memo_line1 op key value @ '' '' @ ?s) =
      try_ok (parse_collapsed E (?h @ '' '' @ ?s)) (\<lambda>cmd. Ok (cmd\<lparr>cmd_comment := None\<rparr>))"
    using parse_commented [of None E op key "value" "'' '' @ ?s"] n by (simp add: l)
  moreover have "parse_text_memo_detailed E (comment_line None @ memo_line1 op key value @ CHR 0x0A # ?s) =
      Ok (mk_command op key value seq sig)"
    using parse_commented [of None E op key "value" "CHR 0x0A # ?s"]
      split_once_hit [OF header_no_newline [OF blank(2) nl, of op], of ?s]
      two_section_words [OF assms(1-3) blank(1) _ _ wv assms(7)] vk by (simp add: l)
  ultimately show "parse_text_memo_detailed E (memo_line1 op key value @ '' '' @ ?s) =
         parse_text_memo_detailed E (render_memo_text E op key value seq sig)"
    by (simp add: render_memo_text_def render_memo_with_comment_def comment_line_def)
next
  show "\<forall>t c. parse_collapsed E t = Ok c \<longrightarrow> cmd_op c \<noteq> SetL"
    using parse_collapsed_not_SetL by blast
qed

text \<open>
  C13. One signature binds one command: if two memos parse and the bytes their signatures cover
  against the same receiver are equal, then the opcode, the comment (up to a collision of SHA-256
  on the two comments), the sequence of a versioned operation, and, for every operation but
  \<open>INIT\<close>, the key and the value are equal. The control-character rule of \<open>validate_parsed_key\<close>
  is what makes the NUL-delimited payload unambiguous.
\<close>

theorem one_signature_one_command:
  assumes "hex_laws E" and "utf8_valid t" and "utf8_valid t'" and "NUL \<notin> List.set receiver"
    and "parse_text_memo_detailed E t = Ok c" and "parse_text_memo_detailed E t' = Ok c'"
    and "payload_for E receiver c = payload_for E receiver c'"
    and "\<And>a b. cmd_comment c = Some a \<Longrightarrow> cmd_comment c' = Some b \<Longrightarrow>
               sha256 E a = sha256 E b \<Longrightarrow> a = b"
  shows "cmd_op c = cmd_op c' \<and> cmd_comment c = cmd_comment c' \<and>
         (is_versioned (cmd_op c) \<longrightarrow> cmd_seq c = cmd_seq c') \<and>
         (cmd_op c \<noteq> Init \<longrightarrow> cmd_key c = cmd_key c' \<and> cmd_value c = cmd_value c')"
proof -
  note d = payload_determines [OF assms(1,4) parse_ok [OF assms(5,2)] parse_ok [OF assms(6,3)]
      assms(7)]
  then have "cmd_comment c = cmd_comment c'"
    using comment_suffix_inject [OF assms(1) _ assms(8)] by blast
  with d show ?thesis by blast
qed

theorem one_signature_one_command_witness:
  "parse_text_memo_detailed model_crates (''ZKV0 DEL k'' @ CHR 0x0A # replicate 130 CHR ''a'') =
     Ok (mk_command Del ''k'' None 0 (replicate 130 CHR ''a'')) \<and>
   payload_for model_crates ''main:00'' (mk_command Del ''k'' None 0 (replicate 130 CHR ''a''))
     \<noteq> payload_for model_crates ''main:00'' (mk_command Del ''k2'' None 0 (replicate 130 CHR ''a''))"
proof -
  let ?s = "replicate 130 CHR ''a''"
  have p: "parse_text_memo_detailed model_crates (''ZKV0 DEL '' @ k @ CHR 0x0A # ?s) =
      Ok (mk_command Del k None 0 ?s)"
    if "k \<in> {''k'', ''k2''}" for k
  proof -
    have "parse_text_memo_detailed model_crates (render_memo_with_comment model_crates Del k None 0 ?s None)
      = Ok (mk_command Del k None 0 ?s)"
      using that by (intro parse_render) (auto simp: SIG_HEX_LEN_def SIG_LEN_def list_all_iff
          is_ascii_hexdigit_def byte_def wire_ready_def utf8_valid_ascii is_ascii_def value_arity_def
          contains_char_def scalar_width_def is_whitespace_def whitespace_scalars_def)
    then show ?thesis
      by (simp add: render_memo_with_comment_def comment_line_def memo_line1_def encode_sig_line_def
          WIRE_MAGIC_def)
  qed
  note p1 = p [of "''k''", simplified] and p2 = p [of "''k2''", simplified]
  have u: "utf8_valid (''ZKV0 DEL '' @ k @ CHR 0x0A # ?s)" if "k \<in> {''k'', ''k2''}" for k
    using that by (auto intro!: utf8_valid_ascii simp: is_ascii_def byte_def list_all_iff)
  from one_signature_one_command [OF hex_laws_model u u _ p p, of "''k''" "''k2''" "''main:00''"]
    p1 show ?thesis by (auto simp: NUL_def)
qed

text \<open>
  What readers accept beyond what writers emit. The magic token is read as a number, so a memo
  that begins with \<open>ZKV00\<close> parses as a version-0 command, although \<open>looks_like_zkv\<close>, which compares
  with \<open>ZKV0\<close>, says it is no zkv traffic; and a key may hold white space outside ASCII (here the
  no-break space), which \<open>build_memo_with_comment\<close> refuses.
\<close>

lemma readers_accept_more:
  assumes "hex_laws E" and "list_all is_ascii_hexdigit sig" and "length sig = SIG_HEX_LEN"
  shows "parse_text_memo_detailed E (''ZKV00 DEL k'' @ CHR 0x0A # sig) =
           Ok (mk_command Del ''k'' None 0 sig) \<and>
         \<not> looks_like_zkv (''ZKV00 DEL k'' @ CHR 0x0A # sig) \<and>
         parse_text_memo_detailed E (''ZKV0 DEL k'' @ [CHR 0xC2, CHR 0xA0, CHR 0x0A] @ sig) =
           Ok (mk_command Del [CHR ''k'', CHR 0xC2, CHR 0xA0] None 0 sig) \<and>
         build_memo_with_comment E Del [CHR ''k'', CHR 0xC2, CHR 0xA0] None seq b comment =
           Err KeyHasWhitespace"
proof -
  have sg: "parse_trailing_sig E sig = Ok (0, sig)"
    using parse_trailing_sig_encoded [OF assms, of 0] by (simp add: encode_sig_line_def)
  have m: "parse_uint u32_max ''00'' = Some 0" "parse_uint u32_max ''0'' = Some 0"
    by (simp_all add: parse_uint_def is_digit_def dec_value_def byte_def u32_max_def)
  note ev = parse_text_memo_detailed_def parse_two_section_def two_section_value_def check_magic_def
    token_def numeral_eq_Suc MAGIC_PREFIX_def ZKV_VERSION_def op_parse_def validate_parsed_key_def
    contains_char_def scalar_width_def byte_def Let_def
  have "parse_text_memo_detailed E (''ZKV00 DEL k'' @ CHR 0x0A # sig) =
      Ok (mk_command Del ''k'' None 0 sig)"
    by (simp add: ev m sg)
  moreover have "first_word (''ZKV00 DEL k'' @ CHR 0x0A # sig) = Some ''ZKV00''"
    by (simp add: first_word_def scalar_width_def byte_def is_whitespace_def whitespace_scalars_def)
  then have "\<not> looks_like_zkv (''ZKV00 DEL k'' @ CHR 0x0A # sig)"
    by (simp add: looks_like_zkv_def WIRE_MAGIC_def)
  moreover have "parse_text_memo_detailed E (''ZKV0 DEL k'' @ [CHR 0xC2, CHR 0xA0, CHR 0x0A] @ sig) =
      Ok (mk_command Del [CHR ''k'', CHR 0xC2, CHR 0xA0] None 0 sig)"
    by (simp add: ev m sg)
  moreover have "build_memo_with_comment E Del [CHR ''k'', CHR 0xC2, CHR 0xA0] None seq b comment =
      Err KeyHasWhitespace"
    by (simp add: build_memo_with_comment_def contains_char_def scalar_width_def byte_def
        is_whitespace_def whitespace_scalars_def)
  ultimately show ?thesis by blast
qed

theorem readers_accept_more_witness:
  "\<not> looks_like_zkv (''ZKV00 DEL k'' @ CHR 0x0A # replicate 130 CHR ''a'')"
  using readers_accept_more [OF hex_laws_model, of "replicate 130 CHR ''a''"]
  by (simp add: SIG_HEX_LEN_def SIG_LEN_def list_all_iff is_ascii_hexdigit_def byte_def)

end
