(* ===== verification/Replay.thy ===== *)
theory Replay
  imports Auth_Registry Db_Version Memo_Format
begin

text \<open>
  \<open>protocol/replay.rs\<close>: the replay of a memo stream into the state of a database. The seven
  \<open>&mut\<close> projections the Rust functions thread are the fields of \<open>replay_result\<close>, and a function
  that borrows some of them takes and returns the record. A \<open>panic\<close> (the two \<open>expect\<close>s of
  \<open>apply_in_memory\<close>) is the value \<open>None\<close>, and \<open>Panicked\<close> in the loops.
\<close>

section \<open>State\<close>

datatype pending_op =
  PSet (pset_value: str) (pset_done: u32) (pset_required: u32) (pset_txid: str)
| PDel (pdel_done: u32) (pdel_required: u32) (pdel_txid: str)

fun pending_txid :: "pending_op \<Rightarrow> str" where
  "pending_txid (PSet v d r t) = t"
| "pending_txid (PDel d r t) = t"

fun pending_done :: "pending_op \<Rightarrow> u32" where
  "pending_done (PSet v d r t) = d"
| "pending_done (PDel d r t) = d"

fun is_pending_set :: "pending_op \<Rightarrow> bool" where
  "is_pending_set (PSet v d r t) = True"
| "is_pending_set (PDel d r t) = False"

record key_state =
  confirmed :: "str option"
  pending :: "pending_op list"
  updated_at :: "u32 option"
  last_txid :: "str option"

definition default_key_state :: key_state where
  "default_key_state = \<lparr>confirmed = None, pending = [], updated_at = None, last_txid = None\<rparr>"

record replay_entry =
  re_text :: str
  re_status :: write_status
  re_txid :: str
  re_block_time :: "u32 option"

record replay_result =
  rr_init :: init_state
  rr_state :: "str \<rightharpoonup> key_state"
  rr_auth :: auth_registry
  rr_finalized :: bool
  rr_version :: version_state
  rr_kv_versions :: "str \<rightharpoonup> u64"
  rr_target_versions :: "str \<rightharpoonup> u64"

definition empty_replay :: replay_result where
  "empty_replay =
     \<lparr>rr_init = Uninitialized, rr_state = Map.empty, rr_auth = empty_auth, rr_finalized = False,
      rr_version = default_version, rr_kv_versions = Map.empty, rr_target_versions = Map.empty\<rparr>"

section \<open>The decision\<close>

datatype row_outcome = Applied | Pending | Dropped drop_reason

definition decide ::
    "op \<Rightarrow> str \<Rightarrow> str \<Rightarrow> str \<Rightarrow> write_status \<Rightarrow> init_state \<Rightarrow> auth_registry \<Rightarrow> bool \<Rightarrow> bool \<Rightarrow>
     row_outcome" where
  "decide op key signer_hex root_hex status init auth finalized key_exists =
     (let applied_or_pending =
            (case status of Confirmed \<Rightarrow> Applied | Confirming done required \<Rightarrow> Pending)
      in if finalized then Dropped Finalized
         else if op = Init then
           (if signer_hex \<noteq> root_hex then Dropped ForgedInit
            else if init \<noteq> Uninitialized then Dropped DuplicateInit
            else applied_or_pending)
         else if op \<in> {Set, SetL, Del} then
           (if \<not> is_initialized init then Dropped NotInitialized
            else (case authorize auth signer_hex op key_exists of
                    Inl reason \<Rightarrow> Dropped reason
                  | Inr u \<Rightarrow> applied_or_pending))
         else
           (if \<not> is_initialized init then Dropped NotInitialized
            else if \<not> is_owner auth signer_hex then Dropped NotOwner
            else applied_or_pending))"

definition seq_in_window ::
    "op \<Rightarrow> str \<Rightarrow> u64 \<Rightarrow> (str \<rightharpoonup> u64) \<Rightarrow> (str \<rightharpoonup> u64) \<Rightarrow> bool" where
  "seq_in_window op key seq kv_versions target_versions =
     (if \<not> is_versioned op then True
      else (let current = unwrap_or (if is_data op then kv_versions key else target_versions key) 0
            in current \<le> seq \<and> seq \<le> sat_add64 current VERSION_WINDOW))"

text \<open>\<open>bump_hw\<close>: \<open>seq + 1\<close> is a \<open>u64\<close> sum, and wraps.\<close>

definition bump_hw :: "(str \<rightharpoonup> u64) \<Rightarrow> str \<Rightarrow> u64 \<Rightarrow> (str \<rightharpoonup> u64)" where
  "bump_hw m key seq = m(key \<mapsto> max (unwrap_or (m key) 0) (seq + 1))"

definition recover_memo_signer :: "('pk, 'sk) crates \<Rightarrow> zkv_command \<Rightarrow> str \<Rightarrow> 'pk option" where
  "recover_memo_signer E cmd receiver = recover_signer E (payload_for E receiver cmd) (cmd_sig_hex cmd)"

definition key_confirmed :: "(str \<rightharpoonup> key_state) \<Rightarrow> str \<Rightarrow> bool" where
  "key_confirmed m key = (case m key of None \<Rightarrow> False | Some ks \<Rightarrow> confirmed ks \<noteq> None)"

text \<open>The \<open>ReplayView\<close> of a row is the receiver, the root identity and the current state.\<close>

definition classify_parsed ::
    "('pk, 'sk) crates \<Rightarrow> zkv_command \<Rightarrow> write_status \<Rightarrow> str \<Rightarrow> str \<Rightarrow> replay_result \<Rightarrow>
     str option \<times> row_outcome" where
  "classify_parsed E cmd status receiver root_hex r =
     (case recover_memo_signer E cmd receiver of
        None \<Rightarrow> (None, Dropped BadSignature)
      | Some signer \<Rightarrow>
          (let signer_hex = pubkey_bech32 E signer in
           if \<not> seq_in_window (cmd_op cmd) (cmd_key cmd) (cmd_seq cmd) (rr_kv_versions r)
                  (rr_target_versions r)
           then (Some signer_hex, Dropped StaleVersion)
           else (Some signer_hex,
                 decide (cmd_op cmd) (cmd_key cmd) signer_hex root_hex status (rr_init r) (rr_auth r)
                   (rr_finalized r) (key_confirmed (rr_state r) (cmd_key cmd)))))"

record classified =
  cl_op :: "op option"
  cl_key :: "str option"
  cl_value :: "str option"
  cl_sig_hex :: "str option"
  cl_signer_hex :: "str option"
  cl_seq :: u64
  cl_outcome :: row_outcome

definition unparsed :: "drop_reason \<Rightarrow> classified" where
  "unparsed reason =
     \<lparr>cl_op = None, cl_key = None, cl_value = None, cl_sig_hex = None, cl_signer_hex = None,
      cl_seq = 0, cl_outcome = Dropped reason\<rparr>"

definition classify_in_memory ::
    "('pk, 'sk) crates \<Rightarrow> str \<Rightarrow> write_status \<Rightarrow> str \<Rightarrow> str \<Rightarrow> replay_result \<Rightarrow>
     classified option" where
  "classify_in_memory E text status receiver root_hex r =
     (case parse_text_memo_detailed E text of
        Inr cmd \<Rightarrow>
          (let (signer_hex, outcome) = classify_parsed E cmd status receiver root_hex r in
           Some \<lparr>cl_op = Some (cmd_op cmd), cl_key = Some (cmd_key cmd), cl_value = cmd_value cmd,
                 cl_sig_hex = Some (cmd_sig_hex cmd), cl_signer_hex = signer_hex,
                 cl_seq = cmd_seq cmd, cl_outcome = outcome\<rparr>)
      | Inl NotZkv \<Rightarrow> None
      | Inl (UnsupportedVersion v) \<Rightarrow> Some (unparsed (DropUnsupportedVersion v))
      | Inl (Malformed fmt) \<Rightarrow> Some (unparsed (MalformedMemo fmt)))"

section \<open>The fold\<close>

definition entry_or_default :: "(str \<rightharpoonup> key_state) \<Rightarrow> str \<Rightarrow> key_state" where
  "entry_or_default m key = unwrap_or (m key) default_key_state"

fun result_outcome :: "drop_reason + unit \<Rightarrow> row_outcome" where
  "result_outcome (Inl reason) = Dropped reason"
| "result_outcome (Inr u) = Applied"

text \<open>The arm \<open>RowOutcome::Applied\<close>, on the operation.\<close>

definition apply_applied ::
    "('pk, 'sk) crates \<Rightarrow> op \<Rightarrow> classified \<Rightarrow> str \<Rightarrow> u32 option \<Rightarrow> str \<Rightarrow> replay_result \<Rightarrow>
     replay_result \<times> row_outcome" where
  "apply_applied E op c txid block_time root_hex r =
     (let key = unwrap_or (cl_key c) [] in
      case op of
        Init \<Rightarrow>
          (r\<lparr>rr_init := Initialized, rr_auth := insert_owner root_hex (rr_auth r)\<rparr>, Applied)
      | Version \<Rightarrow>
          (let (v, result) = apply_version key (cl_value c) (rr_version r) in
           (r\<lparr>rr_version := v\<rparr>, result_outcome result))
      | Set \<Rightarrow>
          (r\<lparr>rr_state := (rr_state r)(key \<mapsto> (entry_or_default (rr_state r) key)
               \<lparr>confirmed := cl_value c, updated_at := block_time, last_txid := Some txid\<rparr>),
             rr_kv_versions := bump_hw (rr_kv_versions r) key (cl_seq c)\<rparr>, Applied)
      | SetL \<Rightarrow>
          (r\<lparr>rr_state := (rr_state r)(key \<mapsto> (entry_or_default (rr_state r) key)
               \<lparr>confirmed := cl_value c, updated_at := block_time, last_txid := Some txid\<rparr>),
             rr_kv_versions := bump_hw (rr_kv_versions r) key (cl_seq c)\<rparr>, Applied)
      | Del \<Rightarrow>
          (r\<lparr>rr_state := (rr_state r)(key \<mapsto> (entry_or_default (rr_state r) key)
               \<lparr>confirmed := None\<rparr>),
             rr_kv_versions := bump_hw (rr_kv_versions r) key (cl_seq c)\<rparr>, Applied)
      | Finalize \<Rightarrow> (r\<lparr>rr_finalized := True\<rparr>, Applied)
      | _ \<Rightarrow>
          (let (a, result) = apply_management E op key (cl_value c) (rr_auth r) in
           (r\<lparr>rr_auth := a,
              rr_target_versions := bump_hw (rr_target_versions r) key (cl_seq c)\<rparr>,
            result_outcome result)))"

text \<open>The arm \<open>RowOutcome::Pending\<close> with a \<open>Confirming\<close> status.\<close>

definition apply_pending ::
    "op \<Rightarrow> classified \<Rightarrow> u32 \<Rightarrow> u32 \<Rightarrow> str \<Rightarrow> replay_result \<Rightarrow> replay_result" where
  "apply_pending op c done required txid r =
     (let key = unwrap_or (cl_key c) [];
          push = (\<lambda>p. (rr_state r)(key \<mapsto> (entry_or_default (rr_state r) key)
            \<lparr>pending := pending (entry_or_default (rr_state r) key) @ [p]\<rparr>)) in
      case op of
        Init \<Rightarrow> r\<lparr>rr_init := Initializing done required\<rparr>
      | Set \<Rightarrow>
          r\<lparr>rr_state := push (PSet (unwrap_or (cl_value c) []) done required txid),
            rr_kv_versions := bump_hw (rr_kv_versions r) key (cl_seq c)\<rparr>
      | SetL \<Rightarrow>
          r\<lparr>rr_state := push (PSet (unwrap_or (cl_value c) []) done required txid),
            rr_kv_versions := bump_hw (rr_kv_versions r) key (cl_seq c)\<rparr>
      | Del \<Rightarrow>
          r\<lparr>rr_state := push (PDel done required txid),
            rr_kv_versions := bump_hw (rr_kv_versions r) key (cl_seq c)\<rparr>
      | Finalize \<Rightarrow> r
      | Version \<Rightarrow> r
      | _ \<Rightarrow> r\<lparr>rr_target_versions := bump_hw (rr_target_versions r) key (cl_seq c)\<rparr>)"

definition apply_in_memory ::
    "('pk, 'sk) crates \<Rightarrow> classified \<Rightarrow> write_status \<Rightarrow> str \<Rightarrow> u32 option \<Rightarrow> str \<Rightarrow>
     replay_result \<Rightarrow> (replay_result \<times> row_outcome) option" where
  "apply_in_memory E c status txid block_time root_hex r =
     (case cl_outcome c of
        Dropped reason \<Rightarrow> Some (r, Dropped reason)
      | Applied \<Rightarrow>
          map_option (\<lambda>op. apply_applied E op c txid block_time root_hex r) (cl_op c)
      | Pending \<Rightarrow>
          map_option
            (\<lambda>op. case status of
               Confirming done required \<Rightarrow> (apply_pending op c done required txid r, Pending)
             | Confirmed \<Rightarrow> (r, Pending))
            (cl_op c))"

section \<open>Replay with a seed\<close>

datatype replay_error =
  ForeignMemo str | MalformedText str | UnsupportedText u32 str | InvalidSignature str | Panicked

text \<open>The rows on which a strict caller bails.\<close>

definition strict_bail :: "str \<Rightarrow> classified \<Rightarrow> replay_error option" where
  "strict_bail text c =
     (case cl_outcome c of
        Dropped (MalformedMemo f) \<Rightarrow> Some (MalformedText text)
      | Dropped (DropUnsupportedVersion v) \<Rightarrow> Some (UnsupportedText v text)
      | Dropped BadSignature \<Rightarrow> Some (InvalidSignature (unwrap_or (cl_key c) []))
      | _ \<Rightarrow> None)"

fun replay_loop ::
    "('pk, 'sk) crates \<Rightarrow> str \<Rightarrow> str \<Rightarrow> bool \<Rightarrow> replay_entry list \<Rightarrow> replay_result \<Rightarrow>
     replay_error + replay_result" where
  "replay_loop E receiver root_hex strict [] r = Ok r"
| "replay_loop E receiver root_hex strict (e # es) r =
     (case classify_in_memory E (re_text e) (re_status e) receiver root_hex r of
        None \<Rightarrow>
          (if strict then Err (ForeignMemo (re_text e))
           else replay_loop E receiver root_hex strict es r)
      | Some c \<Rightarrow>
          (case (if strict then strict_bail (re_text e) c else None) of
             Some err \<Rightarrow> Err err
           | None \<Rightarrow>
               (case apply_in_memory E c (re_status e) (re_txid e) (re_block_time e) root_hex r of
                  None \<Rightarrow> Err Panicked
                | Some (r', outcome) \<Rightarrow> replay_loop E receiver root_hex strict es r')))"

definition clear_pending :: "(str \<rightharpoonup> key_state) \<Rightarrow> (str \<rightharpoonup> key_state)" where
  "clear_pending m = (\<lambda>k. map_option (\<lambda>ks. ks\<lparr>pending := []\<rparr>) (m k))"

definition retained :: "key_state \<Rightarrow> bool" where
  "retained ks \<longleftrightarrow> confirmed ks \<noteq> None \<or> list_ex is_pending_set (pending ks)"

definition prune :: "(str \<rightharpoonup> key_state) \<Rightarrow> (str \<rightharpoonup> key_state)" where
  "prune m = (\<lambda>k. case m k of None \<Rightarrow> None | Some ks \<Rightarrow> if retained ks then Some ks else None)"

definition replay_start :: "replay_result option \<Rightarrow> replay_result" where
  "replay_start seed =
     (case seed of None \<Rightarrow> empty_replay | Some s \<Rightarrow> s\<lparr>rr_state := clear_pending (rr_state s)\<rparr>)"

definition replay_with_seed ::
    "('pk, 'sk) crates \<Rightarrow> replay_entry list \<Rightarrow> replay_result option \<Rightarrow> str \<Rightarrow> 'pk \<Rightarrow> bool \<Rightarrow>
     replay_error + replay_result" where
  "replay_with_seed E entries seed receiver pk strict =
     try_ok (replay_loop E receiver (pubkey_bech32 E pk) strict entries (replay_start seed))
       (\<lambda>r. Ok (r\<lparr>rr_state := prune (rr_state r)\<rparr>))"

end
