(* ===== verification/Protocol_Spec.thy ===== *)
theory Protocol_Spec
  imports Auth_Registry Db_Version
begin

text \<open>
  What the protocol promises, without memos, signatures on the wire, pending queues or machine
  integers: a database is its phase, its confirmed values, the registry, the seal, the epoch, and one
  counter per key and per management target. \<open>db_step\<close> lists the only ways it may change, each under
  its guard; the label names the signer and what was signed. \<open>Replay_Refines\<close> shows that the
  replay of the Rust code takes only such steps.
\<close>

section \<open>The abstract database\<close>

record adb =
  a_phase :: init_state
  a_values :: "str \<rightharpoonup> str"
  a_auth :: auth_registry
  a_sealed :: bool
  a_epoch :: version_state
  a_key_hw :: "str \<Rightarrow> nat"
  a_target_hw :: "str \<Rightarrow> nat"

definition adb_empty :: adb where
  "adb_empty =
     \<lparr>a_phase = Uninitialized, a_values = Map.empty, a_auth = empty_auth, a_sealed = False,
      a_epoch = default_version, a_key_hw = (\<lambda>_. 0), a_target_hw = (\<lambda>_. 0)\<rparr>"

text \<open>A sequence number is fresh when it lies in the window that starts at the counter.\<close>

definition fresh :: "nat \<Rightarrow> nat \<Rightarrow> bool" where
  "fresh hw seq \<longleftrightarrow> hw \<le> seq \<and> seq \<le> hw + 256"

definition live :: "adb \<Rightarrow> bool" where
  "live s \<longleftrightarrow> \<not> a_sealed s \<and> a_phase s = Initialized"

record label =
  l_signer :: str
  l_op :: op
  l_key :: str
  l_value :: "str option"
  l_seq :: nat

text \<open>The data write a label stands for may be made in \<open>s\<close>.\<close>

definition may_change :: "adb \<Rightarrow> label \<Rightarrow> bool" where
  "may_change s l \<longleftrightarrow>
     live s \<and> fresh (a_key_hw s (l_key l)) (l_seq l) \<and>
     holds_capability (a_auth s) (l_signer l)
       (required_capability (l_op l) (a_values s (l_key l) \<noteq> None))"

definition may_manage :: "adb \<Rightarrow> label \<Rightarrow> bool" where
  "may_manage s l \<longleftrightarrow>
     live s \<and> fresh (a_target_hw s (l_key l)) (l_seq l) \<and> l_signer l \<in> owners (a_auth s)"

abbreviation bump_key :: "label \<Rightarrow> adb \<Rightarrow> adb" where
  "bump_key l s \<equiv> s\<lparr>a_key_hw := (a_key_hw s)(l_key l := Suc (l_seq l))\<rparr>"

abbreviation bump_target :: "label \<Rightarrow> adb \<Rightarrow> adb" where
  "bump_target l s \<equiv> s\<lparr>a_target_hw := (a_target_hw s)(l_key l := Suc (l_seq l))\<rparr>"

inductive db_step :: "('pk, 'sk) crates \<Rightarrow> str \<Rightarrow> label \<Rightarrow> adb \<Rightarrow> adb \<Rightarrow> bool"
  for E :: "('pk, 'sk) crates" and root :: str where
  skip: "db_step E root l s s"
| claim:
    "\<not> a_sealed s \<Longrightarrow> a_phase s = Uninitialized \<Longrightarrow> l_op l = Init \<Longrightarrow> l_signer l = root \<Longrightarrow>
     db_step E root l s (s\<lparr>a_phase := Initialized, a_auth := insert_owner root (a_auth s)\<rparr>)"
| claim_seen:
    "\<not> a_sealed s \<Longrightarrow> a_phase s = Uninitialized \<Longrightarrow> l_op l = Init \<Longrightarrow> l_signer l = root \<Longrightarrow>
     db_step E root l s (s\<lparr>a_phase := Initializing d q\<rparr>)"
| put:
    "may_change s l \<Longrightarrow> l_op l = Set \<or> l_op l = SetL \<Longrightarrow>
     db_step E root l s (bump_key l (s\<lparr>a_values := (a_values s)(l_key l := l_value l)\<rparr>))"
| erase:
    "may_change s l \<Longrightarrow> l_op l = Del \<Longrightarrow>
     db_step E root l s (bump_key l (s\<lparr>a_values := (a_values s)(l_key l := None)\<rparr>))"
| change_seen:
    "may_change s l \<Longrightarrow> is_data (l_op l) \<Longrightarrow> db_step E root l s (bump_key l s)"
| manage:
    "may_manage s l \<Longrightarrow> l_op l \<in> {OwnerAdd, OwnerDel, WriterAdd, WriterDel} \<Longrightarrow>
     db_step E root l s (bump_target l
       (s\<lparr>a_auth := fst (apply_management E (l_op l) (l_key l) (l_value l) (a_auth s))\<rparr>))"
| manage_seen:
    "may_manage s l \<Longrightarrow> l_op l \<in> {OwnerAdd, OwnerDel, WriterAdd, WriterDel} \<Longrightarrow>
     db_step E root l s (bump_target l s)"
| announce:
    "live s \<Longrightarrow> l_signer l \<in> owners (a_auth s) \<Longrightarrow> l_op l = Version \<Longrightarrow>
     db_step E root l s (s\<lparr>a_epoch := fst (apply_version (l_key l) (l_value l) (a_epoch s))\<rparr>)"
| seal:
    "live s \<Longrightarrow> l_signer l \<in> owners (a_auth s) \<Longrightarrow> l_op l = Finalize \<Longrightarrow>
     db_step E root l s (s\<lparr>a_sealed := True\<rparr>)"

inductive_cases db_stepE: "db_step E root l s s'"

text \<open>Runs, with the number of steps taken.\<close>

inductive db_run :: "('pk, 'sk) crates \<Rightarrow> str \<Rightarrow> nat \<Rightarrow> adb \<Rightarrow> adb \<Rightarrow> bool"
  for E :: "('pk, 'sk) crates" and root :: str where
  start: "db_run E root 0 s s"
| more: "db_run E root n s t \<Longrightarrow> db_step E root l t u \<Longrightarrow> db_run E root (Suc n) s u"

section \<open>Invariants\<close>

definition unborn :: "adb \<Rightarrow> bool" where
  "unborn s \<longleftrightarrow>
     a_values s = Map.empty \<and> a_auth s = empty_auth \<and> \<not> a_sealed s \<and> a_epoch s = default_version \<and>
     a_key_hw s = (\<lambda>_. 0) \<and> a_target_hw s = (\<lambda>_. 0)"

definition adb_inv :: "('pk, 'sk) crates \<Rightarrow> adb \<Rightarrow> bool" where
  "adb_inv E s \<longleftrightarrow>
     auth_wf (a_auth s) \<and> auth_canonical E (a_auth s) \<and>
     (if a_phase s = Initialized then owners (a_auth s) \<noteq> {} else unborn s)"

lemma adb_inv_empty [simp]: "adb_inv E adb_empty"
  by (simp add: adb_inv_def unborn_def adb_empty_def auth_canonical_def empty_auth_def auth_wf_def)

lemma auth_canonical_insert_owner:
  "auth_canonical E a \<Longrightarrow> canonical_pubkey E root = Some root \<Longrightarrow>
   auth_canonical E (insert_owner root a)"
  by (auto simp: auth_canonical_def split: if_splits)

lemma adb_inv_step:
  assumes "db_step E root l s s'" and "adb_inv E s"
    and "bech32_laws E" and "key_laws E" and "canonical_pubkey E root = Some root"
  shows "adb_inv E s'"
  using assms(1,2)
proof cases
  case claim
  with assms show ?thesis
    by (auto simp: adb_inv_def auth_wf_insert_owner auth_canonical_insert_owner)
next
  case manage
  with assms(2) have "owners (a_auth s) \<noteq> {}" and "auth_wf (a_auth s)" and "auth_canonical E (a_auth s)"
    and "a_phase s = Initialized"
    by (auto simp: adb_inv_def may_manage_def live_def)
  with manage assms(3,4) show ?thesis
    by (auto simp: adb_inv_def auth_wf_apply_management canonical_apply_management
        owners_apply_management_nonempty auth_wf_def [of "a_auth s"])
qed (auto simp: adb_inv_def unborn_def may_change_def may_manage_def live_def)

lemma adb_inv_run:
  assumes "db_run E root n s s'" and "adb_inv E s"
    and "bech32_laws E" and "key_laws E" and "canonical_pubkey E root = Some root"
  shows "adb_inv E s'"
  using assms
proof (induction rule: db_run.induct)
  case (more n s t l u)
  then show ?case using adb_inv_step [OF more(2)] by blast
qed

text \<open>The counters never fall, and grow by at most 257 a step.\<close>

lemma db_step_mono:
  assumes "db_step E root l s s'"
  shows "a_key_hw s k \<le> a_key_hw s' k \<and> a_target_hw s k \<le> a_target_hw s' k"
  using assms by cases (auto simp: may_change_def may_manage_def fresh_def)

lemma db_run_mono:
  "db_run E root n s s' \<Longrightarrow> a_key_hw s k \<le> a_key_hw s' k \<and> a_target_hw s k \<le> a_target_hw s' k"
proof (induction rule: db_run.induct)
  case (more n s t l u)
  with db_step_mono [OF more(2), of k] show ?case by linarith
qed simp

definition hw_below :: "nat \<Rightarrow> adb \<Rightarrow> bool" where
  "hw_below b s \<longleftrightarrow> (\<forall>k. a_key_hw s k \<le> b \<and> a_target_hw s k \<le> b)"

lemma hw_below_step:
  assumes "db_step E root l s s'" and "hw_below b s"
  shows "hw_below (b + 257) s'"
proof -
  have "a_key_hw s k \<le> b" "a_target_hw s k \<le> b" for k
    using assms(2) by (simp_all add: hw_below_def)
  note b = this this [of "l_key l"]
  from assms(1) show ?thesis
    using b by cases (auto simp: hw_below_def may_change_def may_manage_def fresh_def
        intro: le_trans trans_le_add1)
qed

text \<open>A sealed database never changes again, and a value changes only by an authorized write.\<close>

lemma sealed_stuck: "db_step E root l s s' \<Longrightarrow> a_sealed s \<Longrightarrow> s' = s"
  by (auto simp: may_change_def may_manage_def live_def elim!: db_stepE)

lemma value_change_authorized:
  "db_step E root l s s' \<Longrightarrow> a_values s' k \<noteq> a_values s k \<Longrightarrow>
   l_key l = k \<and> is_data (l_op l) \<and> may_change s l"
  by (auto elim!: db_stepE split: if_splits)

lemma auth_change_authorized:
  "db_step E root l s s' \<Longrightarrow> a_auth s' \<noteq> a_auth s \<Longrightarrow>
   (l_op l = Init \<and> l_signer l = root \<and> a_phase s = Uninitialized) \<or>
   (l_op l \<in> {OwnerAdd, OwnerDel, WriterAdd, WriterDel} \<and> may_manage s l)"
  by (auto elim!: db_stepE)

lemma not_live_stuck:
  "db_step E root l s s' \<Longrightarrow> a_phase s \<noteq> Initialized \<Longrightarrow> l_op l \<noteq> Init \<Longrightarrow> s' = s"
  by (auto simp: may_change_def may_manage_def live_def elim!: db_stepE)

lemma phase_monotone: "db_step E root l s s' \<Longrightarrow> a_phase s = Initialized \<Longrightarrow> a_phase s' = Initialized"
  by (auto elim!: db_stepE)

end
