(* ===== verification/Replay_Refines.thy ===== *)
theory Replay_Refines
  imports Replay Protocol_Spec
begin

text \<open>
  The replay of \<open>Replay\<close> refines the protocol of \<open>Protocol_Spec\<close>. \<open>honor\<close> is what a lenient
  replay does with one entry; an entry is \<open>admitted\<close> when its memo parses, its signer is
  recovered, its sequence is in the window and \<open>decide\<close> does not drop it. Every other entry
  leaves the state as it is; an admitted one takes the abstract step its label names.
\<close>

section \<open>One entry\<close>

definition honor ::
    "('pk, 'sk) crates \<Rightarrow> str \<Rightarrow> str \<Rightarrow> replay_entry \<Rightarrow> replay_result \<Rightarrow>
     replay_result \<times> row_outcome option" where
  "honor E receiver root_hex e r =
     (case classify_in_memory E (re_text e) (re_status e) receiver root_hex r of
        None \<Rightarrow> (r, None)
      | Some c \<Rightarrow>
          (case apply_in_memory E c (re_status e) (re_txid e) (re_block_time e) root_hex r of
             None \<Rightarrow> (r, None)
           | Some (r', outcome) \<Rightarrow> (r', Some outcome)))"

definition admitted ::
    "('pk, 'sk) crates \<Rightarrow> str \<Rightarrow> str \<Rightarrow> replay_entry \<Rightarrow> replay_result \<Rightarrow> zkv_command \<Rightarrow> str \<Rightarrow> bool" where
  "admitted E receiver root_hex e r cmd signer \<longleftrightarrow>
     parse_text_memo_detailed E (re_text e) = Ok cmd \<and>
     map_option (pubkey_bech32 E) (recover_memo_signer E cmd receiver) = Some signer \<and>
     seq_in_window (cmd_op cmd) (cmd_key cmd) (cmd_seq cmd) (rr_kv_versions r) (rr_target_versions r) \<and>
     (\<forall>reason. decide (cmd_op cmd) (cmd_key cmd) signer root_hex (re_status e) (rr_init r) (rr_auth r)
        (rr_finalized r) (key_confirmed (rr_state r) (cmd_key cmd)) \<noteq> Dropped reason)"

definition classified_of :: "zkv_command \<Rightarrow> str \<Rightarrow> row_outcome \<Rightarrow> classified" where
  "classified_of cmd signer outcome =
     \<lparr>cl_op = Some (cmd_op cmd), cl_key = Some (cmd_key cmd), cl_value = cmd_value cmd,
      cl_sig_hex = Some (cmd_sig_hex cmd), cl_signer_hex = Some signer, cl_seq = cmd_seq cmd,
      cl_outcome = outcome\<rparr>"

lemma classified_of_sel [simp]:
  "cl_op (classified_of cmd signer out) = Some (cmd_op cmd)"
  "cl_key (classified_of cmd signer out) = Some (cmd_key cmd)"
  "cl_value (classified_of cmd signer out) = cmd_value cmd"
  "cl_seq (classified_of cmd signer out) = cmd_seq cmd"
  "cl_outcome (classified_of cmd signer out) = out"
  "cl_signer_hex (classified_of cmd signer out) = Some signer"
  by (simp_all add: classified_of_def)

lemma decide_not_dropped:
  "(\<forall>reason. decide op key signer root status init auth fin ex \<noteq> Dropped reason) \<longleftrightarrow>
   decide op key signer root status init auth fin ex =
     (case status of Confirmed \<Rightarrow> Applied | Confirming d q \<Rightarrow> Pending)"
  by (auto simp: decide_def Let_def split: write_status.splits sum.splits)

lemma decide_admits:
  assumes "\<forall>reason. decide op key signer root status init auth fin ex \<noteq> Dropped reason"
  shows "\<not> fin" and "op = Init \<Longrightarrow> signer = root \<and> init = Uninitialized"
    and "is_data op \<Longrightarrow> init = Initialized \<and> holds_capability auth signer (required_capability op ex)"
    and "op \<noteq> Init \<Longrightarrow> \<not> is_data op \<Longrightarrow> init = Initialized \<and> signer \<in> owners auth"
proof -
  show "\<not> fin" using assms by (auto simp: decide_def)
  show "op = Init \<Longrightarrow> signer = root \<and> init = Uninitialized"
    using assms \<open>\<not> fin\<close> by (auto simp: decide_def split: if_splits)
  show "op \<noteq> Init \<Longrightarrow> \<not> is_data op \<Longrightarrow> init = Initialized \<and> signer \<in> owners auth"
    using assms \<open>\<not> fin\<close> by (auto simp: decide_def is_owner_def split: if_splits)
  show "init = Initialized \<and> holds_capability auth signer (required_capability op ex)" if d: "is_data op"
  proof -
    have "init = Initialized" and "authorize auth signer op ex = Ok ()"
      using assms \<open>\<not> fin\<close> d
      by (cases "authorize auth signer op ex"; auto simp: decide_def split: if_splits)+
    with authorize_data_iff [OF d] show ?thesis by blast
  qed
qed

text \<open>A classified row carries its operation, so \<open>apply_in_memory\<close> cannot panic on it.\<close>

lemma classify_op:
  assumes "classify_in_memory E t s receiver root r = Some c"
  shows "cl_op c \<noteq> None \<or> (\<exists>reason. cl_outcome c = Dropped reason)"
  using assms
  by (auto simp: classify_in_memory_def unparsed_def Let_def
      split: sum.splits memo_reject.splits prod.splits)

lemma apply_in_memory_total:
  assumes "classify_in_memory E t s receiver root r = Some c"
  shows "\<exists>r' out. apply_in_memory E c s txid bt root r = Some (r', out)"
  using classify_op [OF assms]
  by (cases "cl_outcome c") (auto simp: apply_in_memory_def split: prod.splits)

lemma classify_admitted:
  assumes "admitted E receiver root e r cmd signer"
  shows "classify_in_memory E (re_text e) (re_status e) receiver root r =
         Some (classified_of cmd signer
           (case re_status e of Confirmed \<Rightarrow> Applied | Confirming d q \<Rightarrow> Pending))"
  using assms
  by (auto simp: admitted_def classify_in_memory_def classify_parsed_def classified_of_def
      decide_not_dropped Let_def)

lemma classify_not_admitted:
  assumes "\<nexists>cmd signer. admitted E receiver root e r cmd signer"
    and "classify_in_memory E (re_text e) (re_status e) receiver root r = Some c"
  shows "\<exists>reason. cl_outcome c = Dropped reason"
proof (cases "parse_text_memo_detailed E (re_text e)")
  case (Inl err)
  with assms(2) show ?thesis
    by (auto simp: classify_in_memory_def unparsed_def split: memo_reject.splits)
next
  case (Inr cmd)
  have "\<exists>reason. snd (classify_parsed E cmd (re_status e) receiver root r) = Dropped reason"
  proof (rule ccontr)
    assume nd: "\<nexists>reason. snd (classify_parsed E cmd (re_status e) receiver root r) = Dropped reason"
    then obtain pk where "recover_memo_signer E cmd receiver = Some pk"
      by (cases "recover_memo_signer E cmd receiver") (auto simp: classify_parsed_def)
    with nd Inr have "admitted E receiver root e r cmd (pubkey_bech32 E pk)"
      by (auto simp: admitted_def classify_parsed_def Let_def split: if_splits)
    with assms(1) show False by blast
  qed
  with assms(2) Inr show ?thesis
    by (auto simp: classify_in_memory_def Let_def split: prod.splits)
qed

lemma honor_admitted:
  assumes "admitted E receiver root e r cmd signer"
  shows "honor E receiver root e r =
     (case re_status e of
        Confirmed \<Rightarrow>
          map_prod id Some (apply_applied E (cmd_op cmd) (classified_of cmd signer Applied)
            (re_txid e) (re_block_time e) root r)
      | Confirming d q \<Rightarrow>
          (apply_pending (cmd_op cmd) (classified_of cmd signer Pending) d q (re_txid e) r,
           Some Pending))"
  using classify_admitted [OF assms]
  by (auto simp: honor_def apply_in_memory_def split: write_status.splits prod.splits)

lemma honor_not_admitted:
  assumes "\<nexists>cmd signer. admitted E receiver root e r cmd signer"
  shows "fst (honor E receiver root e r) = r"
    and "snd (honor E receiver root e r) = None \<or>
         (\<exists>reason. snd (honor E receiver root e r) = Some (Dropped reason))"
  using classify_not_admitted [OF assms]
  by (auto simp: honor_def apply_in_memory_def split: option.splits prod.splits)

section \<open>The loop is a fold\<close>

definition honor_all ::
    "('pk, 'sk) crates \<Rightarrow> str \<Rightarrow> str \<Rightarrow> replay_entry list \<Rightarrow> replay_result \<Rightarrow> replay_result" where
  "honor_all E receiver root_hex es r = foldl (\<lambda>r e. fst (honor E receiver root_hex e r)) r es"

lemma honor_all_simps [simp]:
  "honor_all E receiver root [] r = r"
  "honor_all E receiver root (e # es) r = honor_all E receiver root es (fst (honor E receiver root e r))"
  "honor_all E receiver root (es @ fs) r = honor_all E receiver root fs (honor_all E receiver root es r)"
  by (simp_all add: honor_all_def)

lemma replay_loop_lenient:
  "replay_loop E receiver root False es r = Ok (honor_all E receiver root es r)"
proof (induction es arbitrary: r)
  case (Cons e es)
  show ?case
  proof (cases "classify_in_memory E (re_text e) (re_status e) receiver root r")
    case None
    with Cons show ?thesis by (simp add: honor_def)
  next
    case (Some c)
    from apply_in_memory_total [OF Some] obtain r' out
      where "apply_in_memory E c (re_status e) (re_txid e) (re_block_time e) root r = Some (r', out)"
      by blast
    with Some Cons show ?thesis by (simp add: honor_def)
  qed
qed simp

lemma replay_loop_strict:
  "replay_loop E receiver root True es r = Ok r' \<Longrightarrow> r' = honor_all E receiver root es r"
proof (induction es arbitrary: r)
  case (Cons e es)
  from Cons.prems show ?case
    by (auto simp: honor_def dest!: Cons.IH split: option.splits prod.splits)
qed simp

lemma replay_lenient:
  "replay_with_seed E es seed receiver pk False =
     Ok (let r = honor_all E receiver (pubkey_bech32 E pk) es (replay_start seed)
         in r\<lparr>rr_state := prune (rr_state r)\<rparr>)"
  by (simp add: replay_with_seed_def replay_loop_lenient Let_def)

section \<open>Refinement\<close>

definition hw :: "(str \<rightharpoonup> u64) \<Rightarrow> str \<Rightarrow> nat" where
  "hw m k = unat (unwrap_or (m k) 0)"

definition confirmed_values :: "(str \<rightharpoonup> key_state) \<Rightarrow> (str \<rightharpoonup> str)" where
  "confirmed_values m = (\<lambda>k. Option.bind (m k) confirmed)"

definition abs_db :: "replay_result \<Rightarrow> adb" where
  "abs_db r =
     \<lparr>a_phase = rr_init r, a_values = confirmed_values (rr_state r), a_auth = rr_auth r,
      a_sealed = rr_finalized r, a_epoch = rr_version r, a_key_hw = hw (rr_kv_versions r),
      a_target_hw = hw (rr_target_versions r)\<rparr>"

definition label_of :: "zkv_command \<Rightarrow> str \<Rightarrow> label" where
  "label_of cmd signer =
     \<lparr>l_signer = signer, l_op = cmd_op cmd, l_key = cmd_key cmd, l_value = cmd_value cmd,
      l_seq = unat (cmd_seq cmd)\<rparr>"

lemma key_confirmed_iff: "key_confirmed m k \<longleftrightarrow> confirmed_values m k \<noteq> None"
  by (cases "m k") (simp_all add: key_confirmed_def confirmed_values_def)

lemma window_fresh:
  "seq_in_window op key seq kv tv \<Longrightarrow> is_versioned op \<Longrightarrow>
   fresh (hw (if is_data op then kv else tv) key) (unat seq)"
  by (auto simp: seq_in_window_def fresh_def hw_def Let_def word_le_nat_alt unat_sat_add64
      VERSION_WINDOW_def)

lemma hw_bump:
  assumes "hw m key \<le> Suc (unat seq)" and "unat seq < u64_max"
  shows "hw (bump_hw m key seq) = (hw m)(key := Suc (unat seq))"
proof -
  have s: "unat (seq + 1) = Suc (unat seq)"
    using assms(2) unat_word_ariths(1) [of seq 1] by (simp add: u64_max_def)
  have "unat (max a (seq + 1)) = Suc (unat seq)" if "unat a \<le> Suc (unat seq)" for a :: u64
    using that s by (auto simp: max_def word_le_nat_alt)
  with assms(1) show ?thesis by (auto simp: fun_eq_iff hw_def bump_hw_def)
qed

lemma confirmed_values_put:
  "confirmed_values (m(k \<mapsto> ks)) = (confirmed_values m)(k := confirmed ks)"
  by (auto simp: confirmed_values_def fun_eq_iff)

lemma confirmed_entry: "confirmed (entry_or_default m k) = confirmed_values m k"
  by (cases "m k") (simp_all add: entry_or_default_def default_key_state_def confirmed_values_def)

lemma abs_db_sel [simp]:
  "a_phase (abs_db r) = rr_init r" "a_values (abs_db r) = confirmed_values (rr_state r)"
  "a_auth (abs_db r) = rr_auth r" "a_sealed (abs_db r) = rr_finalized r"
  "a_epoch (abs_db r) = rr_version r" "a_key_hw (abs_db r) = hw (rr_kv_versions r)"
  "a_target_hw (abs_db r) = hw (rr_target_versions r)"
  by (simp_all add: abs_db_def)

lemma label_of_sel [simp]:
  "l_signer (label_of cmd signer) = signer" "l_op (label_of cmd signer) = cmd_op cmd"
  "l_key (label_of cmd signer) = cmd_key cmd" "l_value (label_of cmd signer) = cmd_value cmd"
  "l_seq (label_of cmd signer) = unat (cmd_seq cmd)"
  by (simp_all add: label_of_def)

lemma admitted_seq_bound:
  assumes "admitted E receiver root e r cmd signer" and "is_versioned (cmd_op cmd)"
    and "hw_below b (abs_db r)" and "b + 257 < 2 ^ 64"
  shows "unat (cmd_seq cmd) < u64_max"
    and "fresh (hw (if is_data (cmd_op cmd) then rr_kv_versions r else rr_target_versions r)
           (cmd_key cmd)) (unat (cmd_seq cmd))"
proof -
  show f: "fresh (hw (if is_data (cmd_op cmd) then rr_kv_versions r else rr_target_versions r)
      (cmd_key cmd)) (unat (cmd_seq cmd))"
    using assms(1,2) window_fresh by (auto simp: admitted_def)
  have "hw (if is_data (cmd_op cmd) then rr_kv_versions r else rr_target_versions r) (cmd_key cmd) \<le> b"
    using assms(3) by (simp add: hw_below_def)
  with f have "unat (cmd_seq cmd) \<le> b + 256" by (simp add: fresh_def)
  with assms(4) show "unat (cmd_seq cmd) < u64_max" by (simp add: u64_max_def)
qed

lemma admitted_guards:
  assumes "admitted E receiver root e r cmd signer"
    and "hw_below b (abs_db r)" and "b + 257 < 2 ^ 64"
  shows "is_data (cmd_op cmd) \<Longrightarrow> may_change (abs_db r) (label_of cmd signer)"
    and "cmd_op cmd \<in> {OwnerAdd, OwnerDel, WriterAdd, WriterDel} \<Longrightarrow>
         may_manage (abs_db r) (label_of cmd signer)"
    and "cmd_op cmd \<in> {Version, Finalize} \<Longrightarrow> live (abs_db r) \<and> signer \<in> owners (rr_auth r)"
    and "cmd_op cmd = Init \<Longrightarrow> signer = root \<and> rr_init r = Uninitialized \<and> \<not> rr_finalized r"
proof -
  have nd: "\<forall>reason. decide (cmd_op cmd) (cmd_key cmd) signer root (re_status e) (rr_init r)
      (rr_auth r) (rr_finalized r) (key_confirmed (rr_state r) (cmd_key cmd)) \<noteq> Dropped reason"
    using assms(1) by (simp add: admitted_def)
  note d = decide_admits [OF nd] and f = admitted_seq_bound(2) [OF assms(1) _ assms(2,3)]
  show "may_change (abs_db r) (label_of cmd signer)" if "is_data (cmd_op cmd)"
    using d(1) d(3) [OF that] f that
    by (cases "cmd_op cmd") (auto simp: may_change_def live_def key_confirmed_iff)
  show "may_manage (abs_db r) (label_of cmd signer)"
    if "cmd_op cmd \<in> {OwnerAdd, OwnerDel, WriterAdd, WriterDel}"
    using d(1,4) f that by (auto simp: may_manage_def live_def)
  show "live (abs_db r) \<and> signer \<in> owners (rr_auth r)" if "cmd_op cmd \<in> {Version, Finalize}"
    using d(1,4) that by (auto simp: live_def)
  show "signer = root \<and> rr_init r = Uninitialized \<and> \<not> rr_finalized r" if "cmd_op cmd = Init"
    using d(1,2) that by simp
qed

lemma admitted_bump:
  assumes "admitted E receiver root e r cmd signer" and "hw_below b (abs_db r)" and "b + 257 < 2 ^ 64"
  shows "is_data (cmd_op cmd) \<Longrightarrow>
           hw (bump_hw (rr_kv_versions r) (cmd_key cmd) (cmd_seq cmd)) =
           (hw (rr_kv_versions r))(cmd_key cmd := Suc (unat (cmd_seq cmd)))"
    and "cmd_op cmd \<in> {OwnerAdd, OwnerDel, WriterAdd, WriterDel} \<Longrightarrow>
           hw (bump_hw (rr_target_versions r) (cmd_key cmd) (cmd_seq cmd)) =
           (hw (rr_target_versions r))(cmd_key cmd := Suc (unat (cmd_seq cmd)))"
  using admitted_seq_bound [OF assms(1) _ assms(2,3)]
  by (auto intro!: hw_bump simp: fresh_def)

lemma abs_db_update:
  "abs_db (r\<lparr>rr_state := m\<rparr>) = (abs_db r)\<lparr>a_values := confirmed_values m\<rparr>"
  "abs_db (r\<lparr>rr_kv_versions := v\<rparr>) = (abs_db r)\<lparr>a_key_hw := hw v\<rparr>"
  "abs_db (r\<lparr>rr_target_versions := v\<rparr>) = (abs_db r)\<lparr>a_target_hw := hw v\<rparr>"
  "abs_db (r\<lparr>rr_auth := a\<rparr>) = (abs_db r)\<lparr>a_auth := a\<rparr>"
  "abs_db (r\<lparr>rr_init := i\<rparr>) = (abs_db r)\<lparr>a_phase := i\<rparr>"
  "abs_db (r\<lparr>rr_version := w\<rparr>) = (abs_db r)\<lparr>a_epoch := w\<rparr>"
  "abs_db (r\<lparr>rr_finalized := b\<rparr>) = (abs_db r)\<lparr>a_sealed := b\<rparr>"
  by (simp_all add: abs_db_def)

lemma abs_db_same_values:
  "(abs_db r)\<lparr>a_values := confirmed_values (rr_state r)\<rparr> = abs_db r"
  by (simp add: abs_db_def)

lemma simulates_confirmed:
  assumes "admitted E receiver root e r cmd signer" and "hw_below b (abs_db r)" and "b + 257 < 2 ^ 64"
  shows "db_step E root (label_of cmd signer) (abs_db r)
     (abs_db (fst (apply_applied E (cmd_op cmd) (classified_of cmd signer out) txid bt root r)))"
proof -
  note g = admitted_guards [OF assms] and u = admitted_bump [OF assms]
  let ?l = "label_of cmd signer"
  consider "cmd_op cmd = Set \<or> cmd_op cmd = SetL" | "cmd_op cmd = Del"
    | "cmd_op cmd \<in> {OwnerAdd, OwnerDel, WriterAdd, WriterDel}" | "cmd_op cmd = Version"
    | "cmd_op cmd = Finalize" | "cmd_op cmd = Init"
    by (cases "cmd_op cmd") auto
  then show ?thesis
  proof cases
    case 1
    then have "may_change (abs_db r) ?l" and "l_op ?l = Set \<or> l_op ?l = SetL" using g by auto
    from put [OF this, of E root] 1 u(1) show ?thesis
      by (auto simp: apply_applied_def Let_def abs_db_update confirmed_values_put)
  next
    case 2
    then have "may_change (abs_db r) ?l" and "l_op ?l = Del" using g by auto
    from erase [OF this, of E root] 2 u(1) show ?thesis
      by (auto simp: apply_applied_def Let_def abs_db_update confirmed_values_put)
  next
    case 3
    then have "may_manage (abs_db r) ?l" and "l_op ?l \<in> {OwnerAdd, OwnerDel, WriterAdd, WriterDel}"
      using g by auto
    from manage [OF this, of E root] 3 u(2) show ?thesis
      by (auto simp: apply_applied_def Let_def abs_db_update split: prod.splits)
  next
    case 4
    then have "live (abs_db r)" and "l_signer ?l \<in> owners (a_auth (abs_db r))" and "l_op ?l = Version"
      using g by auto
    from announce [OF this, of E root] 4 show ?thesis
      by (auto simp: apply_applied_def Let_def abs_db_update split: prod.splits)
  next
    case 5
    then have "live (abs_db r)" and "l_signer ?l \<in> owners (a_auth (abs_db r))" and "l_op ?l = Finalize"
      using g by auto
    from seal [OF this, of E root] 5 show ?thesis
      by (auto simp: apply_applied_def abs_db_update)
  next
    case 6
    then have "\<not> a_sealed (abs_db r)" "a_phase (abs_db r) = Uninitialized" "l_op ?l = Init"
      "l_signer ?l = root" using g by auto
    from claim [OF this, of E] 6 show ?thesis
      by (auto simp: apply_applied_def abs_db_update)
  qed
qed

lemma simulates_pending:
  assumes "admitted E receiver root e r cmd signer" and "hw_below b (abs_db r)" and "b + 257 < 2 ^ 64"
  shows "db_step E root (label_of cmd signer) (abs_db r)
     (abs_db (apply_pending (cmd_op cmd) (classified_of cmd signer out) d q txid r))"
proof -
  note g = admitted_guards [OF assms] and u = admitted_bump [OF assms]
  let ?l = "label_of cmd signer"
  consider "is_data (cmd_op cmd)"
    | "cmd_op cmd \<in> {OwnerAdd, OwnerDel, WriterAdd, WriterDel}" | "cmd_op cmd = Version"
    | "cmd_op cmd = Finalize" | "cmd_op cmd = Init"
    by (cases "cmd_op cmd") auto
  then show ?thesis
  proof cases
    case 1
    then have "may_change (abs_db r) ?l" and "is_data (l_op ?l)" using g by auto
    from change_seen [OF this, of E root] 1 u(1) show ?thesis
      by (auto simp: apply_pending_def Let_def abs_db_update confirmed_values_put confirmed_entry
          fun_upd_idem abs_db_same_values)
  next
    case 2
    then have "may_manage (abs_db r) ?l" and "l_op ?l \<in> {OwnerAdd, OwnerDel, WriterAdd, WriterDel}"
      using g by auto
    from manage_seen [OF this, of E root] 2 u(2) show ?thesis
      by (auto simp: apply_pending_def Let_def abs_db_update)
  next
    case 5
    then have "\<not> a_sealed (abs_db r)" "a_phase (abs_db r) = Uninitialized" "l_op ?l = Init"
      "l_signer ?l = root" using g by auto
    from claim_seen [OF this, of E] 5 show ?thesis
      by (auto simp: apply_pending_def abs_db_update)
  qed (auto simp: apply_pending_def intro: skip)
qed

lemma honor_simulates:
  assumes "hw_below b (abs_db r)" and "b + 257 < 2 ^ 64"
  shows "\<exists>l. db_step E root l (abs_db r) (abs_db (fst (honor E receiver root e r)))"
proof (cases "\<exists>cmd signer. admitted E receiver root e r cmd signer")
  case True
  then obtain cmd signer where a: "admitted E receiver root e r cmd signer" by blast
  show ?thesis
    using simulates_confirmed [OF a assms] simulates_pending [OF a assms]
    by (intro exI [of _ "label_of cmd signer"]; cases "re_status e")
       (simp_all add: honor_admitted [OF a])
next
  case False
  from honor_not_admitted(1) [OF this] show ?thesis by (metis skip)
qed

end
