(* ===== verification/Demo_Stream.thy ===== *)
theory Demo_Stream
  imports Replay_Refines
begin

text \<open>
  A concrete signer and its memos, on which the witnesses evaluate the replay: the crates of
  \<open>Crates.model_crates\<close>, the key \<open>A\<close>, and the memo texts \<open>render_memo_text\<close> makes of its
  commands.
\<close>

definition demo_root :: str where
  "demo_root = pubkey_bech32 model_crates CHR ''A''"

definition demo_sig :: str where
  "demo_sig = hex_enc (replicate 64 CHR ''A'' @ [CHR 0x00])"

definition demo_text :: "op \<Rightarrow> str \<Rightarrow> str option \<Rightarrow> u64 \<Rightarrow> str" where
  "demo_text op key value seq = render_memo_text model_crates op key value seq demo_sig"

definition demo_entry :: "op \<Rightarrow> str \<Rightarrow> str option \<Rightarrow> u64 \<Rightarrow> write_status \<Rightarrow> replay_entry" where
  "demo_entry op key value seq status =
     \<lparr>re_text = demo_text op key value seq, re_status = status, re_txid = ''t'',
      re_block_time = Some 7\<rparr>"

abbreviation demo_command :: "op \<Rightarrow> str \<Rightarrow> str option \<Rightarrow> u64 \<Rightarrow> zkv_command" where
  "demo_command op key value seq \<equiv> mk_command op key value seq demo_sig"

text \<open>Words of printable ASCII, of which the demonstration memos are made.\<close>

definition demo_word :: "str \<Rightarrow> bool" where
  "demo_word w \<longleftrightarrow> w \<noteq> [] \<and> length w \<le> 512 \<and> list_all plain w"

definition demo_ok :: "op \<Rightarrow> str \<Rightarrow> str option \<Rightarrow> bool" where
  "demo_ok op key value \<longleftrightarrow>
     value_arity op value = Ok () \<and> (if op = Finalize then key = [] else demo_word key) \<and>
     (\<forall>v. value = Some v \<longrightarrow> demo_word v)"

lemma demo_sig_hex: "list_all is_ascii_hexdigit demo_sig" "length demo_sig = SIG_HEX_LEN"
  by (simp_all add: demo_sig_def SIG_HEX_LEN_def SIG_LEN_def)

lemma demo_word_facts:
  assumes "list_all plain w"
  shows "\<not> contains_char is_whitespace w" and "\<not> contains_char is_control w"
    and "utf8_valid w" and "CHR 0x0A \<notin> List.set w"
  using assms
  by (auto simp: contains_char_def scalars_plain list_ex_iff list_all_iff plain_not_whitespace
      plain_not_control utf8_valid_ascii plain_ascii plain_def byte_def)

lemma demo_parse:
  assumes "demo_ok op key value"
  shows "parse_text_memo_detailed model_crates (demo_text op key value seq) =
         Ok (demo_command op key value seq)"
proof -
  have k: "list_all plain key" and v: "list_all plain (unwrap_or value [])"
    and len: "length (unwrap_or value []) \<le> 512" and ne: "value \<noteq> Some []"
    using assms by (cases "value"; auto simp: demo_ok_def demo_word_def split: if_splits)+
  have "wire_ready op key value None"
    using assms demo_word_facts(3) [OF k] demo_word_facts(3,4) [OF v] ne
    by (auto simp: wire_ready_def demo_ok_def demo_word_def split: if_splits)
  then show ?thesis
    unfolding demo_text_def render_memo_text_def
    using assms demo_word_facts(1,2) [OF k] len ne
    by (intro parse_render [OF hex_laws_model demo_sig_hex])
       (auto simp: demo_ok_def u64_max_def)
qed

lemma demo_recover: "recover_memo_signer model_crates (demo_command op key value seq) receiver = Some CHR ''A''"
  by (simp add: recover_memo_signer_def recover_signer_def demo_sig_def model_crates_def SIG_LEN_def
      numeral_eq_Suc)

lemma demo_entry_sel [simp]:
  "re_text (demo_entry op key value seq status) = demo_text op key value seq"
  "re_status (demo_entry op key value seq status) = status"
  "re_txid (demo_entry op key value seq status) = ''t''"
  "re_block_time (demo_entry op key value seq status) = Some 7"
  by (simp_all add: demo_entry_def)

lemma demo_admitted:
  assumes "demo_ok op key value"
  shows "admitted model_crates receiver root (demo_entry op key value seq status) r cmd signer \<longleftrightarrow>
     cmd = demo_command op key value seq \<and> signer = demo_root \<and>
     seq_in_window op key seq (rr_kv_versions r) (rr_target_versions r) \<and>
     (\<forall>reason. decide op key demo_root root status (rr_init r) (rr_auth r) (rr_finalized r)
        (key_confirmed (rr_state r) key) \<noteq> Dropped reason)"
  using demo_parse [OF assms, of seq] demo_recover [of op key "value" seq receiver]
  by (auto simp: admitted_def demo_root_def)

text \<open>The first confirmed \<open>INIT\<close>, and a confirmed write by the root.\<close>

definition demo_init :: replay_entry where
  "demo_init = demo_entry Init ''addr'' None 0 Confirmed"

lemma demo_ok_Init: "demo_ok Init ''addr'' None"
  by (simp add: demo_ok_def demo_word_def value_arity_def plain_def byte_def)

definition demo_born :: replay_result where
  "demo_born = empty_replay\<lparr>rr_init := Initialized, rr_auth := insert_owner demo_root empty_auth\<rparr>"

lemma demo_init_admitted:
  "admitted model_crates receiver demo_root demo_init empty_replay
     (demo_command Init ''addr'' None 0) demo_root"
  unfolding demo_init_def demo_admitted [OF demo_ok_Init]
  by (simp add: seq_in_window_def empty_replay_def decide_def)

lemma demo_init_honor:
  "honor model_crates receiver demo_root demo_init empty_replay = (demo_born, Some Applied)"
  unfolding honor_admitted [OF demo_init_admitted]
  by (simp add: demo_init_def apply_applied_def demo_born_def empty_replay_def)

lemma demo_root_admitted:
  assumes "demo_ok op key value" and "op \<noteq> Init" and "rr_init r = Initialized" and "\<not> rr_finalized r"
    and "demo_root \<in> owners (rr_auth r)"
    and "seq_in_window op key seq (rr_kv_versions r) (rr_target_versions r)"
  shows "admitted model_crates receiver root (demo_entry op key value seq status) r
     (demo_command op key value seq) demo_root"
  unfolding demo_admitted [OF assms(1)]
  using assms by (auto simp: decide_def is_owner_def split: write_status.splits)

lemma demo_window_0: "seq_in_window op key 0 Map.empty Map.empty"
  by (simp add: seq_in_window_def)

lemma demo_born_sel [simp]:
  "rr_init demo_born = Initialized" "\<not> rr_finalized demo_born" "demo_root \<in> owners (rr_auth demo_born)"
  "rr_kv_versions demo_born = Map.empty" "rr_target_versions demo_born = Map.empty"
  "rr_state demo_born = Map.empty" "rr_version demo_born = default_version"
  "rr_auth demo_born = insert_owner demo_root empty_auth"
  by (simp_all add: demo_born_def empty_replay_def)

end
