(* ===== verification/Replay_Props.thy ===== *)
theory Replay_Props
  imports Demo_Stream
begin

text \<open>
  What the refinement gives for the replay of a whole stream: the invariant of every replayed
  database, the seal, the replay protection, the authorization of every change, strict mode, and the
  composition of a replay from a seed. Streams are bounded so that the 64-bit sequence counters
  cannot wrap: \<open>stream_bound\<close> allows about 7 * 10^16 memos.
\<close>

definition stream_bound :: "'a list \<Rightarrow> bool" where
  "stream_bound es \<longleftrightarrow> 257 * length es < 2 ^ 64"

section \<open>Runs\<close>

lemma honor_hw_below:
  assumes "hw_below b (abs_db r)" and "b + 257 < 2 ^ 64"
  shows "hw_below (b + 257) (abs_db (fst (honor E receiver root e r)))"
  using honor_simulates [OF assms] hw_below_step [OF _ assms(1)] by blast

lemma db_run_append:
  "db_run E root m s t \<Longrightarrow> db_run E root n t u \<Longrightarrow> db_run E root (m + n) s u"
  by (rotate_tac, induction rule: db_run.induct) (auto intro: db_run.intros)

lemma honor_all_run:
  "hw_below b (abs_db r) \<Longrightarrow> b + 257 * length es < 2 ^ 64 \<Longrightarrow>
   db_run E root (length es) (abs_db r) (abs_db (honor_all E receiver root es r)) \<and>
   hw_below (b + 257 * length es) (abs_db (honor_all E receiver root es r))"
proof (induction es arbitrary: r b)
  case Nil
  then show ?case by (auto intro: db_run.intros)
next
  case (Cons e es)
  let ?r = "fst (honor E receiver root e r)"
  from Cons.prems have lt: "b + 257 < 2 ^ 64" by simp
  have h: "hw_below (b + 257) (abs_db ?r)" by (rule honor_hw_below [OF Cons.prems(1) lt])
  from honor_simulates [OF Cons.prems(1) lt] obtain l
    where "db_step E root l (abs_db r) (abs_db ?r)" by blast
  then have one: "db_run E root 1 (abs_db r) (abs_db ?r)"
    using db_run.more [OF db_run.start] by fastforce
  from Cons.IH [OF h] Cons.prems(2)
  have "db_run E root (length es) (abs_db ?r) (abs_db (honor_all E receiver root es ?r))"
    and "hw_below (b + 257 * length (e # es)) (abs_db (honor_all E receiver root es ?r))"
    by (simp_all add: algebra_simps)
  with db_run_append [OF one] show ?case by simp
qed

lemma abs_empty_replay [simp]: "abs_db empty_replay = adb_empty"
  by (simp add: abs_db_def empty_replay_def adb_empty_def confirmed_values_def hw_def fun_eq_iff)

lemma hw_below_empty [simp]: "hw_below b adb_empty"
  by (simp add: hw_below_def adb_empty_def)

lemma confirmed_values_prune [simp]: "confirmed_values (prune m) = confirmed_values m"
  by (auto simp: confirmed_values_def prune_def retained_def fun_eq_iff split: option.splits)

lemma confirmed_values_clear [simp]: "confirmed_values (clear_pending m) = confirmed_values m"
proof
  show "confirmed_values (clear_pending m) k = confirmed_values m k" for k
    by (cases "m k") (simp_all add: confirmed_values_def clear_pending_def)
qed

lemma abs_prune [simp]: "abs_db (r\<lparr>rr_state := prune (rr_state r)\<rparr>) = abs_db r"
  by (simp add: abs_db_update abs_db_same_values)

lemma abs_replay_start: "abs_db (replay_start (Some r)) = abs_db r"
  by (simp add: replay_start_def abs_db_update abs_db_same_values)

lemma replay_abs:
  assumes "replay_with_seed E es None receiver pk strict = Ok r"
  shows "abs_db r = abs_db (honor_all E receiver (pubkey_bech32 E pk) es empty_replay)"
proof (cases strict)
  case True
  with assms obtain r0
    where r0: "replay_loop E receiver (pubkey_bech32 E pk) True es empty_replay = Ok r0"
      and r: "r = r0\<lparr>rr_state := prune (rr_state r0)\<rparr>"
    by (auto simp: replay_with_seed_def replay_start_def try_ok_Inr)
  from replay_loop_strict [OF r0] r show ?thesis by simp
next
  case False
  with assms show ?thesis by (auto simp: replay_lenient replay_start_def Let_def)
qed

lemma replay_run:
  assumes "replay_with_seed E es None receiver pk strict = Ok r" and "stream_bound es"
  shows "db_run E (pubkey_bech32 E pk) (length es) adb_empty (abs_db r)"
    and "hw_below (257 * length es) (abs_db r)"
  using honor_all_run [of 0 empty_replay es E "pubkey_bech32 E pk" receiver] assms
  by (simp_all add: replay_abs [OF assms(1)] stream_bound_def)

section \<open>Exact facts about one entry\<close>

lemma admitted_not_sealed: "admitted E receiver root e r cmd signer \<Longrightarrow> \<not> rr_finalized r"
  unfolding admitted_def using decide_admits(1) by blast

lemma honor_sealed: "rr_finalized r \<Longrightarrow> fst (honor E receiver root e r) = r"
  using honor_not_admitted(1) admitted_not_sealed by blast

lemma honor_all_sealed: "rr_finalized r \<Longrightarrow> honor_all E receiver root es r = r"
  by (induction es) (simp_all add: honor_sealed)

text \<open>The corruption a strict caller reports does not depend on the state.\<close>

definition corrupt :: "('pk, 'sk) crates \<Rightarrow> str \<Rightarrow> str \<Rightarrow> bool" where
  "corrupt E receiver text \<longleftrightarrow>
     (case parse_text_memo_detailed E text of
        Inl err \<Rightarrow> True
      | Inr cmd \<Rightarrow> recover_memo_signer E cmd receiver = None)"

lemma decide_not_corruption:
  "decide op key signer root status init auth fin ex = Dropped reason \<Longrightarrow> \<not> is_signature_failure reason"
  by (auto simp: decide_def authorize_def Let_def split: if_splits write_status.splits sum.splits
      option.splits authority.splits)

lemma strict_bail_iff:
  "classify_in_memory E text status receiver root r = Some c \<Longrightarrow>
   strict_bail text c \<noteq> None \<longleftrightarrow> corrupt E receiver text"
proof (cases "parse_text_memo_detailed E text")
  case (Inl err)
  assume "classify_in_memory E text status receiver root r = Some c"
  with Inl show ?thesis
    by (cases err) (auto simp: classify_in_memory_def unparsed_def strict_bail_def corrupt_def)
next
  case (Inr cmd)
  assume c: "classify_in_memory E text status receiver root r = Some c"
  show ?thesis
  proof (cases "recover_memo_signer E cmd receiver")
    case None
    with Inr c show ?thesis
      by (auto simp: classify_in_memory_def classify_parsed_def strict_bail_def corrupt_def)
  next
    case (Some pk)
    let ?d = "decide (cmd_op cmd) (cmd_key cmd) (pubkey_bech32 E pk) root status (rr_init r)
        (rr_auth r) (rr_finalized r) (key_confirmed (rr_state r) (cmd_key cmd))"
    have "strict_bail text c = None" if "cl_outcome c = ?d \<or> cl_outcome c = Dropped StaleVersion"
    proof (cases "cl_outcome c")
      case (Dropped reason)
      with that decide_not_corruption have "\<not> is_signature_failure reason" by fastforce
      with Dropped show ?thesis by (cases reason) (simp_all add: strict_bail_def)
    qed (simp_all add: strict_bail_def)
    with Some Inr c show ?thesis
      by (auto simp: classify_in_memory_def classify_parsed_def corrupt_def Let_def split: if_splits)
  qed
qed

lemma classify_None: "classify_in_memory E text status receiver root r = None \<Longrightarrow> corrupt E receiver text"
  by (auto simp: classify_in_memory_def corrupt_def Let_def split: sum.splits memo_reject.splits prod.splits)

lemma replay_loop_strict_iff:
  "(\<exists>r'. replay_loop E receiver root True es r = Ok r') \<longleftrightarrow> (\<forall>e \<in> set es. \<not> corrupt E receiver (re_text e))"
proof (induction es arbitrary: r)
  case (Cons e es)
  show ?case
  proof (cases "classify_in_memory E (re_text e) (re_status e) receiver root r")
    case None
    with classify_None show ?thesis by fastforce
  next
    case (Some c)
    from apply_in_memory_total [OF Some] obtain r' out
      where "apply_in_memory E c (re_status e) (re_txid e) (re_block_time e) root r = Some (r', out)"
      by blast
    with Some strict_bail_iff [OF Some] Cons.IH [of r'] show ?thesis
      by (cases "strict_bail (re_text e) c") auto
  qed
qed simp

lemma replay_loop_never_panics: "replay_loop E receiver root strict es r \<noteq> Err Panicked"
proof (induction es arbitrary: r)
  case (Cons e es)
  show ?case
  proof (cases "classify_in_memory E (re_text e) (re_status e) receiver root r")
    case None
    with Cons.IH [of r] show ?thesis by (cases strict) simp_all
  next
    case (Some c)
    from apply_in_memory_total [OF Some] obtain r' out
      where "apply_in_memory E c (re_status e) (re_txid e) (re_block_time e) root r = Some (r', out)"
      by blast
    with Some Cons.IH [of r'] show ?thesis
      by (auto simp: strict_bail_def split: row_outcome.splits drop_reason.splits)
  qed
qed simp

section \<open>What one entry may change\<close>

lemma honor_value_change:
  assumes "confirmed_values (rr_state (fst (honor E receiver root e r))) k \<noteq> confirmed_values (rr_state r) k"
  shows "\<exists>cmd signer. admitted E receiver root e r cmd signer \<and> re_status e = Confirmed \<and>
     is_data (cmd_op cmd) \<and> cmd_key cmd = k \<and>
     confirmed_values (rr_state (fst (honor E receiver root e r))) k =
       (if cmd_op cmd = Del then None else cmd_value cmd)"
proof -
  from assms honor_not_admitted(1) [of E receiver root e r]
  obtain cmd signer where a: "admitted E receiver root e r cmd signer" by fastforce
  have "re_status e = Confirmed"
    using assms
    by (cases "re_status e"; cases "cmd_op cmd")
       (auto simp: honor_admitted [OF a] apply_pending_def Let_def confirmed_values_put confirmed_entry
         fun_upd_idem)
  with a assms show ?thesis
    by (intro exI [of _ cmd] exI [of _ signer]; cases "cmd_op cmd")
       (auto simp: honor_admitted [OF a] apply_applied_def Let_def confirmed_values_put
         split: prod.splits if_splits)
qed

lemma honor_auth_change:
  assumes "rr_auth (fst (honor E receiver root e r)) \<noteq> rr_auth r"
  shows "\<exists>cmd signer. admitted E receiver root e r cmd signer \<and> re_status e = Confirmed \<and>
     cmd_op cmd \<in> {Init, OwnerAdd, OwnerDel, WriterAdd, WriterDel}"
proof -
  from assms honor_not_admitted(1) [of E receiver root e r]
  obtain cmd signer where a: "admitted E receiver root e r cmd signer" by fastforce
  have "re_status e = Confirmed"
    using assms
    by (cases "re_status e"; cases "cmd_op cmd")
       (auto simp: honor_admitted [OF a] apply_pending_def Let_def)
  with a assms show ?thesis
    by (intro exI [of _ cmd] exI [of _ signer]; cases "cmd_op cmd")
       (auto simp: honor_admitted [OF a] apply_applied_def Let_def split: prod.splits)
qed

lemma admitted_recovers:
  assumes "admitted E receiver root e r cmd signer"
  shows "parse_text_memo_detailed E (re_text e) = Ok cmd \<and>
         map_option (pubkey_bech32 E) (recover_memo_signer E cmd receiver) = Some signer"
  using assms by (simp add: admitted_def)

text \<open>An admitted versioned command leaves the counter above its sequence, for good.\<close>

lemma admitted_raises_hw:
  assumes "admitted E receiver root e r cmd signer" and "is_versioned (cmd_op cmd)"
    and "hw_below b (abs_db r)" and "b + 257 < 2 ^ 64"
  defines "r' \<equiv> fst (honor E receiver root e r)"
  shows "hw (if is_data (cmd_op cmd) then rr_kv_versions r' else rr_target_versions r') (cmd_key cmd) =
         Suc (unat (cmd_seq cmd))"
proof -
  note u = admitted_bump [OF assms(1,3,4)]
  consider "cmd_op cmd \<in> {Set, SetL, Del}" | "cmd_op cmd \<in> {OwnerAdd, OwnerDel, WriterAdd, WriterDel}"
    using assms(2) by (cases "cmd_op cmd") auto
  then show ?thesis
  proof cases
    case 1
    then show ?thesis
      using u(1) by (cases "re_status e")
        (auto simp: r'_def honor_admitted [OF assms(1)] apply_applied_def apply_pending_def Let_def)
  next
    case 2
    then show ?thesis
      using u(2) by (cases "re_status e")
        (auto simp: r'_def honor_admitted [OF assms(1)] apply_applied_def apply_pending_def Let_def
          split: prod.splits)
  qed
qed

lemma stale_below_hw:
  assumes "is_versioned op" and "unat seq < hw (if is_data op then kv else tv) key"
  shows "\<not> seq_in_window op key seq kv tv"
  using assms window_fresh by (fastforce simp: fresh_def)

lemma classify_stale:
  assumes "parse_text_memo_detailed E text = Ok cmd" and "recover_memo_signer E cmd receiver = Some pk"
    and "\<not> seq_in_window (cmd_op cmd) (cmd_key cmd) (cmd_seq cmd) (rr_kv_versions r) (rr_target_versions r)"
  shows "classify_in_memory E text status receiver root r =
         Some (classified_of cmd (pubkey_bech32 E pk) (Dropped StaleVersion))"
  using assms by (simp add: classify_in_memory_def classify_parsed_def classified_of_def)

lemma classified_admitted:
  assumes "classify_in_memory E (re_text e) (re_status e) receiver root r = Some c"
    and "\<forall>reason. cl_outcome c \<noteq> Dropped reason"
  shows "\<exists>cmd signer. admitted E receiver root e r cmd signer"
  using classify_not_admitted [of E receiver root e r c] assms by blast

section \<open>Properties of replay\<close>


text \<open>The stream of the witnesses: a claim, then a write of \<open>v\<close> to \<open>k\<close>.\<close>

definition demo_put :: "u64 \<Rightarrow> write_status \<Rightarrow> replay_entry" where
  "demo_put seq status = demo_entry Set ''k'' (Some ''v'') seq status"

lemma demo_ok_put: "demo_ok Set ''k'' (Some ''v'')"
  by (simp add: demo_ok_def demo_word_def value_arity_def plain_def byte_def)

definition demo_filled :: replay_result where
  "demo_filled = demo_born
     \<lparr>rr_state := [''k'' \<mapsto> \<lparr>confirmed = Some ''v'', pending = [], updated_at = Some 7,
        last_txid = Some ''t''\<rparr>],
      rr_kv_versions := [''k'' \<mapsto> 1]\<rparr>"

lemma demo_put_admitted:
  "admitted model_crates receiver root (demo_put 0 status) demo_born
     (demo_command Set ''k'' (Some ''v'') 0) demo_root"
  unfolding demo_put_def
  by (rule demo_root_admitted [OF demo_ok_put]) (simp_all add: demo_window_0)

lemma demo_put_honor:
  "honor model_crates receiver root (demo_put 0 Confirmed) demo_born = (demo_filled, Some Applied)"
  unfolding honor_admitted [OF demo_put_admitted]
  by (simp add: demo_put_def apply_applied_def demo_filled_def entry_or_default_def
      default_key_state_def bump_hw_def max_def Let_def)

lemma demo_bound: "length es \<le> 100 \<Longrightarrow> stream_bound es"
  by (simp add: stream_bound_def)

lemma demo_replay:
  "replay_with_seed model_crates [demo_init, demo_put 0 Confirmed] None ''main:00'' CHR ''A'' False =
     Ok demo_filled"
proof -
  have "honor_all model_crates ''main:00'' demo_root [demo_init, demo_put 0 Confirmed] empty_replay =
      demo_filled"
    by (simp add: demo_init_honor demo_put_honor)
  moreover have "demo_filled\<lparr>rr_state := prune (rr_state demo_filled)\<rparr> = demo_filled"
    by (simp add: demo_filled_def prune_def retained_def fun_eq_iff)
  ultimately show ?thesis
    by (simp add: replay_lenient replay_start_def Let_def flip: demo_root_def)
qed


text \<open>
  C5. The invariant of every replayed database, for every memo stream: the registry is well-formed
  and canonical; an initialized database always has an owner; and a database whose \<open>INIT\<close> is not
  confirmed has no confirmed value, no owner or writer, no seal, the genesis epoch and every
  counter at zero, whatever else was in the stream.
\<close>

theorem replay_invariant:
  assumes "bech32_laws E" and "key_laws E"
    and "stream_bound es" and "replay_with_seed E es None receiver pk strict = Ok r"
  shows "auth_wf (rr_auth r) \<and> auth_canonical E (rr_auth r) \<and>
     (if rr_init r = Initialized then owners (rr_auth r) \<noteq> {}
      else confirmed_values (rr_state r) = Map.empty \<and> rr_auth r = empty_auth \<and>
           \<not> rr_finalized r \<and> rr_version r = default_version \<and>
           (\<forall>k. hw (rr_kv_versions r) k = 0 \<and> hw (rr_target_versions r) k = 0))"
proof -
  have "adb_inv E (abs_db r)"
    by (rule adb_inv_run [OF replay_run(1) [OF assms(4,3)] adb_inv_empty assms(1,2)])
       (simp add: assms(1,2))
  then show ?thesis by (auto simp: adb_inv_def unborn_def split: if_splits)
qed

theorem replay_invariant_witness:
  "replay_with_seed model_crates [demo_init, demo_put 0 Confirmed] None ''main:00'' CHR ''A'' False =
     Ok demo_filled \<and> owners (rr_auth demo_filled) \<noteq> {} \<and> auth_wf (rr_auth demo_filled)"
  using replay_invariant [OF bech32_laws_model key_laws_model demo_bound demo_replay] demo_replay
  by (simp add: demo_filled_def)

text \<open>
  C6. \<open>FINALIZE\<close> is a one-way latch: once a replay has seen a confirmed \<open>FINALIZE\<close>, appending any
  memos to the stream, confirmed or pending, changes nothing at all in the result.
\<close>

theorem finalize_latch:
  assumes "replay_with_seed E es None receiver pk False = Ok r" and "rr_finalized r"
  shows "replay_with_seed E (es @ fs) None receiver pk False = Ok r"
proof -
  let ?root = "pubkey_bech32 E pk"
  from assms have "rr_finalized (honor_all E receiver ?root es empty_replay)"
    by (auto simp: replay_lenient replay_start_def Let_def)
  then have "honor_all E receiver ?root (es @ fs) empty_replay = honor_all E receiver ?root es empty_replay"
    by (simp add: honor_all_sealed)
  with assms(1) show ?thesis by (simp add: replay_lenient replay_start_def)
qed

definition demo_seal :: replay_entry where
  "demo_seal = demo_entry Finalize [] None 0 Confirmed"

lemma demo_ok_seal: "demo_ok Finalize [] None"
  by (simp add: demo_ok_def value_arity_def)

lemma demo_seal_honor:
  "honor model_crates receiver root demo_seal demo_born = (demo_born\<lparr>rr_finalized := True\<rparr>, Some Applied)"
proof -
  have "admitted model_crates receiver root demo_seal demo_born (demo_command Finalize [] None 0) demo_root"
    unfolding demo_seal_def by (rule demo_root_admitted [OF demo_ok_seal]) (simp_all add: demo_window_0)
  from honor_admitted [OF this] show ?thesis
    by (simp add: demo_seal_def apply_applied_def)
qed

lemma demo_seal_replay:
  "replay_with_seed model_crates [demo_init, demo_seal] None ''main:00'' CHR ''A'' False =
     Ok (demo_born\<lparr>rr_finalized := True\<rparr>)"
proof -
  have "demo_born\<lparr>rr_finalized := True, rr_state := prune (rr_state demo_born)\<rparr> = demo_born\<lparr>rr_finalized := True\<rparr>"
    by (simp add: demo_born_def empty_replay_def prune_def)
  then show ?thesis
    by (simp add: replay_lenient replay_start_def Let_def demo_init_honor demo_seal_honor
        flip: demo_root_def)
qed

theorem finalize_latch_witness:
  "replay_with_seed model_crates ([demo_init, demo_seal] @ [demo_put 0 Confirmed]) None ''main:00''
     CHR ''A'' False = Ok (demo_born\<lparr>rr_finalized := True\<rparr>)"
  by (rule finalize_latch [OF demo_seal_replay]) simp

text \<open>
  C2. Replay protection: a versioned memo that was once admitted (applied, queued as pending, or
  refused only by the registry policy) is never admitted again. After any further memos, every
  verbatim re-broadcast of its text, at any confirmation status, is classified \<open>StaleVersion\<close> and
  leaves the state as it is. The bound on the stream is what keeps \<open>bump_hw\<close>'s \<open>seq + 1\<close> from
  wrapping.
\<close>

theorem rebroadcast_is_stale:
  assumes "257 * (length es + length fs + 1) < 2 ^ 64"
    and "classify_in_memory E (re_text e) (re_status e) receiver root
           (honor_all E receiver root es empty_replay) = Some c"
    and "\<forall>reason. cl_outcome c \<noteq> Dropped reason" and "cl_op c = Some op" and "is_versioned op"
    and "re_text e' = re_text e"
  shows "honor E receiver root e' (honor_all E receiver root (es @ [e] @ fs) empty_replay) =
         (honor_all E receiver root (es @ [e] @ fs) empty_replay, Some (Dropped StaleVersion))"
proof -
  let ?r = "honor_all E receiver root es empty_replay"
  let ?r1 = "fst (honor E receiver root e ?r)"
  let ?r2 = "honor_all E receiver root fs ?r1"
  have lt: "0 + 257 * length es < 2 ^ 64" "257 * length es + 257 < 2 ^ 64"
    using assms(1) by simp_all
  from honor_all_run [of 0 empty_replay es E root receiver] lt
  have b: "hw_below (257 * length es) (abs_db ?r)" by simp
  from classified_admitted [OF assms(2,3)] obtain cmd signer
    where a: "admitted E receiver root e ?r cmd signer" by blast
  then have op: "cmd_op cmd = op"
    using classify_admitted [OF a] assms(2,4) by simp
  from admitted_recovers [OF a] obtain pk
    where p: "parse_text_memo_detailed E (re_text e) = Ok cmd"
      and s: "recover_memo_signer E cmd receiver = Some pk" by auto
  have "257 * length es + 257 + 257 * length fs < 2 ^ 64"
    using assms(1) by simp
  from honor_all_run [OF honor_hw_below [OF b lt(2)] this]
  have run: "db_run E root (length fs) (abs_db ?r1) (abs_db ?r2)" by blast
  from db_run_mono [OF run, of "cmd_key cmd"]
  have "hw (if is_data op then rr_kv_versions ?r1 else rr_target_versions ?r1) (cmd_key cmd) \<le>
        hw (if is_data op then rr_kv_versions ?r2 else rr_target_versions ?r2) (cmd_key cmd)"
    by simp
  with admitted_raises_hw [OF a _ b lt(2)] assms(5) op
  have "unat (cmd_seq cmd) < hw (if is_data op then rr_kv_versions ?r2 else rr_target_versions ?r2) (cmd_key cmd)"
    by simp
  from stale_below_hw [OF assms(5) this]
  have "\<not> seq_in_window (cmd_op cmd) (cmd_key cmd) (cmd_seq cmd) (rr_kv_versions ?r2) (rr_target_versions ?r2)"
    by (simp add: op)
  from classify_stale [OF p s this] assms(6) show ?thesis
    by (simp add: honor_def apply_in_memory_def)
qed

theorem rebroadcast_is_stale_witness:
  "honor model_crates ''main:00'' demo_root (demo_put 0 Confirmed)
     (honor_all model_crates ''main:00'' demo_root ([demo_init] @ [demo_put 0 Confirmed] @ []) empty_replay) =
   (demo_filled, Some (Dropped StaleVersion))"
proof -
  let ?E = "model_crates" and ?c = "classified_of (demo_command Set ''k'' (Some ''v'') 0) demo_root Applied"
  have h: "honor_all ?E ''main:00'' demo_root [demo_init] empty_replay = demo_born"
    by (simp add: demo_init_honor)
  have "classify_in_memory ?E (re_text (demo_put 0 Confirmed)) (re_status (demo_put 0 Confirmed))
      ''main:00'' demo_root (honor_all ?E ''main:00'' demo_root [demo_init] empty_replay) = Some ?c"
    unfolding h using classify_admitted [OF demo_put_admitted [of "''main:00''" demo_root Confirmed]]
    by (simp add: demo_put_def)
  from rebroadcast_is_stale [OF _ this, of "[]" Set "demo_put 0 Confirmed"]
  show ?thesis by (simp add: demo_init_honor demo_put_honor)
qed

text \<open>
  C7. The sequence counters are bounded and monotone: after n memos no key's and no target's
  high-water exceeds 257 n, so an authorized writer can advance a counter by at most 257 per memo
  (and cannot wedge an entity), and replaying a longer stream never lowers one.
\<close>

theorem high_water_bounded_monotone:
  assumes "stream_bound (es @ fs)" and "replay_with_seed E es None receiver pk False = Ok r"
    and "replay_with_seed E (es @ fs) None receiver pk False = Ok r'"
  shows "hw (rr_kv_versions r) k \<le> 257 * length es \<and> hw (rr_target_versions r) k \<le> 257 * length es \<and>
         hw (rr_kv_versions r) k \<le> hw (rr_kv_versions r') k \<and>
         hw (rr_target_versions r) k \<le> hw (rr_target_versions r') k"
proof -
  let ?root = "pubkey_bech32 E pk"
  have b: "stream_bound es" using assms(1) by (simp add: stream_bound_def)
  note hb = replay_run(2) [OF assms(2) b]
  have r': "abs_db r' = abs_db (honor_all E receiver ?root fs (honor_all E receiver ?root es empty_replay))"
    using replay_abs [OF assms(3)] by simp
  have "257 * length es + 257 * length fs < 2 ^ 64"
    using assms(1) by (simp add: stream_bound_def)
  from honor_all_run [OF hb [unfolded replay_abs [OF assms(2)]] this, of E ?root receiver]
  have run: "db_run E ?root (length fs) (abs_db r) (abs_db r')"
    by (simp add: r' replay_abs [OF assms(2)])
  from hb db_run_mono [OF run, of k] show ?thesis
    by (simp add: hw_below_def)
qed

lemma demo_born_prune: "demo_born\<lparr>rr_state := prune Map.empty\<rparr> = demo_born"
  by (simp add: demo_born_def empty_replay_def prune_def)

theorem high_water_bounded_monotone_witness:
  "hw (rr_kv_versions demo_born) ''k'' \<le> hw (rr_kv_versions demo_filled) ''k'' \<and>
   hw (rr_kv_versions demo_filled) ''k'' = 1"
proof -
  have "replay_with_seed model_crates [demo_init] None ''main:00'' CHR ''A'' False = Ok demo_born"
    by (simp add: replay_lenient replay_start_def demo_init_honor Let_def demo_born_prune
        flip: demo_root_def)
  from high_water_bounded_monotone [OF demo_bound this, of "[demo_put 0 Confirmed]"] demo_replay
  show ?thesis by (simp add: demo_filled_def hw_def)
qed

text \<open>
  C3. Every confirmed value is authorized: if one entry changes the confirmed value of a key, then
  the entry is confirmed, its memo parses to a data operation on that very key, the signer recovered
  from its signature is an owner or a writer whose scope holds the needed capability (create,
  update or destroy, by the confirmed existence of the key), the database is initialized and not
  sealed, and the new value is the one that was signed.
\<close>

theorem value_change_needs_capability:
  assumes "honor E receiver root e r = (r', out)"
    and "confirmed_values (rr_state r') k \<noteq> confirmed_values (rr_state r) k"
  shows "\<exists>cmd pk. parse_text_memo_detailed E (re_text e) = Ok cmd \<and>
     recover_memo_signer E cmd receiver = Some pk \<and> re_status e = Confirmed \<and>
     is_data (cmd_op cmd) \<and> cmd_key cmd = k \<and> rr_init r = Initialized \<and> \<not> rr_finalized r \<and>
     holds_capability (rr_auth r) (pubkey_bech32 E pk)
       (required_capability (cmd_op cmd) (confirmed_values (rr_state r) k \<noteq> None)) \<and>
     confirmed_values (rr_state r') k = (if cmd_op cmd = Del then None else cmd_value cmd)"
proof -
  have r': "r' = fst (honor E receiver root e r)" using assms(1) by simp
  from honor_value_change [OF assms(2) [unfolded r']] obtain cmd signer
    where a: "admitted E receiver root e r cmd signer" and c: "re_status e = Confirmed"
      "is_data (cmd_op cmd)" "cmd_key cmd = k" "confirmed_values (rr_state r') k =
        (if cmd_op cmd = Del then None else cmd_value cmd)"
    unfolding r' by blast
  from a have nd: "\<forall>reason. decide (cmd_op cmd) (cmd_key cmd) signer root (re_status e) (rr_init r)
      (rr_auth r) (rr_finalized r) (key_confirmed (rr_state r) (cmd_key cmd)) \<noteq> Dropped reason"
    by (simp add: admitted_def)
  from admitted_recovers [OF a] decide_admits(1) [OF nd] decide_admits(3) [OF nd c(2)] c
  show ?thesis by (auto simp: key_confirmed_iff)
qed

theorem value_change_needs_capability_witness:
  "\<exists>cmd pk. parse_text_memo_detailed model_crates (re_text (demo_put 0 Confirmed)) = Ok cmd \<and>
     recover_memo_signer model_crates cmd ''main:00'' = Some pk \<and> cmd_key cmd = ''k'' \<and>
     holds_capability (rr_auth demo_born) (pubkey_bech32 model_crates pk) (required_capability (cmd_op cmd) False)"
  using value_change_needs_capability [OF demo_put_honor [of "''main:00''" demo_root], of "''k''"]
  by (auto simp: demo_filled_def confirmed_values_def)

text \<open>
  C4. Every change of the owner/writer registry is authorized: it comes from a confirmed memo, and
  it is either the first \<open>INIT\<close>, signed by the root key, which seats the root, or a management
  operation signed by a current owner of an initialized database, applied by \<open>apply_management\<close>.
\<close>

theorem registry_change_needs_owner:
  assumes "honor E receiver root e r = (r', out)" and "rr_auth r' \<noteq> rr_auth r"
  shows "\<exists>cmd pk. parse_text_memo_detailed E (re_text e) = Ok cmd \<and>
     recover_memo_signer E cmd receiver = Some pk \<and> re_status e = Confirmed \<and> \<not> rr_finalized r \<and>
     ((cmd_op cmd = Init \<and> pubkey_bech32 E pk = root \<and> rr_init r = Uninitialized \<and>
       rr_auth r' = insert_owner root (rr_auth r)) \<or>
      (cmd_op cmd \<in> {OwnerAdd, OwnerDel, WriterAdd, WriterDel} \<and> rr_init r = Initialized \<and>
       pubkey_bech32 E pk \<in> owners (rr_auth r) \<and>
       rr_auth r' = fst (apply_management E (cmd_op cmd) (cmd_key cmd) (cmd_value cmd) (rr_auth r))))"
proof -
  have r': "r' = fst (honor E receiver root e r)" using assms(1) by simp
  from honor_auth_change [OF assms(2) [unfolded r']] obtain cmd signer
    where a: "admitted E receiver root e r cmd signer" and c: "re_status e = Confirmed"
      and op: "cmd_op cmd \<in> {Init, OwnerAdd, OwnerDel, WriterAdd, WriterDel}" by blast
  from a have nd: "\<forall>reason. decide (cmd_op cmd) (cmd_key cmd) signer root (re_status e) (rr_init r)
      (rr_auth r) (rr_finalized r) (key_confirmed (rr_state r) (cmd_key cmd)) \<noteq> Dropped reason"
    by (simp add: admitted_def)
  from admitted_recovers [OF a] obtain pk
    where p: "parse_text_memo_detailed E (re_text e) = Ok cmd"
      "recover_memo_signer E cmd receiver = Some pk" "pubkey_bech32 E pk = signer" by auto
  have "rr_auth r' = (if cmd_op cmd = Init then insert_owner root (rr_auth r)
      else fst (apply_management E (cmd_op cmd) (cmd_key cmd) (cmd_value cmd) (rr_auth r)))"
    using op by (auto simp: r' honor_admitted [OF a] c apply_applied_def Let_def split: prod.splits)
  with p c op decide_admits [OF nd] show ?thesis by (intro exI [of _ cmd] exI [of _ pk]) auto
qed

theorem registry_change_needs_owner_witness:
  "\<exists>cmd pk. parse_text_memo_detailed model_crates (re_text demo_init) = Ok cmd \<and>
     recover_memo_signer model_crates cmd ''main:00'' = Some pk \<and> pubkey_bech32 model_crates pk = demo_root"
  using registry_change_needs_owner [OF demo_init_honor [of "''main:00''"]]
  by (fastforce simp: demo_born_def empty_replay_def empty_auth_def insert_owner_def)

text \<open>
  C8. Strict mode differs from lenient mode only by refusing corruption: it returns a result if and
  only if every memo parses and its signature recovers a key (whatever the authorization verdicts),
  the result is then the lenient one, lenient mode always returns, and neither mode panics.
\<close>

theorem strict_refuses_corruption:
  "((\<exists>r. replay_with_seed E es seed receiver pk True = Ok r) \<longleftrightarrow>
      (\<forall>e \<in> set es. \<not> corrupt E receiver (re_text e))) \<and>
   (\<exists>r. replay_with_seed E es seed receiver pk False = Ok r) \<and>
   (replay_with_seed E es seed receiver pk True = Ok r' \<longrightarrow>
      replay_with_seed E es seed receiver pk False = Ok r') \<and>
   replay_with_seed E es seed receiver pk strict \<noteq> Err Panicked"
proof (intro conjI)
  let ?root = "pubkey_bech32 E pk"
  show "(\<exists>r. replay_with_seed E es seed receiver pk True = Ok r) \<longleftrightarrow>
      (\<forall>e \<in> set es. \<not> corrupt E receiver (re_text e))"
    using replay_loop_strict_iff [of E receiver ?root es "replay_start seed"]
    by (auto simp: replay_with_seed_def try_ok_Inr)
  show "\<exists>r. replay_with_seed E es seed receiver pk False = Ok r"
    by (simp add: replay_lenient)
  show "replay_with_seed E es seed receiver pk True = Ok r' \<longrightarrow>
      replay_with_seed E es seed receiver pk False = Ok r'"
    by (auto simp: replay_with_seed_def try_ok_Inr replay_loop_lenient dest!: replay_loop_strict)
  show "replay_with_seed E es seed receiver pk strict \<noteq> Err Panicked"
    using replay_loop_never_panics [of E receiver ?root strict es "replay_start seed"]
    by (cases "replay_loop E receiver ?root strict es (replay_start seed)")
       (auto simp: replay_with_seed_def)
qed

theorem strict_refuses_corruption_witness:
  "replay_with_seed model_crates [demo_init, demo_put 0 Confirmed] None ''main:00'' CHR ''A'' True
     = Ok demo_filled"
proof -
  have "\<not> corrupt model_crates ''main:00'' (re_text e)" if "e \<in> {demo_init, demo_put 0 Confirmed}" for e
    using that demo_parse [OF demo_ok_Init, of 0] demo_parse [OF demo_ok_put, of 0]
    by (auto simp: corrupt_def demo_init_def demo_put_def demo_recover)
  with strict_refuses_corruption [THEN conjunct1, of model_crates "[demo_init, demo_put 0 Confirmed]"
      None "''main:00''" "CHR ''A''"]
  obtain r where
    r: "replay_with_seed model_crates [demo_init, demo_put 0 Confirmed] None ''main:00'' CHR ''A'' True = Ok r"
    by (metis empty_iff empty_set insert_iff list.simps(15))
  with strict_refuses_corruption [THEN conjunct2, THEN conjunct2, THEN conjunct1, of model_crates
      "[demo_init, demo_put 0 Confirmed]" None "''main:00''" "CHR ''A''" r]
    demo_replay show ?thesis by simp
qed

end
