(* ===== verification/Replay_Seed.thy ===== *)
theory Replay_Seed
  imports Replay_Props
begin

text \<open>
  Seeded replay. A confirmed prefix may be replayed once and used as the seed of its tail: the two
  replays agree up to the time stamp and txid that a deleted key's entry keeps in memory
  (\<open>same_db\<close>). A seed that was computed with pending rows does not compose, which is shown on a
  concrete stream; so is the replay of an old \<open>VERSION\<close> memo.
\<close>

section \<open>Agreement up to the leftovers of deleted keys\<close>

definition settled :: "key_state \<Rightarrow> key_state" where
  "settled ks = (if confirmed ks = None then ks\<lparr>updated_at := None, last_txid := None\<rparr> else ks)"

definition same_db :: "replay_result \<Rightarrow> replay_result \<Rightarrow> bool" where
  "same_db r s \<longleftrightarrow>
     rr_init r = rr_init s \<and> rr_auth r = rr_auth s \<and> rr_finalized r = rr_finalized s \<and>
     rr_version r = rr_version s \<and> rr_kv_versions r = rr_kv_versions s \<and>
     rr_target_versions r = rr_target_versions s \<and>
     (\<forall>k. settled (entry_or_default (rr_state r) k) = settled (entry_or_default (rr_state s) k))"

lemma settled_confirmed [simp]: "confirmed (settled ks) = confirmed ks"
  by (simp add: settled_def)

lemma settled_pending [simp]: "pending (settled ks) = pending ks"
  by (simp add: settled_def)

lemma settled_eqD: "settled a = settled b \<Longrightarrow> confirmed a = confirmed b \<and> pending a = pending b"
  by (metis settled_confirmed settled_pending)

lemma settled_erase: "pending a = pending b \<Longrightarrow> settled (a\<lparr>confirmed := None\<rparr>) = settled (b\<lparr>confirmed := None\<rparr>)"
  by (simp add: settled_def)

lemma settled_put:
  "pending a = pending b \<Longrightarrow>
   settled (a\<lparr>confirmed := v, updated_at := t, last_txid := x\<rparr>) =
   settled (b\<lparr>confirmed := v, updated_at := t, last_txid := x\<rparr>)"
  by (simp add: settled_def)

lemma settled_push:
  assumes "settled a = settled b"
  shows "settled (a\<lparr>pending := p\<rparr>) = settled (b\<lparr>pending := p\<rparr>)"
proof -
  have c: "confirmed a = confirmed b" using settled_eqD [OF assms] by simp
  have "settled (x\<lparr>pending := p\<rparr>) = (settled x)\<lparr>pending := p\<rparr>" for x
    by (simp add: settled_def)
  then show ?thesis using assms by simp
qed

lemma entry_upd [simp]:
  "entry_or_default (m(k \<mapsto> ks)) k' = (if k' = k then ks else entry_or_default m k')"
  by (simp add: entry_or_default_def)

lemma key_confirmed_entry: "key_confirmed m k \<longleftrightarrow> confirmed (entry_or_default m k) \<noteq> None"
  by (cases "m k") (simp_all add: key_confirmed_def entry_or_default_def default_key_state_def)

lemma same_db_key_confirmed: "same_db r s \<Longrightarrow> key_confirmed (rr_state r) k = key_confirmed (rr_state s) k"
  unfolding key_confirmed_entry same_db_def using settled_eqD by metis

lemma same_db_refl [simp]: "same_db r r"
  by (simp add: same_db_def)

lemma same_db_admitted:
  "same_db r s \<Longrightarrow> admitted E receiver root e r cmd signer = admitted E receiver root e s cmd signer"
  by (simp add: admitted_def same_db_key_confirmed) (simp add: same_db_def)

lemma same_db_applied:
  assumes "same_db r s"
  shows "same_db (fst (apply_applied E op c txid bt root r)) (fst (apply_applied E op c txid bt root s))"
proof -
  have "pending (entry_or_default (rr_state r) k) = pending (entry_or_default (rr_state s) k)" for k
    using assms settled_eqD unfolding same_db_def by metis
  note p = this [THEN settled_erase] this [THEN settled_put]
  show ?thesis
    using assms by (cases op) (auto simp: apply_applied_def same_db_def Let_def p split: prod.splits)
qed

lemma same_db_pending:
  assumes "same_db r s"
  shows "same_db (apply_pending op c d q txid r) (apply_pending op c d q txid s)"
proof -
  have e: "settled (entry_or_default (rr_state r) k) = settled (entry_or_default (rr_state s) k)" for k
    using assms by (simp add: same_db_def)
  have "pending (entry_or_default (rr_state r) k) = pending (entry_or_default (rr_state s) k)" for k
    using settled_eqD [OF e] by simp
  with e [THEN settled_push] show ?thesis
    using assms by (cases op) (auto simp: apply_pending_def same_db_def Let_def)
qed

lemma same_db_honor:
  assumes "same_db r s"
  shows "same_db (fst (honor E receiver root e r)) (fst (honor E receiver root e s))"
proof (cases "\<exists>cmd signer. admitted E receiver root e r cmd signer")
  case True
  then obtain cmd signer where a: "admitted E receiver root e r cmd signer" by blast
  note b = a [unfolded same_db_admitted [OF assms]]
  show ?thesis
    by (cases "re_status e")
       (simp_all add: honor_admitted [OF a] honor_admitted [OF b] same_db_applied [OF assms]
         same_db_pending [OF assms])
next
  case False
  with same_db_admitted [OF assms] have "\<nexists>cmd signer. admitted E receiver root e s cmd signer" by metis
  with False assms show ?thesis by (simp add: honor_not_admitted(1))
qed

interpretation same_db_fold: fold_simulation "\<lambda>_. True" same_db
  "\<lambda>e r. fst (honor E receiver root e r)" "\<lambda>e r. fst (honor E receiver root e r)" for E receiver root
  by unfold_locales (rule same_db_honor)

lemma same_db_honor_all: "same_db r s \<Longrightarrow> same_db (honor_all E receiver root es r) (honor_all E receiver root es s)"
  unfolding honor_all_def by (rule same_db_fold.fold_rel) simp_all

section \<open>A confirmed prefix\<close>

definition no_pending :: "replay_result \<Rightarrow> bool" where
  "no_pending r \<longleftrightarrow> (\<forall>k. pending (entry_or_default (rr_state r) k) = [])"

lemma no_pending_honor:
  assumes "no_pending r" and "re_status e = Confirmed"
  shows "no_pending (fst (honor E receiver root e r))"
proof (cases "\<exists>cmd signer. admitted E receiver root e r cmd signer")
  case True
  then obtain cmd signer where a: "admitted E receiver root e r cmd signer" by blast
  show ?thesis
    using assms by (cases "cmd_op cmd")
      (auto simp: honor_admitted [OF a] no_pending_def apply_applied_def Let_def split: prod.splits)
next
  case False
  with assms show ?thesis by (simp add: honor_not_admitted(1))
qed

lemma no_pending_honor_all:
  "no_pending r \<Longrightarrow> \<forall>e \<in> set es. re_status e = Confirmed \<Longrightarrow> no_pending (honor_all E receiver root es r)"
  by (induction es arbitrary: r) (simp_all add: no_pending_honor)

lemma no_pending_empty [simp]: "no_pending empty_replay"
  by (simp add: no_pending_def empty_replay_def entry_or_default_def default_key_state_def)

lemma settled_prune:
  assumes "pending (entry_or_default m k) = []"
  shows "settled (entry_or_default (prune m) k) = settled (entry_or_default m k)"
  using assms
  by (cases "m k") (auto simp: entry_or_default_def prune_def retained_def settled_def
      default_key_state_def)

lemma entry_clear_pending:
  "pending (entry_or_default m k) = [] \<Longrightarrow> entry_or_default (clear_pending m) k = entry_or_default m k"
  by (cases "m k") (simp_all add: entry_or_default_def clear_pending_def)

lemma pending_prune: "pending (entry_or_default m k) = [] \<Longrightarrow> pending (entry_or_default (prune m) k) = []"
  by (cases "m k") (auto simp: entry_or_default_def prune_def default_key_state_def)

lemma same_db_restart:
  assumes "no_pending r"
  shows "same_db (replay_start (Some (r\<lparr>rr_state := prune (rr_state r)\<rparr>))) r"
  using assms
  by (simp add: same_db_def replay_start_def no_pending_def entry_clear_pending pending_prune
      settled_prune)

lemma same_db_prune:
  assumes "same_db r s"
  shows "same_db (r\<lparr>rr_state := prune (rr_state r)\<rparr>) (s\<lparr>rr_state := prune (rr_state s)\<rparr>)"
proof -
  have prune: "settled (entry_or_default (prune m) k) =
      (if retained (entry_or_default m k) then settled (entry_or_default m k) else settled default_key_state)"
    for m k
    by (cases "m k") (simp_all add: entry_or_default_def prune_def default_key_state_def retained_def)
  have e: "settled (entry_or_default (rr_state r) k) = settled (entry_or_default (rr_state s) k)" for k
    using assms by (simp add: same_db_def)
  have "retained (entry_or_default (rr_state r) k) = retained (entry_or_default (rr_state s) k)" for k
    using settled_eqD [OF e] by (simp add: retained_def)
  with e assms show ?thesis by (simp add: same_db_def prune)
qed

lemma seeded_compose:
  assumes "\<forall>e \<in> set es. re_status e = Confirmed"
    and "replay_with_seed E es None receiver pk False = Ok s"
    and "replay_with_seed E fs (Some s) receiver pk False = Ok r"
    and "replay_with_seed E (es @ fs) None receiver pk False = Ok r'"
  shows "same_db r r'"
proof -
  let ?root = "pubkey_bech32 E pk"
  let ?p = "honor_all E receiver ?root es empty_replay"
  have s: "s = ?p\<lparr>rr_state := prune (rr_state ?p)\<rparr>"
    using assms(2) by (simp add: replay_lenient replay_start_def Let_def)
  have "same_db (replay_start (Some s)) ?p"
    unfolding s by (rule same_db_restart [OF no_pending_honor_all [OF no_pending_empty assms(1)]])
  from same_db_prune [OF same_db_honor_all [OF this, of E receiver ?root fs]] assms(3,4)
  show ?thesis by (simp add: replay_lenient replay_start_def [of None] Let_def)
qed

text \<open>A replayed state without pending writes is determined by what it stands for.\<close>

lemma same_db_eq:
  assumes "same_db r s" and "no_pending r" and "no_pending s"
    and "prune (rr_state r) = rr_state r" and "prune (rr_state s) = rr_state s"
  shows "r = s"
proof -
  have none: "m k = None \<longleftrightarrow> confirmed (entry_or_default m k) = None"
    if "prune m = m" "pending (entry_or_default m k) = []" for m k
  proof (cases "m k")
    case (Some ks)
    with fun_cong [OF that(1), of k] have "retained ks" by (auto simp: prune_def split: if_splits)
    with Some that(2) show ?thesis by (auto simp: retained_def entry_or_default_def)
  qed (simp add: entry_or_default_def default_key_state_def)
  have "rr_state r k = rr_state s k" for k
  proof -
    have e: "settled (entry_or_default (rr_state r) k) = settled (entry_or_default (rr_state s) k)"
      using assms(1) by (simp add: same_db_def)
    have p: "pending (entry_or_default (rr_state r) k) = []" "pending (entry_or_default (rr_state s) k) = []"
      using assms(2,3) by (simp_all add: no_pending_def)
    note n = none [OF assms(4) p(1)] none [OF assms(5) p(2)] settled_eqD [OF e]
    show ?thesis
    proof (cases "rr_state r k")
      case None
      with n show ?thesis by simp
    next
      case (Some ks)
      with n obtain ks' where s': "rr_state s k = Some ks'" by auto
      with Some n e show ?thesis by (auto simp: settled_def entry_or_default_def)
    qed
  qed
  then have "rr_state r = rr_state s" ..
  with assms(1) show ?thesis by (simp add: same_db_def)
qed

lemma replay_confirmed_shape:
  assumes "\<forall>e \<in> set es. re_status e = Confirmed" and "no_pending (replay_start seed)"
    and "replay_with_seed E es seed receiver pk False = Ok r"
  shows "no_pending r \<and> prune (rr_state r) = rr_state r"
proof -
  let ?h = "honor_all E receiver (pubkey_bech32 E pk) es (replay_start seed)"
  have r: "r = ?h\<lparr>rr_state := prune (rr_state ?h)\<rparr>"
    using assms(3) by (simp add: replay_lenient Let_def)
  have "no_pending ?h" by (rule no_pending_honor_all [OF assms(2,1)])
  then have "no_pending r" by (simp add: r no_pending_def pending_prune)
  moreover have "prune (prune m) = prune m" for m
    by (auto simp: prune_def fun_eq_iff split: option.splits)
  ultimately show ?thesis by (simp add: r)
qed

section \<open>Properties of seeded replay\<close>

text \<open>
  C9. Seeded replay composes: replaying a confirmed prefix, then its tail (confirmed or pending)
  from that result, gives the same database as one replay of the whole stream: the same phase,
  registry, seal, epoch, counters, confirmed values and pending queues, for every key, and the same
  provenance of every confirmed value. This is what lets a reader keep a snapshot.
\<close>

theorem seeded_replay_composes:
  assumes "\<forall>e \<in> set es. re_status e = Confirmed"
    and "replay_with_seed E es None receiver pk False = Ok s"
    and "replay_with_seed E fs (Some s) receiver pk False = Ok r"
    and "replay_with_seed E (es @ fs) None receiver pk False = Ok r'"
  shows "same_db r r'"
  by (rule seeded_compose [OF assms])

theorem seeded_replay_composes_witness:
  "\<exists>r. replay_with_seed model_crates [demo_put 0 (Confirming 1 3)] (Some demo_filled) ''main:00'' CHR ''A'' False = Ok r \<and>
   (\<forall>r'. replay_with_seed model_crates ([demo_init, demo_put 0 Confirmed] @ [demo_put 0 (Confirming 1 3)])
      None ''main:00'' CHR ''A'' False = Ok r' \<longrightarrow> same_db r r')"
proof -
  have c: "\<forall>e \<in> set [demo_init, demo_put 0 Confirmed]. re_status e = Confirmed"
    by (simp add: demo_init_def demo_put_def)
  show ?thesis
    using seeded_replay_composes [OF c demo_replay, of "[demo_put 0 (Confirming 1 3)]"]
      replay_lenient [of model_crates "[demo_put 0 (Confirming 1 3)]" "Some demo_filled" "''main:00''" "CHR ''A''"]
    by blast
qed

text \<open>
  A seed computed with pending rows does not compose. The counters of a pending write are kept
  when its queue is dropped, so the same memo, once confirmed, is refused as stale and the write is
  lost, although replaying the confirmed stream alone applies it.
\<close>

lemma pending_seed_loses_write:
  "\<exists>s r. replay_with_seed model_crates [demo_init, demo_put 0 (Confirming 1 3)] None ''main:00'' CHR ''A'' False = Ok s \<and>
     replay_with_seed model_crates [demo_put 0 Confirmed] (Some s) ''main:00'' CHR ''A'' False = Ok r \<and>
     confirmed_values (rr_state r) ''k'' = None \<and>
     confirmed_values (rr_state demo_filled) ''k'' = Some ''v'' \<and>
     replay_with_seed model_crates [demo_init, demo_put 0 Confirmed] None ''main:00'' CHR ''A'' False = Ok demo_filled"
proof -
  let ?E = "model_crates" and ?put = "demo_put 0 Confirmed"
  let ?s = "demo_born\<lparr>rr_state := [''k'' \<mapsto> default_key_state\<lparr>pending := [PSet ''v'' 1 3 ''t'']\<rparr>],
      rr_kv_versions := [''k'' \<mapsto> 1]\<rparr>"
  let ?t = "replay_start (Some ?s)"
  have a: "admitted ?E ''main:00'' demo_root (demo_put 0 (Confirming 1 3)) demo_born
      (demo_command Set ''k'' (Some ''v'') 0) demo_root"
    by (rule demo_put_admitted)
  have one: "fst (honor ?E ''main:00'' demo_root (demo_put 0 (Confirming 1 3)) demo_born) = ?s"
    unfolding honor_admitted [OF a]
    by (simp add: demo_put_def apply_pending_def Let_def entry_or_default_def default_key_state_def
        bump_hw_def max_def)
  have "prune (rr_state ?s) = rr_state ?s"
    by (simp add: prune_def retained_def fun_eq_iff default_key_state_def)
  with one have s: "replay_with_seed ?E [demo_init, demo_put 0 (Confirming 1 3)] None ''main:00'' CHR ''A'' False = Ok ?s"
    by (simp add: replay_lenient replay_start_def demo_init_honor Let_def flip: demo_root_def)
  have "\<not> admitted ?E ''main:00'' demo_root ?put ?t cmd signer" for cmd signer
    unfolding demo_put_def demo_admitted [OF demo_ok_put]
    by (simp add: replay_start_def seq_in_window_def)
  with honor_not_admitted(1) [of ?E "''main:00''" demo_root ?put ?t]
  have "fst (honor ?E ''main:00'' demo_root ?put ?t) = ?t" by blast
  then have "replay_with_seed ?E [?put] (Some ?s) ''main:00'' CHR ''A'' False =
      Ok (?t\<lparr>rr_state := prune (rr_state ?t)\<rparr>)"
    by (simp add: replay_lenient Let_def flip: demo_root_def)
  moreover have "confirmed_values (rr_state ?t) ''k'' = None"
    by (simp add: replay_start_def clear_pending_def confirmed_values_def default_key_state_def)
  moreover have "confirmed_values (rr_state demo_filled) ''k'' = Some ''v''"
    by (simp add: demo_filled_def confirmed_values_def)
  ultimately show ?thesis
    using s demo_replay by (intro exI [of _ ?s] exI [of _ "?t\<lparr>rr_state := prune (rr_state ?t)\<rparr>"]) simp
qed

definition demo_epoch :: "str \<Rightarrow> replay_entry" where
  "demo_epoch n = demo_entry Version n (Some ''warn'') 0 Confirmed"

definition demo_at_epoch :: "u32 \<Rightarrow> replay_result" where
  "demo_at_epoch n = demo_born\<lparr>rr_version := \<lparr>vs_version = n, vs_blocks = {}\<rparr>\<rparr>"

lemma demo_ok_epoch: "n \<in> {''0'', ''1''} \<Longrightarrow> demo_ok Version n (Some ''warn'')"
  by (auto simp: demo_ok_def demo_word_def value_arity_def plain_def byte_def)

lemma warn_parse: "block_set_parse ''warn'' = Some {}"
  using block_set_parse_to_wire [of "{}"] by (simp add: block_set_to_wire_def)

lemma demo_epoch_honor:
  assumes "(w, n) \<in> {(''0'', 0), (''1'', 1)}" and "v \<noteq> n" and "v \<le> 1"
  shows "fst (honor model_crates receiver root (demo_epoch w) (demo_at_epoch v)) = demo_at_epoch n"
proof -
  have a: "admitted model_crates receiver root (demo_epoch w) (demo_at_epoch v)
      (demo_command Version w (Some ''warn'') 0) demo_root"
    unfolding demo_epoch_def using assms(1)
    by (intro demo_root_admitted) (auto simp: demo_ok_epoch demo_at_epoch_def demo_window_0)
  have "parse_uint u32_max ''0'' = Some 0" "parse_uint u32_max ''1'' = Some 1"
    by (simp_all add: parse_uint_def is_digit_def dec_value_def byte_def u32_max_def)
  then have "apply_version w (Some ''warn'') \<lparr>vs_version = v, vs_blocks = {}\<rparr> =
      (\<lparr>vs_version = n, vs_blocks = {}\<rparr>, Ok ())"
    using assms
    by (auto simp: apply_version_def warn_parse transition_allowed_def GENESIS_DB_VERSION_def)
  then show ?thesis
    unfolding honor_admitted [OF a]
    by (simp add: demo_epoch_def apply_applied_def demo_at_epoch_def)
qed

text \<open>
  \<open>VERSION\<close> memos have no replay protection: they carry no sequence, and the transition rule
  admits an old memo again whenever the epoch has come back to where it was. After an owner raised
  the epoch to 1 and took it back to 0, a verbatim copy of the first memo, which needs no key to
  broadcast, raises it again, whereas the copy of a data write is always stale.
\<close>

lemma version_memo_replayable:
  "replay_with_seed model_crates [demo_init, demo_epoch ''1'', demo_epoch ''0''] None ''main:00'' CHR ''A'' False
     = Ok (demo_at_epoch 0) \<and>
   replay_with_seed model_crates [demo_init, demo_epoch ''1'', demo_epoch ''0'', demo_epoch ''1''] None
     ''main:00'' CHR ''A'' False = Ok (demo_at_epoch 1)"
proof -
  have b: "demo_born = demo_at_epoch 0"
    by (simp add: demo_at_epoch_def demo_born_def empty_replay_def default_version_def
        GENESIS_DB_VERSION_def)
  have "(demo_at_epoch n)\<lparr>rr_state := prune (rr_state (demo_at_epoch n))\<rparr> = demo_at_epoch n" for n
    by (simp add: demo_at_epoch_def demo_born_def empty_replay_def prune_def)
  then show ?thesis
    by (simp add: replay_lenient replay_start_def demo_init_honor b demo_epoch_honor Let_def
        flip: demo_root_def)
qed

end
