(* ===== verification/Memo_Audit.thy ===== *)
theory Memo_Audit
  imports Replay_Seed
begin

text \<open>
  The other readers of a memo stream in \<open>protocol/replay.rs\<close>: the audit, which keeps one row per
  memo, the verification of a single memo, and the builders of history entries. All of them go
  through the classifier and the fold of \<open>Replay\<close>; the lemmas show that their verdicts agree with
  what a replay does.
\<close>

section \<open>The audit\<close>

record audit_entry =
  ae_mined_height :: "u32 option"
  ae_timestamp :: "u32 option"
  ae_txid :: str
  ae_text :: str
  ae_status :: write_status

record audit_row =
  ar_mined_height :: "u32 option"
  ar_timestamp :: "u32 option"
  ar_txid :: str
  ar_op :: "op option"
  ar_key :: "str option"
  ar_value :: "str option"
  ar_raw :: str
  ar_signer :: "str option"
  ar_outcome :: row_outcome

record audit_result =
  au_rows :: "audit_row list"
  au_init :: init_state
  au_state :: "str \<rightharpoonup> key_state"
  au_auth :: auth_registry
  au_version :: version_state

definition audit_row_of :: "audit_entry \<Rightarrow> classified \<Rightarrow> row_outcome \<Rightarrow> audit_row" where
  "audit_row_of e c outcome =
     \<lparr>ar_mined_height = ae_mined_height e, ar_timestamp = ae_timestamp e, ar_txid = ae_txid e,
      ar_op = cl_op c, ar_key = cl_key c, ar_value = cl_value c, ar_raw = ae_text e,
      ar_signer = cl_signer_hex c, ar_outcome = outcome\<rparr>"

text \<open>The loop; \<open>None\<close> is a panic of \<open>apply_in_memory\<close>.\<close>

fun audit_loop ::
    "('pk, 'sk) crates \<Rightarrow> str \<Rightarrow> str \<Rightarrow> audit_entry list \<Rightarrow> replay_result \<Rightarrow>
     (audit_row list \<times> replay_result) option" where
  "audit_loop E receiver root_hex [] r = Some ([], r)"
| "audit_loop E receiver root_hex (e # es) r =
     (case classify_in_memory E (ae_text e) (ae_status e) receiver root_hex r of
        None \<Rightarrow> audit_loop E receiver root_hex es r
      | Some c \<Rightarrow>
          (case apply_in_memory E c (ae_status e) (ae_txid e) None root_hex r of
             None \<Rightarrow> None
           | Some (r', outcome) \<Rightarrow>
               map_option (\<lambda>(rows, r''). (audit_row_of e c outcome # rows, r''))
                 (audit_loop E receiver root_hex es r')))"

definition replay_audit ::
    "('pk, 'sk) crates \<Rightarrow> audit_entry list \<Rightarrow> str \<Rightarrow> 'pk \<Rightarrow> audit_result option" where
  "replay_audit E entries receiver pk =
     map_option
       (\<lambda>(rows, r). \<lparr>au_rows = rows, au_init = rr_init r, au_state = rr_state r,
                      au_auth = rr_auth r, au_version = rr_version r\<rparr>)
       (audit_loop E receiver (pubkey_bech32 E pk) entries empty_replay)"

section \<open>Verification of one memo\<close>

record memo_verification =
  mv_op :: op
  mv_key :: str
  mv_value :: "str option"
  mv_seq :: u64
  mv_sig_hex :: str
  mv_signature_valid :: bool
  mv_signer :: "str option"
  mv_is_root :: "bool option"
  mv_outcome :: "row_outcome option"

definition from_command ::
    "zkv_command \<Rightarrow> str \<Rightarrow> str option \<Rightarrow> row_outcome option \<Rightarrow> memo_verification" where
  "from_command cmd root_hex signer outcome =
     \<lparr>mv_op = cmd_op cmd, mv_key = cmd_key cmd, mv_value = cmd_value cmd, mv_seq = cmd_seq cmd,
      mv_sig_hex = cmd_sig_hex cmd, mv_signature_valid = (signer \<noteq> None), mv_signer = signer,
      mv_is_root = map_option (\<lambda>s. s = root_hex) signer, mv_outcome = outcome\<rparr>"

definition verify_signature ::
    "('pk, 'sk) crates \<Rightarrow> str \<Rightarrow> str \<Rightarrow> str \<Rightarrow> memo_reject + memo_verification" where
  "verify_signature E text receiver root_hex =
     try_ok (parse_text_memo_detailed E text) (\<lambda>cmd.
       Ok (from_command cmd root_hex
             (map_option (pubkey_bech32 E) (recover_memo_signer E cmd receiver)) None))"

definition verify_memo ::
    "('pk, 'sk) crates \<Rightarrow> str \<Rightarrow> str \<Rightarrow> str \<Rightarrow> replay_result \<Rightarrow> memo_reject + memo_verification" where
  "verify_memo E text receiver root_hex state =
     try_ok (parse_text_memo_detailed E text) (\<lambda>cmd.
       let (signer, outcome) = classify_parsed E cmd Confirmed receiver root_hex state
       in Ok (from_command cmd root_hex signer (Some outcome)))"

section \<open>History entries\<close>

datatype history_status =
  HConfirmed (hs_confirmations: u32) | HConfirming (hs_done: u32) (hs_required: u32) | HPending

record history_entry =
  he_op :: op
  he_key :: str
  he_value :: "str option"
  he_height :: "u32 option"
  he_timestamp :: "u32 option"
  he_txid :: str
  he_output_index :: u32
  he_signature :: "str option"
  he_seq :: "u64 option"
  he_signer :: "str option"
  he_verified :: "bool option"
  he_status :: history_status
  he_memo :: "str option"
  he_fee :: "u64 option"
  he_output_value :: "u64 option"

definition history_entry_from_memo ::
    "('pk, 'sk) crates \<Rightarrow> str \<Rightarrow> 'pk \<Rightarrow> str \<Rightarrow> u32 option \<Rightarrow> u32 option \<Rightarrow> str \<Rightarrow> u32 \<Rightarrow>
     history_status \<Rightarrow> history_entry option" where
  "history_entry_from_memo E receiver pk text height timestamp txid output_index status =
     map_option (\<lambda>cmd.
       \<lparr>he_op = cmd_op cmd, he_key = cmd_key cmd, he_value = cmd_value cmd, he_height = height,
        he_timestamp = timestamp, he_txid = txid, he_output_index = output_index,
        he_signature = Some (cmd_sig_hex cmd), he_seq = Some (cmd_seq cmd), he_signer = None,
        he_verified = Some (verify_command E pk (payload_for E receiver cmd) (cmd_sig_hex cmd)),
        he_status = status, he_memo = Some text, he_fee = None, he_output_value = None\<rparr>)
       (parse_text_memo E text)"

text \<open>
  \<open>history_entry_folding\<close> threads every projection but the epoch, into which it folds a throwaway
  default: it takes and returns a \<open>replay_result\<close> whose epoch it leaves alone. The outer
  \<open>None\<close> is a panic.
\<close>

definition history_entry_folding ::
    "('pk, 'sk) crates \<Rightarrow> str \<Rightarrow> str \<Rightarrow> str \<Rightarrow> u32 option \<Rightarrow> u32 option \<Rightarrow> str \<Rightarrow> u32 \<Rightarrow>
     history_status \<Rightarrow> write_status \<Rightarrow> replay_result \<Rightarrow>
     (replay_result \<times> history_entry option) option" where
  "history_entry_folding E receiver root_hex text height timestamp txid output_index hist_status
       write_status r =
     (case classify_in_memory E text write_status receiver root_hex r of
        None \<Rightarrow> Some (r, None)
      | Some c \<Rightarrow>
          (case apply_in_memory E c write_status txid timestamp root_hex
                  (r\<lparr>rr_version := default_version\<rparr>) of
             None \<Rightarrow> None
           | Some (r1, outcome) \<Rightarrow>
               (let r' = r1\<lparr>rr_version := rr_version r\<rparr> in
                case cl_op c of
                  None \<Rightarrow> Some (r', None)
                | Some op \<Rightarrow>
                    if op \<notin> {Init, Set, SetL, Del} then Some (r', None)
                    else Some (r', Some
                      \<lparr>he_op = op, he_key = unwrap_or (cl_key c) [], he_value = cl_value c,
                       he_height = height, he_timestamp = timestamp, he_txid = txid,
                       he_output_index = output_index, he_signature = cl_sig_hex c,
                       he_seq = Some (cl_seq c), he_signer = cl_signer_hex c,
                       he_verified = Some (outcome = Applied \<or> outcome = Pending),
                       he_status = hist_status, he_memo = Some text, he_fee = None,
                       he_output_value = None\<rparr>))))"

section \<open>The audit is the fold\<close>

definition re_of :: "audit_entry \<Rightarrow> replay_entry" where
  "re_of a = \<lparr>re_text = ae_text a, re_status = ae_status a, re_txid = ae_txid a, re_block_time = None\<rparr>"

lemma re_of_sel [simp]:
  "re_text (re_of a) = ae_text a" "re_status (re_of a) = ae_status a" "re_txid (re_of a) = ae_txid a"
  "re_block_time (re_of a) = None"
  by (simp_all add: re_of_def)

text \<open>The outcomes the fold reports for the memos that are not foreign, in order.\<close>

fun fold_outcomes ::
    "('pk, 'sk) crates \<Rightarrow> str \<Rightarrow> str \<Rightarrow> replay_entry list \<Rightarrow> replay_result \<Rightarrow> (str \<times> row_outcome) list" where
  "fold_outcomes E receiver root [] r = []"
| "fold_outcomes E receiver root (e # es) r =
     (case honor E receiver root e r of
        (r', None) \<Rightarrow> fold_outcomes E receiver root es r'
      | (r', Some out) \<Rightarrow> (re_text e, out) # fold_outcomes E receiver root es r')"

lemma honor_Some:
  "classify_in_memory E (re_text e) (re_status e) receiver root r = Some c \<Longrightarrow>
   apply_in_memory E c (re_status e) (re_txid e) (re_block_time e) root r = Some (r', out) \<Longrightarrow>
   honor E receiver root e r = (r', Some out)"
  by (simp add: honor_def)

lemma audit_loop_fold:
  "\<exists>rows. audit_loop E receiver root es r = Some (rows, honor_all E receiver root (map re_of es) r) \<and>
     map (\<lambda>row. (ar_raw row, ar_outcome row)) rows = fold_outcomes E receiver root (map re_of es) r"
proof (induction es arbitrary: r)
  case (Cons e es)
  show ?case
  proof (cases "classify_in_memory E (ae_text e) (ae_status e) receiver root r")
    case None
    then have "honor E receiver root (re_of e) r = (r, None)" by (simp add: honor_def)
    with None Cons show ?thesis by simp
  next
    case (Some c)
    from apply_in_memory_total [OF Some] obtain r' out
      where a: "apply_in_memory E c (ae_status e) (ae_txid e) None root r = Some (r', out)" by blast
    from Some a have h: "honor E receiver root (re_of e) r = (r', Some out)"
      by (intro honor_Some) simp_all
    from Cons [of r'] obtain rows
      where "audit_loop E receiver root es r' = Some (rows, honor_all E receiver root (map re_of es) r')"
        and "map (\<lambda>row. (ar_raw row, ar_outcome row)) rows =
             fold_outcomes E receiver root (map re_of es) r'" by blast
    with Some a h show ?thesis by (simp add: audit_row_of_def)
  qed
qed simp

text \<open>Replays that differ only in the block times of their entries.\<close>

definition untimed :: "key_state \<Rightarrow> key_state" where
  "untimed ks = ks\<lparr>updated_at := None\<rparr>"

definition same_untimed :: "replay_result \<Rightarrow> replay_result \<Rightarrow> bool" where
  "same_untimed r s \<longleftrightarrow>
     rr_init r = rr_init s \<and> rr_auth r = rr_auth s \<and> rr_finalized r = rr_finalized s \<and>
     rr_version r = rr_version s \<and> rr_kv_versions r = rr_kv_versions s \<and>
     rr_target_versions r = rr_target_versions s \<and>
     (\<forall>k. map_option untimed (rr_state r k) = map_option untimed (rr_state s k))"

lemma untimed_entry:
  "map_option untimed (m k) = map_option untimed (m' k) \<Longrightarrow>
   untimed (entry_or_default m k) = untimed (entry_or_default m' k)"
  by (cases "m k"; cases "m' k") (simp_all add: entry_or_default_def)

lemma untimed_sel [simp]: "confirmed (untimed ks) = confirmed ks" "pending (untimed ks) = pending ks"
  "last_txid (untimed ks) = last_txid ks"
  by (simp_all add: untimed_def)

lemma untimed_eq_iff:
  "untimed a = untimed b \<longleftrightarrow> confirmed a = confirmed b \<and> pending a = pending b \<and> last_txid a = last_txid b"
  by (cases a; cases b) (simp add: untimed_def)

lemma untimed_confirmed:
  "map_option untimed (m k) = map_option untimed (m' k) \<Longrightarrow> confirmed_values m k = confirmed_values m' k"
  by (cases "m k"; cases "m' k") (auto simp: confirmed_values_def untimed_eq_iff)

lemma same_untimed_admitted:
  assumes "same_untimed r s" and "re_text e = re_text e'" and "re_status e = re_status e'"
  shows "admitted E receiver root e r cmd signer = admitted E receiver root e' s cmd signer"
proof -
  have "key_confirmed (rr_state r) k = key_confirmed (rr_state s) k" for k
    using assms(1) untimed_confirmed [of "rr_state r" k "rr_state s"]
    by (simp add: key_confirmed_iff same_untimed_def)
  with assms show ?thesis by (simp add: admitted_def same_untimed_def)
qed

lemma same_untimed_honor:
  assumes "same_untimed r s" and "re_text e = re_text e'" and "re_status e = re_status e'"
    and "re_txid e = re_txid e'"
  shows "same_untimed (fst (honor E receiver root e r)) (fst (honor E receiver root e' s))"
proof (cases "\<exists>cmd signer. admitted E receiver root e r cmd signer")
  case True
  then obtain cmd signer where a: "admitted E receiver root e r cmd signer" by blast
  note b = a [unfolded same_untimed_admitted [OF assms(1-3)]]
  have u: "confirmed (entry_or_default (rr_state r) k) = confirmed (entry_or_default (rr_state s) k) \<and>
      pending (entry_or_default (rr_state r) k) = pending (entry_or_default (rr_state s) k) \<and>
      last_txid (entry_or_default (rr_state r) k) = last_txid (entry_or_default (rr_state s) k)" for k
    using assms(1) untimed_entry [of "rr_state r" k "rr_state s"]
    by (simp add: same_untimed_def untimed_eq_iff)
  show ?thesis
    using assms
    by (cases "re_status e'"; cases "cmd_op cmd")
       (auto simp: honor_admitted [OF a] honor_admitted [OF b] apply_applied_def apply_pending_def
         same_untimed_def Let_def untimed_eq_iff u split: prod.splits)
next
  case False
  with same_untimed_admitted [OF assms(1-3)]
  have "\<nexists>cmd signer. admitted E receiver root e' s cmd signer" by metis
  with False assms(1) show ?thesis by (simp add: honor_not_admitted(1))
qed

definition same_memo :: "replay_entry \<Rightarrow> audit_entry \<Rightarrow> bool" where
  "same_memo e a \<longleftrightarrow> re_text e = ae_text a \<and> re_status e = ae_status a \<and> re_txid e = ae_txid a"

lemma same_untimed_honor_all:
  "list_all2 same_memo es audit \<Longrightarrow> same_untimed r s \<Longrightarrow>
   same_untimed (honor_all E receiver root es r) (honor_all E receiver root (map re_of audit) s)"
  by (induction arbitrary: r s rule: list_all2_induct) (simp_all add: same_untimed_honor same_memo_def)

section \<open>Properties of the audit, of verification and of the history\<close>

text \<open>
  C10. The audit agrees with the replay. Over the same memos (same text, status and txid) the audit
  never panics, its phase, registry and epoch are those of the replay, so are the confirmed value and
  the pending queue of every key, and it reports one row per zkv memo with the outcome the replay
  gave it.
\<close>

theorem audit_agrees_with_replay:
  assumes "list_all2 same_memo es audit"
    and "replay_with_seed E es None receiver pk False = Ok r"
  shows "\<exists>au. replay_audit E audit receiver pk = Some au \<and>
     au_init au = rr_init r \<and> au_auth au = rr_auth r \<and> au_version au = rr_version r \<and>
     confirmed_values (au_state au) = confirmed_values (rr_state r) \<and>
     (\<forall>k. map_option pending (prune (au_state au) k) = map_option pending (rr_state r k)) \<and>
     map (\<lambda>row. (ar_raw row, ar_outcome row)) (au_rows au) =
       fold_outcomes E receiver (pubkey_bech32 E pk) (map re_of audit) empty_replay"
proof -
  let ?root = "pubkey_bech32 E pk"
  let ?s = "honor_all E receiver ?root (map re_of audit) empty_replay"
  let ?r = "honor_all E receiver ?root es empty_replay"
  have r: "r = ?r\<lparr>rr_state := prune (rr_state ?r)\<rparr>"
    using assms(2) by (simp add: replay_lenient replay_start_def Let_def)
  have u: "same_untimed ?r ?s"
    by (rule same_untimed_honor_all [OF assms(1)]) (simp add: same_untimed_def)
  then have m: "map_option untimed (rr_state ?r k) = map_option untimed (rr_state ?s k)" for k
    by (simp add: same_untimed_def)
  have c: "confirmed_values (rr_state ?s) = confirmed_values (rr_state r)"
    using untimed_confirmed [where m = "rr_state ?r" and m' = "rr_state ?s", OF m]
    by (simp add: r fun_eq_iff)
  have p: "map_option pending (prune (rr_state ?s) k) = map_option pending (rr_state r k)" for k
    using m [of k]
    by (cases "rr_state ?r k"; cases "rr_state ?s k")
       (auto simp: r prune_def retained_def untimed_eq_iff)
  from audit_loop_fold [of E receiver ?root audit empty_replay] obtain rows
    where l: "audit_loop E receiver ?root audit empty_replay = Some (rows, ?s)"
      and rows: "map (\<lambda>row. (ar_raw row, ar_outcome row)) rows =
        fold_outcomes E receiver ?root (map re_of audit) empty_replay" by blast
  from l u rows c p show ?thesis
    by (simp add: replay_audit_def same_untimed_def r)
qed

definition demo_audit :: "audit_entry list" where
  "demo_audit = map (\<lambda>e. \<lparr>ae_mined_height = Some 1, ae_timestamp = None, ae_txid = re_txid e,
     ae_text = re_text e, ae_status = re_status e\<rparr>) [demo_init, demo_put 0 Confirmed]"

theorem audit_agrees_with_replay_witness:
  "\<exists>au. replay_audit model_crates demo_audit ''main:00'' CHR ''A'' = Some au \<and>
     confirmed_values (au_state au) ''k'' = Some ''v''"
proof -
  have "list_all2 same_memo [demo_init, demo_put 0 Confirmed] demo_audit"
    by (simp add: demo_audit_def same_memo_def)
  moreover have "confirmed_values (rr_state demo_filled) ''k'' = Some ''v''"
    by (simp add: demo_filled_def confirmed_values_def)
  ultimately show ?thesis
    using audit_agrees_with_replay [OF _ demo_replay, of demo_audit] by fastforce
qed

lemma classify_parsed_signer:
  "fst (classify_parsed E cmd status receiver root r) =
   map_option (pubkey_bech32 E) (recover_memo_signer E cmd receiver)"
  by (cases "recover_memo_signer E cmd receiver") (simp_all add: classify_parsed_def Let_def)

lemma classify_parsed_Confirmed: "snd (classify_parsed E cmd Confirmed receiver root r) \<noteq> Pending"
  by (cases "recover_memo_signer E cmd receiver")
     (auto simp: classify_parsed_def decide_def Let_def split: sum.splits)

lemma honor_parsed:
  assumes "parse_text_memo_detailed E (re_text e) = Ok cmd" and "re_status e = Confirmed"
    and "snd (classify_parsed E cmd Confirmed receiver root r) = out"
  shows "case out of
      Dropped reason \<Rightarrow> honor E receiver root e r = (r, Some (Dropped reason))
    | Applied \<Rightarrow> \<exists>c. cl_key c = Some (cmd_key cmd) \<and>
        honor E receiver root e r =
          map_prod id Some (apply_applied E (cmd_op cmd) c (re_txid e) (re_block_time e) root r)
    | Pending \<Rightarrow> False"
proof (cases out)
  case (Dropped reason)
  obtain s where s: "classify_parsed E cmd Confirmed receiver root r = (s, Dropped reason)"
    using assms(3) Dropped by (cases "classify_parsed E cmd Confirmed receiver root r") simp
  with assms(1,2) Dropped show ?thesis
    by (simp add: honor_def classify_in_memory_def apply_in_memory_def)
next
  case Applied
  obtain s where s: "classify_parsed E cmd Confirmed receiver root r = (s, Applied)"
    using assms(3) Applied by (cases "classify_parsed E cmd Confirmed receiver root r") simp
  let ?c = "\<lparr>cl_op = Some (cmd_op cmd), cl_key = Some (cmd_key cmd), cl_value = cmd_value cmd,
      cl_sig_hex = Some (cmd_sig_hex cmd), cl_signer_hex = s, cl_seq = cmd_seq cmd,
      cl_outcome = Applied\<rparr>"
  have "honor E receiver root e r =
      map_prod id Some (apply_applied E (cmd_op cmd) ?c (re_txid e) (re_block_time e) root r)"
    using assms(1,2) s
    by (auto simp: honor_def classify_in_memory_def apply_in_memory_def split: prod.splits)
  then show ?thesis by (auto simp: Applied intro: exI [of _ ?c])
next
  case Pending
  with assms(3) classify_parsed_Confirmed show ?thesis by metis
qed

lemma apply_applied_outcome:
  "snd (apply_applied E op c txid bt root r) = Applied \<or>
   (op \<in> {OwnerAdd, OwnerDel, WriterAdd, WriterDel, Version} \<and>
    (\<exists>reason. snd (apply_applied E op c txid bt root r) = Dropped reason))"
proof -
  have "result_outcome res = Applied \<or> (\<exists>reason. result_outcome res = Dropped reason)" for res
    by (cases res) simp_all
  then show ?thesis by (cases op) (auto simp: apply_applied_def Let_def split: prod.splits)
qed



lemma apply_applied_epoch:
  "op \<noteq> Version \<Longrightarrow>
   apply_applied E op c txid bt root (r\<lparr>rr_version := v\<rparr>) =
     map_prod (\<lambda>r'. r'\<lparr>rr_version := v\<rparr>) id (apply_applied E op c txid bt root r)"
  by (cases op) (simp_all add: apply_applied_def Let_def split: prod.splits)

lemma apply_applied_Version:
  "(fst (apply_applied E Version c txid bt root (r\<lparr>rr_version := v\<rparr>)))\<lparr>rr_version := w\<rparr> =
   (fst (apply_applied E Version c txid bt root r))\<lparr>rr_version := w\<rparr>"
  by (simp add: apply_applied_def Let_def split: prod.splits)

lemma apply_pending_epoch:
  "apply_pending op c d q txid (r\<lparr>rr_version := v\<rparr>) = (apply_pending op c d q txid r)\<lparr>rr_version := v\<rparr>"
  by (cases op) (simp_all add: apply_pending_def Let_def)

lemma apply_applied_keeps_epoch:
  "op \<noteq> Version \<Longrightarrow> rr_version (fst (apply_applied E op c txid bt root r)) = rr_version r"
  by (cases op) (simp_all add: apply_applied_def Let_def split: prod.splits)

lemma apply_epoch:
  assumes "apply_in_memory E c status txid bt root r = Some (r', out)"
  shows "\<exists>r1 out1. apply_in_memory E c status txid bt root (r\<lparr>rr_version := v\<rparr>) = Some (r1, out1) \<and>
     r1\<lparr>rr_version := w\<rparr> = r'\<lparr>rr_version := w\<rparr> \<and> (cl_op c \<noteq> Some Version \<longrightarrow> out1 = out)"
proof (cases "cl_outcome c")
  case Applied
  with assms obtain op where op: "cl_op c = Some op"
    and r': "apply_applied E op c txid bt root r = (r', out)"
    by (auto simp: apply_in_memory_def)
  show ?thesis
  proof (cases "op = Version")
    case True
    obtain r1 out1 where "apply_applied E op c txid bt root (r\<lparr>rr_version := v\<rparr>) = (r1, out1)" by force
    with True op Applied r' apply_applied_Version [where E = E and c = c and txid = txid and bt = bt
        and root = root and r = r and v = v and w = w] show ?thesis
      by (simp add: apply_in_memory_def)
  next
    case False
    with op Applied r' show ?thesis by (simp add: apply_in_memory_def apply_applied_epoch)
  qed
next
  case Pending
  with assms show ?thesis
    by (cases status) (auto simp: apply_in_memory_def apply_pending_epoch)
next
  case (Dropped reason)
  then have "apply_in_memory E c status txid bt root s = Some (s, Dropped reason)" for s
    by (simp add: apply_in_memory_def)
  with assms show ?thesis by auto
qed

text \<open>
  The history view folds like the replay. \<open>history_entry_folding\<close> never panics and leaves exactly
  the state one replay step leaves (but for the epoch, which it does not track); it emits an entry
  exactly for a parsed \<open>INIT\<close>, \<open>SET\<close>, \<open>SETL\<close> or \<open>DEL\<close>, with the command's own fields, and marks it
  verified exactly when the replay applies it or queues it as pending.
\<close>

lemma history_folds_like_replay:
  "\<exists>entry. history_entry_folding E receiver root (re_text e) height (re_block_time e) (re_txid e) idx
       hs (re_status e) r =
     Some ((fst (honor E receiver root e r))\<lparr>rr_version := rr_version r\<rparr>, entry) \<and>
     (case parse_text_memo_detailed E (re_text e) of
        Inl err \<Rightarrow> entry = None
      | Inr cmd \<Rightarrow>
          if cmd_op cmd \<in> {Init, Set, SetL, Del} then
            \<exists>h. entry = Some h \<and> he_op h = cmd_op cmd \<and> he_key h = cmd_key cmd \<and>
                he_value h = cmd_value cmd \<and> he_seq h = Some (cmd_seq cmd) \<and>
                he_signer h = map_option (pubkey_bech32 E) (recover_memo_signer E cmd receiver) \<and>
                he_verified h = Some (snd (honor E receiver root e r) \<in> {Some Applied, Some Pending})
          else entry = None)"
proof (cases "classify_in_memory E (re_text e) (re_status e) receiver root r")
  case None
  then have "parse_text_memo_detailed E (re_text e) = Err NotZkv"
    by (auto simp: classify_in_memory_def Let_def split: sum.splits memo_reject.splits prod.splits)
  with None show ?thesis by (simp add: history_entry_folding_def honor_def)
next
  case (Some c)
  from apply_in_memory_total [OF Some] obtain r' out
    where a: "apply_in_memory E c (re_status e) (re_txid e) (re_block_time e) root r = Some (r', out)" by blast
  from apply_epoch [OF a, of default_version "rr_version r"] obtain r1 out1
    where a1: "apply_in_memory E c (re_status e) (re_txid e) (re_block_time e) root
        (r\<lparr>rr_version := default_version\<rparr>) = Some (r1, out1)"
      and r1: "r1\<lparr>rr_version := rr_version r\<rparr> = r'\<lparr>rr_version := rr_version r\<rparr>"
      and out1: "cl_op c \<noteq> Some Version \<longrightarrow> out1 = out" by blast
  note h = honor_Some [OF Some a]
  show ?thesis
  proof (cases "parse_text_memo_detailed E (re_text e)")
    case (Inl err)
    then have "cl_op c = None"
      using Some by (auto simp: classify_in_memory_def unparsed_def split: memo_reject.splits)
    with Inl Some a1 r1 h show ?thesis by (simp add: history_entry_folding_def)
  next
    case (Inr cmd)
    then have c: "cl_op c = Some (cmd_op cmd)" "cl_key c = Some (cmd_key cmd)"
        "cl_value c = cmd_value cmd" "cl_seq c = cmd_seq cmd"
        "cl_signer_hex c = map_option (pubkey_bech32 E) (recover_memo_signer E cmd receiver)"
      using Some classify_parsed_signer [of E cmd "re_status e" receiver root r]
      by (auto simp: classify_in_memory_def split: prod.splits)
    with Inr Some a1 r1 h out1 show ?thesis
      by (cases "cmd_op cmd") (simp_all add: history_entry_folding_def)
  qed
qed

end
