(* ===== verification/Roles.thy ===== *)
theory Roles
  imports Memo_Audit "HOL-Library.Product_Lexorder" "HOL-Library.Multiset"
begin

text \<open>
  \<open>granted_roles\<close> and \<open>revoked_roles\<close> of \<open>protocol/replay.rs\<close>: the two provenance views the roles
  command derives from an audit. Their \<open>BTreeMap\<close>s are iterated, so they are the ordered
  association lists of the prelude; \<open>sort_by\<close> is the stable \<open>sort_key\<close> on the comparator's keys.
\<close>

record held_role =
  hr_was_owner :: bool
  hr_capabilities :: "str list"

record revoked_role =
  rv_pubkey :: str
  rv_was_owner :: bool
  rv_capabilities :: "str list"
  rv_height :: "u32 option"
  rv_timestamp :: "u32 option"
  rv_revoked_by :: "str option"

record granted_role =
  gr_pubkey :: str
  gr_is_owner :: bool
  gr_capabilities :: "str list"
  gr_height :: "u32 option"
  gr_timestamp :: "u32 option"
  gr_granted_by :: "str option"
  gr_via_init :: bool

text \<open>The capability tokens of a \<open>WRITERADD\<close> row, in canonical order.\<close>

definition row_capabilities :: "audit_row \<Rightarrow> str list" where
  "row_capabilities row =
     (case Option.bind (ar_value row) scope_parse of
        None \<Rightarrow> []
      | Some sc \<Rightarrow> map capability_as_str (sorted_list_of_set sc))"

type_synonym revoking = "(str, held_role) btree \<times> (str, revoked_role) btree"

definition grant_held :: "str \<Rightarrow> held_role \<Rightarrow> revoking \<Rightarrow> revoking" where
  "grant_held pk h s = (bt_insert pk h (fst s), bt_remove pk (snd s))"

definition revoke_step :: "audit_row \<Rightarrow> revoking \<Rightarrow> revoking" where
  "revoke_step row s =
     (if ar_outcome row \<noteq> Applied then s
      else (case ar_op row of
        None \<Rightarrow> s
      | Some Init \<Rightarrow>
          (case ar_signer row of
             None \<Rightarrow> s
           | Some by_key \<Rightarrow> grant_held by_key \<lparr>hr_was_owner = True, hr_capabilities = []\<rparr> s)
      | Some OwnerAdd \<Rightarrow>
          (case ar_key row of
             None \<Rightarrow> s
           | Some target \<Rightarrow> grant_held target \<lparr>hr_was_owner = True, hr_capabilities = []\<rparr> s)
      | Some WriterAdd \<Rightarrow>
          (case ar_key row of
             None \<Rightarrow> s
           | Some target \<Rightarrow>
               grant_held target \<lparr>hr_was_owner = False, hr_capabilities = row_capabilities row\<rparr> s)
      | Some op \<Rightarrow>
          if op = OwnerDel \<or> op = WriterDel then
            (case ar_key row of
               None \<Rightarrow> s
             | Some target \<Rightarrow>
                 (case map_of (fst s) target of
                    None \<Rightarrow> (bt_remove target (fst s), snd s)
                  | Some prev \<Rightarrow>
                      (bt_remove target (fst s),
                       bt_insert target
                         \<lparr>rv_pubkey = target, rv_was_owner = hr_was_owner prev,
                          rv_capabilities = hr_capabilities prev, rv_height = ar_mined_height row,
                          rv_timestamp = ar_timestamp row, rv_revoked_by = ar_signer row\<rparr>
                         (snd s))))
          else s))"

definition revoked_roles :: "audit_result \<Rightarrow> revoked_role list" where
  "revoked_roles audit =
     (let (held, tombstones) = foldl (\<lambda>s row. revoke_step row s) ([], []) (au_rows audit)
      in sort_key (\<lambda>r. (u32_max - unwrap_or (rv_height r) u32_max, rv_pubkey r))
           (map snd tombstones))"

definition grant_of :: "audit_row \<Rightarrow> str \<Rightarrow> bool \<Rightarrow> str list \<Rightarrow> bool \<Rightarrow> granted_role" where
  "grant_of row pk is_own caps via_init =
     \<lparr>gr_pubkey = pk, gr_is_owner = is_own, gr_capabilities = caps,
      gr_height = ar_mined_height row, gr_timestamp = ar_timestamp row,
      gr_granted_by = ar_signer row, gr_via_init = via_init\<rparr>"

definition grant_step :: "audit_row \<Rightarrow> (str, granted_role) btree \<Rightarrow> (str, granted_role) btree" where
  "grant_step row held =
     (if ar_outcome row \<noteq> Applied then held
      else (case ar_op row of
        None \<Rightarrow> held
      | Some Init \<Rightarrow>
          (case ar_signer row of
             None \<Rightarrow> held
           | Some by_key \<Rightarrow> bt_insert by_key (grant_of row by_key True [] True) held)
      | Some OwnerAdd \<Rightarrow>
          (case ar_key row of
             None \<Rightarrow> held
           | Some target \<Rightarrow> bt_insert target (grant_of row target True [] False) held)
      | Some WriterAdd \<Rightarrow>
          (case ar_key row of
             None \<Rightarrow> held
           | Some target \<Rightarrow>
               bt_insert target (grant_of row target False (row_capabilities row) False) held)
      | Some op \<Rightarrow>
          if op = OwnerDel \<or> op = WriterDel then
            (case ar_key row of None \<Rightarrow> held | Some target \<Rightarrow> bt_remove target held)
          else held))"

definition granted_roles :: "audit_result \<Rightarrow> granted_role list" where
  "granted_roles audit =
     sort_key (\<lambda>r. (\<not> gr_is_owner r, gr_pubkey r))
       (map snd (foldl (\<lambda>held row. grant_step row held) [] (au_rows audit)))"

section \<open>The two views partition the keys that ever held a role\<close>

text \<open>The key a row grants a role to, if it does.\<close>

definition row_grantee :: "audit_row \<Rightarrow> str option" where
  "row_grantee row =
     (if ar_outcome row = Applied then
        (case ar_op row of
           Some Init \<Rightarrow> ar_signer row
         | Some OwnerAdd \<Rightarrow> ar_key row
         | Some WriterAdd \<Rightarrow> ar_key row
         | _ \<Rightarrow> None)
      else None)"

definition grantees :: "audit_row list \<Rightarrow> str set" where
  "grantees rows = {pk. \<exists>row \<in> set rows. row_grantee row = Some pk}"

text \<open>The shape of the two maps, and their keys.\<close>

definition keyed_by :: "('v \<Rightarrow> str) \<Rightarrow> (str, 'v) btree \<Rightarrow> bool" where
  "keyed_by f xs \<longleftrightarrow> (\<forall>x \<in> set xs. f (snd x) = fst x)"

definition roles_shape :: "revoking \<Rightarrow> (str, granted_role) btree \<Rightarrow> bool" where
  "roles_shape s held \<longleftrightarrow>
     bt_sorted (fst s) \<and> bt_sorted (snd s) \<and> bt_sorted held \<and>
     keyed_by rv_pubkey (snd s) \<and> keyed_by gr_pubkey held"

definition keys :: "('k \<times> 'v) list \<Rightarrow> 'k set" where
  "keys xs = fst ` set xs"

definition roles_inv :: "audit_row list \<Rightarrow> revoking \<Rightarrow> (str, granted_role) btree \<Rightarrow> bool" where
  "roles_inv rows s held \<longleftrightarrow>
     roles_shape s held \<and> keys (fst s) = keys held \<and> keys held \<inter> keys (snd s) = {} \<and>
     keys held \<union> keys (snd s) = grantees rows"

lemma keys_remove [simp]: "keys (bt_remove k xs) = keys xs - {k}"
  by (auto simp: keys_def bt_remove_def image_iff)

lemma keys_insert [simp]: "keys (bt_insert k v xs) = insert k (keys xs)"
  by (simp add: keys_def keys_bt_insert)

lemma set_bt_insert_sub: "set (bt_insert k v xs) \<subseteq> insert (k, v) (set xs)"
  by (induction k v xs rule: bt_insert.induct) auto

lemma set_bt_remove_sub: "set (bt_remove k xs) \<subseteq> set xs"
  by (auto simp: bt_remove_def)

lemma grantees_snoc:
  "grantees (rows @ [row]) =
   (case row_grantee row of None \<Rightarrow> grantees rows | Some pk \<Rightarrow> insert pk (grantees rows))"
  by (auto simp: grantees_def split: option.splits)

lemma keyed_by_insert: "keyed_by f xs \<Longrightarrow> f v = k \<Longrightarrow> keyed_by f (bt_insert k v xs)"
  using set_bt_insert_sub [of k v xs] by (auto simp: keyed_by_def)

lemma keyed_by_remove: "keyed_by f xs \<Longrightarrow> keyed_by f (bt_remove k xs)"
  using set_bt_remove_sub [of k xs] by (auto simp: keyed_by_def)

lemma roles_inv_keep:
  "roles_inv rows s held \<Longrightarrow> row_grantee row = None \<Longrightarrow> roles_inv (rows @ [row]) s held"
  unfolding roles_inv_def grantees_snoc by simp

lemma shape_grant:
  "roles_shape s held \<Longrightarrow> gr_pubkey g = pk \<Longrightarrow>
   roles_shape (bt_insert pk h (fst s), bt_remove pk (snd s)) (bt_insert pk g held)"
  unfolding roles_shape_def
  by (simp add: bt_sorted_insert bt_sorted_remove keyed_by_insert keyed_by_remove)

lemma shape_revoke:
  "roles_shape s held \<Longrightarrow> rv_pubkey r = pk \<Longrightarrow>
   roles_shape (bt_remove pk (fst s), bt_insert pk r (snd s)) (bt_remove pk held)"
  unfolding roles_shape_def
  by (simp add: bt_sorted_insert bt_sorted_remove keyed_by_insert keyed_by_remove)

lemma shape_drop:
  "roles_shape s held \<Longrightarrow> roles_shape (bt_remove pk (fst s), snd s) (bt_remove pk held)"
  unfolding roles_shape_def by (simp add: bt_sorted_remove keyed_by_remove)

lemma roles_inv_grant:
  assumes "roles_inv rows s held" and "row_grantee row = Some pk" and "gr_pubkey g = pk"
  shows "roles_inv (rows @ [row]) (grant_held pk h s) (bt_insert pk g held)"
  using assms shape_grant [OF _ assms(3), of s held h]
  by (auto simp: roles_inv_def grantees_snoc grant_held_def)

lemma roles_inv_revoke:
  assumes "roles_inv rows s held" and "row_grantee row = None"
  shows "map_of (fst s) pk = Some prev \<Longrightarrow> rv_pubkey r = pk \<Longrightarrow>
      roles_inv (rows @ [row]) (bt_remove pk (fst s), bt_insert pk r (snd s)) (bt_remove pk held)"
    and "map_of (fst s) pk = None \<Longrightarrow>
      roles_inv (rows @ [row]) (bt_remove pk (fst s), snd s) (bt_remove pk held)"
proof -
  show "roles_inv (rows @ [row]) (bt_remove pk (fst s), bt_insert pk r (snd s)) (bt_remove pk held)"
    if m: "map_of (fst s) pk = Some prev" and r: "rv_pubkey r = pk"
  proof -
    have "pk \<in> keys (fst s)"
      using map_of_SomeD [OF m] by (force simp: keys_def)
    with assms shape_revoke [OF _ r, of s held] show ?thesis
      by (auto simp: roles_inv_def grantees_snoc)
  qed
  show "roles_inv (rows @ [row]) (bt_remove pk (fst s), snd s) (bt_remove pk held)"
    if m: "map_of (fst s) pk = None"
  proof -
    have "pk \<notin> keys (fst s)"
      using m by (auto simp: keys_def map_of_eq_None_iff)
    with assms shape_drop [of s held pk] show ?thesis
      by (auto simp: roles_inv_def grantees_snoc)
  qed
qed

lemma roles_inv_step:
  assumes "roles_inv rows s held"
  shows "roles_inv (rows @ [row]) (revoke_step row s) (grant_step row held)"
proof (cases "ar_outcome row = Applied")
  case False
  with assms show ?thesis
    by (simp add: revoke_step_def grant_step_def row_grantee_def roles_inv_keep)
next
  case True
  show ?thesis
  proof (cases "ar_op row")
    case None
    with assms show ?thesis
      by (simp add: revoke_step_def grant_step_def row_grantee_def roles_inv_keep)
  next
    case (Some op)
    show ?thesis
    proof (cases "op \<in> {OwnerDel, WriterDel}")
      case del: True
      then have "row_grantee row = None" using Some by (auto simp: row_grantee_def)
      with del Some True assms show ?thesis
        by (cases "ar_key row")
           (auto simp: revoke_step_def grant_step_def roles_inv_keep roles_inv_revoke
             split: option.splits)
    next
      case False
      with Some True assms show ?thesis
        by (cases op; cases "ar_key row"; cases "ar_signer row")
           (simp_all add: revoke_step_def grant_step_def row_grantee_def roles_inv_keep
             roles_inv_grant grant_of_def)
    qed
  qed
qed

lemma roles_inv_fold:
  "roles_inv rows (foldl (\<lambda>s row. revoke_step row s) ([], []) rows)
     (foldl (\<lambda>held row. grant_step row held) [] rows)"
proof (induction rows rule: rev_induct)
  case Nil
  show ?case by (simp add: roles_inv_def roles_shape_def keys_def grantees_def keyed_by_def)
next
  case (snoc row rows)
  from roles_inv_step [OF this] show ?case by simp
qed

lemma keyed_pubkeys: "keyed_by f xs \<Longrightarrow> map (\<lambda>x. f (snd x)) xs = map fst xs"
  by (induction xs) (auto simp: keyed_by_def)

lemma revoked_roles_eq:
  "revoked_roles audit = sort_key (\<lambda>r. (u32_max - unwrap_or (rv_height r) u32_max, rv_pubkey r))
     (map snd (snd (foldl (\<lambda>s row. revoke_step row s) ([], []) (au_rows audit))))"
  by (simp add: revoked_roles_def case_prod_beta Let_def)

lemma roles_keys:
  "set (map gr_pubkey (granted_roles audit)) \<inter> set (map rv_pubkey (revoked_roles audit)) = {} \<and>
   set (map gr_pubkey (granted_roles audit)) \<union> set (map rv_pubkey (revoked_roles audit)) =
     grantees (au_rows audit) \<and>
   distinct (map gr_pubkey (granted_roles audit)) \<and> distinct (map rv_pubkey (revoked_roles audit))"
proof -
  let ?s = "foldl (\<lambda>s row. revoke_step row s) ([], []) (au_rows audit)"
  let ?h = "foldl (\<lambda>held row. grant_step row held) [] (au_rows audit)"
  note inv = roles_inv_fold [of "au_rows audit"]
  then have shape: "roles_shape ?s ?h" by (simp add: roles_inv_def)
  then have g: "map (\<lambda>x. gr_pubkey (snd x)) ?h = map fst ?h"
    and v: "map (\<lambda>x. rv_pubkey (snd x)) (snd ?s) = map fst (snd ?s)"
    and d: "distinct (map fst ?h)" "distinct (map fst (snd ?s))"
    by (auto simp: roles_shape_def keyed_pubkeys bt_sorted_distinct)
  have mg: "mset (map gr_pubkey (granted_roles audit)) = mset (map fst ?h)"
    unfolding g [symmetric] by (simp add: granted_roles_def multiset.map_comp comp_def)
  have mv: "mset (map rv_pubkey (revoked_roles audit)) = mset (map fst (snd ?s))"
    unfolding v [symmetric] by (simp add: revoked_roles_eq multiset.map_comp comp_def)
  have "set (map gr_pubkey (granted_roles audit)) = keys ?h"
    using mset_eq_setD [OF mg] by (simp add: keys_def)
  moreover have "set (map rv_pubkey (revoked_roles audit)) = keys (snd ?s)"
    using mset_eq_setD [OF mv] by (simp add: keys_def)
  moreover have "distinct (map gr_pubkey (granted_roles audit))"
    using mset_eq_imp_distinct_iff [OF mg] d(1) by blast
  moreover have "distinct (map rv_pubkey (revoked_roles audit))"
    using mset_eq_imp_distinct_iff [OF mv] d(2) by blast
  ultimately show ?thesis
    using inv by (simp only: roles_inv_def)
qed

section \<open>Properties of the role views\<close>

text \<open>
  For every audit the granted and the revoked roles are disjoint, without repetition, and
  together they are exactly the keys that some applied \<open>INIT\<close>, \<open>OWNERADD\<close> or \<open>WRITERADD\<close> row granted a
  role to; the granted ones are listed owners first, each group by key, and the revoked ones newest
  revocation first.
\<close>

lemma roles_partition:
  "set (map gr_pubkey (granted_roles audit)) \<inter> set (map rv_pubkey (revoked_roles audit)) = {} \<and>
   set (map gr_pubkey (granted_roles audit)) \<union> set (map rv_pubkey (revoked_roles audit)) =
     grantees (au_rows audit) \<and>
   distinct (map gr_pubkey (granted_roles audit)) \<and> distinct (map rv_pubkey (revoked_roles audit)) \<and>
   sorted (map (\<lambda>r. (\<not> gr_is_owner r, gr_pubkey r)) (granted_roles audit)) \<and>
   sorted (map (\<lambda>r. (u32_max - unwrap_or (rv_height r) u32_max, rv_pubkey r)) (revoked_roles audit))"
  using roles_keys [of audit]
  by (simp add: granted_roles_def revoked_roles_eq)

text \<open>A writer \<open>B\<close>, and the removal of \<open>B\<close> as an owner, which it never was.\<close>

definition demo_writer :: str where
  "demo_writer = pubkey_bech32 model_crates CHR ''B''"

definition demo_grant :: replay_entry where
  "demo_grant = demo_entry WriterAdd demo_writer (Some ''CREATE'') 0 Confirmed"

definition demo_ownerdel :: replay_entry where
  "demo_ownerdel = demo_entry OwnerDel demo_writer None 1 Confirmed"

definition demo_granted :: replay_result where
  "demo_granted = demo_born
     \<lparr>rr_auth := (insert_owner demo_root empty_auth)\<lparr>writers := [demo_writer \<mapsto> {Create}]\<rparr>,
      rr_target_versions := [demo_writer \<mapsto> 1]\<rparr>"

lemma demo_writer_word: "demo_word demo_writer"
proof -
  have "length demo_writer = 14"
    by (simp add: demo_writer_def pubkey_bech32_def model_crates_def PUBKEY_HRP_def)
  then show ?thesis
    using pubkey_bech32_plain [of model_crates "CHR ''B''"] by (simp add: demo_word_def demo_writer_def)
qed

lemma demo_writer_canonical: "canonical_pubkey model_crates demo_writer = Some demo_writer"
  by (simp add: demo_writer_def)

lemma demo_writer_not_root: "demo_writer \<noteq> demo_root"
  using pubkey_bech32_inject [OF bech32_laws_model key_laws_model, of "CHR ''B''" "CHR ''A''"]
  by (simp add: demo_writer_def demo_root_def)

lemma demo_ok_roles: "demo_ok WriterAdd demo_writer (Some ''CREATE'')" "demo_ok OwnerDel demo_writer None"
  using demo_writer_word
  by (simp_all add: demo_ok_def value_arity_def) (simp add: demo_word_def plain_def byte_def)

lemma create_parse: "scope_parse ''CREATE'' = Some {Create}"
  using scope_parse_to_wire [of "{Create}"] by (simp add: scope_to_wire_def)

lemma demo_grant_admitted:
  "admitted model_crates receiver root demo_grant demo_born
     (demo_command WriterAdd demo_writer (Some ''CREATE'') 0) demo_root"
  unfolding demo_grant_def
  by (rule demo_root_admitted [OF demo_ok_roles(1)]) (simp_all add: demo_window_0)

lemma demo_ownerdel_admitted:
  "admitted model_crates receiver root demo_ownerdel demo_granted
     (demo_command OwnerDel demo_writer None 1) demo_root"
  unfolding demo_ownerdel_def
  by (rule demo_root_admitted [OF demo_ok_roles(2)])
     (simp_all add: demo_granted_def seq_in_window_def sat_add64_def VERSION_WINDOW_def)

definition demo_roles_audit :: "audit_entry list" where
  "demo_roles_audit = map (\<lambda>e. \<lparr>ae_mined_height = Some 1, ae_timestamp = None, ae_txid = re_txid e,
     ae_text = re_text e, ae_status = re_status e\<rparr>) [demo_init, demo_grant, demo_ownerdel]"

lemma audit_row_of_sel [simp]:
  "ar_outcome (audit_row_of e c out) = out" "ar_op (audit_row_of e c out) = cl_op c"
  "ar_key (audit_row_of e c out) = cl_key c" "ar_signer (audit_row_of e c out) = cl_signer_hex c"
  "ar_value (audit_row_of e c out) = cl_value c"
  by (simp_all add: audit_row_of_def)

lemma classify_demo:
  "admitted model_crates receiver root e r cmd signer \<Longrightarrow> re_status e = Confirmed \<Longrightarrow>
   classify_in_memory model_crates (re_text e) Confirmed receiver root r =
     Some (classified_of cmd signer Applied)"
  using classify_admitted [of model_crates receiver root e r cmd signer] by simp

lemma demo_grant_applied:
  "apply_applied model_crates WriterAdd
     (classified_of (demo_command WriterAdd demo_writer (Some ''CREATE'') 0) demo_root Applied)
     txid bt root demo_born = (demo_granted, Applied)"
proof -
  have "demo_writer \<notin> owners (rr_auth demo_born)"
    using demo_writer_not_root by (simp add: empty_auth_def)
  then have "apply_management model_crates WriterAdd demo_writer (Some ''CREATE'') (rr_auth demo_born) =
      ((rr_auth demo_born)\<lparr>writers := [demo_writer \<mapsto> {Create}]\<rparr>, Ok ())"
    by (simp add: apply_management_def demo_writer_canonical create_parse empty_auth_def insert_owner_def)
  then show ?thesis
    by (simp add: apply_applied_def Let_def demo_granted_def bump_hw_def max_def)
qed

lemma demo_ownerdel_applied:
  "apply_applied model_crates OwnerDel
     (classified_of (demo_command OwnerDel demo_writer None 1) demo_root Applied)
     txid bt root demo_granted =
   (demo_granted\<lparr>rr_target_versions := [demo_writer \<mapsto> 2]\<rparr>, Applied)"
proof -
  have "demo_writer \<notin> owners (rr_auth demo_granted)" and "card (owners (rr_auth demo_granted)) \<le> 1"
    using demo_writer_not_root by (simp_all add: demo_granted_def empty_auth_def insert_owner_def)
  then have "apply_management model_crates OwnerDel demo_writer None (rr_auth demo_granted) =
      (rr_auth demo_granted, Ok ())"
    by (simp add: apply_management_def demo_writer_canonical)
  then show ?thesis
    by (simp add: apply_applied_def Let_def demo_granted_def bump_hw_def max_def)
qed

text \<open>
  A writer can be listed as revoked while it may still write. An \<open>OWNERDEL\<close> that names a writer
  is no error in the registry (with one owner it returns \<open>Ok\<close> because the target is no owner), so
  its row is \<open>Applied\<close> and the registry keeps the writer; but both role views read the row as a
  revocation. In the audit below \<open>B\<close> is a current writer that may create keys, is missing from the
  granted roles and is the one revoked role.
\<close>

lemma revoked_writer_still_writes:
  "\<exists>au. replay_audit model_crates demo_roles_audit ''main:00'' CHR ''A'' = Some au \<and>
     may_write (au_auth au) demo_writer Set False \<and>
     demo_writer \<notin> set (map gr_pubkey (granted_roles au)) \<and>
     map rv_pubkey (revoked_roles au) = [demo_writer]"
proof -
  let ?E = "model_crates" and ?rc = "''main:00''"
  let ?row = "\<lambda>e c. audit_row_of \<lparr>ae_mined_height = Some 1, ae_timestamp = None, ae_txid = re_txid e,
     ae_text = re_text e, ae_status = re_status e\<rparr> c Applied"
  let ?c1 = "classified_of (demo_command Init ''addr'' None 0) demo_root Applied"
  let ?c2 = "classified_of (demo_command WriterAdd demo_writer (Some ''CREATE'') 0) demo_root Applied"
  let ?c3 = "classified_of (demo_command OwnerDel demo_writer None 1) demo_root Applied"
  let ?rows = "[?row demo_init ?c1, ?row demo_grant ?c2, ?row demo_ownerdel ?c3]"
  let ?r = "demo_granted\<lparr>rr_target_versions := [demo_writer \<mapsto> 2]\<rparr>"
  have st: "re_status demo_init = Confirmed" "re_status demo_grant = Confirmed"
    "re_status demo_ownerdel = Confirmed"
    by (simp_all add: demo_init_def demo_grant_def demo_ownerdel_def)
  have i: "apply_applied ?E Init ?c1 txid bt demo_root empty_replay = (demo_born, Applied)" for txid bt
    by (simp add: apply_applied_def demo_born_def empty_replay_def)
  note c = classify_demo [OF demo_init_admitted st(1), of ?rc]
    classify_demo [OF demo_grant_admitted st(2), of ?rc demo_root]
    classify_demo [OF demo_ownerdel_admitted st(3), of ?rc demo_root]
  have loop: "audit_loop ?E ?rc demo_root demo_roles_audit empty_replay = Some (?rows, ?r)"
    by (simp add: demo_roles_audit_def st c apply_in_memory_def i demo_grant_applied
        demo_ownerdel_applied)
  let ?au = "\<lparr>au_rows = ?rows, au_init = rr_init ?r, au_state = rr_state ?r, au_auth = rr_auth ?r,
      au_version = rr_version ?r\<rparr>"
  have a: "replay_audit ?E demo_roles_audit ?rc CHR ''A'' = Some ?au"
    using loop by (simp add: replay_audit_def flip: demo_root_def)
  have ne: "demo_root \<noteq> demo_writer" using demo_writer_not_root by simp
  let ?own = "\<lparr>hr_was_owner = True, hr_capabilities = []\<rparr>"
  let ?wr = "\<lparr>hr_was_owner = False, hr_capabilities = row_capabilities (?row demo_grant ?c2)\<rparr>"
  have s1: "revoke_step (?row demo_init ?c1) ([], []) = ([(demo_root, ?own)], [])"
    by (simp add: revoke_step_def grant_held_def bt_remove_def)
  have s2: "revoke_step (?row demo_grant ?c2) ([(demo_root, ?own)], []) =
      (bt_insert demo_writer ?wr [(demo_root, ?own)], [])"
    by (simp add: revoke_step_def grant_held_def bt_remove_def)
  have "\<exists>t. rv_pubkey t = demo_writer \<and>
      snd (revoke_step (?row demo_ownerdel ?c3) (bt_insert demo_writer ?wr [(demo_root, ?own)], [])) =
        [(demo_writer, t)]"
    by (simp add: revoke_step_def)
  then obtain t where t: "rv_pubkey t = demo_writer"
      "snd (revoke_step (?row demo_ownerdel ?c3) (bt_insert demo_writer ?wr [(demo_root, ?own)], [])) =
        [(demo_writer, t)]" by blast
  have "foldl (\<lambda>s row. revoke_step row s) ([], []) (au_rows ?au) =
      revoke_step (?row demo_ownerdel ?c3) (bt_insert demo_writer ?wr [(demo_root, ?own)], [])"
    by (simp only: audit_result.select_convs foldl_Cons foldl_Nil s1 s2)
  with t have v: "map rv_pubkey (revoked_roles ?au) = [demo_writer]"
    by (simp only: revoked_roles_eq) simp
  then have "demo_writer \<in> set (map rv_pubkey (revoked_roles ?au))"
    by (simp only: list.set insertI1)
  with roles_keys [of ?au, THEN conjunct1]
  have g: "demo_writer \<notin> set (map gr_pubkey (granted_roles ?au))" by blast
  have w: "may_write (au_auth ?au) demo_writer Set False"
    using ne by (simp add: demo_granted_def may_write_def authorize_def authority_of_def
        scope_contains_def empty_auth_def insert_owner_def)
  show ?thesis using a w g v by (intro exI [of _ ?au] conjI)
qed

end
