(* ===== verification/Snapshot.thy ===== *)
theory Snapshot
  imports Replay_Seed
begin

text \<open>
  \<open>internal/snapshot.rs\<close>: the persistent projection of deeply buried memos. The SQLite file is the
  record \<open>snapshot\<close>, one field per table: a table with a primary key and no order is a map from the
  key, \<open>kv_history\<close> and \<open>auth\<close> are their rows in insertion order with the primary key checked on every
  insert. An \<open>INTEGER\<close> column is an \<open>int\<close>, so the casts \<open>as i64\<close> and \<open>as u64\<close> are written out.
  Absent tables are empty ones, and failures of the file itself (I/O, locking) are not modelled;
  constraint and type errors of SQLite and rusqlite are.
\<close>

section \<open>Tables\<close>

datatype meta_value = MText str | MBlob bytes

record kv_row =
  kr_value :: str
  kr_mined_height :: u32
  kr_txid :: "str option"
  kr_block_time :: "u32 option"

record hist_row =
  hi_mined_height :: u32
  hi_txid :: bytes
  hi_output_index :: u32
  hi_key :: str
  hi_op :: str
  hi_value :: "str option"
  hi_signature :: str
  hi_block_time :: "u32 option"
  hi_signer :: str
  hi_seq :: int
  hi_comment :: "str option"

record snapshot =
  sn_user_version :: u32
  sn_meta :: "str \<rightharpoonup> meta_value"
  sn_kv :: "str \<rightharpoonup> kv_row"
  sn_history :: "hist_row list"
  sn_auth :: "(str \<times> str) list"
  sn_kv_version :: "str \<rightharpoonup> int"
  sn_target_version :: "str \<rightharpoonup> int"

record watermark =
  wm_height :: u32
  wm_txid :: bytes
  wm_output_index :: u32

record promote_row =
  pr_mined_height :: u32
  pr_txid :: bytes
  pr_output_index :: u32
  pr_block_time :: "u32 option"
  pr_memo_text :: str

datatype snap_error =
  ColumnType str | MetaNotU32 str | HistoryConflict | AuthConflict | SetWithoutValue

definition SAFE_DEPTH :: u32 where "SAFE_DEPTH = 100"

definition SCHEMA_VERSION :: u32 where "SCHEMA_VERSION = 12"

definition META_INIT_STATE :: str where "META_INIT_STATE = ''init_state''"
definition META_WATERMARK_HEIGHT :: str where "META_WATERMARK_HEIGHT = ''watermark_height''"
definition META_WATERMARK_TXID :: str where "META_WATERMARK_TXID = ''watermark_txid''"
definition META_WATERMARK_OUTPUT_INDEX :: str where
  "META_WATERMARK_OUTPUT_INDEX = ''watermark_output_index''"
definition META_FINALIZED :: str where "META_FINALIZED = ''finalized''"
definition META_DB_VERSION :: str where "META_DB_VERSION = ''db_version''"
definition META_DB_VERSION_BLOCKS :: str where "META_DB_VERSION_BLOCKS = ''db_version_blocks''"
definition INIT_STATE_INITIALIZED :: str where "INIT_STATE_INITIALIZED = ''initialized''"
definition FINALIZED_YES :: str where "FINALIZED_YES = ''finalized''"
definition AUTH_ROLE_OWNER :: str where "AUTH_ROLE_OWNER = ''owner''"

lemmas meta_keys =
  META_INIT_STATE_def META_WATERMARK_HEIGHT_def META_WATERMARK_TXID_def
  META_WATERMARK_OUTPUT_INDEX_def META_FINALIZED_def META_DB_VERSION_def META_DB_VERSION_BLOCKS_def

definition txid_display :: "('pk, 'sk) crates \<Rightarrow> bytes \<Rightarrow> str option" where
  "txid_display E txid = (if length txid = 32 then Some (txid_to_string E txid) else None)"

section \<open>Opening and wiping\<close>

text \<open>\<open>CREATE TABLE IF NOT EXISTS\<close> leaves a table with rows alone.\<close>

definition init_schema :: "snapshot \<Rightarrow> snapshot" where
  "init_schema s = s\<lparr>sn_user_version := SCHEMA_VERSION\<rparr>"

definition wipe :: "snapshot \<Rightarrow> snapshot" where
  "wipe s = init_schema
     (s\<lparr>sn_target_version := Map.empty, sn_kv_version := Map.empty, sn_auth := [],
        sn_history := [], sn_kv := Map.empty, sn_meta := Map.empty\<rparr>)"

definition open_snapshot :: "snapshot \<Rightarrow> snapshot" where
  "open_snapshot s =
     (if sn_user_version s = 0 then init_schema s
      else if sn_user_version s = SCHEMA_VERSION then s
      else wipe s)"

text \<open>\<open>Connection::open\<close> on a missing path creates an empty file, whose \<open>user_version\<close> is 0.\<close>

definition empty_file :: snapshot where
  "empty_file =
     \<lparr>sn_user_version = 0, sn_meta = Map.empty, sn_kv = Map.empty, sn_history = [], sn_auth = [],
      sn_kv_version = Map.empty, sn_target_version = Map.empty\<rparr>"

section \<open>The meta table\<close>

definition read_meta_text :: "snapshot \<Rightarrow> str \<Rightarrow> snap_error + str option" where
  "read_meta_text s k =
     (case sn_meta s k of
        None \<Rightarrow> Ok None
      | Some (MText v) \<Rightarrow> Ok (Some v)
      | Some (MBlob b) \<Rightarrow> Err (ColumnType k))"

definition read_meta_u32 :: "snapshot \<Rightarrow> str \<Rightarrow> snap_error + u32 option" where
  "read_meta_u32 s k =
     try_ok (read_meta_text s k) (\<lambda>v.
       case v of
         None \<Rightarrow> Ok None
       | Some t \<Rightarrow>
           (case parse_uint u32_max t of None \<Rightarrow> Err (MetaNotU32 k) | Some n \<Rightarrow> Ok (Some n)))"

definition read_meta_blob :: "snapshot \<Rightarrow> str \<Rightarrow> snap_error + bytes option" where
  "read_meta_blob s k =
     (case sn_meta s k of
        None \<Rightarrow> Ok None
      | Some (MBlob b) \<Rightarrow> Ok (Some b)
      | Some (MText v) \<Rightarrow> Err (ColumnType k))"

definition write_meta_text :: "str \<Rightarrow> str \<Rightarrow> snapshot \<Rightarrow> snapshot" where
  "write_meta_text k v s = s\<lparr>sn_meta := (sn_meta s)(k \<mapsto> MText v)\<rparr>"

definition write_meta_u32 :: "str \<Rightarrow> u32 \<Rightarrow> snapshot \<Rightarrow> snapshot" where
  "write_meta_u32 k v s = write_meta_text k (dec v) s"

definition write_meta_blob :: "str \<Rightarrow> bytes \<Rightarrow> snapshot \<Rightarrow> snapshot" where
  "write_meta_blob k v s = s\<lparr>sn_meta := (sn_meta s)(k \<mapsto> MBlob v)\<rparr>"

definition read_watermark :: "snapshot \<Rightarrow> snap_error + watermark" where
  "read_watermark s =
     try_ok (read_meta_u32 s META_WATERMARK_HEIGHT) (\<lambda>height.
     try_ok (read_meta_blob s META_WATERMARK_TXID) (\<lambda>txid.
     try_ok (read_meta_u32 s META_WATERMARK_OUTPUT_INDEX) (\<lambda>output_index.
       Ok \<lparr>wm_height = unwrap_or height 0, wm_txid = unwrap_or txid [],
           wm_output_index = unwrap_or output_index 0\<rparr>)))"

definition read_init_state :: "snapshot \<Rightarrow> snap_error + init_state" where
  "read_init_state s =
     try_ok (read_meta_text s META_INIT_STATE) (\<lambda>v.
       Ok (if v = Some INIT_STATE_INITIALIZED then Initialized else Uninitialized))"

definition read_finalized :: "snapshot \<Rightarrow> snap_error + bool" where
  "read_finalized s =
     try_ok (read_meta_text s META_FINALIZED) (\<lambda>v. Ok (v = Some FINALIZED_YES))"

definition read_version :: "snapshot \<Rightarrow> snap_error + version_state" where
  "read_version s =
     try_ok (read_meta_u32 s META_DB_VERSION) (\<lambda>version.
     try_ok (read_meta_text s META_DB_VERSION_BLOCKS) (\<lambda>blocks.
       Ok \<lparr>vs_version = unwrap_or version GENESIS_DB_VERSION,
           vs_blocks = (case blocks of
              None \<Rightarrow> {} | Some t \<Rightarrow> unwrap_or (block_set_parse t) {})\<rparr>))"

text \<open>\<open>cached_version\<close>: a missing file reads as genesis.\<close>

definition cached_version :: "snapshot option \<Rightarrow> snap_error + version_state" where
  "cached_version file =
     (case file of None \<Rightarrow> Ok default_version | Some s \<Rightarrow> read_version (open_snapshot s))"

section \<open>Projections: counters and registry\<close>

definition load_versions :: "(str \<rightharpoonup> int) \<Rightarrow> (str \<rightharpoonup> u64)" where
  "load_versions t = (\<lambda>k. map_option (\<lambda>v. word_of_int (max v 0)) (t k))"

definition persist_versions :: "(str \<rightharpoonup> u64) \<Rightarrow> (str \<rightharpoonup> int)" where
  "persist_versions m = (\<lambda>k. map_option sint (m k))"

definition load_auth_row :: "('pk, 'sk) crates \<Rightarrow> auth_registry \<Rightarrow> str \<times> str \<Rightarrow> auth_registry" where
  "load_auth_row E a row =
     (let (pubkey, role) = row in
      if role = AUTH_ROLE_OWNER then insert_owner pubkey a
      else (case scope_parse role of
              None \<Rightarrow> a
            | Some scope \<Rightarrow>
                fst (apply_management E WriterAdd pubkey (Some (scope_to_wire scope)) a)))"

definition load_auth :: "('pk, 'sk) crates \<Rightarrow> (str \<times> str) list \<Rightarrow> auth_registry" where
  "load_auth E rows = foldl (load_auth_row E) empty_auth rows"

fun insert_auth_rows :: "(str \<times> str) list \<Rightarrow> (str \<times> str) list \<Rightarrow> snap_error + (str \<times> str) list" where
  "insert_auth_rows [] t = Ok t"
| "insert_auth_rows (row # rows) t =
     (if fst row \<in> fst ` set t then Err AuthConflict else insert_auth_rows rows (t @ [row]))"

definition auth_rows :: "auth_registry \<Rightarrow> (str \<times> str) list" where
  "auth_rows a =
     map (\<lambda>owner. (owner, AUTH_ROLE_OWNER)) (sorted_list_of_set (owners a)) @
     map (\<lambda>writer. (writer, scope_to_wire (unwrap_or (writers a writer) {})))
       (sorted_list_of_set (dom (writers a)))"

definition persist_auth :: "auth_registry \<Rightarrow> snapshot \<Rightarrow> snap_error + snapshot" where
  "persist_auth a s = try_ok (insert_auth_rows (auth_rows a) []) (\<lambda>t. Ok (s\<lparr>sn_auth := t\<rparr>))"

definition seed_entry :: "kv_row \<Rightarrow> key_state" where
  "seed_entry row =
     \<lparr>confirmed = Some (kr_value row), pending = [], updated_at = kr_block_time row,
      last_txid = kr_txid row\<rparr>"

definition load_seed :: "('pk, 'sk) crates \<Rightarrow> snapshot \<Rightarrow> snap_error + replay_result" where
  "load_seed E s =
     try_ok (read_init_state s) (\<lambda>init.
     try_ok (read_finalized s) (\<lambda>finalized.
     try_ok (read_version s) (\<lambda>version.
       Ok \<lparr>rr_init = init, rr_state = (\<lambda>k. map_option seed_entry (sn_kv s k)),
           rr_auth = load_auth E (sn_auth s), rr_finalized = finalized, rr_version = version,
           rr_kv_versions = load_versions (sn_kv_version s),
           rr_target_versions = load_versions (sn_target_version s)\<rparr>)))"

section \<open>Promotion\<close>

text \<open>The transaction and the projections \<open>promote\<close> passes by \<open>&mut\<close>.\<close>

record promoting =
  pg_tx :: snapshot
  pg_init :: init_state
  pg_auth :: auth_registry
  pg_finalized :: bool
  pg_version :: version_state
  pg_kv_versions :: "str \<rightharpoonup> u64"
  pg_target_versions :: "str \<rightharpoonup> u64"

definition hist_pos :: "hist_row \<Rightarrow> u32 \<times> bytes \<times> u32" where
  "hist_pos h = (hi_mined_height h, hi_txid h, hi_output_index h)"

text \<open>The \<open>INSERT INTO kv_history\<close> of the arms of \<open>apply_row\<close>.\<close>

definition insert_history :: "hist_row \<Rightarrow> snapshot \<Rightarrow> snap_error + snapshot" where
  "insert_history h s =
     (if hist_pos h \<in> hist_pos ` set (sn_history s) then Err HistoryConflict
      else Ok (s\<lparr>sn_history := sn_history s @ [h]\<rparr>))"

definition history_row ::
    "promote_row \<Rightarrow> zkv_command \<Rightarrow> str \<Rightarrow> str \<Rightarrow> str option \<Rightarrow> int \<Rightarrow> hist_row" where
  "history_row row cmd signer_hex op_str v seq =
     \<lparr>hi_mined_height = pr_mined_height row, hi_txid = pr_txid row,
      hi_output_index = pr_output_index row, hi_key = cmd_key cmd, hi_op = op_str, hi_value = v,
      hi_signature = cmd_sig_hex cmd, hi_block_time = pr_block_time row, hi_signer = signer_hex,
      hi_seq = seq, hi_comment = cmd_comment cmd\<rparr>"

definition upsert_kv :: "('pk, 'sk) crates \<Rightarrow> promote_row \<Rightarrow> str \<Rightarrow> str \<Rightarrow> snapshot \<Rightarrow> snapshot" where
  "upsert_kv E row key v s =
     s\<lparr>sn_kv := (sn_kv s)(key \<mapsto>
         \<lparr>kr_value = v, kr_mined_height = pr_mined_height row,
          kr_txid = txid_display E (pr_txid row), kr_block_time = pr_block_time row\<rparr>)\<rparr>"

text \<open>The arm \<open>RowOutcome::Applied\<close> of \<open>apply_row\<close>.\<close>

definition apply_row_applied ::
    "('pk, 'sk) crates \<Rightarrow> promote_row \<Rightarrow> zkv_command \<Rightarrow> str \<Rightarrow> str \<Rightarrow> promoting \<Rightarrow>
     snap_error + promoting" where
  "apply_row_applied E row cmd signer_hex root_hex p =
     (let key = cmd_key cmd;
          put = (\<lambda>op_str.
            case cmd_value cmd of
              None \<Rightarrow> Err SetWithoutValue
            | Some v \<Rightarrow>
                try_ok (insert_history
                          (history_row row cmd signer_hex op_str (Some v) (sint (cmd_seq cmd)))
                          (upsert_kv E row key v (pg_tx p)))
                  (\<lambda>t. Ok (p\<lparr>pg_tx := t,
                             pg_kv_versions := bump_hw (pg_kv_versions p) key (cmd_seq cmd)\<rparr>)))
      in case cmd_op cmd of
        Init \<Rightarrow>
          try_ok (insert_history (history_row row cmd signer_hex ''INIT'' None 0) (pg_tx p))
            (\<lambda>t. Ok (p\<lparr>pg_tx := t, pg_init := Initialized,
                       pg_auth := insert_owner root_hex (pg_auth p)\<rparr>))
      | Version \<Rightarrow>
          Ok (p\<lparr>pg_version := fst (apply_version key (cmd_value cmd) (pg_version p))\<rparr>)
      | Finalize \<Rightarrow> Ok (p\<lparr>pg_finalized := True\<rparr>)
      | Set \<Rightarrow> put (op_as_str Set)
      | SetL \<Rightarrow> put (op_as_str SetL)
      | Del \<Rightarrow>
          try_ok (insert_history
                    (history_row row cmd signer_hex ''DEL'' None (sint (cmd_seq cmd)))
                    ((pg_tx p)\<lparr>sn_kv := (sn_kv (pg_tx p))(key := None)\<rparr>))
            (\<lambda>t. Ok (p\<lparr>pg_tx := t,
                       pg_kv_versions := bump_hw (pg_kv_versions p) key (cmd_seq cmd)\<rparr>))
      | op \<Rightarrow>
          Ok (p\<lparr>pg_auth := fst (apply_management E op key (cmd_value cmd) (pg_auth p)),
                pg_target_versions := bump_hw (pg_target_versions p) key (cmd_seq cmd)\<rparr>))"

definition apply_row ::
    "('pk, 'sk) crates \<Rightarrow> promote_row \<Rightarrow> str \<Rightarrow> str \<Rightarrow> promoting \<Rightarrow> snap_error + promoting" where
  "apply_row E row receiver root_hex p =
     (case parse_text_memo E (pr_memo_text row) of
        None \<Rightarrow> Ok p
      | Some cmd \<Rightarrow>
          (case recover_signer E (payload_for E receiver cmd) (cmd_sig_hex cmd) of
             None \<Rightarrow> Ok p
           | Some signer \<Rightarrow>
               (let signer_hex = pubkey_bech32 E signer in
                if \<not> seq_in_window (cmd_op cmd) (cmd_key cmd) (cmd_seq cmd) (pg_kv_versions p)
                       (pg_target_versions p)
                then Ok p
                else (case decide (cmd_op cmd) (cmd_key cmd) signer_hex root_hex Confirmed
                              (pg_init p) (pg_auth p) (pg_finalized p)
                              (sn_kv (pg_tx p) (cmd_key cmd) \<noteq> None) of
                        Applied \<Rightarrow> apply_row_applied E row cmd signer_hex root_hex p
                      | _ \<Rightarrow> Ok p))))"

fun apply_rows ::
    "('pk, 'sk) crates \<Rightarrow> str \<Rightarrow> str \<Rightarrow> promote_row list \<Rightarrow> promoting \<Rightarrow> snap_error + promoting" where
  "apply_rows E receiver root_hex [] p = Ok p"
| "apply_rows E receiver root_hex (row # rows) p =
     try_ok (apply_row E row receiver root_hex p) (apply_rows E receiver root_hex rows)"

definition begin_promote :: "('pk, 'sk) crates \<Rightarrow> snapshot \<Rightarrow> snap_error + promoting" where
  "begin_promote E s =
     try_ok (read_init_state s) (\<lambda>init.
     try_ok (read_finalized s) (\<lambda>finalized.
     try_ok (read_version s) (\<lambda>version.
       Ok \<lparr>pg_tx = s, pg_init = init, pg_auth = load_auth E (sn_auth s),
           pg_finalized = finalized, pg_version = version,
           pg_kv_versions = load_versions (sn_kv_version s),
           pg_target_versions = load_versions (sn_target_version s)\<rparr>)))"

definition finish_promote :: "promote_row \<Rightarrow> promoting \<Rightarrow> snap_error + snapshot" where
  "finish_promote last_row p =
     (let t = write_meta_u32 META_WATERMARK_OUTPUT_INDEX (pr_output_index last_row)
                (write_meta_blob META_WATERMARK_TXID (pr_txid last_row)
                (write_meta_u32 META_WATERMARK_HEIGHT (pr_mined_height last_row) (pg_tx p)));
          t = (if pg_init p = Initialized
               then write_meta_text META_INIT_STATE INIT_STATE_INITIALIZED t else t);
          t = (if pg_finalized p then write_meta_text META_FINALIZED FINALIZED_YES t else t)
      in try_ok (persist_auth (pg_auth p) t) (\<lambda>t.
           Ok (write_meta_text META_DB_VERSION_BLOCKS (block_set_to_wire (vs_blocks (pg_version p)))
                (write_meta_u32 META_DB_VERSION (vs_version (pg_version p))
                  (t\<lparr>sn_kv_version := persist_versions (pg_kv_versions p),
                     sn_target_version := persist_versions (pg_target_versions p)\<rparr>)))))"

text \<open>
  The transaction commits only on the last path; on an early \<open>return Ok(())\<close> and on every error it is
  dropped, so the file is as before. The result is the file and what the call returned.
\<close>

definition promote_tx ::
    "('pk, 'sk) crates \<Rightarrow> snapshot \<Rightarrow> promote_row list \<Rightarrow> str \<Rightarrow> 'pk \<Rightarrow> snap_error + snapshot" where
  "promote_tx E s rows receiver pk =
     (if rows = [] then Ok s
      else
        try_ok (begin_promote E s) (\<lambda>p0.
        try_ok (apply_rows E receiver (pubkey_bech32 E pk) rows p0) (\<lambda>p.
          if pg_init p0 = Uninitialized \<and> pg_init p = Uninitialized then Ok s
          else finish_promote (last rows) p)))"

definition promote ::
    "('pk, 'sk) crates \<Rightarrow> snapshot \<Rightarrow> promote_row list \<Rightarrow> str \<Rightarrow> 'pk \<Rightarrow>
     snapshot \<times> (snap_error + unit)" where
  "promote E s rows receiver pk =
     (case promote_tx E s rows receiver pk of
        Inl e \<Rightarrow> (s, Err e)
      | Inr s' \<Rightarrow> (s', Ok ()))"

end
