(* ===== verification/Snapshot_Refines.thy ===== *)
theory Snapshot_Refines
  imports Snapshot Replay_Props
begin

text \<open>
  The snapshot is a cache of the replay: what its tables hold is read back as it was written, and
  \<open>promote\<close> does to the tables what the replay of the same memos does to the state in memory.
\<close>

section \<open>Tables that project a value\<close>

locale table_projection =
  fixes load :: "'t \<Rightarrow> 'm" and persist :: "'m \<Rightarrow> 't" and storable :: "'m \<Rightarrow> bool"
  assumes load_persist: "storable m \<Longrightarrow> load (persist m) = m"
begin

lemma persist_inject: "storable m \<Longrightarrow> storable n \<Longrightarrow> persist m = persist n \<longleftrightarrow> m = n"
  by (metis load_persist)

lemma storable_load_persist: "storable m \<Longrightarrow> storable (load (persist m))"
  by (simp add: load_persist)

end

definition counters_fit :: "(str \<rightharpoonup> u64) \<Rightarrow> bool" where
  "counters_fit m \<longleftrightarrow> (\<forall>k. hw m k < 2 ^ 63)"

lemma sint_small:
  assumes "unat (w :: u64) < 2 ^ 63"
  shows "sint w = int (unat w)"
proof -
  have "int (unat w) < int (2 ^ 63)" by (simp only: of_nat_less_iff assms)
  then have lt: "int (unat w) < 2 ^ 63" by simp
  have "signed_take_bit 63 (int (unat w)) = int (unat w)"
  proof (rule signed_take_bit_int_eq_self)
    show "- (2 ^ 63) \<le> int (unat w)" by (rule order_trans [OF _ of_nat_0_le_iff]) simp
  qed (rule lt)
  then show ?thesis by (simp add: sint_uint uint_nat del: of_nat_unat)
qed

interpretation counters: table_projection load_versions persist_versions counters_fit
proof
  fix m assume fit: "counters_fit m"
  show "load_versions (persist_versions m) = m"
  proof
    fix k
    show "load_versions (persist_versions m) k = m k"
    proof (cases "m k")
      case (Some w)
      with fit have "unat w < 2 ^ 63" by (auto simp: counters_fit_def hw_def dest: spec [of _ k])
      then have "sint w = int (unat w)" by (rule sint_small)
      with Some show ?thesis by (simp add: load_versions_def persist_versions_def)
    qed (simp add: load_versions_def persist_versions_def)
  qed
qed

interpretation block_text: table_projection
  "\<lambda>t. unwrap_or (block_set_parse t) {}" block_set_to_wire "\<lambda>_. True"
  by unfold_locales (simp add: block_set_parse_to_wire)

section \<open>The registry table\<close>

lemma scope_wire_not_owner: "scope_to_wire sc \<noteq> AUTH_ROLE_OWNER"
proof
  assume o: "scope_to_wire sc = AUTH_ROLE_OWNER"
  show False
  proof (cases "sc = {}")
    case True
    with o show False by (simp add: scope_to_wire_def AUTH_ROLE_OWNER_def)
  next
    case False
    then have "scope_parse AUTH_ROLE_OWNER = Some sc"
      using scope_parse_to_wire [of sc] o by simp
    moreover have "scope_parse AUTH_ROLE_OWNER = None"
      by (simp add: scope_parse_def AUTH_ROLE_OWNER_def trim_plain plain_def byte_def
          capability_parse_def)
    ultimately show False by simp
  qed
qed

definition auth_table :: "('pk, 'sk) crates \<Rightarrow> (str \<times> str) list \<Rightarrow> bool" where
  "auth_table E rows \<longleftrightarrow>
     distinct (map fst rows) \<and>
     (\<forall>(pk, role) \<in> set rows. role \<noteq> AUTH_ROLE_OWNER \<longrightarrow>
        canonical_pubkey E pk = Some pk \<and> (\<exists>sc. sc \<noteq> {} \<and> role = scope_to_wire sc))"

definition row_scope :: "str \<Rightarrow> capability set option" where
  "row_scope role = (if role = AUTH_ROLE_OWNER then None else scope_parse role)"

lemma load_auth_rows:
  "auth_table E rows \<Longrightarrow>
   owners (load_auth E rows) = {pk. (pk, AUTH_ROLE_OWNER) \<in> set rows} \<and>
   writers (load_auth E rows) = (\<lambda>pk. Option.bind (map_of rows pk) row_scope)"
proof (induction rows rule: rev_induct)
  case Nil
  then show ?case by (simp add: load_auth_def empty_auth_def)
next
  case (snoc row rows)
  obtain pk role where row: "row = (pk, role)" by force
  from snoc.prems have t: "auth_table E rows" and new: "pk \<notin> fst ` set rows"
    by (auto simp: auth_table_def row)
  note IH = snoc.IH [OF t]
  have m: "map_of (rows @ [(pk, role)]) = (map_of rows)(pk \<mapsto> role)"
    using new map_add_comm [of "[pk \<mapsto> role]" "map_of rows"]
    by (simp add: dom_map_of_conv_image_fst)
  have step: "load_auth E (rows @ [(pk, role)]) = load_auth_row E (load_auth E rows) (pk, role)"
    by (simp add: load_auth_def)
  have own: "pk \<notin> owners (load_auth E rows)"
    using IH new by (force simp: image_iff)
  show ?case
  proof (cases "role = AUTH_ROLE_OWNER")
    case True
    with IH show ?thesis
      unfolding row m step by (auto simp: load_auth_row_def row_scope_def fun_eq_iff)
  next
    case False
    with snoc.prems obtain sc where c: "canonical_pubkey E pk = Some pk" "sc \<noteq> {}"
        "role = scope_to_wire sc"
      by (auto simp: auth_table_def row)
    then have "scope_parse role = Some sc" by (simp add: scope_parse_to_wire)
    with c own False have "load_auth_row E (load_auth E rows) (pk, role) =
        (load_auth E rows)\<lparr>writers := (writers (load_auth E rows))(pk \<mapsto> sc)\<rparr>"
      by (simp add: load_auth_row_def apply_management_def)
    with IH c False show ?thesis
      unfolding row m step by (auto simp: row_scope_def fun_eq_iff scope_parse_to_wire)
  qed
qed

lemma map_of_auth_rows:
  assumes "auth_wf a"
  shows "distinct (map fst (auth_rows a))"
    and "map_of (auth_rows a) pk =
      (if pk \<in> owners a then Some AUTH_ROLE_OWNER else map_option scope_to_wire (writers a pk))"
proof -
  let ?own = "map (\<lambda>owner. (owner, AUTH_ROLE_OWNER)) (sorted_list_of_set (owners a))"
  let ?wr = "map (\<lambda>w. (w, scope_to_wire (unwrap_or (writers a w) {}))) (sorted_list_of_set (dom (writers a)))"
  from assms have fin: "finite (owners a)" "finite (dom (writers a))"
    and disj: "owners a \<inter> dom (writers a) = {}" by (auto simp: auth_wf_def)
  have f: "map fst ?own = sorted_list_of_set (owners a)"
    "map fst ?wr = sorted_list_of_set (dom (writers a))"
    by (simp_all add: comp_def)
  show "distinct (map fst (auth_rows a))"
    unfolding auth_rows_def map_append f using fin disj by simp
  have "map_of ?wr pk = map_option scope_to_wire (writers a pk)"
    using fin(2) by (cases "writers a pk") (auto simp: map_of_map_restrict restrict_map_def dom_def)
  moreover have "map_of ?own pk = (if pk \<in> owners a then Some AUTH_ROLE_OWNER else None)"
    using fin(1) by (auto simp: map_of_map_restrict restrict_map_def)
  ultimately show "map_of (auth_rows a) pk =
      (if pk \<in> owners a then Some AUTH_ROLE_OWNER else map_option scope_to_wire (writers a pk))"
    using disj by (auto simp: auth_rows_def map_add_def split: option.splits)
qed

lemma auth_table_rows: "auth_wf a \<Longrightarrow> auth_canonical E a \<Longrightarrow> auth_table E (auth_rows a)"
  unfolding auth_table_def
proof (intro conjI ballI)
  assume wf: "auth_wf a" and can: "auth_canonical E a"
  then have ne: "sc \<noteq> {}" if "writers a pk = Some sc" for pk sc
    using that by (auto simp: auth_wf_def ran_def)
  show "distinct (map fst (auth_rows a))" by (rule map_of_auth_rows(1) [OF wf])
  fix row assume "row \<in> set (auth_rows a)"
  then consider pk where "pk \<in> owners a" "row = (pk, AUTH_ROLE_OWNER)"
    | pk sc where "writers a pk = Some sc" "row = (pk, scope_to_wire sc)"
    using wf by (auto simp: auth_rows_def auth_wf_def)
  then show "case row of (pk, role) \<Rightarrow> role \<noteq> AUTH_ROLE_OWNER \<longrightarrow>
      canonical_pubkey E pk = Some pk \<and> (\<exists>sc. sc \<noteq> {} \<and> role = scope_to_wire sc)"
  proof cases
    case (2 pk sc)
    with can ne [OF 2(1)] show ?thesis by (auto simp: auth_canonical_def)
  qed simp
qed

text \<open>Whatever order \<open>SELECT\<close> returns the rows in.\<close>

lemma load_auth_any_order:
  assumes "auth_wf a" and "auth_canonical E a"
    and "distinct (map fst rows)" and "set rows = set (auth_rows a)"
  shows "load_auth E rows = a"
proof -
  note d = map_of_auth_rows [OF assms(1)]
  have t: "auth_table E rows"
    using auth_table_rows [OF assms(1,2)] assms(3,4) by (simp add: auth_table_def)
  have m: "map_of rows = map_of (auth_rows a)"
    using map_of_inject_set [OF assms(3) d(1)] assms(4) by simp
  have "(pk, AUTH_ROLE_OWNER) \<in> set rows \<longleftrightarrow> pk \<in> owners a" for pk
    unfolding map_of_eq_Some_iff [OF assms(3), symmetric] m d(2)
    by (cases "writers a pk") (simp_all add: scope_wire_not_owner)
  moreover have "Option.bind (map_of rows pk) row_scope = writers a pk" for pk
  proof (cases "writers a pk")
    case None
    then show ?thesis by (simp add: m d(2) row_scope_def)
  next
    case (Some sc)
    with assms(1) have "pk \<notin> owners a" "sc \<noteq> {}" by (auto simp: auth_wf_def ran_def)
    with Some show ?thesis
      by (simp add: m d(2) row_scope_def scope_wire_not_owner scope_parse_to_wire)
  qed
  ultimately show ?thesis
    using load_auth_rows [OF t] by (simp add: fun_eq_iff)
qed

lemma insert_auth_rows_distinct:
  "distinct (map fst (t @ rows)) \<Longrightarrow> insert_auth_rows rows t = Ok (t @ rows)"
proof (induction rows arbitrary: t)
  case (Cons row rows)
  from Cons.IH [of "t @ [row]"] Cons.prems show ?case by auto
qed simp

lemma persist_auth_ok: "auth_wf a \<Longrightarrow> persist_auth a s = Ok (s\<lparr>sn_auth := auth_rows a\<rparr>)"
  using insert_auth_rows_distinct [of "[]" "auth_rows a"] map_of_auth_rows(1) [of a]
  by (simp add: persist_auth_def)

section \<open>A promoted row is a confirmed memo\<close>

definition entry_of :: "('pk, 'sk) crates \<Rightarrow> promote_row \<Rightarrow> replay_entry" where
  "entry_of E row =
     \<lparr>re_text = pr_memo_text row, re_status = Confirmed,
      re_txid = unwrap_or (txid_display E (pr_txid row)) [], re_block_time = pr_block_time row\<rparr>"

lemma entry_of_sel [simp]:
  "re_text (entry_of E row) = pr_memo_text row" "re_status (entry_of E row) = Confirmed"
  "re_txid (entry_of E row) = unwrap_or (txid_display E (pr_txid row)) []"
  "re_block_time (entry_of E row) = pr_block_time row"
  by (simp_all add: entry_of_def)

text \<open>What the column types and the wallet guarantee of a row.\<close>

definition row_ok :: "promote_row \<Rightarrow> bool" where
  "row_ok row \<longleftrightarrow>
     length (pr_txid row) = 32 \<and> utf8_valid (pr_memo_text row) \<and>
     pr_mined_height row \<le> u32_max \<and> pr_output_index row \<le> u32_max"

definition mirrors :: "promoting \<Rightarrow> replay_result \<Rightarrow> bool" where
  "mirrors p r \<longleftrightarrow>
     pg_init p = rr_init r \<and> pg_auth p = rr_auth r \<and> pg_finalized p = rr_finalized r \<and>
     pg_version p = rr_version r \<and> pg_kv_versions p = rr_kv_versions r \<and>
     pg_target_versions p = rr_target_versions r \<and> no_pending r \<and>
     prune (rr_state r) = (\<lambda>k. map_option seed_entry (sn_kv (pg_tx p) k))"

lemma prune_upd: "prune (m(k \<mapsto> ks)) = (prune m)(k := if retained ks then Some ks else None)"
  by (auto simp: prune_def fun_eq_iff)

lemma prune_upd_table:
  assumes "prune m = (\<lambda>k. map_option f (kv k))"
    and "map_option f row = (if retained ks then Some ks else None)"
  shows "prune (m(k \<mapsto> ks)) = (\<lambda>x. map_option f ((kv(k := row)) x))"
  unfolding prune_upd assms(1) assms(2) [symmetric] by auto

lemma key_confirmed_prune:
  "no_pending r \<Longrightarrow> key_confirmed (rr_state r) k \<longleftrightarrow> prune (rr_state r) k \<noteq> None"
  by (cases "rr_state r k")
     (auto simp: key_confirmed_def prune_def retained_def no_pending_def entry_or_default_def
       dest: spec [of _ k])

lemma mirrors_key_exists:
  "mirrors p r \<Longrightarrow> sn_kv (pg_tx p) k \<noteq> None \<longleftrightarrow> key_confirmed (rr_state r) k"
  by (auto simp: mirrors_def key_confirmed_prune)

lemma apply_row_admitted:
  assumes "mirrors p r" and "admitted E receiver root (entry_of E row) r cmd signer"
  shows "apply_row E row receiver root p = apply_row_applied E row cmd signer root p"
proof -
  from assms(2) have "decide (cmd_op cmd) (cmd_key cmd) signer root Confirmed (rr_init r) (rr_auth r)
      (rr_finalized r) (key_confirmed (rr_state r) (cmd_key cmd)) = Applied"
    unfolding admitted_def using decide_not_dropped by fastforce
  with assms mirrors_key_exists [OF assms(1)] show ?thesis
    by (auto simp: apply_row_def admitted_def parse_text_memo_def recover_memo_signer_def mirrors_def)
qed

lemma apply_row_not_admitted:
  assumes "mirrors p r" and "\<nexists>cmd signer. admitted E receiver root (entry_of E row) r cmd signer"
  shows "apply_row E row receiver root p = Ok p"
proof (cases "parse_text_memo_detailed E (pr_memo_text row)")
  case (Inr cmd)
  show ?thesis
  proof (cases "recover_memo_signer E cmd receiver")
    case (Some signer)
    let ?d = "decide (cmd_op cmd) (cmd_key cmd) (pubkey_bech32 E signer) root Confirmed (rr_init r)
      (rr_auth r) (rr_finalized r) (key_confirmed (rr_state r) (cmd_key cmd))"
    from assms(2) Inr Some have "seq_in_window (cmd_op cmd) (cmd_key cmd) (cmd_seq cmd)
        (rr_kv_versions r) (rr_target_versions r) \<Longrightarrow> \<exists>reason. ?d = Dropped reason"
      by (auto simp: admitted_def)
    with assms(1) Inr Some mirrors_key_exists [OF assms(1)] show ?thesis
      by (auto simp: apply_row_def parse_text_memo_def recover_memo_signer_def mirrors_def Let_def)
  qed (simp add: apply_row_def parse_text_memo_def Inr flip: recover_memo_signer_def)
qed (simp add: apply_row_def parse_text_memo_def)

lemma insert_history_Ok:
  "insert_history h s = Ok t \<Longrightarrow> t = s\<lparr>sn_history := sn_history s @ [h]\<rparr>"
  by (auto simp: insert_history_def split: if_splits)

lemma apply_row_applied_mirrors:
  assumes m: "mirrors p r" and len: "length (pr_txid row) = 32"
    and ap: "apply_row_applied E row cmd signer root p = Ok p'"
    and r': "r' = fst (apply_applied E (cmd_op cmd) (classified_of cmd signer Applied)
      (re_txid (entry_of E row)) (re_block_time (entry_of E row)) root r)"
    and np: "no_pending r'"
  shows "mirrors p' r'"
proof -
  have e: "pending (entry_or_default (rr_state r) k) = []" for k
    using m by (simp add: mirrors_def no_pending_def)
  note d = apply_applied_def apply_row_applied_def mirrors_def Let_def try_ok_Inr
  show ?thesis
  proof (cases "cmd_op cmd \<in> {Set, SetL}")
    case True
    then obtain v t where v: "cmd_value cmd = Some v"
      and t: "t = (upsert_kv E row (cmd_key cmd) v (pg_tx p))
        \<lparr>sn_history := sn_history (upsert_kv E row (cmd_key cmd) v (pg_tx p)) @
          [history_row row cmd signer (op_as_str (cmd_op cmd)) (Some v) (sint (cmd_seq cmd))]\<rparr>"
      and p': "p' = p\<lparr>pg_tx := t, pg_kv_versions := bump_hw (pg_kv_versions p) (cmd_key cmd) (cmd_seq cmd)\<rparr>"
      using ap by (auto simp: apply_row_applied_def Let_def try_ok_Inr dest!: insert_history_Ok
          split: option.splits)
    let ?ks = "entry_or_default (rr_state r) (cmd_key cmd)\<lparr>confirmed := Some v,
      updated_at := pr_block_time row, last_txid := Some (unwrap_or (txid_display E (pr_txid row)) [])\<rparr>"
    let ?row = "Some \<lparr>kr_value = v, kr_mined_height = pr_mined_height row,
      kr_txid = txid_display E (pr_txid row), kr_block_time = pr_block_time row\<rparr>"
    have "map_option seed_entry ?row = (if retained ?ks then Some ?ks else None)"
      using e [of "cmd_key cmd"] len by (simp add: retained_def seed_entry_def txid_display_def)
    from prune_upd_table [OF _ this, of "rr_state r" "sn_kv (pg_tx p)" "cmd_key cmd"] m
    have kv: "prune ((rr_state r)(cmd_key cmd \<mapsto> ?ks)) =
        (\<lambda>k. map_option seed_entry (((sn_kv (pg_tx p))(cmd_key cmd := ?row)) k))"
      by (simp add: mirrors_def)
    have r'': "r' = r\<lparr>rr_state := (rr_state r)(cmd_key cmd \<mapsto> ?ks),
        rr_kv_versions := bump_hw (rr_kv_versions r) (cmd_key cmd) (cmd_seq cmd)\<rparr>"
      using True v by (auto simp: r' apply_applied_def Let_def)
    show ?thesis
      using m np kv unfolding r'' mirrors_def p' t upsert_kv_def by simp
  next
    case False
    show ?thesis
    proof (cases "cmd_op cmd = Del")
      case True
      with ap have p': "p' = p\<lparr>pg_tx := (pg_tx p)\<lparr>sn_kv := (sn_kv (pg_tx p))(cmd_key cmd := None),
            sn_history := sn_history (pg_tx p) @
              [history_row row cmd signer ''DEL'' None (sint (cmd_seq cmd))]\<rparr>,
          pg_kv_versions := bump_hw (pg_kv_versions p) (cmd_key cmd) (cmd_seq cmd)\<rparr>"
        by (auto simp: apply_row_applied_def Let_def try_ok_Inr dest!: insert_history_Ok)
      let ?ks = "entry_or_default (rr_state r) (cmd_key cmd)\<lparr>confirmed := None\<rparr>"
      have "map_option seed_entry None = (if retained ?ks then Some ?ks else None)"
        using e [of "cmd_key cmd"] by (simp add: retained_def)
      from prune_upd_table [OF _ this, of "rr_state r" "sn_kv (pg_tx p)" "cmd_key cmd"] m
      have kv: "prune ((rr_state r)(cmd_key cmd \<mapsto> ?ks)) =
          (\<lambda>k. map_option seed_entry (((sn_kv (pg_tx p))(cmd_key cmd := None)) k))"
        by (simp add: mirrors_def)
      have r'': "r' = r\<lparr>rr_state := (rr_state r)(cmd_key cmd \<mapsto> ?ks),
          rr_kv_versions := bump_hw (rr_kv_versions r) (cmd_key cmd) (cmd_seq cmd)\<rparr>"
        using True by (simp add: r' apply_applied_def Let_def)
      show ?thesis
        using m np kv unfolding r'' mirrors_def p' by simp
    next
      case notDel: False
      from m ap np show ?thesis unfolding r'
        using False notDel
        by (cases "cmd_op cmd")
           (auto simp: d case_prod_beta dest!: insert_history_Ok)
    qed
  qed
qed

section \<open>The batch\<close>

text \<open>An error of the transaction says nothing about the state; a success mirrors the replay.\<close>

definition mirrored :: "snap_error + promoting \<Rightarrow> replay_result \<Rightarrow> bool" where
  "mirrored res r \<longleftrightarrow> (case res of Inl e \<Rightarrow> True | Inr p \<Rightarrow> mirrors p r)"

lemma mirrored_step:
  assumes "row_ok row" and "mirrored res r"
  shows "mirrored (try_ok res (apply_row E row receiver root))
    (fst (honor E receiver root (entry_of E row) r))"
proof (cases res)
  case (Inr p)
  with assms(2) have m: "mirrors p r" by (simp add: mirrored_def)
  then have np: "no_pending (fst (honor E receiver root (entry_of E row) r))"
    by (intro no_pending_honor) (simp_all add: mirrors_def)
  show ?thesis
  proof (cases "\<exists>cmd signer. admitted E receiver root (entry_of E row) r cmd signer")
    case True
    then obtain cmd signer where a: "admitted E receiver root (entry_of E row) r cmd signer" by blast
    from honor_admitted [OF a]
    have h: "fst (honor E receiver root (entry_of E row) r) = fst (apply_applied E (cmd_op cmd)
        (classified_of cmd signer Applied) (re_txid (entry_of E row)) (re_block_time (entry_of E row)) root r)"
      by simp
    from assms(1) have len: "length (pr_txid row) = 32" by (simp add: row_ok_def)
    show ?thesis
      using apply_row_applied_mirrors [OF m len _ h np] apply_row_admitted [OF m a] Inr
      by (cases "apply_row_applied E row cmd signer root p") (simp_all add: mirrored_def)
  next
    case False
    with apply_row_not_admitted [OF m False] m Inr show ?thesis
      by (simp add: mirrored_def honor_not_admitted(1))
  qed
qed (simp add: mirrored_def)

interpretation promotion: fold_simulation row_ok mirrored
  "\<lambda>row res. try_ok res (apply_row E row receiver root)"
  "\<lambda>row r. fst (honor E receiver root (entry_of E row) r)" for E receiver root
  by unfold_locales (rule mirrored_step)

lemma foldl_try_ok_Err: "foldl (\<lambda>res row. try_ok res (f row)) (Err e) rows = Err e"
  by (induction rows) simp_all

lemma apply_rows_foldl:
  "apply_rows E receiver root rows p =
   foldl (\<lambda>res row. try_ok res (apply_row E row receiver root)) (Ok p) rows"
proof (induction rows arbitrary: p)
  case (Cons row rows)
  then show ?case by (cases "apply_row E row receiver root p") (simp_all add: foldl_try_ok_Err)
qed simp

lemma honor_all_map:
  "honor_all E receiver root (map f rows) r =
   foldl (\<lambda>r row. fst (honor E receiver root (f row) r)) r rows"
  by (induction rows arbitrary: r) simp_all

lemma apply_rows_mirrors:
  assumes "\<forall>row \<in> set rows. row_ok row" and "mirrors p r"
    and "apply_rows E receiver root rows p = Ok p'"
  shows "mirrors p' (honor_all E receiver root (map (entry_of E) rows) r)"
  using promotion.fold_rel [OF assms(1), of "Ok p" r E receiver root] assms(2,3)
  by (simp add: mirrored_def apply_rows_foldl honor_all_map)

section \<open>Loading and committing\<close>

lemma seeded_entry:
  "pending (unwrap_or (map_option seed_entry row) default_key_state) = []"
  by (cases row) (simp_all add: seed_entry_def default_key_state_def)

lemma seeded_prune: "prune (\<lambda>k. map_option seed_entry (kv k)) = (\<lambda>k. map_option seed_entry (kv k))"
proof
  show "prune (\<lambda>k. map_option seed_entry (kv k)) k = map_option seed_entry (kv k)" for k
    by (cases "kv k") (simp_all add: prune_def seed_entry_def retained_def)
qed

lemma load_seed_no_pending:
  "load_seed E s = Ok r \<Longrightarrow> no_pending r \<and> prune (rr_state r) = rr_state r"
  by (auto simp: load_seed_def try_ok_Inr no_pending_def entry_or_default_def seeded_prune seeded_entry)

lemma begin_promote_mirrors:
  assumes "load_seed E s = Ok r"
  shows "\<exists>p. begin_promote E s = Ok p \<and> mirrors p r \<and> pg_tx p = s"
  using load_seed_no_pending [OF assms] assms
  by (auto simp: load_seed_def begin_promote_def try_ok_Inr mirrors_def)

definition phase_simple :: "replay_result \<Rightarrow> bool" where
  "phase_simple r \<longleftrightarrow> rr_init r \<in> {Uninitialized, Initialized}"

lemma load_seed_phase: "load_seed E s = Ok r \<Longrightarrow> phase_simple r"
  by (auto simp: load_seed_def try_ok_Inr phase_simple_def read_init_state_def)

lemma apply_applied_phase:
  "rr_init (fst (apply_applied E op c txid bt root r)) = (if op = Init then Initialized else rr_init r)"
  by (cases op) (auto simp: apply_applied_def Let_def split: prod.splits)

lemma honor_confirmed_phase:
  assumes "re_status e = Confirmed" and "phase_simple r"
  shows "phase_simple (fst (honor E receiver root e r))"
    and "rr_init r = Initialized \<Longrightarrow> rr_init (fst (honor E receiver root e r)) = Initialized"
    and "rr_init r = Uninitialized \<Longrightarrow> rr_init (fst (honor E receiver root e r)) = Uninitialized \<Longrightarrow>
         fst (honor E receiver root e r) = r"
proof -
  have A: "rr_init (fst (honor E receiver root e r)) \<in> {rr_init r, Initialized} \<and>
      (rr_init r = Uninitialized \<longrightarrow> rr_init (fst (honor E receiver root e r)) = Uninitialized \<longrightarrow>
         fst (honor E receiver root e r) = r)"
  proof (cases "\<exists>cmd signer. admitted E receiver root e r cmd signer")
    case True
    then obtain cmd signer where a: "admitted E receiver root e r cmd signer" by blast
    have "rr_init r = Initialized" if "cmd_op cmd \<noteq> Init"
      using a that decide_admits(3,4) unfolding admitted_def by (metis is_initialized.simps)
    with honor_admitted [OF a] assms(1) show ?thesis
      by (auto simp: apply_applied_phase)
  qed (simp add: honor_not_admitted(1))
  then show "phase_simple (fst (honor E receiver root e r))"
    and "rr_init r = Initialized \<Longrightarrow> rr_init (fst (honor E receiver root e r)) = Initialized"
    and "rr_init r = Uninitialized \<Longrightarrow> rr_init (fst (honor E receiver root e r)) = Uninitialized \<Longrightarrow>
         fst (honor E receiver root e r) = r"
    using assms(2) by (auto simp: phase_simple_def)
qed

lemma honor_all_confirmed_phase:
  "\<forall>e \<in> set es. re_status e = Confirmed \<Longrightarrow> phase_simple r \<Longrightarrow>
   phase_simple (honor_all E receiver root es r) \<and>
   (rr_init r = Initialized \<longrightarrow> rr_init (honor_all E receiver root es r) = Initialized) \<and>
   (rr_init r = Uninitialized \<longrightarrow> rr_init (honor_all E receiver root es r) = Uninitialized \<longrightarrow>
      honor_all E receiver root es r = r)"
proof (induction es arbitrary: r)
  case (Cons e es)
  let ?r = "fst (honor E receiver root e r)"
  from Cons.prems have e: "re_status e = Confirmed" by simp
  note h = honor_confirmed_phase [OF e Cons.prems(2), of E receiver root]
  from Cons.IH [of ?r] h(1) Cons.prems(1)
  have ih: "phase_simple (honor_all E receiver root es ?r)"
    "rr_init ?r = Initialized \<Longrightarrow> rr_init (honor_all E receiver root es ?r) = Initialized"
    "rr_init ?r = Uninitialized \<Longrightarrow> rr_init (honor_all E receiver root es ?r) = Uninitialized \<Longrightarrow>
       honor_all E receiver root es ?r = ?r"
    by auto
  from h(1) consider "rr_init ?r = Uninitialized" | "rr_init ?r = Initialized"
    by (auto simp: phase_simple_def)
  then show ?case using ih h by cases auto
qed simp

definition epoch_fits :: "replay_result \<Rightarrow> bool" where
  "epoch_fits r \<longleftrightarrow> vs_version (rr_version r) \<le> u32_max"

lemma read_meta_u32_bound: "read_meta_u32 s k = Ok (Some n) \<Longrightarrow> n \<le> u32_max"
  by (cases "read_meta_text s k")
     (auto simp: read_meta_u32_def dest: parse_uint_bound split: option.splits)

lemma load_seed_epoch:
  assumes "load_seed E s = Ok r"
  shows "epoch_fits r"
proof -
  from assms obtain v b where "read_meta_u32 s META_DB_VERSION = Ok v"
    and "rr_version r = \<lparr>vs_version = unwrap_or v GENESIS_DB_VERSION, vs_blocks = b\<rparr>"
    by (auto simp: load_seed_def read_version_def try_ok_Inr)
  then show ?thesis
    by (cases v) (auto simp: epoch_fits_def GENESIS_DB_VERSION_def dest: read_meta_u32_bound)
qed

lemma apply_version_fits:
  "vs_version v \<le> u32_max \<Longrightarrow> vs_version (fst (apply_version key val v)) \<le> u32_max"
  by (auto simp: apply_version_def dest: parse_uint_bound split: option.splits sum.splits)

lemma epoch_fits_honor:
  assumes "epoch_fits r" and "re_status e = Confirmed"
  shows "epoch_fits (fst (honor E receiver root e r))"
proof (cases "\<exists>cmd signer. admitted E receiver root e r cmd signer")
  case True
  then obtain cmd signer where a: "admitted E receiver root e r cmd signer" by blast
  show ?thesis
    using assms apply_version_fits
    by (cases "cmd_op cmd")
       (auto simp: honor_admitted [OF a] epoch_fits_def apply_applied_def Let_def case_prod_beta)
qed (simp add: honor_not_admitted(1) assms)

lemma epoch_fits_honor_all:
  "epoch_fits r \<Longrightarrow> \<forall>e \<in> set es. re_status e = Confirmed \<Longrightarrow> epoch_fits (honor_all E receiver root es r)"
  by (induction es arbitrary: r) (simp_all add: epoch_fits_honor)

text \<open>What the committed tables read as.\<close>

lemma parse_dec: "n \<le> u32_max \<Longrightarrow> parse_uint u32_max (dec n) = Some n"
  by (rule parse_uint_dec)

lemma finish_promote_Ok:
  assumes m: "mirrors p r" and ini: "rr_init r = Initialized" and wf: "auth_wf (rr_auth r)"
    and can: "auth_canonical E (rr_auth r)"
    and fit: "counters_fit (rr_kv_versions r)" "counters_fit (rr_target_versions r)" "epoch_fits r"
    and fin: "\<not> rr_finalized r \<Longrightarrow> read_finalized (pg_tx p) = Ok False"
    and row: "row_ok last_row"
  shows "\<exists>s'. finish_promote last_row p = Ok s' \<and>
    load_seed E s' = Ok (r\<lparr>rr_state := prune (rr_state r)\<rparr>) \<and>
    read_watermark s' = Ok \<lparr>wm_height = pr_mined_height last_row, wm_txid = pr_txid last_row,
      wm_output_index = pr_output_index last_row\<rparr> \<and>
    sn_history s' = sn_history (pg_tx p)"
proof -
  define t1 where "t1 = write_meta_u32 META_WATERMARK_OUTPUT_INDEX (pr_output_index last_row)
      (write_meta_blob META_WATERMARK_TXID (pr_txid last_row)
      (write_meta_u32 META_WATERMARK_HEIGHT (pr_mined_height last_row) (pg_tx p)))"
  define t2 where "t2 = write_meta_text META_INIT_STATE INIT_STATE_INITIALIZED t1"
  define t3 where "t3 = (if rr_finalized r then write_meta_text META_FINALIZED FINALIZED_YES t2 else t2)"
  define s' where "s' = write_meta_text META_DB_VERSION_BLOCKS (block_set_to_wire (vs_blocks (rr_version r)))
      (write_meta_u32 META_DB_VERSION (vs_version (rr_version r))
        (t3\<lparr>sn_auth := auth_rows (rr_auth r), sn_kv_version := persist_versions (rr_kv_versions r),
            sn_target_version := persist_versions (rr_target_versions r)\<rparr>))"
  have fp: "finish_promote last_row p = Ok s'"
    using m ini by (simp add: finish_promote_def mirrors_def t1_def t2_def t3_def s'_def
        persist_auth_ok [OF wf] Let_def)
  note w = write_meta_text_def write_meta_u32_def write_meta_blob_def read_meta_text_def
    read_meta_u32_def read_meta_blob_def
  have meta: "sn_meta s' META_INIT_STATE = Some (MText INIT_STATE_INITIALIZED)"
      "sn_meta s' META_WATERMARK_HEIGHT = Some (MText (dec (pr_mined_height last_row)))"
      "sn_meta s' META_WATERMARK_TXID = Some (MBlob (pr_txid last_row))"
      "sn_meta s' META_WATERMARK_OUTPUT_INDEX = Some (MText (dec (pr_output_index last_row)))"
      "sn_meta s' META_FINALIZED =
         (if rr_finalized r then Some (MText FINALIZED_YES) else sn_meta (pg_tx p) META_FINALIZED)"
      "sn_meta s' META_DB_VERSION = Some (MText (dec (vs_version (rr_version r))))"
      "sn_meta s' META_DB_VERSION_BLOCKS =
         Some (MText (block_set_to_wire (vs_blocks (rr_version r))))"
    by (simp_all add: s'_def t3_def t2_def t1_def w meta_keys)
  have tables: "sn_kv s' = sn_kv (pg_tx p)" "sn_auth s' = auth_rows (rr_auth r)"
      "sn_history s' = sn_history (pg_tx p)"
      "sn_kv_version s' = persist_versions (rr_kv_versions r)"
      "sn_target_version s' = persist_versions (rr_target_versions r)"
    by (simp_all add: s'_def t3_def t2_def t1_def w)
  have i: "read_init_state s' = Ok Initialized"
    by (simp add: read_init_state_def read_meta_text_def meta)
  have f: "read_finalized s' = Ok (rr_finalized r)"
    using fin by (cases "rr_finalized r") (simp_all add: read_finalized_def read_meta_text_def meta)
  have v: "read_version s' = Ok (rr_version r)"
    using fit(3) block_text.load_persist [OF TrueI, of "vs_blocks (rr_version r)"]
    by (simp add: read_version_def read_meta_u32_def read_meta_text_def meta parse_dec epoch_fits_def)
  have a: "load_auth E (auth_rows (rr_auth r)) = rr_auth r"
    by (rule load_auth_any_order [OF wf can map_of_auth_rows(1) [OF wf] refl])
  have "load_seed E s' = Ok (r\<lparr>rr_state := prune (rr_state r)\<rparr>)"
    using m ini by (simp add: load_seed_def i f v a tables counters.load_persist [OF fit(1)]
        counters.load_persist [OF fit(2)] mirrors_def)
  moreover have "read_watermark s' = Ok \<lparr>wm_height = pr_mined_height last_row,
      wm_txid = pr_txid last_row, wm_output_index = pr_output_index last_row\<rparr>"
    using row by (simp add: read_watermark_def read_meta_u32_def read_meta_blob_def read_meta_text_def
        meta parse_dec row_ok_def)
  ultimately show ?thesis using fp tables(3) by blast
qed

end
