(* ===== verification/Snapshot_Props.thy ===== *)
theory Snapshot_Props
  imports Snapshot_Refines
begin

text \<open>
  What \<open>promote\<close> guarantees: it succeeds on fresh rows, its tables then read as the replay of the
  promoted memos, and the watermark moves only with an initialized database.
\<close>

section \<open>When a batch succeeds\<close>

definition row_pos :: "promote_row \<Rightarrow> u32 \<times> bytes \<times> u32" where
  "row_pos row = (pr_mined_height row, pr_txid row, pr_output_index row)"

definition hist_positions :: "snapshot \<Rightarrow> (u32 \<times> bytes \<times> u32) set" where
  "hist_positions s = hist_pos ` set (sn_history s)"

definition fresh_rows :: "snapshot \<Rightarrow> promote_row list \<Rightarrow> bool" where
  "fresh_rows s rows \<longleftrightarrow>
     distinct (map row_pos rows) \<and> set (map row_pos rows) \<inter> hist_positions s = {}"

lemma hist_pos_row [simp]: "hist_pos (history_row row cmd signer op_str v seq) = row_pos row"
  by (simp add: hist_pos_def history_row_def row_pos_def)

lemma insert_history_fresh:
  "row_pos row \<notin> hist_positions s \<Longrightarrow>
   insert_history (history_row row cmd signer op_str v seq) s =
     Ok (s\<lparr>sn_history := sn_history s @ [history_row row cmd signer op_str v seq]\<rparr>)"
  by (simp add: insert_history_def hist_positions_def)

lemma hist_positions_upd [simp]:
  "hist_positions (s\<lparr>sn_kv := kv\<rparr>) = hist_positions s"
  "hist_positions (s\<lparr>sn_history := sn_history s @ [h]\<rparr>) = insert (hist_pos h) (hist_positions s)"
  "hist_positions (upsert_kv E row k v s) = hist_positions s"
  by (simp_all add: hist_positions_def upsert_kv_def)

lemma parsed_put_value:
  assumes "parse_text_memo E t = Some cmd" and "utf8_valid t" and "cmd_op cmd \<in> {Set, SetL}"
  shows "cmd_value cmd \<noteq> None"
  using assms parse_ok [of E t cmd]
  by (auto simp: parse_text_memo_def parsed_ok_def well_valued_def split: sum.splits)

text \<open>One row leaves the meta table alone and takes at most its own position.\<close>

definition extends :: "promote_row \<Rightarrow> promoting \<Rightarrow> promoting \<Rightarrow> bool" where
  "extends row p p' \<longleftrightarrow>
     sn_meta (pg_tx p') = sn_meta (pg_tx p) \<and>
     hist_positions (pg_tx p') \<subseteq> insert (row_pos row) (hist_positions (pg_tx p))"

lemma extends_refl [simp]: "extends row p p"
  by (auto simp: extends_def)

lemma insert_row_extends:
  "sn_meta s = sn_meta t \<Longrightarrow> hist_positions s = hist_positions t \<Longrightarrow> row_pos row \<notin> hist_positions t \<Longrightarrow>
   \<exists>u. insert_history (history_row row cmd signer op_str v seq) s = Ok u \<and> sn_meta u = sn_meta t \<and>
       hist_positions u = insert (row_pos row) (hist_positions t)"
  by (simp add: insert_history_fresh)

lemma apply_row_applied_total:
  assumes "row_pos row \<notin> hist_positions (pg_tx p)"
    and "cmd_op cmd \<in> {Set, SetL} \<Longrightarrow> cmd_value cmd \<noteq> None"
  shows "\<exists>p'. apply_row_applied E row cmd signer root p = Ok p' \<and> extends row p p'"
proof -
  note ins = insert_row_extends [OF _ _ assms(1)]
  show ?thesis
  proof (cases "cmd_op cmd \<in> {Set, SetL}")
    case True
    then obtain v where v: "cmd_value cmd = Some v" using assms(2) by blast
    from ins [of "upsert_kv E row (cmd_key cmd) v (pg_tx p)" cmd signer "op_as_str (cmd_op cmd)"
        "Some v" "sint (cmd_seq cmd)"]
    show ?thesis
      using True by (auto simp: apply_row_applied_def v extends_def upsert_kv_def)
  next
    case False
    from False ins [of "pg_tx p" cmd signer "''INIT''" None 0]
      ins [of "(pg_tx p)\<lparr>sn_kv := (sn_kv (pg_tx p))(cmd_key cmd := None)\<rparr>" cmd signer "''DEL''" None
        "sint (cmd_seq cmd)"]
    show ?thesis
      by (cases "cmd_op cmd") (auto simp: apply_row_applied_def extends_def Let_def)
  qed
qed

lemma apply_row_total:
  assumes "row_pos row \<notin> hist_positions (pg_tx p)" and "row_ok row"
  shows "\<exists>p'. apply_row E row receiver root p = Ok p' \<and> extends row p p'"
proof (cases "parse_text_memo E (pr_memo_text row)")
  case (Some cmd)
  have "cmd_value cmd \<noteq> None" if "cmd_op cmd \<in> {Set, SetL}"
    using parsed_put_value [OF Some _ that] assms(2) by (simp add: row_ok_def)
  from apply_row_applied_total [OF assms(1) this, of E] Some show ?thesis
    by (auto simp: apply_row_def Let_def split: option.splits row_outcome.splits)
qed (simp add: apply_row_def)

lemma apply_rows_total:
  "\<forall>row \<in> set rows. row_ok row \<Longrightarrow> fresh_rows (pg_tx p) rows \<Longrightarrow>
   \<exists>p'. apply_rows E receiver root rows p = Ok p' \<and> sn_meta (pg_tx p') = sn_meta (pg_tx p) \<and>
        hist_positions (pg_tx p') \<subseteq> set (map row_pos rows) \<union> hist_positions (pg_tx p)"
proof (induction rows arbitrary: p)
  case (Cons row rows)
  from Cons.prems obtain q where q: "apply_row E row receiver root p = Ok q" "extends row p q"
    using apply_row_total [of row p E receiver root] by (auto simp: fresh_rows_def)
  have "row_pos row \<notin> set (map row_pos rows)" and "set (map row_pos rows) \<inter> hist_positions (pg_tx p) = {}"
    using Cons.prems(2) by (auto simp: fresh_rows_def)
  with q(2) have "set (map row_pos rows) \<inter> hist_positions (pg_tx q) = {}"
    unfolding extends_def by blast
  with Cons.prems(2) have "fresh_rows (pg_tx q) rows"
    by (simp add: fresh_rows_def)
  with Cons.IH [of q] Cons.prems(1) obtain p'
    where "apply_rows E receiver root rows q = Ok p'" "sn_meta (pg_tx p') = sn_meta (pg_tx q)"
      "hist_positions (pg_tx p') \<subseteq> set (map row_pos rows) \<union> hist_positions (pg_tx q)" by auto
  with q show ?case by (auto simp: extends_def)
qed simp

section \<open>What a batch does\<close>

definition snap_state :: "('pk, 'sk) crates \<Rightarrow> nat \<Rightarrow> snapshot \<Rightarrow> replay_result \<Rightarrow> bool" where
  "snap_state E b s r \<longleftrightarrow> load_seed E s = Ok r \<and> adb_inv E (abs_db r) \<and> hw_below b (abs_db r)"

text \<open>Everything \<open>promote\<close> guarantees of a fresh batch.\<close>

definition promoted ::
    "('pk, 'sk) crates \<Rightarrow> str \<Rightarrow> 'pk \<Rightarrow> nat \<Rightarrow> snapshot \<Rightarrow> replay_result \<Rightarrow> promote_row list \<Rightarrow>
     snapshot \<Rightarrow> replay_result \<Rightarrow> bool" where
  "promoted E receiver pk b s r rows s' r' \<longleftrightarrow>
     replay_with_seed E (map (entry_of E) rows) (Some r) receiver pk False = Ok r' \<and>
     snap_state E (b + 257 * length rows) s' r' \<and>
     hist_positions s' \<subseteq> set (map row_pos rows) \<union> hist_positions s \<and>
     (if rows = [] \<or> rr_init r' = Uninitialized then s' = s
      else read_watermark s' = Ok \<lparr>wm_height = pr_mined_height (last rows),
             wm_txid = pr_txid (last rows), wm_output_index = pr_output_index (last rows)\<rparr>)"

lemma promote_from_tx:
  "promote E s rows receiver pk = (s', Ok ()) \<longleftrightarrow> promote_tx E s rows receiver pk = Ok s'"
  by (auto simp: promote_def split: sum.splits)

lemma hw_below_fit:
  "hw_below b (abs_db r) \<Longrightarrow> b < 2 ^ 63 \<Longrightarrow>
   counters_fit (rr_kv_versions r) \<and> counters_fit (rr_target_versions r)"
  unfolding hw_below_def counters_fit_def abs_db_sel using order.strict_trans1 by blast

lemma replay_seeded_confirmed:
  assumes "load_seed E s = Ok r"
  shows "replay_with_seed E es (Some r) receiver pk False =
    Ok (let r' = honor_all E receiver (pubkey_bech32 E pk) es r in r'\<lparr>rr_state := prune (rr_state r')\<rparr>)"
proof -
  have "clear_pending (rr_state r) = rr_state r"
  proof
    fix k
    from load_seed_no_pending [OF assms] have "pending (entry_or_default (rr_state r) k) = []"
      by (simp add: no_pending_def)
    then show "clear_pending (rr_state r) k = rr_state r k"
      by (cases "rr_state r k") (simp_all add: clear_pending_def entry_or_default_def)
  qed
  then show ?thesis by (simp add: replay_lenient replay_start_def)
qed

lemma promote_fresh:
  assumes E: "bech32_laws E" "key_laws E" and st: "snap_state E b s r"
    and bound: "b + 257 * length rows < 2 ^ 63"
    and ok: "\<forall>row \<in> set rows. row_ok row" and fresh: "fresh_rows s rows"
  shows "\<exists>s' r'. promote E s rows receiver pk = (s', Ok ()) \<and> promoted E receiver pk b s r rows s' r'"
proof -
  let ?root = "pubkey_bech32 E pk" and ?es = "map (entry_of E) rows"
  let ?h = "honor_all E receiver ?root ?es r"
  let ?r' = "?h\<lparr>rr_state := prune (rr_state ?h)\<rparr>"
  from st have ld: "load_seed E s = Ok r" and inv: "adb_inv E (abs_db r)" and hwb: "hw_below b (abs_db r)"
    by (simp_all add: snap_state_def)
  have conf: "\<forall>e \<in> set ?es. re_status e = Confirmed" by auto
  have b64: "b + 257 * length ?es < 2 ^ 64" using bound by simp
  from honor_all_run [OF hwb b64, of E ?root receiver]
  have run: "db_run E ?root (length ?es) (abs_db r) (abs_db ?h)"
    and hwb': "hw_below (b + 257 * length rows) (abs_db ?h)" by simp_all
  have inv': "adb_inv E (abs_db ?h)"
    by (rule adb_inv_run [OF run inv E]) (simp add: E)
  have rep: "replay_with_seed E ?es (Some r) receiver pk False = Ok ?r'"
    by (simp add: replay_seeded_confirmed [OF ld] Let_def)
  note phase = honor_all_confirmed_phase [OF conf load_seed_phase [OF ld], of E receiver ?root]
  have same: "?r' = r" if "?h = r" using that load_seed_no_pending [OF ld] by simp
  show ?thesis
  proof (cases "rows = []")
    case True
    have "?r' = r" by (rule same) (simp add: True)
    with st rep True show ?thesis
      by (intro exI [of _ s] exI [of _ ?r']) (simp add: promote_def promote_tx_def promoted_def)
  next
    case False
    from begin_promote_mirrors [OF ld] obtain p0
      where p0: "begin_promote E s = Ok p0" "mirrors p0 r" "pg_tx p0 = s" by blast
    from apply_rows_total [OF ok, of p0 E receiver ?root] fresh p0(3) obtain p
      where p: "apply_rows E receiver ?root rows p0 = Ok p" and meta: "sn_meta (pg_tx p) = sn_meta s"
        and hist: "hist_positions (pg_tx p) \<subseteq> set (map row_pos rows) \<union> hist_positions s" by auto
    from apply_rows_mirrors [OF ok p0(2) p] have m: "mirrors p ?h" .
    then have ini: "pg_init p = rr_init ?h" by (simp add: mirrors_def)
    have ini0: "pg_init p0 = rr_init r" using p0(2) by (simp add: mirrors_def)
    show ?thesis
    proof (cases "rr_init ?h = Uninitialized")
      case True
      with phase load_seed_phase [OF ld] have "rr_init r = Uninitialized" "?h = r"
        by (auto simp: phase_simple_def)
      with same have "?r' = r" by blast
      moreover have "promote_tx E s rows receiver pk = Ok s"
        using False p0(1) p ini ini0 True \<open>rr_init r = Uninitialized\<close> by (simp add: promote_tx_def)
      ultimately show ?thesis
        using st rep True hwb' \<open>?h = r\<close>
        by (intro exI [of _ s] exI [of _ ?r'])
           (auto simp: promote_from_tx promoted_def snap_state_def)
    next
      case init: False
      with phase have ih: "rr_init ?h = Initialized" by (auto simp: phase_simple_def)
      have "rr_finalized ?h" if "rr_finalized r"
        using that by (simp add: honor_all_sealed)
      then have fin: "read_finalized (pg_tx p) = Ok False" if "\<not> rr_finalized ?h"
        using that ld meta
        by (auto simp: load_seed_def try_ok_Inr read_finalized_def read_meta_text_def)
      have wf: "auth_wf (rr_auth ?h)" "auth_canonical E (rr_auth ?h)"
        using inv' by (simp_all add: adb_inv_def)
      note fit = hw_below_fit [OF hwb' bound]
      have ep: "epoch_fits ?h" by (rule epoch_fits_honor_all [OF load_seed_epoch [OF ld] conf])
      have lok: "row_ok (last rows)" using ok False by simp
      from finish_promote_Ok [OF m ih wf _ _ ep fin lok] fit obtain s'
        where s': "finish_promote (last rows) p = Ok s'" "load_seed E s' = Ok ?r'"
          "read_watermark s' = Ok \<lparr>wm_height = pr_mined_height (last rows),
             wm_txid = pr_txid (last rows), wm_output_index = pr_output_index (last rows)\<rparr>"
          "sn_history s' = sn_history (pg_tx p)" by blast
      have "promote_tx E s rows receiver pk = Ok s'"
        using False p0(1) p ini ih s'(1) by (simp add: promote_tx_def)
      moreover have "hist_positions s' = hist_positions (pg_tx p)"
        by (simp add: hist_positions_def s'(4))
      ultimately show ?thesis
        using rep s' hist inv' hwb' False ih
        by (intro exI [of _ s'] exI [of _ ?r'])
           (simp add: promote_from_tx promoted_def snap_state_def)
    qed
  qed
qed

section \<open>The phase and the watermark\<close>

lemma apply_row_phase:
  "apply_row E row receiver root p = Ok p' \<Longrightarrow> pg_init p' \<in> {pg_init p, Initialized}"
  by (auto simp: apply_row_def apply_row_applied_def Let_def try_ok_Inr
      split: option.splits if_splits row_outcome.splits op.splits)

lemma apply_rows_phase:
  "apply_rows E receiver root rows p = Ok p' \<Longrightarrow> pg_init p' \<in> {pg_init p, Initialized}"
proof (induction rows arbitrary: p)
  case (Cons row rows)
  then obtain q where "apply_row E row receiver root p = Ok q" and "apply_rows E receiver root rows q = Ok p'"
    by (auto simp: try_ok_Inr)
  with Cons.IH apply_row_phase show ?case by fastforce
qed simp

lemma persist_auth_meta: "persist_auth a s = Ok t \<Longrightarrow> sn_meta t = sn_meta s"
  by (auto simp: persist_auth_def try_ok_Inr)

lemma finish_promote_meta:
  assumes "finish_promote row p = Ok s'" and "pg_init p = Initialized" and "row_ok row"
  shows "read_init_state s' = Ok Initialized"
    and "read_watermark s' = Ok \<lparr>wm_height = pr_mined_height row, wm_txid = pr_txid row,
      wm_output_index = pr_output_index row\<rparr>"
proof -
  have m: "sn_meta s' META_INIT_STATE = Some (MText INIT_STATE_INITIALIZED)"
      "sn_meta s' META_WATERMARK_HEIGHT = Some (MText (dec (pr_mined_height row)))"
      "sn_meta s' META_WATERMARK_TXID = Some (MBlob (pr_txid row))"
      "sn_meta s' META_WATERMARK_OUTPUT_INDEX = Some (MText (dec (pr_output_index row)))"
    using assms(1,2)
    by (auto simp: finish_promote_def Let_def try_ok_Inr write_meta_u32_def write_meta_text_def
        write_meta_blob_def meta_keys dest!: persist_auth_meta split: if_splits)
  show "read_init_state s' = Ok Initialized"
    by (simp add: read_init_state_def read_meta_text_def m)
  show "read_watermark s' = Ok \<lparr>wm_height = pr_mined_height row, wm_txid = pr_txid row,
      wm_output_index = pr_output_index row\<rparr>"
    using assms(3) by (simp add: read_watermark_def read_meta_u32_def read_meta_text_def
        read_meta_blob_def m parse_dec row_ok_def)
qed

section \<open>Demonstration rows\<close>

definition demo_row :: "u32 \<Rightarrow> op \<Rightarrow> str \<Rightarrow> str option \<Rightarrow> u64 \<Rightarrow> promote_row" where
  "demo_row i op key v seq =
     \<lparr>pr_mined_height = 5, pr_txid = replicate 32 CHR ''t'', pr_output_index = i,
      pr_block_time = Some 7, pr_memo_text = demo_text op key v seq\<rparr>"

definition fresh_file :: snapshot where
  "fresh_file = open_snapshot empty_file"

lemma fresh_file_sel [simp]:
  "sn_meta fresh_file = Map.empty" "sn_kv fresh_file = Map.empty" "sn_history fresh_file = []"
  "sn_auth fresh_file = []" "sn_kv_version fresh_file = Map.empty" "sn_target_version fresh_file = Map.empty"
  by (simp_all add: fresh_file_def open_snapshot_def empty_file_def init_schema_def)

lemma load_seed_fresh: "load_seed E fresh_file = Ok empty_replay"
  by (simp add: load_seed_def read_init_state_def read_finalized_def read_version_def
      read_meta_text_def read_meta_u32_def load_auth_def load_versions_def empty_replay_def
      default_version_def)

lemma snap_state_fresh: "snap_state E b fresh_file empty_replay"
  by (simp add: snap_state_def load_seed_fresh)

lemma demo_text_utf8:
  assumes "demo_ok op key v" and "op \<noteq> SetL"
  shows "utf8_valid (demo_text op key v seq)"
proof -
  have k: "list_all plain key" and w: "list_all plain (unwrap_or v [])"
    using assms by (cases v; auto simp: demo_ok_def demo_word_def split: if_splits)+
  have o: "list_all plain (op_as_str op)" by (rule op_wire.token_plain)
  have m: "list_all is_ascii WIRE_MAGIC" by (simp add: WIRE_MAGIC_def is_ascii_def byte_def)
  have s: "list_all plain (encode_sig_line model_crates seq demo_sig)"
    using hexdigits_plain [OF demo_sig_hex(1)] by (simp add: encode_sig_line_def)
  have b: "is_ascii CHR 0x0A" "is_ascii CHR '' ''" by (simp_all add: is_ascii_def byte_def)
  show ?thesis
    using assms(2) list_all_plain_ascii [OF k] list_all_plain_ascii [OF w] list_all_plain_ascii [OF o]
      list_all_plain_ascii [OF s] m b
    by (intro utf8_valid_ascii)
       (auto simp: demo_text_def render_memo_text_def render_memo_with_comment_def memo_line1_def
         comment_line_def split: op.splits option.splits)
qed

lemma demo_row_ok: "demo_ok op key v \<Longrightarrow> op \<noteq> SetL \<Longrightarrow> i \<le> u32_max \<Longrightarrow> row_ok (demo_row i op key v seq)"
  by (simp add: row_ok_def demo_row_def demo_text_utf8) (simp add: u32_max_def)

lemma admitted_cong:
  "re_text e = re_text e' \<Longrightarrow> re_status e = re_status e' \<Longrightarrow>
   admitted E receiver root e r cmd signer = admitted E receiver root e' r cmd signer"
  by (simp add: admitted_def)

section \<open>Properties of the snapshot\<close>

text \<open>
  C15. A promoted batch refines the replay. On any snapshot whose tables read as a well-formed database
  and any batch of wallet rows at fresh positions, \<open>promote\<close> succeeds, and what the tables then read
  as is exactly the replay of the same memos, as confirmed ones, from what they read as before:
  phase, values with their provenance, registry, seal, epoch and counters. The result is again
  well-formed, so batches compose. The bound keeps the counters within \<open>i64\<close>.
\<close>

theorem promote_refines_replay:
  assumes "bech32_laws E" and "key_laws E" and "snap_state E b s r"
    and "b + 257 * length rows < 2 ^ 63"
    and "\<forall>row \<in> set rows. row_ok row" and "fresh_rows s rows"
  shows "\<exists>s' r'. promote E s rows receiver pk = (s', Ok ()) \<and>
     replay_with_seed E (map (entry_of E) rows) (Some r) receiver pk False = Ok r' \<and>
     load_seed E s' = Ok r' \<and> snap_state E (b + 257 * length rows) s' r'"
  using promote_fresh [OF assms, of receiver pk] by (auto simp: promoted_def snap_state_def)

theorem promote_refines_replay_witness:
  "\<exists>s' r'. promote model_crates fresh_file [demo_row 0 Init ''addr'' None 0] ''main:00'' CHR ''A'' = (s', Ok ()) \<and>
     load_seed model_crates s' = Ok r' \<and> rr_init r' = Initialized"
proof -
  let ?row = "demo_row 0 Init ''addr'' None 0" and ?E = "model_crates"
  have ok: "\<forall>row \<in> set [?row]. row_ok row"
    using demo_row_ok [OF demo_ok_Init] by simp
  have fresh: "fresh_rows fresh_file [?row]" by (simp add: fresh_rows_def hist_positions_def)
  from promote_refines_replay [OF bech32_laws_model key_laws_model snap_state_fresh [of _ 0] _ ok fresh,
      of "''main:00''" "CHR ''A''"] obtain s' r'
    where p: "promote ?E fresh_file [?row] ''main:00'' CHR ''A'' = (s', Ok ())"
      and r: "replay_with_seed ?E (map (entry_of ?E) [?row]) (Some empty_replay) ''main:00'' CHR ''A'' False = Ok r'"
      and l: "load_seed ?E s' = Ok r'" by auto
  have a: "admitted ?E ''main:00'' demo_root (entry_of ?E ?row) empty_replay
      (demo_command Init ''addr'' None 0) demo_root"
    using demo_init_admitted [of "''main:00''"]
    by (subst admitted_cong [of _ demo_init]) (simp_all add: demo_init_def demo_row_def)
  have "rr_init r' = Initialized"
    using r honor_admitted [OF a]
    by (simp add: replay_seeded_confirmed [OF load_seed_fresh] Let_def apply_applied_phase
        flip: demo_root_def) (auto simp: apply_applied_phase)
  with p l show ?thesis by blast
qed

text \<open>
  The watermark never passes the genesis. Whatever the batch, \<open>promote\<close> either leaves the file as
  it was (an error, an empty batch, or no \<open>INIT\<close> yet), or it returns \<open>Ok\<close>, the file says
  initialized, and its watermark is the position of the last row of the batch.
\<close>

lemma watermark_needs_genesis:
  assumes "promote E s rows receiver pk = (s', res)" and "\<forall>row \<in> set rows. row_ok row"
  shows "s' = s \<or>
     (res = Ok () \<and> read_init_state s' = Ok Initialized \<and>
      read_watermark s' = Ok \<lparr>wm_height = pr_mined_height (last rows), wm_txid = pr_txid (last rows),
        wm_output_index = pr_output_index (last rows)\<rparr>)"
proof (cases "s' = s")
  case False
  with assms(1) have ne: "rows \<noteq> []" and res: "res = Ok ()" and tx: "promote_tx E s rows receiver pk = Ok s'"
    by (auto simp: promote_def promote_tx_def split: sum.splits)
  from tx ne False obtain p0 p where p0: "begin_promote E s = Ok p0"
    and p: "apply_rows E receiver (pubkey_bech32 E pk) rows p0 = Ok p"
    and un: "\<not> (pg_init p0 = Uninitialized \<and> pg_init p = Uninitialized)"
    and f: "finish_promote (last rows) p = Ok s'"
    by (auto simp: promote_tx_def try_ok_Inr split: if_splits)
  from p0 have "pg_init p0 \<in> {Uninitialized, Initialized}"
    by (auto simp: begin_promote_def try_ok_Inr read_init_state_def)
  with apply_rows_phase [OF p] un have "pg_init p = Initialized" by auto
  moreover have "row_ok (last rows)" using assms(2) ne by simp
  ultimately show ?thesis using finish_promote_meta [OF f] res by blast
qed simp

text \<open>
  The projection tables read back what was written. A well-formed canonical registry is stored
  without a key conflict and reloaded in whatever order the rows come back; an epoch's block flags and
  every counter below \<open>2 ^ 63\<close> survive; a counter from \<open>2 ^ 63\<close> on would be read as 0, which is why the
  bound on the counters matters.
\<close>

lemma tables_read_back:
  assumes "auth_wf a" and "auth_canonical E a" and "counters_fit m"
  shows "persist_auth a s = Ok (s\<lparr>sn_auth := auth_rows a\<rparr>) \<and>
     (\<forall>rows. distinct (map fst rows) \<and> set rows = set (auth_rows a) \<longrightarrow> load_auth E rows = a) \<and>
     load_versions (persist_versions m) = m \<and>
     unwrap_or (block_set_parse (block_set_to_wire bs)) {} = bs \<and>
     load_versions (persist_versions [''k'' \<mapsto> 2 ^ 63]) ''k'' = Some 0"
proof -
  have "load_versions (persist_versions [''k'' \<mapsto> 2 ^ 63]) ''k'' = Some 0"
    by (simp add: load_versions_def persist_versions_def)
  then show ?thesis
    using persist_auth_ok [OF assms(1)] load_auth_any_order [OF assms(1,2)]
      counters.load_persist [OF assms(3)] block_text.load_persist [OF TrueI] by blast
qed

text \<open>
  Two honored memos at one position stop promotion for good. \<open>kv_history\<close> is keyed by height, txid
  and output index, without the pool, so an Orchard and an Ironwood output of one transaction can
  have the same key. The replay applies both memos; \<open>promote\<close> fails with a constraint error, leaves
  the file alone, and so fails again on every later read.
\<close>

lemma shared_position_blocks_promotion:
  "promote model_crates fresh_file [demo_row 0 Init ''addr'' None 0, demo_row 0 Set ''k'' (Some ''v'') 0]
     ''main:00'' CHR ''A'' = (fresh_file, Err HistoryConflict) \<and>
   (\<exists>r. replay_with_seed model_crates
      (map (entry_of model_crates) [demo_row 0 Init ''addr'' None 0, demo_row 0 Set ''k'' (Some ''v'') 0])
      None ''main:00'' CHR ''A'' False = Ok r \<and> confirmed_values (rr_state r) ''k'' = Some ''v'')"
proof -
  let ?E = "model_crates" and ?rc = "''main:00''"
  let ?i = "demo_row 0 Init ''addr'' None 0" and ?s = "demo_row 0 Set ''k'' (Some ''v'') 0"
  have okp: "demo_ok Set ''k'' (Some ''v'')"
    by (simp add: demo_ok_def demo_word_def value_arity_def plain_def byte_def)
  have a1: "admitted ?E ?rc demo_root (entry_of ?E ?i) empty_replay
      (demo_command Init ''addr'' None 0) demo_root"
    using demo_init_admitted [of ?rc]
    by (subst admitted_cong [of _ demo_init]) (simp_all add: demo_init_def demo_row_def)
  have h1: "fst (honor ?E ?rc demo_root (entry_of ?E ?i) empty_replay) = demo_born"
    unfolding honor_admitted [OF a1] by (simp add: apply_applied_def demo_born_def empty_replay_def)
  have "admitted ?E ?rc demo_root (demo_entry Set ''k'' (Some ''v'') 0 Confirmed) demo_born
      (demo_command Set ''k'' (Some ''v'') 0) demo_root"
    by (rule demo_root_admitted [OF okp]) (simp_all add: demo_window_0)
  then have a2: "admitted ?E ?rc demo_root (entry_of ?E ?s) demo_born
      (demo_command Set ''k'' (Some ''v'') 0) demo_root"
    by (subst admitted_cong [of _ "demo_entry Set ''k'' (Some ''v'') 0 Confirmed"])
       (simp_all add: demo_row_def)
  obtain p0 where p0: "begin_promote ?E fresh_file = Ok p0" "mirrors p0 empty_replay" "pg_tx p0 = fresh_file"
    using begin_promote_mirrors [OF load_seed_fresh, of ?E] by blast
  have new: "row_pos ?i \<notin> hist_positions fresh_file" by (simp add: hist_positions_def)
  let ?p1 = "p0\<lparr>pg_tx := fresh_file\<lparr>sn_history :=
      [history_row ?i (demo_command Init ''addr'' None 0) demo_root ''INIT'' None 0]\<rparr>,
    pg_init := Initialized, pg_auth := insert_owner demo_root (pg_auth p0)\<rparr>"
  have r1: "apply_row ?E ?i ?rc demo_root p0 = Ok ?p1"
    unfolding apply_row_admitted [OF p0(2) a1]
    by (simp add: apply_row_applied_def p0(3) insert_history_fresh [OF new] Let_def)
  have ok1: "\<forall>row \<in> set [?i]. row_ok row" using demo_row_ok [OF demo_ok_Init] by simp
  have m1: "mirrors ?p1 demo_born"
    using apply_rows_mirrors [OF ok1 p0(2), of ?E ?rc demo_root ?p1] r1 h1 by simp
  have "row_pos ?s \<in> hist_positions (pg_tx ?p1)"
    by (simp add: hist_positions_def row_pos_def demo_row_def hist_pos_def history_row_def)
  then have "insert_history (history_row ?s c sg opc v q) (upsert_kv ?E ?s k w (pg_tx ?p1)) = Err HistoryConflict"
    for c sg opc v q k w
    by (simp add: insert_history_def flip: hist_positions_def)
  then have r2: "apply_row ?E ?s ?rc demo_root ?p1 = Err HistoryConflict"
    unfolding apply_row_admitted [OF m1 a2] by (simp add: apply_row_applied_def Let_def)
  have "promote ?E fresh_file [?i, ?s] ?rc CHR ''A'' = (fresh_file, Err HistoryConflict)"
    using r1 r2 by (simp add: promote_def promote_tx_def p0(1) flip: demo_root_def)
  moreover have "confirmed_values (rr_state (fst (honor ?E ?rc demo_root (entry_of ?E ?s) demo_born))) ''k'' = Some ''v''"
    unfolding honor_admitted [OF a2] by (simp add: apply_applied_def confirmed_values_def Let_def)
  ultimately show ?thesis
    using h1 by (simp add: replay_lenient replay_start_def Let_def flip: demo_root_def)
qed

end
