(* ===== verification/Wallet_Scan.thy ===== *)
theory Wallet_Scan
  imports Snapshot "HOL-Library.Product_Lexorder"
begin

text \<open>
  The queries of \<open>internal/state.rs\<close> on the wallet database. The tables belong to
  \<open>zcash_client_sqlite\<close>; only the columns the queries name are in the record \<open>wallet_db\<close>. The three
  note tables are one list with the pool code in each row. A query is the list its \<open>FROM\<close> clause
  enumerates, filtered by \<open>WHERE\<close> and sorted (stably) by \<open>ORDER BY\<close>; a term that compares \<open>NULL\<close> is
  not true.
\<close>

section \<open>Tables\<close>

datatype shielded_pool = Sapling | Orchard | Ironwood

record note_row =
  no_transaction_id :: nat
  no_output_index :: u32
  no_account_id :: nat
  no_value :: int
  no_memo :: "bytes option"
  no_pool :: int

record sent_note_row =
  sx_transaction_id :: nat
  sx_output_pool :: int
  sx_output_index :: u32
  sx_from_account_id :: "nat option"
  sx_memo :: "bytes option"

record transaction_row =
  tr_id :: nat
  tr_txid :: bytes
  tr_mined_height :: "int option"
  tr_expiry_height :: "int option"
  tr_raw :: "bytes option"
  tr_fee :: "int option"

record wallet_db =
  wd_notes :: "note_row list"
  wd_sent_notes :: "sent_note_row list"
  wd_transactions :: "transaction_row list"
  wd_accounts :: "(nat \<times> bytes) list"
  wd_block_time :: "int \<rightharpoonup> int"
  wd_spends :: "(int \<times> nat) list"     \<comment> \<open>pool code and spending transaction\<close>

definition pool_output_codes :: "shielded_pool \<Rightarrow> int list" where
  "pool_output_codes pool = (case pool of Sapling \<Rightarrow> [2] | Orchard \<Rightarrow> [3, 4] | Ironwood \<Rightarrow> [3, 4])"

text \<open>The table and index column of a pool; \<open>None\<close> is \<open>unreachable!\<close>.\<close>

definition pool_table :: "int \<Rightarrow> (str \<times> str) option" where
  "pool_table code =
     (if code = 2 then Some (''sapling_received_notes'', ''output_index'')
      else if code = 3 then Some (''orchard_received_notes'', ''action_index'')
      else if code = 4 then Some (''ironwood_received_notes'', ''action_index'')
      else None)"

definition pool_spends_table :: "int \<Rightarrow> str option" where
  "pool_spends_table code =
     (if code = 2 then Some ''sapling_received_note_spends''
      else if code = 3 then Some ''orchard_received_note_spends''
      else if code = 4 then Some ''ironwood_received_note_spends''
      else None)"

text \<open>\<open>received_outputs_sql\<close> and \<open>spent_outputs_sql\<close>: one arm per code, \<open>UNION ALL\<close>.\<close>

definition received_outputs :: "wallet_db \<Rightarrow> shielded_pool \<Rightarrow> note_row list" where
  "received_outputs w pool =
     concat (map (\<lambda>code. filter (\<lambda>n. no_pool n = code) (wd_notes w)) (pool_output_codes pool))"

definition spent_outputs :: "wallet_db \<Rightarrow> shielded_pool \<Rightarrow> nat list" where
  "spent_outputs w pool =
     concat (map (\<lambda>code. map snd (filter (\<lambda>s. fst s = code) (wd_spends w))) (pool_output_codes pool))"

section \<open>The scan past the watermark\<close>

definition left_join :: "('a \<Rightarrow> bool) \<Rightarrow> 'a list \<Rightarrow> 'a option list" where
  "left_join p xs = (case filter p xs of [] \<Rightarrow> [None] | ys \<Rightarrow> map Some ys)"

definition coalesce_max :: "bytes option \<Rightarrow> bytes option \<Rightarrow> bytes option" where
  "coalesce_max a b =
     (case (a, b) of
        (Some x, Some y) \<Rightarrow> Some (max x y)
      | (Some x, None) \<Rightarrow> Some x
      | (None, y) \<Rightarrow> y)"

record scan_row =
  sc_memo :: "bytes option"
  sc_mined_height :: "int option"
  sc_block_time :: "int option"
  sc_from_uuid :: "bytes option"
  sc_txid :: bytes
  sc_output_index :: u32

definition sql_unexpired :: "u32 \<Rightarrow> transaction_row \<Rightarrow> bool" where
  "sql_unexpired tip t \<longleftrightarrow>
     tr_mined_height t \<noteq> None \<or> tr_expiry_height t = None \<or> tr_expiry_height t = Some 0 \<or>
     (case tr_expiry_height t of None \<Rightarrow> False | Some h \<Rightarrow> int tip \<le> h)"

definition sql_past :: "watermark \<Rightarrow> int option \<Rightarrow> bytes \<Rightarrow> u32 \<Rightarrow> bool" where
  "sql_past wm height txid output_index \<longleftrightarrow>
     (case height of
        None \<Rightarrow> True
      | Some h \<Rightarrow>
          int (wm_height wm) < h \<or>
          (h = int (wm_height wm) \<and>
           (wm_txid wm < txid \<or> (txid = wm_txid wm \<and> wm_output_index wm < output_index))))"

text \<open>\<open>scan_memos_sql\<close>: the joined rows that satisfy \<open>WHERE\<close>.\<close>

definition scan_candidates :: "wallet_db \<Rightarrow> bytes \<Rightarrow> u32 \<Rightarrow> shielded_pool \<Rightarrow> scan_row list" where
  "scan_candidates w account_uuid tip pool =
     concat (map (\<lambda>n.
       concat (map (\<lambda>acct.
         concat (map (\<lambda>t.
           concat (map (\<lambda>sn.
             concat (map (\<lambda>fa.
               if snd acct = account_uuid \<and>
                  (no_memo n \<noteq> None \<or> map_option snd fa = Some account_uuid) \<and> sql_unexpired tip t
               then [\<lparr>sc_memo = coalesce_max (no_memo n) (Option.bind sn sx_memo),
                      sc_mined_height = tr_mined_height t,
                      sc_block_time = Option.bind (tr_mined_height t) (wd_block_time w),
                      sc_from_uuid = map_option snd fa, sc_txid = tr_txid t,
                      sc_output_index = no_output_index n\<rparr>]
               else [])
             (left_join (\<lambda>a. Some (fst a) = Option.bind sn sx_from_account_id) (wd_accounts w))))
           (left_join (\<lambda>s. sx_transaction_id s = no_transaction_id n \<and> sx_output_pool s = no_pool n \<and>
              sx_output_index s = no_output_index n) (wd_sent_notes w))))
         (filter (\<lambda>t. tr_id t = no_transaction_id n) (wd_transactions w))))
       (filter (\<lambda>a. fst a = no_account_id n) (wd_accounts w))))
     (received_outputs w pool))"

text \<open>\<open>ORDER BY mined_height ASC NULLS LAST, txid ASC, output_index ASC\<close>\<close>

definition scan_order :: "scan_row \<Rightarrow> bool \<times> int \<times> bytes \<times> u32" where
  "scan_order r =
     (sc_mined_height r = None, unwrap_or (sc_mined_height r) 0, sc_txid r, sc_output_index r)"

definition scan_memos_sql ::
    "wallet_db \<Rightarrow> bytes \<Rightarrow> u32 \<Rightarrow> watermark \<Rightarrow> shielded_pool \<Rightarrow> scan_row list" where
  "scan_memos_sql w account_uuid tip wm pool =
     sort_key scan_order
       (filter (\<lambda>r. sql_past wm (sc_mined_height r) (sc_txid r) (sc_output_index r))
         (scan_candidates w account_uuid tip pool))"

record decoded_row =
  dr_text :: str
  dr_mined_height :: "int option"
  dr_block_time :: "int option"
  dr_from_uuid :: "bytes option"
  dr_txid :: bytes
  dr_output_index :: u32

text \<open>The row mapper: rows whose memo is absent or no text are skipped.\<close>

definition decode_row :: "('pk, 'sk) crates \<Rightarrow> scan_row \<Rightarrow> decoded_row option" where
  "decode_row E r =
     map_option (\<lambda>t. \<lparr>dr_text = t, dr_mined_height = sc_mined_height r,
         dr_block_time = sc_block_time r, dr_from_uuid = sc_from_uuid r, dr_txid = sc_txid r,
         dr_output_index = sc_output_index r\<rparr>)
       (Option.bind (sc_memo r) (memo_decode E))"

definition scan_memos_past_watermark ::
    "('pk, 'sk) crates \<Rightarrow> wallet_db \<Rightarrow> bytes \<Rightarrow> u32 \<Rightarrow> watermark \<Rightarrow> shielded_pool \<Rightarrow> decoded_row list" where
  "scan_memos_past_watermark E w account_uuid tip wm pool =
     List.map_filter (decode_row E) (scan_memos_sql w account_uuid tip wm pool)"

section \<open>The enhancement floor\<close>

text \<open>\<open>u32::try_from(h).unwrap_or(u32::MAX)\<close> on a positive \<open>i64\<close>.\<close>

definition clamp_u32 :: "int \<Rightarrow> u32" where
  "clamp_u32 h = (if h \<le> int u32_max then nat h else u32_max)"

fun positive :: "int option \<Rightarrow> u32 option" where
  "positive None = None"
| "positive (Some h) = (if 0 < h then Some (clamp_u32 h) else None)"

definition unenhanced_heights :: "wallet_db \<Rightarrow> bytes \<Rightarrow> shielded_pool \<Rightarrow> int list" where
  "unenhanced_heights w account_uuid pool =
     concat (map (\<lambda>n.
       concat (map (\<lambda>acct.
         List.map_filter (\<lambda>t. if tr_raw t = None then tr_mined_height t else None)
           (filter (\<lambda>t. tr_id t = no_transaction_id n) (wd_transactions w)))
       (filter (\<lambda>a. fst a = no_account_id n \<and> snd a = account_uuid) (wd_accounts w))))
     (received_outputs w pool))"

definition unenhanced_floor :: "wallet_db \<Rightarrow> bytes \<Rightarrow> shielded_pool \<Rightarrow> u32 option" where
  "unenhanced_floor w account_uuid pool =
     (case unenhanced_heights w account_uuid pool of
        [] \<Rightarrow> None
      | h # hs \<Rightarrow> positive (Some (foldr min hs h)))"

section \<open>Transaction ids\<close>

definition txid_hex :: "('pk, 'sk) crates \<Rightarrow> bytes \<Rightarrow> str" where
  "txid_hex E txid = unwrap_or (txid_display E txid) []"

definition txid_blob_from_hex :: "('pk, 'sk) crates \<Rightarrow> str \<Rightarrow> bytes option" where
  "txid_blob_from_hex E hex_str =
     (case hex_decode E hex_str of
        None \<Rightarrow> None
      | Some b \<Rightarrow> if length b \<noteq> 32 then None else Some (rev b))"

lemma txid_blob_hex:
  assumes "hex_laws E" and "txid_laws E" and "length txid = 32"
  shows "txid_blob_from_hex E (txid_hex E txid) = Some txid"
  using assms by (simp add: txid_blob_from_hex_def txid_hex_def txid_display_def txid_laws_def)

section \<open>Fees and output values\<close>

text \<open>
  \<open>query_row\<close> takes the first row of the query. \<open>as u64\<close> of a non-negative \<open>i64\<close> is \<open>word_of_int\<close>.
\<close>

definition tx_fee :: "wallet_db \<Rightarrow> shielded_pool \<Rightarrow> bytes \<Rightarrow> u64 option" where
  "tx_fee w pool blob =
     (case filter (\<lambda>t. tr_txid t = blob) (wd_transactions w) of
        [] \<Rightarrow> None
      | t # _ \<Rightarrow>
          (case tr_fee t of
             None \<Rightarrow> None
           | Some f \<Rightarrow> if tr_id t \<in> set (spent_outputs w pool) \<and> 0 \<le> f then Some (word_of_int f) else None))"

definition tx_output_value :: "wallet_db \<Rightarrow> shielded_pool \<Rightarrow> bytes \<Rightarrow> u32 \<Rightarrow> u64 option" where
  "tx_output_value w pool blob output_index =
     (case concat (map (\<lambda>n. map (\<lambda>t. no_value n)
              (filter (\<lambda>t. tr_id t = no_transaction_id n \<and> tr_txid t = blob) (wd_transactions w)))
            (filter (\<lambda>n. no_output_index n = output_index) (received_outputs w pool))) of
        [] \<Rightarrow> None
      | v # _ \<Rightarrow> if 0 < v then Some (word_of_int v) else None)"

section \<open>The scan and its watermark\<close>

lemma scan_subset:
  "set (scan_memos_sql w uuid tip wm pool) \<subseteq> set (scan_candidates w uuid tip pool)"
  by (auto simp: scan_memos_sql_def)

lemma map_filter_filter:
  "(\<And>x y. f x = Some y \<Longrightarrow> q y = p x) \<Longrightarrow> List.map_filter f (filter p xs) = filter q (List.map_filter f xs)"
  by (induction xs) (auto simp: List.map_filter_simps split: option.splits)

definition row_past :: "watermark \<Rightarrow> decoded_row \<Rightarrow> bool" where
  "row_past wm r \<longleftrightarrow> sql_past wm (dr_mined_height r) (dr_txid r) (dr_output_index r)"

definition all_memos ::
    "('pk, 'sk) crates \<Rightarrow> wallet_db \<Rightarrow> bytes \<Rightarrow> u32 \<Rightarrow> shielded_pool \<Rightarrow> decoded_row list" where
  "all_memos E w uuid tip pool =
     List.map_filter (decode_row E) (sort_key scan_order (scan_candidates w uuid tip pool))"

text \<open>A scan is the whole ordered memo stream, less the rows at or before the watermark.\<close>

lemma scan_is_filter:
  "scan_memos_past_watermark E w uuid tip wm pool = filter (row_past wm) (all_memos E w uuid tip pool)"
proof -
  have "sort_key scan_order (filter p xs) = filter p (sort_key scan_order xs)" for p xs
    by (simp add: filter_sort)
  then show ?thesis
    unfolding scan_memos_past_watermark_def scan_memos_sql_def all_memos_def
    by (simp only:) (rule map_filter_filter, auto simp: decode_row_def row_past_def)
qed

end
