(* ===== verification/Read_Path.thy ===== *)
theory Read_Path
  imports Wallet_Scan Memo_Audit
begin

text \<open>
  \<open>load_state_with_height\<close> of \<open>internal/state.rs\<close>: a read opens the snapshot, heals it, scans the wallet
  past its watermark, promotes the deep rows and replays the rest in memory on the snapshot's seed.
  The arguments are what the function reads from the configuration, the account and the wallet: pool,
  account id, receiver, key, tip and fully-scanned height.
\<close>

definition INIT_CONFIRMATIONS :: u32 where "INIT_CONFIRMATIONS = 1"

definition effective_min_confs :: "bool \<Rightarrow> u32 \<Rightarrow> u32" where
  "effective_min_confs is_init min_confs = (if is_init then min INIT_CONFIRMATIONS min_confs else min_confs)"

text \<open>\<open>saturating_sub\<close> on \<open>u32\<close> is the subtraction of \<open>nat\<close>.\<close>

definition promote_cutoff :: "u32 \<Rightarrow> u32 \<Rightarrow> u32 option \<Rightarrow> u32" where
  "promote_cutoff tip fully_scanned unenhanced_from =
     (let scanned_safe = min (tip - SAFE_DEPTH) fully_scanned in
      case unenhanced_from of
        Some h \<Rightarrow> min scanned_safe (h - 1)
      | None \<Rightarrow> scanned_safe)"

section \<open>One row\<close>

definition mined_u32 :: "decoded_row \<Rightarrow> u32 option" where
  "mined_u32 row = positive (dr_mined_height row)"

definition confirmations :: "u32 \<Rightarrow> decoded_row \<Rightarrow> u32" where
  "confirmations tip row =
     (case mined_u32 row of None \<Rightarrow> 0 | Some h \<Rightarrow> sat_add32 (tip - h) 1)"

definition is_init_memo :: "('pk, 'sk) crates \<Rightarrow> str \<Rightarrow> bool" where
  "is_init_memo E t = (case parse_text_memo E t of None \<Rightarrow> False | Some c \<Rightarrow> cmd_op c = Init)"

text \<open>The status of a tail row; \<open>None\<close> is the \<open>continue\<close> on a shallow foreign memo.\<close>

definition row_status ::
    "('pk, 'sk) crates \<Rightarrow> u32 \<Rightarrow> u32 \<Rightarrow> bytes \<Rightarrow> decoded_row \<Rightarrow> write_status option" where
  "row_status E tip min_confs account_uuid row =
     (let confs = confirmations tip row;
          eff_confs = effective_min_confs (is_init_memo E (dr_text row)) min_confs
      in if mined_u32 row = None then Some (Confirming 0 eff_confs)
         else if eff_confs \<le> confs then Some Confirmed
         else if dr_from_uuid row = Some account_uuid then Some (Confirming confs eff_confs)
         else None)"

definition tail_entry ::
    "('pk, 'sk) crates \<Rightarrow> u32 \<Rightarrow> u32 \<Rightarrow> bytes \<Rightarrow> decoded_row \<Rightarrow> replay_entry option" where
  "tail_entry E tip min_confs account_uuid row =
     map_option (\<lambda>status. \<lparr>re_text = dr_text row, re_status = status,
         re_txid = txid_hex E (dr_txid row), re_block_time = positive (dr_block_time row)\<rparr>)
       (row_status E tip min_confs account_uuid row)"

definition promotable_row :: "u32 \<Rightarrow> decoded_row \<Rightarrow> promote_row option" where
  "promotable_row cutoff row =
     (case mined_u32 row of
        None \<Rightarrow> None
      | Some h \<Rightarrow>
          if h \<le> cutoff
          then Some \<lparr>pr_mined_height = h, pr_txid = dr_txid row, pr_output_index = dr_output_index row,
                     pr_block_time = positive (dr_block_time row), pr_memo_text = dr_text row\<rparr>
          else None)"

text \<open>The loop over the decoded rows: the promotable batch and the live tail.\<close>

fun partition_rows ::
    "('pk, 'sk) crates \<Rightarrow> u32 \<Rightarrow> u32 \<Rightarrow> u32 \<Rightarrow> bytes \<Rightarrow> decoded_row list \<Rightarrow>
     promote_row list \<times> replay_entry list" where
  "partition_rows E cutoff tip min_confs account_uuid [] = ([], [])"
| "partition_rows E cutoff tip min_confs account_uuid (row # rows) =
     (let (promotable, tail) = partition_rows E cutoff tip min_confs account_uuid rows in
      case promotable_row cutoff row of
        Some p \<Rightarrow> (p # promotable, tail)
      | None \<Rightarrow>
          (case tail_entry E tip min_confs account_uuid row of
             Some e \<Rightarrow> (promotable, e # tail)
           | None \<Rightarrow> (promotable, tail)))"

section \<open>The read\<close>

datatype read_error = SnapshotError snap_error | ReplayError replay_error

fun lift_snap :: "snap_error + 'a \<Rightarrow> read_error + 'a" where
  "lift_snap (Inl e) = Err (SnapshotError e)"
| "lift_snap (Inr x) = Ok x"

fun lift_replay :: "replay_error + 'a \<Rightarrow> read_error + 'a" where
  "lift_replay (Inl e) = Err (ReplayError e)"
| "lift_replay (Inr x) = Ok x"

text \<open>A watermark above the tip, then a watermark without an \<open>INIT\<close>, wipe the file.\<close>

definition wipe_if_rewound :: "u32 \<Rightarrow> snapshot \<Rightarrow> snap_error + snapshot" where
  "wipe_if_rewound tip s =
     try_ok (read_watermark s) (\<lambda>wm. Ok (if tip \<noteq> 0 \<and> tip < wm_height wm then wipe s else s))"

definition wipe_if_buried :: "snapshot \<Rightarrow> snap_error + snapshot" where
  "wipe_if_buried s =
     try_ok (read_watermark s) (\<lambda>wm.
       if 0 < wm_height wm
       then try_ok (read_init_state s) (\<lambda>init. Ok (if init = Uninitialized then wipe s else s))
       else Ok s)"

definition heal :: "u32 \<Rightarrow> snapshot \<Rightarrow> snap_error + snapshot" where
  "heal tip s = try_ok (wipe_if_rewound tip s) wipe_if_buried"

record reader =
  rd_pool :: shielded_pool
  rd_account_uuid :: bytes
  rd_receiver :: str

text \<open>The file after the read, and what it returned: on an error the commits made so far stay.\<close>

definition load_state_with_height ::
    "('pk, 'sk) crates \<Rightarrow> reader \<Rightarrow> 'pk \<Rightarrow> wallet_db \<Rightarrow> u32 \<Rightarrow> u32 \<Rightarrow> snapshot \<Rightarrow> u32 \<Rightarrow> bool \<Rightarrow>
     snapshot \<times> (read_error + replay_result \<times> u32)" where
  "load_state_with_height E rd pk w tip fully_scanned file min_confs strict =
     (let s0 = open_snapshot file in
      case heal tip s0 of
        Inl e \<Rightarrow> (s0, Err (SnapshotError e))
      | Inr s1 \<Rightarrow>
          (case read_watermark s1 of
             Inl e \<Rightarrow> (s1, Err (SnapshotError e))
           | Inr wm \<Rightarrow>
               (let decoded = scan_memos_past_watermark E w (rd_account_uuid rd) tip wm (rd_pool rd);
                    cutoff = promote_cutoff tip fully_scanned
                      (unenhanced_floor w (rd_account_uuid rd) (rd_pool rd));
                    (promotable, tail) =
                      partition_rows E cutoff tip min_confs (rd_account_uuid rd) decoded;
                    (s2, promoted) =
                      (if promotable = [] then (s1, Ok ())
                       else promote E s1 promotable (rd_receiver rd) pk)
                in (s2,
                    try_ok (lift_snap promoted) (\<lambda>_.
                    try_ok (lift_snap (load_seed E s2)) (\<lambda>seed.
                    try_ok (lift_replay (replay_with_seed E tail (Some seed) (rd_receiver rd) pk strict))
                      (\<lambda>r. Ok (r, tip))))))))"

definition load_state ::
    "('pk, 'sk) crates \<Rightarrow> reader \<Rightarrow> 'pk \<Rightarrow> wallet_db \<Rightarrow> u32 \<Rightarrow> u32 \<Rightarrow> snapshot \<Rightarrow> u32 \<Rightarrow> bool \<Rightarrow>
     snapshot \<times> (read_error + replay_result)" where
  "load_state E rd pk w tip fully_scanned file min_confs strict =
     map_prod id (\<lambda>res. try_ok res (\<lambda>(r, t). Ok r))
       (load_state_with_height E rd pk w tip fully_scanned file min_confs strict)"

section \<open>The audit of all memos\<close>

definition audit_status :: "u32 \<Rightarrow> u32 \<Rightarrow> decoded_row \<Rightarrow> write_status" where
  "audit_status tip min_confs row =
     (if mined_u32 row \<noteq> None \<and> min_confs \<le> confirmations tip row then Confirmed
      else Confirming (confirmations tip row) min_confs)"

definition audit_entry_of :: "('pk, 'sk) crates \<Rightarrow> u32 \<Rightarrow> u32 \<Rightarrow> decoded_row \<Rightarrow> audit_entry" where
  "audit_entry_of E tip min_confs row =
     \<lparr>ae_mined_height = mined_u32 row, ae_timestamp = positive (dr_block_time row),
      ae_txid = txid_hex E (dr_txid row), ae_text = dr_text row,
      ae_status = audit_status tip min_confs row\<rparr>"

definition load_audit ::
    "('pk, 'sk) crates \<Rightarrow> reader \<Rightarrow> 'pk \<Rightarrow> wallet_db \<Rightarrow> u32 \<Rightarrow> u32 \<Rightarrow> audit_result option" where
  "load_audit E rd pk w tip min_confs =
     replay_audit E
       (map (audit_entry_of E tip min_confs)
         (scan_memos_past_watermark E w (rd_account_uuid rd) tip
            \<lparr>wm_height = 0, wm_txid = [], wm_output_index = 0\<rparr> (rd_pool rd)))
       (rd_receiver rd) pk"

end
