(* ===== verification/Read_Props.thy ===== *)
theory Read_Props
  imports Read_Path Snapshot_Props
begin

text \<open>
  The snapshot is invisible: a read that goes through it returns what a replay of the whole memo
  stream returns, and leaves a file on which the next read does too.
\<close>

section \<open>Rows and positions\<close>

definition memo_row_ok :: "decoded_row \<Rightarrow> bool" where
  "memo_row_ok row \<longleftrightarrow>
     length (dr_txid row) = 32 \<and> utf8_valid (dr_text row) \<and> dr_output_index row \<le> u32_max \<and>
     (case dr_mined_height row of None \<Rightarrow> True | Some h \<Rightarrow> 0 < h \<and> h \<le> int u32_max)"

definition prow :: "decoded_row \<Rightarrow> promote_row" where
  "prow row =
     \<lparr>pr_mined_height = unwrap_or (mined_u32 row) 0, pr_txid = dr_txid row,
      pr_output_index = dr_output_index row, pr_block_time = positive (dr_block_time row),
      pr_memo_text = dr_text row\<rparr>"

definition wm_pos :: "watermark \<Rightarrow> u32 \<times> bytes \<times> u32" where
  "wm_pos wm = (wm_height wm, wm_txid wm, wm_output_index wm)"

abbreviation is_mined :: "decoded_row \<Rightarrow> bool" where
  "is_mined row \<equiv> dr_mined_height row \<noteq> None"

lemma mined_u32_ok:
  "memo_row_ok row \<Longrightarrow> mined_u32 row = map_option nat (dr_mined_height row)"
  by (cases "dr_mined_height row") (auto simp: memo_row_ok_def mined_u32_def clamp_u32_def)

lemma row_past_pos:
  assumes "memo_row_ok row"
  shows "\<not> row_past wm row \<longleftrightarrow> is_mined row \<and> row_pos (prow row) \<le> wm_pos wm"
proof (cases "dr_mined_height row")
  case None
  then show ?thesis by (simp add: row_past_def sql_past_def)
next
  case (Some h)
  with assms have "0 < h" by (simp add: memo_row_ok_def)
  then obtain n where "h = int n" by (metis nonneg_int_cases order_less_imp_le)
  with Some assms show ?thesis
    by (auto simp: row_past_def sql_past_def row_pos_def prow_def mined_u32_ok wm_pos_def
        less_eq_prod_simp not_less)
qed

lemma promotable_row_eq:
  "promotable_row cutoff row =
   (if mined_u32 row \<noteq> None \<and> unwrap_or (mined_u32 row) 0 \<le> cutoff then Some (prow row) else None)"
  by (cases "mined_u32 row") (simp_all add: promotable_row_def prow_def)

lemma row_ok_prow: "memo_row_ok row \<Longrightarrow> row_ok (prow row)"
  by (cases "dr_mined_height row")
     (auto simp: memo_row_ok_def row_ok_def prow_def mined_u32_def clamp_u32_def)

section \<open>The stream in chain order\<close>

definition dec_order :: "decoded_row \<Rightarrow> bool \<times> int \<times> bytes \<times> u32" where
  "dec_order r =
     (dr_mined_height r = None, unwrap_or (dr_mined_height r) 0, dr_txid r, dr_output_index r)"

lemma decode_row_order: "decode_row E r = Some d \<Longrightarrow> dec_order d = scan_order r"
  by (auto simp: decode_row_def dec_order_def scan_order_def)

lemma sorted_map_filter:
  assumes "\<And>x y. g x = Some y \<Longrightarrow> h y = f x" and "sorted (map f xs)"
  shows "sorted (map h (List.map_filter g xs))"
  using assms(2)
proof (induction xs)
  case (Cons x xs)
  then have ih: "sorted (map h (List.map_filter g xs))" by simp
  show ?case
  proof (cases "g x")
    case (Some y)
    have "h y \<le> h z" if z: "z \<in> set (List.map_filter g xs)" for z
    proof -
      from z obtain x' where x': "x' \<in> set xs" "g x' = Some z" by (auto simp: List.map_filter_def)
      with Cons.prems have "f x \<le> f x'" by simp
      with assms(1) [OF Some] assms(1) [OF x'(2)] show ?thesis by simp
    qed
    with ih Some show ?thesis by (simp add: List.map_filter_simps)
  qed (use ih in \<open>simp add: List.map_filter_simps\<close>)
qed (simp add: List.map_filter_simps)

lemma all_memos_sorted: "sorted (map dec_order (all_memos E w uuid tip pool))"
  unfolding all_memos_def by (rule sorted_map_filter [OF decode_row_order sorted_sort_key])

lemma mined_order:
  assumes "memo_row_ok x" and "memo_row_ok y" and "dec_order x \<le> dec_order y" and "is_mined y"
  shows "is_mined x \<and> row_pos (prow x) \<le> row_pos (prow y)"
  using assms
  by (cases "dr_mined_height x"; cases "dr_mined_height y")
     (auto simp: dec_order_def row_pos_def prow_def mined_u32_ok less_eq_prod_simp memo_row_ok_def
       nat_less_iff nat_le_iff)

text \<open>The stream: well-formed rows in chain order, no two mined ones at one position.\<close>

definition stream :: "decoded_row list \<Rightarrow> bool" where
  "stream rows \<longleftrightarrow>
     sorted (map dec_order rows) \<and> (\<forall>row \<in> set rows. memo_row_ok row) \<and>
     distinct (map (\<lambda>row. row_pos (prow row)) (filter is_mined rows))"

lemma streamD:
  assumes "stream rows"
  shows "sorted (map dec_order rows)" and "row \<in> set rows \<Longrightarrow> memo_row_ok row"
  using assms by (auto simp: stream_def)

lemma stream_split_watermark:
  assumes "stream rows"
  shows "filter (\<lambda>r. \<not> row_past wm r) rows @ filter (row_past wm) rows = rows"
proof -
  have d: "\<not> row_past wm x"
    if "x \<in> set rows" "y \<in> set rows" "dec_order x \<le> dec_order y" "\<not> row_past wm y" for x y
  proof -
    note o = streamD(2) [OF assms that(1)] streamD(2) [OF assms that(2)]
    from that(4) row_past_pos [OF o(2)] have "is_mined y" "row_pos (prow y) \<le> wm_pos wm" by auto
    with mined_order [OF o that(3)] row_past_pos [OF o(1)] show ?thesis
      by (blast intro: order.trans)
  qed
  have "filter (\<lambda>r. \<not> row_past wm r) rows @ filter (\<lambda>r. \<not> \<not> row_past wm r) rows = rows"
    by (rule sorted_split [OF streamD(1) [OF assms]]) (rule d)
  then show ?thesis by (simp only: not_not)
qed

lemma promotable_downward:
  assumes "memo_row_ok x" and "memo_row_ok y" and "dec_order x \<le> dec_order y"
    and "promotable_row c y \<noteq> None"
  shows "promotable_row c x \<noteq> None"
proof -
  from assms(4) have y: "mined_u32 y \<noteq> None" and le: "unwrap_or (mined_u32 y) 0 \<le> c"
    by (auto simp: promotable_row_eq split: if_splits)
  from y have "is_mined y" by (simp add: mined_u32_ok [OF assms(2)])
  from mined_order [OF assms(1-3) this] have x: "is_mined x"
    and p: "unwrap_or (mined_u32 x) 0 \<le> unwrap_or (mined_u32 y) 0"
    by (auto simp: row_pos_def prow_def less_eq_prod_simp)
  have "mined_u32 x \<noteq> None" using x by (simp add: mined_u32_ok [OF assms(1)])
  with p le show ?thesis by (simp add: promotable_row_eq)
qed

lemma stream_split_cutoff:
  assumes "stream rows"
  shows "filter (\<lambda>r. promotable_row c r \<noteq> None) (filter (row_past wm) rows) @
         filter (\<lambda>r. promotable_row c r = None) (filter (row_past wm) rows) = filter (row_past wm) rows"
proof -
  have s: "sorted (map dec_order (filter (row_past wm) rows))"
    using streamD(1) [OF assms] by (rule sorted_filter)
  have d: "promotable_row c x \<noteq> None"
    if "x \<in> set (filter (row_past wm) rows)" "y \<in> set (filter (row_past wm) rows)"
      "dec_order x \<le> dec_order y" "promotable_row c y \<noteq> None" for x y
    using promotable_downward [OF _ _ that(3,4)] streamD(2) [OF assms] that(1,2) by simp
  have "filter (\<lambda>r. promotable_row c r \<noteq> None) (filter (row_past wm) rows) @
      filter (\<lambda>r. \<not> promotable_row c r \<noteq> None) (filter (row_past wm) rows) = filter (row_past wm) rows"
    by (rule sorted_split [OF s]) (rule d)
  then show ?thesis by (simp only: not_not)
qed

lemma partition_rows_eq:
  "partition_rows E c tip mc uuid rows =
   (map prow (filter (\<lambda>r. promotable_row c r \<noteq> None) rows),
    List.map_filter (tail_entry E tip mc uuid) (filter (\<lambda>r. promotable_row c r = None) rows))"
  by (induction rows)
     (auto simp: List.map_filter_simps promotable_row_eq split: option.splits)

section \<open>A file that caches a stream\<close>

abbreviation done_rows :: "watermark \<Rightarrow> decoded_row list \<Rightarrow> decoded_row list" where
  "done_rows wm rows \<equiv> filter (\<lambda>r. \<not> row_past wm r) rows"

definition caches ::
    "('pk, 'sk) crates \<Rightarrow> str \<Rightarrow> 'pk \<Rightarrow> decoded_row list \<Rightarrow> snapshot \<Rightarrow> watermark \<Rightarrow> replay_result \<Rightarrow> bool" where
  "caches E receiver pk rows s wm r \<longleftrightarrow>
     sn_user_version s = SCHEMA_VERSION \<and> read_watermark s = Ok wm \<and>
     snap_state E (257 * length (done_rows wm rows)) s r \<and>
     replay_with_seed E (map (entry_of E) (map prow (done_rows wm rows))) None receiver pk False = Ok r \<and>
     hist_positions s \<subseteq> (\<lambda>row. row_pos (prow row)) ` set (done_rows wm rows) \<and>
     (wm_height wm = 0 \<or> rr_init r = Initialized)"

definition deep_enough :: "u32 \<Rightarrow> watermark \<Rightarrow> bool" where
  "deep_enough tip wm \<longleftrightarrow> wm_height wm = 0 \<or> wm_height wm + SAFE_DEPTH \<le> tip"

lemma heal_caches:
  assumes "caches E receiver pk rows s wm r" and "deep_enough tip wm"
  shows "open_snapshot s = s" and "heal tip s = Ok s"
proof -
  from assms(1) have v: "sn_user_version s = SCHEMA_VERSION" and w: "read_watermark s = Ok wm"
    and l: "load_seed E s = Ok r" and i: "wm_height wm = 0 \<or> rr_init r = Initialized"
    by (auto simp: caches_def snap_state_def)
  from l have ini: "read_init_state s = Ok (rr_init r)" by (auto simp: load_seed_def try_ok_Inr)
  show "open_snapshot s = s"
    using v by (simp add: open_snapshot_def SCHEMA_VERSION_def)
  show "heal tip s = Ok s"
    using assms(2) i ini
    by (auto simp: heal_def wipe_if_rewound_def wipe_if_buried_def w deep_enough_def)
qed

lemma deep_row_entry:
  assumes "memo_row_ok row" and "mined_u32 row = Some h" and "h + SAFE_DEPTH \<le> tip"
    and "min_confs \<le> SAFE_DEPTH + 1"
  shows "tail_entry E tip min_confs uuid row = Some (entry_of E (prow row))"
proof -
  have "effective_min_confs i min_confs \<le> SAFE_DEPTH + 1" for i
    using assms(4) by (auto simp: effective_min_confs_def INIT_CONFIRMATIONS_def SAFE_DEPTH_def)
  moreover have "SAFE_DEPTH + 1 \<le> confirmations tip row"
    using assms(2,3) by (auto simp: confirmations_def sat_add32_def u32_max_def SAFE_DEPTH_def)
  ultimately have "row_status E tip min_confs uuid row = Some Confirmed"
    using assms(2) order.trans by (fastforce simp: row_status_def Let_def)
  then show ?thesis
    by (simp add: tail_entry_def entry_of_def prow_def txid_hex_def)
qed

lemma map_filter_map:
  "(\<And>x. x \<in> set xs \<Longrightarrow> f x = Some (g x)) \<Longrightarrow> List.map_filter f xs = map g xs"
  by (induction xs) (simp_all add: List.map_filter_simps)

lemma map_filter_append: "List.map_filter f (xs @ ys) = List.map_filter f xs @ List.map_filter f ys"
  by (simp add: List.map_filter_def)

lemma promotable_cutoff:
  "promotable_row (promote_cutoff tip fs un) row \<noteq> None \<Longrightarrow>
   \<exists>h. mined_u32 row = Some h \<and> h \<le> promote_cutoff tip fs un"
  by (auto simp: promotable_row_eq split: if_splits)

lemma promote_cutoff_deep: "promote_cutoff tip fs un \<le> tip - SAFE_DEPTH"
  by (auto simp: promote_cutoff_def Let_def min_le_iff_disj split: option.splits)

lemma cutoff_height:
  assumes "h \<le> promote_cutoff tip fs un" and "0 < h"
  shows "h + SAFE_DEPTH \<le> tip"
  using assms promote_cutoff_deep [of tip fs un] by linarith

lemma mined_u32_pos: "memo_row_ok row \<Longrightarrow> mined_u32 row = Some h \<Longrightarrow> 0 < h"
  by (cases "dr_mined_height row") (auto simp: mined_u32_def memo_row_ok_def clamp_u32_def split: if_splits)

lemma watermark_advance:
  assumes st: "stream (done @ deep @ rest)" and ne: "deep \<noteq> []"
    and d: "\<forall>x \<in> set done. \<not> row_past wm x" and past: "\<forall>x \<in> set deep. row_past wm x \<and> is_mined x"
    and wm': "wm_pos wm' = row_pos (prow (last deep))"
  shows "done_rows wm' (done @ deep @ rest) = done @ deep"
proof -
  let ?rows = "done @ deep @ rest" and ?l = "last deep"
  have ok: "memo_row_ok x" if "x \<in> set ?rows" for x using streamD(2) [OF st that] .
  have srt: "sorted (map dec_order (deep @ rest))"
    using streamD(1) [OF st] by (simp add: sorted_append)
  have deep: "deep = butlast deep @ [?l]" using ne by simp
  have l: "?l \<in> set deep" using ne by simp
  then have lok: "memo_row_ok ?l" and lm: "is_mined ?l" and lp: "row_past wm ?l"
    using ok past by auto
  have pst: "row_past wm' x \<longleftrightarrow> \<not> (is_mined x \<and> row_pos (prow x) \<le> row_pos (prow ?l))"
    if "x \<in> set ?rows" for x
    using row_past_pos [OF ok [OF that], of wm'] wm' by auto
  have "\<not> row_past wm' x" if x: "x \<in> set done" for x
  proof -
    have "is_mined x" "row_pos (prow x) \<le> wm_pos wm"
      using row_past_pos [of x wm] ok [of x] d x by auto
    moreover have "\<not> row_pos (prow ?l) \<le> wm_pos wm"
      using row_past_pos [OF lok, of wm] lp lm by auto
    ultimately have "row_pos (prow x) \<le> row_pos (prow ?l)" by (meson linear order.trans)
    with \<open>is_mined x\<close> show ?thesis using pst [of x] x by simp
  qed
  moreover have "\<not> row_past wm' x" if x: "x \<in> set deep" for x
  proof -
    have "dec_order x \<le> dec_order ?l"
    proof (cases "x = ?l")
      case False
      with x deep have "x \<in> set (butlast deep)"
        by (metis in_set_conv_decomp rotate1.simps(2) set_ConsD set_rotate1)
      with srt show ?thesis
        by (subst (asm) deep) (simp add: sorted_append)
    qed simp
    from mined_order [OF _ lok this lm] ok [of x] x show ?thesis using pst [of x] by auto
  qed
  moreover have "row_past wm' x" if x: "x \<in> set rest" for x
  proof (rule ccontr)
    assume "\<not> row_past wm' x"
    with pst [of x] x have m: "is_mined x" and le: "row_pos (prow x) \<le> row_pos (prow ?l)" by auto
    have "dec_order ?l \<le> dec_order x"
      using srt x l by (simp add: sorted_append)
    from mined_order [OF lok _ this m] ok [of x] x have "row_pos (prow ?l) \<le> row_pos (prow x)" by auto
    with le have "row_pos (prow ?l) = row_pos (prow x)" by simp
    moreover have "row_pos (prow ?l) \<noteq> row_pos (prow x)"
      using st l x lm m by (auto simp: stream_def)
    ultimately show False by simp
  qed
  ultimately show ?thesis
    by (simp add: filter_empty_conv filter_id_conv)
qed

lemma promote_version:
  assumes "promote E s rows receiver pk = (s', Ok ())"
  shows "sn_user_version s' = sn_user_version s"
proof -
  have row: "apply_row E row receiver root p = Ok p' \<Longrightarrow> sn_user_version (pg_tx p') = sn_user_version (pg_tx p)"
    for row root p p'
    by (auto simp: apply_row_def apply_row_applied_def Let_def try_ok_Inr upsert_kv_def
        dest!: insert_history_Ok split: option.splits if_splits row_outcome.splits op.splits)
  have rows: "apply_rows E receiver root rs p = Ok p' \<Longrightarrow> sn_user_version (pg_tx p') = sn_user_version (pg_tx p)"
    for root rs p p'
    by (induction rs arbitrary: p) (auto simp: try_ok_Inr dest: row)
  have "promote_tx E s rows receiver pk = Ok s'" using assms by (simp add: promote_from_tx)
  then show ?thesis
    by (auto simp: promote_tx_def try_ok_Inr begin_promote_def finish_promote_def Let_def
        persist_auth_def write_meta_text_def write_meta_u32_def write_meta_blob_def
        dest!: rows split: if_splits)
qed

section \<open>One read\<close>

definition full_stream ::
    "('pk, 'sk) crates \<Rightarrow> u32 \<Rightarrow> u32 \<Rightarrow> bytes \<Rightarrow> decoded_row list \<Rightarrow> replay_entry list" where
  "full_stream E tip min_confs uuid rows = List.map_filter (tail_entry E tip min_confs uuid) rows"

lemma caches_read:
  assumes E: "bech32_laws E" "key_laws E"
    and st: "stream rows" and c: "caches E receiver pk rows s wm r" and dp: "deep_enough tip wm"
    and mc: "min_confs \<le> SAFE_DEPTH + 1" and bound: "257 * length rows < 2 ^ 63"
    and cut: "cutoff = promote_cutoff tip fs un"
    and part: "partition_rows E cutoff tip min_confs uuid (filter (row_past wm) rows) = (P, T)"
  shows "\<exists>s' wm' r' v. (if P = [] then (s, Ok ()) else promote E s P receiver pk) = (s', Ok ()) \<and>
     caches E receiver pk rows s' wm' r' \<and> deep_enough tip wm' \<and>
     (wm' = wm \<or> 0 < wm_height wm' \<and> wm_height wm' \<le> cutoff) \<and>
     replay_with_seed E T (Some r') receiver pk False = Ok v \<and>
     (\<forall>full. replay_with_seed E (full_stream E tip min_confs uuid rows) None receiver pk False = Ok full \<longrightarrow>
        same_db v full)"
proof -
  let ?past = "filter (row_past wm) rows"
  define dn where "dn = done_rows wm rows"
  define deep where "deep = filter (\<lambda>r. promotable_row cutoff r \<noteq> None) ?past"
  define rest where "rest = filter (\<lambda>r. promotable_row cutoff r = None) ?past"
  have rows: "rows = dn @ deep @ rest"
    using stream_split_watermark [OF st, of wm] stream_split_cutoff [OF st, of cutoff wm]
    by (simp add: dn_def deep_def rest_def)
  have P: "P = map prow deep" and T: "T = List.map_filter (tail_entry E tip min_confs uuid) rest"
    using part by (simp_all add: partition_rows_eq deep_def rest_def)
  have ok: "memo_row_ok x" if "x \<in> set rows" for x using streamD(2) [OF st that] .
  have dnok: "memo_row_ok x \<and> \<not> row_past wm x \<and> is_mined x" if "x \<in> set dn" for x
    using that ok [of x] row_past_pos [of x wm] by (auto simp: dn_def)
  have deepok: "memo_row_ok x \<and> row_past wm x \<and> is_mined x \<and>
      (\<exists>h. mined_u32 x = Some h \<and> h \<le> cutoff \<and> 0 < h)" if "x \<in> set deep" for x
  proof -
    from that have x: "x \<in> set rows" "row_past wm x" "promotable_row cutoff x \<noteq> None"
      by (auto simp: deep_def)
    from promotable_cutoff x(3) cut obtain h where h: "mined_u32 x = Some h" "h \<le> cutoff" by blast
    with mined_u32_pos [OF ok [OF x(1)] h(1)] ok [OF x(1)] x(2) show ?thesis
      by (auto simp: mined_u32_ok)
  qed
  from c have snap: "snap_state E (257 * length dn) s r"
    and rep: "replay_with_seed E (map (entry_of E) (map prow dn)) None receiver pk False = Ok r"
    and hist: "hist_positions s \<subseteq> (\<lambda>row. row_pos (prow row)) ` set dn"
    and wm: "read_watermark s = Ok wm" and ver: "sn_user_version s = SCHEMA_VERSION"
    and wi: "wm_height wm = 0 \<or> rr_init r = Initialized"
    by (simp_all add: caches_def dn_def)
  have D: "tail_entry E tip min_confs uuid x = Some (entry_of E (prow x))" if x: "x \<in> set dn" for x
  proof -
    from dnok [OF x] obtain i where i: "dr_mined_height x = Some i" by blast
    with dnok [OF x] have m: "mined_u32 x = Some (nat i)" by (simp add: mined_u32_ok)
    from mined_u32_pos [OF _ m] dnok [OF x] have pos: "0 < nat i" by blast
    have "nat i \<le> wm_height wm"
      using row_past_pos [of x wm] dnok [OF x] m
      by (auto simp: row_pos_def prow_def wm_pos_def less_eq_prod_simp)
    with dp pos have "nat i + SAFE_DEPTH \<le> tip" by (auto simp: deep_enough_def)
    from deep_row_entry [OF _ m this mc] dnok [OF x] show ?thesis by blast
  qed
  have Q: "tail_entry E tip min_confs uuid x = Some (entry_of E (prow x))" if x: "x \<in> set deep" for x
    using deepok [OF x] deep_row_entry [OF _ _ _ mc, of x] cutoff_height cut by blast
  have full: "full_stream E tip min_confs uuid rows =
      map (entry_of E) (map prow dn) @ map (entry_of E) P @ T"
    unfolding full_stream_def rows P T
    using map_filter_map [of dn, OF D] map_filter_map [of deep, OF Q]
    by (simp add: map_filter_append comp_def)
  have rok: "\<forall>row \<in> set P. row_ok row" using deepok by (auto simp: P row_ok_prow)
  have dist: "distinct (map (\<lambda>row. row_pos (prow row)) (dn @ deep))"
  proof -
    have "filter is_mined dn = dn" "filter is_mined deep = deep"
      using dnok deepok by (simp_all add: filter_id_conv)
    then show ?thesis using st by (simp add: stream_def rows) blast
  qed
  then have fresh: "fresh_rows s P"
    using hist by (auto simp: fresh_rows_def P comp_def)
  have len: "length dn + length P \<le> length rows" by (simp add: rows P)
  have b: "257 * length dn + 257 * length P < 2 ^ 63" using bound len by linarith
  from promote_fresh [OF E snap b rok fresh, of receiver pk] obtain s' r'
    where pr: "promote E s P receiver pk = (s', Ok ())"
      and pm: "promoted E receiver pk (257 * length dn) s r P s' r'" by blast
  from pm have r': "replay_with_seed E (map (entry_of E) P) (Some r) receiver pk False = Ok r'"
    and st': "snap_state E (257 * length (dn @ deep)) s' r'"
    and hist': "hist_positions s' \<subseteq> set (map row_pos P) \<union> hist_positions s"
    and wmk: "if P = [] \<or> rr_init r' = Uninitialized then s' = s
      else read_watermark s' = Ok \<lparr>wm_height = pr_mined_height (last P), wm_txid = pr_txid (last P),
        wm_output_index = pr_output_index (last P)\<rparr>"
    by (simp_all add: promoted_def P)
  have conf: "\<forall>e \<in> set (map (entry_of E) xs). re_status e = Confirmed" for xs by auto
  obtain r2 where r2: "replay_with_seed E (map (entry_of E) (map prow dn) @ map (entry_of E) P) None receiver pk False = Ok r2"
    by (simp add: replay_lenient)
  have np: "no_pending (replay_start None)" by (simp add: replay_start_def)
  have same: "r' = r2"
  proof (rule same_db_eq)
    show "same_db r' r2" by (rule seeded_compose [OF conf rep r' r2])
    have c2: "\<forall>e \<in> set (map (entry_of E) (map prow dn) @ map (entry_of E) P). re_status e = Confirmed" by auto
    show "no_pending r2" "prune (rr_state r2) = rr_state r2"
      using replay_confirmed_shape [OF c2 np r2] by auto
    show "no_pending r'" "prune (rr_state r') = rr_state r'"
      using load_seed_no_pending [of E s' r'] st' by (simp_all add: snap_state_def)
  qed
  obtain v where v: "replay_with_seed E T (Some r') receiver pk False = Ok v"
    by (simp add: replay_lenient)
  have eq: "same_db v f" if f: "replay_with_seed E (full_stream E tip min_confs uuid rows) None receiver pk False = Ok f" for f
  proof -
    have c2: "\<forall>e \<in> set (map (entry_of E) (map prow dn) @ map (entry_of E) P). re_status e = Confirmed" by auto
    show ?thesis
      by (rule seeded_compose [OF c2 r2]) (use v f same full in simp_all)
  qed
  have version: "sn_user_version s' = SCHEMA_VERSION"
    using promote_version [OF pr] ver by simp
  show ?thesis
  proof (cases "s' = s")
    case True
    then have "load_seed E s = Ok r'" using st' by (simp add: snap_state_def)
    then have "r' = r" using snap by (simp add: snap_state_def)
    with True pr v eq c dp show ?thesis
      by (intro exI [of _ s] exI [of _ wm] exI [of _ r] exI [of _ v]) simp
  next
    case False
    with wmk have ne: "P \<noteq> []" and ini: "rr_init r' \<noteq> Uninitialized" by (auto split: if_splits)
    let ?l = "last deep"
    define wm' where "wm' = \<lparr>wm_height = pr_mined_height (prow ?l), wm_txid = pr_txid (prow ?l),
        wm_output_index = pr_output_index (prow ?l)\<rparr>"
    have dne: "deep \<noteq> []" using ne by (simp add: P)
    have rw: "read_watermark s' = Ok wm'"
      using wmk ne ini dne by (simp add: wm'_def P last_map)
    have lst: "?l \<in> set deep" using dne by simp
    from deepok [OF lst] obtain h where h: "mined_u32 ?l = Some h" "h \<le> cutoff" "0 < h" by blast
    then have wh: "wm_height wm' = h" by (simp add: wm'_def prow_def)
    have adv: "done_rows wm' rows = dn @ deep"
      unfolding rows
      by (rule watermark_advance [of dn deep rest wm])
         (use st rows dne dnok deepok in \<open>auto simp: wm'_def wm_pos_def row_pos_def\<close>)
    have init: "rr_init r' = Initialized"
      using load_seed_phase [of E s' r'] st' ini by (auto simp: snap_state_def phase_simple_def)
    have "hist_positions s' \<subseteq> (\<lambda>row. row_pos (prow row)) ` set (dn @ deep)"
      using hist' hist by (auto simp: P)
    moreover have "map (entry_of E) (map prow (dn @ deep)) = map (entry_of E) (map prow dn) @ map (entry_of E) P"
      by (simp add: P)
    ultimately have "caches E receiver pk rows s' wm' r'"
      unfolding caches_def adv using version rw st' r2 same init by simp
    moreover have "deep_enough tip wm'"
      using cutoff_height [of h tip fs un] h cut by (simp add: deep_enough_def wh)
    ultimately show ?thesis
      using pr ne v eq wh h by (intro exI [of _ s'] exI [of _ wm'] exI [of _ r'] exI [of _ v]) simp
  qed
qed

lemma caches_load:
  assumes E: "bech32_laws E" "key_laws E"
    and st: "stream rows" and c: "caches E (rd_receiver rd) pk rows s wm r" and dp: "deep_enough tip wm"
    and mc: "min_confs \<le> SAFE_DEPTH + 1" and bound: "257 * length rows < 2 ^ 63"
    and rows: "rows = all_memos E w (rd_account_uuid rd) tip (rd_pool rd)"
  shows "\<exists>s' wm' r'. fst (load_state E rd pk w tip fs s min_confs strict) = s' \<and>
     caches E (rd_receiver rd) pk rows s' wm' r' \<and> deep_enough tip wm' \<and>
     (wm' = wm \<or> 0 < wm_height wm' \<and> wm_height wm' \<le>
        promote_cutoff tip fs (unenhanced_floor w (rd_account_uuid rd) (rd_pool rd))) \<and>
     (\<not> strict \<longrightarrow> (\<exists>v full. snd (load_state E rd pk w tip fs s min_confs strict) = Ok v \<and>
        replay_with_seed E (full_stream E tip min_confs (rd_account_uuid rd) rows) None
          (rd_receiver rd) pk False = Ok full \<and> same_db v full))"
proof -
  let ?un = "unenhanced_floor w (rd_account_uuid rd) (rd_pool rd)"
  obtain P T where part: "partition_rows E (promote_cutoff tip fs ?un) tip min_confs (rd_account_uuid rd)
      (filter (row_past wm) rows) = (P, T)" by force
  from caches_read [OF E st c dp mc bound refl part] obtain s' wm' r' v
    where p: "(if P = [] then (s, Ok ()) else promote E s P (rd_receiver rd) pk) = (s', Ok ())"
      and c': "caches E (rd_receiver rd) pk rows s' wm' r'" "deep_enough tip wm'"
      and wm': "wm' = wm \<or> 0 < wm_height wm' \<and> wm_height wm' \<le> promote_cutoff tip fs ?un"
      and v: "replay_with_seed E T (Some r') (rd_receiver rd) pk False = Ok v"
      and eq: "\<forall>full. replay_with_seed E (full_stream E tip min_confs (rd_account_uuid rd) rows) None
         (rd_receiver rd) pk False = Ok full \<longrightarrow> same_db v full" by blast
  from c have "read_watermark s = Ok wm" by (simp add: caches_def)
  moreover have "load_seed E s' = Ok r'" using c'(1) by (simp add: caches_def snap_state_def)
  ultimately have ld: "load_state E rd pk w tip fs s min_confs strict =
      (s', try_ok (try_ok (lift_replay (replay_with_seed E T (Some r') (rd_receiver rd) pk strict))
         (\<lambda>r. Ok (r, tip))) (\<lambda>(r, t). Ok r))"
    using part p
    by (simp add: load_state_def load_state_with_height_def heal_caches [OF c dp] scan_is_filter
        flip: rows)
  have "snd (load_state E rd pk w tip fs s min_confs False) = Ok v"
    using ld v by (cases strict) (simp_all add: load_state_def load_state_with_height_def
        heal_caches [OF c dp] scan_is_filter \<open>read_watermark s = Ok wm\<close> \<open>load_seed E s' = Ok r'\<close> part p
        flip: rows)
  moreover obtain full where "replay_with_seed E (full_stream E tip min_confs (rd_account_uuid rd) rows) None
      (rd_receiver rd) pk False = Ok full" by (simp add: replay_lenient)
  ultimately show ?thesis
    using c' wm' eq ld by (intro exI [of _ s'] exI [of _ wm'] exI [of _ r']) auto
qed

section \<open>Any number of reads\<close>

text \<open>
  A file in use: it is created empty; the wallet syncs, which moves the tip and the memo stream but
  keeps the rows at or below the watermark (they lie under the promote cutoff of an earlier read: a
  hundred blocks deep, scanned and enhanced); or somebody reads, at any confirmation depth the
  buffer covers, strictly or not.
\<close>

inductive in_use ::
    "('pk, 'sk) crates \<Rightarrow> reader \<Rightarrow> 'pk \<Rightarrow> decoded_row list \<Rightarrow> u32 \<Rightarrow> snapshot \<Rightarrow> bool"
  for E :: "('pk, 'sk) crates" and rd :: reader and pk :: 'pk where
  created:
    "stream rows \<Longrightarrow> 257 * length rows < 2 ^ 63 \<Longrightarrow> in_use E rd pk rows tip (open_snapshot empty_file)"
| synced:
    "in_use E rd pk rows tip s \<Longrightarrow> read_watermark s = Ok wm \<Longrightarrow>
     stream rows' \<Longrightarrow> 257 * length rows' < 2 ^ 63 \<Longrightarrow> done_rows wm rows' = done_rows wm rows \<Longrightarrow>
     deep_enough tip' wm \<Longrightarrow> in_use E rd pk rows' tip' s"
| read:
    "in_use E rd pk rows tip s \<Longrightarrow> rows = all_memos E w (rd_account_uuid rd) tip (rd_pool rd) \<Longrightarrow>
     min_confs \<le> SAFE_DEPTH + 1 \<Longrightarrow>
     in_use E rd pk rows tip (fst (load_state E rd pk w tip fully_scanned s min_confs strict))"

lemma caches_fresh: "stream rows \<Longrightarrow> caches E receiver pk rows fresh_file
    \<lparr>wm_height = 0, wm_txid = [], wm_output_index = 0\<rparr> empty_replay"
proof -
  let ?wm = "\<lparr>wm_height = 0, wm_txid = [], wm_output_index = 0\<rparr>"
  assume st: "stream rows"
  have "row_past ?wm x" if "x \<in> set rows" for x
  proof -
    note o = streamD(2) [OF st that]
    have "\<not> row_pos (prow x) \<le> wm_pos ?wm" if m: "is_mined x"
    proof -
      from m o obtain h where "mined_u32 x = Some h" "0 < h"
        using mined_u32_pos by (fastforce simp: mined_u32_ok)
      then show ?thesis by (simp add: row_pos_def prow_def wm_pos_def less_eq_prod_simp)
    qed
    with row_past_pos [OF o] show ?thesis by blast
  qed
  then have "done_rows ?wm rows = []" by (simp add: filter_empty_conv)
  moreover have "prune (rr_state empty_replay) = rr_state empty_replay"
    by (simp add: empty_replay_def prune_def)
  ultimately show ?thesis
    by (simp add: caches_def snap_state_fresh hist_positions_def replay_lenient replay_start_def Let_def)
       (simp add: fresh_file_def open_snapshot_def empty_file_def init_schema_def read_watermark_def
         read_meta_u32_def read_meta_text_def read_meta_blob_def)
qed

lemma caches_sync:
  "caches E receiver pk rows s wm r \<Longrightarrow> done_rows wm rows' = done_rows wm rows \<Longrightarrow>
   caches E receiver pk rows' s wm r"
  unfolding caches_def by simp

lemma in_use_caches:
  assumes "in_use E rd pk rows tip s" and "bech32_laws E" and "key_laws E"
  shows "stream rows \<and> 257 * length rows < 2 ^ 63 \<and>
     (\<exists>wm r. caches E (rd_receiver rd) pk rows s wm r \<and> deep_enough tip wm)"
  using assms
proof (induction rule: in_use.induct)
  case (created rows tip)
  then show ?case using caches_fresh [of rows] by (force simp: deep_enough_def fresh_file_def)
next
  case (synced rows tip s wm rows' tip')
  then obtain r where c: "caches E (rd_receiver rd) pk rows s wm r" by (auto simp: caches_def)
  from caches_sync [OF c synced.hyps(5)] synced.hyps(3,4,6) show ?case by blast
next
  case (read rows tip s w min_confs fully_scanned strict)
  then obtain wm r where "caches E (rd_receiver rd) pk rows s wm r" "deep_enough tip wm" by blast
  from caches_load [OF read.prems _ this read.hyps(3) _ read.hyps(2), of fully_scanned strict] read.IH read.prems
  show ?case by blast
qed

section \<open>Properties of the read path\<close>


definition demo_reader :: reader where
  "demo_reader = \<lparr>rd_pool = Orchard, rd_account_uuid = ''u'', rd_receiver = ''main:00''\<rparr>"

definition demo_wallet :: wallet_db where
  "demo_wallet =
     \<lparr>wd_notes =
        [\<lparr>no_transaction_id = 1, no_output_index = 0, no_account_id = 1, no_value = 0,
          no_memo = Some (demo_text Init ''addr'' None 0), no_pool = 3\<rparr>,
         \<lparr>no_transaction_id = 1, no_output_index = 1, no_account_id = 1, no_value = 0,
          no_memo = Some (demo_text Set ''k'' (Some ''v'') 0), no_pool = 3\<rparr>],
      wd_sent_notes = [],
      wd_transactions =
        [\<lparr>tr_id = 1, tr_txid = replicate 32 CHR ''t'', tr_mined_height = Some 5,
          tr_expiry_height = None, tr_raw = Some [], tr_fee = None\<rparr>],
      wd_accounts = [(1, ''u'')], wd_block_time = [5 \<mapsto> 7], wd_spends = []\<rparr>"

definition demo_memo :: "u32 \<Rightarrow> op \<Rightarrow> str \<Rightarrow> str option \<Rightarrow> decoded_row" where
  "demo_memo i op key v =
     \<lparr>dr_text = demo_text op key v 0, dr_mined_height = Some 5, dr_block_time = Some 7,
      dr_from_uuid = None, dr_txid = replicate 32 CHR ''t'', dr_output_index = i\<rparr>"

definition demo_memos :: "decoded_row list" where
  "demo_memos = [demo_memo 0 Init ''addr'' None, demo_memo 1 Set ''k'' (Some ''v'')]"

lemma demo_all_memos: "all_memos model_crates demo_wallet ''u'' tip Orchard = demo_memos"
proof -
  let ?r = "\<lambda>i m. \<lparr>sc_memo = Some m, sc_mined_height = Some 5, sc_block_time = Some 7, sc_from_uuid = None,
      sc_txid = replicate 32 CHR ''t'', sc_output_index = i\<rparr>"
  have "scan_candidates demo_wallet ''u'' tip Orchard =
      [?r 0 (demo_text Init ''addr'' None 0), ?r 1 (demo_text Set ''k'' (Some ''v'') 0)]"
    by (simp add: scan_candidates_def demo_wallet_def received_outputs_def pool_output_codes_def
        left_join_def sql_unexpired_def coalesce_max_def)
  moreover have "sort_key scan_order [?r 0 a, ?r 1 b] = [?r 0 a, ?r 1 b]" for a b
    by (simp add: scan_order_def less_eq_prod_simp)
  ultimately show ?thesis
    by (simp add: all_memos_def decode_row_def List.map_filter_simps demo_memos_def demo_memo_def
        model_crates_def)
qed

lemma demo_memo_ok: "demo_ok op key v \<Longrightarrow> op \<noteq> SetL \<Longrightarrow> i \<le> u32_max \<Longrightarrow> memo_row_ok (demo_memo i op key v)"
  by (simp add: memo_row_ok_def demo_memo_def demo_text_utf8) (simp add: u32_max_def)

lemma demo_memo_mined [simp]: "mined_u32 (demo_memo i op key v) = Some 5"
  by (simp add: mined_u32_def demo_memo_def clamp_u32_def u32_max_def)

lemma demo_prow: "prow (demo_memo i op key v) = demo_row i op key v 0"
  unfolding prow_def demo_memo_mined
  by (simp add: demo_memo_def demo_row_def clamp_u32_def u32_max_def)

lemma demo_stream: "stream demo_memos"
  unfolding stream_def demo_memos_def
  using demo_memo_ok [OF demo_ok_Init, of 0] demo_memo_ok [OF demo_ok_put, of 1]
  by (simp add: demo_prow u32_max_def)
    (simp add: dec_order_def demo_memo_def demo_row_def row_pos_def less_eq_prod_simp)

lemma demo_in_use: "in_use model_crates demo_reader CHR ''A'' demo_memos tip (open_snapshot empty_file)"
  by (rule in_use.created [OF demo_stream]) (simp add: demo_memos_def)


text \<open>
  A confirmation depth beyond the buffer is not honored. A read that asks for 200 confirmations
  promotes a write that has 146, because promotion looks at the hundred-block cutoff only, and
  reports its value as confirmed; classified by its confirmations the same memo (received from
  outside) is not shown at all.
\<close>

lemma deep_confirmations_ignored:
  "\<exists>file' v. load_state model_crates demo_reader CHR ''A'' demo_wallet 150 150 (open_snapshot empty_file) 200 False =
     (file', Ok v) \<and> confirmed_values (rr_state v) ''k'' = Some ''v'' \<and>
     map (confirmations 150) demo_memos = [146, 146] \<and>
     replay_with_seed model_crates (full_stream model_crates 150 200 ''u'' demo_memos) None ''main:00'' CHR ''A'' False
       = Ok demo_born"
proof -
  let ?E = "model_crates" and ?rc = "''main:00''"
  let ?P = "[demo_row 0 Init ''addr'' None 0, demo_row 1 Set ''k'' (Some ''v'') 0]"
  have un: "unenhanced_floor demo_wallet ''u'' Orchard = None"
    by (simp add: unenhanced_floor_def unenhanced_heights_def demo_wallet_def received_outputs_def
        pool_output_codes_def List.map_filter_simps)
  have cut: "promote_cutoff 150 150 None = 50" by (simp add: promote_cutoff_def SAFE_DEPTH_def)
  have part: "partition_rows ?E 50 150 200 ''u'' demo_memos = (?P, [])"
    by (simp add: partition_rows_eq promotable_row_eq demo_memos_def demo_prow List.map_filter_simps)
  have ok: "\<forall>row \<in> set ?P. row_ok row"
    using demo_row_ok [OF demo_ok_Init, of 0] demo_row_ok [OF demo_ok_put, of 1] by (simp add: u32_max_def)
  have fresh: "fresh_rows fresh_file ?P"
    by (simp add: fresh_rows_def hist_positions_def row_pos_def demo_row_def)
  from promote_fresh [OF bech32_laws_model key_laws_model snap_state_fresh [of _ 0] _ ok fresh, of ?rc "CHR ''A''"]
  obtain s' r' where pr: "promote ?E fresh_file ?P ?rc CHR ''A'' = (s', Ok ())"
    and rep: "replay_with_seed ?E (map (entry_of ?E) ?P) (Some empty_replay) ?rc CHR ''A'' False = Ok r'"
    and ld: "load_seed ?E s' = Ok r'" by (auto simp: promoted_def snap_state_def)
  have c: "caches ?E ?rc CHR ''A'' demo_memos fresh_file \<lparr>wm_height = 0, wm_txid = [], wm_output_index = 0\<rparr> empty_replay"
    by (rule caches_fresh [OF demo_stream])
  have dp: "deep_enough 150 \<lparr>wm_height = 0, wm_txid = [], wm_output_index = 0\<rparr>" by (simp add: deep_enough_def)
  have past: "filter (row_past \<lparr>wm_height = 0, wm_txid = [], wm_output_index = 0\<rparr>) demo_memos = demo_memos"
    by (simp add: demo_memos_def row_past_def sql_past_def demo_memo_def)
  have rw: "read_watermark fresh_file = Ok \<lparr>wm_height = 0, wm_txid = [], wm_output_index = 0\<rparr>"
    using c by (simp add: caches_def)
  obtain v where v: "replay_with_seed ?E [] (Some r') ?rc CHR ''A'' False = Ok v"
    by (simp add: replay_lenient)
  have load: "load_state ?E demo_reader CHR ''A'' demo_wallet 150 150 (open_snapshot empty_file) 200 False = (s', Ok v)"
    using pr ld v
    by (simp add: load_state_def load_state_with_height_def demo_reader_def rw scan_is_filter demo_all_memos
        past un cut part heal_caches [OF c dp] flip: fresh_file_def)
  have a1: "admitted ?E ?rc demo_root (entry_of ?E (demo_row 0 Init ''addr'' None 0)) empty_replay
      (demo_command Init ''addr'' None 0) demo_root"
    using demo_init_admitted [of ?rc]
    by (subst admitted_cong [of _ demo_init]) (simp_all add: demo_init_def demo_row_def)
  have h1: "fst (honor ?E ?rc demo_root (entry_of ?E (demo_row 0 Init ''addr'' None 0)) empty_replay) = demo_born"
    unfolding honor_admitted [OF a1] by (simp add: apply_applied_def demo_born_def empty_replay_def)
  have "admitted ?E ?rc demo_root (demo_entry Set ''k'' (Some ''v'') 0 Confirmed) demo_born
      (demo_command Set ''k'' (Some ''v'') 0) demo_root"
    by (rule demo_root_admitted [OF demo_ok_put]) (simp_all add: demo_window_0)
  then have a2: "admitted ?E ?rc demo_root (entry_of ?E (demo_row 1 Set ''k'' (Some ''v'') 0)) demo_born
      (demo_command Set ''k'' (Some ''v'') 0) demo_root"
    by (subst admitted_cong [of _ "demo_entry Set ''k'' (Some ''v'') 0 Confirmed"])
       (simp_all add: demo_row_def)
  have "confirmed_values (rr_state (fst (honor ?E ?rc demo_root (entry_of ?E (demo_row 1 Set ''k'' (Some ''v'') 0)) demo_born))) ''k'' = Some ''v''"
    unfolding honor_admitted [OF a2] by (simp add: apply_applied_def confirmed_values_def Let_def)
  with rep h1 have "confirmed_values (rr_state r') ''k'' = Some ''v''"
    by (auto simp: replay_seeded_confirmed [OF load_seed_fresh] Let_def simp flip: demo_root_def)
  with v have val: "confirmed_values (rr_state v) ''k'' = Some ''v''"
    by (auto simp: replay_lenient replay_start_def Let_def)
  have conf: "map (confirmations 150) demo_memos = [146, 146]"
    by (simp add: demo_memos_def confirmations_def sat_add32_def u32_max_def)
  have "is_init_memo ?E (demo_text Init ''addr'' None 0)" "\<not> is_init_memo ?E (demo_text Set ''k'' (Some ''v'') 0)"
    by (simp_all add: is_init_memo_def parse_text_memo_def demo_parse [OF demo_ok_Init] demo_parse [OF demo_ok_put])
  then have "full_stream ?E 150 200 ''u'' demo_memos = [entry_of ?E (demo_row 0 Init ''addr'' None 0)]"
    using conf by (simp add: full_stream_def demo_memos_def List.map_filter_simps tail_entry_def row_status_def
        effective_min_confs_def INIT_CONFIRMATIONS_def)
      (simp add: demo_memo_def demo_row_def entry_of_def txid_hex_def clamp_u32_def u32_max_def)
  then have "replay_with_seed ?E (full_stream ?E 150 200 ''u'' demo_memos) None ?rc CHR ''A'' False = Ok demo_born"
    using h1 by (simp add: replay_lenient replay_start_def Let_def demo_born_prune flip: demo_root_def)
  with load val conf show ?thesis by (intro exI [of _ s'] exI [of _ v] conjI)
qed

end
