(* ===== verification/Pending_File.thy ===== *)
theory Pending_File
  imports Wallet_Scan Replay
begin

text \<open>
  \<open>internal/pending.rs\<close>, the cache of what this client has just broadcast, and the collection of
  \<open>internal/sync.rs\<close> that drops a row once the wallet can show its memo. The file is absent, or
  unreadable (an input error, or text that is no TOML of this shape), or its rows; times are seconds,
  and \<open>saturating_sub\<close> is the subtraction of \<open>nat\<close>. Writing goes through a temporary file and a
  rename, so it leaves the old rows or the new ones: the argument \<open>io\<close> says which.
\<close>

section \<open>The file\<close>

definition STALE_AFTER_SECS :: nat where "STALE_AFTER_SECS = 3600"

record pending_entry =
  pe_txid :: str
  pe_op :: str
  pe_key :: str
  pe_value :: "str option"
  pe_memo :: "str option"
  pe_broadcast_at_unix :: nat

datatype pending_disk = NoFile | Unreadable | Rows "pending_entry list"

datatype pending_error = ReadPending | WritePending

definition still_fresh :: "nat \<Rightarrow> pending_entry \<Rightarrow> bool" where
  "still_fresh now e \<longleftrightarrow> now - STALE_AFTER_SECS \<le> pe_broadcast_at_unix e"

fun load_pending :: "nat \<Rightarrow> pending_disk \<Rightarrow> pending_error + pending_entry list" where
  "load_pending now NoFile = Ok []"
| "load_pending now Unreadable = Err ReadPending"
| "load_pending now (Rows es) = Ok (filter (still_fresh now) es)"

definition write_all ::
    "bool \<Rightarrow> pending_entry list \<Rightarrow> pending_disk \<Rightarrow> pending_disk \<times> (pending_error + unit)" where
  "write_all io entries disk = (if io then (Rows entries, Ok ()) else (disk, Err WritePending))"

definition append_pending ::
    "bool \<Rightarrow> nat \<Rightarrow> pending_entry \<Rightarrow> pending_disk \<Rightarrow> pending_disk \<times> (pending_error + unit)" where
  "append_pending io now entry disk =
     (case load_pending now disk of
        Inl e \<Rightarrow> (disk, Err e)
      | Inr entries \<Rightarrow> write_all io (entries @ [entry]) disk)"

definition prune_pending_rows ::
    "bool \<Rightarrow> nat \<Rightarrow> str set \<Rightarrow> pending_disk \<Rightarrow> pending_disk \<times> (pending_error + unit)" where
  "prune_pending_rows io now seen disk =
     (case load_pending now disk of
        Inl e \<Rightarrow> (disk, Err e)
      | Inr entries \<Rightarrow>
          (if entries = [] then (disk, Ok ())
           else write_all io (filter (\<lambda>e. pe_txid e \<notin> seen) entries) disk))"

text \<open>\<open>load(..).unwrap_or_default()\<close>: the rows a caller sees that ignores the error.\<close>

definition pending_rows :: "nat \<Rightarrow> pending_disk \<Rightarrow> pending_entry list" where
  "pending_rows now disk = (case load_pending now disk of Inl e \<Rightarrow> [] | Inr es \<Rightarrow> es)"

lemma pending_rows_simps [simp]:
  "pending_rows now NoFile = []" "pending_rows now Unreadable = []"
  "pending_rows now (Rows es) = filter (still_fresh now) es"
  by (simp_all add: pending_rows_def)

section \<open>Collection\<close>

text \<open>
  \<open>mined_with_memo_txids\<close>: the note tables with their transaction, left-joined to the notes sent. All
  three pools are scanned and no account is asked for.
\<close>

definition note_memo_visible :: "wallet_db \<Rightarrow> note_row \<Rightarrow> bool" where
  "note_memo_visible w n \<longleftrightarrow>
     list_ex (\<lambda>sn. no_memo n \<noteq> None \<or> Option.bind sn sx_memo \<noteq> None)
       (left_join (\<lambda>s. sx_transaction_id s = no_transaction_id n \<and> sx_output_pool s = no_pool n \<and>
          sx_output_index s = no_output_index n) (wd_sent_notes w))"

definition mined_with_memo_rows :: "wallet_db \<Rightarrow> bytes list" where
  "mined_with_memo_rows w =
     concat (map (\<lambda>n. map tr_txid
         (filter (\<lambda>t. tr_id t = no_transaction_id n \<and> tr_mined_height t \<noteq> None) (wd_transactions w)))
       (filter (\<lambda>n. no_pool n \<in> {2, 3, 4} \<and> note_memo_visible w n) (wd_notes w)))"

text \<open>A blob that is not 32 bytes long is skipped.\<close>

definition mined_with_memo_txids :: "('pk, 'sk) crates \<Rightarrow> wallet_db \<Rightarrow> str set" where
  "mined_with_memo_txids E w =
     set (map (txid_to_string E) (filter (\<lambda>b. length b = 32) (mined_with_memo_rows w)))"

definition gc_pending ::
    "('pk, 'sk) crates \<Rightarrow> bool \<Rightarrow> nat \<Rightarrow> wallet_db \<Rightarrow> pending_disk \<Rightarrow> pending_disk" where
  "gc_pending E io now w disk = fst (prune_pending_rows io now (mined_with_memo_txids E w) disk)"

section \<open>What the operations keep\<close>

lemma append_pending_rows:
  assumes "append_pending io now entry disk = (disk', Ok ())" and "now \<le> pe_broadcast_at_unix entry"
  shows "pending_rows now disk' = pending_rows now disk @ [entry]"
proof -
  have f: "still_fresh now entry" using assms(2) by (simp add: still_fresh_def)
  show ?thesis
    using assms(1) f
    by (cases disk) (auto simp: append_pending_def write_all_def split: if_splits)
qed

lemma gc_pending_rows:
  "pending_rows now (gc_pending E io now w disk) =
   (if io then filter (\<lambda>e. pe_txid e \<notin> mined_with_memo_txids E w) (pending_rows now disk)
    else pending_rows now disk)"
proof (cases disk)
  case (Rows es)
  have "filter (still_fresh now) (filter q (filter (still_fresh now) es)) =
      filter q (filter (still_fresh now) es)" for q :: "pending_entry \<Rightarrow> bool"
    by (simp add: conj_commute conj_left_commute)
  moreover have "filter (\<lambda>e. pe_txid e \<notin> mined_with_memo_txids E w) (filter (still_fresh now) es) = []"
    if "filter (still_fresh now) es = []"
    by (simp only: that filter.simps)
  ultimately show ?thesis
    unfolding Rows
    by (cases "filter (still_fresh now) es = []")
       (simp_all add: gc_pending_def prune_pending_rows_def write_all_def del: filter_filter)
qed (simp_all add: gc_pending_def prune_pending_rows_def)

text \<open>Nothing ages back into the file: a later clock sees a part of what an earlier one saw.\<close>

lemma pending_rows_age:
  "now \<le> later \<Longrightarrow> pending_rows later disk = filter (still_fresh later) (pending_rows now disk)"
  by (cases disk) (auto simp: still_fresh_def intro!: filter_cong)

end
