(* ===== verification/Write_Path.thy ===== *)
theory Write_Path
  imports Pending_File Read_Path
begin

text \<open>
  \<open>internal/write.rs\<close>: how a write is prepared (the gates on the state just read, the replay version,
  the signature, the memo, the payment), how a batch of them is planned, and how a prepared request is
  handed to the wallet engine and recorded. The engine, \<open>zip321\<close> and \<open>zcash_address\<close> are parameters.
  A sum of versions is a \<open>u64\<close> sum and wraps, as in a release build.
\<close>

section \<open>Errors\<close>

text \<open>
  The enum \<open>EngineError\<close> of \<open>engine/mod.rs\<close> and the amounts its \<open>Rpc\<close> variant may carry.
\<close>

record engine_funds =
  fu_available :: "nat option"
  fu_required :: "nat option"
  fu_pending_incoming :: nat
  fu_pending_change :: nat

datatype engine_error =
  Busy str | Unsupported str | Cancelled | NotImported str | ImportFailed str str
| Rpc int str "engine_funds option" | EngineOther

text \<open>
  The enum \<open>WriteError\<close> (a prefix \<open>W\<close> where the name is taken), then the untyped \<open>anyhow\<close> messages of
  the same functions.
\<close>

datatype write_error =
  WatchOnly | UnauthorizedData op str | OwnerOnly op | WNotInitialized
| WInitializing (we_done: u32) (we_required: u32) | ClientUpgradeRequired u32 u32
| InsufficientFunds (available_zats: nat) (required_zats: nat) (pending_zats: nat)
| WFinalized | NoSigningKey | InvalidTarget str | ScopeRequired | EmptyBatch
| MemoRefused build_error | BadRequest | ReadFailed read_error | EngineFailed engine_error

fun lift_build :: "build_error + 'a \<Rightarrow> write_error + 'a" where
  "lift_build (Inl e) = Err (MemoRefused e)"
| "lift_build (Inr x) = Ok x"

lemma lift_build_Ok [simp]: "lift_build b = Ok x \<longleftrightarrow> b = Ok x"
  by (cases b) simp_all

section \<open>The account and the payment\<close>

datatype role = Admin | Watch

text \<open>
  What \<open>WalletConfig::read\<close>, \<open>account_keys\<close> and \<open>signing_key\<close> yield; the key is absent when the account
  has no key derivation or the seed cannot be decrypted.
\<close>

record 'sk account =
  ac_role :: role
  ac_zkv_addr :: str
  ac_receiver :: str
  ac_recipient_ua :: str
  ac_signing_key :: "'sk option"

record payment =
  pay_recipient :: str
  pay_zatoshis :: nat
  pay_memo :: str

record zip321 =
  address_parses :: "str \<Rightarrow> bool"            \<comment> \<open>\<open>ZcashAddress::from_str\<close>\<close>
  payment_accepts :: "str \<Rightarrow> str \<Rightarrow> bool"    \<comment> \<open>\<open>Payment::new\<close> with that recipient and memo\<close>
  request_accepts :: "payment list \<Rightarrow> bool"  \<comment> \<open>\<open>TransactionRequest::new\<close>\<close>

definition build_payment :: "zip321 \<Rightarrow> str \<Rightarrow> str \<Rightarrow> write_error + payment" where
  "build_payment Z recipient_ua memo_text =
     (if address_parses Z recipient_ua \<and> payment_accepts Z recipient_ua memo_text
      then Ok \<lparr>pay_recipient = recipient_ua, pay_zatoshis = 0, pay_memo = memo_text\<rparr>
      else Err BadRequest)"

definition request_of :: "zip321 \<Rightarrow> payment list \<Rightarrow> write_error + payment list" where
  "request_of Z payments = (if request_accepts Z payments then Ok payments else Err BadRequest)"

definition build_request :: "zip321 \<Rightarrow> str \<Rightarrow> str \<Rightarrow> write_error + payment list" where
  "build_request Z recipient_ua memo_text =
     try_ok (build_payment Z recipient_ua memo_text) (\<lambda>p. request_of Z [p])"

record prepared_write =
  pw_zkv_addr :: str
  pw_recipient_ua :: str
  pw_memo_text :: str
  pw_request :: "payment list"

record 'sk prep =
  prep_zkv_addr :: str
  prep_receiver :: str
  prep_recipient_ua :: str
  prep_sk :: 'sk

definition prepare_common :: "'sk account \<Rightarrow> write_error + 'sk prep" where
  "prepare_common acct =
     (if ac_role acct \<noteq> Admin then Err WatchOnly
      else (case ac_signing_key acct of
              None \<Rightarrow> Err NoSigningKey
            | Some sk \<Rightarrow>
                Ok \<lparr>prep_zkv_addr = ac_zkv_addr acct, prep_receiver = ac_receiver acct,
                    prep_recipient_ua = ac_recipient_ua acct, prep_sk = sk\<rparr>))"

section \<open>Guards\<close>

definition ensure_initialized :: "init_state \<Rightarrow> write_error + unit" where
  "ensure_initialized init =
     (case init of
        Initialized \<Rightarrow> Ok ()
      | Initializing done required \<Rightarrow> Err (WInitializing done required)
      | Uninitialized \<Rightarrow> Err WNotInitialized)"

definition ensure_not_finalized :: "bool \<Rightarrow> write_error + unit" where
  "ensure_not_finalized finalized = (if finalized then Err WFinalized else Ok ())"

definition ensure_client_supported :: "version_state \<Rightarrow> write_error + unit" where
  "ensure_client_supported version =
     (if blocks_write version then Err (ClientUpgradeRequired (vs_version version) MAX_DB_VERSION)
      else Ok ())"

definition write_gates :: "replay_result \<Rightarrow> write_error + unit" where
  "write_gates r =
     try_ok (ensure_initialized (rr_init r)) (\<lambda>_.
     try_ok (ensure_not_finalized (rr_finalized r)) (\<lambda>_.
     ensure_client_supported (rr_version r)))"

section \<open>Versions\<close>

definition DATA_OPS :: "str list" where "DATA_OPS = [''SET'', ''SETL'', ''DEL'']"

definition MGMT_OPS :: "str list" where
  "MGMT_OPS = [''OWNERADD'', ''OWNERDEL'', ''WRITERADD'', ''WRITERDEL'']"

definition wallet_txids :: "replay_result \<Rightarrow> str \<Rightarrow> str list" where
  "wallet_txids r key =
     (case rr_state r key of None \<Rightarrow> [] | Some ks \<Rightarrow> map pending_txid (pending ks))"

definition file_txids :: "pending_entry list \<Rightarrow> str \<Rightarrow> str list \<Rightarrow> str list" where
  "file_txids es key ops = map pe_txid (filter (\<lambda>e. pe_key e = key \<and> pe_op e \<in> List.set ops) es)"

text \<open>The size of the \<open>HashSet\<close> of the transactions in flight.\<close>

definition inflight_count :: "pending_entry list \<Rightarrow> replay_result \<Rightarrow> str \<Rightarrow> str list \<Rightarrow> u64" where
  "inflight_count es r key ops =
     of_nat (length (remdups (filter (\<lambda>t. t \<noteq> []) (wallet_txids r key @ file_txids es key ops))))"

definition data_version :: "pending_entry list \<Rightarrow> replay_result \<Rightarrow> str \<Rightarrow> u64" where
  "data_version es r key = unwrap_or (rr_kv_versions r key) 0 + inflight_count es r key DATA_OPS"

definition target_version :: "pending_entry list \<Rightarrow> replay_result \<Rightarrow> str \<Rightarrow> u64" where
  "target_version es r target =
     unwrap_or (rr_target_versions r target) 0 + inflight_count es r target MGMT_OPS"

section \<open>One write\<close>

text \<open>Sign the stamped domain and build the memo: the same five lines in every function.\<close>

definition signed_memo ::
    "('pk, 'sk) crates \<Rightarrow> 'sk \<Rightarrow> str \<Rightarrow> op \<Rightarrow> str \<Rightarrow> str option \<Rightarrow> u64 \<Rightarrow> write_error + str" where
  "signed_memo E sk receiver op key value version =
     lift_build (build_memo E op key value version
       (sign_command E sk (signed_payload (signing_domain receiver op version) op key value)))"

definition finish_write :: "zip321 \<Rightarrow> 'sk prep \<Rightarrow> str \<Rightarrow> write_error + prepared_write" where
  "finish_write Z prep memo_text =
     try_ok (build_request Z (prep_recipient_ua prep) memo_text) (\<lambda>request.
       Ok \<lparr>pw_zkv_addr = prep_zkv_addr prep, pw_recipient_ua = prep_recipient_ua prep,
           pw_memo_text = memo_text, pw_request = request\<rparr>)"

text \<open>\<open>prepare\<close> on the state \<open>r\<close> it has read and the rows \<open>es\<close> of the pending file.\<close>

definition prepare_on ::
    "('pk, 'sk) crates \<Rightarrow> zip321 \<Rightarrow> 'sk account \<Rightarrow> pending_entry list \<Rightarrow> replay_result \<Rightarrow>
     op \<Rightarrow> str \<Rightarrow> str option \<Rightarrow> write_error + prepared_write" where
  "prepare_on E Z acct es r op key value =
     try_ok (write_gates r) (\<lambda>_.
     try_ok (prepare_common acct) (\<lambda>prep.
       if \<not> may_write (rr_auth r) (pubkey_bech32 E (pk_of_sk E (prep_sk prep))) op
              (key_confirmed (rr_state r) key)
       then Err (UnauthorizedData op key)
       else try_ok (signed_memo E (prep_sk prep) (prep_receiver prep) op key value (data_version es r key))
              (finish_write Z prep)))"

definition prepare_management_on ::
    "('pk, 'sk) crates \<Rightarrow> zip321 \<Rightarrow> 'sk account \<Rightarrow> pending_entry list \<Rightarrow> replay_result \<Rightarrow>
     op \<Rightarrow> str \<Rightarrow> str option \<Rightarrow> write_error + prepared_write" where
  "prepare_management_on E Z acct es r op target scope =
     try_ok (write_gates r) (\<lambda>_.
     try_ok (prepare_common acct) (\<lambda>prep.
       if \<not> is_owner (rr_auth r) (pubkey_bech32 E (pk_of_sk E (prep_sk prep)))
       then Err (OwnerOnly op)
       else
         try_ok (if op = Finalize then Ok []
                 else (case parse_pubkey E target of
                         None \<Rightarrow> Err (InvalidTarget target)
                       | Some pk \<Rightarrow> Ok (pubkey_bech32 E pk))) (\<lambda>target_str.
         try_ok (if op = WriterAdd then map_sum id Some (ok_or ScopeRequired scope) else Ok None) (\<lambda>value.
         try_ok (signed_memo E (prep_sk prep) (prep_receiver prep) op target_str value
                   (target_version es r target_str))
           (finish_write Z prep)))))"

definition signed_init_payload :: "str \<Rightarrow> bytes" where
  "signed_init_payload receiver = signed_payload receiver Init [] None"

definition build_init_memo :: "('pk, 'sk) crates \<Rightarrow> str \<Rightarrow> bytes \<Rightarrow> build_error + str" where
  "build_init_memo E zkv_addr sig = build_memo E Init zkv_addr None 0 sig"

definition prepare_init :: "('pk, 'sk) crates \<Rightarrow> zip321 \<Rightarrow> 'sk account \<Rightarrow> write_error + prepared_write" where
  "prepare_init E Z acct =
     try_ok (prepare_common acct) (\<lambda>prep.
     try_ok (lift_build (build_init_memo E (prep_zkv_addr prep)
               (sign_command E (prep_sk prep) (signed_init_payload (prep_receiver prep)))))
       (finish_write Z prep))"

section \<open>A batch\<close>

record batch_item =
  bi_op :: op
  bi_key :: str
  bi_value :: "str option"

record batch_plan_item =
  bp_op :: op
  bp_key :: str
  bp_value :: "str option"
  bp_version :: u64
  bp_key_exists :: bool

text \<open>The loop of \<open>sequence_versions\<close>, with its two hash maps.\<close>

fun sequence_loop ::
    "(str \<Rightarrow> u64) \<Rightarrow> str set \<Rightarrow> (str \<rightharpoonup> u64) \<Rightarrow> (str \<rightharpoonup> bool) \<Rightarrow> batch_item list \<Rightarrow> batch_plan_item list" where
  "sequence_loop base confirmed_exists local_count exists [] = []"
| "sequence_loop base confirmed_exists local_count exists (item # items) =
     (let seen = unwrap_or (local_count (bi_key item)) 0
      in \<lparr>bp_op = bi_op item, bp_key = bi_key item, bp_value = bi_value item,
          bp_version = base (bi_key item) + seen,
          bp_key_exists = unwrap_or (exists (bi_key item)) (bi_key item \<in> confirmed_exists)\<rparr>
         # sequence_loop base confirmed_exists (local_count(bi_key item \<mapsto> seen + 1))
             (exists(bi_key item \<mapsto> bi_op item \<in> {Set, SetL})) items)"

definition sequence_versions ::
    "batch_item list \<Rightarrow> (str \<Rightarrow> u64) \<Rightarrow> str set \<Rightarrow> batch_plan_item list" where
  "sequence_versions items base confirmed_exists =
     sequence_loop base confirmed_exists Map.empty Map.empty items"

record prepared_batch =
  pb_zkv_addr :: str
  pb_recipient_ua :: str
  pb_plan_ops :: "(op \<times> str \<times> str option) list"
  pb_memo_texts :: "str list"
  pb_request :: "payment list"

text \<open>The loop over the plan: the payments and the memo texts, in order.\<close>

fun plan_payments ::
    "('pk, 'sk) crates \<Rightarrow> zip321 \<Rightarrow> 'sk prep \<Rightarrow> auth_registry \<Rightarrow> batch_plan_item list \<Rightarrow>
     write_error + (payment \<times> str) list" where
  "plan_payments E Z prep auth [] = Ok []"
| "plan_payments E Z prep auth (item # plan) =
     (if \<not> may_write auth (pubkey_bech32 E (pk_of_sk E (prep_sk prep))) (bp_op item) (bp_key_exists item)
      then Err (UnauthorizedData (bp_op item) (bp_key item))
      else try_ok (signed_memo E (prep_sk prep) (prep_receiver prep) (bp_op item) (bp_key item)
                     (bp_value item) (bp_version item)) (\<lambda>memo_text.
           try_ok (build_payment Z (prep_recipient_ua prep) memo_text) (\<lambda>p.
           try_ok (plan_payments E Z prep auth plan) (\<lambda>rest. Ok ((p, memo_text) # rest)))))"

definition batch_plan :: "pending_entry list \<Rightarrow> replay_result \<Rightarrow> batch_item list \<Rightarrow> batch_plan_item list" where
  "batch_plan es r ops =
     sequence_versions ops (data_version es r)
       (List.set (filter (key_confirmed (rr_state r)) (map bi_key ops)))"

definition prepare_batch_on ::
    "('pk, 'sk) crates \<Rightarrow> zip321 \<Rightarrow> 'sk account \<Rightarrow> pending_entry list \<Rightarrow> replay_result \<Rightarrow>
     batch_item list \<Rightarrow> write_error + prepared_batch" where
  "prepare_batch_on E Z acct es r ops =
     (if ops = [] then Err EmptyBatch
      else
        try_ok (write_gates r) (\<lambda>_.
        try_ok (prepare_common acct) (\<lambda>prep.
        try_ok (plan_payments E Z prep (rr_auth r) (batch_plan es r ops)) (\<lambda>paid.
        try_ok (request_of Z (map fst paid)) (\<lambda>request.
          Ok \<lparr>pb_zkv_addr = prep_zkv_addr prep, pb_recipient_ua = prep_recipient_ua prep,
              pb_plan_ops = map (\<lambda>i. (bp_op i, bp_key i, bp_value i)) (batch_plan es r ops),
              pb_memo_texts = map snd paid, pb_request = request\<rparr>)))))"

section \<open>The local files, and the engine\<close>

text \<open>
  What a command finds on disk, and the engine it hands requests to. A sync replaces the wallet's view:
  its tables, its tip and the height it has fully scanned. The clock is read once, as \<open>now\<close>.
\<close>

record local_db =
  lo_wallet :: wallet_db
  lo_tip :: u32
  lo_scanned :: u32
  lo_snapshot :: snapshot
  lo_pending :: pending_disk

record engine =
  eng_sync_to_tip :: "wallet_db \<times> u32 \<times> u32 \<Rightarrow> (wallet_db \<times> u32 \<times> u32) \<times> (engine_error + unit)"
  eng_ship :: "payment list \<Rightarrow> engine_error + str"

record 'sk client =
  cl_account :: "'sk account"
  cl_reader :: reader
  cl_engine :: engine
  cl_zip321 :: zip321
  cl_balances :: "nat \<times> nat"     \<comment> \<open>\<open>balances_zats(..).unwrap_or((0, 0))\<close>\<close>
  cl_now :: nat
  cl_io :: bool                  \<comment> \<open>the pending file can be written\<close>

text \<open>\<open>load_state(db_name, INIT_CONFIRMATIONS, false)\<close>: a read may advance the snapshot file.\<close>

definition read_for_write ::
    "('pk, 'sk) crates \<Rightarrow> 'pk \<Rightarrow> 'sk client \<Rightarrow> local_db \<Rightarrow> local_db \<times> (write_error + replay_result)" where
  "read_for_write E pk c L =
     (let (file, res) = load_state E (cl_reader c) pk (lo_wallet L) (lo_tip L) (lo_scanned L)
            (lo_snapshot L) INIT_CONFIRMATIONS False
      in (L\<lparr>lo_snapshot := file\<rparr>, case res of Inl e \<Rightarrow> Err (ReadFailed e) | Inr r \<Rightarrow> Ok r))"

definition prepare ::
    "('pk, 'sk) crates \<Rightarrow> 'pk \<Rightarrow> 'sk client \<Rightarrow> op \<Rightarrow> str \<Rightarrow> str option \<Rightarrow> local_db \<Rightarrow>
     local_db \<times> (write_error + prepared_write)" where
  "prepare E pk c op key value L =
     (let (L', res) = read_for_write E pk c L in
      (L', try_ok res (\<lambda>r. prepare_on E (cl_zip321 c) (cl_account c)
             (pending_rows (cl_now c) (lo_pending L')) r op key value)))"

definition prepare_management ::
    "('pk, 'sk) crates \<Rightarrow> 'pk \<Rightarrow> 'sk client \<Rightarrow> op \<Rightarrow> str \<Rightarrow> str option \<Rightarrow> local_db \<Rightarrow>
     local_db \<times> (write_error + prepared_write)" where
  "prepare_management E pk c op target scope L =
     (let (L', res) = read_for_write E pk c L in
      (L', try_ok res (\<lambda>r. prepare_management_on E (cl_zip321 c) (cl_account c)
             (pending_rows (cl_now c) (lo_pending L')) r op target scope)))"

text \<open>The empty batch is refused before anything is read.\<close>

definition prepare_batch ::
    "('pk, 'sk) crates \<Rightarrow> 'pk \<Rightarrow> 'sk client \<Rightarrow> batch_item list \<Rightarrow> local_db \<Rightarrow>
     local_db \<times> (write_error + prepared_batch)" where
  "prepare_batch E pk c ops L =
     (if ops = [] then (L, Err EmptyBatch)
      else (let (L', res) = read_for_write E pk c L in
            (L', try_ok res (\<lambda>r. prepare_batch_on E (cl_zip321 c) (cl_account c)
                   (pending_rows (cl_now c) (lo_pending L')) r ops))))"

section \<open>Broadcasting\<close>

definition MIN_WRITE_FEE_ZATS :: nat where "MIN_WRITE_FEE_ZATS = 10000"

definition INSUFFICIENT_FUNDS :: int where "INSUFFICIENT_FUNDS = - 6"

definition sat_add_zats :: "nat \<Rightarrow> nat \<Rightarrow> nat" where "sat_add_zats a b = min (a + b) u64_max"

definition reported_amounts :: "engine_funds option \<Rightarrow> (nat \<times> nat \<times> nat) option" where
  "reported_amounts funds =
     (case funds of
        None \<Rightarrow> None
      | Some f \<Rightarrow>
          (case (fu_available f, fu_required f) of
             (Some available, Some required) \<Rightarrow>
               Some (available, required, sat_add_zats (fu_pending_incoming f) (fu_pending_change f))
           | _ \<Rightarrow> None))"

definition insufficient_from_engine :: "nat \<times> nat \<Rightarrow> engine_error \<Rightarrow> write_error" where
  "insufficient_from_engine balances err =
     (case err of
        Rpc code message funds \<Rightarrow>
          if code \<noteq> INSUFFICIENT_FUNDS then EngineFailed err
          else (case reported_amounts funds of
                  Some (available, required, incoming) \<Rightarrow> InsufficientFunds available required incoming
                | None \<Rightarrow> InsufficientFunds (fst balances) MIN_WRITE_FEE_ZATS (snd balances))
      | _ \<Rightarrow> EngineFailed err)"

definition record_pending ::
    "'sk client \<Rightarrow> str \<Rightarrow> op \<Rightarrow> str \<Rightarrow> str option \<Rightarrow> str \<Rightarrow> local_db \<Rightarrow> local_db" where
  "record_pending c txid op key value memo L =
     L\<lparr>lo_pending := fst (append_pending (cl_io c) (cl_now c)
        \<lparr>pe_txid = txid, pe_op = op_as_str op, pe_key = key, pe_value = value, pe_memo = Some memo,
         pe_broadcast_at_unix = cl_now c\<rparr> (lo_pending L))\<rparr>"

text \<open>The sync, and the collection after it, unless \<open>no_sync\<close>. A failed sync keeps what it scanned.\<close>

definition sync_first ::
    "('pk, 'sk) crates \<Rightarrow> 'sk client \<Rightarrow> bool \<Rightarrow> local_db \<Rightarrow> local_db \<times> (write_error + unit)" where
  "sync_first E c no_sync L =
     (if no_sync then (L, Ok ())
      else (let ((w, tip, scanned), res) =
                  eng_sync_to_tip (cl_engine c) (lo_wallet L, lo_tip L, lo_scanned L);
                L1 = L\<lparr>lo_wallet := w, lo_tip := tip, lo_scanned := scanned\<rparr>
            in (case res of
                  Inl e \<Rightarrow> (L1, Err (EngineFailed e))
                | Inr u \<Rightarrow>
                    (L1\<lparr>lo_pending := gc_pending E (cl_io c) (cl_now c) w (lo_pending L)\<rparr>, Ok ()))))"

text \<open>Ship the request; on success record the rows that \<open>record\<close> adds for the transaction.\<close>

definition ship_and_record ::
    "'sk client \<Rightarrow> payment list \<Rightarrow> (str \<Rightarrow> local_db \<Rightarrow> local_db) \<Rightarrow> local_db \<Rightarrow>
     local_db \<times> (write_error + str)" where
  "ship_and_record c request record L =
     (case eng_ship (cl_engine c) request of
        Inl e \<Rightarrow> (L, Err (insufficient_from_engine (cl_balances c) e))
      | Inr txid \<Rightarrow> (record txid L, Ok txid))"

definition broadcast_init ::
    "('pk, 'sk) crates \<Rightarrow> 'sk client \<Rightarrow> local_db \<Rightarrow> local_db \<times> (write_error + str)" where
  "broadcast_init E c L =
     (case prepare_init E (cl_zip321 c) (cl_account c) of
        Inl e \<Rightarrow> (L, Err e)
      | Inr p \<Rightarrow>
          ship_and_record c (pw_request p)
            (\<lambda>txid. record_pending c txid Init (pw_zkv_addr p) None (pw_memo_text p)) L)"

definition write_and_broadcast ::
    "('pk, 'sk) crates \<Rightarrow> 'pk \<Rightarrow> 'sk client \<Rightarrow> bool \<Rightarrow> op \<Rightarrow> str \<Rightarrow> str option \<Rightarrow> local_db \<Rightarrow>
     local_db \<times> (write_error + str)" where
  "write_and_broadcast E pk c no_sync op key value L =
     (case sync_first E c no_sync L of
        (L1, Inl e) \<Rightarrow> (L1, Err e)
      | (L1, Inr u) \<Rightarrow>
          (case prepare E pk c op key value L1 of
             (L2, Inl e) \<Rightarrow> (L2, Err e)
           | (L2, Inr p) \<Rightarrow>
               ship_and_record c (pw_request p)
                 (\<lambda>txid. record_pending c txid op key value (pw_memo_text p)) L2))"

definition write_many_and_broadcast ::
    "('pk, 'sk) crates \<Rightarrow> 'pk \<Rightarrow> 'sk client \<Rightarrow> bool \<Rightarrow> batch_item list \<Rightarrow> local_db \<Rightarrow>
     local_db \<times> (write_error + str)" where
  "write_many_and_broadcast E pk c no_sync ops L =
     (case sync_first E c no_sync L of
        (L1, Inl e) \<Rightarrow> (L1, Err e)
      | (L1, Inr u) \<Rightarrow>
          (case prepare_batch E pk c ops L1 of
             (L2, Inl e) \<Rightarrow> (L2, Err e)
           | (L2, Inr p) \<Rightarrow>
               ship_and_record c (pb_request p)
                 (\<lambda>txid. fold (\<lambda>((op, key, value), memo). record_pending c txid op key value memo)
                    (zip (pb_plan_ops p) (pb_memo_texts p))) L2))"

definition manage_and_broadcast ::
    "('pk, 'sk) crates \<Rightarrow> 'pk \<Rightarrow> 'sk client \<Rightarrow> bool \<Rightarrow> op \<Rightarrow> str \<Rightarrow> str option \<Rightarrow> local_db \<Rightarrow>
     local_db \<times> (write_error + str)" where
  "manage_and_broadcast E pk c no_sync op target scope L =
     (case sync_first E c no_sync L of
        (L1, Inl e) \<Rightarrow> (L1, Err e)
      | (L1, Inr u) \<Rightarrow>
          (case prepare_management E pk c op target scope L1 of
             (L2, Inl e) \<Rightarrow> (L2, Err e)
           | (L2, Inr p) \<Rightarrow>
               ship_and_record c (pw_request p)
                 (\<lambda>txid. record_pending c txid op target scope (pw_memo_text p)) L2))"

end
