(* ===== verification/Write_Props.thy ===== *)
theory Write_Props
  imports Write_Path Demo_Stream
begin

text \<open>
  What the write path guarantees about the readers: the memo of a prepared write is honoured at the
  state it was prepared on, a batch is honoured output by output, and the client refuses what a reader
  would drop.
\<close>

section \<open>A signed memo is honoured\<close>

definition crates_ok :: "('pk, 'sk) crates \<Rightarrow> bool" where
  "crates_ok E \<longleftrightarrow> hex_laws E \<and> memo_laws E \<and> sign_laws E"

lemma crates_ok_model [simp]: "crates_ok model_crates"
  by (simp add: crates_ok_def)

definition memo_row :: "str \<Rightarrow> write_status \<Rightarrow> str \<Rightarrow> u32 option \<Rightarrow> replay_entry" where
  "memo_row text status txid block_time =
     \<lparr>re_text = text, re_status = status, re_txid = txid, re_block_time = block_time\<rparr>"

lemma memo_row_sel [simp]:
  "re_text (memo_row t s x b) = t" "re_status (memo_row t s x b) = s"
  "re_txid (memo_row t s x b) = x" "re_block_time (memo_row t s x b) = b"
  by (simp_all add: memo_row_def)

abbreviation signer_of :: "('pk, 'sk) crates \<Rightarrow> 'sk \<Rightarrow> str" where
  "signer_of E sk \<equiv> pubkey_bech32 E (pk_of_sk E sk)"

definition command_of ::
    "('pk, 'sk) crates \<Rightarrow> 'sk \<Rightarrow> str \<Rightarrow> op \<Rightarrow> str \<Rightarrow> str option \<Rightarrow> u64 \<Rightarrow> zkv_command" where
  "command_of E sk receiver op key value version =
     mk_command op key value version (hex_encode E
       (sign_command E sk (signed_payload (signing_domain receiver op version) op key value)))"

lemma command_of_sel [simp]:
  "cmd_op (command_of E sk rc op k v n) = op" "cmd_key (command_of E sk rc op k v n) = k"
  "cmd_value (command_of E sk rc op k v n) = v" "cmd_seq (command_of E sk rc op k v n) = n"
  "cmd_comment (command_of E sk rc op k v n) = None"
  by (simp_all add: command_of_def)

lemma signed_memo_parses:
  assumes "crates_ok E" and "wire_ready op key value None"
    and "signed_memo E sk receiver op key value version = Ok memo"
  shows "parse_text_memo_detailed E memo = Ok (command_of E sk receiver op key value version)"
  using assms build_parse [of E _ op key "value" None version memo]
  by (auto simp: signed_memo_def build_memo_def crates_ok_def command_of_def
      length_sign_command)

lemma command_of_recovers:
  assumes "crates_ok E" and "op \<noteq> Init"
  shows "recover_memo_signer E (command_of E sk receiver op key value version) receiver =
         Some (pk_of_sk E sk)"
proof -
  let ?c = "command_of E sk receiver op key value version"
  let ?p = "signed_payload (signing_domain receiver op version) op key value"
  have "payload_for E receiver ?c = ?p"
    using assms(2) by (simp add: payload_for_def bind_comment_def)
  moreover have "cmd_sig_hex ?c = hex_encode E (sign_command E sk ?p)"
    by (simp add: command_of_def)
  ultimately show ?thesis
    using assms(1) by (simp add: recover_memo_signer_def recover_sign crates_ok_def)
qed

lemma signed_memo_admitted:
  assumes "crates_ok E" and "wire_ready op key value None" and "op \<noteq> Init"
    and "signed_memo E sk receiver op key value version = Ok memo"
    and "rr_init r = Initialized" and "\<not> rr_finalized r"
    and "seq_in_window op key version (rr_kv_versions r) (rr_target_versions r)"
    and "if is_data op
         then may_write (rr_auth r) (signer_of E sk) op (key_confirmed (rr_state r) key)
         else signer_of E sk \<in> owners (rr_auth r)"
  shows "admitted E receiver root (memo_row memo status txid bt) r
           (command_of E sk receiver op key value version) (signer_of E sk)"
  unfolding admitted_def
  using assms signed_memo_parses [OF assms(1,2,4)] command_of_recovers [OF assms(1,3)]
  by (cases op)
     (auto simp: decide_def may_write_def is_owner_def split: write_status.splits)

text \<open>The effect of a confirmed data write.\<close>

definition new_value :: "op \<Rightarrow> str option \<Rightarrow> str option" where
  "new_value op value = (if op = Del then None else value)"

definition data_entry :: "op \<Rightarrow> str option \<Rightarrow> str \<Rightarrow> u32 option \<Rightarrow> key_state \<Rightarrow> key_state" where
  "data_entry op value txid block_time ks =
     (if op = Del then ks\<lparr>confirmed := None\<rparr>
      else ks\<lparr>confirmed := value, updated_at := block_time, last_txid := Some txid\<rparr>)"

lemma confirmed_data_entry [simp]: "confirmed (data_entry op value txid bt ks) = new_value op value"
  by (simp add: data_entry_def new_value_def)

lemma apply_applied_data:
  "is_data op \<Longrightarrow>
   apply_applied E op (classified_of cmd signer out) txid bt root r =
   (r\<lparr>rr_state := (rr_state r)(cmd_key cmd \<mapsto>
        data_entry op (cmd_value cmd) txid bt (entry_or_default (rr_state r) (cmd_key cmd))),
      rr_kv_versions := bump_hw (rr_kv_versions r) (cmd_key cmd) (cmd_seq cmd)\<rparr>, Applied)"
  by (cases op) (simp_all add: apply_applied_def data_entry_def Let_def)

lemma honor_data:
  assumes "crates_ok E" and "wire_ready op key value None" and "is_data op"
    and "signed_memo E sk receiver op key value version = Ok memo"
    and "rr_init r = Initialized" and "\<not> rr_finalized r"
    and "seq_in_window op key version (rr_kv_versions r) (rr_target_versions r)"
    and "may_write (rr_auth r) (signer_of E sk) op (key_confirmed (rr_state r) key)"
  shows "honor E receiver root (memo_row memo Confirmed txid bt) r =
     (r\<lparr>rr_state := (rr_state r)(key \<mapsto> data_entry op value txid bt (entry_or_default (rr_state r) key)),
        rr_kv_versions := bump_hw (rr_kv_versions r) key version\<rparr>, Some Applied)"
proof -
  from assms(3) have "op \<noteq> Init" by auto
  from signed_memo_admitted [OF assms(1,2) this assms(4-7), of root Confirmed txid bt] assms(3,8)
  have "admitted E receiver root (memo_row memo Confirmed txid bt) r
      (command_of E sk receiver op key value version) (signer_of E sk)" by simp
  from honor_admitted [OF this] show ?thesis
    by (simp add: apply_applied_data [OF assms(3)])
qed

lemma honor_stale:
  assumes "crates_ok E" and "wire_ready op key value None" and "op \<noteq> Init"
    and "signed_memo E sk receiver op key value version = Ok memo"
    and "\<not> seq_in_window op key version (rr_kv_versions r) (rr_target_versions r)"
  shows "honor E receiver root (memo_row memo status txid bt) r = (r, Some (Dropped StaleVersion))"
  using assms signed_memo_parses [OF assms(1,2,4)] command_of_recovers [OF assms(1,3)]
  by (simp add: honor_def classify_in_memory_def classify_parsed_def apply_in_memory_def)

text \<open>A version inside the window of the counter, without wrap-around.\<close>

lemma window_data:
  assumes "is_data op"
  shows "seq_in_window op key seq kv tv \<longleftrightarrow> hw kv key \<le> unat seq \<and> unat seq \<le> min (hw kv key + 256) u64_max"
  using assms
  by (cases op) (auto simp: seq_in_window_def hw_def word_le_nat_alt unat_sat_add64 VERSION_WINDOW_def Let_def)

lemma unat_succ: "unat (v :: u64) < u64_max \<Longrightarrow> unat (v + 1) = Suc (unat v)"
  by (simp add: unat_word_ariths u64_max_def)

lemma hw_bump_hw:
  "unat seq < u64_max \<Longrightarrow>
   hw (bump_hw m key seq) k = (if k = key then max (hw m key) (Suc (unat seq)) else hw m k)"
proof -
  assume "unat seq < u64_max"
  then have "unat (seq + 1) = Suc (unat seq)"
    by (rule unat_succ)
  then show ?thesis
    by (auto simp: bump_hw_def hw_def max_def word_le_nat_alt)
qed

section \<open>What a prepared write went through\<close>

lemma write_gates_Ok:
  "write_gates r = Ok u \<longleftrightarrow>
   rr_init r = Initialized \<and> \<not> rr_finalized r \<and> \<not> blocks_write (rr_version r)"
  by (cases "rr_init r")
     (auto simp: write_gates_def ensure_initialized_def ensure_not_finalized_def ensure_client_supported_def)

lemma prepare_common_Ok:
  "prepare_common acct = Ok prep \<longleftrightarrow>
   ac_role acct = Admin \<and>
   (\<exists>sk. ac_signing_key acct = Some sk \<and>
      prep = \<lparr>prep_zkv_addr = ac_zkv_addr acct, prep_receiver = ac_receiver acct,
             prep_recipient_ua = ac_recipient_ua acct, prep_sk = sk\<rparr>)"
  by (auto simp: prepare_common_def split: option.splits)

lemma finish_write_Ok:
  "finish_write Z prep memo = Ok p \<longleftrightarrow>
   build_request Z (prep_recipient_ua prep) memo = Ok (pw_request p) \<and> pw_memo_text p = memo \<and>
   pw_zkv_addr p = prep_zkv_addr prep \<and> pw_recipient_ua p = prep_recipient_ua prep"
  by (cases p) (auto simp: finish_write_def try_ok_Inr)

lemma build_request_Ok:
  "build_request Z ua memo = Ok q \<longleftrightarrow>
   address_parses Z ua \<and> payment_accepts Z ua memo \<and> request_accepts Z q \<and>
   q = [\<lparr>pay_recipient = ua, pay_zatoshis = 0, pay_memo = memo\<rparr>]"
  by (auto simp: build_request_def build_payment_def request_of_def)

lemma prepare_on_Ok:
  assumes "prepare_on E Z acct es r op key value = Ok p"
  obtains sk where "ac_role acct = Admin" and "ac_signing_key acct = Some sk"
    and "rr_init r = Initialized" and "\<not> rr_finalized r"
    and "may_write (rr_auth r) (signer_of E sk) op (key_confirmed (rr_state r) key)"
    and "signed_memo E sk (ac_receiver acct) op key value (data_version es r key) = Ok (pw_memo_text p)"
    and "pw_request p = [\<lparr>pay_recipient = ac_recipient_ua acct, pay_zatoshis = 0,
           pay_memo = pw_memo_text p\<rparr>]"
  using assms
  by (auto simp: prepare_on_def try_ok_Inr write_gates_Ok prepare_common_Ok finish_write_Ok
      build_request_Ok split: if_splits)

text \<open>A version counted up from the reader's own counter by at most 256 is in the window.\<close>

definition inflight_ok :: "pending_entry list \<Rightarrow> replay_result \<Rightarrow> str \<Rightarrow> bool" where
  "inflight_ok es r key \<longleftrightarrow>
     unat (inflight_count es r key DATA_OPS) \<le> 256 \<and> hw (rr_kv_versions r) key + 256 \<le> u64_max"

lemma unat_data_version:
  assumes "inflight_ok es r key"
  shows "unat (data_version es r key) =
         hw (rr_kv_versions r) key + unat (inflight_count es r key DATA_OPS)"
  using assms unat_add_lem [of "unwrap_or (rr_kv_versions r key) 0" "inflight_count es r key DATA_OPS"]
  by (auto simp: inflight_ok_def data_version_def hw_def u64_max_def)

lemma data_version_in_window:
  "inflight_ok es r key \<Longrightarrow> is_data op \<Longrightarrow>
   seq_in_window op key (data_version es r key) (rr_kv_versions r) tv"
  using unat_data_version [of es r key] by (auto simp: window_data inflight_ok_def)

section \<open>A batch against the replay\<close>

lemma plan_payments_Ok:
  "plan_payments E Z prep auth plan = Ok paid \<Longrightarrow>
   list_all2 (\<lambda>item pm.
     may_write auth (signer_of E (prep_sk prep)) (bp_op item) (bp_key_exists item) \<and>
     signed_memo E (prep_sk prep) (prep_receiver prep) (bp_op item) (bp_key item) (bp_value item)
       (bp_version item) = Ok (snd pm)) plan paid"
  by (induction plan arbitrary: paid) (auto simp: try_ok_Inr split: if_splits)

fun honor_outcomes ::
    "('pk, 'sk) crates \<Rightarrow> str \<Rightarrow> str \<Rightarrow> replay_entry list \<Rightarrow> replay_result \<Rightarrow> row_outcome option list" where
  "honor_outcomes E receiver root [] r = []"
| "honor_outcomes E receiver root (e # es) r =
     snd (honor E receiver root e r)
     # honor_outcomes E receiver root es (fst (honor E receiver root e r))"

definition batch_effect :: "batch_item list \<Rightarrow> (str \<rightharpoonup> str) \<Rightarrow> (str \<rightharpoonup> str)" where
  "batch_effect ops m = fold (\<lambda>i m. m(bi_key i := new_value (bi_op i) (bi_value i))) ops m"

definition batch_ready :: "batch_item \<Rightarrow> bool" where
  "batch_ready i \<longleftrightarrow> is_data (bi_op i) \<and> wire_ready (bi_op i) (bi_key i) (bi_value i) None"

text \<open>The reader's counters and values, as the loop of \<open>sequence_versions\<close> tracks them.\<close>

definition tracks ::
    "(str \<Rightarrow> u64) \<Rightarrow> str set \<Rightarrow> (str \<rightharpoonup> u64) \<Rightarrow> (str \<rightharpoonup> bool) \<Rightarrow> nat \<Rightarrow> replay_result \<Rightarrow> str \<Rightarrow> bool" where
  "tracks base ce lc ex n r k \<longleftrightarrow>
     (let v = unat (base k + unwrap_or (lc k) 0) in
      hw (rr_kv_versions r) k \<le> v \<and> v \<le> hw (rr_kv_versions r) k + 256 \<and> v + n \<le> u64_max) \<and>
     key_confirmed (rr_state r) k = unwrap_or (ex k) (k \<in> ce)"

lemma signed_memo_value:
  "signed_memo E sk receiver op key value version = Ok memo \<Longrightarrow> op \<in> {Set, SetL} \<Longrightarrow> value \<noteq> None"
  by (auto simp: signed_memo_def build_memo_def value_arity_def dest!: build_Ok(5) split: option.splits)

lemma tracks_step:
  assumes "tracks base ce lc ex (Suc n) r k" and "op \<in> {Set, SetL} \<longrightarrow> value \<noteq> None" and "is_data op"
    and "version = base key + unwrap_or (lc key) 0" and "tracks base ce lc ex (Suc n) r key"
  shows "tracks base ce (lc(key \<mapsto> unwrap_or (lc key) 0 + 1)) (ex(key \<mapsto> op \<in> {Set, SetL})) n
     (r\<lparr>rr_state := (rr_state r)(key \<mapsto> data_entry op value txid bt ks),
        rr_kv_versions := bump_hw (rr_kv_versions r) key version\<rparr>) k"
proof (cases "k = key")
  case True
  let ?v = "base key + unwrap_or (lc key) 0"
  from assms(1) True have lt: "unat ?v + Suc n \<le> u64_max" and le: "hw (rr_kv_versions r) key \<le> unat ?v"
    by (auto simp: tracks_def Let_def)
  then have s: "unat (?v + 1) = Suc (unat ?v)"
    by (intro unat_succ) simp
  then have "unat (base key + (unwrap_or (lc key) 0 + 1)) = Suc (unat ?v)"
    by (simp only: add.assoc)
  with True assms(2,3,4) lt le s show ?thesis
    by (cases op) (auto simp: tracks_def Let_def hw_bump_hw key_confirmed_def new_value_def)
next
  case False
  from assms(5) have "unat version < u64_max"
    by (auto simp: tracks_def Let_def assms(4))
  with False assms(1) show ?thesis
    by (simp add: tracks_def Let_def hw_bump_hw key_confirmed_def)
qed

lemma rr_state_write: "rr_state (r\<lparr>rr_state := m, rr_kv_versions := v\<rparr>) = m"
  by simp

lemma sequence_honored:
  assumes E: "crates_ok E"
    and "list_all2 (\<lambda>item pm.
       may_write auth (signer_of E sk) (bp_op item) (bp_key_exists item) \<and>
       signed_memo E sk receiver (bp_op item) (bp_key item) (bp_value item) (bp_version item) = Ok (snd pm))
       (sequence_loop base ce lc ex ops) paid"
    and "list_all batch_ready ops"
    and "rr_init r = Initialized" and "\<not> rr_finalized r" and "rr_auth r = auth"
    and "\<forall>k \<in> bi_key ` List.set ops. tracks base ce lc ex (length ops) r k"
  shows "honor_outcomes E receiver root (map (\<lambda>pm. memo_row (snd pm) Confirmed txid bt) paid) r =
           replicate (length ops) (Some Applied) \<and>
         confirmed_values (rr_state (honor_all E receiver root
           (map (\<lambda>pm. memo_row (snd pm) Confirmed txid bt) paid) r)) =
           batch_effect ops (confirmed_values (rr_state r))"
  using assms(2-)
proof (induction ops arbitrary: lc ex r paid)
  case Nil
  then show ?case by (simp add: batch_effect_def)
next
  case (Cons i ops)
  let ?k = "bi_key i" and ?v = "base (bi_key i) + unwrap_or (lc (bi_key i)) 0"
  let ?lc = "lc(?k \<mapsto> unwrap_or (lc ?k) 0 + 1)" and ?ex = "ex(?k \<mapsto> bi_op i \<in> {Set, SetL})"
  obtain pm rest where paid: "paid = pm # rest"
    using Cons.prems(1) by (auto simp: Let_def list_all2_Cons1)
  from Cons.prems(1) have may: "may_write auth (signer_of E sk) (bi_op i) (unwrap_or (ex ?k) (?k \<in> ce))"
    and memo: "signed_memo E sk receiver (bi_op i) ?k (bi_value i) ?v = Ok (snd pm)"
    and rest: "list_all2 (\<lambda>item pm.
       may_write auth (signer_of E sk) (bp_op item) (bp_key_exists item) \<and>
       signed_memo E sk receiver (bp_op item) (bp_key item) (bp_value item) (bp_version item) = Ok (snd pm))
       (sequence_loop base ce ?lc ?ex ops) rest"
    by (simp_all add: Let_def paid)
  from Cons.prems(2) have d: "is_data (bi_op i)" and w: "wire_ready (bi_op i) ?k (bi_value i) None"
    by (simp_all add: batch_ready_def)
  from Cons.prems(6) have t: "tracks base ce lc ex (Suc (length ops)) r ?k" by simp
  then have win: "seq_in_window (bi_op i) ?k ?v (rr_kv_versions r) (rr_target_versions r)"
    and kc: "key_confirmed (rr_state r) ?k = unwrap_or (ex ?k) (?k \<in> ce)"
    by (auto simp: window_data [OF d] tracks_def Let_def)
  let ?r = "r\<lparr>rr_state := (rr_state r)(?k \<mapsto>
      data_entry (bi_op i) (bi_value i) txid bt (entry_or_default (rr_state r) ?k)),
      rr_kv_versions := bump_hw (rr_kv_versions r) ?k ?v\<rparr>"
  have h: "honor E receiver root (memo_row (snd pm) Confirmed txid bt) r = (?r, Some Applied)"
    using Cons.prems(3-5) may win kc by (intro honor_data [OF E w d memo]) simp_all
  have "\<forall>k \<in> bi_key ` List.set ops. tracks base ce ?lc ?ex (length ops) ?r k"
  proof
    fix k assume "k \<in> bi_key ` List.set ops"
    with Cons.prems(6) have "tracks base ce lc ex (Suc (length ops)) r k" by auto
    then show "tracks base ce ?lc ?ex (length ops) ?r k"
      using signed_memo_value [OF memo] by (intro tracks_step [OF _ _ d refl t]) blast+
  qed
  moreover have "list_all batch_ready ops" and "rr_init ?r = Initialized" and "\<not> rr_finalized ?r"
    and "rr_auth ?r = auth"
    using Cons.prems(2-5) by simp_all
  ultimately have ih: "honor_outcomes E receiver root (map (\<lambda>pm. memo_row (snd pm) Confirmed txid bt) rest) ?r =
           replicate (length ops) (Some Applied) \<and>
         confirmed_values (rr_state (honor_all E receiver root
           (map (\<lambda>pm. memo_row (snd pm) Confirmed txid bt) rest) ?r)) =
           batch_effect ops (confirmed_values (rr_state ?r))"
    using Cons.IH [OF rest] by blast
  have "confirmed_values (rr_state ?r) = (confirmed_values (rr_state r))(?k := new_value (bi_op i) (bi_value i))"
    by (simp only: rr_state_write confirmed_values_put confirmed_data_entry)
  then have "batch_effect (i # ops) (confirmed_values (rr_state r)) =
      batch_effect ops (confirmed_values (rr_state ?r))"
    by (simp only: batch_effect_def fold_Cons comp_apply)
  with ih show ?case
    by (simp only: paid list.map honor_outcomes.simps honor_all_simps h fst_conv snd_conv length_Cons
        replicate_Suc)
qed

lemma batch_tracks:
  assumes "inflight_ok es r k"
    and "hw (rr_kv_versions r) k + 256 + n \<le> u64_max" and "k \<in> List.set (map bi_key ops)"
  shows "tracks (data_version es r) (List.set (filter (key_confirmed (rr_state r)) (map bi_key ops)))
           Map.empty Map.empty n r k"
  using assms unat_data_version [OF assms(1)]
  by (auto simp: tracks_def inflight_ok_def)

lemma prepare_batch_on_Ok:
  assumes "prepare_batch_on E Z acct es r ops = Ok p"
  obtains sk paid where "ac_role acct = Admin" and "ac_signing_key acct = Some sk"
    and "rr_init r = Initialized" and "\<not> rr_finalized r" and "ops \<noteq> []"
    and "pb_memo_texts p = map snd paid" and "pb_request p = map fst paid"
    and "list_all2 (\<lambda>item pm.
       may_write (rr_auth r) (signer_of E sk) (bp_op item) (bp_key_exists item) \<and>
       signed_memo E sk (ac_receiver acct) (bp_op item) (bp_key item) (bp_value item)
         (bp_version item) = Ok (snd pm)) (batch_plan es r ops) paid"
  using assms
  by (auto simp: prepare_batch_on_def try_ok_Inr write_gates_Ok prepare_common_Ok request_of_def
      dest!: plan_payments_Ok split: if_splits)

definition batch_rows :: "prepared_batch \<Rightarrow> str \<Rightarrow> u32 option \<Rightarrow> replay_entry list" where
  "batch_rows p txid bt = map (\<lambda>t. memo_row t Confirmed txid bt) (pb_memo_texts p)"

lemma batch_honored:
  assumes "crates_ok E" and "list_all batch_ready ops"
    and "prepare_batch_on E Z acct es r ops = Ok p"
    and "list_all (\<lambda>i. inflight_ok es r (bi_key i) \<and>
           hw (rr_kv_versions r) (bi_key i) + 256 + length ops \<le> u64_max) ops"
  shows "honor_outcomes E (ac_receiver acct) root (batch_rows p txid bt) r =
           replicate (length ops) (Some Applied) \<and>
         confirmed_values (rr_state (honor_all E (ac_receiver acct) root (batch_rows p txid bt) r)) =
           batch_effect ops (confirmed_values (rr_state r))"
  using assms(3)
proof (rule prepare_batch_on_Ok)
  fix sk paid
  assume r: "rr_init r = Initialized" "\<not> rr_finalized r" and p: "pb_memo_texts p = map snd paid"
    and l: "list_all2 (\<lambda>item pm.
       may_write (rr_auth r) (signer_of E sk) (bp_op item) (bp_key_exists item) \<and>
       signed_memo E sk (ac_receiver acct) (bp_op item) (bp_key item) (bp_value item)
         (bp_version item) = Ok (snd pm)) (batch_plan es r ops) paid"
  have "\<forall>k \<in> bi_key ` List.set ops. tracks (data_version es r)
      (List.set (filter (key_confirmed (rr_state r)) (map bi_key ops))) Map.empty Map.empty (length ops) r k"
  proof
    fix k assume k: "k \<in> bi_key ` List.set ops"
    with assms(4) have "inflight_ok es r k" and "hw (rr_kv_versions r) k + 256 + length ops \<le> u64_max"
      by (auto simp: list_all_iff)
    from batch_tracks [OF this] k
    show "tracks (data_version es r)
        (List.set (filter (key_confirmed (rr_state r)) (map bi_key ops))) Map.empty Map.empty (length ops) r k"
      by (simp only: list.set_map)
  qed
  from sequence_honored [OF assms(1) l [unfolded batch_plan_def sequence_versions_def] assms(2) r refl this]
  show ?thesis by (simp add: batch_rows_def p comp_def)
qed

section \<open>A concrete writer\<close>

definition demo_account :: "char account" where
  "demo_account =
     \<lparr>ac_role = Admin, ac_zkv_addr = ''addr'', ac_receiver = ''main:00'', ac_recipient_ua = ''ua'',
      ac_signing_key = Some CHR ''A''\<rparr>"

definition demo_zip321 :: zip321 where
  "demo_zip321 =
     \<lparr>address_parses = (\<lambda>_. True), payment_accepts = (\<lambda>_ _. True), request_accepts = (\<lambda>_. True)\<rparr>"

lemma demo_account_sel [simp]:
  "ac_role demo_account = Admin" "ac_zkv_addr demo_account = ''addr''" "ac_receiver demo_account = ''main:00''"
  "ac_recipient_ua demo_account = ''ua''" "ac_signing_key demo_account = Some CHR ''A''"
  by (simp_all add: demo_account_def)

lemma demo_zip321_sel [simp]:
  "address_parses demo_zip321 a" "payment_accepts demo_zip321 a m" "request_accepts demo_zip321 q"
  by (simp_all add: demo_zip321_def)

lemma demo_root_signer: "pubkey_bech32 model_crates (pk_of_sk model_crates CHR ''A'') = demo_root"
  by (simp add: demo_root_def model_crates_def)

lemma demo_sign: "hex_encode model_crates (sign_command model_crates CHR ''A'' payload) = demo_sig"
  by (simp add: sign_command_def demo_sig_def model_crates_def char_of_def)

lemma demo_wire_ready:
  assumes "demo_ok op key value"
  shows "wire_ready op key value None"
proof -
  have k: "list_all plain key" and v: "list_all plain (unwrap_or value [])" and ne: "value \<noteq> Some []"
    using assms by (cases "value"; auto simp: demo_ok_def demo_word_def split: if_splits)+
  show ?thesis
    using assms demo_word_facts(3) [OF k] demo_word_facts(3,4) [OF v] ne
    by (auto simp: wire_ready_def demo_ok_def demo_word_def split: if_splits)
qed

lemma demo_signed_memo:
  assumes "demo_ok op key value" and "length (demo_text op key value seq) \<le> 512"
  shows "signed_memo model_crates CHR ''A'' receiver op key value seq = Ok (demo_text op key value seq)"
proof -
  have k: "list_all plain key" and v: "list_all plain (unwrap_or value [])" and ne: "value \<noteq> Some []"
    and a: "value_arity op value = Ok ()"
    using assms(1) by (cases "value"; auto simp: demo_ok_def demo_word_def split: if_splits)+
  have "memo_fits model_crates t \<longleftrightarrow> length t \<le> 512" for t
    by (simp add: model_crates_def)
  with assms(2) a ne demo_word_facts(1,2) [OF k] demo_word_facts(4) [OF v] show ?thesis
    by (simp add: signed_memo_def build_memo_def build_memo_with_comment_def demo_sign demo_text_def
        render_memo_text_def render_memo_with_comment_def comment_line_def)
qed

definition demo_prepared :: "op \<Rightarrow> str \<Rightarrow> str option \<Rightarrow> u64 \<Rightarrow> prepared_write" where
  "demo_prepared op key value seq =
     \<lparr>pw_zkv_addr = ''addr'', pw_recipient_ua = ''ua'', pw_memo_text = demo_text op key value seq,
      pw_request = [\<lparr>pay_recipient = ''ua'', pay_zatoshis = 0, pay_memo = demo_text op key value seq\<rparr>]\<rparr>"

lemma demo_prepare_on:
  assumes "demo_ok op key value" and "length (demo_text op key value (data_version es r key)) \<le> 512"
    and "rr_init r = Initialized" and "\<not> rr_finalized r" and "demo_root \<in> owners (rr_auth r)"
    and "\<not> blocks_write (rr_version r)"
  shows "prepare_on model_crates demo_zip321 demo_account es r op key value =
         Ok (demo_prepared op key value (data_version es r key))"
  using assms
  by (simp add: prepare_on_def write_gates_def ensure_initialized_def ensure_not_finalized_def
      ensure_client_supported_def prepare_common_def demo_root_signer may_write_def demo_signed_memo
      finish_write_def build_request_def build_payment_def request_of_def demo_prepared_def)

lemma demo_born_supported [simp]: "\<not> blocks_write default_version"
  by (simp add: blocks_write_def is_outdated_def default_version_def GENESIS_DB_VERSION_def MAX_DB_VERSION_def)

lemma demo_first_version [simp]: "data_version [] demo_born key = 0"
  by (simp add: data_version_def inflight_count_def wallet_txids_def file_txids_def)

lemma demo_inflight [simp]: "inflight_ok [] demo_born key"
  by (simp add: inflight_ok_def inflight_count_def wallet_txids_def file_txids_def hw_def u64_max_def)

lemma demo_ok_kv: "demo_ok Set ''k'' (Some ''v'')"
  by (simp add: demo_ok_def demo_word_def value_arity_def plain_def byte_def)

lemma demo_ok_del: "demo_ok Del ''k'' None"
  by (simp add: demo_ok_def demo_word_def value_arity_def plain_def byte_def)

lemma demo_text_fits:
  "length (demo_text Set ''k'' (Some ''v'') 0) \<le> 512" "length (demo_text Del ''k'' None 1) \<le> 512"
  using length_dropWhile_le [of "\<lambda>b. byte b = 0" "be_bytes 1"]
  by (simp_all add: demo_text_def render_memo_text_def render_memo_with_comment_def memo_line1_def
      comment_line_def encode_sig_line_def WIRE_MAGIC_def demo_sig_def)

section \<open>Properties\<close>

text \<open>
  C17. The write path and the read path agree on a write: the memo of a data write that \<open>prepare\<close>
  accepted, once confirmed on the state it was prepared on, is Applied by the replay and sets exactly
  the value asked for (removes the key, for \<open>DEL\<close>). It needs at most 256 writes of the key in flight,
  the readers' window.
\<close>

theorem prepared_write_applies:
  assumes "crates_ok E" and "is_data op" and "wire_ready op key value None"
    and "prepare_on E Z acct es r op key value = Ok p" and "inflight_ok es r key"
  shows "snd (honor E (ac_receiver acct) root (memo_row (pw_memo_text p) Confirmed txid bt) r) =
           Some Applied \<and>
         confirmed_values (rr_state (fst (honor E (ac_receiver acct) root
           (memo_row (pw_memo_text p) Confirmed txid bt) r))) =
         (confirmed_values (rr_state r))(key := new_value op value)"
  using assms(4)
proof (rule prepare_on_Ok)
  fix sk
  assume "signed_memo E sk (ac_receiver acct) op key value (data_version es r key) = Ok (pw_memo_text p)"
    and "rr_init r = Initialized" and "\<not> rr_finalized r"
    and "may_write (rr_auth r) (signer_of E sk) op (key_confirmed (rr_state r) key)"
  from honor_data [OF assms(1,3,2) this(1-3) data_version_in_window [OF assms(5,2)] this(4)]
  show ?thesis by (simp add: confirmed_values_put)
qed

theorem prepared_write_applies_witness:
  "prepare_on model_crates demo_zip321 demo_account [] demo_born Set ''k'' (Some ''v'') =
     Ok (demo_prepared Set ''k'' (Some ''v'') 0) \<and>
   snd (honor model_crates ''main:00'' demo_root
     (memo_row (pw_memo_text (demo_prepared Set ''k'' (Some ''v'') 0)) Confirmed ''t'' None) demo_born) =
     Some Applied \<and>
   confirmed_values (rr_state (fst (honor model_crates ''main:00'' demo_root
     (memo_row (pw_memo_text (demo_prepared Set ''k'' (Some ''v'') 0)) Confirmed ''t'' None) demo_born))) =
     (confirmed_values (rr_state demo_born))(''k'' := new_value Set (Some ''v''))"
proof -
  have p: "prepare_on model_crates demo_zip321 demo_account [] demo_born Set ''k'' (Some ''v'') =
      Ok (demo_prepared Set ''k'' (Some ''v'') 0)"
    using demo_prepare_on [OF demo_ok_kv, of "[]" demo_born] demo_text_fits by simp
  from prepared_write_applies [OF crates_ok_model _ demo_wire_ready [OF demo_ok_kv] p demo_inflight] p
  show ?thesis by simp
qed


definition demo_ops :: "batch_item list" where
  "demo_ops = [\<lparr>bi_op = Set, bi_key = ''k'', bi_value = Some ''v''\<rparr>,
               \<lparr>bi_op = Del, bi_key = ''k'', bi_value = None\<rparr>]"

definition demo_batch :: prepared_batch where
  "demo_batch =
     \<lparr>pb_zkv_addr = ''addr'', pb_recipient_ua = ''ua'',
      pb_plan_ops = [(Set, ''k'', Some ''v''), (Del, ''k'', None)],
      pb_memo_texts = [demo_text Set ''k'' (Some ''v'') 0, demo_text Del ''k'' None 1],
      pb_request = map (\<lambda>m. \<lparr>pay_recipient = ''ua'', pay_zatoshis = 0, pay_memo = m\<rparr>)
        [demo_text Set ''k'' (Some ''v'') 0, demo_text Del ''k'' None 1]\<rparr>"

lemma demo_prepare_batch:
  "prepare_batch_on model_crates demo_zip321 demo_account [] demo_born demo_ops = Ok demo_batch"
proof -
  have plan: "batch_plan [] demo_born demo_ops =
      [\<lparr>bp_op = Set, bp_key = ''k'', bp_value = Some ''v'', bp_version = 0, bp_key_exists = False\<rparr>,
       \<lparr>bp_op = Del, bp_key = ''k'', bp_value = None, bp_version = 1, bp_key_exists = True\<rparr>]"
    by (simp add: batch_plan_def sequence_versions_def demo_ops_def key_confirmed_def Let_def)
  show ?thesis
    unfolding prepare_batch_on_def plan
    using demo_signed_memo [OF demo_ok_kv demo_text_fits(1)] demo_signed_memo [OF demo_ok_del demo_text_fits(2)]
    by (simp add: demo_ops_def write_gates_def ensure_initialized_def ensure_not_finalized_def
        ensure_client_supported_def prepare_common_def demo_root_signer may_write_def request_of_def
        build_payment_def demo_batch_def)
qed




end
