(* ===== verification/Batch_Order.thy ===== *)
theory Batch_Order
  imports Write_Props "HOL-Library.Multiset"
begin

text \<open>
  The outputs of one transaction need not reach the readers in the order of the batch. For an owner
  this does not matter: a row below the counter is dropped as stale, so the last operation on each
  key wins whatever the order.
\<close>

section \<open>The versions of a plan\<close>

definition room :: "(str \<Rightarrow> u64) \<Rightarrow> (str \<rightharpoonup> u64) \<Rightarrow> batch_item list \<Rightarrow> bool" where
  "room base lc ops \<longleftrightarrow>
     (\<forall>i \<in> List.set ops. unat (base (bi_key i) + unwrap_or (lc (bi_key i)) 0) + length ops \<le> u64_max)"

lemma room_Cons:
  assumes "room base lc (i # ops)"
  shows "room base (lc(bi_key i \<mapsto> unwrap_or (lc (bi_key i)) 0 + 1)) ops"
    and "unat (base (bi_key i) + (unwrap_or (lc (bi_key i)) 0 + 1)) =
         Suc (unat (base (bi_key i) + unwrap_or (lc (bi_key i)) 0))"
proof -
  have "unat (base (bi_key i) + unwrap_or (lc (bi_key i)) 0) < u64_max"
    using assms by (auto simp: room_def)
  then show s: "unat (base (bi_key i) + (unwrap_or (lc (bi_key i)) 0 + 1)) =
      Suc (unat (base (bi_key i) + unwrap_or (lc (bi_key i)) 0))"
    by (simp only: add.assoc [symmetric] unat_succ)
  show "room base (lc(bi_key i \<mapsto> unwrap_or (lc (bi_key i)) 0 + 1)) ops"
    using assms by (auto simp: room_def s)
qed

lemma plan_version_bounds:
  assumes "b \<in> List.set (sequence_loop base ce lc ex ops)" and "room base lc ops"
  shows "unat (base (bp_key b) + unwrap_or (lc (bp_key b)) 0) \<le> unat (bp_version b) \<and>
         unat (bp_version b) < unat (base (bp_key b) + unwrap_or (lc (bp_key b)) 0) + length ops \<and>
         bp_key b \<in> bi_key ` List.set ops"
  using assms
proof (induction ops arbitrary: lc ex)
  case (Cons i ops)
  note rc = room_Cons [OF Cons.prems(2)]
  from Cons.prems(1) consider "bp_key b = bi_key i" "bp_version b = base (bi_key i) + unwrap_or (lc (bi_key i)) 0"
    | "b \<in> List.set (sequence_loop base ce (lc(bi_key i \<mapsto> unwrap_or (lc (bi_key i)) 0 + 1))
          (ex(bi_key i \<mapsto> bi_op i \<in> {Set, SetL})) ops)"
    by (auto simp: Let_def)
  then show ?case
  proof cases
    case 2
    from Cons.IH [OF this rc(1)] rc(2) show ?thesis by (auto split: if_splits)
  qed simp
qed simp

lemma plan_versions_distinct:
  "room base lc ops \<Longrightarrow> distinct (map (\<lambda>b. (bp_key b, bp_version b)) (sequence_loop base ce lc ex ops))"
proof (induction ops arbitrary: lc ex)
  case (Cons i ops)
  let ?plan = "sequence_loop base ce (lc(bi_key i \<mapsto> unwrap_or (lc (bi_key i)) 0 + 1))
      (ex(bi_key i \<mapsto> bi_op i \<in> {Set, SetL})) ops"
  note rc = room_Cons [OF Cons.prems]
  have "bp_version b \<noteq> base (bi_key i) + unwrap_or (lc (bi_key i)) 0"
    if "b \<in> List.set ?plan" and "bp_key b = bi_key i" for b
  proof -
    note plan_version_bounds [OF that(1) rc(1)]
    then have "unat (base (bi_key i) + (unwrap_or (lc (bi_key i)) 0 + 1)) \<le> unat (bp_version b)"
      by (simp add: that(2))
    with rc(2) show ?thesis by auto
  qed
  then have "(bi_key i, base (bi_key i) + unwrap_or (lc (bi_key i)) 0)
      \<notin> (\<lambda>b. (bp_key b, bp_version b)) ` List.set ?plan" by fastforce
  moreover have "distinct (map (\<lambda>b. (bp_key b, bp_version b)) ?plan)"
    by (rule Cons.IH [OF rc(1)])
  ultimately show ?case
    by (simp only: sequence_loop.simps Let_def list.map distinct.simps list.set_map
        batch_plan_item.simps) simp
qed simp

section \<open>What a row does to the counters and the values\<close>

definition command_at :: "('pk, 'sk) crates \<Rightarrow> replay_entry \<Rightarrow> zkv_command" where
  "command_at E e = projr (parse_text_memo_detailed E (re_text e))"

definition absorb ::
    "zkv_command \<Rightarrow> (str \<Rightarrow> nat) \<times> (str \<rightharpoonup> str) \<Rightarrow> (str \<Rightarrow> nat) \<times> (str \<rightharpoonup> str)" where
  "absorb c s =
     (if fst s (cmd_key c) \<le> unat (cmd_seq c)
      then ((fst s)(cmd_key c := Suc (unat (cmd_seq c))),
            (snd s)(cmd_key c := new_value (cmd_op c) (cmd_value c)))
      else s)"

lemma absorb_commute:
  assumes "c \<noteq> d \<longrightarrow> (cmd_key c, cmd_seq c) \<noteq> (cmd_key d, cmd_seq d)"
  shows "absorb c \<circ> absorb d = absorb d \<circ> absorb c"
proof (cases "c = d")
  case False
  with assms consider "cmd_key c \<noteq> cmd_key d" | "cmd_key c = cmd_key d" "unat (cmd_seq c) \<noteq> unat (cmd_seq d)"
    using word_unat_eq_iff [of "cmd_seq c" "cmd_seq d"] by blast
  then show ?thesis
    by cases (rule ext; simp add: absorb_def fun_upd_twist; auto)+
qed simp

definition projection :: "replay_result \<Rightarrow> (str \<Rightarrow> nat) \<times> (str \<rightharpoonup> str)" where
  "projection r = (hw (rr_kv_versions r), confirmed_values (rr_state r))"

text \<open>A row with a data command of an owner that lies below the upper end of the window.\<close>

definition owner_row ::
    "('pk, 'sk) crates \<Rightarrow> str \<Rightarrow> replay_result \<Rightarrow> replay_entry \<Rightarrow> bool" where
  "owner_row E receiver r e \<longleftrightarrow>
     (\<exists>sk op key value version txid bt memo.
        e = memo_row memo Confirmed txid bt \<and> is_data op \<and> wire_ready op key value None \<and>
        signed_memo E sk receiver op key value version = Ok memo \<and>
        signer_of E sk \<in> owners (rr_auth r) \<and>
        unat version \<le> hw (rr_kv_versions r) key + 256 \<and> unat version < u64_max)"

lemma honor_owner_row:
  assumes E: "crates_ok E" and row: "owner_row E receiver r e"
    and i: "rr_init r = Initialized" "\<not> rr_finalized r"
    and r': "r' = fst (honor E receiver root e r)"
  shows "projection r' = absorb (command_at E e) (projection r)"
    and "rr_init r' = Initialized" and "\<not> rr_finalized r'" and "rr_auth r' = rr_auth r"
    and "\<forall>k. hw (rr_kv_versions r) k \<le> hw (rr_kv_versions r') k"
proof -
  from row obtain sk op key "value" version txid bt memo where
    e: "e = memo_row memo Confirmed txid bt" and d: "is_data op" and w: "wire_ready op key value None"
    and m: "signed_memo E sk receiver op key value version = Ok memo"
    and o1: "signer_of E sk \<in> owners (rr_auth r)"
    and up: "unat version \<le> hw (rr_kv_versions r) key + 256" "unat version < u64_max"
    unfolding owner_row_def by (elim exE conjE) (rule that)
  have c: "command_at E e = command_of E sk receiver op key value version"
    by (simp add: command_at_def e signed_memo_parses [OF E w m])
  have win: "seq_in_window op key version (rr_kv_versions r) (rr_target_versions r) \<longleftrightarrow>
      hw (rr_kv_versions r) key \<le> unat version"
    using up by (auto simp: window_data [OF d])
  have "projection r' = absorb (command_at E e) (projection r) \<and> rr_init r' = Initialized \<and>
     \<not> rr_finalized r' \<and> rr_auth r' = rr_auth r \<and>
     (\<forall>k. hw (rr_kv_versions r) k \<le> hw (rr_kv_versions r') k)"
  proof (cases "hw (rr_kv_versions r) key \<le> unat version")
    case True
    with win have "seq_in_window op key version (rr_kv_versions r) (rr_target_versions r)" by simp
    moreover have "may_write (rr_auth r) (signer_of E sk) op (key_confirmed (rr_state r) key)"
      using o1 by (simp add: may_write_def)
    ultimately have h: "r' = r\<lparr>rr_state := (rr_state r)(key \<mapsto>
          data_entry op value txid bt (entry_or_default (rr_state r) key)),
        rr_kv_versions := bump_hw (rr_kv_versions r) key version\<rparr>"
      using honor_data [OF E w d m i] by (simp add: r' e)
    have "hw (bump_hw (rr_kv_versions r) key version) =
        (hw (rr_kv_versions r))(key := Suc (unat version))"
      using hw_bump [of "rr_kv_versions r" key version] True up by simp
    with True i show ?thesis
      by (simp add: h c projection_def absorb_def confirmed_values_put)
  next
    case False
    with win have "\<not> seq_in_window op key version (rr_kv_versions r) (rr_target_versions r)" by simp
    moreover have "op \<noteq> Init" using d by auto
    ultimately have "r' = r"
      using honor_stale [OF E w _ m] by (simp add: r' e)
    with False i show ?thesis
      by (simp add: c projection_def absorb_def)
  qed
  then show "projection r' = absorb (command_at E e) (projection r)"
    and "rr_init r' = Initialized" and "\<not> rr_finalized r'" and "rr_auth r' = rr_auth r"
    and "\<forall>k. hw (rr_kv_versions r) k \<le> hw (rr_kv_versions r') k" by blast+
qed

lemma owner_row_mono:
  assumes "owner_row E receiver r e" and "rr_auth r' = rr_auth r"
    and "\<forall>k. hw (rr_kv_versions r) k \<le> hw (rr_kv_versions r') k"
  shows "owner_row E receiver r' e"
proof -
  have "unat v \<le> hw (rr_kv_versions r) k + 256 \<Longrightarrow> unat v \<le> hw (rr_kv_versions r') k + 256"
    for k and v :: u64
    using assms(3) [rule_format, of k] by linarith
  with assms(1,2) show ?thesis
    unfolding owner_row_def by (metis (no_types, lifting))
qed

lemma honor_all_absorbs:
  assumes "crates_ok E"
  shows "\<forall>e \<in> List.set es. owner_row E receiver r e \<Longrightarrow> rr_init r = Initialized \<Longrightarrow> \<not> rr_finalized r \<Longrightarrow>
     projection (honor_all E receiver root es r) = fold absorb (map (command_at E) es) (projection r)"
proof (induction es arbitrary: r)
  case (Cons e es)
  let ?r = "fst (honor E receiver root e r)"
  from Cons.prems(1) have row: "owner_row E receiver r e" by simp
  note h = honor_owner_row [OF assms row Cons.prems(2,3) refl, of root]
  have "\<forall>e \<in> List.set es. owner_row E receiver ?r e"
    using Cons.prems(1) h(4,5) by (auto intro: owner_row_mono)
  from Cons.IH [OF this h(2,3)] show ?case by (simp add: h(1))
qed simp

section \<open>Any order of a batch\<close>

lemma plan_items:
  "map (\<lambda>b. (bp_op b, bp_key b, bp_value b)) (sequence_loop base ce lc ex ops) =
   map (\<lambda>i. (bi_op i, bi_key i, bi_value i)) ops"
  by (induction ops arbitrary: lc ex) (simp_all add: Let_def)

lemma plan_item_ready:
  assumes "b \<in> List.set (sequence_loop base ce lc ex ops)" and "list_all batch_ready ops"
  shows "is_data (bp_op b)" and "wire_ready (bp_op b) (bp_key b) (bp_value b) None"
proof -
  have "(bp_op b, bp_key b, bp_value b) \<in> List.set (map (\<lambda>i. (bi_op i, bi_key i, bi_value i)) ops)"
    using assms(1) unfolding plan_items [of base ce lc ex ops, symmetric] by simp
  with assms(2) show "is_data (bp_op b)" and "wire_ready (bp_op b) (bp_key b) (bp_value b) None"
    by (auto simp: list_all_iff batch_ready_def)
qed

lemmas batch_plan_ready =
  plan_item_ready [of _ "data_version es r" "List.set (filter (key_confirmed (rr_state r)) (map bi_key ops))"
    Map.empty Map.empty ops, folded sequence_versions_def, folded batch_plan_def] for es r ops

definition order_free :: "pending_entry list \<Rightarrow> replay_result \<Rightarrow> batch_item list \<Rightarrow> bool" where
  "order_free es r ops \<longleftrightarrow>
     list_all (\<lambda>i. unat (inflight_count es r (bi_key i) DATA_OPS) + length ops \<le> 256 \<and>
       hw (rr_kv_versions r) (bi_key i) + 256 + length ops \<le> u64_max) ops"

lemma order_free_bounds:
  assumes "order_free es r ops" and "i \<in> List.set ops"
  shows "inflight_ok es r (bi_key i)"
    and "unat (data_version es r (bi_key i)) + length ops \<le> hw (rr_kv_versions r) (bi_key i) + 256"
    and "hw (rr_kv_versions r) (bi_key i) + 256 + length ops \<le> u64_max"
proof -
  from assms have b: "unat (inflight_count es r (bi_key i) DATA_OPS) + length ops \<le> 256"
    "hw (rr_kv_versions r) (bi_key i) + 256 + length ops \<le> u64_max"
    by (simp_all add: order_free_def list_all_iff)
  then show f: "inflight_ok es r (bi_key i)" by (simp add: inflight_ok_def)
  from b unat_data_version [OF f]
  show "unat (data_version es r (bi_key i)) + length ops \<le> hw (rr_kv_versions r) (bi_key i) + 256"
    and "hw (rr_kv_versions r) (bi_key i) + 256 + length ops \<le> u64_max" by simp_all
qed

text \<open>The rows of a prepared batch are owner rows, each determined by its key and version.\<close>

lemma batch_row_cases:
  assumes E: "crates_ok E" and ready: "list_all batch_ready ops"
    and "list_all2 (\<lambda>item pm.
       may_write (rr_auth r) (signer_of E sk) (bp_op item) (bp_key_exists item) \<and>
       signed_memo E sk receiver (bp_op item) (bp_key item) (bp_value item)
         (bp_version item) = Ok (snd pm)) (batch_plan es r ops) paid"
    and "e \<in> List.set (map (\<lambda>pm. memo_row (snd pm) Confirmed txid bt) paid)"
  obtains b memo where "b \<in> List.set (batch_plan es r ops)" and "e = memo_row memo Confirmed txid bt"
    and "signed_memo E sk receiver (bp_op b) (bp_key b) (bp_value b) (bp_version b) = Ok memo"
    and "is_data (bp_op b)" and "wire_ready (bp_op b) (bp_key b) (bp_value b) None"
    and "command_at E e = command_of E sk receiver (bp_op b) (bp_key b) (bp_value b) (bp_version b)"
proof -
  from assms(4) obtain n where n: "n < length paid" and e: "e = memo_row (snd (paid ! n)) Confirmed txid bt"
    by (auto simp: in_set_conv_nth)
  let ?b = "batch_plan es r ops ! n"
  from assms(3) n have b: "?b \<in> List.set (batch_plan es r ops)"
    and m: "signed_memo E sk receiver (bp_op ?b) (bp_key ?b) (bp_value ?b) (bp_version ?b) = Ok (snd (paid ! n))"
    by (auto simp: list_all2_conv_all_nth)
  note r = batch_plan_ready [OF b ready]
  have "command_at E e = command_of E sk receiver (bp_op ?b) (bp_key ?b) (bp_value ?b) (bp_version ?b)"
    by (simp add: command_at_def e signed_memo_parses [OF E r(2) m])
  from that [OF b e m r this] show thesis .
qed

lemma batch_row_owner:
  assumes E: "crates_ok E" and ready: "list_all batch_ready ops" and free: "order_free es r ops"
    and own: "signer_of E sk \<in> owners (rr_auth r)" and ne: "ops \<noteq> []"
    and paid: "list_all2 (\<lambda>item pm.
       may_write (rr_auth r) (signer_of E sk) (bp_op item) (bp_key_exists item) \<and>
       signed_memo E sk receiver (bp_op item) (bp_key item) (bp_value item)
         (bp_version item) = Ok (snd pm)) (batch_plan es r ops) paid"
    and e: "e \<in> List.set (map (\<lambda>pm. memo_row (snd pm) Confirmed txid bt) paid)"
  shows "owner_row E receiver r e"
proof (rule batch_row_cases [OF E ready paid e])
  fix b memo
  assume b: "b \<in> List.set (batch_plan es r ops)" and m: "e = memo_row memo Confirmed txid bt"
    "signed_memo E sk receiver (bp_op b) (bp_key b) (bp_value b) (bp_version b) = Ok memo"
    "is_data (bp_op b)" "wire_ready (bp_op b) (bp_key b) (bp_value b) None"
  have room: "room (data_version es r) Map.empty ops"
    using order_free_bounds [OF free] by (fastforce simp: room_def)
  from plan_version_bounds [OF b [unfolded batch_plan_def sequence_versions_def] room]
  obtain i where i: "i \<in> List.set ops" "bp_key b = bi_key i"
    and v: "unat (bp_version b) < unat (data_version es r (bi_key i)) + length ops"
    by auto
  note f = order_free_bounds [OF free i(1)]
  have "unat (bp_version b) \<le> hw (rr_kv_versions r) (bp_key b) + 256" and "unat (bp_version b) < u64_max"
    using v f(2,3) ne by (auto simp: i(2))
  with m own show ?thesis unfolding owner_row_def by blast
qed

lemma batch_rows_keyed:
  assumes E: "crates_ok E" and ready: "list_all batch_ready ops" and free: "order_free es r ops"
    and paid: "list_all2 (\<lambda>item pm.
       may_write (rr_auth r) (signer_of E sk) (bp_op item) (bp_key_exists item) \<and>
       signed_memo E sk receiver (bp_op item) (bp_key item) (bp_value item)
         (bp_version item) = Ok (snd pm)) (batch_plan es r ops) paid"
    and x: "x \<in> List.set (map (\<lambda>pm. memo_row (snd pm) Confirmed txid bt) paid)"
    and y: "y \<in> List.set (map (\<lambda>pm. memo_row (snd pm) Confirmed txid bt) paid)"
  shows "absorb (command_at E x) \<circ> absorb (command_at E y) = absorb (command_at E y) \<circ> absorb (command_at E x)"
proof (rule batch_row_cases [OF E ready paid x], rule batch_row_cases [OF E ready paid y])
  fix b memo b' memo'
  assume b: "b \<in> List.set (batch_plan es r ops)" "b' \<in> List.set (batch_plan es r ops)"
    and c: "command_at E x = command_of E sk receiver (bp_op b) (bp_key b) (bp_value b) (bp_version b)"
      "command_at E y = command_of E sk receiver (bp_op b') (bp_key b') (bp_value b') (bp_version b')"
  have "room (data_version es r) Map.empty ops"
    using order_free_bounds [OF free] by (fastforce simp: room_def)
  from plan_versions_distinct [OF this]
  have "distinct (map (\<lambda>b. (bp_key b, bp_version b)) (batch_plan es r ops))"
    by (simp only: batch_plan_def sequence_versions_def)
  then have "(bp_key b, bp_version b) = (bp_key b', bp_version b') \<Longrightarrow> b = b'"
    using b by (auto simp: distinct_map dest: inj_onD)
  then show ?thesis
    by (intro absorb_commute) (auto simp: c)
qed

text \<open>
  For an owner, the outputs of a batch may reach the readers in any order, and nothing changes in
  what they end up with: whatever permutation of the rows is replayed, the confirmed values are those
  of running the operations in the order of the batch. A row that arrives after a later version of its
  key is dropped as stale, so the last write of each key wins.
\<close>

lemma batch_any_order:
  assumes "crates_ok E" and "list_all batch_ready ops"
    and "prepare_batch_on E Z acct es r ops = Ok p" and "order_free es r ops"
    and "map_option (\<lambda>sk. pubkey_bech32 E (pk_of_sk E sk)) (ac_signing_key acct) = Some signer"
    and "signer \<in> owners (rr_auth r)"
    and "mset rows = mset (batch_rows p txid bt)"
  shows "confirmed_values (rr_state (honor_all E (ac_receiver acct) root rows r)) =
         batch_effect ops (confirmed_values (rr_state r))"
  using assms(3)
proof (rule prepare_batch_on_Ok)
  fix sk paid
  assume sk: "ac_signing_key acct = Some sk" and r: "rr_init r = Initialized" "\<not> rr_finalized r"
    and ne: "ops \<noteq> []" and p: "pb_memo_texts p = map snd paid"
    and l: "list_all2 (\<lambda>item pm.
       may_write (rr_auth r) (signer_of E sk) (bp_op item) (bp_key_exists item) \<and>
       signed_memo E sk (ac_receiver acct) (bp_op item) (bp_key item) (bp_value item)
         (bp_version item) = Ok (snd pm)) (batch_plan es r ops) paid"
  have own: "signer_of E sk \<in> owners (rr_auth r)" using assms(5,6) sk by simp
  have rows: "batch_rows p txid bt = map (\<lambda>pm. memo_row (snd pm) Confirmed txid bt) paid"
    by (simp add: batch_rows_def p)
  have sets: "List.set rows = List.set (batch_rows p txid bt)"
    using assms(7) by (metis set_mset_mset)
  note ow = batch_row_owner [OF assms(1,2,4) own ne l, of _ txid bt, folded rows]
  have fold: "fold absorb (map (command_at E) rows) (projection r) =
      fold absorb (map (command_at E) (batch_rows p txid bt)) (projection r)"
    unfolding fold_map comp_def [symmetric]
    using batch_rows_keyed [OF assms(1,2,4) l, of _ txid bt, folded rows] assms(7)
    by (intro fun_cong [OF fold_multiset_equiv]) (auto simp: sets)
  have all: "projection (honor_all E (ac_receiver acct) root es r) =
      fold absorb (map (command_at E) es) (projection r)" if "List.set es = List.set (batch_rows p txid bt)" for es
    using ow that by (intro honor_all_absorbs [OF assms(1) _ r]) simp
  have "projection (honor_all E (ac_receiver acct) root rows r) =
      projection (honor_all E (ac_receiver acct) root (batch_rows p txid bt) r)"
    by (simp only: all [OF sets] all [OF refl] fold)
  moreover have "list_all (\<lambda>i. inflight_ok es r (bi_key i) \<and>
       hw (rr_kv_versions r) (bi_key i) + 256 + length ops \<le> u64_max) ops"
    using order_free_bounds [OF assms(4)] by (simp add: list_all_iff)
  ultimately show ?thesis
    using batch_honored [OF assms(1-3)] by (simp add: projection_def)
qed

end
