(* ===== verification/Demo_Client.thy ===== *)
theory Demo_Client
  imports Write_Props Read_Props
begin

text \<open>
  A concrete client for the witnesses: the account of \<open>Write_Props\<close>, an engine that always answers, and
  the wallet of \<open>Read_Props\<close> (an \<open>INIT\<close> and one \<open>SET\<close>, both three blocks deep) next to a snapshot just
  created. Its reads are evaluated here.
\<close>

definition demo_client :: "char client" where
  "demo_client =
     \<lparr>cl_account = demo_account, cl_reader = demo_reader,
      cl_engine = \<lparr>eng_sync_to_tip = (\<lambda>w. (w, Ok ())), eng_ship = (\<lambda>_. Ok ''t1'')\<rparr>,
      cl_zip321 = demo_zip321, cl_balances = (0, 0), cl_now = 0, cl_io = True\<rparr>"

definition demo_local :: local_db where
  "demo_local =
     \<lparr>lo_wallet = demo_wallet, lo_tip = 7, lo_scanned = 7, lo_snapshot = open_snapshot empty_file,
      lo_pending = NoFile\<rparr>"

lemma demo_client_sel [simp]:
  "cl_io demo_client" "cl_now demo_client = 0" "cl_account demo_client = demo_account"
  "cl_zip321 demo_client = demo_zip321" "cl_reader demo_client = demo_reader"
  "eng_sync_to_tip (cl_engine demo_client) w = (w, Ok ())" "eng_ship (cl_engine demo_client) q = Ok ''t1''"
  "lo_wallet demo_local = demo_wallet" "lo_tip demo_local = 7" "lo_scanned demo_local = 7"
  "lo_snapshot demo_local = open_snapshot empty_file" "lo_pending demo_local = NoFile"
  by (simp_all add: demo_client_def demo_local_def)

text \<open>The state both memos lead to.\<close>

definition demo_txid :: str where
  "demo_txid = txid_hex model_crates (replicate 32 CHR ''t'')"

definition demo_state :: replay_result where
  "demo_state = demo_born
     \<lparr>rr_state := [''k'' \<mapsto> \<lparr>confirmed = Some ''v'', pending = [], updated_at = Some 7, last_txid = Some demo_txid\<rparr>],
      rr_kv_versions := [''k'' \<mapsto> 1]\<rparr>"

lemma demo_state_sel [simp]:
  "rr_init demo_state = Initialized" "\<not> rr_finalized demo_state" "rr_version demo_state = default_version"
  "rr_auth demo_state = insert_owner demo_root empty_auth" "rr_kv_versions demo_state = [''k'' \<mapsto> 1]"
  "rr_target_versions demo_state = Map.empty"
  "rr_state demo_state =
     [''k'' \<mapsto> \<lparr>confirmed = Some ''v'', pending = [], updated_at = Some 7, last_txid = Some demo_txid\<rparr>]"
  by (simp_all add: demo_state_def)

lemma demo_tail:
  assumes "mc \<le> 3"
  shows "List.map_filter (tail_entry model_crates 7 mc ''u'') demo_memos =
    [memo_row (demo_text Init ''addr'' None 0) Confirmed demo_txid (Some 7),
     memo_row (demo_text Set ''k'' (Some ''v'') 0) Confirmed demo_txid (Some 7)]"
proof -
  have conf: "confirmations 7 (demo_memo i op key v) = 3" for i op key v
    by (simp add: confirmations_def sat_add32_def u32_max_def)
  have "effective_min_confs b mc \<le> 3" for b
    using assms by (auto simp: effective_min_confs_def INIT_CONFIRMATIONS_def)
  then have "row_status model_crates 7 mc ''u'' (demo_memo i op key v) = Some Confirmed" for i op key v
    by (simp add: row_status_def conf Let_def)
  then show ?thesis
    by (simp add: demo_memos_def List.map_filter_simps tail_entry_def memo_row_def demo_txid_def)
       (simp add: demo_memo_def clamp_u32_def u32_max_def)
qed

lemma demo_client_replay:
  "replay_with_seed model_crates
    [memo_row (demo_text Init ''addr'' None 0) Confirmed demo_txid (Some 7),
     memo_row (demo_text Set ''k'' (Some ''v'') 0) Confirmed demo_txid (Some 7)]
    (Some empty_replay) ''main:00'' CHR ''A'' False = Ok demo_state"
proof -
  let ?E = "model_crates" and ?rc = "''main:00''"
  let ?i = "memo_row (demo_text Init ''addr'' None 0) Confirmed demo_txid (Some 7)"
  let ?s = "memo_row (demo_text Set ''k'' (Some ''v'') 0) Confirmed demo_txid (Some 7)"
  have a1: "admitted ?E ?rc demo_root ?i empty_replay (demo_command Init ''addr'' None 0) demo_root"
    using demo_init_admitted [of ?rc]
    by (subst admitted_cong [of _ demo_init]) (simp_all add: demo_init_def)
  have h1: "fst (honor ?E ?rc demo_root ?i empty_replay) = demo_born"
    unfolding honor_admitted [OF a1] by (simp add: apply_applied_def demo_born_def empty_replay_def)
  have "admitted ?E ?rc demo_root (demo_entry Set ''k'' (Some ''v'') 0 Confirmed) demo_born
      (demo_command Set ''k'' (Some ''v'') 0) demo_root"
    by (rule demo_root_admitted [OF demo_ok_put]) (simp_all add: demo_window_0)
  then have a2: "admitted ?E ?rc demo_root ?s demo_born (demo_command Set ''k'' (Some ''v'') 0) demo_root"
    by (subst admitted_cong [of _ "demo_entry Set ''k'' (Some ''v'') 0 Confirmed"]) simp_all
  have h2: "fst (honor ?E ?rc demo_root ?s demo_born) = demo_state"
    unfolding honor_admitted [OF a2]
    by (simp add: apply_applied_def demo_state_def bump_hw_def entry_or_default_def default_key_state_def Let_def)
  have "prune (rr_state demo_state) = rr_state demo_state"
    by (auto simp: prune_def retained_def fun_eq_iff)
  then have p: "demo_state\<lparr>rr_state := prune (rr_state demo_state)\<rparr> = demo_state"
    by (simp only:) simp
  have "clear_pending (rr_state empty_replay) = rr_state empty_replay"
    by (simp add: empty_replay_def clear_pending_def)
  then have "replay_start (Some empty_replay) = empty_replay"
    by (simp add: replay_start_def)
  then show ?thesis
    by (simp only: replay_lenient honor_all_simps h1 h2 Let_def p flip: demo_root_def)
qed

lemma demo_load:
  assumes "mc \<le> 3"
  shows "load_state_with_height model_crates demo_reader CHR ''A'' demo_wallet 7 7 (open_snapshot empty_file) mc False =
    (open_snapshot empty_file, Ok (demo_state, 7))"
proof -
  let ?wm = "\<lparr>wm_height = 0, wm_txid = [], wm_output_index = 0\<rparr>"
  have un: "unenhanced_floor demo_wallet ''u'' Orchard = None"
    by (simp add: unenhanced_floor_def unenhanced_heights_def demo_wallet_def received_outputs_def
        pool_output_codes_def List.map_filter_simps)
  have cut: "promote_cutoff 7 7 None = 0" by (simp add: promote_cutoff_def SAFE_DEPTH_def)
  have none: "promotable_row 0 x = None" if "x \<in> List.set demo_memos" for x
    using that by (auto simp: demo_memos_def promotable_row_eq)
  have part: "partition_rows model_crates 0 7 mc ''u'' demo_memos =
      ([], [memo_row (demo_text Init ''addr'' None 0) Confirmed demo_txid (Some 7),
            memo_row (demo_text Set ''k'' (Some ''v'') 0) Confirmed demo_txid (Some 7)])"
    using none demo_tail [OF assms] by (simp add: partition_rows_eq filter_empty_conv)
  have c: "caches model_crates ''main:00'' CHR ''A'' demo_memos fresh_file ?wm empty_replay"
    by (rule caches_fresh [OF demo_stream])
  have dp: "deep_enough 7 ?wm" by (simp add: deep_enough_def)
  have past: "filter (row_past ?wm) demo_memos = demo_memos"
    by (simp add: demo_memos_def row_past_def sql_past_def demo_memo_def)
  have rw: "read_watermark fresh_file = Ok ?wm"
    using c by (simp add: caches_def)
  show ?thesis
    by (simp add: load_state_with_height_def demo_reader_def rw scan_is_filter demo_all_memos
        past un cut part heal_caches [OF c dp] load_seed_fresh demo_client_replay flip: fresh_file_def)
qed

end
