(* ===== verification/Management_Props.thy ===== *)
theory Management_Props
  imports Demo_Client
begin

text \<open>
  Owner and writer management through the write path: what a prepared grant or revocation does to the
  readers' registry, and what becomes of a second one on the same target while the first is in flight.
\<close>

section \<open>A signed management memo is honoured\<close>

abbreviation registry_op :: "op \<Rightarrow> bool" where
  "registry_op op \<equiv> op \<in> {OwnerAdd, OwnerDel, WriterAdd, WriterDel}"

text \<open>The value of the memo, for a scope handed over as \<open>Scope::to_wire\<close> makes it.\<close>

definition scope_value :: "op \<Rightarrow> scope option \<Rightarrow> str option" where
  "scope_value op caps = (if op = WriterAdd then map_option scope_to_wire caps else None)"

lemma window_target:
  assumes "registry_op op"
  shows "seq_in_window op key seq kv tv \<longleftrightarrow>
         hw tv key \<le> unat seq \<and> unat seq \<le> min (hw tv key + 256) u64_max"
  using assms
  by (cases op)
     (auto simp: seq_in_window_def hw_def word_le_nat_alt unat_sat_add64 VERSION_WINDOW_def Let_def)

lemma apply_management_canonical:
  assumes "bech32_laws E" and "key_laws E" and "canonical_pubkey E target = Some c"
  shows "apply_management E op c value a = apply_management E op target value a"
  using assms canonical_pubkey_idem [OF assms] by (simp add: apply_management_def)

lemma management_wire_ready:
  assumes "bech32_laws E" and "registry_op op" and "caps \<noteq> Some {}"
  shows "wire_ready op (pubkey_bech32 E pk) (scope_value op caps) None"
proof -
  have k: "list_all plain (pubkey_bech32 E pk)" "pubkey_bech32 E pk \<noteq> []"
    using pubkey_bech32_plain [OF assms(1)] by blast+
  have v: "list_all plain (unwrap_or (scope_value op caps) [])"
    by (cases caps) (simp_all add: scope_value_def scope_to_wire_plain)
  have "scope_value op caps \<noteq> Some []"
    using assms(3) scope_to_wire_nonempty by (auto simp: scope_value_def)
  then show ?thesis
    using assms(2) k(2) demo_word_facts(3) [OF k(1)] demo_word_facts(3,4) [OF v]
    by (auto simp: wire_ready_def)
qed

lemma honor_management:
  assumes "crates_ok E" and "wire_ready op key value None" and "registry_op op"
    and "signed_memo E sk receiver op key value version = Ok memo"
    and "rr_init r = Initialized" and "\<not> rr_finalized r"
    and "seq_in_window op key version (rr_kv_versions r) (rr_target_versions r)"
    and "signer_of E sk \<in> owners (rr_auth r)"
  shows "honor E receiver root (memo_row memo Confirmed txid bt) r =
     (r\<lparr>rr_auth := fst (apply_management E op key value (rr_auth r)),
        rr_target_versions := bump_hw (rr_target_versions r) key version\<rparr>,
      Some (result_outcome (snd (apply_management E op key value (rr_auth r)))))"
proof -
  from assms(3) have "op \<noteq> Init" and nd: "\<not> is_data op" by auto
  from signed_memo_admitted [OF assms(1,2) this(1) assms(4-7), of root Confirmed txid bt] nd assms(8)
  have "admitted E receiver root (memo_row memo Confirmed txid bt) r
      (command_of E sk receiver op key value version) (signer_of E sk)" by simp
  from honor_admitted [OF this] assms(3) show ?thesis
    by (cases op) (auto simp: apply_applied_def split: prod.splits)
qed

lemma prepare_management_on_Ok:
  assumes "prepare_management_on E Z acct es r op target scope = Ok p" and "registry_op op"
  obtains sk pk where "ac_signing_key acct = Some sk" and "parse_pubkey E target = Some pk"
    and "rr_init r = Initialized" and "\<not> rr_finalized r" and "signer_of E sk \<in> owners (rr_auth r)"
    and "signed_memo E sk (ac_receiver acct) op (pubkey_bech32 E pk) (if op = WriterAdd then scope else None)
           (target_version es r (pubkey_bech32 E pk)) = Ok (pw_memo_text p)"
proof -
  have s: "map_sum id Some (ok_or ScopeRequired scope) = Ok v \<longleftrightarrow> v = scope \<and> scope \<noteq> None" for v
    by (cases scope) auto
  from assms that show thesis
    by (auto simp: prepare_management_on_def try_ok_Inr write_gates_Ok prepare_common_Ok finish_write_Ok
        is_owner_def s split: if_splits option.splits)
qed

section \<open>Properties\<close>

definition target_ok :: "pending_entry list \<Rightarrow> replay_result \<Rightarrow> str \<Rightarrow> bool" where
  "target_ok es r target \<longleftrightarrow>
     unat (inflight_count es r target MGMT_OPS) \<le> 256 \<and> hw (rr_target_versions r) target + 256 < u64_max"

lemma unat_target_version:
  assumes "target_ok es r target"
  shows "unat (target_version es r target) =
         hw (rr_target_versions r) target + unat (inflight_count es r target MGMT_OPS)"
  using assms unat_add_lem [of "unwrap_or (rr_target_versions r target) 0" "inflight_count es r target MGMT_OPS"]
  by (auto simp: target_ok_def target_version_def hw_def u64_max_def)

lemma target_version_in_window:
  "target_ok es r target \<Longrightarrow> registry_op op \<Longrightarrow>
   seq_in_window op target (target_version es r target) kv (rr_target_versions r)"
  using unat_target_version [of es r target] window_target [of op target _ kv "rr_target_versions r"]
  by (auto simp: target_ok_def)

lemma management_honored:
  assumes E: "crates_ok E" "bech32_laws E" "key_laws E"
    and "registry_op op" and "caps \<noteq> Some {}"
    and "prepare_management_on E Z acct es r op target (map_option scope_to_wire caps) = Ok p"
    and "canonical_pubkey E target = Some c" and "target_ok es r c"
  shows "honor E (ac_receiver acct) root (memo_row (pw_memo_text p) Confirmed txid bt) r =
     (r\<lparr>rr_auth := fst (apply_management E op target (scope_value op caps) (rr_auth r)),
        rr_target_versions := bump_hw (rr_target_versions r) c (target_version es r c)\<rparr>,
      Some (result_outcome (snd (apply_management E op target (scope_value op caps) (rr_auth r)))))"
  using assms(6,4)
proof (rule prepare_management_on_Ok)
  fix sk pk
  assume r: "rr_init r = Initialized" "\<not> rr_finalized r" and own: "signer_of E sk \<in> owners (rr_auth r)"
    and pk: "parse_pubkey E target = Some pk"
    and memo: "signed_memo E sk (ac_receiver acct) op (pubkey_bech32 E pk)
      (if op = WriterAdd then map_option scope_to_wire caps else None)
      (target_version es r (pubkey_bech32 E pk)) = Ok (pw_memo_text p)"
  from pk assms(7) have c: "c = pubkey_bech32 E pk" by (simp add: canonical_pubkey_def)
  have m: "signed_memo E sk (ac_receiver acct) op c (scope_value op caps) (target_version es r c) =
      Ok (pw_memo_text p)"
    using memo by (simp add: c scope_value_def)
  have w: "wire_ready op c (scope_value op caps) None"
    using management_wire_ready [OF E(2) assms(4,5)] by (simp add: c)
  from honor_management [OF E(1) w assms(4) m r target_version_in_window [OF assms(8,4)] own]
  show ?thesis by (simp add: apply_management_canonical [OF E(2,3) assms(7)])
qed

text \<open>A second identity, and the hexadecimal form of its key.\<close>

definition demo_other :: str where
  "demo_other = pubkey_bech32 model_crates CHR ''B''"

lemma demo_other_canonical: "canonical_pubkey model_crates ''42'' = Some demo_other" "''42'' \<noteq> demo_other"
  by (simp_all add: canonical_pubkey_def parse_pubkey_def demo_other_def pubkey_bech32_def model_crates_def
      hex_value_def byte_def PUBKEY_HRP_def hex_enc_def hex_digit_def char_of_def bit_iff_odd)

lemma demo_prepare_management:
  assumes "op = OwnerAdd \<or> op = OwnerDel" and "target_version es demo_born demo_other = 0"
  shows "prepare_management_on model_crates demo_zip321 demo_account es demo_born op ''42'' None =
         Ok (demo_prepared op demo_other None 0)"
proof -
  have len: "length demo_other = 14"
    by (simp add: demo_other_def pubkey_bech32_def model_crates_def PUBKEY_HRP_def)
  have "demo_ok op demo_other None"
    using assms(1) pubkey_bech32_plain [OF bech32_laws_model, of "CHR ''B''"] len
    by (auto simp: demo_ok_def demo_word_def value_arity_def demo_other_def)
  moreover have "length (demo_text op demo_other None 0) \<le> 512"
    using assms(1) len
    by (auto simp: demo_text_def render_memo_text_def render_memo_with_comment_def memo_line1_def
        comment_line_def encode_sig_line_def WIRE_MAGIC_def demo_sig_def)
  moreover obtain pk where "parse_pubkey model_crates ''42'' = Some pk" "pubkey_bech32 model_crates pk = demo_other"
    using demo_other_canonical(1) by (auto simp: canonical_pubkey_def)
  ultimately show ?thesis
    using assms
    by (auto simp: prepare_management_on_def write_gates_def ensure_initialized_def ensure_not_finalized_def
        ensure_client_supported_def prepare_common_def demo_root_signer is_owner_def demo_signed_memo
        finish_write_def build_request_def build_payment_def request_of_def demo_prepared_def)
qed

lemma demo_target [simp]: "target_version [] demo_born t = 0" "target_ok [] demo_born t"
  by (simp_all add: target_version_def target_ok_def inflight_count_def wallet_txids_def file_txids_def
      hw_def u64_max_def)

text \<open>
  A prepared grant or revocation does to the readers' registry what \<open>apply_management\<close> says, on
  the canonical form of the target whatever form it was typed in; the row is Applied, or dropped with
  the registry's policy reason (the last owner, an owner as writer), which the client does not check.
\<close>

lemma management_applies:
  assumes "crates_ok E" and "bech32_laws E" and "key_laws E"
    and "op \<in> {OwnerAdd, OwnerDel, WriterAdd, WriterDel}" and "caps \<noteq> Some {}"
    and "prepare_management_on E Z acct es r op target (map_option scope_to_wire caps) = Ok p"
    and "canonical_pubkey E target = Some c" and "target_ok es r c"
  shows "rr_auth (fst (honor E (ac_receiver acct) root (memo_row (pw_memo_text p) Confirmed txid bt) r)) =
           fst (apply_management E op c (scope_value op caps) (rr_auth r)) \<and>
         snd (honor E (ac_receiver acct) root (memo_row (pw_memo_text p) Confirmed txid bt) r) =
           Some (result_outcome (snd (apply_management E op c (scope_value op caps) (rr_auth r))))"
  using management_honored [OF assms] apply_management_canonical [OF assms(2,3,7)] by simp

text \<open>The rows of the pending file count for a target only under its canonical name.\<close>

lemma raw_target_not_counted:
  "target \<noteq> c \<Longrightarrow> pe_key e = target \<Longrightarrow> target_version (es @ [e]) r c = target_version es r c"
  by (simp add: target_version_def inflight_count_def file_txids_def)

lemma record_pending_rows:
  assumes "cl_io c" and "lo_pending L \<noteq> Unreadable"
  shows "pending_rows (cl_now c) (lo_pending (record_pending c txid op key value memo L)) =
         pending_rows (cl_now c) (lo_pending L) @
           [\<lparr>pe_txid = txid, pe_op = op_as_str op, pe_key = key, pe_value = value, pe_memo = Some memo,
             pe_broadcast_at_unix = cl_now c\<rparr>]"
proof -
  have f: "still_fresh (cl_now c) e" if "pe_broadcast_at_unix e = cl_now c" for e
    using that by (simp add: still_fresh_def)
  show ?thesis
    using assms
    by (cases "lo_pending L") (simp_all add: record_pending_def append_pending_def write_all_def f)
qed

text \<open>
  A target typed in a form other than its canonical one loses its in-flight count:
  \<open>manage_and_broadcast\<close> records the typed form as the key of the pending row, while
  \<open>prepare_management\<close> counts rows under the canonical form. So a second management write to the same
  target is signed over the version of the first, and once the first is confirmed the readers drop
  the second as stale.
\<close>

lemma second_grant_in_raw_form_is_lost:
  assumes "crates_ok E" and "bech32_laws E" and "key_laws E"
    and "op1 \<in> {OwnerAdd, OwnerDel, WriterAdd, WriterDel}" and "op2 \<in> {OwnerAdd, OwnerDel, WriterAdd, WriterDel}"
    and "caps1 \<noteq> Some {}" and "caps2 \<noteq> Some {}"
    and "canonical_pubkey E target = Some c" and "target \<noteq> c"
    and "cl_io cl" and "lo_pending L \<noteq> Unreadable"
    and "es = pending_rows (cl_now cl) (lo_pending L)" and "target_ok es r c"
    and "prepare_management_on E Z acct es r op1 target (map_option scope_to_wire caps1) = Ok p1"
    and "es' = pending_rows (cl_now cl) (lo_pending
           (record_pending cl txid1 op1 target (map_option scope_to_wire caps1) (pw_memo_text p1) L))"
    and "prepare_management_on E Z acct es' r op2 target (map_option scope_to_wire caps2) = Ok p2"
  shows "snd (honor E (ac_receiver acct) root (memo_row (pw_memo_text p2) Confirmed txid2 bt)
           (fst (honor E (ac_receiver acct) root (memo_row (pw_memo_text p1) Confirmed txid1 bt) r))) =
         Some (Dropped StaleVersion)"
  using assms(16,5)
proof (rule prepare_management_on_Ok)
  fix sk pk
  assume pk: "parse_pubkey E target = Some pk"
    and memo: "signed_memo E sk (ac_receiver acct) op2 (pubkey_bech32 E pk)
      (if op2 = WriterAdd then map_option scope_to_wire caps2 else None)
      (target_version es' r (pubkey_bech32 E pk)) = Ok (pw_memo_text p2)"
  from pk assms(8) have c: "c = pubkey_bech32 E pk" by (simp add: canonical_pubkey_def)
  have v: "target_version es' r c = target_version es r c"
    unfolding assms(15) record_pending_rows [OF assms(10,11)] assms(12) [symmetric]
    using assms(9) by (rule raw_target_not_counted) simp
  have m: "signed_memo E sk (ac_receiver acct) op2 c (scope_value op2 caps2) (target_version es r c) =
      Ok (pw_memo_text p2)"
    using memo by (simp add: c [symmetric] scope_value_def v)
  have w: "wire_ready op2 c (scope_value op2 caps2) None"
    using management_wire_ready [OF assms(2,5,7)] by (simp add: c)
  let ?r = "r\<lparr>rr_auth := fst (apply_management E op1 target (scope_value op1 caps1) (rr_auth r)),
        rr_target_versions := bump_hw (rr_target_versions r) c (target_version es r c)\<rparr>"
  have h: "fst (honor E (ac_receiver acct) root (memo_row (pw_memo_text p1) Confirmed txid1 bt) r) = ?r"
    using management_honored [OF assms(1-4,6,14,8,13)] by simp
  have "unat (target_version es r c) < u64_max"
    using assms(13) unat_target_version [OF assms(13)] by (auto simp: target_ok_def)
  then have "hw (rr_target_versions ?r) c = Suc (unat (target_version es r c)) \<or>
      hw (rr_target_versions ?r) c > unat (target_version es r c)"
    by (simp add: hw_bump_hw max_def)
  then have "\<not> seq_in_window op2 c (target_version es r c) (rr_kv_versions ?r) (rr_target_versions ?r)"
    unfolding window_target [OF assms(5)] by linarith
  moreover have "op2 \<noteq> Init" using assms(5) by auto
  ultimately show ?thesis
    unfolding h using honor_stale [OF assms(1) w _ m] by simp
qed

end
