(* ===== verification/Facade.thy ===== *)
theory Facade
  imports Write_Path Roles
begin

text \<open>
  \<open>db.rs\<close>: the \<open>Database\<close> handle over the read and write paths. Reads replay the local files and merge
  the rows of the pending file; writes check the role, start the engine and map errors to the
  structured \<open>ZkvError\<close>. Variants that carry an \<open>anyhow\<close> error are kept with their cause.
\<close>

section \<open>Types\<close>

datatype confirmations = Mempool | OneBlock | DefaultDepth | Custom u32

fun as_u32 :: "confirmations \<Rightarrow> u32" where
  "as_u32 Mempool = 0"
| "as_u32 OneBlock = 1"
| "as_u32 DefaultDepth = 3"
| "as_u32 (Custom n) = n"

datatype gated_op = GSync | GRead | GWrite

fun gated_op_str :: "gated_op \<Rightarrow> str" where
  "gated_op_str GSync = ''syncing''"
| "gated_op_str GRead = ''reading''"
| "gated_op_str GWrite = ''writing''"

datatype zkv_error =
  ZNotInitialized | ZInitializing u32 u32 | ZWatchOnly | Importing | ZImportFailed str
| Unauthorized write_error | ZInsufficientFunds nat nat nat | ZClientUpgradeRequired u32 u32 gated_op
| OtherWrite write_error | OtherRead read_error | OtherEngine engine_error | EmptyWriteMany | OtherAudit

definition require_supported :: "version_state \<Rightarrow> gated_op \<Rightarrow> zkv_error + unit" where
  "require_supported version operation =
     (let blocked = (case operation of
          GSync \<Rightarrow> blocks_sync version
        | GRead \<Rightarrow> blocks_read version
        | GWrite \<Rightarrow> blocks_write version)
      in if blocked then Err (ZClientUpgradeRequired (vs_version version) MAX_DB_VERSION operation)
         else Ok ())"

definition map_engine_error :: "engine_error \<Rightarrow> zkv_error" where
  "map_engine_error e =
     (case e of
        NotImported w \<Rightarrow> Importing
      | ImportFailed w reason \<Rightarrow> ZImportFailed reason
      | _ \<Rightarrow> OtherEngine e)"

fun map_write_error :: "write_error \<Rightarrow> zkv_error" where
  "map_write_error WatchOnly = ZWatchOnly"
| "map_write_error (UnauthorizedData op key) = Unauthorized (UnauthorizedData op key)"
| "map_write_error (OwnerOnly op) = Unauthorized (OwnerOnly op)"
| "map_write_error WNotInitialized = ZNotInitialized"
| "map_write_error (WInitializing done required) = ZInitializing done required"
| "map_write_error (ClientUpgradeRequired required supported) = ZClientUpgradeRequired required supported GWrite"
| "map_write_error (InsufficientFunds available required incoming) =
     ZInsufficientFunds available required incoming"
| "map_write_error e = OtherWrite e"

fun map_err :: "('e \<Rightarrow> 'f) \<Rightarrow> 'e + 'a \<Rightarrow> 'f + 'a" where
  "map_err f (Inl e) = Inl (f e)"
| "map_err f (Inr x) = Inr x"

section \<open>Merging the pending rows\<close>

definition merge_init :: "pending_entry list \<Rightarrow> u32 \<Rightarrow> replay_result \<Rightarrow> replay_result" where
  "merge_init es min_confs r =
     (if rr_init r = Uninitialized \<and> list_ex (\<lambda>e. pe_op e = ''INIT'') es
      then r\<lparr>rr_init := Initializing 0 (max min_confs 1)\<rparr> else r)"

text \<open>\<open>retain\<close> in each queue, then \<open>retain\<close> on the map.\<close>

definition retain_own :: "str list \<Rightarrow> key_state \<Rightarrow> key_state" where
  "retain_own local_txids ks =
     ks\<lparr>pending := filter (\<lambda>p. 1 \<le> pending_done p \<or> pending_txid p \<in> List.set local_txids) (pending ks)\<rparr>"

definition retain_visible :: "str list \<Rightarrow> (str \<rightharpoonup> key_state) \<Rightarrow> (str \<rightharpoonup> key_state)" where
  "retain_visible local_txids m = prune (\<lambda>k. map_option (retain_own local_txids) (m k))"

definition seen_txids :: "(str \<rightharpoonup> key_state) \<Rightarrow> str set" where
  "seen_txids m = (\<Union>ks \<in> ran m. pending_txid ` List.set (pending ks))"

definition synthesized :: "u32 \<Rightarrow> pending_entry \<Rightarrow> pending_op option" where
  "synthesized min_confs e =
     (if pe_op e = ''SET'' \<or> pe_op e = ''SETL''
      then Some (PSet (unwrap_or (pe_value e) []) 0 (max min_confs 1) (pe_txid e))
      else if pe_op e = ''DEL'' then Some (PDel 0 (max min_confs 1) (pe_txid e))
      else None)"

definition merge_entry ::
    "str set \<Rightarrow> u32 \<Rightarrow> pending_entry \<Rightarrow> (str \<rightharpoonup> key_state) \<Rightarrow> (str \<rightharpoonup> key_state)" where
  "merge_entry seen min_confs e m =
     (if pe_op e = ''INIT'' \<or> pe_txid e \<in> seen then m
      else (case synthesized min_confs e of
              None \<Rightarrow> m
            | Some p \<Rightarrow>
                (let ks = entry_or_default m (pe_key e)
                 in m(pe_key e \<mapsto> ks\<lparr>pending := pending ks @ [p]\<rparr>))))"

definition merge_pending :: "nat \<Rightarrow> pending_disk \<Rightarrow> u32 \<Rightarrow> replay_result \<Rightarrow> replay_result" where
  "merge_pending now disk min_confs r =
     (case load_pending now disk of
        Inl e \<Rightarrow> r
      | Inr es \<Rightarrow>
          (let r1 = merge_init es min_confs r;
               m = (if 1 \<le> min_confs then retain_visible (map pe_txid es) (rr_state r1) else rr_state r1)
           in r1\<lparr>rr_state := fold (merge_entry (seen_txids m) min_confs) es m\<rparr>))"

section \<open>Reads\<close>

record read_result =
  rs_replay :: replay_result
  rs_as_of_height :: "u32 option"

definition read_at ::
    "('pk, 'sk) crates \<Rightarrow> 'pk \<Rightarrow> 'sk client \<Rightarrow> confirmations \<Rightarrow> local_db \<Rightarrow>
     local_db \<times> (zkv_error + read_result)" where
  "read_at E pk c depth L =
     (let min_confs = as_u32 depth;
          (file, res) = load_state_with_height E (cl_reader c) pk (lo_wallet L) (lo_tip L) (lo_scanned L)
            (lo_snapshot L) min_confs False
      in (L\<lparr>lo_snapshot := file\<rparr>,
          try_ok (map_err OtherRead res) (\<lambda>(replay, tip).
            Ok \<lparr>rs_replay = merge_pending (cl_now c) (lo_pending L) min_confs replay,
                rs_as_of_height = (if tip \<noteq> 0 then Some tip else None)\<rparr>)))"

definition read_db ::
    "('pk, 'sk) crates \<Rightarrow> 'pk \<Rightarrow> 'sk client \<Rightarrow> confirmations \<Rightarrow> local_db \<Rightarrow>
     local_db \<times> (zkv_error + replay_result)" where
  "read_db E pk c depth L = map_prod id (\<lambda>res. try_ok res (\<lambda>r. Ok (rs_replay r))) (read_at E pk c depth L)"

text \<open>The accessors on a read.\<close>

definition get_value ::
    "('pk, 'sk) crates \<Rightarrow> 'pk \<Rightarrow> 'sk client \<Rightarrow> str \<Rightarrow> confirmations \<Rightarrow> local_db \<Rightarrow>
     local_db \<times> (zkv_error + str option)" where
  "get_value E pk c key depth L =
     map_prod id (\<lambda>res. try_ok res (\<lambda>r. Ok (Option.bind (rr_state r key) confirmed))) (read_db E pk c depth L)"

definition init_state_of ::
    "('pk, 'sk) crates \<Rightarrow> 'pk \<Rightarrow> 'sk client \<Rightarrow> confirmations \<Rightarrow> local_db \<Rightarrow>
     local_db \<times> (zkv_error + init_state)" where
  "init_state_of E pk c depth L = map_prod id (\<lambda>res. try_ok res (\<lambda>r. Ok (rr_init r))) (read_db E pk c depth L)"

definition roles_of ::
    "('pk, 'sk) crates \<Rightarrow> 'pk \<Rightarrow> 'sk client \<Rightarrow> confirmations \<Rightarrow> local_db \<Rightarrow>
     local_db \<times> (zkv_error + auth_registry)" where
  "roles_of E pk c depth L = map_prod id (\<lambda>res. try_ok res (\<lambda>r. Ok (rr_auth r))) (read_db E pk c depth L)"

definition version_of ::
    "('pk, 'sk) crates \<Rightarrow> 'pk \<Rightarrow> 'sk client \<Rightarrow> confirmations \<Rightarrow> local_db \<Rightarrow>
     local_db \<times> (zkv_error + version_state)" where
  "version_of E pk c depth L = map_prod id (\<lambda>res. try_ok res (\<lambda>r. Ok (rr_version r))) (read_db E pk c depth L)"

definition is_finalized ::
    "('pk, 'sk) crates \<Rightarrow> 'pk \<Rightarrow> 'sk client \<Rightarrow> confirmations \<Rightarrow> local_db \<Rightarrow> local_db \<times> (zkv_error + bool)" where
  "is_finalized E pk c depth L = map_prod id (\<lambda>res. try_ok res (\<lambda>r. Ok (rr_finalized r))) (read_db E pk c depth L)"

definition audit_db ::
    "('pk, 'sk) crates \<Rightarrow> 'pk \<Rightarrow> 'sk client \<Rightarrow> confirmations \<Rightarrow> local_db \<Rightarrow> zkv_error + audit_result" where
  "audit_db E pk c depth L =
     (case load_audit E (cl_reader c) pk (lo_wallet L) (lo_tip L) (as_u32 depth) of
        None \<Rightarrow> Err OtherAudit
      | Some a \<Rightarrow> Ok a)"

definition revoked_roles_of ::
    "('pk, 'sk) crates \<Rightarrow> 'pk \<Rightarrow> 'sk client \<Rightarrow> confirmations \<Rightarrow> local_db \<Rightarrow>
     zkv_error + revoked_role list" where
  "revoked_roles_of E pk c depth L = try_ok (audit_db E pk c depth L) (\<lambda>a. Ok (revoked_roles a))"

section \<open>Writes\<close>

text \<open>The role gate, then the engine: its start may fail, as the argument \<open>start\<close> says.\<close>

definition with_engine ::
    "'sk client \<Rightarrow> engine_error option \<Rightarrow> (local_db \<Rightarrow> local_db \<times> (write_error + 'a)) \<Rightarrow> local_db \<Rightarrow>
     local_db \<times> (zkv_error + 'a)" where
  "with_engine c start f L =
     (if ac_role (cl_account c) \<noteq> Admin then (L, Err ZWatchOnly)
      else (case start of
              Some e \<Rightarrow> (L, Err (map_engine_error e))
            | None \<Rightarrow> map_prod id (map_err map_write_error) (f L)))"

definition do_write ::
    "('pk, 'sk) crates \<Rightarrow> 'pk \<Rightarrow> 'sk client \<Rightarrow> engine_error option \<Rightarrow> bool \<Rightarrow> op \<Rightarrow> str \<Rightarrow> str option \<Rightarrow>
     local_db \<Rightarrow> local_db \<times> (zkv_error + str)" where
  "do_write E pk c start no_sync op key value =
     with_engine c start (write_and_broadcast E pk c no_sync op key value)"

definition set_key ::
    "('pk, 'sk) crates \<Rightarrow> 'pk \<Rightarrow> 'sk client \<Rightarrow> engine_error option \<Rightarrow> bool \<Rightarrow> str \<Rightarrow> str \<Rightarrow>
     local_db \<Rightarrow> local_db \<times> (zkv_error + str)" where
  "set_key E pk c start no_sync key value =
     do_write E pk c start no_sync (set_for_value value) key (Some value)"

definition del_key ::
    "('pk, 'sk) crates \<Rightarrow> 'pk \<Rightarrow> 'sk client \<Rightarrow> engine_error option \<Rightarrow> bool \<Rightarrow> str \<Rightarrow>
     local_db \<Rightarrow> local_db \<times> (zkv_error + str)" where
  "del_key E pk c start no_sync key = do_write E pk c start no_sync Del key None"

datatype write_op = SetOp str str | DelOp str

fun batch_item_of :: "write_op \<Rightarrow> batch_item" where
  "batch_item_of (SetOp key value) =
     \<lparr>bi_op = set_for_value value, bi_key = key, bi_value = Some value\<rparr>"
| "batch_item_of (DelOp key) = \<lparr>bi_op = Del, bi_key = key, bi_value = None\<rparr>"

definition do_write_many ::
    "('pk, 'sk) crates \<Rightarrow> 'pk \<Rightarrow> 'sk client \<Rightarrow> engine_error option \<Rightarrow> bool \<Rightarrow> write_op list \<Rightarrow>
     local_db \<Rightarrow> local_db \<times> (zkv_error + str)" where
  "do_write_many E pk c start no_sync ops L =
     (if ac_role (cl_account c) \<noteq> Admin then (L, Err ZWatchOnly)
      else if ops = [] then (L, Err EmptyWriteMany)
      else with_engine c start (write_many_and_broadcast E pk c no_sync (map batch_item_of ops)) L)"

definition set_many ::
    "('pk, 'sk) crates \<Rightarrow> 'pk \<Rightarrow> 'sk client \<Rightarrow> engine_error option \<Rightarrow> bool \<Rightarrow> (str \<times> str) list \<Rightarrow>
     local_db \<Rightarrow> local_db \<times> (zkv_error + str)" where
  "set_many E pk c start no_sync pairs =
     do_write_many E pk c start no_sync (map (\<lambda>(k, v). SetOp k v) pairs)"

definition do_manage ::
    "('pk, 'sk) crates \<Rightarrow> 'pk \<Rightarrow> 'sk client \<Rightarrow> engine_error option \<Rightarrow> bool \<Rightarrow> op \<Rightarrow> str \<Rightarrow> str option \<Rightarrow>
     local_db \<Rightarrow> local_db \<times> (zkv_error + str)" where
  "do_manage E pk c start no_sync op target scope =
     with_engine c start (manage_and_broadcast E pk c no_sync op target scope)"

definition grant_owner where
  "grant_owner E pk c start no_sync pubkey = do_manage E pk c start no_sync OwnerAdd pubkey None"

definition revoke_owner where
  "revoke_owner E pk c start no_sync pubkey = do_manage E pk c start no_sync OwnerDel pubkey None"

definition grant_writer where
  "grant_writer E pk c start no_sync pubkey scope =
     do_manage E pk c start no_sync WriterAdd pubkey (Some (scope_to_wire scope))"

definition revoke_writer where
  "revoke_writer E pk c start no_sync pubkey = do_manage E pk c start no_sync WriterDel pubkey None"

definition finalize_db where
  "finalize_db E pk c start no_sync = do_manage E pk c start no_sync Finalize [] None"

definition init_db ::
    "('pk, 'sk) crates \<Rightarrow> 'sk client \<Rightarrow> engine_error option \<Rightarrow> local_db \<Rightarrow> local_db \<times> (zkv_error + str)" where
  "init_db E c start = with_engine c start (broadcast_init E c)"

text \<open>The prepared forms check the role and need no engine.\<close>

definition if_admin ::
    "'sk client \<Rightarrow> (local_db \<Rightarrow> local_db \<times> (write_error + 'a)) \<Rightarrow> local_db \<Rightarrow>
     local_db \<times> (zkv_error + 'a)" where
  "if_admin c f L =
     (if ac_role (cl_account c) \<noteq> Admin then (L, Err ZWatchOnly)
      else map_prod id (map_err map_write_error) (f L))"

definition prepare_set where
  "prepare_set E pk c key value = if_admin c (prepare E pk c (set_for_value value) key (Some value))"

definition prepare_setl where
  "prepare_setl E pk c key value = if_admin c (prepare E pk c SetL key (Some value))"

definition prepare_del where
  "prepare_del E pk c key = if_admin c (prepare E pk c Del key None)"

definition prepare_management_db where
  "prepare_management_db E pk c op target scope =
     if_admin c (prepare_management E pk c op target (map_option scope_to_wire scope))"

text \<open>\<open>prepare_init\<close> does not map its error.\<close>

definition prepare_init_db ::
    "('pk, 'sk) crates \<Rightarrow> 'sk client \<Rightarrow> zkv_error + prepared_write" where
  "prepare_init_db E c =
     (if ac_role (cl_account c) \<noteq> Admin then Err ZWatchOnly
      else map_err OtherWrite (prepare_init E (cl_zip321 c) (cl_account c)))"

end
