(* ===== verification/Facade_Props.thy ===== *)
theory Facade_Props
  imports Facade Management_Props
begin

text \<open>
  What a client of the handle can rely on: its own writes show up as pending at once and stay visible
  until the chain shows them, and pending rows never change what is confirmed.
\<close>

section \<open>The merge\<close>

lemma confirmed_retain_visible [simp]: "confirmed_values (retain_visible own m) = confirmed_values m"
proof -
  have "confirmed_values (\<lambda>k. map_option (retain_own own) (m k)) = confirmed_values m"
  proof
    fix k
    show "confirmed_values (\<lambda>k. map_option (retain_own own) (m k)) k = confirmed_values m k"
      by (cases "m k") (simp_all add: confirmed_values_def retain_own_def)
  qed
  then show ?thesis by (simp add: retain_visible_def)
qed

lemma confirmed_merge_entry [simp]: "confirmed_values (merge_entry seen mc e m) = confirmed_values m"
proof -
  have "(confirmed_values m)(k := confirmed_values m k) = confirmed_values m" for k by simp
  then show ?thesis
    by (auto simp: merge_entry_def Let_def confirmed_values_put confirmed_entry split: option.splits)
qed

lemma confirmed_merge_entries: "confirmed_values (fold (merge_entry seen mc) es m) = confirmed_values m"
  by (induction es arbitrary: m) simp_all

lemma merge_init_sel [simp]:
  "rr_state (merge_init es mc r) = rr_state r" "rr_auth (merge_init es mc r) = rr_auth r"
  "rr_finalized (merge_init es mc r) = rr_finalized r" "rr_version (merge_init es mc r) = rr_version r"
  "rr_kv_versions (merge_init es mc r) = rr_kv_versions r"
  "rr_target_versions (merge_init es mc r) = rr_target_versions r"
  "rr_init (merge_init es mc r) = Initialized \<longleftrightarrow> rr_init r = Initialized"
  by (simp_all add: merge_init_def)

text \<open>
  Pending rows never pass for confirmed state: merging the pending file into a read, at any depth
  and whatever the file holds, leaves the confirmed values, the registry, the seal, the epoch, the
  counters and the initialised verdict as the replay computed them.
\<close>

lemma merge_keeps_confirmed:
  "confirmed_values (rr_state (merge_pending now disk min_confs r)) = confirmed_values (rr_state r) \<and>
   rr_auth (merge_pending now disk min_confs r) = rr_auth r \<and>
   rr_finalized (merge_pending now disk min_confs r) = rr_finalized r \<and>
   rr_version (merge_pending now disk min_confs r) = rr_version r \<and>
   rr_kv_versions (merge_pending now disk min_confs r) = rr_kv_versions r \<and>
   rr_target_versions (merge_pending now disk min_confs r) = rr_target_versions r \<and>
   (rr_init (merge_pending now disk min_confs r) = Initialized \<longleftrightarrow> rr_init r = Initialized)"
  by (simp add: merge_pending_def Let_def confirmed_merge_entries split: sum.splits)

section \<open>Reading one's own writes\<close>

lemma read_for_write_pending:
  "read_for_write E pk c L = (L', res) \<Longrightarrow> lo_pending L' = lo_pending L"
  by (auto simp: read_for_write_def split: prod.splits)

lemma prepare_pending: "prepare E pk c op key value L = (L', res) \<Longrightarrow> lo_pending L' = lo_pending L"
  by (auto simp: prepare_def read_for_write_pending split: prod.splits)

lemma gc_readable: "disk \<noteq> Unreadable \<Longrightarrow> gc_pending E io now w disk \<noteq> Unreadable"
  by (cases disk) (auto simp: gc_pending_def prune_pending_rows_def write_all_def)

lemma sync_first_readable:
  "sync_first E c no_sync L = (L', res) \<Longrightarrow> lo_pending L \<noteq> Unreadable \<Longrightarrow> lo_pending L' \<noteq> Unreadable"
  by (auto simp: sync_first_def Let_def gc_readable split: if_splits prod.splits sum.splits)

text \<open>A broadcast leaves its row at the end of the pending file.\<close>

lemma write_and_broadcast_row:
  assumes "write_and_broadcast E pk c no_sync op key value L = (L', Ok txid)"
    and "cl_io c" and "lo_pending L \<noteq> Unreadable"
  obtains es memo where "pending_rows (cl_now c) (lo_pending L') =
    es @ [\<lparr>pe_txid = txid, pe_op = op_as_str op, pe_key = key, pe_value = value, pe_memo = Some memo,
           pe_broadcast_at_unix = cl_now c\<rparr>]" and "lo_pending L' \<noteq> Unreadable"
proof -
  obtain L1 u where s: "sync_first E c no_sync L = (L1, Ok u)"
    using assms(1) by (auto simp: write_and_broadcast_def split: prod.splits sum.splits)
  with assms(1) obtain L2 p where p: "prepare E pk c op key value L1 = (L2, Ok p)"
    by (auto simp: write_and_broadcast_def split: prod.splits sum.splits)
  from assms(1) have L': "L' = record_pending c txid op key value (pw_memo_text p) L2"
    by (auto simp: write_and_broadcast_def s p ship_and_record_def split: sum.splits)
  have r: "lo_pending L2 \<noteq> Unreadable"
    using sync_first_readable [OF s assms(3)] prepare_pending [OF p] by simp
  note rows = record_pending_rows [OF assms(2) r, of txid op key "value" "pw_memo_text p"]
  have "lo_pending L' \<noteq> Unreadable"
  proof
    assume "lo_pending L' = Unreadable"
    then show False using rows L' by simp
  qed
  from that [OF _ this] rows L' show thesis by blast
qed

lemma seen_retain: "seen_txids (retain_visible own m) \<subseteq> seen_txids m"
proof
  fix t assume "t \<in> seen_txids (retain_visible own m)"
  then obtain k ks where k: "retain_visible own m k = Some ks" and t: "t \<in> pending_txid ` List.set (pending ks)"
    by (auto simp: seen_txids_def ran_def)
  from k obtain ks0 where m: "m k = Some ks0" and ks: "ks = retain_own own ks0"
    by (auto simp: retain_visible_def prune_def split: option.splits if_splits)
  from t have "t \<in> pending_txid ` List.set (pending ks0)"
    by (auto simp: ks retain_own_def)
  with m show "t \<in> seen_txids m" by (auto simp: seen_txids_def ran_def)
qed

lemma merge_last_row:
  assumes "load_pending now disk = Ok (es @ [e])" and "pe_op e = ''SET'' \<or> pe_op e = ''SETL''"
    and "pe_txid e \<notin> seen_txids (rr_state r)"
  shows "\<exists>ks queue. rr_state (merge_pending now disk mc r) (pe_key e) = Some ks \<and>
     pending ks = queue @ [PSet (unwrap_or (pe_value e) []) 0 (max mc 1) (pe_txid e)]"
proof -
  let ?m = "if 1 \<le> mc then retain_visible (map pe_txid (es @ [e])) (rr_state r) else rr_state r"
  let ?f = "fold (merge_entry (seen_txids ?m) mc) es ?m"
  have "pe_txid e \<notin> seen_txids ?m"
    using assms(3) seen_retain by (auto split: if_splits)
  moreover have "pe_op e \<noteq> ''INIT''" using assms(2) by auto
  moreover have "synthesized mc e = Some (PSet (unwrap_or (pe_value e) []) 0 (max mc 1) (pe_txid e))"
    using assms(2) by (simp add: synthesized_def)
  ultimately have "merge_entry (seen_txids ?m) mc e ?f =
      ?f(pe_key e \<mapsto> (entry_or_default ?f (pe_key e))\<lparr>pending :=
        pending (entry_or_default ?f (pe_key e)) @ [PSet (unwrap_or (pe_value e) []) 0 (max mc 1) (pe_txid e)]\<rparr>)"
    by (simp only: merge_entry_def option.case Let_def if_False disj_not1 simp_thms)
  moreover have "rr_state (merge_pending now disk mc r) = merge_entry (seen_txids ?m) mc e ?f"
    unfolding merge_pending_def assms(1)
    by (simp only: sum.case Let_def merge_init_sel fold_append fold_Cons fold_Nil comp_apply id_apply
        replay_result.select_convs replay_result.update_convs) simp
  ultimately show ?thesis by simp
qed

text \<open>
  What a \<open>set\<close> leaves, any later read shows, also one by a later client, until the row is stale.
\<close>

lemma set_then_read:
  assumes "set_key E pk c start no_sync key value L = (L', Ok txid)"
    and "cl_io c" and "lo_pending L \<noteq> Unreadable"
    and "cl_now c \<le> cl_now d" and "cl_now d - cl_now c \<le> STALE_AFTER_SECS"
    and "load_state_with_height E (cl_reader d) pk (lo_wallet L') (lo_tip L') (lo_scanned L') (lo_snapshot L')
           (as_u32 depth) False = (file, Ok (replay, tip))"
    and "txid \<notin> seen_txids (rr_state replay)"
  shows "\<exists>r ks queue. read_db E pk d depth L' = (L'\<lparr>lo_snapshot := file\<rparr>, Ok r) \<and> rr_state r key = Some ks \<and>
     pending ks = queue @ [PSet value 0 (max (as_u32 depth) 1) txid]"
proof -
  let ?op = "set_for_value value"
  from assms(1) have w: "write_and_broadcast E pk c no_sync ?op key (Some value) L = (L', Ok txid)"
    by (cases "write_and_broadcast E pk c no_sync ?op key (Some value) L"; cases "snd (write_and_broadcast E pk c no_sync ?op key (Some value) L)")
       (auto simp: set_key_def do_write_def with_engine_def split: if_splits option.splits)
  from write_and_broadcast_row [OF w assms(2,3)]
  obtain es memo where rows: "pending_rows (cl_now c) (lo_pending L') =
      es @ [\<lparr>pe_txid = txid, pe_op = op_as_str ?op, pe_key = key, pe_value = Some value, pe_memo = Some memo,
             pe_broadcast_at_unix = cl_now c\<rparr>]" (is "_ = es @ [?e]") and "lo_pending L' \<noteq> Unreadable" .
  moreover have "still_fresh (cl_now d) ?e" using assms(5) by (simp add: still_fresh_def)
  ultimately have "load_pending (cl_now d) (lo_pending L') = Ok (filter (still_fresh (cl_now d)) es @ [?e])"
    using pending_rows_age [OF assms(4), of "lo_pending L'"] by (cases "lo_pending L'") auto
  moreover have "pe_op ?e = ''SET'' \<or> pe_op ?e = ''SETL''" by (simp add: set_for_value_def)
  ultimately obtain ks queue where
    "rr_state (merge_pending (cl_now d) (lo_pending L') (as_u32 depth) replay) key = Some ks"
    and "pending ks = queue @ [PSet value 0 (max (as_u32 depth) 1) txid]"
    using merge_last_row [of "cl_now d" "lo_pending L'" _ ?e replay "as_u32 depth"] assms(7) by fastforce
  then show ?thesis by (simp add: read_db_def read_at_def assms(6))
qed

text \<open>
  C20. A client reads its own writes: once \<open>set\<close> has returned a transaction id, a read at any depth that
  the wallet can serve, before the wallet shows that transaction, has the key with the value written
  as the last of its pending operations, marked with the transaction.
\<close>

theorem read_your_writes:
  assumes "set_key E pk c start no_sync key value L = (L', Ok txid)"
    and "cl_io c" and "lo_pending L \<noteq> Unreadable"
    and "load_state_with_height E (cl_reader c) pk (lo_wallet L') (lo_tip L') (lo_scanned L') (lo_snapshot L')
           (as_u32 depth) False = (file, Ok (replay, tip))"
    and "txid \<notin> seen_txids (rr_state replay)"
  shows "\<exists>r ks queue. read_db E pk c depth L' = (L'\<lparr>lo_snapshot := file\<rparr>, Ok r) \<and> rr_state r key = Some ks \<and>
     pending ks = queue @ [PSet value 0 (max (as_u32 depth) 1) txid]"
  by (rule set_then_read [OF assms(1-3) _ _ assms(4,5)]) simp_all

lemma demo_ok_z: "demo_ok Set ''z'' (Some ''w'')"
  by (simp add: demo_ok_def demo_word_def value_arity_def plain_def byte_def)

text \<open>The demonstration client sets \<open>z\<close> to \<open>w\<close>.\<close>

lemma demo_set_any:
  assumes "demo_ok Set key (Some value)" and "key \<noteq> ''k''" and "set_for_value value = Set"
    and "length (demo_text Set key (Some value) 0) \<le> 512"
  shows "set_key model_crates CHR ''A'' demo_client None True key value demo_local =
   (record_pending demo_client ''t1'' Set key (Some value) (demo_text Set key (Some value) 0) demo_local,
    Ok ''t1'')"
proof -
  have v: "data_version [] demo_state key = 0"
    using assms(2) by (simp add: data_version_def inflight_count_def wallet_txids_def file_txids_def)
  have "prepare_on model_crates demo_zip321 demo_account [] demo_state Set key (Some value) =
      Ok (demo_prepared Set key (Some value) 0)"
    using demo_prepare_on [OF assms(1), of "[]" demo_state] assms(4) by (simp add: v)
  moreover note assms(3)
  moreover have "INIT_CONFIRMATIONS \<le> 3" by (simp add: INIT_CONFIRMATIONS_def)
  ultimately show ?thesis
    by (simp add: set_key_def do_write_def with_engine_def write_and_broadcast_def sync_first_def
        prepare_def read_for_write_def load_state_def demo_load ship_and_record_def demo_prepared_def)
       (simp add: record_pending_def demo_local_def)
qed

lemma demo_set:
  "set_key model_crates CHR ''A'' demo_client None True ''z'' ''w'' demo_local =
   (record_pending demo_client ''t1'' Set ''z'' (Some ''w'') (demo_text Set ''z'' (Some ''w'') 0) demo_local,
    Ok ''t1'')"
  by (rule demo_set_any [OF demo_ok_z])
     (simp_all add: set_for_value_def demo_text_def render_memo_text_def render_memo_with_comment_def
        memo_line1_def comment_line_def encode_sig_line_def WIRE_MAGIC_def demo_sig_def)

lemma demo_recorded:
  "lo_wallet (record_pending demo_client t op k v m demo_local) = demo_wallet"
  "lo_tip (record_pending demo_client t op k v m demo_local) = 7"
  "lo_scanned (record_pending demo_client t op k v m demo_local) = 7"
  "lo_snapshot (record_pending demo_client t op k v m demo_local) = open_snapshot empty_file"
  by (simp_all add: record_pending_def demo_local_def)

theorem read_your_writes_witness:
  "\<exists>L' r ks queue.
     set_key model_crates CHR ''A'' demo_client None True ''z'' ''w'' demo_local = (L', Ok ''t1'') \<and>
     read_db model_crates CHR ''A'' demo_client DefaultDepth L' = (L', Ok r) \<and> rr_state r ''z'' = Some ks \<and>
     pending ks = queue @ [PSet ''w'' 0 3 ''t1'']"
proof -
  let ?L = "record_pending demo_client ''t1'' Set ''z'' (Some ''w'') (demo_text Set ''z'' (Some ''w'') 0) demo_local"
  have L: "?L\<lparr>lo_snapshot := open_snapshot empty_file\<rparr> = ?L"
    by (simp add: record_pending_def demo_local_def)
  have "load_state_with_height model_crates (cl_reader demo_client) CHR ''A'' (lo_wallet ?L) (lo_tip ?L)
      (lo_scanned ?L) (lo_snapshot ?L) (as_u32 DefaultDepth) False = (open_snapshot empty_file, Ok (demo_state, 7))"
    by (simp add: demo_recorded demo_load)
  moreover have "''t1'' \<notin> seen_txids (rr_state demo_state)" by (simp add: seen_txids_def)
  ultimately show ?thesis
    using read_your_writes [OF demo_set, of DefaultDepth "open_snapshot empty_file" demo_state 7]
    by (auto simp: demo_set L)
qed

section \<open>Collection\<close>

text \<open>A wallet database with one account, whose notes lie in the pool that is read.\<close>

definition own_wallet :: "wallet_db \<Rightarrow> bytes \<Rightarrow> shielded_pool \<Rightarrow> bool" where
  "own_wallet w uuid pool \<longleftrightarrow>
     (\<forall>n \<in> List.set (wd_notes w). (no_account_id n, uuid) \<in> List.set (wd_accounts w) \<and>
        no_pool n \<in> List.set (pool_output_codes pool)) \<and>
     (\<forall>s \<in> List.set (wd_sent_notes w). \<forall>a. sx_from_account_id s = Some a \<longrightarrow>
        (a, uuid) \<in> List.set (wd_accounts w)) \<and>
     (\<forall>s \<in> List.set (wd_sent_notes w). sx_from_account_id s \<noteq> None)"

lemma left_join_set: "x \<in> List.set (left_join p xs) \<longleftrightarrow>
    (if filter p xs = [] then x = None else \<exists>y \<in> List.set xs. p y \<and> x = Some y)"
  by (auto simp: left_join_def split: list.splits) (auto simp: filter_eq_Cons_iff)

lemma in_concat_map: "x \<in> List.set xs \<Longrightarrow> y \<in> List.set (f x) \<Longrightarrow> y \<in> List.set (concat (map f xs))"
  by auto

lemma scan_candidatesI:
  assumes "n \<in> List.set (received_outputs w pool)" and "(no_account_id n, uuid) \<in> List.set (wd_accounts w)"
    and "t \<in> List.set (wd_transactions w)" and "tr_id t = no_transaction_id n"
    and "sn \<in> List.set (left_join (\<lambda>s. sx_transaction_id s = no_transaction_id n \<and>
           sx_output_pool s = no_pool n \<and> sx_output_index s = no_output_index n) (wd_sent_notes w))"
    and "fa \<in> List.set (left_join (\<lambda>a. Some (fst a) = Option.bind sn sx_from_account_id) (wd_accounts w))"
    and "no_memo n \<noteq> None \<or> map_option snd fa = Some uuid" and "sql_unexpired tip t"
  shows "\<lparr>sc_memo = coalesce_max (no_memo n) (Option.bind sn sx_memo),
          sc_mined_height = tr_mined_height t, sc_block_time = Option.bind (tr_mined_height t) (wd_block_time w),
          sc_from_uuid = map_option snd fa, sc_txid = tr_txid t, sc_output_index = no_output_index n\<rparr>
         \<in> List.set (scan_candidates w uuid tip pool)"
  unfolding scan_candidates_def
proof (rule in_concat_map [OF assms(1)], rule in_concat_map [of "(no_account_id n, uuid)"],
    goal_cases account rest)
  case rest
  show ?case
    using assms(3,4,7,8)
    by (intro in_concat_map [of t] in_concat_map [OF assms(5)] in_concat_map [OF assms(6)]) auto
qed (use assms(2) in simp)

text \<open>
  C21. Collection never opens a gap: a row of the pending file that has not gone stale is still there
  after the collection that follows a sync, unless the wallet's scan already has a mined row of that
  transaction that carries a memo.
\<close>

theorem collection_leaves_no_gap:
  assumes "own_wallet w uuid pool" and "now \<le> later"
    and "e \<in> List.set (pending_rows now disk)" and "still_fresh later e"
    and "e \<notin> List.set (pending_rows later (gc_pending E io later w disk))"
  shows "\<exists>row \<in> List.set (scan_candidates w uuid tip pool).
     txid_to_string E (sc_txid row) = pe_txid e \<and> sc_mined_height row \<noteq> None \<and> sc_memo row \<noteq> None"
proof -
  have "e \<in> List.set (pending_rows later disk)"
    using assms(2-4) by (simp add: pending_rows_age)
  with assms(5) have "pe_txid e \<in> mined_with_memo_txids E w"
    by (auto simp: gc_pending_rows split: if_splits)
  then obtain n t where n: "n \<in> List.set (wd_notes w)" and v: "note_memo_visible w n"
    and t: "t \<in> List.set (wd_transactions w)" "tr_id t = no_transaction_id n" "tr_mined_height t \<noteq> None"
    and e: "txid_to_string E (tr_txid t) = pe_txid e"
    by (auto simp: mined_with_memo_txids_def mined_with_memo_rows_def)
  let ?join = "left_join (\<lambda>s. sx_transaction_id s = no_transaction_id n \<and>
      sx_output_pool s = no_pool n \<and> sx_output_index s = no_output_index n) (wd_sent_notes w)"
  from v obtain sn where sn: "sn \<in> List.set ?join" and m: "no_memo n \<noteq> None \<or> Option.bind sn sx_memo \<noteq> None"
    by (auto simp: note_memo_visible_def list_ex_iff)
  let ?from = "left_join (\<lambda>a. Some (fst a) = Option.bind sn sx_from_account_id) (wd_accounts w)"
  from assms(1) n have acct: "(no_account_id n, uuid) \<in> List.set (wd_accounts w)"
    and pool: "n \<in> List.set (received_outputs w pool)"
    by (auto simp: own_wallet_def received_outputs_def)
  obtain fa where fa: "fa \<in> List.set ?from" "no_memo n \<noteq> None \<or> map_option snd fa = Some uuid"
  proof (cases "no_memo n")
    case None
    with m obtain s where s: "sn = Some s" by (cases sn) auto
    with sn have "s \<in> List.set (wd_sent_notes w)" by (auto simp: left_join_set split: if_splits)
    with assms(1) obtain a where a: "sx_from_account_id s = Some a" "(a, uuid) \<in> List.set (wd_accounts w)"
      by (fastforce simp: own_wallet_def)
    then have "Some (a, uuid) \<in> List.set ?from"
      by (force simp: s left_join_set filter_empty_conv)
    from that [OF this] show thesis by simp
  next
    case (Some b)
    have "\<exists>fa. fa \<in> List.set ?from" by (cases ?from) (auto simp: left_join_def split: list.splits)
    with Some that show thesis by auto
  qed
  have "sql_unexpired tip t" using t(3) by (simp add: sql_unexpired_def)
  note row = scan_candidatesI [OF pool acct t(1,2) sn fa this]
  have "coalesce_max (no_memo n) (Option.bind sn sx_memo) \<noteq> None"
    using m by (cases "no_memo n"; cases "Option.bind sn sx_memo") (auto simp: coalesce_max_def)
  then show ?thesis
    using e t(3) by (intro bexI [OF _ row]) simp
qed

definition demo_pending :: pending_entry where
  "demo_pending =
     \<lparr>pe_txid = txid_to_string model_crates (replicate 32 CHR ''t''), pe_op = ''SET'', pe_key = ''k'',
      pe_value = Some ''v'', pe_memo = None, pe_broadcast_at_unix = 0\<rparr>"

theorem collection_leaves_no_gap_witness:
  "pending_rows 0 (Rows [demo_pending]) = [demo_pending] \<and>
   pending_rows 0 (gc_pending model_crates True 0 demo_wallet (Rows [demo_pending])) = [] \<and>
   (\<exists>row \<in> List.set (scan_candidates demo_wallet ''u'' 7 Orchard).
     txid_to_string model_crates (sc_txid row) = pe_txid demo_pending \<and>
     sc_mined_height row \<noteq> None \<and> sc_memo row \<noteq> None)"
proof -
  have f: "pending_rows 0 (Rows [demo_pending]) = [demo_pending]"
    by (simp add: still_fresh_def)
  have own: "own_wallet demo_wallet ''u'' Orchard"
    by (simp add: own_wallet_def demo_wallet_def pool_output_codes_def)
  have "pe_txid demo_pending \<in> mined_with_memo_txids model_crates demo_wallet"
    by (simp add: mined_with_memo_txids_def mined_with_memo_rows_def note_memo_visible_def left_join_def
        demo_wallet_def demo_pending_def)
  then have g: "pending_rows 0 (gc_pending model_crates True 0 demo_wallet (Rows [demo_pending])) = []"
    by (simp only: gc_pending_rows f) simp
  have e: "demo_pending \<in> List.set (pending_rows 0 (Rows [demo_pending]))" "still_fresh 0 demo_pending"
    "demo_pending \<notin> List.set (pending_rows 0 (gc_pending model_crates True 0 demo_wallet (Rows [demo_pending])))"
    unfolding g f by (simp_all add: still_fresh_def)
  from collection_leaves_no_gap [OF own le_refl e] f g show ?thesis by blast
qed

end
