(* ===== verification/History_Query.thy ===== *)
theory History_Query
  imports Snapshot "HOL-Library.Sublist" "HOL-Library.Product_Lexorder"
begin

text \<open>
  The queries of \<open>internal/snapshot.rs\<close> on \<open>kv_history\<close>: the escaping of a filter, the \<open>WHERE\<close> clause, a
  page, the count and the rank of a transaction. SQLite's \<open>LIKE .. ESCAPE '\'\<close> is the function \<open>like\<close>:
  it folds the case of ASCII letters only, \<open>%\<close> stands for any text, \<open>_\<close> for one scalar.
\<close>

section \<open>The operator LIKE\<close>

definition ascii_lower :: "char \<Rightarrow> char" where
  "ascii_lower c = (if 65 \<le> byte c \<and> byte c \<le> 90 then char_of (byte c + 32) else c)"

definition BACKSLASH :: char where "BACKSLASH = CHR 0x5C"

function like :: "str \<Rightarrow> str \<Rightarrow> bool" where
  "like [] s \<longleftrightarrow> s = []"
| "like (p # ps) s \<longleftrightarrow>
     (if p = BACKSLASH then
        (case (ps, s) of
           (e # ps', c # s') \<Rightarrow> ascii_lower e = ascii_lower c \<and> like ps' s'
         | _ \<Rightarrow> False)
      else if p = CHR ''%'' then
        like ps s \<or> (case s of [] \<Rightarrow> False | c # s' \<Rightarrow> like (p # ps) s')
      else if p = CHR ''_'' then
        (case s of [] \<Rightarrow> False | c # s' \<Rightarrow> like ps (drop (scalar_width c - 1) s'))
      else (case s of [] \<Rightarrow> False | c # s' \<Rightarrow> ascii_lower p = ascii_lower c \<and> like ps s'))"
  by pat_completeness auto
termination
  by (relation "measure (\<lambda>(p, s). length p + length s)") auto

declare like.simps(2) [simp del]

lemma like_any: "like (CHR ''%'' # ps) s \<longleftrightarrow> (\<exists>a b. s = a @ b \<and> like ps b)"
proof (induction s)
  case Nil
  show ?case by (simp add: like.simps(2) BACKSLASH_def)
next
  case (Cons c s)
  have "like (CHR ''%'' # ps) (c # s) \<longleftrightarrow> like ps (c # s) \<or> like (CHR ''%'' # ps) s"
    by (simp add: like.simps(2) [of _ _ "c # s"] BACKSLASH_def)
  then show ?case
    unfolding Cons by (metis append_Cons append_Nil append_eq_Cons_conv)
qed

section \<open>Queries\<close>

text \<open>Three \<open>replace\<close>s, of which the first doubles the escape itself.\<close>

definition replace_char :: "char \<Rightarrow> str \<Rightarrow> str \<Rightarrow> str" where
  "replace_char c by s = concat (map (\<lambda>d. if d = c then by else [d]) s)"

definition like_escape :: "str \<Rightarrow> str" where
  "like_escape s =
     replace_char CHR ''_'' [BACKSLASH, CHR ''_'']
       (replace_char CHR ''%'' [BACKSLASH, CHR ''%''] (replace_char BACKSLASH [BACKSLASH, BACKSLASH] s))"

definition key_like :: "str option \<Rightarrow> hist_row \<Rightarrow> bool" where
  "key_like flt h =
     (case flt of None \<Rightarrow> True | Some f \<Rightarrow> like (''%'' @ like_escape f @ ''%'') (hi_key h))"

definition history_where :: "str option \<Rightarrow> str list option \<Rightarrow> hist_row \<Rightarrow> bool" where
  "history_where flt ops h \<longleftrightarrow>
     key_like flt h \<and>
     (case ops of None \<Rightarrow> True | Some os \<Rightarrow> os = [] \<or> hi_op h \<in> List.set os)"

definition take_opt :: "nat option \<Rightarrow> 'a list \<Rightarrow> 'a list" where
  "take_opt limit xs = (case limit of None \<Rightarrow> xs | Some n \<Rightarrow> take n xs)"

definition history_rows :: "snapshot \<Rightarrow> str option \<Rightarrow> str list option \<Rightarrow> bool \<Rightarrow> hist_row list" where
  "history_rows s flt ops ascending =
     (let rows = sort_key hist_pos (filter (history_where flt ops) (sn_history s))
      in if ascending then rows else rev rows)"

definition history_page ::
    "snapshot \<Rightarrow> str option \<Rightarrow> str list option \<Rightarrow> bool \<Rightarrow> u32 option \<Rightarrow> u32 \<Rightarrow> hist_row list" where
  "history_page s flt ops ascending limit offset =
     take_opt limit (drop offset (history_rows s flt ops ascending))"

definition history_count :: "snapshot \<Rightarrow> str option \<Rightarrow> str list option \<Rightarrow> nat" where
  "history_count s flt ops = length (filter (history_where flt ops) (sn_history s))"

text \<open>The newest output of the transaction, then the rows that sort before it.\<close>

definition locate_target :: "snapshot \<Rightarrow> str option \<Rightarrow> bytes \<Rightarrow> hist_row option" where
  "locate_target s flt txid =
     (case rev (sort_key (\<lambda>h. (hi_mined_height h, hi_output_index h))
              (filter (\<lambda>h. hi_txid h = txid \<and> key_like flt h) (sn_history s))) of
        [] \<Rightarrow> None
      | h # hs \<Rightarrow> Some h)"

definition history_locate :: "snapshot \<Rightarrow> str option \<Rightarrow> bytes \<Rightarrow> nat option" where
  "history_locate s flt txid =
     map_option (\<lambda>t. length (filter (\<lambda>h. key_like flt h \<and>
         (hi_mined_height t < hi_mined_height h \<or>
          (hi_mined_height h = hi_mined_height t \<and> txid < hi_txid h) \<or>
          (hi_mined_height h = hi_mined_height t \<and> hi_txid h = txid \<and>
             hi_output_index t < hi_output_index h))) (sn_history s)))
       (locate_target s flt txid)"

section \<open>An escaped filter is a substring test\<close>

definition escape1 :: "char \<Rightarrow> str" where
  "escape1 c = (if c = BACKSLASH \<or> c = CHR ''%'' \<or> c = CHR ''_'' then [BACKSLASH, c] else [c])"

lemma replace_char_append: "replace_char c by (xs @ ys) = replace_char c by xs @ replace_char c by ys"
  by (simp add: replace_char_def)

lemma like_escape_Cons: "like_escape (c # s) = escape1 c @ like_escape s"
proof -
  have ne: "BACKSLASH \<noteq> CHR ''%''" "BACKSLASH \<noteq> CHR ''_''" "CHR ''%'' \<noteq> CHR ''_''"
    by (simp_all add: BACKSLASH_def)
  have "like_escape (c # s) = like_escape [c] @ like_escape s"
    using replace_char_append [of _ _ "[c]" s] by (simp add: like_escape_def replace_char_append [symmetric])
  moreover have "like_escape [c] = escape1 c"
    using ne by (auto simp: like_escape_def replace_char_def escape1_def)
  ultimately show ?thesis by simp
qed

lemma like_literal:
  "p \<noteq> BACKSLASH \<Longrightarrow> p \<noteq> CHR ''%'' \<Longrightarrow> p \<noteq> CHR ''_'' \<Longrightarrow>
   like (p # ps) s \<longleftrightarrow> (\<exists>d s'. s = d # s' \<and> ascii_lower p = ascii_lower d \<and> like ps s')"
  by (subst like.simps(2)) (simp split: list.splits)

lemma like_quoted:
  "like (BACKSLASH # e # ps) s \<longleftrightarrow> (\<exists>d s'. s = d # s' \<and> ascii_lower e = ascii_lower d \<and> like ps s')"
  by (subst like.simps(2)) (simp split: list.splits)

lemma like_escape1:
  "like (escape1 c @ qs) s \<longleftrightarrow> (\<exists>d s'. s = d # s' \<and> ascii_lower c = ascii_lower d \<and> like qs s')"
  by (simp add: escape1_def like_literal like_quoted)

lemma like_escaped_prefix:
  "like (like_escape f @ ps) s \<longleftrightarrow>
   (\<exists>a b. s = a @ b \<and> map ascii_lower a = map ascii_lower f \<and> like ps b)"
proof (induction f arbitrary: s)
  case Nil
  then show ?case by (simp add: like_escape_def replace_char_def)
next
  case (Cons c f)
  have "(\<exists>a b. s = a @ b \<and> map ascii_lower a = map ascii_lower (c # f) \<and> like ps b) \<longleftrightarrow>
      (\<exists>d s'. s = d # s' \<and> ascii_lower c = ascii_lower d \<and>
        (\<exists>a b. s' = a @ b \<and> map ascii_lower a = map ascii_lower f \<and> like ps b))"
    (is "?l = ?r")
  proof
    assume ?l
    then obtain a b where ab: "s = a @ b" "map ascii_lower a = map ascii_lower (c # f)" "like ps b" by blast
    then obtain d a' where a: "a = d # a'" by (cases a) auto
    with ab show ?r by auto
  next
    assume ?r
    then obtain d a b where "s = (d # a) @ b" "map ascii_lower (d # a) = map ascii_lower (c # f)" "like ps b"
      by auto
    then show ?l by blast
  qed
  then show ?case
    unfolding like_escape_Cons append_assoc like_escape1 Cons.IH by blast
qed

lemma key_like_Some:
  "key_like (Some f) h \<longleftrightarrow> sublist (map ascii_lower f) (map ascii_lower (hi_key h))"
proof -
  have "like ''%'' b" for b
    using like_any [of "[]" b] by auto
  then have "key_like (Some f) h \<longleftrightarrow>
      (\<exists>a b c. hi_key h = a @ b @ c \<and> map ascii_lower b = map ascii_lower f)"
    unfolding key_like_def option.case append_Cons append_Nil like_any like_escaped_prefix by auto
  also have "\<dots> \<longleftrightarrow> sublist (map ascii_lower f) (map ascii_lower (hi_key h))"
  proof
    assume "sublist (map ascii_lower f) (map ascii_lower (hi_key h))"
    then obtain x y where "map ascii_lower (hi_key h) = x @ map ascii_lower f @ y"
      by (auto simp: sublist_def)
    from this [THEN map_eq_append_conv [THEN iffD1]]
    obtain a bc where k: "hi_key h = a @ bc" and "map ascii_lower bc = map ascii_lower f @ y" by metis
    from this(2) [THEN map_eq_append_conv [THEN iffD1]]
    obtain b c where "bc = b @ c" "map ascii_lower b = map ascii_lower f" by metis
    with k show "\<exists>a b c. hi_key h = a @ b @ c \<and> map ascii_lower b = map ascii_lower f" by blast
  next
    assume "\<exists>a b c. hi_key h = a @ b @ c \<and> map ascii_lower b = map ascii_lower f"
    then obtain a b c where "hi_key h = a @ b @ c" and b: "map ascii_lower b = map ascii_lower f" by blast
    then have "map ascii_lower (hi_key h) = map ascii_lower a @ map ascii_lower f @ map ascii_lower c"
      by (simp add: b)
    then show "sublist (map ascii_lower f) (map ascii_lower (hi_key h))" by (auto simp: sublist_def)
  qed
  finally show ?thesis .
qed

end
