(* ===== verification/History_Page.thy ===== *)
theory History_Page
  imports History_Query Read_Path Pending_File
begin

text \<open>
  \<open>load_history_page\<close> of \<open>internal/state.rs\<close>: a page of the write history. The entries of the live tail
  and of the pending file are computed and sorted in memory, the confirmed rows come from
  \<open>kv_history\<close>; the page is cut from the two without building the whole list. \<open>to_lowercase\<close> folds by
  the Unicode tables of the standard library, which are the argument \<open>lower\<close>.
\<close>

datatype history_order = Desc | Asc

fun inflight_rank :: "history_status \<Rightarrow> nat" where
  "inflight_rank HPending = 0"
| "inflight_rank (HConfirming d q) = 1"
| "inflight_rank (HConfirmed c) = 2"

definition key_matches :: "(str \<Rightarrow> str) \<Rightarrow> str \<Rightarrow> str option \<Rightarrow> bool" where
  "key_matches lower key flt =
     (case flt of None \<Rightarrow> True | Some f \<Rightarrow> f = [] \<or> sublist (lower f) (lower key))"

section \<open>The live entries\<close>

text \<open>The display status of a row and the status it is folded with; \<open>None\<close> is \<open>continue\<close>.\<close>

definition live_status ::
    "('pk, 'sk) crates \<Rightarrow> u32 \<Rightarrow> u32 \<Rightarrow> bytes \<Rightarrow> decoded_row \<Rightarrow> (history_status \<times> write_status) option" where
  "live_status E tip min_confs account_uuid row =
     (let confs = confirmations tip row;
          eff_confs = effective_min_confs (is_init_memo E (dr_text row)) min_confs
      in if mined_u32 row = None then Some (HPending, Confirming 0 min_confs)
         else if eff_confs \<le> confs then Some (HConfirmed confs, Confirmed)
         else if dr_from_uuid row = Some account_uuid
         then Some (HConfirming confs eff_confs, Confirming confs eff_confs)
         else None)"

text \<open>The loop over the tail, on the seed of the snapshot; \<open>None\<close> is a panic of the fold.\<close>

fun live_entries ::
    "('pk, 'sk) crates \<Rightarrow> (str \<Rightarrow> str) \<Rightarrow> reader \<Rightarrow> str \<Rightarrow> u32 \<Rightarrow> u32 \<Rightarrow> str option \<Rightarrow>
     decoded_row list \<Rightarrow> replay_result \<Rightarrow> history_entry list option" where
  "live_entries E lower rd root tip min_confs flt [] seed = Some []"
| "live_entries E lower rd root tip min_confs flt (row # rows) seed =
     (case live_status E tip min_confs (rd_account_uuid rd) row of
        None \<Rightarrow> live_entries E lower rd root tip min_confs flt rows seed
      | Some (status, write_status) \<Rightarrow>
          (case history_entry_folding E (rd_receiver rd) root (dr_text row) (mined_u32 row)
                  (positive (dr_block_time row)) (txid_hex E (dr_txid row)) (dr_output_index row)
                  status write_status seed of
             None \<Rightarrow> None
           | Some (seed', entry) \<Rightarrow>
               map_option
                 (\<lambda>live. case entry of
                    Some e \<Rightarrow> if key_matches lower (he_key e) flt then e # live else live
                  | None \<Rightarrow> live)
                 (live_entries E lower rd root tip min_confs flt rows seed')))"

text \<open>A row of the pending file: the memo as stored, or what the row itself says.\<close>

definition pending_op_of :: "pending_entry \<Rightarrow> (op \<times> str option) option" where
  "pending_op_of e =
     (if pe_op e = ''SET'' then Some (Set, Some (unwrap_or (pe_value e) []))
      else if pe_op e = ''DEL'' then Some (Del, None)
      else if pe_op e = ''INIT'' then Some (Init, None)
      else None)"

definition pending_history_entry ::
    "('pk, 'sk) crates \<Rightarrow> str \<Rightarrow> 'pk \<Rightarrow> pending_entry \<Rightarrow> history_entry option" where
  "pending_history_entry E receiver pk e =
     map_option (\<lambda>(op, v).
       unwrap_or
         (Option.bind (pe_memo e) (\<lambda>t.
            history_entry_from_memo E receiver pk t None None (pe_txid e) 0 HPending))
         \<lparr>he_op = op, he_key = pe_key e, he_value = v, he_height = None, he_timestamp = None,
          he_txid = pe_txid e, he_output_index = 0, he_signature = None, he_seq = None,
          he_signer = None, he_verified = None, he_status = HPending, he_memo = pe_memo e,
          he_fee = None, he_output_value = None\<rparr>)
       (pending_op_of e)"

definition merge_live ::
    "('pk, 'sk) crates \<Rightarrow> (str \<Rightarrow> str) \<Rightarrow> str \<Rightarrow> 'pk \<Rightarrow> u32 \<Rightarrow> str option \<Rightarrow> pending_entry list \<Rightarrow>
     history_entry list \<Rightarrow> history_entry list" where
  "merge_live E lower receiver pk min_confs flt es live0 =
     (let live = (if 1 \<le> min_confs
            then filter (\<lambda>e. he_status e \<noteq> HPending \<or> he_txid e \<in> pe_txid ` List.set es) live0 else live0)
      in live @ List.map_filter (pending_history_entry E receiver pk)
           (filter (\<lambda>e. pe_txid e \<notin> he_txid ` List.set live \<and> key_matches lower (pe_key e) flt) es))"

definition live_order :: "history_entry \<Rightarrow> nat \<times> int \<times> int" where
  "live_order e =
     (inflight_rank (he_status e), - int (unwrap_or (he_height e) u32_max), - int (he_output_index e))"

definition sort_live :: "history_entry list \<Rightarrow> history_entry list" where
  "sort_live entries = sort_key live_order entries"

definition op_shown :: "str list option \<Rightarrow> history_entry \<Rightarrow> bool" where
  "op_shown ops e = (case ops of None \<Rightarrow> True | Some os \<Rightarrow> os = [] \<or> op_as_str (he_op e) \<in> List.set os)"

section \<open>The page\<close>

definition deep_op :: "str \<Rightarrow> op option" where
  "deep_op s =
     (if s = ''SET'' then Some Set else if s = ''SETL'' then Some SetL
      else if s = ''DEL'' then Some Del else if s = ''INIT'' then Some Init else None)"

definition row_to_entry :: "('pk, 'sk) crates \<Rightarrow> u32 \<Rightarrow> hist_row \<Rightarrow> history_entry option" where
  "row_to_entry E tip h =
     map_option (\<lambda>op.
       let seq = word_of_int (max (hi_seq h) 0) in
       \<lparr>he_op = op, he_key = hi_key h, he_value = hi_value h, he_height = Some (hi_mined_height h),
        he_timestamp = hi_block_time h, he_txid = txid_hex E (hi_txid h),
        he_output_index = hi_output_index h, he_signature = Some (hi_signature h), he_seq = Some seq,
        he_signer = Some (hi_signer h), he_verified = Some True,
        he_status = HConfirmed (sat_add32 (tip - hi_mined_height h) 1),
        he_memo = Some (render_memo_with_comment E op (hi_key h) (hi_value h) seq (hi_signature h) (hi_comment h)),
        he_fee = None, he_output_value = None\<rparr>)
       (deep_op (hi_op h))"

text \<open>\<open>position\<close>: the index of the first entry of the transaction.\<close>

fun position :: "('a \<Rightarrow> bool) \<Rightarrow> 'a list \<Rightarrow> nat option" where
  "position p [] = None"
| "position p (x # xs) = (if p x then Some 0 else map_option Suc (position p xs))"

definition locate_rank ::
    "('pk, 'sk) crates \<Rightarrow> snapshot \<Rightarrow> str option \<Rightarrow> history_entry list \<Rightarrow> str \<Rightarrow> nat option" where
  "locate_rank E s flt live_list hex =
     (case position (\<lambda>e. he_txid e = hex) live_list of
        Some i \<Rightarrow> Some i
      | None \<Rightarrow>
          (case txid_blob_from_hex E hex of
             None \<Rightarrow> None
           | Some blob \<Rightarrow> map_option (\<lambda>deep. length live_list + deep) (history_locate s flt blob)))"

definition page_offset ::
    "('pk, 'sk) crates \<Rightarrow> snapshot \<Rightarrow> str option \<Rightarrow> history_entry list \<Rightarrow> history_order \<Rightarrow>
     str option \<Rightarrow> u32 option \<Rightarrow> u32 \<Rightarrow> u32" where
  "page_offset E s flt live_list order located limit offset =
     (case (order, located, limit) of
        (Desc, Some hex, Some lim) \<Rightarrow>
          if 0 < lim
          then (case locate_rank E s flt live_list hex of
                  Some r \<Rightarrow> ((r div lim) * lim) mod 2 ^ 32
                | None \<Rightarrow> offset)
          else offset
      | _ \<Rightarrow> offset)"

text \<open>The two arms that assemble the page; \<open>usize\<close> and \<open>u32\<close> subtractions saturate.\<close>

definition assemble ::
    "('pk, 'sk) crates \<Rightarrow> u32 \<Rightarrow> snapshot \<Rightarrow> str option \<Rightarrow> str list option \<Rightarrow> history_entry list \<Rightarrow>
     history_order \<Rightarrow> u32 option \<Rightarrow> u32 \<Rightarrow> history_entry list" where
  "assemble E tip s flt ops live_list order limit off =
     (case order of
        Desc \<Rightarrow>
          (let live_slice = take_opt limit (drop off live_list);
               deep_take = map_option (\<lambda>lim. lim - length live_slice) limit;
               deep_off = off - length live_list
           in live_slice @
              List.map_filter (row_to_entry E tip) (history_page s flt ops False deep_take deep_off))
      | Asc \<Rightarrow>
          (let deep_count = history_count s flt ops;
               deep_off = min off deep_count;
               deep_avail = deep_count - off;
               deep_take = map_option (\<lambda>lim. min lim deep_avail) limit;
               live_off = off - deep_count;
               live_take = map_option (\<lambda>lim. lim - min lim deep_avail) limit
           in List.map_filter (row_to_entry E tip) (history_page s flt ops True deep_take deep_off) @
              take_opt live_take (drop live_off (rev live_list))))"

text \<open>\<open>fill_tx_fee_and_output\<close>, then the genesis row shows the reader's own address.\<close>

definition fill_tx_fee_and_output ::
    "('pk, 'sk) crates \<Rightarrow> wallet_db \<Rightarrow> shielded_pool \<Rightarrow> history_entry \<Rightarrow> history_entry" where
  "fill_tx_fee_and_output E w pool e =
     (case txid_blob_from_hex E (he_txid e) of
        None \<Rightarrow> e
      | Some blob \<Rightarrow>
          e\<lparr>he_fee := tx_fee w pool blob, he_output_value := tx_output_value w pool blob (he_output_index e)\<rparr>)"

definition own_address :: "str \<Rightarrow> history_entry \<Rightarrow> history_entry" where
  "own_address zkv_addr e = (if he_op e = Init then e\<lparr>he_key := zkv_addr\<rparr> else e)"

record history_result =
  hr_signer :: str
  hr_entries :: "history_entry list"
  hr_total :: nat
  hr_offset :: u32
  hr_limit :: "u32 option"

record history_query =
  hq_min_confs :: u32
  hq_filter :: "str option"
  hq_ops :: "str list option"
  hq_order :: history_order
  hq_limit :: "u32 option"
  hq_offset :: u32
  hq_locate :: "str option"

definition history_result_of ::
    "('pk, 'sk) crates \<Rightarrow> (str \<Rightarrow> str) \<Rightarrow> reader \<Rightarrow> 'pk \<Rightarrow> str \<Rightarrow> wallet_db \<Rightarrow> u32 \<Rightarrow>
     pending_entry list \<Rightarrow> history_query \<Rightarrow> snapshot \<Rightarrow> history_entry list \<Rightarrow> history_result" where
  "history_result_of E lower rd pk zkv_addr w tip es q s live0 =
     (let live = filter (op_shown (hq_ops q))
            (sort_live (merge_live E lower (rd_receiver rd) pk (hq_min_confs q) (hq_filter q) es live0));
          off = page_offset E s (hq_filter q) live (hq_order q) (hq_locate q) (hq_limit q) (hq_offset q);
          entries = assemble E tip s (hq_filter q) (hq_ops q) live (hq_order q) (hq_limit q) off
      in \<lparr>hr_signer = pubkey_bech32 E pk,
          hr_entries = map (\<lambda>e. own_address zkv_addr (fill_tx_fee_and_output E w (rd_pool rd) e)) entries,
          hr_total = length live + history_count s (hq_filter q) (hq_ops q),
          hr_offset = off, hr_limit = hq_limit q\<rparr>)"

definition load_history_page ::
    "('pk, 'sk) crates \<Rightarrow> (str \<Rightarrow> str) \<Rightarrow> reader \<Rightarrow> 'pk \<Rightarrow> str \<Rightarrow> wallet_db \<Rightarrow> u32 \<Rightarrow>
     pending_entry list \<Rightarrow> history_query \<Rightarrow> snapshot \<Rightarrow> snapshot \<times> (read_error + history_result)" where
  "load_history_page E lower rd pk zkv_addr w tip es q file =
     (let s0 = open_snapshot file in
      case wipe_if_rewound tip s0 of
        Inl e \<Rightarrow> (s0, Err (SnapshotError e))
      | Inr s \<Rightarrow>
          (s,
           try_ok (lift_snap (read_watermark s)) (\<lambda>wm.
           try_ok (lift_snap (load_seed E s)) (\<lambda>seed.
             case live_entries E lower rd (pubkey_bech32 E pk) tip (hq_min_confs q) (hq_filter q)
                    (scan_memos_past_watermark E w (rd_account_uuid rd) tip wm (rd_pool rd)) seed of
               None \<Rightarrow> Err (ReplayError Panicked)
             | Some live0 \<Rightarrow>
                 Ok (history_result_of E lower rd pk zkv_addr w tip es q s live0)))))"

end
