(* ===== verification/History_Props.thy ===== *)
theory History_Props
  imports History_Page Facade_Props
begin

text \<open>
  The page of the history against the whole list it is cut from, the filter against its two engines,
  and the pending rows the history leaves out.
\<close>

section \<open>The rows of the log name known operations\<close>

definition log_ok :: "snapshot \<Rightarrow> bool" where
  "log_ok s \<longleftrightarrow> (\<forall>h \<in> List.set (sn_history s). deep_op (hi_op h) \<noteq> None)"

lemma log_ok_insert:
  "insert_history h s = Ok s' \<Longrightarrow> log_ok s \<Longrightarrow> deep_op (hi_op h) \<noteq> None \<Longrightarrow> log_ok s'"
  by (auto simp: insert_history_def log_ok_def split: if_splits)

lemma log_ok_update [simp]:
  "log_ok (s\<lparr>sn_kv := k\<rparr>) = log_ok s" "log_ok (upsert_kv E row key v s) = log_ok s"
  by (simp_all add: log_ok_def upsert_kv_def)

lemma log_ok_row:
  assumes "apply_row E row receiver root p = Ok p'" and "log_ok (pg_tx p)"
  shows "log_ok (pg_tx p')"
  using assms
  by (auto simp: apply_row_def apply_row_applied_def Let_def try_ok_Inr history_row_def deep_op_def
      elim!: log_ok_insert split: option.splits if_splits row_outcome.splits op.splits)

lemma log_ok_rows: "apply_rows E receiver root rows p = Ok p' \<Longrightarrow> log_ok (pg_tx p) \<Longrightarrow> log_ok (pg_tx p')"
  by (induction rows arbitrary: p) (auto simp: try_ok_Inr dest: log_ok_row)

lemma log_ok_finish: "finish_promote row p = Ok s \<Longrightarrow> log_ok (pg_tx p) \<Longrightarrow> log_ok s"
  by (auto simp: finish_promote_def Let_def try_ok_Inr persist_auth_def write_meta_text_def
      write_meta_u32_def write_meta_blob_def log_ok_def split: if_splits)

lemma log_ok_begin: "begin_promote E s = Ok p \<Longrightarrow> pg_tx p = s"
  by (auto simp: begin_promote_def try_ok_Inr)

lemma log_ok_promote_tx:
  assumes "promote_tx E s rows receiver pk = Ok s'" and "log_ok s"
  shows "log_ok s'"
proof (cases "rows = []")
  case False
  with assms(1) obtain p0 p where b: "begin_promote E s = Ok p0"
    and a: "apply_rows E receiver (pubkey_bech32 E pk) rows p0 = Ok p"
    and f: "(if pg_init p0 = Uninitialized \<and> pg_init p = Uninitialized then Ok s
      else finish_promote (last rows) p) = Ok s'"
    by (auto simp: promote_tx_def try_ok_Inr)
  have "log_ok (pg_tx p)"
    using log_ok_rows [OF a] log_ok_begin [OF b] assms(2) by simp
  with f assms(2) show ?thesis by (auto split: if_splits intro: log_ok_finish)
qed (use assms in \<open>simp add: promote_tx_def\<close>)

lemma log_ok_promote: "promote E s rows receiver pk = (s', res) \<Longrightarrow> log_ok s \<Longrightarrow> log_ok s'"
  by (auto simp: promote_def split: sum.splits dest: log_ok_promote_tx)

lemma log_ok_wiped [simp]: "log_ok empty_file" "log_ok (wipe s)" "log_ok s \<Longrightarrow> log_ok (open_snapshot s)"
  by (auto simp: log_ok_def empty_file_def wipe_def open_snapshot_def init_schema_def)

lemma log_ok_heal: "heal tip s = Ok s' \<Longrightarrow> log_ok s \<Longrightarrow> log_ok s'"
  by (auto simp: heal_def wipe_if_rewound_def wipe_if_buried_def try_ok_Inr split: if_splits)

lemma log_ok_load:
  assumes "log_ok s"
  shows "log_ok (fst (load_state E rd pk w tip fs s min_confs strict))"
proof -
  have o: "log_ok (open_snapshot s)" using assms by simp
  show ?thesis
    using o log_ok_heal [OF _ o]
    by (auto simp: load_state_def load_state_with_height_def Let_def dest: log_ok_promote
        split: sum.splits prod.splits if_splits)
qed

lemma log_ok_in_use: "in_use E rd pk rows tip s \<Longrightarrow> log_ok s"
  by (induction rule: in_use.induct) (simp_all add: log_ok_load)

section \<open>Cutting the page\<close>

text \<open>The list a page is cut from: the live entries above the confirmed rows, or its reverse.\<close>

definition deep_entries ::
    "('pk, 'sk) crates \<Rightarrow> u32 \<Rightarrow> snapshot \<Rightarrow> str option \<Rightarrow> str list option \<Rightarrow> history_entry list" where
  "deep_entries E tip s flt ops = List.map_filter (row_to_entry E tip) (history_rows s flt ops False)"

definition whole_history :: "history_order \<Rightarrow> history_entry list \<Rightarrow> history_entry list \<Rightarrow> history_entry list" where
  "whole_history order pinned deep = (case order of Desc \<Rightarrow> pinned @ deep | Asc \<Rightarrow> rev (pinned @ deep))"

lemma take_opt_append:
  "take_opt limit (drop off (xs @ ys)) =
   take_opt limit (drop off xs) @
   take_opt (map_option (\<lambda>n. n - length (take_opt limit (drop off xs))) limit) (drop (off - length xs) ys)"
  by (cases limit) (simp_all add: take_opt_def min_def)

lemma take_opt_clamped:
  "take_opt (map_option (\<lambda>lim. min lim (length xs - off)) limit) (drop (min off (length xs)) xs) =
   take_opt limit (drop off xs)"
  by (cases limit; cases "off \<le> length xs") (auto simp: take_opt_def min_def)

lemma length_take_opt:
  "length (take_opt limit (drop off xs)) =
   (case limit of None \<Rightarrow> length xs - off | Some lim \<Rightarrow> min lim (length xs - off))"
  by (cases limit) (auto simp: take_opt_def min_def)

lemma map_take_opt: "map f (take_opt limit xs) = take_opt limit (map f xs)"
  by (cases limit) (simp_all add: take_opt_def take_map)

lemma log_ok_entry: "log_ok s \<Longrightarrow> h \<in> List.set (sn_history s) \<Longrightarrow> row_to_entry E tip h \<noteq> None"
  by (auto simp: log_ok_def row_to_entry_def)

lemma history_rows_set: "List.set (history_rows s flt ops asc) \<subseteq> List.set (sn_history s)"
  by (auto simp: history_rows_def Let_def)

lemma history_rows_asc: "history_rows s flt ops True = rev (history_rows s flt ops False)"
  by (simp add: history_rows_def)

lemma length_history_rows: "length (history_rows s flt ops asc) = history_count s flt ops"
  by (simp add: history_rows_def history_count_def Let_def)

lemma entries_map:
  assumes "log_ok s" and "List.set rows \<subseteq> List.set (sn_history s)"
  shows "List.map_filter (row_to_entry E tip) rows = map (\<lambda>h. the (row_to_entry E tip h)) rows"
proof (rule map_filter_map)
  fix h assume "h \<in> List.set rows"
  with assms have "row_to_entry E tip h \<noteq> None" by (auto dest: log_ok_entry)
  then show "row_to_entry E tip h = Some (the (row_to_entry E tip h))" by simp
qed

lemma page_entries:
  assumes "log_ok s"
  shows "List.map_filter (row_to_entry E tip) (history_page s flt ops asc limit off) =
    take_opt limit (drop off (if asc then rev (deep_entries E tip s flt ops) else deep_entries E tip s flt ops))"
proof -
  have "List.set (take_opt limit (drop off (history_rows s flt ops asc))) \<subseteq> List.set (sn_history s)"
    using history_rows_set [of s flt ops asc]
    by (cases limit) (auto simp: take_opt_def dest!: in_set_takeD in_set_dropD)
  then have "List.map_filter (row_to_entry E tip) (history_page s flt ops asc limit off) =
      take_opt limit (drop off (map (\<lambda>h. the (row_to_entry E tip h)) (history_rows s flt ops asc)))"
    unfolding history_page_def by (simp add: entries_map [OF assms] map_take_opt drop_map)
  moreover have "deep_entries E tip s flt ops = map (\<lambda>h. the (row_to_entry E tip h)) (history_rows s flt ops False)"
    unfolding deep_entries_def by (rule entries_map [OF assms history_rows_set])
  ultimately show ?thesis
    by (cases asc) (simp_all add: history_rows_asc rev_map)
qed

lemma length_deep: "log_ok s \<Longrightarrow> length (deep_entries E tip s flt ops) = history_count s flt ops"
  unfolding deep_entries_def
  by (simp add: entries_map [OF _ history_rows_set] length_history_rows)

lemma assemble_slice:
  assumes "log_ok s"
  shows "assemble E tip s flt ops pinned order limit off =
         take_opt limit (drop off (whole_history order pinned (deep_entries E tip s flt ops)))"
proof (cases order)
  case Desc
  then show ?thesis
    by (simp add: assemble_def Let_def page_entries [OF assms] whole_history_def take_opt_append del: drop_append)
next
  case Asc
  let ?d = "rev (deep_entries E tip s flt ops)" and ?n = "history_count s flt ops"
  have n: "length ?d = ?n" by (simp add: length_deep [OF assms])
  have deep: "take_opt (map_option (\<lambda>lim. min lim (?n - off)) limit) (drop (min off ?n) ?d) =
      take_opt limit (drop off ?d)"
    unfolding n [symmetric] by (rule take_opt_clamped)
  have rest: "map_option (\<lambda>lim. lim - min lim (?n - off)) limit =
      map_option (\<lambda>lim. lim - length (take_opt limit (drop off ?d))) limit"
    unfolding n [symmetric] length_take_opt by (cases limit) simp_all
  from Asc show ?thesis
    by (simp only: assemble_def Let_def history_order.case page_entries [OF assms] if_True deep rest
        whole_history_def rev_append take_opt_append [of limit off ?d] n)
qed

section \<open>The page is always there\<close>

lemma folding_total: "\<exists>x. history_entry_folding E rc root t h bt txid oi hs ws r = Some x"
proof (cases "classify_in_memory E t ws rc root r")
  case (Some c)
  have "apply_in_memory E c ws txid bt root (r\<lparr>rr_version := default_version\<rparr>) \<noteq> None"
    using classify_op [OF Some] by (cases "cl_outcome c") (auto simp: apply_in_memory_def split: prod.splits)
  then show ?thesis
    by (auto simp: history_entry_folding_def Some Let_def split: option.splits prod.splits)
qed (simp add: history_entry_folding_def)

lemma live_total: "\<exists>es. live_entries E lower rd root tip mc flt rows seed = Some es"
proof (induction rows arbitrary: seed)
  case (Cons row rows)
  show ?case
  proof (cases "live_status E tip mc (rd_account_uuid rd) row")
    case (Some st)
    then obtain status write_status where s: "live_status E tip mc (rd_account_uuid rd) row = Some (status, write_status)"
      by (cases st) simp
    obtain seed' entry where "history_entry_folding E (rd_receiver rd) root (dr_text row) (mined_u32 row)
        (positive (dr_block_time row)) (txid_hex E (dr_txid row)) (dr_output_index row) status write_status seed =
        Some (seed', entry)"
      using folding_total [of E "rd_receiver rd" root "dr_text row" "mined_u32 row"] by fastforce
    with s Cons.IH [of seed'] show ?thesis by (auto split: option.splits)
  qed (simp add: Cons.IH)
qed simp

text \<open>
  C22. The page of the history is a slice of one list. On a file in use a history query never fails and
  leaves the file alone; its entries are those from the reported offset on, at most the limit, of the
  sorted live entries above the confirmed rows (of the reverse, oldest first), and the reported total
  is the length of that list. So consecutive pages neither skip nor repeat an entry, although the
  confirmed part is paged in SQL and the live part in memory.
\<close>

theorem history_page_is_slice:
  assumes "bech32_laws E" and "key_laws E" and "in_use E rd pk rows tip file"
  shows "\<exists>wm seed live0 pinned whole res.
     load_history_page E lower rd pk zkv_addr w tip es q file = (file, Ok res) \<and>
     read_watermark file = Ok wm \<and> load_seed E file = Ok seed \<and>
     live_entries E lower rd (pubkey_bech32 E pk) tip (hq_min_confs q) (hq_filter q)
       (scan_memos_past_watermark E w (rd_account_uuid rd) tip wm (rd_pool rd)) seed = Some live0 \<and>
     pinned = filter (op_shown (hq_ops q))
       (sort_live (merge_live E lower (rd_receiver rd) pk (hq_min_confs q) (hq_filter q) es live0)) \<and>
     whole = whole_history (hq_order q) pinned (deep_entries E tip file (hq_filter q) (hq_ops q)) \<and>
     hr_entries res = map (\<lambda>e. own_address zkv_addr (fill_tx_fee_and_output E w (rd_pool rd) e))
       (take_opt (hq_limit q) (drop (hr_offset res) whole)) \<and>
     hr_total res = length whole \<and> (hq_locate q = None \<longrightarrow> hr_offset res = hq_offset q)"
proof -
  from in_use_caches [OF assms(3,1,2)] obtain wm r
    where c: "caches E (rd_receiver rd) pk rows file wm r" and dp: "deep_enough tip wm" by blast
  then have wm: "read_watermark file = Ok wm" and ld: "load_seed E file = Ok r"
    by (auto simp: caches_def snap_state_def)
  have "wipe_if_rewound tip file = Ok file"
    using dp by (auto simp: wipe_if_rewound_def wm deep_enough_def)
  moreover obtain live0 where live: "live_entries E lower rd (pubkey_bech32 E pk) tip (hq_min_confs q) (hq_filter q)
      (scan_memos_past_watermark E w (rd_account_uuid rd) tip wm (rd_pool rd)) r = Some live0"
    using live_total by blast
  ultimately have load: "load_history_page E lower rd pk zkv_addr w tip es q file =
      (file, Ok (history_result_of E lower rd pk zkv_addr w tip es q file live0))"
    by (simp add: load_history_page_def heal_caches [OF c dp] wm ld)
  note ok = log_ok_in_use [OF assms(3)]
  show ?thesis
    by (rule exI [of _ wm], rule exI [of _ r], rule exI [of _ live0], intro exI conjI, rule load, rule wm,
        rule ld, rule live, rule refl, rule refl)
       (simp_all add: page_offset_def history_result_of_def Let_def assemble_slice [OF ok] whole_history_def
         length_deep [OF ok] split: history_order.splits)
qed

theorem history_page_is_slice_witness:
  "\<exists>res. load_history_page model_crates (map ascii_lower) demo_reader CHR ''A'' ''addr'' demo_wallet 7 []
     \<lparr>hq_min_confs = 3, hq_filter = None, hq_ops = None, hq_order = Asc, hq_limit = Some 1, hq_offset = 1,
      hq_locate = None\<rparr> (open_snapshot empty_file) = (open_snapshot empty_file, Ok res) \<and>
     length (hr_entries res) \<le> 1"
proof -
  let ?q = "\<lparr>hq_min_confs = 3, hq_filter = None, hq_ops = None, hq_order = Asc, hq_limit = Some 1, hq_offset = 1,
      hq_locate = None\<rparr>"
  obtain res whole where "load_history_page model_crates (map ascii_lower) demo_reader CHR ''A'' ''addr'' demo_wallet 7 []
      ?q (open_snapshot empty_file) = (open_snapshot empty_file, Ok res)"
    and "hr_entries res = map (\<lambda>e. own_address ''addr'' (fill_tx_fee_and_output model_crates demo_wallet
      (rd_pool demo_reader) e)) (take_opt (hq_limit ?q) (drop (hr_offset res) whole))"
    using history_page_is_slice [OF bech32_laws_model key_laws_model demo_in_use, of "map ascii_lower" "''addr''"
        demo_wallet 7 "[]" ?q] by blast
  then show ?thesis by (intro exI [of _ res]) (simp add: take_opt_def)
qed

section \<open>One filter, two engines\<close>

text \<open>
  The live part of the history filters with \<open>to_lowercase\<close> and \<open>contains\<close>, the confirmed part with
  SQLite's \<open>LIKE\<close> on the escaped filter; on ASCII keys and filters they are the same test, wild cards of
  the filter included.
\<close>

lemma filter_engines_agree:
  assumes "\<forall>s. list_all is_ascii s \<longrightarrow> lower s = map ascii_lower s"
    and "list_all is_ascii f" and "list_all is_ascii (hi_key h)"
  shows "key_matches lower (hi_key h) (Some f) = key_like (Some f) h"
  using assms by (auto simp: key_matches_def key_like_Some)

definition demo_hist :: hist_row where
  "demo_hist =
     \<lparr>hi_mined_height = 1, hi_txid = [], hi_output_index = 0, hi_key = ''xa_B%y'', hi_op = ''SET'',
      hi_value = None, hi_signature = [], hi_block_time = None, hi_signer = [], hi_seq = 0, hi_comment = None\<rparr>"

section \<open>A write the history does not show\<close>

text \<open>
  A pending \<open>SETL\<close> is missing from the history: the merge of the pending file that a read makes
  shows the row as a pending value, the merge that the history makes passes over it.
\<close>

lemma pending_setl_not_in_history:
  "synthesized min_confs (e\<lparr>pe_op := op_as_str SetL\<rparr>) =
     Some (PSet (unwrap_or (pe_value e) []) 0 (max min_confs 1) (pe_txid e)) \<and>
   pending_history_entry E receiver pk (e\<lparr>pe_op := op_as_str SetL\<rparr>) = None"
  by (simp add: synthesized_def pending_history_entry_def pending_op_of_def)

end
