(* ===== verification/Glob.thy ===== *)
theory Glob
  imports Prelude "HOL-Library.While_Combinator"
begin

text \<open>
  \<open>commands/glob.rs\<close>: the matching of a key against a pattern with \<open>*\<close> and \<open>\\<close>. A text is the list of
  its scalars, as \<open>chars().collect()\<close> makes it. The loop is a \<open>while_option\<close> over its three variables
  and the verdict it returns; that it returns is a theorem, next to the one that it decides what the
  pattern means.
\<close>

section \<open>The matcher\<close>

definition STAR :: str where "STAR = ''*''"
definition ESCAPE :: str where "ESCAPE = [CHR 0x5C]"

record glob_state =
  gs_pi :: nat
  gs_ti :: nat
  gs_star :: "(nat \<times> nat) option"
  gs_verdict :: "bool option"

definition get_at :: "'a list \<Rightarrow> nat \<Rightarrow> 'a option" where
  "get_at xs i = (if i < length xs then Some (xs ! i) else None)"

text \<open>The literal at a position and the pattern scalars it takes.\<close>

definition literal_at :: "str list \<Rightarrow> nat \<Rightarrow> str \<Rightarrow> str \<times> nat" where
  "literal_at p i pc =
     (if pc = ESCAPE then (case get_at p (i + 1) of Some esc \<Rightarrow> (esc, 2) | None \<Rightarrow> (ESCAPE, 1))
      else (pc, 1))"

definition backtrack :: "glob_state \<Rightarrow> glob_state" where
  "backtrack s =
     (case gs_star s of
        Some (spi, sti) \<Rightarrow> s\<lparr>gs_pi := spi, gs_ti := sti + 1, gs_star := Some (spi, sti + 1)\<rparr>
      | None \<Rightarrow> s\<lparr>gs_verdict := Some False\<rparr>)"

definition glob_step :: "str list \<Rightarrow> str list \<Rightarrow> glob_state \<Rightarrow> glob_state" where
  "glob_step p t s =
     (if gs_ti s < length t then
        (case get_at p (gs_pi s) of
           None \<Rightarrow> backtrack s
         | Some pc \<Rightarrow>
             if pc = STAR
             then s\<lparr>gs_star := Some (gs_pi s + 1, gs_ti s), gs_pi := gs_pi s + 1\<rparr>
             else (let (lit, width) = literal_at p (gs_pi s) pc in
                   if t ! gs_ti s = lit then s\<lparr>gs_pi := gs_pi s + width, gs_ti := gs_ti s + 1\<rparr>
                   else backtrack s))
      else s\<lparr>gs_verdict := Some (dropWhile (\<lambda>c. c = STAR) (drop (gs_pi s) p) = [])\<rparr>)"

definition glob_start :: glob_state where
  "glob_start = \<lparr>gs_pi = 0, gs_ti = 0, gs_star = None, gs_verdict = None\<rparr>"

definition glob_loop :: "str list \<Rightarrow> str list \<Rightarrow> glob_state option" where
  "glob_loop p t = while_option (\<lambda>s. gs_verdict s = None) (glob_step p t) glob_start"

definition glob_match :: "str \<Rightarrow> str \<Rightarrow> bool option" where
  "glob_match pattern input = Option.bind (glob_loop (scalars pattern) (scalars input)) gs_verdict"

fun wildcard_in :: "str list \<Rightarrow> bool" where
  "wildcard_in [] = False"
| "wildcard_in (c # cs) =
     (if c = ESCAPE then (case cs of [] \<Rightarrow> False | e # cs' \<Rightarrow> wildcard_in cs')
      else if c = STAR then True else wildcard_in cs)"

definition has_wildcard :: "str \<Rightarrow> bool" where
  "has_wildcard pattern = wildcard_in (scalars pattern)"

section \<open>What a pattern means\<close>

datatype glob_token = AnyRun | Lit str

fun tokens :: "str list \<Rightarrow> glob_token list" where
  "tokens [] = []"
| "tokens (c # cs) =
     (if c = ESCAPE then (case cs of [] \<Rightarrow> [Lit ESCAPE] | e # cs' \<Rightarrow> Lit e # tokens cs')
      else (if c = STAR then AnyRun else Lit c) # tokens cs)"

fun denotes :: "glob_token list \<Rightarrow> str list \<Rightarrow> bool" where
  "denotes [] s \<longleftrightarrow> s = []"
| "denotes (Lit c # ts) s \<longleftrightarrow> (case s of [] \<Rightarrow> False | d # s' \<Rightarrow> d = c \<and> denotes ts s')"
| "denotes (AnyRun # ts) s \<longleftrightarrow> (\<exists>k \<in> {..length s}. denotes ts (drop k s))"

lemma denotes_star: "denotes (AnyRun # ts) s \<longleftrightarrow> (\<exists>k. denotes ts (drop k s))"
proof
  assume "\<exists>k. denotes ts (drop k s)"
  then obtain k where "denotes ts (drop k s)" by blast
  moreover have "drop k s = drop (min k (length s)) s" by (simp add: min_def)
  ultimately show "denotes (AnyRun # ts) s" by (auto intro: bexI [of _ "min k (length s)"])
qed auto

lemma denotes_literals:
  "denotes (map Lit xs @ ts) s \<longleftrightarrow> take (length xs) s = xs \<and> denotes ts (drop (length xs) s)"
  by (induction xs arbitrary: s) (auto split: list.splits)

lemma denotes_Nil: "denotes (tokens p) [] \<longleftrightarrow> dropWhile (\<lambda>c. c = STAR) p = []"
  by (induction p rule: tokens.induct) (auto simp: STAR_def ESCAPE_def split: list.splits)

lemma wildcard_tokens: "wildcard_in p \<longleftrightarrow> AnyRun \<in> set (tokens p)"
  by (induction p rule: wildcard_in.induct) (auto split: list.splits)

section \<open>The invariant of the loop\<close>

text \<open>The tokens from a position on, by what stands there.\<close>

lemma tokens_at:
  assumes "get_at p i = Some c"
  shows "c = STAR \<Longrightarrow> tokens (drop i p) = AnyRun # tokens (drop (i + 1) p)"
    and "c \<noteq> STAR \<Longrightarrow> literal_at p i c = (lit, w) \<Longrightarrow>
         tokens (drop i p) = Lit lit # tokens (drop (i + w) p) \<and> 0 < w"
proof -
  from assms have i: "i < length p" and d: "drop i p = c # drop (Suc i) p"
    by (auto simp: get_at_def Cons_nth_drop_Suc split: if_splits)
  show "c = STAR \<Longrightarrow> tokens (drop i p) = AnyRun # tokens (drop (i + 1) p)"
    by (simp add: d STAR_def ESCAPE_def)
  show "c \<noteq> STAR \<Longrightarrow> literal_at p i c = (lit, w) \<Longrightarrow>
         tokens (drop i p) = Lit lit # tokens (drop (i + w) p) \<and> 0 < w"
  proof (cases "Suc i < length p")
    case True
    then have "drop (Suc i) p = p ! Suc i # drop (Suc (Suc i)) p" by (simp add: Cons_nth_drop_Suc)
    moreover assume "c \<noteq> STAR" "literal_at p i c = (lit, w)"
    ultimately show ?thesis
      using True by (auto simp: d literal_at_def get_at_def split: if_splits)
  next
    case False
    then have "drop (Suc i) p = []" by simp
    moreover assume "c \<noteq> STAR" "literal_at p i c = (lit, w)"
    ultimately show ?thesis
      using False by (auto simp: d literal_at_def get_at_def split: if_splits)
  qed
qed

text \<open>
  Without a star seen, the rest of the pattern against the rest of the text decides. With one, some
  suffix from its anchor on decides, and since the star only literals have been passed, each equal
  to the text at its place.
\<close>

definition glob_inv :: "str list \<Rightarrow> str list \<Rightarrow> glob_state \<Rightarrow> bool" where
  "glob_inv p t s \<longleftrightarrow>
     (case gs_verdict s of
        Some v \<Rightarrow> v = denotes (tokens p) t
      | None \<Rightarrow>
          gs_ti s \<le> length t \<and>
          (case gs_star s of
             None \<Rightarrow> denotes (tokens p) t = denotes (tokens (drop (gs_pi s) p)) (drop (gs_ti s) t)
           | Some (spi, sti) \<Rightarrow>
               0 < spi \<and> spi \<le> gs_pi s \<and> sti \<le> gs_ti s \<and>
               tokens (drop spi p) =
                 map Lit (take (gs_ti s - sti) (drop sti t)) @ tokens (drop (gs_pi s) p) \<and>
               denotes (tokens p) t = (\<exists>k \<ge> sti. denotes (tokens (drop spi p)) (drop k t))))"

lemma glob_inv_start: "glob_inv p t glob_start"
  by (simp add: glob_inv_def glob_start_def)

text \<open>Where a star was seen, the rest at its anchor is the rest at the position.\<close>

lemma anchor_current:
  assumes "tokens (drop spi p) = map Lit (take (ti - sti) (drop sti t)) @ tokens (drop i p)"
    and "sti \<le> ti" and "ti \<le> length t"
  shows "denotes (tokens (drop spi p)) (drop sti t) \<longleftrightarrow> denotes (tokens (drop i p)) (drop ti t)"
proof -
  have "length (take (ti - sti) (drop sti t)) = ti - sti" using assms(2,3) by simp
  with assms(2) show ?thesis by (simp add: assms(1) denotes_literals)
qed

text \<open>The literals passed since the star take at least their length from a later anchor.\<close>

lemma anchor_later:
  assumes "tokens (drop spi p) = map Lit (take (ti - sti) (drop sti t)) @ ts"
    and "sti \<le> ti" and "ti \<le> length t" and "denotes (tokens (drop spi p)) (drop k t)" and "sti \<le> k"
  shows "\<exists>m \<ge> ti. denotes ts (drop m t)" and "ti = length t \<Longrightarrow> k = sti \<or> ti = sti"
proof -
  have n: "length (take (ti - sti) (drop sti t)) = ti - sti" using assms(2,3) by simp
  from assms(4) have d: "take (ti - sti) (drop k t) = take (ti - sti) (drop sti t)"
    and r: "denotes ts (drop (ti - sti + k) t)"
    unfolding assms(1) denotes_literals n by (simp_all add: add.commute)
  have "ti \<le> ti - sti + k" using assms(2,5) by simp
  with r show "\<exists>m \<ge> ti. denotes ts (drop m t)" by blast
  assume end_: "ti = length t"
  from d have "min (length t - k) (ti - sti) = ti - sti"
    using n by (metis length_drop length_take)
  with end_ assms(2,5) show "k = sti \<or> ti = sti" by (auto simp: min_def split: if_splits)
qed

lemma inv_star:
  assumes "glob_inv p t s" and "gs_verdict s = None" and "gs_ti s < length t"
    and "get_at p (gs_pi s) = Some STAR"
  shows "glob_inv p t (s\<lparr>gs_star := Some (gs_pi s + 1, gs_ti s), gs_pi := gs_pi s + 1\<rparr>)"
proof -
  let ?i = "gs_pi s" and ?j = "gs_ti s"
  have tk: "tokens (drop ?i p) = AnyRun # tokens (drop (?i + 1) p)"
    by (rule tokens_at(1) [OF assms(4) refl])
  have now: "denotes (tokens (drop ?i p)) (drop ?j t) \<longleftrightarrow> (\<exists>k \<ge> ?j. denotes (tokens (drop (?i + 1) p)) (drop k t))"
    unfolding tk denotes_star by (auto intro: exI [of _ "_ + ?j"] simp: le_iff_add add.commute)
  have "denotes (tokens p) t \<longleftrightarrow> (\<exists>k \<ge> ?j. denotes (tokens (drop (?i + 1) p)) (drop k t))"
  proof (cases "gs_star s")
    case None
    with assms(1,2) now show ?thesis by (simp add: glob_inv_def)
  next
    case (Some a)
    then obtain spi sti where st: "gs_star s = Some (spi, sti)" by (cases a) simp
    with assms(1,2) have le: "sti \<le> ?j" "?j \<le> length t"
      and lits: "tokens (drop spi p) = map Lit (take (?j - sti) (drop sti t)) @ tokens (drop ?i p)"
      and all: "denotes (tokens p) t = (\<exists>k \<ge> sti. denotes (tokens (drop spi p)) (drop k t))"
      by (simp_all add: glob_inv_def)
    show ?thesis
    proof
      assume "denotes (tokens p) t"
      with all obtain k where "sti \<le> k" "denotes (tokens (drop spi p)) (drop k t)" by blast
      from anchor_later(1) [OF lits le this(2,1)] obtain m
        where "?j \<le> m" and "denotes (tokens (drop ?i p)) (drop m t)" by blast
      then obtain n where "denotes (tokens (drop (?i + 1) p)) (drop (n + m) t)"
        unfolding tk denotes_star by auto
      with \<open>?j \<le> m\<close> show "\<exists>k \<ge> ?j. denotes (tokens (drop (?i + 1) p)) (drop k t)"
        by (intro exI [of _ "n + m"]) simp
    next
      assume "\<exists>k \<ge> ?j. denotes (tokens (drop (?i + 1) p)) (drop k t)"
      with now anchor_current [OF lits le] have "denotes (tokens (drop spi p)) (drop sti t)" by simp
      with all show "denotes (tokens p) t" by blast
    qed
  qed
  with assms(2,3) show ?thesis by (simp add: glob_inv_def)
qed

lemma inv_literal:
  assumes "glob_inv p t s" and "gs_verdict s = None" and "gs_ti s < length t"
    and "get_at p (gs_pi s) = Some pc" and "pc \<noteq> STAR" and "literal_at p (gs_pi s) pc = (lit, w)"
    and "t ! gs_ti s = lit"
  shows "glob_inv p t (s\<lparr>gs_pi := gs_pi s + w, gs_ti := gs_ti s + 1\<rparr>)"
proof -
  let ?i = "gs_pi s" and ?j = "gs_ti s"
  from tokens_at(2) [OF assms(4,5,6)]
  have tk: "tokens (drop ?i p) = Lit lit # tokens (drop (?i + w) p)" by blast
  have d: "drop ?j t = lit # drop (?j + 1) t"
    using assms(3,7) by (simp add: Cons_nth_drop_Suc [symmetric])
  show ?thesis
  proof (cases "gs_star s")
    case None
    with assms(1-3) show ?thesis by (simp add: glob_inv_def tk d)
  next
    case (Some a)
    then obtain spi sti where st: "gs_star s = Some (spi, sti)" by (cases a) simp
    with assms(1,2) have le: "sti \<le> ?j"
      and lits: "tokens (drop spi p) = map Lit (take (?j - sti) (drop sti t)) @ tokens (drop ?i p)"
      by (simp_all add: glob_inv_def)
    have "take (?j + 1 - sti) (drop sti t) = take (?j - sti) (drop sti t) @ [lit]"
      using le assms(3,7) by (simp add: Suc_diff_le take_Suc_conv_app_nth)
    with assms(1-3) st le show ?thesis by (simp add: glob_inv_def lits tk)
  qed
qed

text \<open>A mismatch: the rest of the pattern does not denote the rest of the text, of which some is left.\<close>

lemma inv_backtrack:
  assumes "glob_inv p t s" and "gs_verdict s = None" and "gs_ti s < length t"
    and "\<not> denotes (tokens (drop (gs_pi s) p)) (drop (gs_ti s) t)"
  shows "glob_inv p t (backtrack s)"
proof (cases "gs_star s")
  case None
  with assms show ?thesis by (simp add: glob_inv_def backtrack_def)
next
  case (Some a)
  then obtain spi sti where st: "gs_star s = Some (spi, sti)" by (cases a) simp
  with assms(1,2) have le: "sti \<le> gs_ti s" "gs_ti s \<le> length t" and pos: "0 < spi"
    and lits: "tokens (drop spi p) = map Lit (take (gs_ti s - sti) (drop sti t)) @ tokens (drop (gs_pi s) p)"
    and all: "denotes (tokens p) t = (\<exists>k \<ge> sti. denotes (tokens (drop spi p)) (drop k t))"
    by (simp_all add: glob_inv_def)
  have "\<not> denotes (tokens (drop spi p)) (drop sti t)"
    using anchor_current [OF lits le] assms(4) by simp
  then have "(\<exists>k \<ge> sti. denotes (tokens (drop spi p)) (drop k t)) \<longleftrightarrow>
      (\<exists>k \<ge> sti + 1. denotes (tokens (drop spi p)) (drop k t))"
    by (metis Suc_eq_plus1 Suc_leD le_antisym not_less_eq_eq)
  with all pos assms(2,3) le show ?thesis by (simp add: glob_inv_def backtrack_def st)
qed

lemma inv_end:
  assumes "glob_inv p t s" and "gs_verdict s = None" and "\<not> gs_ti s < length t"
  shows "denotes (tokens p) t \<longleftrightarrow> dropWhile (\<lambda>c. c = STAR) (drop (gs_pi s) p) = []"
proof -
  from assms have e: "gs_ti s = length t" by (simp add: glob_inv_def)
  have "denotes (tokens p) t \<longleftrightarrow> denotes (tokens (drop (gs_pi s) p)) (drop (gs_ti s) t)"
  proof (cases "gs_star s")
    case None
    with assms show ?thesis by (simp add: glob_inv_def)
  next
    case (Some a)
    then obtain spi sti where st: "gs_star s = Some (spi, sti)" by (cases a) simp
    with assms(1,2) have le: "sti \<le> gs_ti s" "gs_ti s \<le> length t"
      and lits: "tokens (drop spi p) = map Lit (take (gs_ti s - sti) (drop sti t)) @ tokens (drop (gs_pi s) p)"
      and all: "denotes (tokens p) t = (\<exists>k \<ge> sti. denotes (tokens (drop spi p)) (drop k t))"
      by (simp_all add: glob_inv_def)
    have "denotes (tokens (drop spi p)) (drop sti t)"
      if k: "sti \<le> k" "denotes (tokens (drop spi p)) (drop k t)" for k
    proof -
      from anchor_later(2) [OF lits le k(2,1) e] consider "k = sti" | "gs_ti s = sti" by blast
      then show ?thesis using k e by cases auto
    qed
    then show ?thesis using all anchor_current [OF lits le] by blast
  qed
  then show ?thesis by (simp add: e denotes_Nil)
qed

lemma glob_inv_step:
  assumes inv: "glob_inv p t s" and v: "gs_verdict s = None"
  shows "glob_inv p t (glob_step p t s)"
proof (cases "gs_ti s < length t")
  case True
  then have d: "drop (gs_ti s) t = t ! gs_ti s # drop (Suc (gs_ti s)) t" by (simp add: Cons_nth_drop_Suc)
  show ?thesis
  proof (cases "get_at p (gs_pi s)")
    case None
    then have "tokens (drop (gs_pi s) p) = []" by (simp add: get_at_def split: if_splits)
    then have "\<not> denotes (tokens (drop (gs_pi s) p)) (drop (gs_ti s) t)" by (simp add: d)
    from inv_backtrack [OF inv v True this] None True show ?thesis by (simp add: glob_step_def)
  next
    case (Some pc)
    obtain lit w where l: "literal_at p (gs_pi s) pc = (lit, w)" by force
    show ?thesis
    proof (cases "pc = STAR \<or> t ! gs_ti s = lit")
      case True
      with Some inv_star [OF inv v \<open>gs_ti s < length t\<close>] inv_literal [OF inv v \<open>gs_ti s < length t\<close> Some _ l]
      show ?thesis using \<open>gs_ti s < length t\<close> by (auto simp: glob_step_def l)
    next
      case False
      with tokens_at(2) [OF Some _ l]
      have "\<not> denotes (tokens (drop (gs_pi s) p)) (drop (gs_ti s) t)" by (simp add: d)
      from inv_backtrack [OF inv v \<open>gs_ti s < length t\<close> this] False Some \<open>gs_ti s < length t\<close>
      show ?thesis by (simp add: glob_step_def l)
    qed
  qed
next
  case False
  with inv_end [OF inv v False] show ?thesis by (simp add: glob_step_def glob_inv_def)
qed

section \<open>The loop ends\<close>

text \<open>A star moves the anchor in the pattern on, a mismatch the anchor in the text, a match the text.\<close>

definition glob_measure :: "str list \<Rightarrow> str list \<Rightarrow> glob_state \<Rightarrow> nat \<times> nat \<times> nat" where
  "glob_measure p t s =
     (case gs_star s of None \<Rightarrow> Suc (length p) | Some (spi, sti) \<Rightarrow> length p - spi,
      case gs_star s of None \<Rightarrow> 0 | Some (spi, sti) \<Rightarrow> length t - sti,
      if gs_verdict s = None then Suc (length t - gs_ti s) else 0)"

lemma glob_measure_step:
  assumes "glob_inv p t s" and "gs_verdict s = None"
  shows "(glob_measure p t (glob_step p t s), glob_measure p t s) \<in> less_than <*lex*> less_than <*lex*> less_than"
proof -
  have b: "(glob_measure p t (backtrack s), glob_measure p t s) \<in> less_than <*lex*> less_than <*lex*> less_than"
    if "gs_ti s < length t"
    using assms that by (auto simp: glob_measure_def backtrack_def glob_inv_def split: option.splits)
  show ?thesis
  proof (cases "gs_ti s < length t")
    case True
    show ?thesis
    proof (cases "get_at p (gs_pi s)")
      case None
      with True b show ?thesis by (simp add: glob_step_def)
    next
      case (Some pc)
      then have i: "gs_pi s < length p" by (simp add: get_at_def split: if_splits)
      obtain lit w where l: "literal_at p (gs_pi s) pc = (lit, w)" by force
      show ?thesis
      proof (cases "pc = STAR")
        case True
        with Some have e: "glob_step p t s = s\<lparr>gs_star := Some (gs_pi s + 1, gs_ti s), gs_pi := gs_pi s + 1\<rparr>"
          using \<open>gs_ti s < length t\<close> by (simp add: glob_step_def)
        show ?thesis
        proof (cases "gs_star s")
          case None
          then show ?thesis using i assms(2) by (auto simp: e glob_measure_def)
        next
          case (Some a)
          obtain spi sti where a: "a = (spi, sti)" by force
          with assms Some have "spi \<le> gs_pi s" by (simp add: glob_inv_def)
          then have "length p - Suc (gs_pi s) < length p - spi" using i by linarith
          with Some a assms(2) show ?thesis by (simp add: e glob_measure_def)
        qed
      next
        case False
        show ?thesis
        proof (cases "t ! gs_ti s = lit")
          case True
          with False Some l have "glob_step p t s = s\<lparr>gs_pi := gs_pi s + w, gs_ti := gs_ti s + 1\<rparr>"
            using \<open>gs_ti s < length t\<close> by (simp add: glob_step_def)
          with assms(2) \<open>gs_ti s < length t\<close> show ?thesis by (simp add: glob_measure_def)
        next
          case differs: False
          with False Some l have "glob_step p t s = backtrack s"
            using \<open>gs_ti s < length t\<close> by (simp add: glob_step_def)
          with b \<open>gs_ti s < length t\<close> show ?thesis by simp
        qed
      qed
    qed
  qed (use assms in \<open>simp add: glob_step_def glob_measure_def\<close>)
qed

lemma glob_loop_ends: "\<exists>s. glob_loop p t = Some s"
  unfolding glob_loop_def
proof (rule wf_while_option_Some [where P = "glob_inv p t"])
  show "wf {(u, s). (glob_inv p t s \<and> gs_verdict s = None) \<and> u = glob_step p t s}"
    by (rule wf_subset [OF wf_inv_image [of "less_than <*lex*> less_than <*lex*> less_than" "glob_measure p t"]])
       (auto simp: wf_lex_prod dest: glob_measure_step)
qed (auto intro: glob_inv_step glob_inv_start)

lemma glob_loop_decides:
  assumes "glob_loop p t = Some s"
  shows "gs_verdict s = Some (denotes (tokens p) t)"
proof -
  note r = assms [unfolded glob_loop_def]
  have "glob_inv p t s"
    by (rule while_option_rule [where P = "glob_inv p t", OF _ r glob_inv_start]) (auto intro: glob_inv_step)
  moreover have "gs_verdict s \<noteq> None" using while_option_stop [OF r] by simp
  ultimately show ?thesis by (auto simp: glob_inv_def)
qed

section \<open>Properties\<close>

text \<open>
  C23. The backtracking loop of \<open>glob_match\<close> ends on every pattern and text, and its verdict is the
  meaning of the pattern: a star stands for any run of scalars, an escaped scalar for itself, every
  other scalar for itself, and the whole text is matched. A pattern without an unescaped star
  (\<open>has_wildcard\<close> false) matches exactly one text, its scalars with the escapes removed.
\<close>

theorem glob_match_decides:
  "glob_match pattern input = Some (denotes (tokens (scalars pattern)) (scalars input)) \<and>
   (has_wildcard pattern \<or>
    (\<exists>word. \<forall>input. glob_match pattern input = Some (scalars input = word)))"
proof -
  have d: "glob_match pattern input = Some (denotes (tokens (scalars pattern)) (scalars input))" for input
    using glob_loop_ends [of "scalars pattern" "scalars input"] glob_loop_decides
    by (fastforce simp: glob_match_def)
  have plain: "\<exists>word. tokens (scalars pattern) = map Lit word" if "\<not> has_wildcard pattern"
  proof -
    have "\<exists>w. ts = map Lit w" if "AnyRun \<notin> set ts" for ts
      using that
    proof (induction ts)
      case (Cons x ts)
      then obtain c w where "x = Lit c" "ts = map Lit w" by (cases x) auto
      then show ?case by (intro exI [of _ "c # w"]) simp
    qed simp
    with that show ?thesis by (simp add: has_wildcard_def wildcard_tokens)
  qed
  have words: "denotes (map Lit w) s \<longleftrightarrow> s = w" for w s
    using denotes_literals [of w "[]" s] by (auto simp: take_all_iff)
  have "\<exists>word. \<forall>input. glob_match pattern input = Some (scalars input = word)"
    if "\<not> has_wildcard pattern"
  proof -
    from plain [OF that] obtain word where "tokens (scalars pattern) = map Lit word" by blast
    then show ?thesis by (intro exI [of _ word]) (simp add: d words)
  qed
  with d show ?thesis by blast
qed

end
