(* ===== verification/Shallow_Validate.thy ===== *)
theory Shallow_Validate
  imports Replay "HOL-Library.Product_Lexorder"
begin

text \<open>
  \<open>shallow/validate.rs\<close>: the validator of the shallow reader, which classifies the memos of a block
  window without a replay, and the arithmetic its drivers share: the cursor of a poll, the chunks a
  range is walked in and the early stop of a search. Heights are \<open>u32\<close> as \<open>nat\<close>; \<open>tip - height + 1\<close>
  fits them for any tip below \<open>2 ^ 32 - 1\<close>.
\<close>

section \<open>Data\<close>

record raw_hit =
  rh_height :: u32
  rh_txid :: bytes
  rh_output_index :: u32
  rh_text :: str

record shallow_update =
  su_key :: str
  su_value :: "str option"
  su_op :: op
  su_height :: u32
  su_txid :: str
  su_output_index :: u32
  su_seq :: u64
  su_signer :: "str option"
  su_verified :: bool
  su_confirmations :: u32
  su_comment :: "str option"

datatype shallow_warning =
  UnverifiedSigner str str u32 str      \<comment> \<open>key, signer, height, txid\<close>
| SeqOrderMismatch str u64 u64          \<comment> \<open>key, sequence of the winner, maximum\<close>
| ManagementSeen op u32
| MalformedMemo u32 str str             \<comment> \<open>height, txid, detail\<close>

record init_observation =
  io_height :: u32
  io_txid :: bytes
  io_root_signed :: bool
  io_memo :: str

record validated =
  va_updates :: "shallow_update list"
  va_latest :: "(str, shallow_update) btree"
  va_warnings :: "shallow_warning list"
  va_inits :: "init_observation list"

definition validated_default :: validated where
  "validated_default = \<lparr>va_updates = [], va_latest = [], va_warnings = [], va_inits = []\<rparr>"

definition hit_pos :: "raw_hit \<Rightarrow> u32 \<times> bytes \<times> u32" where
  "hit_pos h = (rh_height h, rh_txid h, rh_output_index h)"

section \<open>The validator\<close>

definition push_update :: "shallow_update \<Rightarrow> validated \<Rightarrow> validated" where
  "push_update u out = out\<lparr>va_updates := va_updates out @ [u]\<rparr>"

definition push_warning :: "shallow_warning \<Rightarrow> validated \<Rightarrow> validated" where
  "push_warning w out = out\<lparr>va_warnings := va_warnings out @ [w]\<rparr>"

definition push_init :: "init_observation \<Rightarrow> validated \<Rightarrow> validated" where
  "push_init i out = out\<lparr>va_inits := va_inits out @ [i]\<rparr>"

definition accepted :: "str \<Rightarrow> str set \<Rightarrow> str option \<Rightarrow> bool" where
  "accepted root_hex extra_signers signer =
     (case signer of None \<Rightarrow> False | Some s \<Rightarrow> s = root_hex \<or> s \<in> extra_signers)"

definition hit_signer :: "('pk, 'sk) crates \<Rightarrow> str \<Rightarrow> zkv_command \<Rightarrow> str option" where
  "hit_signer E receiver cmd =
     map_option (pubkey_bech32 E) (recover_signer E (payload_for E receiver cmd) (cmd_sig_hex cmd))"

text \<open>One parsed memo: a data operation, an INIT, or any other operation.\<close>

definition validate_command ::
    "('pk, 'sk) crates \<Rightarrow> str \<Rightarrow> str \<Rightarrow> str set \<Rightarrow> u32 \<Rightarrow> raw_hit \<Rightarrow> zkv_command \<Rightarrow> validated \<Rightarrow> validated" where
  "validate_command E receiver root_hex extra_signers confs hit cmd out =
     (let signer = hit_signer E receiver cmd; txid = txid_to_string E (rh_txid hit) in
      if is_data (cmd_op cmd) then
        (let ok = accepted root_hex extra_signers signer;
             out1 = (case signer of
                       Some s \<Rightarrow> if \<not> ok then push_warning (UnverifiedSigner (cmd_key cmd) s (rh_height hit) txid) out
                                 else out
                     | None \<Rightarrow> out)
         in push_update
              \<lparr>su_key = cmd_key cmd, su_value = cmd_value cmd, su_op = cmd_op cmd, su_height = rh_height hit,
               su_txid = txid, su_output_index = rh_output_index hit, su_seq = cmd_seq cmd,
               su_signer = signer, su_verified = ok, su_confirmations = confs,
               su_comment = cmd_comment cmd\<rparr> out1)
      else if cmd_op cmd = Init then
        push_init \<lparr>io_height = rh_height hit, io_txid = rh_txid hit,
                   io_root_signed = (signer = Some root_hex), io_memo = rh_text hit\<rparr> out
      else push_warning (ManagementSeen (cmd_op cmd) (rh_height hit)) out)"

text \<open>The body of the loop over the hits.\<close>

definition validate_hit ::
    "('pk, 'sk) crates \<Rightarrow> str \<Rightarrow> str \<Rightarrow> str set \<Rightarrow> u32 \<Rightarrow> u32 \<Rightarrow> raw_hit \<Rightarrow> validated \<Rightarrow> validated" where
  "validate_hit E receiver root_hex extra_signers tip min_confirmations hit out =
     (let confs = (tip - rh_height hit) + 1 in
      if confs < min_confirmations then out
      else (case parse_text_memo_detailed E (rh_text hit) of
              Inr cmd \<Rightarrow> validate_command E receiver root_hex extra_signers confs hit cmd out
            | Inl NotZkv \<Rightarrow> out
            | Inl (Malformed fmt) \<Rightarrow>
                push_warning (MalformedMemo (rh_height hit) (txid_to_string E (rh_txid hit))
                  (memo_format_str fmt)) out
            | Inl (UnsupportedVersion v) \<Rightarrow>
                push_warning (MalformedMemo (rh_height hit) (txid_to_string E (rh_txid hit))
                  (''unsupported zkv protocol version '' @ dec v)) out))"

definition latest_of :: "shallow_update list \<Rightarrow> (str, shallow_update) btree" where
  "latest_of us = foldl (\<lambda>m u. if su_verified u then bt_insert (su_key u) u m else m) [] us"

definition max_seq_of :: "shallow_update list \<Rightarrow> (str, u64) btree" where
  "max_seq_of us =
     foldl (\<lambda>m u. bt_insert (su_key u) (max (unwrap_or (map_of m (su_key u)) (su_seq u)) (su_seq u)) m) []
       (filter su_verified us)"

definition mismatch_warnings ::
    "(str, u64) btree \<Rightarrow> (str, shallow_update) btree \<Rightarrow> shallow_warning list" where
  "mismatch_warnings max_seq latest =
     concat (map (\<lambda>(key, winner).
       let mx = unwrap_or (map_of max_seq key) (su_seq winner)
       in if su_seq winner < mx then [SeqOrderMismatch key (su_seq winner) mx] else []) latest)"

definition validate ::
    "('pk, 'sk) crates \<Rightarrow> raw_hit list \<Rightarrow> str \<Rightarrow> str \<Rightarrow> str set \<Rightarrow> u32 \<Rightarrow> u32 \<Rightarrow> validated" where
  "validate E hits receiver root_hex extra_signers tip min_confirmations =
     (let out = fold (validate_hit E receiver root_hex extra_signers tip min_confirmations)
            (sort_key hit_pos hits) validated_default;
          latest = latest_of (va_updates out)
      in out\<lparr>va_latest := latest,
             va_warnings := va_warnings out @ mismatch_warnings (max_seq_of (va_updates out)) latest\<rparr>)"

section \<open>The cursor of a poll\<close>

type_synonym update_id = "u32 \<times> str \<times> u32"

record shallow_cursor =
  cu_height :: u32
  cu_recent :: "update_id list"

definition update_id_of :: "shallow_update \<Rightarrow> update_id" where
  "update_id_of u = (su_height u, su_txid u, su_output_index u)"

definition at_tip :: "u32 \<Rightarrow> shallow_update list \<Rightarrow> u32 \<Rightarrow> shallow_cursor" where
  "at_tip tip us margin =
     \<lparr>cu_height = tip, cu_recent = map update_id_of (filter (\<lambda>u. tip - margin < su_height u) us)\<rparr>"

definition poll_range :: "u32 \<Rightarrow> u32 \<Rightarrow> u32 \<Rightarrow> (u32 \<times> u32) option" where
  "poll_range cursor_height tip margin =
     (if cursor_height < tip then Some (sat_add32 (cursor_height - margin) 1, tip) else None)"

definition dedup_updates :: "shallow_update list \<Rightarrow> update_id list \<Rightarrow> shallow_update list" where
  "dedup_updates us seen = filter (\<lambda>u. \<not> list_ex (\<lambda>i. i = update_id_of u) seen) us"

section \<open>Chunks\<close>

text \<open>
  The loops end because the bound of the next chunk lies beyond the end of the last one; a chunk width
  of 0 is never passed, the callers clamp it.
\<close>

definition sat_mul32 :: "u32 \<Rightarrow> u32 \<Rightarrow> u32" where "sat_mul32 a b = min (a * b) u32_max"

function desc_chunks :: "u32 \<Rightarrow> u32 \<Rightarrow> u32 \<Rightarrow> u32 \<Rightarrow> (u32 \<times> u32) list" where
  "desc_chunks lo largest width upper =
     (if upper < lo then []
      else (let bottom = max (upper - (width - 1)) lo in
            (bottom, upper) #
            (if bottom = lo \<or> bottom = 0 then []
             else desc_chunks lo largest (min (sat_mul32 width 2) (max largest 1)) (bottom - 1))))"
  by pat_completeness auto

termination
  by (relation "measure (\<lambda>(lo, largest, width, upper). upper)") (auto simp: max_def split: if_splits)

definition chunks_desc_progressive :: "u32 \<Rightarrow> u32 \<Rightarrow> u32 \<Rightarrow> u32 \<Rightarrow> (u32 \<times> u32) list" where
  "chunks_desc_progressive lo hi first largest = desc_chunks lo largest (max first 1) hi"

function asc_chunks :: "u32 \<Rightarrow> u32 \<Rightarrow> u32 \<Rightarrow> u32 \<Rightarrow> (u32 \<times> u32) list" where
  "asc_chunks hi largest width bottom =
     (if hi < bottom then []
      else (let upper = min (sat_add32 bottom (width - 1)) hi in
            (bottom, upper) #
            (if upper = hi \<or> upper = u32_max then []
             else asc_chunks hi largest (min (sat_mul32 width 2) (max largest 1)) (upper + 1))))"
  by pat_completeness auto

termination
  by (relation "measure (\<lambda>(hi, largest, width, bottom). Suc hi - bottom)")
     (auto simp: sat_add32_def min_def split: if_splits)

definition chunks_asc_progressive :: "u32 \<Rightarrow> u32 \<Rightarrow> u32 \<Rightarrow> u32 \<Rightarrow> (u32 \<times> u32) list" where
  "chunks_asc_progressive lo hi first largest = asc_chunks hi largest (max first 1) lo"

function equal_chunks :: "u32 \<Rightarrow> u32 \<Rightarrow> u32 \<Rightarrow> (u32 \<times> u32) list" where
  "equal_chunks hi chunk start =
     (if hi < start then []
      else (let stop = min (sat_add32 start (chunk - 1)) hi in
            (start, stop) # (if stop = u32_max then [] else equal_chunks hi chunk (stop + 1))))"
  by pat_completeness auto

termination
  by (relation "measure (\<lambda>(hi, chunk, start). Suc hi - start)")
     (auto simp: sat_add32_def min_def split: if_splits)

definition chunks_asc :: "u32 \<Rightarrow> u32 \<Rightarrow> u32 \<Rightarrow> (u32 \<times> u32) list" where
  "chunks_asc lo hi chunk = equal_chunks hi (max chunk 1) lo"

declare desc_chunks.simps [simp del] asc_chunks.simps [simp del] equal_chunks.simps [simp del]

section \<open>The early stop of a search\<close>

record find_stepper =
  fs_grace :: u32
  fs_stop_below :: "u32 option"

definition stepper_new :: "u32 \<Rightarrow> find_stepper" where
  "stepper_new grace = \<lparr>fs_grace = grace, fs_stop_below = None\<rparr>"

definition wants :: "find_stepper \<Rightarrow> u32 \<Rightarrow> bool" where
  "wants s height = (case fs_stop_below s of None \<Rightarrow> True | Some sb \<Rightarrow> sb \<le> height)"

definition skip_chunk :: "find_stepper \<Rightarrow> u32 \<Rightarrow> bool" where
  "skip_chunk s hi = (case fs_stop_below s of None \<Rightarrow> False | Some sb \<Rightarrow> hi < sb)"

definition observe :: "u32 \<Rightarrow> bool \<Rightarrow> find_stepper \<Rightarrow> find_stepper" where
  "observe height satisfied s =
     (if fs_stop_below s = None \<and> satisfied then s\<lparr>fs_stop_below := Some (height - fs_grace s)\<rparr> else s)"

definition covered_from :: "find_stepper \<Rightarrow> u32 \<Rightarrow> u32" where
  "covered_from s floor_height =
     (case fs_stop_below s of None \<Rightarrow> floor_height | Some sb \<Rightarrow> max sb floor_height)"

end
