(* ===== verification/Shallow_Client.thy ===== *)
theory Shallow_Client
  imports Shallow_Validate Glob
begin

text \<open>
  \<open>shallow/mod.rs\<close> and \<open>commands/shallow.rs\<close>: the reads of the shallow client (\<open>scan\<close>, \<open>find\<close>, \<open>poll\<close>,
  \<open>verify_init\<close>) over a \<open>ChainSource\<close>, and the command that follows keys. The source is a parameter:
  what the server answers while one read runs. The directory of the INIT cache is a record; a cache
  file that is absent or does not parse is \<open>None\<close>.
\<close>

section \<open>Options, errors and state\<close>

definition DEFAULT_SCAN_DEPTH :: u32 where "DEFAULT_SCAN_DEPTH = 48"
definition REORG_MARGIN :: u32 where "REORG_MARGIN = 10"
definition CHUNK :: u32 where "CHUNK = 1000"

record shallow_options =
  so_min_confirmations :: u32
  so_depth :: u32
  so_max_depth :: u32
  so_verify_init :: bool
  so_init_scan_limit :: u32
  so_extra_signers :: "str set"

definition shallow_options_default :: shallow_options where
  "shallow_options_default =
     \<lparr>so_min_confirmations = 3, so_depth = DEFAULT_SCAN_DEPTH, so_max_depth = DEFAULT_SCAN_DEPTH,
      so_verify_init = True, so_init_scan_limit = 10000, so_extra_signers = {}\<rparr>"

record init_anchor =
  ia_height :: u32
  ia_txid :: str
  ia_memo :: "str option"

datatype shallow_error = SAddress str | SConnect | InitNotFound u32 u32 | SOther

text \<open>The trait \<open>ChainSource\<close>.\<close>

record chain_source =
  cs_tip :: "shallow_error + u32"
  cs_candidates :: "u32 \<Rightarrow> u32 \<Rightarrow> shallow_error + (u32 \<times> bytes) list"
  cs_memos :: "bytes \<Rightarrow> u32 \<Rightarrow> u32 \<Rightarrow> shallow_error + (u32 \<times> (u32 \<times> str) list) option"

record init_cache_file =
  ic_receiver :: str
  ic_height :: u32
  ic_txid :: str
  ic_memo :: "str option"

record cache_dir =
  cd_is_dir :: bool
  cd_writable :: bool
  cd_file :: "init_cache_file option"

record shallow_client =
  sc_birthday :: u32
  sc_receiver :: str
  sc_root_hex :: str
  sc_source :: chain_source
  sc_cache_dir :: "cache_dir option"
  sc_init_anchor :: "init_anchor option"

record shallow_state =
  ss_tip :: u32
  ss_scanned :: "u32 \<times> u32"
  ss_updates :: "shallow_update list"
  ss_latest :: "(str, shallow_update) btree"
  ss_warnings :: "shallow_warning list"
  ss_init :: "init_anchor option"
  ss_cursor :: shallow_cursor

section \<open>Fetching\<close>

definition txid_heights :: "(u32 \<times> bytes) list \<Rightarrow> (bytes, u32) btree" where
  "txid_heights hits =
     foldl (\<lambda>m (height, txid). if map_of m txid = None then bt_insert txid height m else m) [] hits"

fun enhance_loop :: "chain_source \<Rightarrow> u32 \<Rightarrow> (bytes \<times> u32) list \<Rightarrow> shallow_error + raw_hit list" where
  "enhance_loop src tip [] = Ok []"
| "enhance_loop src tip ((txid, seen_height) # rest) =
     try_ok (cs_memos src txid seen_height tip) (\<lambda>found.
       case found of
         None \<Rightarrow> enhance_loop src tip rest
       | Some (height, memos) \<Rightarrow>
           try_ok (enhance_loop src tip rest) (\<lambda>more.
             Ok (map (\<lambda>(i, text). \<lparr>rh_height = height, rh_txid = txid, rh_output_index = i, rh_text = text\<rparr>)
                   memos @ more)))"

definition enhance :: "chain_source \<Rightarrow> u32 \<Rightarrow> (u32 \<times> bytes) list \<Rightarrow> shallow_error + raw_hit list" where
  "enhance src tip hits = enhance_loop src tip (txid_heights hits)"

definition fetch_and_enhance :: "chain_source \<Rightarrow> u32 \<Rightarrow> u32 \<Rightarrow> u32 \<Rightarrow> shallow_error + raw_hit list" where
  "fetch_and_enhance src lo hi tip = try_ok (cs_candidates src lo hi) (enhance src tip)"

text \<open>\<open>entry(height).or_default().push(txid)\<close>.\<close>

definition by_height :: "(u32 \<times> bytes) list \<Rightarrow> (u32, bytes list) btree" where
  "by_height hits =
     foldl (\<lambda>m (height, txid). bt_insert height (unwrap_or (map_of m height) [] @ [txid]) m) [] hits"

definition validated_of ::
    "('pk, 'sk) crates \<Rightarrow> shallow_client \<Rightarrow> shallow_options \<Rightarrow> u32 \<Rightarrow> raw_hit list \<Rightarrow> validated" where
  "validated_of E c opts tip raw =
     validate E raw (sc_receiver c) (sc_root_hex c) (so_extra_signers opts) tip
       (max (so_min_confirmations opts) 1)"

definition margin_of :: "shallow_options \<Rightarrow> u32" where
  "margin_of opts = max REORG_MARGIN (so_min_confirmations opts)"

definition state_of ::
    "shallow_options \<Rightarrow> u32 \<Rightarrow> u32 \<Rightarrow> u32 \<Rightarrow> validated \<Rightarrow> init_anchor option \<Rightarrow> shallow_state" where
  "state_of opts tip lo hi v init =
     \<lparr>ss_tip = tip, ss_scanned = (lo, hi), ss_updates = va_updates v, ss_latest = va_latest v,
      ss_warnings = va_warnings v, ss_init = init, ss_cursor = at_tip tip (va_updates v) (margin_of opts)\<rparr>"

section \<open>The INIT anchor\<close>

definition read_cache_file :: "cache_dir \<Rightarrow> str \<Rightarrow> init_anchor option" where
  "read_cache_file dir receiver =
     Option.bind (cd_file dir) (\<lambda>c.
       if ic_receiver c = receiver
       then Some \<lparr>ia_height = ic_height c, ia_txid = ic_txid c, ia_memo = ic_memo c\<rparr> else None)"

definition write_cache_file :: "cache_dir \<Rightarrow> str \<Rightarrow> init_anchor \<Rightarrow> cache_dir" where
  "write_cache_file dir receiver a =
     (if \<not> cd_is_dir dir \<or> \<not> cd_writable dir then dir
      else dir\<lparr>cd_file := Some \<lparr>ic_receiver = receiver, ic_height = ia_height a, ic_txid = ia_txid a,
                                ic_memo = ia_memo a\<rparr>\<rparr>)"

definition read_init_cache :: "shallow_client \<Rightarrow> init_anchor option" where
  "read_init_cache c = Option.bind (sc_cache_dir c) (\<lambda>dir. read_cache_file dir (sc_receiver c))"

definition write_init_cache :: "init_anchor \<Rightarrow> shallow_client \<Rightarrow> shallow_client" where
  "write_init_cache a c = c\<lparr>sc_cache_dir := map_option (\<lambda>dir. write_cache_file dir (sc_receiver c) a) (sc_cache_dir c)\<rparr>"

definition anchor_of :: "('pk, 'sk) crates \<Rightarrow> init_observation \<Rightarrow> init_anchor" where
  "anchor_of E obs =
     \<lparr>ia_height = io_height obs, ia_txid = txid_to_string E (io_txid obs), ia_memo = Some (io_memo obs)\<rparr>"

text \<open>Within a chunk block by block, oldest first, until a root-signed INIT is found.\<close>

fun init_blocks ::
    "('pk, 'sk) crates \<Rightarrow> shallow_client \<Rightarrow> shallow_options \<Rightarrow> u32 \<Rightarrow> (u32 \<times> bytes list) list \<Rightarrow>
     shallow_error + init_observation option" where
  "init_blocks E c opts tip [] = Ok None"
| "init_blocks E c opts tip ((height, txids) # blocks) =
     try_ok (enhance (sc_source c) tip (map (Pair height) txids)) (\<lambda>raw.
       case List.find io_root_signed (va_inits (validated_of E c opts tip raw)) of
         Some found \<Rightarrow> Ok (Some found)
       | None \<Rightarrow> init_blocks E c opts tip blocks)"

fun init_chunks ::
    "('pk, 'sk) crates \<Rightarrow> shallow_client \<Rightarrow> shallow_options \<Rightarrow> u32 \<Rightarrow> (u32 \<times> u32) list \<Rightarrow>
     shallow_error + init_observation option" where
  "init_chunks E c opts tip [] = Ok None"
| "init_chunks E c opts tip ((lo, hi) # chunks) =
     try_ok (cs_candidates (sc_source c) lo hi) (\<lambda>hits.
     try_ok (init_blocks E c opts tip (by_height hits)) (\<lambda>found.
       case found of Some i \<Rightarrow> Ok (Some i) | None \<Rightarrow> init_chunks E c opts tip chunks))"

definition verify_init_at ::
    "('pk, 'sk) crates \<Rightarrow> shallow_options \<Rightarrow> u32 \<Rightarrow> shallow_client \<Rightarrow>
     shallow_client \<times> (shallow_error + init_anchor)" where
  "verify_init_at E opts tip c =
     (let cap = min tip (sat_add32 (sc_birthday c) (so_init_scan_limit opts)) in
      case init_chunks E c opts tip (chunks_asc_progressive (sc_birthday c) cap DEFAULT_SCAN_DEPTH CHUNK) of
        Inl e \<Rightarrow> (c, Err e)
      | Inr (Some found) \<Rightarrow>
          (let a = anchor_of E found
           in (write_init_cache a (c\<lparr>sc_init_anchor := Some a\<rparr>), Ok a))
      | Inr None \<Rightarrow> (c, Err (InitNotFound (sc_birthday c) cap)))"

definition verify_init ::
    "('pk, 'sk) crates \<Rightarrow> shallow_options \<Rightarrow> shallow_client \<Rightarrow> shallow_client \<times> (shallow_error + init_anchor)" where
  "verify_init E opts c =
     (case sc_init_anchor c of
        Some a \<Rightarrow> (c, Ok a)
      | None \<Rightarrow>
          (case read_init_cache c of
             Some a \<Rightarrow> (c\<lparr>sc_init_anchor := Some a\<rparr>, Ok a)
           | None \<Rightarrow>
               (case cs_tip (sc_source c) of
                  Inl e \<Rightarrow> (c, Err e)
                | Inr tip \<Rightarrow> verify_init_at E opts tip c)))"

definition ensure_init ::
    "('pk, 'sk) crates \<Rightarrow> shallow_options \<Rightarrow> u32 \<Rightarrow> shallow_client \<Rightarrow>
     shallow_client \<times> (shallow_error + init_anchor option)" where
  "ensure_init E opts tip c =
     (if \<not> so_verify_init opts then (c, Ok (sc_init_anchor c))
      else
        (let c1 = (if sc_init_anchor c = None then c\<lparr>sc_init_anchor := read_init_cache c\<rparr> else c) in
         if sc_init_anchor c1 \<noteq> None then (c1, Ok (sc_init_anchor c1))
         else (case verify_init_at E opts tip c1 of
                 (c2, Inl e) \<Rightarrow> (c2, Err e)
               | (c2, Inr a) \<Rightarrow> (c2, Ok (sc_init_anchor c2)))))"

section \<open>Scanning, finding, polling\<close>

definition window_from :: "shallow_client \<Rightarrow> u32 \<Rightarrow> u32 \<Rightarrow> u32" where
  "window_from c tip depth = max (sc_birthday c) (tip - (depth - 1))"

definition scan ::
    "('pk, 'sk) crates \<Rightarrow> shallow_options \<Rightarrow> shallow_client \<Rightarrow> shallow_client \<times> (shallow_error + shallow_state)" where
  "scan E opts c =
     (case cs_tip (sc_source c) of
        Inl e \<Rightarrow> (c, Err e)
      | Inr tip \<Rightarrow>
          (case ensure_init E opts tip c of
             (c1, Inl e) \<Rightarrow> (c1, Err e)
           | (c1, Inr init) \<Rightarrow>
               (let lo = window_from c1 tip (so_depth opts) in
                (c1, try_ok (fetch_and_enhance (sc_source c1) lo tip tip) (\<lambda>raw.
                       Ok (state_of opts tip lo tip (validated_of E c1 opts tip raw) init))))))"

text \<open>What the search has gathered: the hits, their validation, and the stepper.\<close>

type_synonym search = "raw_hit list \<times> validated \<times> find_stepper"

text \<open>The blocks of a chunk, newest first; the flag tells that the walk is complete.\<close>

fun find_blocks ::
    "('pk, 'sk) crates \<Rightarrow> shallow_client \<Rightarrow> shallow_options \<Rightarrow> u32 \<Rightarrow>
     ((str, shallow_update) btree \<Rightarrow> bool) \<Rightarrow> (u32 \<times> bytes list) list \<Rightarrow> search \<Rightarrow>
     shallow_error + (bool \<times> search)" where
  "find_blocks E c opts tip satisfied [] s = Ok (False, s)"
| "find_blocks E c opts tip satisfied ((height, txids) # blocks) (raw, v, stepper) =
     (if \<not> wants stepper height then Ok (True, raw, v, stepper)
      else try_ok (enhance (sc_source c) tip (map (Pair height) txids)) (\<lambda>more.
        (let raw' = raw @ more; v' = validated_of E c opts tip raw'
         in find_blocks E c opts tip satisfied blocks
              (raw', v', observe height (satisfied (va_latest v')) stepper))))"

fun find_chunks ::
    "('pk, 'sk) crates \<Rightarrow> shallow_client \<Rightarrow> shallow_options \<Rightarrow> u32 \<Rightarrow>
     ((str, shallow_update) btree \<Rightarrow> bool) \<Rightarrow> (u32 \<times> u32) list \<Rightarrow> search \<Rightarrow> shallow_error + search" where
  "find_chunks E c opts tip satisfied [] s = Ok s"
| "find_chunks E c opts tip satisfied ((lo, hi) # chunks) s =
     (if skip_chunk (snd (snd s)) hi then Ok s
      else try_ok (cs_candidates (sc_source c) lo hi) (\<lambda>hits.
           try_ok (find_blocks E c opts tip satisfied (rev (by_height hits)) s) (\<lambda>(stopped, s').
             if stopped then Ok s' else find_chunks E c opts tip satisfied chunks s')))"

definition find_where ::
    "('pk, 'sk) crates \<Rightarrow> shallow_options \<Rightarrow> ((str, shallow_update) btree \<Rightarrow> bool) \<Rightarrow> u32 \<Rightarrow>
     shallow_client \<Rightarrow> shallow_client \<times> (shallow_error + shallow_state)" where
  "find_where E opts satisfied grace c =
     (case cs_tip (sc_source c) of
        Inl e \<Rightarrow> (c, Err e)
      | Inr tip \<Rightarrow>
          (case ensure_init E opts tip c of
             (c1, Inl e) \<Rightarrow> (c1, Err e)
           | (c1, Inr init) \<Rightarrow>
               (let bottom = window_from c1 tip (so_max_depth opts) in
                (c1, try_ok (find_chunks E c1 opts tip satisfied
                         (chunks_desc_progressive bottom tip DEFAULT_SCAN_DEPTH CHUNK)
                         ([], validated_default, stepper_new grace)) (\<lambda>(raw, v, stepper).
                       Ok (state_of opts tip (covered_from stepper bottom) tip v init))))))"

definition find_keys ::
    "('pk, 'sk) crates \<Rightarrow> shallow_options \<Rightarrow> str list \<Rightarrow> shallow_client \<Rightarrow>
     shallow_client \<times> (shallow_error + shallow_state)" where
  "find_keys E opts keys =
     find_where E opts (\<lambda>latest. list_all (\<lambda>k. map_of latest k \<noteq> None) keys) 0"

definition poll ::
    "('pk, 'sk) crates \<Rightarrow> shallow_options \<Rightarrow> shallow_cursor \<Rightarrow> shallow_client \<Rightarrow>
     shallow_error + shallow_state" where
  "poll E opts cursor c =
     try_ok (cs_tip (sc_source c)) (\<lambda>tip.
       case poll_range (cu_height cursor) tip (margin_of opts) of
         None \<Rightarrow>
           Ok \<lparr>ss_tip = tip, ss_scanned = (cu_height cursor, cu_height cursor), ss_updates = [],
               ss_latest = [], ss_warnings = [], ss_init = sc_init_anchor c, ss_cursor = cursor\<rparr>
       | Some (lo0, hi) \<Rightarrow>
           (let lo = max lo0 (sc_birthday c) in
            try_ok (fetch_and_enhance (sc_source c) lo hi tip) (\<lambda>raw.
              let v = validated_of E c opts tip raw in
              Ok \<lparr>ss_tip = tip, ss_scanned = (lo, hi),
                  ss_updates = dedup_updates (va_updates v) (cu_recent cursor), ss_latest = va_latest v,
                  ss_warnings = va_warnings v, ss_init = sc_init_anchor c,
                  ss_cursor = at_tip tip (va_updates v) (margin_of opts)\<rparr>)))"

section \<open>The commands\<close>

text \<open>\<open>matches\<close> and \<open>matched_sorted\<close>: the patterns asked for.\<close>

definition key_wanted :: "str list \<Rightarrow> str \<Rightarrow> bool" where
  "key_wanted patterns key = list_ex (\<lambda>p. glob_match p key = Some True) patterns"

definition matched_sorted ::
    "(str, shallow_update) btree \<Rightarrow> str list \<Rightarrow> (str \<times> shallow_update) list" where
  "matched_sorted latest patterns = filter (\<lambda>(k, u). key_wanted patterns k) latest"

text \<open>\<open>shallow get\<close>: the search, with the grace window when a pattern is asked for.\<close>

definition get_satisfied :: "str list \<Rightarrow> (str, shallow_update) btree \<Rightarrow> bool" where
  "get_satisfied patterns latest =
     list_all (\<lambda>p. if has_wildcard p then list_ex (\<lambda>(k, u). glob_match p k = Some True) latest
                   else map_of latest p \<noteq> None) patterns"

definition shallow_get ::
    "('pk, 'sk) crates \<Rightarrow> shallow_options \<Rightarrow> str list \<Rightarrow> shallow_client \<Rightarrow>
     shallow_client \<times> (shallow_error + (str \<times> shallow_update) list)" where
  "shallow_get E opts patterns c =
     map_prod id (\<lambda>res. try_ok res (\<lambda>st. Ok (matched_sorted (ss_latest st) patterns)))
       (find_where E opts (get_satisfied patterns)
          (if list_ex has_wildcard patterns then DEFAULT_SCAN_DEPTH else 0) c)"

text \<open>
  \<open>follow_loop\<close>: one tick per interval, over what the source answers at that tick; a failed poll keeps
  the cursor. What is printed is the verified updates of the keys asked for.
\<close>

fun follow_loop ::
    "('pk, 'sk) crates \<Rightarrow> shallow_options \<Rightarrow> str list \<Rightarrow> shallow_client \<Rightarrow> chain_source list \<Rightarrow> shallow_cursor \<Rightarrow>
     shallow_update list" where
  "follow_loop E opts patterns c [] cursor = []"
| "follow_loop E opts patterns c (src # ticks) cursor =
     (case poll E opts cursor (c\<lparr>sc_source := src\<rparr>) of
        Inl e \<Rightarrow> follow_loop E opts patterns c ticks cursor
      | Inr st \<Rightarrow>
          filter (\<lambda>u. su_verified u \<and> key_wanted patterns (su_key u)) (ss_updates st) @
          follow_loop E opts patterns c ticks (ss_cursor st))"

definition follow ::
    "('pk, 'sk) crates \<Rightarrow> shallow_options \<Rightarrow> str list \<Rightarrow> shallow_client \<Rightarrow> chain_source list \<Rightarrow>
     shallow_error + ((str \<times> shallow_update) list \<times> shallow_update list)" where
  "follow E opts patterns c ticks =
     (case scan E opts c of
        (c1, Inl e) \<Rightarrow> Err e
      | (c1, Inr st) \<Rightarrow>
          Ok (matched_sorted (ss_latest st) patterns,
              follow_loop E opts patterns c1 ticks (ss_cursor st)))"

end
