(* ===== verification/Shallow_Props.thy ===== *)
theory Shallow_Props
  imports Shallow_Client "HOL-Library.Multiset"
begin

text \<open>
  Lemmas on the shallow reader: the validator hit by hit, the chunks, and what the drivers gather from a
  source that serves one chain. A chain is the list of the transactions that pay the database, each
  with its height, id and text memos.
\<close>

section \<open>The validator, hit by hit\<close>

definition hit_part ::
    "('pk, 'sk) crates \<Rightarrow> str \<Rightarrow> str \<Rightarrow> str set \<Rightarrow> u32 \<Rightarrow> u32 \<Rightarrow> raw_hit \<Rightarrow> validated" where
  "hit_part E rc root ex tip m h = validate_hit E rc root ex tip m h validated_default"

lemma validated_default_sel [simp]:
  "va_updates validated_default = []" "va_latest validated_default = []"
  "va_warnings validated_default = []" "va_inits validated_default = []"
  by (simp_all add: validated_default_def)

lemma push_sel [simp]:
  "va_updates (push_update u out) = va_updates out @ [u]" "va_warnings (push_update u out) = va_warnings out"
  "va_inits (push_update u out) = va_inits out" "va_latest (push_update u out) = va_latest out"
  "va_updates (push_warning w out) = va_updates out" "va_warnings (push_warning w out) = va_warnings out @ [w]"
  "va_inits (push_warning w out) = va_inits out" "va_latest (push_warning w out) = va_latest out"
  "va_updates (push_init i out) = va_updates out" "va_warnings (push_init i out) = va_warnings out"
  "va_inits (push_init i out) = va_inits out @ [i]" "va_latest (push_init i out) = va_latest out"
  by (simp_all add: push_update_def push_warning_def push_init_def)

lemma validate_hit_sel:
  "va_updates (validate_hit E rc root ex tip m h out) = va_updates out @ va_updates (hit_part E rc root ex tip m h)"
  "va_warnings (validate_hit E rc root ex tip m h out) = va_warnings out @ va_warnings (hit_part E rc root ex tip m h)"
  "va_inits (validate_hit E rc root ex tip m h out) = va_inits out @ va_inits (hit_part E rc root ex tip m h)"
  by (auto simp: hit_part_def validate_hit_def validate_command_def Let_def
      split: sum.splits memo_reject.splits option.splits)

lemma fold_hits_sel:
  "va_updates (fold (validate_hit E rc root ex tip m) hs out) =
     va_updates out @ concat (map (\<lambda>h. va_updates (hit_part E rc root ex tip m h)) hs)"
  "va_warnings (fold (validate_hit E rc root ex tip m) hs out) =
     va_warnings out @ concat (map (\<lambda>h. va_warnings (hit_part E rc root ex tip m h)) hs)"
  "va_inits (fold (validate_hit E rc root ex tip m) hs out) =
     va_inits out @ concat (map (\<lambda>h. va_inits (hit_part E rc root ex tip m h)) hs)"
  by (induction hs arbitrary: out) (simp_all add: validate_hit_sel)

lemma validate_sel:
  "va_updates (validate E hits rc root ex tip m) =
     concat (map (\<lambda>h. va_updates (hit_part E rc root ex tip m h)) (sort_key hit_pos hits))"
  "va_inits (validate E hits rc root ex tip m) =
     concat (map (\<lambda>h. va_inits (hit_part E rc root ex tip m h)) (sort_key hit_pos hits))"
  "va_latest (validate E hits rc root ex tip m) = latest_of (va_updates (validate E hits rc root ex tip m))"
  "va_warnings (validate E hits rc root ex tip m) =
     concat (map (\<lambda>h. va_warnings (hit_part E rc root ex tip m h)) (sort_key hit_pos hits)) @
     mismatch_warnings (max_seq_of (va_updates (validate E hits rc root ex tip m)))
       (latest_of (va_updates (validate E hits rc root ex tip m)))"
  by (simp_all add: validate_def Let_def fold_hits_sel)

lemma validate_Nil [simp]: "validate E [] rc root ex tip m = validated_default"
  by (simp add: validate_def latest_of_def mismatch_warnings_def validated_default_def)

text \<open>An update carries the place of its hit; what it says of the memo does not depend on the tip.\<close>

lemma hit_update_place:
  assumes "u \<in> set (va_updates (hit_part E rc root ex tip m h))"
  shows "su_height u = rh_height h" and "su_txid u = txid_to_string E (rh_txid h)"
    and "su_output_index u = rh_output_index h" and "su_confirmations u = (tip - rh_height h) + 1"
    and "m \<le> (tip - rh_height h) + 1"
  using assms
  by (auto simp: hit_part_def validate_hit_def validate_command_def Let_def
      split: sum.splits memo_reject.splits option.splits if_splits)

lemma hit_init_place:
  assumes "i \<in> set (va_inits (hit_part E rc root ex tip m h))"
  shows "io_height i = rh_height h"
  using assms
  by (auto simp: hit_part_def validate_hit_def validate_command_def Let_def
      split: sum.splits memo_reject.splits option.splits if_splits)

definition undated :: "shallow_update \<Rightarrow> shallow_update" where
  "undated u = u\<lparr>su_confirmations := 0\<rparr>"

lemma undated_sel [simp]:
  "su_height (undated u) = su_height u" "su_key (undated u) = su_key u"
  "su_verified (undated u) = su_verified u" "update_id_of (undated u) = update_id_of u"
  by (simp_all add: undated_def update_id_of_def)

lemma hit_updates_later:
  assumes "tip \<le> tip'" and "m \<le> (tip - rh_height h) + 1"
  shows "map undated (va_updates (hit_part E rc root ex tip' m h)) =
         map undated (va_updates (hit_part E rc root ex tip m h))"
  using assms
  by (auto simp: hit_part_def validate_hit_def validate_command_def Let_def undated_def
      split: sum.splits memo_reject.splits option.splits)

section \<open>Winners\<close>

lemma latest_of_snoc [simp]:
  "latest_of (us @ [u]) = (if su_verified u then bt_insert (su_key u) u (latest_of us) else latest_of us)"
  by (simp add: latest_of_def)

lemma latest_of_Nil [simp]: "latest_of [] = []"
  by (simp add: latest_of_def)

text \<open>The winner of a key is its last verified update.\<close>

definition last_verified :: "shallow_update list \<Rightarrow> str \<Rightarrow> shallow_update option" where
  "last_verified us k =
     (case rev (filter (\<lambda>u. su_verified u \<and> su_key u = k) us) of [] \<Rightarrow> None | u # rest \<Rightarrow> Some u)"

lemma map_of_latest: "map_of (latest_of us) k = last_verified us k"
  by (induction us rule: rev_induct) (auto simp: last_verified_def)

lemma last_verified_suffix:
  assumes "last_verified (filter P us) k \<noteq> None" and "sorted_wrt (\<lambda>u w. P u \<longrightarrow> P w) us"
  shows "last_verified us k = last_verified (filter P us) k"
  using assms
proof (induction us rule: rev_induct)
  case (snoc u us)
  show ?case
  proof (cases "su_verified u \<and> su_key u = k")
    case True
    have "P u"
    proof (rule ccontr)
      assume "\<not> P u"
      with snoc.prems(2) have "filter P (us @ [u]) = []"
        by (auto simp: sorted_wrt_append filter_empty_conv)
      with snoc.prems(1) show False by (simp only: last_verified_def) simp
    qed
    with True show ?thesis by (simp add: last_verified_def)
  next
    case False
    then have e: "last_verified (us @ [u]) k = last_verified us k"
      "last_verified (filter P (us @ [u])) k = last_verified (filter P us) k"
      by (auto simp: last_verified_def)
    with snoc show ?thesis by (simp add: sorted_wrt_append)
  qed
qed simp

section \<open>Sorting by position\<close>

lemma sort_key_cong_fibres:
  fixes f :: "'a \<Rightarrow> 'b::linorder"
  assumes "\<And>k. filter (\<lambda>x. f x = k) xs = filter (\<lambda>x. f x = k) ys"
  shows "sort_key f xs = sort_key f ys"
proof (rule properties_for_sort_key)
  have "count (mset xs) x = count (mset ys) x" for x
  proof -
    have "count (mset zs) x = count (mset (filter (\<lambda>y. f y = f x) zs)) x" for zs by simp
    then show ?thesis by (metis assms)
  qed
  then show "mset (sort_key f ys) = mset xs" by (simp add: multiset_eqI)
  have "filter (\<lambda>x. f k = f x) (sort_key f ys) = filter (\<lambda>x. f k = f x) xs" for k
    using assms [of "f k"] sort_key_stable [of f "f k" ys] by (simp add: eq_commute)
  then show "filter (\<lambda>x. f k = f x) (sort_key f ys) = filter (\<lambda>x. f k = f x) xs" for k .
qed simp

section \<open>Chunks\<close>

fun span :: "u32 \<times> u32 \<Rightarrow> nat list" where
  "span (lo, hi) = [lo..<Suc hi]"

lemma upt_split: "lo \<le> m \<Longrightarrow> m \<le> hi \<Longrightarrow> [lo..<m] @ [m..<hi] = [lo..<hi]"
  by (metis le_iff_add upt_add_eq_append)

text \<open>Chunks walked down from an exclusive bound tile the range above \<open>lo\<close>.\<close>

fun tiles_down :: "nat \<Rightarrow> nat \<Rightarrow> (u32 \<times> u32) list \<Rightarrow> bool" where
  "tiles_down a lo [] \<longleftrightarrow> a = lo"
| "tiles_down a lo ((l, h) # cs) \<longleftrightarrow> Suc h = a \<and> lo \<le> l \<and> l \<le> h \<and> tiles_down l lo cs"

fun tiles_up :: "nat \<Rightarrow> nat \<Rightarrow> (u32 \<times> u32) list \<Rightarrow> bool" where
  "tiles_up a hi [] \<longleftrightarrow> a = Suc hi"
| "tiles_up a hi ((l, h) # cs) \<longleftrightarrow> l = a \<and> l \<le> h \<and> h \<le> hi \<and> tiles_up (Suc h) hi cs"

lemma tiles_up_span: "tiles_up a hi cs \<Longrightarrow> a \<le> Suc hi \<and> concat (map span cs) = [a..<Suc hi]"
proof (induction a hi cs rule: tiles_up.induct)
  case (2 a hi l h cs)
  then have "concat (map span ((l, h) # cs)) = [a..<Suc h] @ [Suc h..<Suc hi]" by simp
  with 2 show ?case using upt_split [of a "Suc h" "Suc hi"] by simp
qed simp

lemma tiles_down_span: "tiles_down a lo cs \<Longrightarrow> lo \<le> a \<and> concat (map span (rev cs)) = [lo..<a]"
proof (induction a lo cs rule: tiles_down.induct)
  case (2 a lo l h cs)
  then have "concat (map span (rev ((l, h) # cs))) = [lo..<l] @ [l..<a]" by simp
  with 2 show ?case using upt_split [of lo l a] by simp
qed simp

text \<open>One turn of each loop, with its bound named.\<close>

lemma desc_step:
  "lo \<le> hi \<Longrightarrow> b = max (hi - (w - 1)) lo \<Longrightarrow> desc_chunks lo largest w hi =
     (b, hi) # (if b = lo \<or> b = 0 then [] else desc_chunks lo largest (min (sat_mul32 w 2) (max largest 1)) (b - 1))"
  by (subst desc_chunks.simps) (simp add: Let_def)

lemma asc_step:
  "lo \<le> hi \<Longrightarrow> t = min (sat_add32 lo (w - 1)) hi \<Longrightarrow> asc_chunks hi largest w lo =
     (lo, t) # (if t = hi \<or> t = u32_max then [] else asc_chunks hi largest (min (sat_mul32 w 2) (max largest 1)) (t + 1))"
  by (subst asc_chunks.simps) (simp add: Let_def)

lemma equal_step:
  "lo \<le> hi \<Longrightarrow> t = min (sat_add32 lo (w - 1)) hi \<Longrightarrow> equal_chunks hi w lo =
     (lo, t) # (if t = u32_max then [] else equal_chunks hi w (t + 1))"
  by (subst equal_chunks.simps) (simp add: Let_def)

lemma desc_chunks_tiles: "lo \<le> hi \<Longrightarrow> tiles_down (Suc hi) lo (desc_chunks lo largest w hi)"
proof (induction hi arbitrary: w rule: less_induct)
  case (less hi)
  obtain b where b: "b = max (hi - (w - 1)) lo" by simp
  with less.prems have r: "lo \<le> b" "b \<le> hi" by simp_all
  show ?case
  proof (cases "b = lo \<or> b = 0")
    case True
    with r show ?thesis by (auto simp: desc_step [OF less.prems b])
  next
    case False
    with r have p: "b - 1 < hi" "lo \<le> b - 1" "Suc (b - 1) = b" by linarith+
    from less.IH [OF p(1,2)] p(3) r False show ?thesis by (simp add: desc_step [OF less.prems b])
  qed
qed

lemma asc_chunks_tiles:
  "lo \<le> hi \<Longrightarrow> hi \<le> u32_max \<Longrightarrow> tiles_up lo hi (asc_chunks hi largest w lo)"
proof (induction "hi - lo" arbitrary: lo w rule: less_induct)
  case (less lo)
  obtain t where t: "t = min (sat_add32 lo (w - 1)) hi" by simp
  with less.prems have r: "lo \<le> t" "t \<le> hi" by (simp_all add: sat_add32_def)
  show ?case
  proof (cases "t = hi \<or> t = u32_max")
    case True
    with r less.prems show ?thesis by (auto simp: asc_step [OF less.prems(1) t])
  next
    case False
    with r have p: "hi - (t + 1) < hi - lo" "t + 1 \<le> hi" by linarith+
    from less.hyps [OF p less.prems(2)] r False show ?thesis by (simp add: asc_step [OF less.prems(1) t])
  qed
qed

lemma equal_chunks_tiles:
  "lo \<le> Suc hi \<Longrightarrow> hi \<le> u32_max \<Longrightarrow> tiles_up lo hi (equal_chunks hi w lo)"
proof (induction "Suc hi - lo" arbitrary: lo rule: less_induct)
  case (less lo)
  show ?case
  proof (cases "lo \<le> hi")
    case True
    obtain t where t: "t = min (sat_add32 lo (w - 1)) hi" by simp
    with True less.prems have r: "lo \<le> t" "t \<le> hi" by (simp_all add: sat_add32_def)
    show ?thesis
    proof (cases "t = u32_max")
      case True
      then have "equal_chunks hi w lo = [(lo, t)]" using equal_step [OF \<open>lo \<le> hi\<close> t] by simp
      moreover have "t = hi" using True r less.prems by simp
      ultimately show ?thesis using r by simp
    next
      case False
      from r True have p: "Suc hi - (t + 1) < Suc hi - lo" "t + 1 \<le> Suc hi" by linarith+
      from less.hyps [OF p less.prems(2)] r False show ?thesis by (simp add: equal_step [OF True t])
    qed
  qed (use less.prems in \<open>auto simp: equal_chunks.simps [of hi w lo]\<close>)
qed

end
