(* ===== verification/Shallow_Walk.thy ===== *)
theory Shallow_Walk
  imports Shallow_Props
begin

text \<open>
  The drivers of the shallow reader over a source that serves one chain: what a window yields, and that
  the backward search and the bulk read see the same of it.
\<close>

section \<open>A chain and its source\<close>

type_synonym chain_tx = "u32 \<times> bytes \<times> (u32 \<times> str) list"

fun tx_hits :: "chain_tx \<Rightarrow> raw_hit list" where
  "tx_hits (h, t, ms) = map (\<lambda>(i, text). \<lparr>rh_height = h, rh_txid = t, rh_output_index = i, rh_text = text\<rparr>) ms"

definition hits_of :: "chain_tx list \<Rightarrow> raw_hit list" where
  "hits_of txs = concat (map tx_hits txs)"

definition window :: "chain_tx list \<Rightarrow> u32 \<Rightarrow> u32 \<Rightarrow> chain_tx list" where
  "window chain lo hi = filter (\<lambda>tx. lo \<le> fst tx \<and> fst tx \<le> hi) chain"

abbreviation tx_place :: "chain_tx \<Rightarrow> u32 \<times> bytes" where
  "tx_place tx \<equiv> (fst tx, fst (snd tx))"

abbreviation tx_id :: "chain_tx \<Rightarrow> bytes" where
  "tx_id tx \<equiv> fst (snd tx)"

text \<open>What the server answers when its chain is \<open>chain\<close>, with every transaction once.\<close>

definition serves :: "chain_source \<Rightarrow> u32 \<Rightarrow> chain_tx list \<Rightarrow> bool" where
  "serves src tip chain \<longleftrightarrow>
     tip \<le> u32_max \<and> distinct (map tx_id chain) \<and> cs_tip src = Ok tip \<and>
     (\<forall>lo hi. cs_candidates src lo hi = Ok (map tx_place (window chain lo hi))) \<and>
     (\<forall>tx seen. tx \<in> set chain \<longrightarrow> cs_memos src (tx_id tx) seen tip = Ok (Some (fst tx, snd (snd tx))))"

definition source_of :: "u32 \<Rightarrow> chain_tx list \<Rightarrow> chain_source" where
  "source_of tip chain =
     \<lparr>cs_tip = Ok tip, cs_candidates = (\<lambda>lo hi. Ok (map tx_place (window chain lo hi))),
      cs_memos = (\<lambda>txid seen tip'. Ok (map_option (\<lambda>tx. (fst tx, snd (snd tx)))
        (List.find (\<lambda>tx. tx_id tx = txid) chain)))\<rparr>"

lemma find_distinct:
  "distinct (map f xs) \<Longrightarrow> x \<in> set xs \<Longrightarrow> List.find (\<lambda>y. f y = f x) xs = Some x"
  by (induction xs) (auto simp: rev_image_eqI)

lemma serves_source_of: "tip \<le> u32_max \<Longrightarrow> distinct (map tx_id chain) \<Longrightarrow> serves (source_of tip chain) tip chain"
  by (simp add: serves_def source_of_def find_distinct [of tx_id] del: split_paired_All split_paired_Ex)

section \<open>Hits by place\<close>

text \<open>Two lists of hits that agree at every place, which is all the validator sees of them.\<close>

definition same_hits :: "raw_hit list \<Rightarrow> raw_hit list \<Rightarrow> bool" where
  "same_hits xs ys \<longleftrightarrow> (\<forall>p. filter (\<lambda>x. hit_pos x = p) xs = filter (\<lambda>x. hit_pos x = p) ys)"

lemma same_hits_refl [simp]: "same_hits xs xs"
  by (simp add: same_hits_def)

lemma same_hits_validate: "same_hits xs ys \<Longrightarrow> validate E xs rc root ex tip m = validate E ys rc root ex tip m"
proof -
  assume "same_hits xs ys"
  then have "sort_key hit_pos xs = sort_key hit_pos ys"
    unfolding same_hits_def by (intro sort_key_cong_fibres) blast
  then show ?thesis by (simp add: validate_def)
qed

lemma same_hits_append:
  "same_hits xs xs' \<Longrightarrow> same_hits ys ys' \<Longrightarrow> same_hits (xs @ ys) (xs' @ ys')"
  by (simp add: same_hits_def)

lemma hits_of_append [simp]: "hits_of (xs @ ys) = hits_of xs @ hits_of ys"
  by (simp add: hits_of_def)

lemma tx_hits_place: "x \<in> set (tx_hits tx) \<Longrightarrow> rh_txid x = tx_id tx \<and> rh_height x = fst tx"
  by (cases tx) auto

lemma hits_of_place:
  "x \<in> set (hits_of txs) \<Longrightarrow> \<exists>tx \<in> set txs. rh_txid x = tx_id tx \<and> rh_height x = fst tx"
  unfolding hits_of_def set_concat set_map using tx_hits_place by blast

text \<open>With every transaction once, the order of the transactions does not matter.\<close>

lemma hits_at:
  assumes "distinct (map tx_id txs)"
  shows "filter (\<lambda>x. hit_pos x = (h, t, i)) (hits_of txs) =
     (case List.find (\<lambda>tx. tx_id tx = t) txs of
        None \<Rightarrow> []
      | Some tx \<Rightarrow> filter (\<lambda>x. hit_pos x = (h, t, i)) (tx_hits tx))"
  using assms
proof (induction txs)
  case (Cons tx txs)
  have none: "filter (\<lambda>x. hit_pos x = (h, t, i)) (tx_hits y) = []" if "tx_id y \<noteq> t" for y
    using that tx_hits_place [of _ y] by (auto simp: filter_empty_conv hit_pos_def simp del: tx_hits.simps)
  have rest: "filter (\<lambda>x. hit_pos x = (h, t, i)) (hits_of txs) = []" if "tx_id tx = t"
  proof -
    have "rh_txid x \<noteq> t" if "x \<in> set (hits_of txs)" for x
      using hits_of_place [OF that] Cons.prems \<open>tx_id tx = t\<close> by (auto simp: image_iff)
    then show ?thesis by (auto simp: filter_empty_conv hit_pos_def)
  qed
  have cons: "filter (\<lambda>x. hit_pos x = (h, t, i)) (hits_of (tx # txs)) =
      filter (\<lambda>x. hit_pos x = (h, t, i)) (tx_hits tx) @ filter (\<lambda>x. hit_pos x = (h, t, i)) (hits_of txs)"
    by (simp add: hits_of_def)
  show ?case
  proof (cases "tx_id tx = t")
    case True
    then show ?thesis
      by (simp only: cons rest [OF True] find.simps simp_thms if_True option.case append_Nil2)
  next
    case False
    have "distinct (map tx_id txs)" using Cons.prems by simp
    from Cons.IH [OF this] False show ?thesis
      by (simp only: cons none [OF False] find.simps if_False append_Nil)
  qed
qed (simp add: hits_of_def)

lemma find_same_set:
  assumes "distinct (map f xs)" and "distinct (map f ys)" and "set xs = set ys"
  shows "List.find (\<lambda>x. f x = k) xs = List.find (\<lambda>x. f x = k) ys"
proof (cases "\<exists>x \<in> set xs. f x = k")
  case True
  then obtain x where "x \<in> set xs" "f x = k" by blast
  with find_distinct [OF assms(1), of x] find_distinct [OF assms(2), of x] assms(3) show ?thesis by auto
next
  case False
  then have "List.find (\<lambda>x. f x = k) xs = None" "List.find (\<lambda>x. f x = k) ys = None"
    using assms(3) by (auto simp: find_None_iff)
  then show ?thesis by simp
qed

lemma same_hits_set:
  assumes "distinct (map tx_id txs)" and "distinct (map tx_id txs')" and "set txs = set txs'"
  shows "same_hits (hits_of txs) (hits_of txs')"
  unfolding same_hits_def
  using hits_at [OF assms(1)] hits_at [OF assms(2)] find_same_set [OF assms] by (metis prod_cases3)

section \<open>Fetching\<close>

lemma txid_heights_keys:
  assumes "distinct (map snd hits)"
  shows "distinct (map fst (txid_heights hits)) \<and> set (txid_heights hits) = (\<lambda>(h, t). (t, h)) ` set hits"
proof -
  have "bt_sorted (txid_heights hits) \<and> set (txid_heights hits) = (\<lambda>(h, t). (t, h)) ` set hits"
    using assms
  proof (induction hits rule: rev_induct)
    case (snoc x hits)
    obtain h t where x: "x = (h, t)" by force
    from snoc have IH: "bt_sorted (txid_heights hits)" "set (txid_heights hits) = (\<lambda>(h, t). (t, h)) ` set hits" by auto
    have "t \<notin> fst ` set (txid_heights hits)" using snoc.prems IH(2) x by force
    then have n: "map_of (txid_heights hits) t = None" by (simp add: map_of_eq_None_iff)
    then have "txid_heights (hits @ [x]) = bt_insert t h (txid_heights hits)"
      by (simp add: txid_heights_def x)
    moreover have "set (bt_insert t h m) = insert (t, h) (set m)" if "t \<notin> fst ` set m" for m :: "(bytes, u32) btree"
      using that by (induction t h m rule: bt_insert.induct) auto
    ultimately show ?case
      using IH n by (auto simp: x bt_sorted_insert map_of_eq_None_iff)
  qed (simp add: txid_heights_def)
  then show ?thesis using bt_sorted_distinct by blast
qed

lemma enhance_loop_serves:
  assumes "serves src tip chain" and "set ids \<subseteq> (\<lambda>tx. (tx_id tx, fst tx)) ` set chain"
  shows "\<exists>txs. map (\<lambda>tx. (tx_id tx, fst tx)) txs = ids \<and> set txs \<subseteq> set chain \<and>
     enhance_loop src tip ids = Ok (hits_of txs)"
  using assms(2)
proof (induction ids)
  case (Cons x ids)
  then obtain txs where IH: "map (\<lambda>tx. (tx_id tx, fst tx)) txs = ids" "set txs \<subseteq> set chain"
    "enhance_loop src tip ids = Ok (hits_of txs)" by auto
  from Cons.prems obtain tx where tx: "x = (tx_id tx, fst tx)" "tx \<in> set chain" by auto
  then have "cs_memos src (tx_id tx) (fst tx) tip = Ok (Some (fst tx, snd (snd tx)))"
    using assms(1) by (simp add: serves_def)
  with IH tx show ?case
    by (intro exI [of _ "tx # txs"], cases tx) (simp add: hits_of_def)
qed (simp add: hits_of_def)

lemma serves_inj:
  assumes "serves src tip chain" and "tx \<in> set chain" and "tx' \<in> set chain" and "tx_id tx = tx_id tx'"
  shows "tx = tx'"
  using assms by (auto simp: serves_def distinct_map dest: inj_onD)

lemma enhance_serves:
  assumes s: "serves src tip chain" and d: "distinct (map tx_id txs)" and c: "set txs \<subseteq> set chain"
  shows "\<exists>raw. enhance src tip (map tx_place txs) = Ok raw \<and> same_hits raw (hits_of txs)"
proof -
  let ?ids = "txid_heights (map tx_place txs)"
  have "distinct (map snd (map tx_place txs))" using d by (simp add: comp_def)
  from txid_heights_keys [OF this] have k: "distinct (map fst ?ids)"
    and st: "set ?ids = (\<lambda>tx. (tx_id tx, fst tx)) ` set txs" by (auto simp: image_image)
  then have "set ?ids \<subseteq> (\<lambda>tx. (tx_id tx, fst tx)) ` set chain" using c by auto
  from enhance_loop_serves [OF s this] obtain txs' where
    t: "map (\<lambda>tx. (tx_id tx, fst tx)) txs' = ?ids" "set txs' \<subseteq> set chain"
      "enhance_loop src tip ?ids = Ok (hits_of txs')" by blast
  have "map fst ?ids = map tx_id txs'" by (simp add: t(1) [symmetric])
  with k have d': "distinct (map tx_id txs')" by simp
  have "(\<lambda>tx. (tx_id tx, fst tx)) ` set txs' = (\<lambda>tx. (tx_id tx, fst tx)) ` set txs"
    using st t(1) by (metis set_map)
  then have im: "(tx_id tx, fst tx) \<in> (\<lambda>tx. (tx_id tx, fst tx)) ` set txs \<longleftrightarrow>
      (tx_id tx, fst tx) \<in> (\<lambda>tx. (tx_id tx, fst tx)) ` set txs'" for tx by (simp only:)
  have sub: "tx \<in> set ys"
    if "tx \<in> set xs" "set xs \<subseteq> set chain" "set ys \<subseteq> set chain"
      "(tx_id tx, fst tx) \<in> (\<lambda>tx. (tx_id tx, fst tx)) ` set ys" for tx xs ys
  proof -
    from that(4) obtain tx' where "tx' \<in> set ys" "tx_id tx = tx_id tx'" by blast
    with serves_inj [OF s, of tx tx'] that(1-3) show ?thesis by blast
  qed
  have "set txs' = set txs"
    using sub [OF _ t(2) c] sub [OF _ c t(2)] im by blast
  with same_hits_set [OF d' d] t(3) show ?thesis by (simp add: enhance_def)
qed

lemma window_sub [simp]: "set (window chain lo hi) \<subseteq> set chain"
  by (auto simp: window_def)

lemma window_distinct: "serves src tip chain \<Longrightarrow> distinct (map tx_id (window chain lo hi))"
  by (simp add: serves_def window_def distinct_map_filter)

text \<open>The hits of a window, validated: what a read of that window reports.\<close>

definition window_view ::
    "('pk, 'sk) crates \<Rightarrow> shallow_client \<Rightarrow> shallow_options \<Rightarrow> u32 \<Rightarrow> chain_tx list \<Rightarrow> u32 \<Rightarrow> u32 \<Rightarrow> validated" where
  "window_view E c opts tip chain lo hi = validated_of E c opts tip (hits_of (window chain lo hi))"

lemma fetch_and_enhance_serves:
  assumes "serves src tip chain"
  shows "\<exists>raw. fetch_and_enhance src lo hi tip = Ok raw \<and> validated_of E c opts tip raw = window_view E c opts tip chain lo hi"
proof -
  from enhance_serves [OF assms window_distinct [OF assms] window_sub, of lo hi]
  obtain raw where "enhance src tip (map tx_place (window chain lo hi)) = Ok raw"
    and "same_hits raw (hits_of (window chain lo hi))" by blast
  then show ?thesis
    using assms
    by (simp add: fetch_and_enhance_def serves_def window_view_def validated_of_def same_hits_validate)
qed

end
