(* ===== verification/Shallow_Find.thy ===== *)
theory Shallow_Find
  imports Shallow_Walk
begin

text \<open>
  The backward search of the shallow reader: newest block first, with the early stop. It gathers exactly
  the window it reports, and on the keys asked for it agrees with the bulk read.
\<close>

section \<open>The blocks of a chunk\<close>

abbreviation at_height :: "chain_tx list \<Rightarrow> u32 \<Rightarrow> chain_tx list" where
  "at_height chain h \<equiv> filter (\<lambda>tx. fst tx = h) chain"

lemma by_height_map:
  "bt_sorted (by_height hits) \<and>
   map_of (by_height hits) h =
     (let ts = map snd (filter (\<lambda>x. fst x = h) hits) in if ts = [] then None else Some ts)"
proof (induction hits rule: rev_induct)
  case Nil
  then show ?case by (simp add: by_height_def)
next
  case (snoc x hits)
  obtain k t where x: "x = (k, t)" by force
  have "by_height (hits @ [x]) = bt_insert k (unwrap_or (map_of (by_height hits) k) [] @ [t]) (by_height hits)"
    by (simp add: by_height_def x)
  with snoc show ?case by (auto simp: x Let_def bt_sorted_insert)
qed

lemma by_height_blocks:
  "\<exists>hs. sorted_wrt (<) hs \<and> set hs = fst ` set txs \<and>
     by_height (map tx_place txs) = map (\<lambda>h. (h, map tx_id (at_height txs h))) hs"
proof (intro exI conjI)
  let ?b = "by_height (map tx_place txs)"
  have m: "map_of ?b h = (if at_height txs h = [] then None else Some (map tx_id (at_height txs h)))" for h
    using by_height_map [of "map tx_place txs" h] by (simp add: filter_map comp_def Let_def)
  have s: "bt_sorted ?b" using by_height_map by blast
  then show "sorted_wrt (<) (map fst ?b)" by (simp add: bt_sorted_def)
  have "fst ` set ?b = dom (map_of ?b)" by (simp add: dom_map_of_conv_image_fst)
  also have "\<dots> = fst ` set txs" by (auto simp: m dom_def filter_empty_conv split: if_splits)
  finally show "set (map fst ?b) = fst ` set txs" by simp
  have "y = (fst y, map tx_id (at_height txs (fst y)))" if "y \<in> set ?b" for y
  proof -
    have "map_of ?b (fst y) = Some (snd y)"
      using that s by (intro map_of_is_SomeI) (auto simp: bt_sorted_distinct)
    then show ?thesis by (cases y) (auto simp: m split: if_splits)
  qed
  then show "?b = map (\<lambda>h. (h, map tx_id (at_height txs h))) (map fst ?b)"
    by (simp add: comp_def map_idI)
qed

section \<open>Windows\<close>

lemma window_gap:
  "x \<le> y \<Longrightarrow> (\<And>tx. tx \<in> set chain \<Longrightarrow> x \<le> fst tx \<Longrightarrow> fst tx < y \<Longrightarrow> False) \<Longrightarrow>
   window chain x hi = window chain y hi"
  unfolding window_def by (intro filter_cong refl) (metis le_trans not_le)

lemma window_empty: "tip < a \<Longrightarrow> window chain a tip = []"
  by (auto simp: window_def filter_empty_conv)

lemma at_height_window: "lo \<le> h \<Longrightarrow> h \<le> hi \<Longrightarrow> at_height (window chain lo hi) h = at_height chain h"
  unfolding window_def by (induction chain) auto

lemma serves_distinct_sub:
  assumes "serves src tip chain" and "distinct xs" and "set xs \<subseteq> set chain"
  shows "distinct (map tx_id xs)"
  unfolding distinct_map
proof (intro conjI inj_onI assms(2))
  fix x y assume "x \<in> set xs" "y \<in> set xs" "tx_id x = tx_id y"
  then show "x = y" using assms(3) by (intro serves_inj [OF assms(1)]) auto
qed

lemma serves_distinct: "serves src tip chain \<Longrightarrow> distinct chain"
  by (auto simp: serves_def distinct_map)

definition covers :: "chain_tx list \<Rightarrow> u32 \<Rightarrow> u32 \<Rightarrow> raw_hit list \<Rightarrow> bool" where
  "covers chain tip a raw \<longleftrightarrow> same_hits raw (hits_of (window chain a tip))"

lemma covers_block:
  assumes s: "serves src tip chain" and c: "covers chain tip (Suc h) raw"
    and m: "same_hits extra (hits_of (at_height chain h))" and h: "h \<le> tip"
  shows "covers chain tip h (raw @ extra)"
proof -
  let ?w = "window chain (Suc h) tip @ at_height chain h"
  have "same_hits (raw @ extra) (hits_of ?w)"
    using same_hits_append [OF c [unfolded covers_def] m] by simp
  moreover have "same_hits (hits_of ?w) (hits_of (window chain h tip))"
  proof (rule same_hits_set)
    have "distinct ?w" using serves_distinct [OF s] by (auto simp: window_def)
    then show "distinct (map tx_id ?w)" by (rule serves_distinct_sub [OF s]) (auto simp: window_def)
    show "set ?w = set (window chain h tip)" using h by (auto simp: window_def)
  qed (rule window_distinct [OF s])
  ultimately show ?thesis unfolding covers_def same_hits_def by metis
qed

section \<open>The search\<close>

text \<open>
  What the search knows when it has gone down to \<open>a\<close>: it has the window from \<open>a\<close> or from the stop, and a
  stop lies the grace below a height whose window satisfied the caller.
\<close>

definition search_ok ::
    "('pk, 'sk) crates \<Rightarrow> shallow_client \<Rightarrow> shallow_options \<Rightarrow> u32 \<Rightarrow> chain_tx list \<Rightarrow>
     ((str, shallow_update) btree \<Rightarrow> bool) \<Rightarrow> u32 \<Rightarrow> u32 \<Rightarrow> search \<Rightarrow> bool" where
  "search_ok E c opts tip chain satisfied grace a s \<longleftrightarrow>
     (case s of (raw, v, st) \<Rightarrow>
        v = validated_of E c opts tip raw \<and> covers chain tip (covered_from st a) raw \<and> fs_grace st = grace \<and>
        (\<forall>sb. fs_stop_below st = Some sb \<longrightarrow>
           (\<exists>h. sb = h - grace \<and> satisfied (va_latest (window_view E c opts tip chain h tip)))))"

lemma covered_from_simps [simp]:
  "fs_stop_below st = None \<Longrightarrow> covered_from st a = a"
  "fs_stop_below st = Some sb \<Longrightarrow> covered_from st a = max sb a"
  by (simp_all add: covered_from_def)

lemma covers_view:
  "covers chain tip a raw \<Longrightarrow> validated_of E c opts tip raw = window_view E c opts tip chain a tip"
  by (simp add: covers_def window_view_def validated_of_def same_hits_validate)

lemma search_ok_lower:
  assumes "search_ok E c opts tip chain satisfied grace a s" and "lo \<le> a"
    and "\<And>tx. tx \<in> set chain \<Longrightarrow> covered_from (snd (snd s)) lo \<le> fst tx \<Longrightarrow>
           fst tx < covered_from (snd (snd s)) a \<Longrightarrow> False"
  shows "search_ok E c opts tip chain satisfied grace lo s"
proof -
  obtain raw v st where s: "s = (raw, v, st)" by (cases s) blast
  have "covered_from st lo \<le> covered_from st a"
    using assms(2) by (cases "fs_stop_below st") (auto simp: max_def)
  then have "window chain (covered_from st lo) tip = window chain (covered_from st a) tip"
    by (rule window_gap) (rule assms(3), auto simp: s)
  with assms(1) show ?thesis by (simp add: s search_ok_def covers_def)
qed

lemma search_ok_block:
  assumes s: "serves (sc_source c) tip chain"
    and ok: "search_ok E c opts tip chain satisfied grace a (raw, v, st)"
    and w: "wants st h" and h: "h < a" "h \<le> tip"
    and gap: "\<forall>tx \<in> set chain. h < fst tx \<longrightarrow> a \<le> fst tx"
  shows "\<exists>extra. enhance (sc_source c) tip (map (Pair h) (map tx_id (at_height chain h))) = Ok extra \<and>
     search_ok E c opts tip chain satisfied grace h
       (raw @ extra, validated_of E c opts tip (raw @ extra),
        observe h (satisfied (va_latest (validated_of E c opts tip (raw @ extra)))) st)"
proof -
  have me: "map (Pair h) (map tx_id (at_height chain h)) = map tx_place (at_height chain h)" by simp
  have d: "distinct (map tx_id (at_height chain h))"
    using serves_distinct [OF s] by (intro serves_distinct_sub [OF s]) auto
  from enhance_serves [OF s d filter_is_subset] obtain extra where
    extra: "enhance (sc_source c) tip (map (Pair h) (map tx_id (at_height chain h))) = Ok extra"
    and sm: "same_hits extra (hits_of (at_height chain h))"
    unfolding me by blast
  have "covered_from st a = a"
    using w h by (cases "fs_stop_below st") (auto simp: wants_def max_def)
  moreover have "window chain (Suc h) tip = window chain a tip"
  proof (rule window_gap)
    fix tx assume "tx \<in> set chain" "Suc h \<le> fst tx" "fst tx < a"
    with gap show False by fastforce
  qed (use h in simp)
  ultimately have "covers chain tip (Suc h) raw" using ok by (simp add: search_ok_def covers_def)
  from covers_block [OF s this sm h(2)] have cv: "covers chain tip h (raw @ extra)" .
  let ?st = "observe h (satisfied (va_latest (validated_of E c opts tip (raw @ extra)))) st"
  have "covered_from ?st h = h"
    using w by (cases "fs_stop_below st") (auto simp: observe_def wants_def covered_from_def max_def)
  moreover have "fs_grace ?st = grace" using ok by (simp add: search_ok_def observe_def)
  moreover have "\<exists>h'. sb = h' - grace \<and> satisfied (va_latest (window_view E c opts tip chain h' tip))"
    if "fs_stop_below ?st = Some sb" for sb
    using that ok covers_view [OF cv, of E c opts]
    by (auto simp: observe_def search_ok_def split: if_splits)
  ultimately show ?thesis using extra cv by (auto simp: search_ok_def)
qed

lemma find_blocks_ok:
  assumes s: "serves (sc_source c) tip chain"
    and "search_ok E c opts tip chain satisfied grace a x"
    and "sorted_wrt (>) hs" and "\<forall>h \<in> set hs. lo \<le> h \<and> h < a"
    and "\<forall>tx \<in> set chain. lo \<le> fst tx \<and> fst tx < a \<longrightarrow> fst tx \<in> set hs"
    and "lo \<le> a" and "a \<le> Suc tip"
  shows "\<exists>stopped x'. find_blocks E c opts tip satisfied (map (\<lambda>h. (h, map tx_id (at_height chain h))) hs) x =
       Ok (stopped, x') \<and>
     search_ok E c opts tip chain satisfied grace lo x' \<and>
     (stopped \<longrightarrow> (\<exists>sb. fs_stop_below (snd (snd x')) = Some sb \<and> lo \<le> sb))"
  using assms(2-)
proof (induction hs arbitrary: a x)
  case Nil
  have "search_ok E c opts tip chain satisfied grace lo x"
  proof (rule search_ok_lower [OF Nil(1) Nil(5)])
    fix tx assume tx: "tx \<in> set chain" "covered_from (snd (snd x)) lo \<le> fst tx"
      "fst tx < covered_from (snd (snd x)) a"
    then have "lo \<le> fst tx \<and> fst tx < a"
      by (cases "fs_stop_below (snd (snd x))") (auto simp: max_def split: if_splits)
    with tx(1) Nil(4) show False by (metis empty_iff empty_set)
  qed
  then show ?case by (intro exI [of _ False] exI [of _ x]) simp
next
  case (Cons h hs)
  obtain raw v st where x: "x = (raw, v, st)" by (cases x) blast
  have h: "h < a" "lo \<le> h" "h \<le> tip" and hs: "\<forall>k \<in> set hs. k < h" using Cons.prems by auto
  have gap: "\<forall>tx \<in> set chain. h < fst tx \<longrightarrow> a \<le> fst tx"
    using Cons.prems(4) h(2) hs by fastforce
  show ?case
  proof (cases "wants st h")
    case False
    then obtain sb where sb: "fs_stop_below st = Some sb" "h < sb"
      by (auto simp: wants_def split: option.splits)
    have "search_ok E c opts tip chain satisfied grace lo x"
    proof (rule search_ok_lower [OF Cons.prems(1,5)])
      fix tx assume "tx \<in> set chain" "covered_from (snd (snd x)) lo \<le> fst tx"
        "fst tx < covered_from (snd (snd x)) a"
      with sb gap show False by (fastforce simp: x max_def split: if_splits)
    qed
    with False sb h show ?thesis by (intro exI [of _ True] exI [of _ x]) (simp add: x)
  next
    case True
    from search_ok_block [OF s Cons.prems(1) [unfolded x] True h(1,3) gap]
    obtain extra where m: "enhance (sc_source c) tip (map (Pair h) (map tx_id (at_height chain h))) = Ok extra"
      and ok: "search_ok E c opts tip chain satisfied grace h
       (raw @ extra, validated_of E c opts tip (raw @ extra),
        observe h (satisfied (va_latest (validated_of E c opts tip (raw @ extra)))) st)" by blast
    have "\<forall>tx \<in> set chain. lo \<le> fst tx \<and> fst tx < h \<longrightarrow> fst tx \<in> set hs"
      using Cons.prems(4) h(1) by auto
    from Cons.IH [OF ok _ _ this h(2)] Cons.prems(2,3) hs h(3) m True
    show ?thesis by (simp add: x Let_def)
  qed
qed

lemma find_chunks_ok:
  assumes s: "serves (sc_source c) tip chain"
    and "search_ok E c opts tip chain satisfied grace a x" and "tiles_down a bottom cs" and "a \<le> Suc tip"
  shows "\<exists>x'. find_chunks E c opts tip satisfied cs x = Ok x' \<and>
     search_ok E c opts tip chain satisfied grace bottom x'"
  using assms(2-)
proof (induction cs arbitrary: a x)
  case (Cons chunk cs)
  obtain l h where ch: "chunk = (l, h)" by force
  have t: "Suc h = a" "bottom \<le> l" "l \<le> h" "tiles_down l bottom cs" using Cons.prems(2) by (auto simp: ch)
  show ?case
  proof (cases "skip_chunk (snd (snd x)) h")
    case True
    then obtain sb where sb: "fs_stop_below (snd (snd x)) = Some sb" "h < sb"
      by (auto simp: skip_chunk_def split: option.splits)
    have "search_ok E c opts tip chain satisfied grace bottom x"
      by (rule search_ok_lower [OF Cons.prems(1)]) (use sb t in \<open>auto simp: max_def split: if_splits\<close>)
    with True show ?thesis by (simp add: ch)
  next
    case False
    obtain hs where hs: "sorted_wrt (<) hs" "set hs = fst ` set (window chain l h)"
      and b: "by_height (map tx_place (window chain l h)) =
        map (\<lambda>k. (k, map tx_id (at_height (window chain l h) k))) hs"
      using by_height_blocks by blast
    have "\<forall>k \<in> set hs. l \<le> k \<and> k \<le> h" using hs(2) by (auto simp: window_def)
    then have b': "rev (by_height (map tx_place (window chain l h))) =
        map (\<lambda>k. (k, map tx_id (at_height chain k))) (rev hs)"
      unfolding b rev_map by (intro map_cong refl) (simp add: at_height_window)
    have mem: "\<forall>tx \<in> set chain. l \<le> fst tx \<and> fst tx < a \<longrightarrow> fst tx \<in> set (rev hs)"
      using hs(2) t(1) by (auto simp: window_def)
    have srt: "sorted_wrt (>) (rev hs)" using hs(1) by (simp add: sorted_wrt_rev)
    have rng: "\<forall>k \<in> set (rev hs). l \<le> k \<and> k < a" using \<open>\<forall>k \<in> set hs. l \<le> k \<and> k \<le> h\<close> t(1) by auto
    have "l \<le> a" using t by simp
    from find_blocks_ok [OF s Cons.prems(1) srt rng mem this Cons.prems(3)]
    obtain stopped x' where fb: "find_blocks E c opts tip satisfied
        (rev (by_height (map tx_place (window chain l h)))) x = Ok (stopped, x')"
      and ok: "search_ok E c opts tip chain satisfied grace l x'"
      and st: "stopped \<longrightarrow> (\<exists>sb. fs_stop_below (snd (snd x')) = Some sb \<and> l \<le> sb)"
      unfolding b' by blast
    have cand: "cs_candidates (sc_source c) l h = Ok (map tx_place (window chain l h))"
      using s by (simp add: serves_def)
    show ?thesis
    proof (cases stopped)
      case True
      with st obtain sb where sb: "fs_stop_below (snd (snd x')) = Some sb" "l \<le> sb" by blast
      have "search_ok E c opts tip chain satisfied grace bottom x'"
        by (rule search_ok_lower [OF ok t(2)]) (use sb t in \<open>auto simp: max_def split: if_splits\<close>)
      with True False cand fb show ?thesis by (simp add: ch)
    next
      case nx: False
      from Cons.IH [OF ok t(4)] t Cons.prems(3) obtain x'' where
        "find_chunks E c opts tip satisfied cs x' = Ok x''"
        "search_ok E c opts tip chain satisfied grace bottom x''" by auto
      with nx False cand fb show ?thesis by (simp add: ch)
    qed
  qed
qed simp

section \<open>What a window shows\<close>

lemma hits_of_window: "hits_of (filter (\<lambda>tx. a \<le> fst tx) txs) = filter (\<lambda>x. a \<le> rh_height x) (hits_of txs)"
proof (induction txs)
  case (Cons tx txs)
  have "filter (\<lambda>x. a \<le> rh_height x) (tx_hits tx) = (if a \<le> fst tx then tx_hits tx else [])"
    using tx_hits_place [of _ tx] by (auto simp: filter_empty_conv filter_id_conv simp del: tx_hits.simps)
  with Cons show ?case by (simp add: hits_of_def)
qed (simp add: hits_of_def)

lemma concat_map_filter:
  "(\<And>x u. x \<in> set xs \<Longrightarrow> u \<in> set (f x) \<Longrightarrow> R u = Q x) \<Longrightarrow>
   concat (map f (filter Q xs)) = filter R (concat (map f xs))"
proof (induction xs)
  case (Cons x xs)
  have "filter R (f x) = (if Q x then f x else [])"
    using Cons.prems [of x] by (auto simp: filter_empty_conv filter_id_conv)
  with Cons show ?case by simp
qed simp

lemma view_updates:
  "va_updates (window_view E c opts tip chain lo hi) =
     concat (map (\<lambda>h. va_updates (hit_part E (sc_receiver c) (sc_root_hex c) (so_extra_signers opts) tip
       (max (so_min_confirmations opts) 1) h)) (sort_key hit_pos (hits_of (window chain lo hi))))"
  by (simp only: window_view_def validated_of_def validate_sel)

lemma view_updates_filter:
  assumes "b \<le> a"
  shows "va_updates (window_view E c opts tip chain a hi) =
     filter (\<lambda>u. a \<le> su_height u) (va_updates (window_view E c opts tip chain b hi))"
proof -
  have w: "window chain a hi = filter (\<lambda>tx. a \<le> fst tx) (window chain b hi)"
    using assms unfolding window_def filter_filter by (intro filter_cong) auto
  show ?thesis
    unfolding view_updates w hits_of_window filter_sort [symmetric]
    by (rule concat_map_filter) (simp add: hit_update_place(1))
qed

lemma view_sorted:
  "sorted_wrt (\<lambda>u w. su_height u \<le> su_height w) (va_updates (window_view E c opts tip chain lo hi))"
proof -
  have "sorted_wrt (\<lambda>u w. su_height u \<le> su_height w)
      (concat (map (\<lambda>h. va_updates (hit_part E rc root ex tip m h)) hs))"
    if "sorted_wrt (\<lambda>x y. rh_height x \<le> rh_height y) hs" for rc root ex m hs
    using that
  proof (induction hs)
    case (Cons h hs)
    have "length (va_updates (hit_part E rc root ex tip m h)) \<le> 1"
      by (auto simp: hit_part_def validate_hit_def validate_command_def Let_def
          split: sum.splits memo_reject.splits option.splits)
    then have "sorted_wrt (\<lambda>u w. su_height u \<le> su_height w) (va_updates (hit_part E rc root ex tip m h))"
      by (cases "va_updates (hit_part E rc root ex tip m h)") auto
    with Cons show ?case by (auto simp: sorted_wrt_append dest!: hit_update_place(1))
  qed simp
  moreover have "sorted_wrt (\<lambda>x y. rh_height x \<le> rh_height y) (sort_key hit_pos xs)" for xs
  proof -
    have "sorted_wrt (\<lambda>x y. hit_pos x \<le> hit_pos y) (sort_key hit_pos xs)"
      using sorted_sort_key [of hit_pos xs] by (simp add: sorted_map)
    then show ?thesis by (rule sorted_wrt_mono_rel [rotated]) (auto simp: hit_pos_def less_eq_prod_def)
  qed
  ultimately show ?thesis unfolding view_updates by blast
qed

lemma view_latest:
  "map_of (va_latest (window_view E c opts tip chain lo hi)) k =
   last_verified (va_updates (window_view E c opts tip chain lo hi)) k"
  by (simp add: window_view_def validated_of_def validate_sel(3) map_of_latest)

section \<open>Searching and scanning\<close>

lemma ensure_init_client:
  assumes "ensure_init E opts tip c = (c1, res)"
  shows "sc_source c1 = sc_source c" and "sc_birthday c1 = sc_birthday c"
    and "sc_receiver c1 = sc_receiver c" and "sc_root_hex c1 = sc_root_hex c"
  using assms
  by (auto simp: ensure_init_def verify_init_at_def write_init_cache_def Let_def
      split: if_splits sum.splits option.splits prod.splits)

lemma find_where_window:
  assumes s: "serves (sc_source c) tip chain" and i: "ensure_init E opts tip c = (c1, Ok init)"
  shows "\<exists>from. find_where E opts satisfied grace c =
      (c1, Ok (state_of opts tip from tip (window_view E c1 opts tip chain from tip) init)) \<and>
    window_from c1 tip (so_max_depth opts) \<le> from \<and>
    (from = window_from c1 tip (so_max_depth opts) \<or>
     (\<exists>h. from = h - grace \<and> satisfied (va_latest (window_view E c1 opts tip chain h tip))))"
proof -
  let ?b = "window_from c1 tip (so_max_depth opts)"
  have s1: "serves (sc_source c1) tip chain" using s ensure_init_client [OF i] by simp
  let ?x = "([], validated_default, stepper_new grace)"
  have ok: "search_ok E c1 opts tip chain satisfied grace (Suc tip) ?x"
    by (simp add: search_ok_def covers_def stepper_new_def window_empty hits_of_def validated_of_def)
  have "\<exists>x'. find_chunks E c1 opts tip satisfied (chunks_desc_progressive ?b tip DEFAULT_SCAN_DEPTH CHUNK) ?x = Ok x' \<and>
      search_ok E c1 opts tip chain satisfied grace ?b x'"
  proof (cases "?b \<le> tip")
    case True
    then have "tiles_down (Suc tip) ?b (chunks_desc_progressive ?b tip DEFAULT_SCAN_DEPTH CHUNK)"
      by (simp add: chunks_desc_progressive_def desc_chunks_tiles)
    from find_chunks_ok [OF s1 ok this] show ?thesis by simp
  next
    case False
    then have "chunks_desc_progressive ?b tip DEFAULT_SCAN_DEPTH CHUNK = []"
      by (simp add: chunks_desc_progressive_def desc_chunks.simps)
    moreover have "search_ok E c1 opts tip chain satisfied grace ?b ?x"
      using False by (simp add: search_ok_def covers_def stepper_new_def window_empty hits_of_def validated_of_def)
    ultimately show ?thesis by simp
  qed
  then obtain raw v st where
    f: "find_chunks E c1 opts tip satisfied (chunks_desc_progressive ?b tip DEFAULT_SCAN_DEPTH CHUNK) ?x = Ok (raw, v, st)"
    and ok': "search_ok E c1 opts tip chain satisfied grace ?b (raw, v, st)" by (metis prod_cases3)
  from ok' have v: "v = window_view E c1 opts tip chain (covered_from st ?b) tip"
    using covers_view by (auto simp: search_ok_def)
  have "cs_tip (sc_source c) = Ok tip" using s by (simp add: serves_def)
  with f v i have "find_where E opts satisfied grace c =
      (c1, Ok (state_of opts tip (covered_from st ?b) tip
         (window_view E c1 opts tip chain (covered_from st ?b) tip) init))"
    by (simp add: find_where_def Let_def)
  moreover have "?b \<le> covered_from st ?b" by (cases "fs_stop_below st") auto
  moreover have "covered_from st ?b = ?b \<or>
      (\<exists>h. covered_from st ?b = h - grace \<and> satisfied (va_latest (window_view E c1 opts tip chain h tip)))"
    using ok' by (cases "fs_stop_below st") (auto simp: search_ok_def max_def)
  ultimately show ?thesis by blast
qed

lemma scan_window:
  assumes s: "serves (sc_source c) tip chain" and i: "ensure_init E opts tip c = (c1, Ok init)"
  shows "scan E opts c = (c1, Ok (state_of opts tip (window_from c1 tip (so_depth opts)) tip
     (window_view E c1 opts tip chain (window_from c1 tip (so_depth opts)) tip) init))"
proof -
  have s1: "serves (sc_source c1) tip chain" using s ensure_init_client [OF i] by simp
  have "cs_tip (sc_source c) = Ok tip" using s by (simp add: serves_def)
  with fetch_and_enhance_serves [OF s1, of "window_from c1 tip (so_depth opts)" tip E c1 opts] i
  show ?thesis by (auto simp: scan_def Let_def)
qed

text \<open>
  C25. The early stop loses nothing that was asked for: over a chain served whole, \<open>find\<close> never fails
  once the INIT anchor is settled, its updates are exactly those of the bulk read of the same depth from
  the height it reports to have covered on, and every key asked for has the same winner as in the bulk
  read, found or not.
\<close>

theorem find_agrees_with_scan:
  assumes "serves (sc_source c) tip chain" and "ensure_init E opts tip c = (c1, Ok init)"
    and "so_depth opts = so_max_depth opts"
  shows "\<exists>st st'. find_keys E opts keys c = (c1, Ok st) \<and> scan E opts c = (c1, Ok st') \<and>
     ss_updates st = filter (\<lambda>u. fst (ss_scanned st) \<le> su_height u) (ss_updates st') \<and>
     (\<forall>k \<in> set keys. map_of (ss_latest st) k = map_of (ss_latest st') k)"
proof -
  let ?b = "window_from c1 tip (so_max_depth opts)"
  let ?V = "\<lambda>a. window_view E c1 opts tip chain a tip"
  from find_where_window [OF assms(1,2), of "\<lambda>latest. list_all (\<lambda>k. map_of latest k \<noteq> None) keys" 0]
  obtain a where f: "find_keys E opts keys c = (c1, Ok (state_of opts tip a tip (?V a) init))" and b: "?b \<le> a"
    and stop: "a = ?b \<or> list_all (\<lambda>k. map_of (va_latest (?V a)) k \<noteq> None) keys"
    by (auto simp: find_keys_def)
  have u: "va_updates (?V a) = filter (\<lambda>u. a \<le> su_height u) (va_updates (?V ?b))"
    by (rule view_updates_filter [OF b])
  have w: "map_of (va_latest (?V a)) k = map_of (va_latest (?V ?b)) k" if "k \<in> set keys" for k
  proof (cases "a = ?b")
    case False
    with stop that have "last_verified (va_updates (?V a)) k \<noteq> None"
      by (auto simp: list_all_iff view_latest)
    then have "last_verified (va_updates (?V ?b)) k = last_verified (va_updates (?V a)) k"
      unfolding u by (rule last_verified_suffix) (rule sorted_wrt_mono_rel [OF _ view_sorted], simp)
    then show ?thesis by (simp add: view_latest)
  qed simp
  from f scan_window [OF assms(1,2)] u w assms(3) show ?thesis by (simp add: state_of_def)
qed

definition demo_reader_client :: "chain_source \<Rightarrow> shallow_client" where
  "demo_reader_client src =
     \<lparr>sc_birthday = 1, sc_receiver = ''main:00'', sc_root_hex = ''root'', sc_source = src, sc_cache_dir = None,
      sc_init_anchor = None\<rparr>"

theorem find_agrees_with_scan_witness:
  "let opts = shallow_options_default\<lparr>so_verify_init := False\<rparr>;
       c = demo_reader_client (source_of 9 [(5, [CHR ''t''], [(0, ''memo'')])])
   in \<exists>st st'. find_keys model_crates opts [''k''] c = (c, Ok st) \<and> scan model_crates opts c = (c, Ok st') \<and>
     ss_updates st = filter (\<lambda>u. fst (ss_scanned st) \<le> su_height u) (ss_updates st') \<and>
     map_of (ss_latest st) ''k'' = map_of (ss_latest st') ''k''"
proof -
  let ?opts = "shallow_options_default\<lparr>so_verify_init := False\<rparr>"
  let ?c = "demo_reader_client (source_of 9 [(5, [CHR ''t''], [(0, ''memo'')])])"
  have "serves (sc_source ?c) 9 [(5, [CHR ''t''], [(0, ''memo'')])]"
    by (simp add: demo_reader_client_def serves_source_of u32_max_def)
  moreover have "ensure_init model_crates ?opts 9 ?c = (?c, Ok None)"
    by (simp add: ensure_init_def demo_reader_client_def)
  ultimately have "\<exists>st st'. find_keys model_crates ?opts [''k''] ?c = (?c, Ok st) \<and> scan model_crates ?opts ?c = (?c, Ok st') \<and>
     ss_updates st = filter (\<lambda>u. fst (ss_scanned st) \<le> su_height u) (ss_updates st') \<and>
     (\<forall>k \<in> set [''k'']. map_of (ss_latest st) k = map_of (ss_latest st') k)"
    by (rule find_agrees_with_scan) (simp add: shallow_options_default_def)
  then show ?thesis by (simp add: Let_def)
qed

end
