(* ===== verification/Shallow_Follow.thy ===== *)
theory Shallow_Follow
  imports Shallow_Find
begin

text \<open>
  Following keys with the shallow reader: a scan, then polls over a growing chain. Each poll reports
  exactly the updates that have become deep enough since the cursor, so none is lost in the overlap of
  the windows and none is reported twice.
\<close>

section \<open>What is confirmed at a tip\<close>

abbreviation need :: "shallow_options \<Rightarrow> u32" where
  "need opts \<equiv> max (so_min_confirmations opts) 1"

definition deep_by :: "shallow_options \<Rightarrow> u32 \<Rightarrow> u32 \<Rightarrow> bool" where
  "deep_by opts tip height \<longleftrightarrow> height \<le> tip \<and> need opts \<le> (tip - height) + 1"

definition all_updates ::
    "('pk, 'sk) crates \<Rightarrow> shallow_client \<Rightarrow> shallow_options \<Rightarrow> u32 \<Rightarrow> chain_tx list \<Rightarrow> shallow_update list" where
  "all_updates E c opts tip chain = va_updates (window_view E c opts tip chain (sc_birthday c) tip)"

definition agree_to :: "u32 \<Rightarrow> chain_tx list \<Rightarrow> chain_tx list \<Rightarrow> bool" where
  "agree_to t chain chain' \<longleftrightarrow> filter (\<lambda>tx. fst tx \<le> t) chain' = filter (\<lambda>tx. fst tx \<le> t) chain"

lemma agree_to_trans: "agree_to t a b \<Longrightarrow> agree_to t' b d \<Longrightarrow> t \<le> t' \<Longrightarrow> agree_to t a d"
proof -
  assume "agree_to t a b" and b: "agree_to t' b d" and t: "t \<le> t'"
  have "filter (\<lambda>tx. fst tx \<le> t) xs = filter (\<lambda>tx. fst tx \<le> t) (filter (\<lambda>tx. fst tx \<le> t') xs)" for xs :: "chain_tx list"
    using t unfolding filter_filter by (intro filter_cong) auto
  then show ?thesis using \<open>agree_to t a b\<close> b unfolding agree_to_def by metis
qed

lemma deep_by_mono: "deep_by opts t h \<Longrightarrow> t \<le> t' \<Longrightarrow> deep_by opts t' h"
  by (auto simp: deep_by_def)

lemma hits_filter_height:
  "hits_of (filter (\<lambda>tx. P (fst tx)) txs) = filter (\<lambda>x. P (rh_height x)) (hits_of txs)"
proof (induction txs)
  case (Cons tx txs)
  have "filter (\<lambda>x. P (rh_height x)) (tx_hits tx) = (if P (fst tx) then tx_hits tx else [])"
    using tx_hits_place [of _ tx] by (auto simp: filter_empty_conv filter_id_conv simp del: tx_hits.simps)
  with Cons show ?case by (simp add: hits_of_def)
qed (simp add: hits_of_def)

lemma all_updates_sorted: "sorted_wrt (\<lambda>u w. su_height u \<le> su_height w) (all_updates E c opts tip chain)"
  by (simp add: all_updates_def view_sorted)

lemma all_updates_deep:
  assumes "u \<in> set (all_updates E c opts tip chain)"
  shows "deep_by opts tip (su_height u)" and "sc_birthday c \<le> su_height u"
proof -
  from assms obtain x where x: "x \<in> set (hits_of (window chain (sc_birthday c) tip))"
    and u: "u \<in> set (va_updates (hit_part E (sc_receiver c) (sc_root_hex c) (so_extra_signers opts) tip (need opts) x))"
    by (auto simp: all_updates_def view_updates)
  from hits_of_place [OF x] have "sc_birthday c \<le> rh_height x" "rh_height x \<le> tip"
    by (auto simp: window_def)
  with hit_update_place(1,5) [OF u] show "deep_by opts tip (su_height u)" "sc_birthday c \<le> su_height u"
    by (auto simp: deep_by_def)
qed

text \<open>What was deep enough at an earlier tip is there again, and is what was reported then.\<close>

lemma all_updates_earlier:
  assumes "t \<le> t'" and "agree_to t chain chain'"
  shows "map undated (filter (\<lambda>u. deep_by opts t (su_height u)) (all_updates E c opts t' chain')) =
         map undated (all_updates E c opts t chain)"
proof -
  let ?U = "\<lambda>tip h. va_updates (hit_part E (sc_receiver c) (sc_root_hex c) (so_extra_signers opts) tip (need opts) h)"
  let ?Q = "\<lambda>x. deep_by opts t (rh_height x)"
  have f: "filter ?Q (hits_of (window chain' (sc_birthday c) t')) = filter ?Q (hits_of (window chain (sc_birthday c) t))"
  proof -
    have "filter (\<lambda>tx. deep_by opts t (fst tx)) (window xs (sc_birthday c) hi) =
        filter (\<lambda>tx. deep_by opts t (fst tx) \<and> sc_birthday c \<le> fst tx) (filter (\<lambda>tx. fst tx \<le> t) xs)"
      if "t \<le> hi" for xs hi
      using that unfolding window_def filter_filter by (intro filter_cong) (auto simp: deep_by_def)
    from this [OF assms(1), of chain'] this [OF order.refl, of chain] assms(2)
    have "filter (\<lambda>tx. deep_by opts t (fst tx)) (window chain' (sc_birthday c) t') =
        filter (\<lambda>tx. deep_by opts t (fst tx)) (window chain (sc_birthday c) t)"
      by (simp only: agree_to_def)
    then show ?thesis unfolding hits_filter_height [of "deep_by opts t", symmetric] by (rule arg_cong)
  qed
  have "filter (\<lambda>u. deep_by opts t (su_height u)) (all_updates E c opts t' chain') =
      concat (map (?U t') (filter ?Q (sort_key hit_pos (hits_of (window chain' (sc_birthday c) t')))))"
    unfolding all_updates_def view_updates
    by (rule concat_map_filter [symmetric]) (simp add: hit_update_place(1))
  then have l: "filter (\<lambda>u. deep_by opts t (su_height u)) (all_updates E c opts t' chain') =
      concat (map (?U t') (sort_key hit_pos (filter ?Q (hits_of (window chain (sc_birthday c) t)))))"
    by (simp only: filter_sort f)
  have "all_updates E c opts t chain = filter (\<lambda>u. deep_by opts t (su_height u)) (all_updates E c opts t chain)"
    using all_updates_deep(1) by (metis filter_True)
  also have "\<dots> = concat (map (?U t) (filter ?Q (sort_key hit_pos (hits_of (window chain (sc_birthday c) t)))))"
    unfolding all_updates_def view_updates
    by (rule concat_map_filter [symmetric]) (simp add: hit_update_place(1))
  finally have r: "all_updates E c opts t chain =
      concat (map (?U t) (sort_key hit_pos (filter ?Q (hits_of (window chain (sc_birthday c) t)))))"
    by (simp only: filter_sort)
  have "map undated (?U t' x) = map undated (?U t x)" if "?Q x" for x
    using that by (intro hit_updates_later [OF assms(1)]) (simp add: deep_by_def)
  then show ?thesis
    unfolding l unfolding r map_concat map_map
    by (intro arg_cong [of _ _ concat] map_cong refl) (auto simp: comp_def)
qed

section \<open>Polls\<close>

text \<open>A cursor that has seen everything up to its height, and remembers what a poll fetches again.\<close>

definition cursor_at ::
    "('pk, 'sk) crates \<Rightarrow> shallow_client \<Rightarrow> shallow_options \<Rightarrow> u32 \<Rightarrow> chain_tx list \<Rightarrow> shallow_cursor \<Rightarrow> bool" where
  "cursor_at E c opts tip chain cur \<longleftrightarrow>
     cu_height cur = tip \<and>
     set (cu_recent cur) =
       update_id_of ` {u \<in> set (all_updates E c opts tip chain). tip - margin_of opts < su_height u}"

lemma window_view_client:
  "sc_receiver c' = sc_receiver c \<Longrightarrow> sc_root_hex c' = sc_root_hex c \<Longrightarrow>
   window_view E c' opts tip chain lo hi = window_view E c opts tip chain lo hi"
  by (simp add: window_view_def validated_of_def)

lemma need_margin: "need opts \<le> margin_of opts"
  by (simp add: margin_of_def REORG_MARGIN_def)

lemma at_tip_cursor:
  assumes "lo \<le> max (sc_birthday c) (Suc (tip - margin_of opts))" and "sc_birthday c \<le> lo"
  shows "cursor_at E c opts tip chain (at_tip tip (va_updates (window_view E c opts tip chain lo tip)) (margin_of opts))"
proof -
  let ?M = "tip - margin_of opts"
  have "{u \<in> set (va_updates (window_view E c opts tip chain lo tip)). ?M < su_height u} =
      {u \<in> set (all_updates E c opts tip chain). ?M < su_height u}"
    using all_updates_deep(2) [of _ E c opts tip chain] assms
    unfolding view_updates_filter [OF assms(2)] all_updates_def [symmetric]
    by (auto simp: max_def Suc_le_eq split: if_splits)
  then show ?thesis by (simp add: cursor_at_def at_tip_def)
qed

lemma poll_reports:
  assumes s: "serves (sc_source c) t' chain'" and cur: "cursor_at E c opts t chain cur"
    and t: "t \<le> t'" and ag: "agree_to t chain chain'" and b: "0 < sc_birthday c"
  shows "\<exists>st. poll E opts cur c = Ok st \<and>
     ss_updates st = filter (\<lambda>u. \<not> deep_by opts t (su_height u)) (all_updates E c opts t' chain') \<and>
     cursor_at E c opts t' chain' (ss_cursor st)"
proof -
  have tip: "cs_tip (sc_source c) = Ok t'" and h: "cu_height cur = t" and u32: "t' \<le> u32_max"
    using s cur by (simp_all add: serves_def cursor_at_def)
  note earlier = all_updates_earlier [OF t ag, of opts E c]
  have ids: "update_id_of ` {u \<in> set (all_updates E c opts t' chain'). deep_by opts t (su_height u) \<and> t - margin_of opts < su_height u} =
      update_id_of ` {u \<in> set (all_updates E c opts t chain). t - margin_of opts < su_height u}"
  proof -
    have "(\<lambda>u. (update_id_of u, su_height u)) ` set (map undated (filter (\<lambda>u. deep_by opts t (su_height u)) (all_updates E c opts t' chain'))) =
        (\<lambda>u. (update_id_of u, su_height u)) ` set (map undated (all_updates E c opts t chain))"
      by (simp only: earlier)
    then have "(\<lambda>u. (update_id_of u, su_height u)) ` {u \<in> set (all_updates E c opts t' chain'). deep_by opts t (su_height u)} =
        (\<lambda>u. (update_id_of u, su_height u)) ` set (all_updates E c opts t chain)"
      by (simp add: image_image)
    then show ?thesis by (auto simp: set_eq_iff image_iff) metis+
  qed
  show ?thesis
  proof (cases "t = t'")
    case True
    have "filter (\<lambda>u. \<not> deep_by opts t (su_height u)) (all_updates E c opts t' chain') = []"
      using all_updates_deep(1) True by (auto simp: filter_empty_conv)
    moreover have "cursor_at E c opts t' chain' cur"
    proof -
      have "{u \<in> set (all_updates E c opts t' chain'). deep_by opts t (su_height u) \<and> t - margin_of opts < su_height u} =
          {u \<in> set (all_updates E c opts t' chain'). t' - margin_of opts < su_height u}"
        using all_updates_deep(1) True by blast
      with ids cur True show ?thesis by (simp add: cursor_at_def)
    qed
    ultimately show ?thesis using tip h True by (simp add: poll_def poll_range_def)
  next
    case False
    with t have lt: "t < t'" by simp
    let ?lo = "max (Suc (t - margin_of opts)) (sc_birthday c)"
    have r: "poll_range t t' (margin_of opts) = Some (Suc (t - margin_of opts), t')"
      using lt u32 by (auto simp: poll_range_def sat_add32_def)
    let ?v = "window_view E c opts t' chain' ?lo t'"
    from fetch_and_enhance_serves [OF s, of ?lo t' E c opts]
    have p: "poll E opts cur c = Ok \<lparr>ss_tip = t', ss_scanned = (?lo, t'),
        ss_updates = dedup_updates (va_updates ?v) (cu_recent cur), ss_latest = va_latest ?v,
        ss_warnings = va_warnings ?v, ss_init = sc_init_anchor c,
        ss_cursor = at_tip t' (va_updates ?v) (margin_of opts)\<rparr>"
      by (auto simp: poll_def tip h r Let_def)
    have v: "va_updates ?v = filter (\<lambda>u. ?lo \<le> su_height u) (all_updates E c opts t' chain')"
      unfolding all_updates_def by (rule view_updates_filter) simp
    have "(?lo \<le> su_height u \<and> update_id_of u \<notin> set (cu_recent cur)) = (\<not> deep_by opts t (su_height u))"
      if u: "u \<in> set (all_updates E c opts t' chain')" for u
    proof
      assume a: "?lo \<le> su_height u \<and> update_id_of u \<notin> set (cu_recent cur)"
      show "\<not> deep_by opts t (su_height u)"
      proof
        assume "deep_by opts t (su_height u)"
        with u a have "update_id_of u \<in> update_id_of ` {u \<in> set (all_updates E c opts t' chain').
            deep_by opts t (su_height u) \<and> t - margin_of opts < su_height u}" by auto
        with ids cur a show False by (simp add: cursor_at_def)
      qed
    next
      assume nd: "\<not> deep_by opts t (su_height u)"
      have "update_id_of u \<notin> set (cu_recent cur)"
      proof
        assume "update_id_of u \<in> set (cu_recent cur)"
        then obtain w where "w \<in> set (all_updates E c opts t chain)" "update_id_of u = update_id_of w"
          using cur by (auto simp: cursor_at_def)
        then have "deep_by opts t (su_height u)" using all_updates_deep(1) by (fastforce simp: update_id_of_def)
        with nd show False by simp
      qed
      moreover have "Suc (t - margin_of opts) \<le> su_height u"
        using nd need_margin [of opts] b all_updates_deep(2) [OF u] by (auto simp: deep_by_def)
      ultimately show "?lo \<le> su_height u \<and> update_id_of u \<notin> set (cu_recent cur)"
        using all_updates_deep(2) [OF u] by simp
    qed
    then have "dedup_updates (va_updates ?v) (cu_recent cur) =
        filter (\<lambda>u. \<not> deep_by opts t (su_height u)) (all_updates E c opts t' chain')"
      unfolding dedup_updates_def v filter_filter
      by (intro filter_cong refl) (auto simp: list_ex_iff)
    moreover have "cursor_at E c opts t' chain' (at_tip t' (va_updates ?v) (margin_of opts))"
      using lt by (intro at_tip_cursor) auto
    ultimately show ?thesis using p by simp
  qed
qed

section \<open>Following\<close>

text \<open>The ticks of a watcher: the source is down, or it serves the chain, grown and not rewritten.\<close>

inductive ticking :: "u32 \<Rightarrow> chain_tx list \<Rightarrow> chain_source list \<Rightarrow> u32 \<Rightarrow> chain_tx list \<Rightarrow> bool" where
  idle: "ticking t chain [] t chain"
| down: "cs_tip src = Err e \<Longrightarrow> ticking t chain ticks t' chain' \<Longrightarrow> ticking t chain (src # ticks) t' chain'"
| up: "serves src t1 chain1 \<Longrightarrow> t \<le> t1 \<Longrightarrow> agree_to t chain chain1 \<Longrightarrow> ticking t1 chain1 ticks t' chain' \<Longrightarrow>
       ticking t chain (src # ticks) t' chain'"

lemma ticking_grows: "ticking t chain ticks t' chain' \<Longrightarrow> t \<le> t' \<and> agree_to t chain chain'"
  by (induction rule: ticking.induct) (auto simp: agree_to_def [of _ x x for x] intro: agree_to_trans)

lemma split_deep:
  "filter (\<lambda>u. deep_by opts t (su_height u)) us @ filter (\<lambda>u. \<not> deep_by opts t (su_height u)) us = us"
  if "sorted_wrt (\<lambda>u w. su_height u \<le> su_height w) us"
  using that
proof (induction us)
  case (Cons u us)
  show ?case
  proof (cases "deep_by opts t (su_height u)")
    case False
    with Cons.prems have "\<forall>w \<in> set us. \<not> deep_by opts t (su_height w)" by (auto simp: deep_by_def)
    then have "filter (\<lambda>u. deep_by opts t (su_height u)) us = []" by (simp add: filter_empty_conv)
    with Cons False show ?thesis by simp
  qed (use Cons in simp)
qed simp

lemma map_undated_filter:
  assumes "\<And>u. P (undated u) = P u" and "map undated us = map undated ws"
  shows "map undated (filter P us) = map undated (filter P ws)"
proof -
  have "map undated (filter P xs) = filter P (map undated xs)" for xs
    using assms(1) by (simp add: filter_map comp_def)
  with assms(2) show ?thesis by simp
qed

lemma follow_loop_reports:
  assumes "ticking t chain ticks t' chain'" and "cursor_at E c opts t chain cur" and "0 < sc_birthday c"
  shows "map undated (follow_loop E opts patterns c ticks cur) =
     map undated (filter (\<lambda>u. su_verified u \<and> key_wanted patterns (su_key u) \<and> \<not> deep_by opts t (su_height u))
       (all_updates E c opts t' chain'))"
  using assms(1,2)
proof (induction arbitrary: cur rule: ticking.induct)
  case (idle t chain)
  have "filter (\<lambda>u. su_verified u \<and> key_wanted patterns (su_key u) \<and> \<not> deep_by opts t (su_height u))
      (all_updates E c opts t chain) = []"
    using all_updates_deep(1) by (auto simp: filter_empty_conv)
  then show ?case by simp
next
  case (down src e t chain ticks t' chain')
  then show ?case by (simp add: poll_def)
next
  case (up src t1 chain1 t chain ticks t' chain')
  let ?c = "c\<lparr>sc_source := src\<rparr>"
  let ?W = "\<lambda>u. su_verified u \<and> key_wanted patterns (su_key u)"
  have all: "all_updates E ?c opts tip ch = all_updates E c opts tip ch" for tip ch
    by (simp add: all_updates_def window_view_client [of ?c c])
  have cur: "cursor_at E ?c opts tip ch x = cursor_at E c opts tip ch x" for tip ch x
    by (simp add: cursor_at_def all)
  from poll_reports [of ?c t1 chain1 E opts t chain cur] up assms(3) obtain st where
    p: "poll E opts cur ?c = Ok st"
    and us: "ss_updates st = filter (\<lambda>u. \<not> deep_by opts t (su_height u)) (all_updates E c opts t1 chain1)"
    and c1: "cursor_at E c opts t1 chain1 (ss_cursor st)" by (auto simp: all cur)
  from ticking_grows [OF up(4)] have g: "t1 \<le> t'" "agree_to t1 chain1 chain'" by simp_all
  let ?all = "all_updates E c opts t' chain'"
  have "filter (\<lambda>u. ?W u \<and> \<not> deep_by opts t (su_height u)) ?all =
      filter (\<lambda>u. ?W u \<and> \<not> deep_by opts t (su_height u)) (filter (\<lambda>u. deep_by opts t1 (su_height u)) ?all) @
      filter (\<lambda>u. ?W u \<and> \<not> deep_by opts t (su_height u)) (filter (\<lambda>u. \<not> deep_by opts t1 (su_height u)) ?all)"
    by (subst (1) split_deep [OF all_updates_sorted, of opts t1, symmetric]) (simp only: filter_append)
  also have "filter (\<lambda>u. ?W u \<and> \<not> deep_by opts t (su_height u)) (filter (\<lambda>u. \<not> deep_by opts t1 (su_height u)) ?all) =
      filter (\<lambda>u. ?W u \<and> \<not> deep_by opts t1 (su_height u)) ?all"
    unfolding filter_filter using deep_by_mono [OF _ up(2)] by (intro filter_cong) auto
  finally have "map undated (filter (\<lambda>u. ?W u \<and> \<not> deep_by opts t (su_height u)) ?all) =
      map undated (filter (\<lambda>u. ?W u \<and> \<not> deep_by opts t (su_height u)) (filter (\<lambda>u. deep_by opts t1 (su_height u)) ?all)) @
      map undated (filter (\<lambda>u. ?W u \<and> \<not> deep_by opts t1 (su_height u)) ?all)" by (simp only: map_append)
  also have "map undated (filter (\<lambda>u. ?W u \<and> \<not> deep_by opts t (su_height u)) (filter (\<lambda>u. deep_by opts t1 (su_height u)) ?all)) =
      map undated (filter (\<lambda>u. ?W u \<and> \<not> deep_by opts t (su_height u)) (all_updates E c opts t1 chain1))"
    by (rule map_undated_filter [OF _ all_updates_earlier [OF g]]) simp
  finally show ?case using up.IH [OF c1] by (simp add: p us conj_ac)
qed

text \<open>
  C26. A watcher loses nothing and repeats nothing: \<open>follow\<close> starts with a scan no shallower than the
  re-check margin, then polls a chain that grows (ticks may find the source down). What it prints after
  its start is, in chain order, each update of the chain for the keys asked for that is verified and has
  become deep enough since the tip of the scan, once, however the ticks fall.
\<close>

theorem follow_reports_each_update_once:
  assumes "serves (sc_source c) t chain" and "ensure_init E opts t c = (c1, Ok init)"
    and "margin_of opts \<le> so_depth opts" and "0 < sc_birthday c" and "ticking t chain ticks t' chain'"
  shows "\<exists>current news. follow E opts patterns c ticks = Ok (current, news) \<and>
     map undated news = map undated (filter (\<lambda>u. su_verified u \<and> key_wanted patterns (su_key u) \<and>
       \<not> deep_by opts t (su_height u)) (all_updates E c opts t' chain'))"
proof -
  note cl = ensure_init_client [OF assms(2)]
  have all: "all_updates E c1 opts tip ch = all_updates E c opts tip ch" for tip ch
    using cl by (simp add: all_updates_def window_view_client [of c1 c])
  let ?lo = "window_from c1 t (so_depth opts)"
  let ?st = "state_of opts t ?lo t (window_view E c1 opts t chain ?lo t) init"
  have "cursor_at E c1 opts t chain (ss_cursor ?st)"
    unfolding state_of_def shallow_state.select_convs
    by (rule at_tip_cursor) (use assms(3) in \<open>auto simp: window_from_def margin_of_def REORG_MARGIN_def\<close>)
  from follow_loop_reports [OF assms(5) this] assms(4) cl(2) scan_window [OF assms(1,2)]
  show ?thesis by (simp add: follow_def all)
qed

theorem follow_reports_each_update_once_witness:
  "let opts = shallow_options_default\<lparr>so_verify_init := False\<rparr>; t1 = (5, [CHR ''t''], [(0, ''memo'')]);
       t2 = (10, [CHR ''u''], [(0, ''memo'')]); c = demo_reader_client (source_of 9 [t1]);
       down = \<lparr>cs_tip = Err SConnect, cs_candidates = (\<lambda>lo hi. Ok []), cs_memos = (\<lambda>t seen tip. Ok None)\<rparr>
   in \<exists>current news. follow model_crates opts [''k''] c [down, source_of 12 [t1, t2]] = Ok (current, news) \<and>
     map undated news = map undated (filter (\<lambda>u. su_verified u \<and> key_wanted [''k''] (su_key u) \<and>
       \<not> deep_by opts 9 (su_height u)) (all_updates model_crates c opts 12 [t1, t2]))"
proof -
  let ?opts = "shallow_options_default\<lparr>so_verify_init := False\<rparr>"
  let ?t1 = "(5, [CHR ''t''], [(0, ''memo'')])" and ?t2 = "(10, [CHR ''u''], [(0, ''memo'')])"
  let ?c = "demo_reader_client (source_of 9 [?t1])"
  let ?down = "\<lparr>cs_tip = Err SConnect, cs_candidates = (\<lambda>lo hi. Ok []), cs_memos = (\<lambda>t seen tip. Ok None)\<rparr>"
  have "serves (source_of 12 [?t1, ?t2]) 12 [?t1, ?t2]" by (rule serves_source_of) (simp_all add: u32_max_def)
  then have tick: "ticking 9 [?t1] [?down, source_of 12 [?t1, ?t2]] 12 [?t1, ?t2]"
    by (intro ticking.down [OF _ ticking.up [OF _ _ _ ticking.idle]]) (simp_all add: agree_to_def)
  have s: "serves (sc_source ?c) 9 [?t1]"
    by (simp add: demo_reader_client_def serves_source_of u32_max_def)
  have "ensure_init model_crates ?opts 9 ?c = (?c, Ok None)"
    by (simp add: ensure_init_def demo_reader_client_def)
  from follow_reports_each_update_once [OF s this _ _ tick, of "[''k'']"] show ?thesis
    by (simp add: Let_def shallow_options_default_def margin_of_def REORG_MARGIN_def DEFAULT_SCAN_DEPTH_def
        demo_reader_client_def)
qed

end
