(* ===== verification/Shallow_Agrees.thy ===== *)
theory Shallow_Agrees
  imports Shallow_Props Batch_Order
begin

text \<open>
  What a shallow read is worth: when it warns of nothing its winners carry the greatest sequence of
  their keys, so a full replay of the same memos arrives at the same values, unless a sequence comes
  twice: then the replay keeps the first write and the read shows the last.
\<close>

section \<open>The replay of the hits\<close>

definition hit_entry :: "('pk, 'sk) crates \<Rightarrow> (raw_hit \<Rightarrow> u32 option) \<Rightarrow> raw_hit \<Rightarrow> replay_entry" where
  "hit_entry E block_time h =
     memo_row (rh_text h) Confirmed (txid_to_string E (rh_txid h)) (block_time h)"

definition take_update ::
    "shallow_update \<Rightarrow> (str \<Rightarrow> nat) \<times> (str \<rightharpoonup> str) \<Rightarrow> (str \<Rightarrow> nat) \<times> (str \<rightharpoonup> str)" where
  "take_update u s =
     (if su_verified u \<and> fst s (su_key u) \<le> unat (su_seq u)
      then ((fst s)(su_key u := Suc (unat (su_seq u))), (snd s)(su_key u := new_value (su_op u) (su_value u)))
      else s)"

definition in_reach :: "replay_result \<Rightarrow> shallow_update \<Rightarrow> bool" where
  "in_reach r u \<longleftrightarrow>
     (su_verified u \<longrightarrow> unat (su_seq u) \<le> hw (rr_kv_versions r) (su_key u) + 256 \<and> unat (su_seq u) < u64_max)"

text \<open>A hit without a warning is a verified data write, or the replay passes over it.\<close>

lemma quiet_hit:
  assumes "va_warnings (hit_part E rc root ex tip m h) = []" and "m \<le> (tip - rh_height h) + 1"
  obtains (put) cmd signer where "parse_text_memo_detailed E (rh_text h) = Ok cmd" and "is_data (cmd_op cmd)"
    and "hit_signer E rc cmd = Some signer" and "signer = root \<or> signer \<in> ex"
    and "va_updates (hit_part E rc root ex tip m h) =
      [\<lparr>su_key = cmd_key cmd, su_value = cmd_value cmd, su_op = cmd_op cmd, su_height = rh_height h,
        su_txid = txid_to_string E (rh_txid h), su_output_index = rh_output_index h, su_seq = cmd_seq cmd,
        su_signer = Some signer, su_verified = True, su_confirmations = (tip - rh_height h) + 1,
        su_comment = cmd_comment cmd\<rparr>]"
  | (ignored) "list_all (\<lambda>u. \<not> su_verified u) (va_updates (hit_part E rc root ex tip m h))"
    and "\<And>cmd. parse_text_memo_detailed E (rh_text h) = Ok cmd \<Longrightarrow> cmd_op cmd = Init \<or> hit_signer E rc cmd = None"
proof (cases "parse_text_memo_detailed E (rh_text h)")
  case (Inl e)
  with that(2) assms show ?thesis
    by (auto simp: hit_part_def validate_hit_def split: memo_reject.splits)
next
  case (Inr cmd)
  consider "is_data (cmd_op cmd)" "hit_signer E rc cmd = None"
    | s where "is_data (cmd_op cmd)" "hit_signer E rc cmd = Some s"
    | "\<not> is_data (cmd_op cmd)" by (cases "hit_signer E rc cmd") auto
  then show ?thesis
  proof cases
    case 1
    with that(2) Inr assms show ?thesis
      by (auto simp: hit_part_def validate_hit_def validate_command_def accepted_def)
  next
    case (2 s)
    with Inr assms have "s = root \<or> s \<in> ex"
      by (auto simp: hit_part_def validate_hit_def validate_command_def accepted_def Let_def split: if_splits)
    with 2 that(1) Inr assms(2) show ?thesis
      by (auto simp: hit_part_def validate_hit_def validate_command_def accepted_def Let_def)
  next
    case 3
    with Inr assms have "cmd_op cmd = Init"
      by (auto simp: hit_part_def validate_hit_def validate_command_def Let_def split: if_splits)
    with 3 that(2) Inr assms(2) show ?thesis
      by (auto simp: hit_part_def validate_hit_def validate_command_def Let_def)
  qed
qed

lemma honor_hit:
  assumes quiet: "va_warnings (hit_part E rc root ex tip m h) = []" and deep: "m \<le> (tip - rh_height h) + 1"
    and i: "rr_init r = Initialized" "\<not> rr_finalized r" and own: "insert root ex \<subseteq> owners (rr_auth r)"
    and reach: "list_all (in_reach r) (va_updates (hit_part E rc root ex tip m h))"
    and r': "r' = fst (honor E rc root (hit_entry E bt h) r)"
  shows "projection r' = fold take_update (va_updates (hit_part E rc root ex tip m h)) (projection r) \<and>
     rr_init r' = Initialized \<and> \<not> rr_finalized r' \<and> rr_auth r' = rr_auth r \<and>
     (\<forall>k. hw (rr_kv_versions r) k \<le> hw (rr_kv_versions r') k)"
  using quiet deep
proof (cases rule: quiet_hit)
  case (put cmd signer)
  have rec: "map_option (pubkey_bech32 E) (recover_memo_signer E cmd rc) = Some signer"
    using put(3) by (simp add: hit_signer_def recover_memo_signer_def)
  from reach have up: "unat (cmd_seq cmd) \<le> hw (rr_kv_versions r) (cmd_key cmd) + 256"
    "unat (cmd_seq cmd) < u64_max" by (simp_all add: put(5) in_reach_def)
  have win: "seq_in_window (cmd_op cmd) (cmd_key cmd) (cmd_seq cmd) (rr_kv_versions r) (rr_target_versions r) \<longleftrightarrow>
      hw (rr_kv_versions r) (cmd_key cmd) \<le> unat (cmd_seq cmd)"
    using up by (auto simp: window_data [OF put(2)])
  show ?thesis
  proof (cases "hw (rr_kv_versions r) (cmd_key cmd) \<le> unat (cmd_seq cmd)")
    case True
    have "signer \<in> owners (rr_auth r)" using put(4) own by auto
    with True win put(1,2) rec i have "admitted E rc root (hit_entry E bt h) r cmd signer"
      by (cases "cmd_op cmd") (simp_all add: admitted_def hit_entry_def decide_def)
    from honor_admitted [OF this] have e: "r' = r\<lparr>rr_state := (rr_state r)(cmd_key cmd \<mapsto>
          data_entry (cmd_op cmd) (cmd_value cmd) (txid_to_string E (rh_txid h)) (bt h)
            (entry_or_default (rr_state r) (cmd_key cmd))),
        rr_kv_versions := bump_hw (rr_kv_versions r) (cmd_key cmd) (cmd_seq cmd)\<rparr>"
      by (simp add: r' hit_entry_def apply_applied_data [OF put(2)])
    have b: "hw (bump_hw (rr_kv_versions r) (cmd_key cmd) (cmd_seq cmd)) =
        (hw (rr_kv_versions r))(cmd_key cmd := Suc (unat (cmd_seq cmd)))"
      using hw_bump [of "rr_kv_versions r" "cmd_key cmd" "cmd_seq cmd"] True up by simp
    from True i show ?thesis
      by (simp add: put(5) e b projection_def take_update_def confirmed_values_put)
  next
    case False
    have "\<nexists>cmd' signer'. admitted E rc root (hit_entry E bt h) r cmd' signer'"
      using False win put(1) by (auto simp: admitted_def hit_entry_def)
    from honor_not_admitted(1) [OF this] have "r' = r" by (simp add: r')
    with False i show ?thesis by (simp add: put(5) projection_def take_update_def)
  qed
next
  case ignored
  have "\<nexists>cmd signer. admitted E rc root (hit_entry E bt h) r cmd signer"
  proof (rule notI, elim exE)
    fix cmd signer assume a: "admitted E rc root (hit_entry E bt h) r cmd signer"
    then have "parse_text_memo_detailed E (rh_text h) = Ok cmd" by (simp add: admitted_def hit_entry_def)
    from ignored(2) [OF this] a i(1) show False
      by (auto simp: admitted_def hit_signer_def recover_memo_signer_def decide_def hit_entry_def Let_def
          split: if_splits)
  qed
  from honor_not_admitted(1) [OF this] have "r' = r" by (simp add: r')
  moreover have "fold take_update us s = s" if "list_all (\<lambda>u. \<not> su_verified u) us" for us s
    using that by (induction us) (simp_all add: take_update_def)
  ultimately show ?thesis using ignored(1) i by simp
qed

lemma honor_hits:
  assumes "\<forall>h \<in> List.set hs. va_warnings (hit_part E rc root ex tip m h) = [] \<and> m \<le> (tip - rh_height h) + 1 \<and>
      list_all (in_reach r) (va_updates (hit_part E rc root ex tip m h))"
    and "rr_init r = Initialized" and "\<not> rr_finalized r" and "insert root ex \<subseteq> owners (rr_auth r)"
  shows "projection (honor_all E rc root (map (hit_entry E bt) hs) r) =
     fold take_update (concat (map (\<lambda>h. va_updates (hit_part E rc root ex tip m h)) hs)) (projection r)"
  using assms
proof (induction hs arbitrary: r)
  case (Cons h hs)
  let ?r = "fst (honor E rc root (hit_entry E bt h) r)"
  from Cons.prems have "va_warnings (hit_part E rc root ex tip m h) = []" "m \<le> (tip - rh_height h) + 1"
    "list_all (in_reach r) (va_updates (hit_part E rc root ex tip m h))" by simp_all
  from honor_hit [OF this(1,2) Cons.prems(2-4) this(3) refl, of bt] have
    s: "projection ?r = fold take_update (va_updates (hit_part E rc root ex tip m h)) (projection r)"
      "rr_init ?r = Initialized" "\<not> rr_finalized ?r" "rr_auth ?r = rr_auth r"
      "\<forall>k. hw (rr_kv_versions r) k \<le> hw (rr_kv_versions ?r) k" by blast+
  have "in_reach ?r u" if "in_reach r u" for u
    using that s(5) by (auto simp: in_reach_def intro: order_trans add_right_mono)
  with Cons.prems s have "projection (honor_all E rc root (map (hit_entry E bt) hs) ?r) =
     fold take_update (concat (map (\<lambda>h. va_updates (hit_part E rc root ex tip m h)) hs)) (projection ?r)"
    by (intro Cons.IH) (auto simp: list_all_iff)
  with s(1) show ?case by simp
qed simp

section \<open>The update the replay settles on\<close>

text \<open>Of the verified updates of a key the first with the greatest sequence.\<close>

definition best_step :: "str \<Rightarrow> shallow_update option \<Rightarrow> shallow_update \<Rightarrow> shallow_update option" where
  "best_step k b u =
     (if su_verified u \<and> su_key u = k
      then (case b of None \<Rightarrow> Some u | Some w \<Rightarrow> if su_seq u \<le> su_seq w then b else Some u) else b)"

definition best :: "shallow_update list \<Rightarrow> str \<Rightarrow> shallow_update option" where
  "best us k = foldl (best_step k) None us"

lemma best_simps [simp]:
  "best [] k = None" "best (us @ [u]) k = best_step k (best us k) u"
  by (simp_all add: best_def)

lemma best_member:
  "best us k = Some b \<Longrightarrow> b \<in> List.set us \<and> su_verified b \<and> su_key b = k \<and>
     (\<forall>u \<in> List.set us. su_verified u \<and> su_key u = k \<longrightarrow> su_seq u \<le> su_seq b)"
proof (induction us arbitrary: b rule: rev_induct)
  case (snoc u us)
  show ?case
  proof (cases "best us k")
    case None
    then have "\<not> (su_verified w \<and> su_key w = k)" if "w \<in> List.set us" for w
      using that
    proof (induction us rule: rev_induct)
      case (snoc x us)
      then show ?case by (auto simp: best_step_def split: if_splits option.splits)
    qed simp
    with None snoc.prems show ?thesis by (auto simp: best_step_def split: if_splits)
  next
    case (Some w)
    with snoc.IH [OF Some] snoc.prems show ?thesis
      by (auto simp: best_step_def split: if_splits)
  qed
qed simp

lemma best_None: "best us k = None \<longleftrightarrow> last_verified us k = None"
  by (induction us rule: rev_induct) (auto simp: best_step_def last_verified_def split: option.splits list.splits)

text \<open>The counters and values after the updates, from counters that none of them is below.\<close>

lemma fold_take_best:
  assumes "\<forall>u \<in> List.set us. su_verified u \<longrightarrow> fst s (su_key u) \<le> unat (su_seq u)"
  shows "fst (fold take_update us s) k = (case best us k of None \<Rightarrow> fst s k | Some b \<Rightarrow> Suc (unat (su_seq b))) \<and>
     snd (fold take_update us s) k =
       (case best us k of None \<Rightarrow> snd s k | Some b \<Rightarrow> new_value (su_op b) (su_value b))"
  using assms
proof (induction us rule: rev_induct)
  case (snoc u us)
  then have IH: "fst (fold take_update us s) k = (case best us k of None \<Rightarrow> fst s k | Some b \<Rightarrow> Suc (unat (su_seq b)))"
     "snd (fold take_update us s) k =
       (case best us k of None \<Rightarrow> snd s k | Some b \<Rightarrow> new_value (su_op b) (su_value b))" by auto
  show ?case
  proof (cases "su_verified u \<and> su_key u = k")
    case True
    with snoc.prems have "fst s k \<le> unat (su_seq u)" by auto
    with True IH show ?thesis
      by (cases "best us k") (auto simp: best_step_def take_update_def [of u] word_le_nat_alt)
  next
    case False
    with IH show ?thesis by (auto simp: best_step_def take_update_def [of u])
  qed
qed simp

lemma max_seq_best: "map_of (max_seq_of us) k = map_option su_seq (best us k)"
proof (induction us rule: rev_induct)
  case (snoc u us)
  have "max_seq_of (us @ [u]) = (if su_verified u
      then bt_insert (su_key u) (max (unwrap_or (map_of (max_seq_of us) (su_key u)) (su_seq u)) (su_seq u)) (max_seq_of us)
      else max_seq_of us)" by (simp add: max_seq_of_def)
  with snoc show ?case
    by (cases "best us k") (auto simp: best_step_def max_def)
qed (simp add: max_seq_of_def)

lemma no_mismatch:
  assumes "mismatch_warnings (max_seq_of us) (latest_of us) = []" and "last_verified us k = Some w"
    and "best us k = Some b"
  shows "su_seq b \<le> su_seq w"
proof -
  from assms(2) have "(k, w) \<in> List.set (latest_of us)" using map_of_latest by (metis map_of_SomeD)
  with assms(1) have "\<not> su_seq w < unwrap_or (map_of (max_seq_of us) k) (su_seq w)"
    by (force simp: mismatch_warnings_def Let_def concat_eq_Nil_conv split: if_splits)
  with assms(3) show ?thesis by (simp add: max_seq_best not_less)
qed

lemma last_verified_member:
  "last_verified us k = Some w \<Longrightarrow> w \<in> List.set us \<and> su_verified w \<and> su_key w = k"
  by (induction us rule: rev_induct) (auto simp: last_verified_def split: if_splits)

lemma find_append: "List.find P (xs @ ys) = (case List.find P xs of None \<Rightarrow> List.find P ys | Some x \<Rightarrow> Some x)"
  by (induction xs) auto

abbreviation written_at :: "str \<Rightarrow> u64 \<Rightarrow> shallow_update \<Rightarrow> bool" where
  "written_at k seq u \<equiv> su_verified u \<and> su_key u = k \<and> su_seq u = seq"

lemma best_first:
  assumes "best us k = Some b"
  shows "List.find (written_at k (su_seq b)) us = Some b"
  using assms
proof (induction us arbitrary: b rule: rev_induct)
  case (snoc u us)
  show ?case
  proof (cases "best us k = Some b")
    case True
    with snoc.IH [OF True] show ?thesis by (simp add: find_append)
  next
    case False
    with snoc.prems have u: "b = u" "su_verified u" "su_key u = k"
      and up: "\<And>w. best us k = Some w \<Longrightarrow> su_seq w < su_seq u"
      by (auto simp: best_step_def not_le split: if_splits option.splits)
    have "\<not> written_at k (su_seq u) w" if "w \<in> List.set us" for w
    proof (cases "best us k")
      case None
      with that show ?thesis
        using best_None [of us k] by (auto simp: last_verified_def filter_empty_conv split: list.splits)
    next
      case (Some x)
      with best_member [OF Some] up [OF Some] that show ?thesis by fastforce
    qed
    then have "List.find (written_at k (su_seq u)) us = None" by (auto simp: find_None_iff)
    with u show ?thesis by (simp add: find_append)
  qed
qed simp


text \<open>Two writes of one key by the root, in blocks 5 and 6, with the sequence 0 both.\<close>

definition demo_hit :: "u32 \<Rightarrow> str \<Rightarrow> raw_hit" where
  "demo_hit h v = \<lparr>rh_height = h, rh_txid = [CHR ''t''], rh_output_index = 0, rh_text = demo_text Set ''k'' (Some v) 0\<rparr>"

lemma demo_hit_height [simp]: "rh_height (demo_hit h v) = h"
  by (simp add: demo_hit_def)

definition demo_update :: "u32 \<Rightarrow> str \<Rightarrow> u32 \<Rightarrow> shallow_update" where
  "demo_update h v confs =
     \<lparr>su_key = ''k'', su_value = Some v, su_op = Set, su_height = h, su_txid = txid_to_string model_crates [CHR ''t''],
      su_output_index = 0, su_seq = 0, su_signer = Some demo_root, su_verified = True,
      su_confirmations = confs, su_comment = None\<rparr>"

lemma demo_ok_hit: "demo_word v \<Longrightarrow> demo_ok Set ''k'' (Some v)"
  by (simp add: demo_ok_def demo_word_def value_arity_def plain_def byte_def)

lemma demo_hit_part:
  assumes "demo_word v" and "m \<le> (tip - h) + 1"
  shows "hit_part model_crates rc demo_root {} tip m (demo_hit h v) =
    push_update (demo_update h v ((tip - h) + 1)) validated_default"
proof -
  have "hit_signer model_crates rc (demo_command Set ''k'' (Some v) 0) = Some demo_root"
    using demo_recover [of Set "''k''" "Some v" 0 rc]
    by (simp add: hit_signer_def recover_memo_signer_def demo_root_def)
  then show ?thesis
    using assms demo_parse [OF demo_ok_hit [OF assms(1)], of 0]
    by (simp add: hit_part_def validate_hit_def validate_command_def demo_hit_def demo_update_def accepted_def Let_def)
qed

lemma demo_words: "demo_word ''v''" "demo_word ''w''"
  by (simp_all add: demo_word_def plain_def byte_def)


end
