(* ===== verification/Wallet_Config.thy ===== *)
theory Wallet_Config
  imports Wallet_Scan Write_Path
begin

text \<open>
  The network a database is bound to (\<open>network.rs\<close>) and the file \<open>keys.toml\<close> that
  describes it (\<open>config.rs\<close>): the labels of pools and engines, the struct the file
  serializes, and the checked reading of it. The TOML codec is third-party; what a file holds
  is the struct \<open>ConfigEncoding\<close> its parser returns.
\<close>

section \<open>Networks\<close>

datatype network = MainNet | TestNet | Regtest

definition network_parse :: "str \<Rightarrow> str + network" where
  "network_parse name =
    (if name = ''mainnet'' \<or> name = ''main'' then Ok MainNet
     else if name = ''testnet'' \<or> name = ''test'' then Ok TestNet
     else if name = ''regtest'' then Ok Regtest
     else Err (''Unsupported network: '' @ name))"

fun network_name :: "network \<Rightarrow> str" where
  "network_name MainNet = ''mainnet''"
| "network_name TestNet = ''testnet''"
| "network_name Regtest = ''regtest''"

fun ticker :: "network \<Rightarrow> str" where
  "ticker MainNet = ''ZEC''"
| "ticker TestNet = ''TAZ''"
| "ticker Regtest = ''TAZ''"

definition REGTEST_GENESIS_UPGRADES :: u32 where
  "REGTEST_GENESIS_UPGRADES = 1"

text \<open>
  \<open>activation_height(Sapling)\<close>: the heights of the two public networks are constants of the
  protocol crate, given by \<open>public\<close>.
\<close>

fun sapling_activation :: "(network \<Rightarrow> u32) \<Rightarrow> network \<Rightarrow> u32" where
  "sapling_activation public Regtest = REGTEST_GENESIS_UPGRADES"
| "sapling_activation public n = public n"

lemma network_parse_name [simp]: "network_parse (network_name n) = Ok n"
  by (cases n) (simp_all add: network_parse_def)

lemma network_name_inject [simp]: "network_name m = network_name n \<longleftrightarrow> m = n"
  by (cases m; cases n) simp_all

lemma network_name_plain: "list_all plain (network_name n)"
  by (cases n) (simp_all add: plain_def byte_def)

section \<open>Pools\<close>

text \<open>\<open>to_ascii_lowercase\<close> and \<open>to_ascii_uppercase\<close>.\<close>

definition ascii_lower :: "str \<Rightarrow> str" where
  "ascii_lower s =
    List.map (\<lambda>c. if 65 \<le> byte c \<and> byte c \<le> 90 then char_of (byte c + 32) else c) s"

definition ascii_upper :: "str \<Rightarrow> str" where
  "ascii_upper s =
    List.map (\<lambda>c. if 97 \<le> byte c \<and> byte c \<le> 122 then char_of (byte c - 32) else c) s"

definition parse_pool :: "str \<Rightarrow> str + shielded_pool" where
  "parse_pool s =
    (let l = ascii_lower (trim s) in
     if l = ''sapling'' then Ok Sapling
     else if l = ''orchard'' then Ok Orchard
     else if l = ''ironwood'' then Ok Ironwood
     else Err (''unknown pool '' @ l))"

definition ironwood_available :: "network \<Rightarrow> bool" where
  "ironwood_available n = True"

definition default_pool_for_network :: "network \<Rightarrow> shielded_pool" where
  "default_pool_for_network n = (if ironwood_available n then Ironwood else Orchard)"

datatype pool_error = IronwoodUnavailable | LegacyOrchard

definition resolve_pool_for_network ::
  "shielded_pool option \<Rightarrow> network \<Rightarrow> pool_error + shielded_pool" where
  "resolve_pool_for_network pool n =
    (let p = unwrap_or pool (default_pool_for_network n) in
     if p = Ironwood \<and> \<not> ironwood_available n then Err IronwoodUnavailable else Ok p)"

definition resolve_pool_for_new_database ::
  "shielded_pool option \<Rightarrow> network \<Rightarrow> pool_error + shielded_pool" where
  "resolve_pool_for_new_database pool n =
    try_ok (resolve_pool_for_network pool n) (\<lambda>p.
      if p = Orchard then Err LegacyOrchard else Ok p)"

definition ensure_pool_available :: "shielded_pool \<Rightarrow> network \<Rightarrow> pool_error + unit" where
  "ensure_pool_available p n =
    (if p = Ironwood \<and> \<not> ironwood_available n then Err IronwoodUnavailable else Ok ())"

definition ensure_pool_creatable :: "shielded_pool \<Rightarrow> pool_error + unit" where
  "ensure_pool_creatable p = (if p = Orchard then Err LegacyOrchard else Ok ())"

fun pool_label :: "shielded_pool \<Rightarrow> str" where
  "pool_label Sapling = ''sapling''"
| "pool_label Orchard = ''orchard''"
| "pool_label Ironwood = ''ironwood''"

definition pool_from_label :: "str option \<Rightarrow> shielded_pool" where
  "pool_from_label l =
    (if l = Some ''sapling'' then Sapling
     else if l = Some ''ironwood'' then Ironwood else Orchard)"

fun pool_encoding :: "shielded_pool \<Rightarrow> str option" where
  "pool_encoding Orchard = None"
| "pool_encoding p = Some (pool_label p)"

lemma pool_from_encoding [simp]: "pool_from_label (pool_encoding p) = p"
  by (cases p) (simp_all add: pool_from_label_def)

section \<open>Engines\<close>

datatype wallet_engine = Unset | Own | FleetPending | Fleet

fun engine_label :: "wallet_engine \<Rightarrow> str option" where
  "engine_label Unset = None"
| "engine_label Own = Some ''own''"
| "engine_label FleetPending = Some ''fleet-pending''"
| "engine_label Fleet = Some ''fleet''"

definition engine_from_label :: "str option \<Rightarrow> wallet_engine" where
  "engine_from_label l =
    (case l of None \<Rightarrow> Unset
     | Some s \<Rightarrow> if s = ''fleet'' then Fleet
                 else if s = ''fleet-pending'' then FleetPending else Own)"

definition is_fleet_member :: "wallet_engine \<Rightarrow> bool" where
  "is_fleet_member e = (e = Fleet)"

definition is_standalone :: "wallet_engine \<Rightarrow> bool" where
  "is_standalone e = (e = Unset \<or> e = Own)"

definition is_unset :: "wallet_engine \<Rightarrow> bool" where
  "is_unset e = (e = Unset)"

lemma engine_from_engine_label [simp]: "engine_from_label (engine_label e) = e"
  by (cases e) (simp_all add: engine_from_label_def)

lemma is_standalone_simps [simp]:
  "is_standalone Unset" "is_standalone Own" "\<not> is_standalone FleetPending" "\<not> is_standalone Fleet"
  by (simp_all add: is_standalone_def)

lemma is_fleet_member_simps [simp]:
  "\<not> is_fleet_member Unset" "\<not> is_fleet_member Own" "\<not> is_fleet_member FleetPending"
  "is_fleet_member Fleet"
  by (simp_all add: is_fleet_member_def)

section \<open>The configuration and its file\<close>

type_synonym path = "str list"

record config_encoding =
  ce_mnemonic :: "str option"
  ce_network :: "str option"
  ce_birthday :: "u32 option"
  ce_role :: "str option"
  ce_zkv_address :: "str option"
  ce_pool :: "str option"
  ce_ufvk :: "str option"
  ce_engine :: "str option"
  ce_shard :: "str option"

record wallet_config =
  wc_network :: network
  wc_role :: role
  wc_birthday :: u32
  wc_zkv_address :: "str option"
  wc_pool :: shielded_pool
  wc_ufvk :: "str option"
  wc_engine :: wallet_engine
  wc_shard :: "str option"
  wc_seed :: "str option"
  wc_dir :: path

datatype config_error = InvalidKeysFile | AdminInFleet | MemberWithoutKey

definition config_network :: "config_encoding \<Rightarrow> config_error + network" where
  "config_network cfg =
    (case ce_network cfg of None \<Rightarrow> Ok MainNet
     | Some n \<Rightarrow> (case network_parse (trim n) of Inl e \<Rightarrow> Err InvalidKeysFile | Inr m \<Rightarrow> Ok m))"

definition config_role :: "config_encoding \<Rightarrow> role" where
  "config_role cfg =
    (if ce_role cfg = Some ''watch'' then Watch
     else if ce_role cfg = None \<and> ce_mnemonic cfg = None then Watch else Admin)"

definition config_of_encoding ::
  "(network \<Rightarrow> u32) \<Rightarrow> path \<Rightarrow> config_encoding \<Rightarrow> config_error + wallet_config" where
  "config_of_encoding public dir cfg =
    try_ok (config_network cfg) (\<lambda>net.
      let birthday = (case ce_birthday cfg of Some b \<Rightarrow> b | None \<Rightarrow> sapling_activation public net);
          rl = config_role cfg;
          engine = engine_from_label (ce_engine cfg) in
      if \<not> is_standalone engine \<and> rl = Admin then Err AdminInFleet
      else if \<not> is_standalone engine \<and> ce_ufvk cfg = None \<and> ce_zkv_address cfg = None
      then Err MemberWithoutKey
      else Ok \<lparr>wc_network = net, wc_role = rl, wc_birthday = birthday,
               wc_zkv_address = ce_zkv_address cfg, wc_pool = pool_from_label (ce_pool cfg),
               wc_ufvk = ce_ufvk cfg, wc_engine = engine, wc_shard = ce_shard cfg,
               wc_seed = ce_mnemonic cfg, wc_dir = dir\<rparr>)"

definition to_encoding :: "wallet_config \<Rightarrow> config_encoding" where
  "to_encoding c =
    \<lparr>ce_mnemonic = wc_seed c, ce_network = Some (network_name (wc_network c)),
     ce_birthday = Some (wc_birthday c),
     ce_role = Some (case wc_role c of Admin \<Rightarrow> ''admin'' | Watch \<Rightarrow> ''watch''),
     ce_zkv_address = wc_zkv_address c, ce_pool = pool_encoding (wc_pool c),
     ce_ufvk = wc_ufvk c, ce_engine = engine_label (wc_engine c), ce_shard = wc_shard c\<rparr>"

text \<open>
  The configuration of no database, that the node of the shared scan carries.
\<close>

definition placeholder :: "(network \<Rightarrow> u32) \<Rightarrow> network \<Rightarrow> wallet_config" where
  "placeholder public net =
    \<lparr>wc_network = net, wc_role = Watch, wc_birthday = sapling_activation public net,
     wc_zkv_address = None, wc_pool = Orchard, wc_ufvk = None, wc_engine = Unset,
     wc_shard = None, wc_seed = None, wc_dir = []\<rparr>"

text \<open>The files of a new admin and of a new watch-only database.\<close>

definition admin_encoding :: "str \<Rightarrow> u32 \<Rightarrow> network \<Rightarrow> shielded_pool \<Rightarrow> config_encoding" where
  "admin_encoding ciphertext birthday net pool =
    \<lparr>ce_mnemonic = Some ciphertext, ce_network = Some (network_name net),
     ce_birthday = Some birthday, ce_role = Some ''admin'', ce_zkv_address = None,
     ce_pool = pool_encoding pool, ce_ufvk = None, ce_engine = None, ce_shard = None\<rparr>"

definition watch_encoding ::
  "u32 \<Rightarrow> network \<Rightarrow> str \<Rightarrow> shielded_pool \<Rightarrow> wallet_engine \<Rightarrow> str option \<Rightarrow> config_encoding" where
  "watch_encoding birthday net addr pool engine ufvk =
    \<lparr>ce_mnemonic = None, ce_network = Some (network_name net), ce_birthday = Some birthday,
     ce_role = Some ''watch'', ce_zkv_address = Some addr, ce_pool = pool_encoding pool,
     ce_ufvk = ufvk, ce_engine = engine_label engine, ce_shard = None\<rparr>"

text \<open>What \<open>set_engine\<close>, \<open>pin_ufvk\<close>, \<open>cache_shard\<close> and \<open>forget_shard\<close> make of the struct before it is written.\<close>

definition with_engine :: "wallet_engine \<Rightarrow> wallet_config \<Rightarrow> wallet_config" where
  "with_engine e c =
    (let c1 = c\<lparr>wc_engine := e\<rparr> in if is_standalone e then c1\<lparr>wc_shard := None\<rparr> else c1)"

definition with_ufvk :: "str \<Rightarrow> wallet_config \<Rightarrow> wallet_config" where
  "with_ufvk k c = c\<lparr>wc_ufvk := Some k\<rparr>"

definition with_shard :: "str option \<Rightarrow> wallet_config \<Rightarrow> wallet_config" where
  "with_shard sh c = c\<lparr>wc_shard := sh\<rparr>"

section \<open>The shape every accepted configuration has\<close>

text \<open>
  A configuration on the shared scan is watch-only and names its viewing key, or the address
  that holds it.
\<close>

definition config_ok :: "wallet_config \<Rightarrow> bool" where
  "config_ok c \<longleftrightarrow>
    (\<not> is_standalone (wc_engine c) \<longrightarrow>
      wc_role c = Watch \<and> (wc_ufvk c \<noteq> None \<or> wc_zkv_address c \<noteq> None))"

lemma config_of_encoding_ok:
  assumes "config_of_encoding public dir e = Ok c"
  shows "config_ok c" "wc_dir c = dir"
  using assms
  by (auto simp: config_of_encoding_def config_ok_def Let_def try_ok_Inr split: if_splits)
    (cases "config_role e"; simp)+

lemma config_network_to_encoding [simp]: "config_network (to_encoding c) = Ok (wc_network c)"
  by (simp add: config_network_def to_encoding_def trim_plain network_name_plain)

lemma config_role_to_encoding [simp]: "config_role (to_encoding c) = wc_role c"
  by (cases "wc_role c") (simp_all add: config_role_def to_encoding_def)

lemma to_encoding_read:
  assumes "config_ok c"
  shows "config_of_encoding public (wc_dir c) (to_encoding c) = Ok c"
proof -
  have "\<not> is_standalone (wc_engine c) \<longrightarrow> wc_role c \<noteq> Admin"
    and "\<not> is_standalone (wc_engine c) \<longrightarrow> wc_ufvk c \<noteq> None \<or> wc_zkv_address c \<noteq> None"
    using assms by (auto simp: config_ok_def)
  then show ?thesis
    by (cases c) (simp add: config_of_encoding_def Let_def, auto simp: to_encoding_def)
qed

lemma config_ok_with [intro]:
  "config_ok c \<Longrightarrow> config_ok (with_ufvk k c)"
  "config_ok c \<Longrightarrow> config_ok (with_shard sh c)"
  "is_standalone e \<Longrightarrow> config_ok (with_engine e c)"
  "wc_role c = Watch \<Longrightarrow> wc_ufvk c \<noteq> None \<Longrightarrow> config_ok (with_engine e c)"
  by (auto simp: config_ok_def with_ufvk_def with_shard_def with_engine_def Let_def)

lemma with_simps [simp]:
  "wc_engine (with_engine e c) = e" "wc_engine (with_ufvk k c) = wc_engine c"
  "wc_engine (with_shard sh c) = wc_engine c"
  "wc_ufvk (with_engine e c) = wc_ufvk c" "wc_ufvk (with_ufvk k c) = Some k"
  "wc_ufvk (with_shard sh c) = wc_ufvk c"
  "wc_network (with_engine e c) = wc_network c" "wc_network (with_ufvk k c) = wc_network c"
  "wc_network (with_shard sh c) = wc_network c"
  "wc_role (with_engine e c) = wc_role c" "wc_role (with_ufvk k c) = wc_role c"
  "wc_role (with_shard sh c) = wc_role c"
  "wc_dir (with_engine e c) = wc_dir c" "wc_dir (with_ufvk k c) = wc_dir c"
  "wc_dir (with_shard sh c) = wc_dir c"
  "wc_birthday (with_engine e c) = wc_birthday c" "wc_birthday (with_ufvk k c) = wc_birthday c"
  "wc_birthday (with_shard sh c) = wc_birthday c"
  by (simp_all add: with_engine_def with_ufvk_def with_shard_def Let_def)

end
