(* ===== verification/Data_Dir.thy ===== *)
theory Data_Dir
  imports Wallet_Config
begin

text \<open>
  The data directory (\<open>data.rs\<close>): its files, the names databases may have, the two layouts of
  a database's wallet files, the \<open>current\<close> marker, and the reading and writing of
  \<open>keys.toml\<close>.

  A path is the list of its components below the data directory; a file's content is what its
  parser returns, so that a torn \<open>keys.toml\<close> or manifest is a file without one. A wallet
  database is its accounts: for each account id what \<open>get_account\<close> returns, and the account's
  encoded viewing key if it has one. An operation that writes returns, beside its result, the
  trace of the states the disk goes through, one per change: a crash leaves the disk in the
  state before the operation or in one of the trace.
\<close>

section \<open>The disk\<close>

record manifest =
  mf_ufvk :: str
  mf_birthday :: u32

type_synonym wallet_accounts = "(bytes \<times> str option option) list"

datatype node =
    Dir
  | KeysFile "config_encoding option"
  | ManifestFile "manifest option"
  | WalletFile wallet_accounts
  | RawFile bytes

type_synonym disk = "(path \<times> node) list"

definition disk_get :: "disk \<Rightarrow> path \<Rightarrow> node option" where
  "disk_get s p = map_of s p"

definition disk_put :: "path \<Rightarrow> node \<Rightarrow> disk \<Rightarrow> disk" where
  "disk_put p n s = (p, n) # filter (\<lambda>e. fst e \<noteq> p) s"

definition disk_del :: "path \<Rightarrow> disk \<Rightarrow> disk" where
  "disk_del p s = filter (\<lambda>e. fst e \<noteq> p) s"

text \<open>\<open>remove_dir_all\<close>: the directory and everything below it.\<close>

definition under :: "path \<Rightarrow> path \<Rightarrow> bool" where
  "under d p = (take (length d) p = d)"

definition disk_del_all :: "path \<Rightarrow> disk \<Rightarrow> disk" where
  "disk_del_all d s = filter (\<lambda>e. \<not> under d (fst e)) s"

definition path_exists :: "disk \<Rightarrow> path \<Rightarrow> bool" where
  "path_exists s p = (disk_get s p \<noteq> None)"

definition path_is_dir :: "disk \<Rightarrow> path \<Rightarrow> bool" where
  "path_is_dir s p = (disk_get s p = Some Dir)"

definition path_is_file :: "disk \<Rightarrow> path \<Rightarrow> bool" where
  "path_is_file s p = (path_exists s p \<and> \<not> path_is_dir s p)"

lemma map_of_filter_key: "map_of (filter (\<lambda>e. Q (fst e)) s) p = (if Q p then map_of s p else None)"
  by (induction s) auto

lemma disk_get_Nil [simp]: "disk_get [] p = None"
  by (simp add: disk_get_def)

lemma disk_get_put [simp]: "disk_get (disk_put p n s) q = (if q = p then Some n else disk_get s q)"
  using map_of_filter_key [of "\<lambda>q. q \<noteq> p" s q] by (simp add: disk_get_def disk_put_def)

lemma disk_get_del [simp]: "disk_get (disk_del p s) q = (if q = p then None else disk_get s q)"
  using map_of_filter_key [of "\<lambda>q. q \<noteq> p" s q] by (simp add: disk_get_def disk_del_def)

lemma disk_get_del_all [simp]:
  "disk_get (disk_del_all d s) q = (if under d q then None else disk_get s q)"
  using map_of_filter_key [of "\<lambda>q. \<not> under d q" s q] by (simp add: disk_get_def disk_del_all_def)

section \<open>Operations and the states they pass through\<close>

datatype name_error = EmptyName | LongName | BadCharacter | ReservedName | DeviceName

datatype data_error =
    InvalidName name_error | NoDatabase str | NotToml path | BadConfig config_error
  | FileExists path | NotAFile path | BothLayouts | NoViewingKey | NoStoredAddress | BadAddress str
  | TornManifest path | CannotOpenWallet path | NotInShardYet str | NoAccount str
  | ServedByFleet str | ImportPending str | NoCurrent | BadMarker | AddressMissing
  | HoldsSpendingKey str | ReservedForEngine | AlreadyImported str | Upstream str
  | PoolRefused pool_error | InvalidPhrase str | Underivable str

type_synonym 'a io = "disk \<Rightarrow> disk list \<times> (data_error + 'a)"

definition io_return :: "'a \<Rightarrow> 'a io" where
  "io_return x = (\<lambda>s. ([], Ok x))"

definition io_fail :: "data_error \<Rightarrow> 'a io" where
  "io_fail e = (\<lambda>s. ([], Err e))"

text \<open>A look at the disk, and one change of it.\<close>

definition io_look :: "(disk \<Rightarrow> data_error + 'a) \<Rightarrow> 'a io" where
  "io_look f = (\<lambda>s. ([], f s))"

definition io_change :: "(disk \<Rightarrow> disk) \<Rightarrow> unit io" where
  "io_change f = (\<lambda>s. ([f s], Ok ()))"

definition io_final :: "'a io \<Rightarrow> disk \<Rightarrow> disk" where
  "io_final m s = last (s # fst (m s))"

definition io_result :: "'a io \<Rightarrow> disk \<Rightarrow> data_error + 'a" where
  "io_result m s = snd (m s)"

text \<open>The \<open>?\<close> after an operation: the next one runs on the disk the first leaves.\<close>

definition io_bind :: "'a io \<Rightarrow> ('a \<Rightarrow> 'b io) \<Rightarrow> 'b io" where
  "io_bind m k = (\<lambda>s.
    case snd (m s) of
      Inl e \<Rightarrow> (fst (m s), Err e)
    | Inr x \<Rightarrow> (let s1 = last (s # fst (m s)) in (fst (m s) @ fst (k x s1), snd (k x s1))))"

text \<open>An operation whose failure the code matches on instead of passing it up.\<close>

definition io_try :: "'a io \<Rightarrow> (data_error + 'a) io" where
  "io_try m = (\<lambda>s. (fst (m s), Ok (snd (m s))))"

definition io_when :: "bool \<Rightarrow> unit io \<Rightarrow> unit io" where
  "io_when b m = (if b then m else io_return ())"

definition io_of :: "data_error + 'a \<Rightarrow> 'a io" where
  "io_of r = (\<lambda>s. ([], r))"

text \<open>The states a crash can leave: the first one and those of the trace.\<close>

definition crash_states :: "'a io \<Rightarrow> disk \<Rightarrow> disk set" where
  "crash_states m s = List.set (s # fst (m s))"

lemma io_apply [simp]:
  "io_return x s = ([], Ok x)" "io_fail e s = ([], Err e)" "io_look f s = ([], f s)"
  "io_change g s = ([g s], Ok ())" "io_of r s = ([], r)"
  by (simp_all add: io_return_def io_fail_def io_look_def io_change_def io_of_def)

lemma io_when_simps [simp]: "io_when True m = m" "io_when False m = io_return ()"
  by (simp_all add: io_when_def)

lemma io_bind_Ok: "m s = (t, Ok x) \<Longrightarrow> io_bind m k s = (t @ fst (k x (last (s # t))), snd (k x (last (s # t))))"
  by (simp add: io_bind_def Let_def)

lemma io_bind_run:
  assumes "m s = (t, Ok x)" "k x (last (s # t)) = (t1, r)"
  shows "io_bind m k s = (t @ t1, r)"
  using assms io_bind_Ok [of m s t x k] by (simp del: last.simps)

lemma io_bind_Err: "m s = (t, Err e) \<Longrightarrow> io_bind m k s = (t, Err e)"
  by (simp add: io_bind_def)

lemma io_bind_quiet [simp]:
  "io_bind (io_return x) k = k x"
  "io_bind (io_fail e) k = io_fail e"
  "io_bind (io_of (Inr x)) k = k x"
  "io_bind (io_of (Inl e)) k = io_fail e"
  by (simp_all add: io_bind_def io_return_def io_fail_def io_of_def fun_eq_iff)

lemma io_bind_look: "io_bind (io_look f) k s = (case f s of Inl e \<Rightarrow> ([], Err e) | Inr x \<Rightarrow> k x s)"
  by (simp add: io_bind_def split: sum.splits)

lemma io_bind_change: "io_bind (io_change f) k s = (f s # fst (k () (f s)), snd (k () (f s)))"
  by (simp add: io_bind_def Let_def)

lemma io_bind_try: "io_bind (io_try m) k s =
    (fst (m s) @ fst (k (snd (m s)) (last (s # fst (m s)))), snd (k (snd (m s)) (last (s # fst (m s)))))"
  by (simp add: io_bind_def io_try_def Let_def)

text \<open>Result and final state of a sequence that succeeds.\<close>

lemma io_result_bind:
  "io_result (io_bind m k) s = Ok y \<longleftrightarrow> (\<exists>x. io_result m s = Ok x \<and> io_result (k x) (io_final m s) = Ok y)"
  by (auto simp: io_result_def io_final_def io_bind_def Let_def split: sum.splits)

lemma io_final_bind: "io_result m s = Ok x \<Longrightarrow> io_final (io_bind m k) s = io_final (k x) (io_final m s)"
  by (auto simp: io_result_def io_final_def io_bind_def Let_def)

lemma io_final_quiet [simp]:
  "io_final (io_return x) s = s" "io_final (io_fail e) s = s" "io_final (io_look f) s = s"
  "io_final (io_of r) s = s" "io_final (io_change g) s = g s"
  "io_result (io_return x) s = Ok x" "io_result (io_fail e) s = Err e" "io_result (io_look f) s = f s"
  "io_result (io_of r) s = r" "io_result (io_change g) s = Ok ()"
  by (simp_all add: io_final_def io_result_def)

text \<open>An invariant of the disk that every change of an operation keeps.\<close>

definition io_keeps :: "(disk \<Rightarrow> bool) \<Rightarrow> 'a io \<Rightarrow> bool" where
  "io_keeps P m \<longleftrightarrow> (\<forall>s. P s \<longrightarrow> (\<forall>s' \<in> List.set (fst (m s)). P s'))"

lemma io_keeps_quiet [intro]:
  "io_keeps P (io_return x)" "io_keeps P (io_fail e)" "io_keeps P (io_look f)" "io_keeps P (io_of r)"
  by (simp_all add: io_keeps_def)

lemma io_keeps_change: "(\<And>s. P s \<Longrightarrow> P (f s)) \<Longrightarrow> io_keeps P (io_change f)"
  by (simp add: io_keeps_def)

lemma io_keeps_last: "io_keeps P m \<Longrightarrow> P s \<Longrightarrow> P (last (s # fst (m s)))"
  by (auto simp: io_keeps_def)

lemma io_keeps_bind:
  assumes "io_keeps P m" "\<And>x. io_keeps P (k x)"
  shows "io_keeps P (io_bind m k)"
  unfolding io_keeps_def
proof (intro allI impI ballI)
  fix s s' assume "P s" and s': "s' \<in> List.set (fst (io_bind m k s))"
  then have m: "\<forall>s' \<in> List.set (fst (m s)). P s'" and l: "P (last (s # fst (m s)))"
    using assms(1) by (auto simp: io_keeps_def)
  from s' show "P s'"
  proof (cases "snd (m s)")
    case (Inl e)
    with s' m show ?thesis by (simp add: io_bind_def)
  next
    case (Inr x)
    from assms(2) [of x] l
    have "\<forall>s' \<in> List.set (fst (k x (last (s # fst (m s))))). P s'" by (auto simp: io_keeps_def)
    with s' m Inr show ?thesis by (auto simp: io_bind_def Let_def)
  qed
qed

lemma io_keeps_try [intro]: "io_keeps P m \<Longrightarrow> io_keeps P (io_try m)"
  by (simp add: io_keeps_def io_try_def)

lemma io_keeps_when [intro]: "io_keeps P m \<Longrightarrow> io_keeps P (io_when b m)"
  by (cases b) auto

lemma io_keeps_crash: "io_keeps P m \<Longrightarrow> P s \<Longrightarrow> \<forall>s' \<in> crash_states m s. P s'"
  by (simp add: io_keeps_def crash_states_def)

section \<open>Names and directories\<close>

abbreviation (input) DATA_DB :: str where "DATA_DB \<equiv> ''data.sqlite''"
abbreviation (input) BLOCKMETA_DB :: str where "BLOCKMETA_DB \<equiv> ''blockmeta.sqlite''"
abbreviation (input) BLOCKS_FOLDER :: str where "BLOCKS_FOLDER \<equiv> ''blocks''"
abbreviation (input) ZKV_STATE_DB :: str where "ZKV_STATE_DB \<equiv> ''zkv_state.sqlite''"
abbreviation (input) KEYS_FILE :: str where "KEYS_FILE \<equiv> ''keys.toml''"
abbreviation (input) CURRENT_MARKER :: str where "CURRENT_MARKER \<equiv> ''current''"
abbreviation (input) ONBOARDED_MARKER :: str where "ONBOARDED_MARKER \<equiv> ''.onboarded''"
abbreviation (input) ENGINE_COIN_DIR :: str where "ENGINE_COIN_DIR \<equiv> ''zec''"
abbreviation (input) ENGINE_STORAGE_DIR :: str where "ENGINE_STORAGE_DIR \<equiv> ''lrz''"

definition name_char :: "char \<Rightarrow> bool" where
  "name_char c \<longleftrightarrow>
    (48 \<le> byte c \<and> byte c \<le> 57) \<or> (65 \<le> byte c \<and> byte c \<le> 90) \<or> (97 \<le> byte c \<and> byte c \<le> 122)
    \<or> c = CHR ''-'' \<or> c = CHR ''_''"

definition device_names :: "str list" where
  "device_names =
    [''CON'', ''PRN'', ''AUX'', ''NUL'', ''COM1'', ''COM2'', ''COM3'', ''COM4'', ''COM5'',
     ''COM6'', ''COM7'', ''COM8'', ''COM9'', ''LPT1'', ''LPT2'', ''LPT3'', ''LPT4'', ''LPT5'',
     ''LPT6'', ''LPT7'', ''LPT8'', ''LPT9'']"

definition validate_db_name :: "str \<Rightarrow> data_error + unit" where
  "validate_db_name name =
    (if name = [] then Err (InvalidName EmptyName)
     else if 24 < length name then Err (InvalidName LongName)
     else if \<not> list_all name_char name then Err (InvalidName BadCharacter)
     else if name = ''current'' then Err (InvalidName ReservedName)
     else if List.member device_names (ascii_upper name) then Err (InvalidName DeviceName)
     else Ok ())"

definition db_dir :: "str \<Rightarrow> data_error + path" where
  "db_dir name = try_ok (validate_db_name name) (\<lambda>_. Ok [name])"

definition create_private_dir :: "path \<Rightarrow> unit io" where
  "create_private_dir p = io_bind (io_look (\<lambda>s. Ok (path_exists s p))) (\<lambda>there.
    io_when (\<not> there) (io_change (disk_put p Dir)))"

definition ensure_db_dir :: "str \<Rightarrow> path io" where
  "ensure_db_dir name = io_bind (io_of (db_dir name)) (\<lambda>p.
    io_bind (create_private_dir p) (\<lambda>_. io_return p))"

lemma validate_db_name_Ok:
  assumes "validate_db_name name = Ok ()"
  shows "name \<noteq> []" "length name \<le> 24" "list_all name_char name" "name \<noteq> CURRENT_MARKER"
  using assms by (auto simp: validate_db_name_def split: if_splits)

lemma valid_name_no_dot:
  assumes "validate_db_name name = Ok ()"
  shows "CHR ''.'' \<notin> List.set name" "CHR ''/'' \<notin> List.set name"
  using validate_db_name_Ok(3) [OF assms] by (auto simp: list_all_iff name_char_def byte_def)

lemma db_dir_Ok: "db_dir name = Ok p \<longleftrightarrow> validate_db_name name = Ok () \<and> p = [name]"
  by (auto simp: db_dir_def try_ok_Inr)

section \<open>The wallet files of a database\<close>

definition nested_engine_dir :: "path \<Rightarrow> path" where
  "nested_engine_dir root = root @ [ENGINE_COIN_DIR, ENGINE_STORAGE_DIR]"

definition engine_dir_in :: "disk \<Rightarrow> path \<Rightarrow> data_error + path" where
  "engine_dir_in s root =
    (let nested = nested_engine_dir root;
         at_root = path_is_file s (root @ [DATA_DB]);
         at_nested = path_is_file s (nested @ [DATA_DB]) in
     if at_root \<and> at_nested then Err BothLayouts
     else if at_nested then Ok nested else Ok root)"

definition engine_dir :: "disk \<Rightarrow> str \<Rightarrow> data_error + path" where
  "engine_dir s name = try_ok (db_dir name) (engine_dir_in s)"

section \<open>The configuration file on disk\<close>

definition read_at :: "(network \<Rightarrow> u32) \<Rightarrow> disk \<Rightarrow> path \<Rightarrow> data_error + wallet_config" where
  "read_at public s dir =
    (case disk_get s (dir @ [KEYS_FILE]) of
       Some (KeysFile (Some e)) \<Rightarrow>
         (case config_of_encoding public dir e of Inl x \<Rightarrow> Err (BadConfig x) | Inr c \<Rightarrow> Ok c)
     | _ \<Rightarrow> Err (NotToml (dir @ [KEYS_FILE])))"

definition read_config :: "(network \<Rightarrow> u32) \<Rightarrow> disk \<Rightarrow> str \<Rightarrow> data_error + wallet_config" where
  "read_config public s name =
    try_ok (db_dir name) (\<lambda>dir.
      if \<not> path_exists s (dir @ [KEYS_FILE]) then Err (NoDatabase name) else read_at public s dir)"

text \<open>
  \<open>write_config\<close> refuses to replace a file; it is created empty and then written. An empty
  file is a table without keys, and every field of the struct is optional: it parses.
\<close>

definition empty_encoding :: config_encoding where
  "empty_encoding =
    \<lparr>ce_mnemonic = None, ce_network = None, ce_birthday = None, ce_role = None,
     ce_zkv_address = None, ce_pool = None, ce_ufvk = None, ce_engine = None, ce_shard = None\<rparr>"

definition write_config :: "path \<Rightarrow> config_encoding \<Rightarrow> unit io" where
  "write_config dir cfg =
    (let p = dir @ [KEYS_FILE] in
     io_bind (io_look (\<lambda>s. if path_exists s p then Err (FileExists p) else Ok ())) (\<lambda>_.
     io_bind (io_change (disk_put p (KeysFile (Some empty_encoding)))) (\<lambda>_.
     io_change (disk_put p (KeysFile (Some cfg))))))"

text \<open>
  \<open>rewrite_config\<close> writes a sibling file and renames it over the old one; \<open>pid\<close> is the
  process id in the sibling's name.
\<close>

definition rewrite_tmp :: "nat \<Rightarrow> path \<Rightarrow> path" where
  "rewrite_tmp pid dir = dir @ [KEYS_FILE @ ''.tmp'' @ dec pid]"

definition rewrite_config :: "nat \<Rightarrow> path \<Rightarrow> config_encoding \<Rightarrow> unit io" where
  "rewrite_config pid dir cfg =
    (let p = dir @ [KEYS_FILE]; tmp = rewrite_tmp pid dir in
     io_bind (io_change (disk_del tmp)) (\<lambda>_.
     io_bind (io_change (disk_put tmp (KeysFile (Some empty_encoding)))) (\<lambda>_.
     io_bind (io_change (disk_put tmp (KeysFile (Some cfg)))) (\<lambda>_.
     io_change (\<lambda>s. disk_put p (KeysFile (Some cfg)) (disk_del tmp s))))))"

definition set_engine :: "nat \<Rightarrow> wallet_engine \<Rightarrow> wallet_config \<Rightarrow> wallet_config io" where
  "set_engine pid e c =
    (let c1 = with_engine e c in
     io_bind (rewrite_config pid (wc_dir c) (to_encoding c1)) (\<lambda>_. io_return c1))"

definition pin_ufvk :: "nat \<Rightarrow> str \<Rightarrow> wallet_config \<Rightarrow> wallet_config io" where
  "pin_ufvk pid k c =
    (let c1 = with_ufvk k c in
     io_bind (rewrite_config pid (wc_dir c) (to_encoding c1)) (\<lambda>_. io_return c1))"

definition forget_shard :: "nat \<Rightarrow> wallet_config \<Rightarrow> wallet_config io" where
  "forget_shard pid c =
    (if wc_shard c = None then io_return c
     else (let c1 = with_shard None c in
           io_bind (rewrite_config pid (wc_dir c) (to_encoding c1)) (\<lambda>_. io_return c1)))"

definition cache_shard :: "nat \<Rightarrow> str \<Rightarrow> wallet_config \<Rightarrow> wallet_config io" where
  "cache_shard pid shard c =
    (if wc_shard c = Some shard then io_return c
     else (let c1 = with_shard (Some shard) c in
           io_bind (rewrite_config pid (wc_dir c) (to_encoding c1)) (\<lambda>_. io_return c1)))"

section \<open>The databases and the current one\<close>

definition current_db :: "disk \<Rightarrow> data_error + str option" where
  "current_db s =
    (case disk_get s [CURRENT_MARKER] of
       None \<Rightarrow> Ok None
     | Some (RawFile b) \<Rightarrow>
         if \<not> utf8_valid b then Err BadMarker
         else (let name = trim b in
               if name = [] then Ok None
               else (case validate_db_name name of Inl e \<Rightarrow> Err BadMarker | Inr _ \<Rightarrow> Ok (Some name)))
     | Some _ \<Rightarrow> Err BadMarker)"

definition set_current_db :: "str \<Rightarrow> unit io" where
  "set_current_db name = io_bind (io_of (validate_db_name name)) (\<lambda>_.
    io_change (disk_put [CURRENT_MARKER] (RawFile name)))"

definition set_current_db_if_unset :: "str \<Rightarrow> unit io" where
  "set_current_db_if_unset name = io_bind (io_look current_db) (\<lambda>cur.
    io_when (cur = None) (set_current_db name))"

definition was_onboarded :: "disk \<Rightarrow> bool" where
  "was_onboarded s = path_exists s [ONBOARDED_MARKER]"

definition mark_onboarded :: "unit io" where
  "mark_onboarded = io_change (disk_put [ONBOARDED_MARKER] (RawFile []))"

definition resolve_db :: "str option \<Rightarrow> disk \<Rightarrow> data_error + str" where
  "resolve_db explicit s =
    (case explicit of
       Some name \<Rightarrow> Ok name
     | None \<Rightarrow> try_ok (current_db s) (\<lambda>cur. ok_or NoCurrent cur))"

definition list_dbs :: "disk \<Rightarrow> str list" where
  "list_dbs s =
    sort [hd p. (p, n) \<leftarrow> s, length p = 1, n = Dir, utf8_valid (hd p),
                take 1 (hd p) \<noteq> ''.'', path_exists s [hd p, KEYS_FILE]]"

lemma list_dbs_iff:
  "name \<in> List.set (list_dbs s) \<longleftrightarrow>
    (\<exists>n. ([name], n) \<in> List.set s \<and> n = Dir) \<and> utf8_valid name \<and> take 1 name \<noteq> ''.''
    \<and> path_exists s [name, KEYS_FILE]"
proof -
  have eq: "List.set (list_dbs s) =
      {hd p | p n. (p, n) \<in> List.set s \<and> length p = 1 \<and> n = Dir \<and> utf8_valid (hd p)
        \<and> take 1 (hd p) \<noteq> ''.'' \<and> path_exists s [hd p, KEYS_FILE]}"
    unfolding list_dbs_def set_sort by (force simp: set_concat)
  show ?thesis
    unfolding eq by (auto simp: length_Suc_conv intro!: exI [of _ "[name]"])
qed

section \<open>Where the data directory is\<close>

text \<open>
  \<open>default_data_dir_from\<close>: the environment variable the directory starts from, and the
  components joined to it.
\<close>

definition present :: "str option \<Rightarrow> str option" where
  "present v = (case v of Some s \<Rightarrow> if s = [] then None else Some s | None \<Rightarrow> None)"

definition default_data_dir_from ::
  "bool \<Rightarrow> bool \<Rightarrow> str option \<Rightarrow> str option \<Rightarrow> str option \<Rightarrow> str + str \<times> str list" where
  "default_data_dir_from windows macos appdata userprofile home =
    (if windows then
       (case present appdata of
          Some a \<Rightarrow> Ok (a, [''zkv''])
        | None \<Rightarrow>
            (case present userprofile of
               None \<Rightarrow> Err ''neither APPDATA nor USERPROFILE''
             | Some p \<Rightarrow> Ok (p, [''.zkv''])))
     else
       (case present home of
          None \<Rightarrow> Err ''HOME is not set''
        | Some h \<Rightarrow>
            if macos then Ok (h, [''Library'', ''Application Support'', ''zkv'']) else Ok (h, [''.zkv''])))"

end
