(* ===== verification/Fleet.thy ===== *)
theory Fleet
  imports Data_Dir
begin

text \<open>
  The shared scan's files (\<open>fleet.rs\<close>): the shard directories, the manifests, and the lookup
  that turns a database into the wallet file its reads open, with the account picked in that
  file (\<open>internal/account.rs\<close>).
\<close>

section \<open>Shards\<close>

abbreviation (input) FLEET_DIR :: str where "FLEET_DIR \<equiv> ''.fleet''"
abbreviation (input) MANIFEST_DIR :: str where "MANIFEST_DIR \<equiv> ''wallets.d''"
abbreviation (input) SHARDS_DIR :: str where "SHARDS_DIR \<equiv> ''shards''"
abbreviation (input) FLEET_DEFAULT_OFF :: str where "FLEET_DEFAULT_OFF \<equiv> ''.fleet-default-off''"

definition shard_dir_name :: "nat \<Rightarrow> str" where
  "shard_dir_name i = ''shard-'' @ replicate (4 - length (dec i)) (CHR ''0'') @ dec i"

definition fleet_dir :: "network \<Rightarrow> path" where
  "fleet_dir n = [FLEET_DIR, network_name n]"

definition manifest_dir :: "network \<Rightarrow> path" where
  "manifest_dir n = fleet_dir n @ [MANIFEST_DIR]"

definition shards_dir :: "network \<Rightarrow> path" where
  "shards_dir n = fleet_dir n @ [SHARDS_DIR]"

text \<open>
  The loop over \<open>0..\<close> ends at the first name that is no directory; a disk has finitely many
  entries, and one more than their number is fuel enough.
\<close>

fun shard_dirs_from :: "nat \<Rightarrow> disk \<Rightarrow> path \<Rightarrow> nat \<Rightarrow> path list" where
  "shard_dirs_from 0 s root i = []"
| "shard_dirs_from (Suc fuel) s root i =
    (let dir = root @ [shard_dir_name i] in
     if \<not> path_is_dir s dir then [] else dir # shard_dirs_from fuel s root (Suc i))"

definition existing_shard_dirs_in :: "disk \<Rightarrow> path \<Rightarrow> path list" where
  "existing_shard_dirs_in s root = shard_dirs_from (Suc (length s)) s root 0"

text \<open>Upstream's place of a shard's wallet files: the engine segment below the shard.\<close>

definition shard_engine_dir :: "path \<Rightarrow> path" where
  "shard_engine_dir d = d @ [ENGINE_STORAGE_DIR]"

section \<open>Manifests\<close>

definition manifest_path_in :: "path \<Rightarrow> str \<Rightarrow> path" where
  "manifest_path_in dir name = dir @ [name @ ''.toml'']"

definition manifest_path :: "network \<Rightarrow> str \<Rightarrow> path" where
  "manifest_path n name = manifest_path_in (manifest_dir n) name"

definition read_manifest_at :: "disk \<Rightarrow> path \<Rightarrow> data_error + manifest option" where
  "read_manifest_at s p =
    (case disk_get s p of
       None \<Rightarrow> Ok None
     | Some (ManifestFile (Some m)) \<Rightarrow> Ok (Some m)
     | Some _ \<Rightarrow> Err (TornManifest p))"

definition read_manifest :: "disk \<Rightarrow> network \<Rightarrow> str \<Rightarrow> data_error + manifest option" where
  "read_manifest s n name = read_manifest_at s (manifest_path n name)"

text \<open>\<open>remove_file\<close> fails on a directory; a missing file is success here.\<close>

definition remove_manifest :: "network \<Rightarrow> str \<Rightarrow> unit io" where
  "remove_manifest n name =
    (let p = manifest_path n name in
     io_bind (io_look (\<lambda>s. if path_is_dir s p then Err (NotAFile p) else Ok (path_exists s p)))
       (\<lambda>there. io_when there (io_change (disk_del p))))"

definition manifest_for :: "wallet_config \<Rightarrow> data_error + manifest" where
  "manifest_for c =
    try_ok (ok_or NoViewingKey (wc_ufvk c)) (\<lambda>k. Ok \<lparr>mf_ufvk = k, mf_birthday = wc_birthday c\<rparr>)"

section \<open>Accounts\<close>

text \<open>
  \<open>open_wallet_db\<close> opens a wallet database, creating an empty one where the file is missing;
  it fails where the directory is. Only the accounts matter here.
\<close>

definition open_wallet_db :: "disk \<Rightarrow> path \<Rightarrow> data_error + wallet_accounts" where
  "open_wallet_db s dir =
    (case disk_get s (dir @ [DATA_DB]) of
       Some (WalletFile a) \<Rightarrow> Ok a
     | Some _ \<Rightarrow> Err (CannotOpenWallet (dir @ [DATA_DB]))
     | None \<Rightarrow> if path_is_dir s dir then Ok [] else Err (CannotOpenWallet (dir @ [DATA_DB])))"

text \<open>The account whose viewing key encodes to \<open>want\<close>, the first in the order of the ids.\<close>

fun account_with_key :: "wallet_accounts \<Rightarrow> str \<Rightarrow> bytes option" where
  "account_with_key [] want = None"
| "account_with_key ((i, acct) # rest) want =
    (case acct of
       Some (Some k) \<Rightarrow> if k = want then Some i else account_with_key rest want
     | _ \<Rightarrow> account_with_key rest want)"

definition account_in_shard :: "disk \<Rightarrow> path \<Rightarrow> str \<Rightarrow> data_error + bytes option" where
  "account_in_shard s shard want =
    try_ok (open_wallet_db s (shard_engine_dir shard)) (\<lambda>a. Ok (account_with_key a want))"

text \<open>\<open>select_account\<close> on the accounts of an opened wallet database.\<close>

definition select_account :: "wallet_accounts \<Rightarrow> wallet_config \<Rightarrow> str \<Rightarrow> data_error + bytes" where
  "select_account accts c name =
    (let first = (case accts of [] \<Rightarrow> Err (NoAccount name) | (i, _) # _ \<Rightarrow> Ok i) in
     case wc_ufvk c of
       None \<Rightarrow> first
     | Some want \<Rightarrow>
         (case account_with_key accts want of
            Some i \<Rightarrow> Ok i
          | None \<Rightarrow> if is_fleet_member (wc_engine c) then Err (NotInShardYet name) else first))"

section \<open>Finding a member\<close>

fun position :: "('a \<Rightarrow> bool) \<Rightarrow> 'a list \<Rightarrow> nat option" where
  "position P [] = None"
| "position P (x # xs) = (if P x then Some 0 else map_option Suc (position P xs))"

definition swap_front :: "nat \<Rightarrow> 'a list \<Rightarrow> 'a list" where
  "swap_front i xs = xs[0 := xs ! i, i := xs ! 0]"

fun search_in :: "disk \<Rightarrow> str \<Rightarrow> path list \<Rightarrow> data_error + (path \<times> bytes) option" where
  "search_in s want [] = Ok None"
| "search_in s want (d # ds) =
    try_ok (account_in_shard s d want) (\<lambda>found.
      case found of Some uuid \<Rightarrow> Ok (Some (d, uuid)) | None \<Rightarrow> search_in s want ds)"

definition hinted_order :: "path list \<Rightarrow> str option \<Rightarrow> path list" where
  "hinted_order shards cached =
    (case cached of
       None \<Rightarrow> shards
     | Some c \<Rightarrow>
         (case position (\<lambda>d. d \<noteq> [] \<and> last d = c) shards of
            None \<Rightarrow> shards
          | Some pos \<Rightarrow> swap_front pos shards))"

definition search_shards ::
  "disk \<Rightarrow> path list \<Rightarrow> str \<Rightarrow> str option \<Rightarrow> data_error + (path \<times> bytes) option" where
  "search_shards s shards want cached = search_in s want (hinted_order shards cached)"

text \<open>
  What the model takes from outside the repository: the public networks' activation heights,
  the process id, the reading of a \<open>zkv1\<close> address (its network, pool and birthday, and its
  viewing key's encoding for a network), the engine's manifest writer, the wallet's account
  import, and the chain's answer to \<open>pinned_birthday\<close>.
\<close>

record parsed_addr =
  pa_network :: network
  pa_ufvk :: "network \<Rightarrow> str"
  pa_pool :: shielded_pool
  pa_birthday :: u32

record outside =
  os_public :: "network \<Rightarrow> u32"
  os_pid :: nat
  os_parse :: "str \<Rightarrow> str + parsed_addr"
  os_write_manifest :: "path \<Rightarrow> str \<Rightarrow> manifest \<Rightarrow> unit io"
  os_import :: "wallet_accounts \<Rightarrow> str \<Rightarrow> str + wallet_accounts"
  os_birthday :: "network \<Rightarrow> u32 \<Rightarrow> str + unit"

definition locate_member ::
  "outside \<Rightarrow> wallet_config \<Rightarrow> str \<Rightarrow> (path \<times> bytes) option io" where
  "locate_member os c name =
    io_bind (io_of (ok_or NoViewingKey (wc_ufvk c))) (\<lambda>want.
    io_bind (io_look (\<lambda>s.
      search_shards s (existing_shard_dirs_in s (shards_dir (wc_network c))) want (wc_shard c)))
    (\<lambda>hit. case hit of
       None \<Rightarrow> io_return None
     | Some (dir, uuid) \<Rightarrow>
         (let found = last dir in
          if wc_shard c = Some found then io_return (Some (dir, uuid))
          else io_bind (io_look (\<lambda>s. read_config (os_public os) s name)) (\<lambda>c1.
               io_bind (io_try (cache_shard (os_pid os) found c1)) (\<lambda>_.
               io_return (Some (dir, uuid)))))))"

datatype wallet_home = OwnHome path | FleetHome path | ImportingHome

definition locate :: "outside \<Rightarrow> wallet_config \<Rightarrow> str \<Rightarrow> wallet_home io" where
  "locate os c name =
    (if \<not> is_fleet_member (wc_engine c) then
       io_bind (io_look (\<lambda>s. engine_dir s name)) (\<lambda>d. io_return (OwnHome d))
     else io_bind (locate_member os c name) (\<lambda>m.
       case m of
         Some (dir, _) \<Rightarrow> io_return (FleetHome (shard_engine_dir dir))
       | None \<Rightarrow> io_return ImportingHome))"

definition wallet_home_dir :: "outside \<Rightarrow> str \<Rightarrow> path io" where
  "wallet_home_dir os name =
    io_bind (io_look (\<lambda>s. Ok (read_config (os_public os) s name))) (\<lambda>r.
      case r of
        Inl _ \<Rightarrow> io_look (\<lambda>s. engine_dir s name)
      | Inr c \<Rightarrow> io_bind (locate os c name) (\<lambda>home.
          case home of
            OwnHome d \<Rightarrow> io_return d
          | FleetHome d \<Rightarrow> io_return d
          | ImportingHome \<Rightarrow> io_fail (ImportPending name)))"

definition get_db_paths :: "outside \<Rightarrow> str \<Rightarrow> (path \<times> path) io" where
  "get_db_paths os name = io_bind (wallet_home_dir os name) (\<lambda>d. io_return (d, d @ [DATA_DB]))"

section \<open>Lemmas about the lookup\<close>

lemma dec_value_zeros [simp]: "dec_value (replicate n (CHR ''0'') @ d) = dec_value d"
proof (induction d rule: rev_induct)
  case Nil
  have "dec_value (replicate n (CHR ''0'')) = 0"
  proof (induction n)
    case (Suc n)
    have "dec_value (replicate (Suc n) (CHR ''0'')) = dec_value (replicate n (CHR ''0'') @ [CHR ''0''])"
      by (simp add: replicate_append_same)
    with Suc show ?case by (simp only: dec_value_snoc) (simp add: byte_def)
  qed (simp add: dec_value_def)
  moreover have "dec_value [] = 0" by (simp add: dec_value_def)
  ultimately show ?case by simp
next
  case (snoc c d)
  then show ?case
    using dec_value_snoc [of "replicate n (CHR ''0'') @ d" c] by simp
qed

lemma shard_dir_name_inject [simp]: "shard_dir_name i = shard_dir_name j \<longleftrightarrow> i = j"
proof
  assume "shard_dir_name i = shard_dir_name j"
  then have "dec_value (replicate (4 - length (dec i)) (CHR ''0'') @ dec i)
      = dec_value (replicate (4 - length (dec j)) (CHR ''0'') @ dec j)"
    by (simp add: shard_dir_name_def)
  then show "i = j" by (simp add: dec_value_zeros)
qed simp

lemma shard_dirs_from_prefix:
  "\<exists>n. shard_dirs_from fuel s root i = List.map (\<lambda>j. root @ [shard_dir_name j]) [i..<i + n]
     \<and> (\<forall>j. i \<le> j \<and> j < i + n \<longrightarrow> path_is_dir s (root @ [shard_dir_name j]))
     \<and> n \<le> fuel \<and> (n < fuel \<longrightarrow> \<not> path_is_dir s (root @ [shard_dir_name (i + n)]))"
proof (induction fuel arbitrary: i)
  case 0
  show ?case by (intro exI [of _ 0]) auto
next
  case (Suc fuel)
  show ?case
  proof (cases "path_is_dir s (root @ [shard_dir_name i])")
    case False
    then show ?thesis by (intro exI [of _ 0]) auto
  next
    case True
    from Suc [of "Suc i"] obtain n where n:
      "shard_dirs_from fuel s root (Suc i) = List.map (\<lambda>j. root @ [shard_dir_name j]) [Suc i..<Suc i + n]"
      "\<forall>j. Suc i \<le> j \<and> j < Suc i + n \<longrightarrow> path_is_dir s (root @ [shard_dir_name j])"
      "n \<le> fuel" "n < fuel \<longrightarrow> \<not> path_is_dir s (root @ [shard_dir_name (Suc i + n)])"
      by blast
    have "[i..<i + Suc n] = i # [Suc i..<Suc i + n]"
      using upt_conv_Cons [of i "i + Suc n"] by simp
    moreover have "\<forall>j. i \<le> j \<and> j < i + Suc n \<longrightarrow> path_is_dir s (root @ [shard_dir_name j])"
      using n(2) True by (metis Suc_leI add_Suc_right add_Suc_shift le_neq_implies_less)
    ultimately show ?thesis
      using True n by (intro exI [of _ "Suc n"]) simp
  qed
qed

lemma dirs_bounded:
  assumes "\<forall>j < n. path_is_dir s (root @ [shard_dir_name j])"
  shows "n \<le> length s"
proof -
  have "(\<lambda>j. root @ [shard_dir_name j]) ` {..<n} \<subseteq> fst ` List.set s"
    using assms by (force simp: path_is_dir_def disk_get_def dest: map_of_SomeD)
  moreover have "inj_on (\<lambda>j. root @ [shard_dir_name j]) {..<n}"
    by (auto intro: inj_onI)
  ultimately have "n \<le> card (fst ` List.set s)"
    using card_inj_on_le [of "\<lambda>j. root @ [shard_dir_name j]" "{..<n}" "fst ` List.set s"] by simp
  also have "\<dots> \<le> length s"
    by (metis card_length length_map set_map)
  finally show ?thesis .
qed

lemma existing_shard_dirs_char:
  obtains n where
    "existing_shard_dirs_in s root = List.map (\<lambda>j. root @ [shard_dir_name j]) [0..<n]"
    "\<forall>j < n. path_is_dir s (root @ [shard_dir_name j])"
    "\<not> path_is_dir s (root @ [shard_dir_name n])"
proof -
  obtain n where n: "existing_shard_dirs_in s root = List.map (\<lambda>j. root @ [shard_dir_name j]) [0..<n]"
    "\<forall>j < n. path_is_dir s (root @ [shard_dir_name j])"
    "n < Suc (length s) \<longrightarrow> \<not> path_is_dir s (root @ [shard_dir_name n])"
    using shard_dirs_from_prefix [of "Suc (length s)" s root 0]
    by (auto simp: existing_shard_dirs_in_def simp del: shard_dirs_from.simps)
  with dirs_bounded [OF n(2)] show thesis by (intro that) auto
qed

lemma account_with_key_sound:
  "account_with_key a want = Some i \<Longrightarrow> (i, Some (Some want)) \<in> List.set a"
  by (induction a want rule: account_with_key.induct) (auto split: option.splits if_splits)

lemma account_with_key_None:
  "account_with_key a want = None \<longleftrightarrow> (\<forall>i. (i, Some (Some want)) \<notin> List.set a)"
  by (induction a want rule: account_with_key.induct) (auto split: option.splits if_splits)

lemma position_Some: "position P xs = Some i \<Longrightarrow> i < length xs \<and> P (xs ! i)"
  by (induction P xs arbitrary: i rule: position.induct) (auto split: if_splits)

lemma set_swap_front:
  assumes "i < length xs"
  shows "List.set (swap_front i xs) = List.set xs"
proof -
  have "0 < length xs" using assms by linarith
  then have "List.set (xs[0 := xs ! i, i := xs ! 0]) = List.set xs" by (rule set_swap [OF _ assms])
  then show ?thesis by (simp add: swap_front_def)
qed

lemma set_hinted_order [simp]: "List.set (hinted_order shards cached) = List.set shards"
  by (auto simp: hinted_order_def set_swap_front dest: position_Some split: option.splits)

lemma search_in_found:
  "search_in s want ds = Ok (Some (d, u)) \<Longrightarrow> d \<in> List.set ds \<and> account_in_shard s d want = Ok (Some u)"
  by (induction ds) (auto simp: try_ok_Inr split: option.splits)

lemma search_in_None:
  "search_in s want ds = Ok None \<longleftrightarrow> (\<forall>d \<in> List.set ds. account_in_shard s d want = Ok None)"
  by (induction ds) (auto simp: try_ok_Inr split: option.splits)

lemma search_in_opens:
  assumes "\<forall>d \<in> List.set ds. \<exists>r. account_in_shard s d want = Ok r"
  shows "\<exists>r. search_in s want ds = Ok r"
  using assms by (induction ds) (auto split: option.splits)

end
