(* ===== verification/Fleet_Moves.thy ===== *)
theory Fleet_Moves
  imports Fleet
begin

text \<open>
  The operations that move a database between the engines (\<open>fleet.rs\<close>, \<open>db.rs\<close>,
  \<open>commands/fleet.rs\<close>), that create, wipe, rebuild and erase one (\<open>data.rs\<close>,
  \<open>internal/recover.rs\<close>, \<open>demo.rs\<close>), and the pinning of its viewing key
  (\<open>engine/migrate.rs\<close>).
\<close>

section \<open>The default\<close>

definition fleet_is_default :: "disk \<Rightarrow> bool" where
  "fleet_is_default s = (\<not> path_exists s [FLEET_DEFAULT_OFF])"

definition set_fleet_default :: "bool \<Rightarrow> unit io" where
  "set_fleet_default on =
    (let p = [FLEET_DEFAULT_OFF] in
     if on then io_bind (io_look (\<lambda>s. if path_is_dir s p then Err (NotAFile p) else Ok (path_exists s p)))
                  (\<lambda>there. io_when there (io_change (disk_del p)))
     else io_bind (io_look (\<lambda>s. if path_is_dir s p then Err (NotAFile p) else Ok ()))
            (\<lambda>_. io_change (disk_put p (RawFile []))))"

section \<open>Joining\<close>

text \<open>The name the engine's own wallet has.\<close>

definition WALLET :: str where "WALLET = ''default''"

definition should_enrol :: "wallet_config \<Rightarrow> str \<Rightarrow> disk \<Rightarrow> bool" where
  "should_enrol c name s \<longleftrightarrow>
    is_unset (wc_engine c) \<and> wc_role c = Watch \<and> name \<noteq> WALLET \<and> fleet_is_default s"

text \<open>\<open>enrol\<close>: first the viewing key is put on disk, then the manifest, then the state.\<close>

definition enrol_key :: "outside \<Rightarrow> wallet_config \<Rightarrow> wallet_config io" where
  "enrol_key os c =
    (if wc_ufvk c \<noteq> None then io_return c
     else io_bind (io_of (ok_or NoStoredAddress (wc_zkv_address c))) (\<lambda>addr.
          case os_parse os addr of
            Inl e \<Rightarrow> io_fail (BadAddress e)
          | Inr p \<Rightarrow> pin_ufvk (os_pid os) (pa_ufvk p (wc_network c)) c))"

definition enrol_state :: "outside \<Rightarrow> wallet_config \<Rightarrow> str \<Rightarrow> wallet_config io" where
  "enrol_state os c name =
    io_bind (io_of (manifest_for c)) (\<lambda>m.
    io_bind (io_try (os_write_manifest os (manifest_dir (wc_network c)) name m)) (\<lambda>r.
    case r of
      Inr _ \<Rightarrow> set_engine (os_pid os) FleetPending c
    | Inl e \<Rightarrow> io_bind (io_look (\<lambda>s. read_manifest s (wc_network c) name)) (\<lambda>old.
        if old = Some m then set_engine (os_pid os) FleetPending c else io_fail e)))"

definition enrol :: "outside \<Rightarrow> wallet_config \<Rightarrow> str \<Rightarrow> wallet_config io" where
  "enrol os c name = io_bind (enrol_key os c) (\<lambda>c1. enrol_state os c1 name)"

text \<open>
  \<open>enrol_if_unchosen\<close> changes the caller's configuration in place and swallows the error: what
  an attempt that stops between the two halves leaves is the configuration with its key pinned.
\<close>

definition enrol_if_unchosen :: "outside \<Rightarrow> wallet_config \<Rightarrow> str \<Rightarrow> wallet_config io" where
  "enrol_if_unchosen os c name =
    io_bind (io_look (\<lambda>s. Ok (should_enrol c name s))) (\<lambda>go.
    if \<not> go then io_return c
    else io_bind (io_try (enrol_key os c)) (\<lambda>r.
      case r of
        Inl _ \<Rightarrow> io_return c
      | Inr c1 \<Rightarrow> io_bind (io_try (enrol_state os c1 name)) (\<lambda>r2.
          case r2 of Inl _ \<Rightarrow> io_return c1 | Inr c2 \<Rightarrow> io_return c2)))"

definition open_database :: "outside \<Rightarrow> str \<Rightarrow> wallet_config io" where
  "open_database os name =
    io_bind (io_look (\<lambda>s. read_config (os_public os) s name)) (\<lambda>c. enrol_if_unchosen os c name)"

text \<open>\<open>zkv fleet join\<close>.\<close>

definition join_command :: "outside \<Rightarrow> str option \<Rightarrow> unit io" where
  "join_command os db =
    io_bind (io_look (resolve_db db)) (\<lambda>name.
    io_bind (io_look (\<lambda>s. read_config (os_public os) s name)) (\<lambda>c.
    if wc_role c = Admin then io_fail (HoldsSpendingKey name)
    else if \<not> is_standalone (wc_engine c) then io_return ()
    else if name = ''default'' then io_fail ReservedForEngine
    else io_bind (enrol os c name) (\<lambda>_. io_return ())))"

section \<open>Leaving\<close>

definition leave :: "outside \<Rightarrow> wallet_config \<Rightarrow> str \<Rightarrow> wallet_config io" where
  "leave os c name =
    io_bind (remove_manifest (wc_network c) name) (\<lambda>_. set_engine (os_pid os) Own c)"

definition leave_command :: "outside \<Rightarrow> str option \<Rightarrow> unit io" where
  "leave_command os db =
    io_bind (io_look (resolve_db db)) (\<lambda>name.
    io_bind (io_look (\<lambda>s. read_config (os_public os) s name)) (\<lambda>c.
    if is_standalone (wc_engine c) then io_return ()
    else io_bind (leave os c name) (\<lambda>_. io_return ())))"

section \<open>Changing over\<close>

definition remove_if_there :: "path \<Rightarrow> unit io" where
  "remove_if_there p =
    io_bind (io_look (\<lambda>s. if path_is_dir s p then Err (NotAFile p) else Ok (path_exists s p)))
      (\<lambda>there. io_when there (io_change (disk_del p)))"

definition remove_dir_if_there :: "path \<Rightarrow> unit io" where
  "remove_dir_if_there p =
    io_bind (io_look (\<lambda>s. Ok (path_is_dir s p))) (\<lambda>there. io_when there (io_change (disk_del_all p)))"

definition discard_own_wallet_files :: "str \<Rightarrow> unit io" where
  "discard_own_wallet_files name =
    io_bind (io_of (db_dir name)) (\<lambda>root.
    io_bind (io_look (\<lambda>s. engine_dir_in s root)) (\<lambda>dir.
    io_bind (remove_if_there (dir @ [DATA_DB])) (\<lambda>_.
    io_bind (remove_if_there (dir @ [BLOCKMETA_DB])) (\<lambda>_.
    io_bind (remove_dir_if_there (dir @ [BLOCKS_FOLDER])) (\<lambda>_.
    remove_dir_if_there (root @ [ENGINE_COIN_DIR]))))))"

definition flip_if_caught_up ::
  "outside \<Rightarrow> wallet_config \<Rightarrow> str \<Rightarrow> u32 \<Rightarrow> u32 \<Rightarrow> bool io" where
  "flip_if_caught_up os c name own_scanned shard_scanned =
    (if wc_engine c \<noteq> FleetPending \<or> shard_scanned < own_scanned then io_return False
     else io_bind (set_engine (os_pid os) Fleet c) (\<lambda>_.
          io_bind (io_try (discard_own_wallet_files name)) (\<lambda>_. io_return True)))"

text \<open>
  \<open>drive_pending_fleet\<close>; \<open>shard\<close> is the height the fleet node answered with in its slice of
  time, if it did. Every failure is left for the next command.
\<close>

definition drive_pending_fleet :: "outside \<Rightarrow> wallet_config \<Rightarrow> str \<Rightarrow> u32 \<Rightarrow> u32 option \<Rightarrow> unit io" where
  "drive_pending_fleet os handle name own_scanned shard =
    (if wc_engine handle \<noteq> FleetPending then io_return ()
     else (case shard of
        None \<Rightarrow> io_return ()
      | Some h \<Rightarrow>
          io_bind (io_look (\<lambda>s. Ok (read_config (os_public os) s name))) (\<lambda>r.
            case r of
              Inl _ \<Rightarrow> io_return ()
            | Inr c \<Rightarrow> io_bind (io_try (flip_if_caught_up os c name own_scanned h)) (\<lambda>_. io_return ()))))"

section \<open>Creating\<close>

definition init_dbs :: "outside \<Rightarrow> str \<Rightarrow> path io" where
  "init_dbs os name =
    io_bind (ensure_db_dir name) (\<lambda>_.
    io_bind (io_look (\<lambda>s. Ok (read_config (os_public os) s name))) (\<lambda>r.
    if (case r of Inr c \<Rightarrow> is_fleet_member (wc_engine c) | Inl _ \<Rightarrow> False)
    then io_fail (ServedByFleet name)
    else io_bind (get_db_paths os name) (\<lambda>(dir, data).
         io_bind (io_look (\<lambda>s. Ok (path_exists s data))) (\<lambda>there.
         io_bind (io_when (\<not> there) (io_change (\<lambda>s. disk_put (dir @ [BLOCKMETA_DB]) (RawFile [])
                    (disk_put data (WalletFile []) s)))) (\<lambda>_.
         io_return data)))))"

definition import_account_ufvk :: "outside \<Rightarrow> path \<Rightarrow> str \<Rightarrow> unit io" where
  "import_account_ufvk os data k =
    io_bind (io_look (\<lambda>s. case disk_get s data of
        Some (WalletFile a) \<Rightarrow> (case os_import os a k of Inl e \<Rightarrow> Err (Upstream e) | Inr a1 \<Rightarrow> Ok a1)
      | _ \<Rightarrow> Err (CannotOpenWallet data)))
      (\<lambda>a. io_change (disk_put data (WalletFile a)))"

text \<open>
  \<open>WalletConfig::init_admin\<close>, with the identity it generates and the seed wrapped under it, and
  \<open>WalletConfig::init_watch\<close>. A private file is created, never replaced, and then written.
\<close>

definition IDENTITY_FILE :: str where "IDENTITY_FILE = ''security-theater-key''"

definition write_identity :: "path \<Rightarrow> str \<Rightarrow> unit io" where
  "write_identity dir identity =
    (let p = dir @ [IDENTITY_FILE] in
     io_bind (io_look (\<lambda>s. if path_exists s p then Err (FileExists p) else Ok ())) (\<lambda>_.
     io_bind (io_change (disk_put p (RawFile []))) (\<lambda>_.
     io_change (disk_put p (RawFile (identity @ [CHR 0x0A]))))))"

definition init_admin_config :: "str \<Rightarrow> str \<Rightarrow> str \<Rightarrow> u32 \<Rightarrow> network \<Rightarrow> shielded_pool \<Rightarrow> unit io" where
  "init_admin_config name identity ciphertext birthday net pool =
    io_bind (ensure_db_dir name) (\<lambda>dir.
    io_bind (write_identity dir identity) (\<lambda>_.
    write_config dir (admin_encoding ciphertext birthday net pool)))"

definition init_watch_config ::
  "outside \<Rightarrow> str \<Rightarrow> u32 \<Rightarrow> network \<Rightarrow> str \<Rightarrow> shielded_pool \<Rightarrow> wallet_engine \<Rightarrow> unit io" where
  "init_watch_config os name birthday net addr pool engine =
    io_bind (ensure_db_dir name) (\<lambda>dir.
    if is_standalone engine then write_config dir (watch_encoding birthday net addr pool engine None)
    else (case os_parse os addr of
            Inl e \<Rightarrow> io_fail (BadAddress e)
          | Inr p \<Rightarrow> write_config dir
              (watch_encoding birthday net addr pool engine (Some (pa_ufvk p net)))))"

text \<open>The demo database gives way as the current one.\<close>

definition DEMO_DB_NAME :: str where "DEMO_DB_NAME = ''demo-oracles''"

definition promote_current :: "str \<Rightarrow> unit io" where
  "promote_current name =
    io_bind (io_look current_db) (\<lambda>cur.
      case cur of
        None \<Rightarrow> set_current_db name
      | Some c \<Rightarrow> if c = DEMO_DB_NAME then set_current_db name else io_return ())"

text \<open>
  \<open>find_duplicate_by_ufvk\<close>: \<open>receiver\<close> is the identity \<open>account_keys\<close> reads from a database, if
  its wallet can be read.
\<close>

definition find_duplicate ::
  "outside \<Rightarrow> (disk \<Rightarrow> wallet_config \<Rightarrow> str \<Rightarrow> str option) \<Rightarrow> str \<Rightarrow> disk \<Rightarrow> str option" where
  "find_duplicate os receiver identity s =
    List.find (\<lambda>name. case read_config (os_public os) s name of
        Inl _ \<Rightarrow> False
      | Inr c \<Rightarrow> receiver s c name = Some identity) (list_dbs s)"

definition init_watch_with ::
  "outside \<Rightarrow> (disk \<Rightarrow> wallet_config \<Rightarrow> str \<Rightarrow> str option) \<Rightarrow> str \<Rightarrow> str \<Rightarrow> str
   \<Rightarrow> wallet_engine \<Rightarrow> wallet_config io" where
  "init_watch_with os receiver identity name addr engine =
    (case os_parse os addr of
       Inl e \<Rightarrow> io_fail (BadAddress e)
     | Inr parsed \<Rightarrow>
         let net = pa_network parsed in
         io_bind (io_of (db_dir name)) (\<lambda>dir.
         io_bind (io_look (\<lambda>s. if path_exists s (dir @ [KEYS_FILE])
                               then Err (FileExists (dir @ [KEYS_FILE])) else Ok ())) (\<lambda>_.
         io_bind (io_look (\<lambda>s. case find_duplicate os receiver identity s of
                      Some old \<Rightarrow> Err (AlreadyImported old) | None \<Rightarrow> Ok ())) (\<lambda>_.
         io_bind (io_of (case os_birthday os net (pa_birthday parsed) of
                      Inl e \<Rightarrow> Err (Upstream e) | Inr u \<Rightarrow> Ok u)) (\<lambda>_.
         io_bind (init_watch_config os name (pa_birthday parsed) net addr (pa_pool parsed) engine) (\<lambda>_.
         io_bind (if is_fleet_member engine then
              io_bind (io_look (\<lambda>s. read_config (os_public os) s name)) (\<lambda>c.
              io_bind (io_of (manifest_for c)) (\<lambda>m.
              os_write_manifest os (manifest_dir net) name m))
            else io_bind (init_dbs os name) (\<lambda>data. import_account_ufvk os data (pa_ufvk parsed net)))
         (\<lambda>_. io_bind (promote_current name) (\<lambda>_. open_database os name)))))))
    )"

definition init_watch ::
  "outside \<Rightarrow> (disk \<Rightarrow> wallet_config \<Rightarrow> str \<Rightarrow> str option) \<Rightarrow> str \<Rightarrow> str \<Rightarrow> str \<Rightarrow> wallet_config io" where
  "init_watch os receiver identity name addr =
    io_bind (io_look (\<lambda>s. Ok (if fleet_is_default s then Fleet else Own))) (\<lambda>engine.
      init_watch_with os receiver identity name addr engine)"

definition init_watch_standalone ::
  "outside \<Rightarrow> (disk \<Rightarrow> wallet_config \<Rightarrow> str \<Rightarrow> str option) \<Rightarrow> str \<Rightarrow> str \<Rightarrow> str \<Rightarrow> wallet_config io" where
  "init_watch_standalone os receiver identity name addr =
    init_watch_with os receiver identity name addr Own"

section \<open>Wiping and erasing\<close>

definition remove_sqlite_db :: "path \<Rightarrow> str \<Rightarrow> unit io" where
  "remove_sqlite_db dir file =
    io_bind (io_change (disk_del (dir @ [file]))) (\<lambda>_.
    io_bind (io_change (disk_del (dir @ [file @ ''-wal'']))) (\<lambda>_.
    io_change (disk_del (dir @ [file @ ''-shm'']))))"

definition wipe_sidecars_in :: "path \<Rightarrow> unit io" where
  "wipe_sidecars_in root =
    io_bind (io_look (\<lambda>s. engine_dir_in s root)) (\<lambda>dir.
    io_bind (remove_sqlite_db dir DATA_DB) (\<lambda>_.
    io_bind (remove_sqlite_db dir BLOCKMETA_DB) (\<lambda>_.
    io_bind (remove_sqlite_db root ZKV_STATE_DB) (\<lambda>_.
    io_bind (io_look (\<lambda>s. Ok (path_exists s (dir @ [BLOCKS_FOLDER])))) (\<lambda>there.
    io_when there (io_change (disk_del_all (dir @ [BLOCKS_FOLDER]))))))))"

definition wipe_sidecars :: "str \<Rightarrow> unit io" where
  "wipe_sidecars name = io_bind (io_of (db_dir name)) wipe_sidecars_in"

text \<open>
  \<open>rebootstrap\<close> of a database; \<open>seed_key\<close> is the viewing key of the account \<open>create_account\<close>
  makes from the decrypted seed.
\<close>

definition rebootstrap :: "outside \<Rightarrow> (wallet_config \<Rightarrow> str + str) \<Rightarrow> str \<Rightarrow> unit io" where
  "rebootstrap os seed_key name =
    io_bind (io_look (\<lambda>s. read_config (os_public os) s name)) (\<lambda>c.
    io_bind (io_of (case os_birthday os (wc_network c) (wc_birthday c) of
                Inl e \<Rightarrow> Err (Upstream e) | Inr u \<Rightarrow> Ok u)) (\<lambda>_.
    io_bind (init_dbs os name) (\<lambda>data.
    case wc_role c of
      Admin \<Rightarrow>
        (case seed_key c of Inl e \<Rightarrow> io_fail (Upstream e) | Inr k \<Rightarrow> import_account_ufvk os data k)
    | Watch \<Rightarrow> io_bind (io_of (ok_or AddressMissing (wc_zkv_address c))) (\<lambda>addr.
        case os_parse os addr of
          Inl e \<Rightarrow> io_fail (BadAddress e)
        | Inr p \<Rightarrow> import_account_ufvk os data (pa_ufvk p (wc_network c))))))"

definition erase_wallet_state :: "outside \<Rightarrow> str \<Rightarrow> unit io" where
  "erase_wallet_state os name =
    (case db_dir name of
       Inl _ \<Rightarrow> io_return ()
     | Inr root \<Rightarrow>
         io_bind (io_look (\<lambda>s. Ok (read_config (os_public os) s name))) (\<lambda>r.
         io_bind (case r of
             Inr c \<Rightarrow> if \<not> is_standalone (wc_engine c)
                      then io_bind (io_try (remove_manifest (wc_network c) name)) (\<lambda>_. io_return ())
                      else io_return ()
           | Inl _ \<Rightarrow> io_return ()) (\<lambda>_.
         io_change (disk_del_all root))))"

section \<open>Status and rebuilding\<close>

record fleet_row =
  fr_name :: str
  fr_network :: network
  fr_engine :: wallet_engine
  fr_shard :: "str option"
  fr_manifest :: bool

definition fleet_row_of :: "outside \<Rightarrow> disk \<Rightarrow> str \<Rightarrow> wallet_config \<Rightarrow> fleet_row" where
  "fleet_row_of os s name c =
    \<lparr>fr_name = name, fr_network = wc_network c, fr_engine = wc_engine c,
     fr_shard = (case io_result (locate_member os c name) s of
         Inr (Some (dir, _)) \<Rightarrow> Some (last dir) | _ \<Rightarrow> None),
     fr_manifest = (case read_manifest s (wc_network c) name of Inr (Some _) \<Rightarrow> True | _ \<Rightarrow> False)\<rparr>"

fun row_before :: "fleet_row \<Rightarrow> fleet_row \<Rightarrow> bool" where
  "row_before a b \<longleftrightarrow>
    network_name (fr_network a) < network_name (fr_network b)
    \<or> (fr_network a = fr_network b \<and> fr_name a \<le> fr_name b)"

fun insert_row :: "fleet_row \<Rightarrow> fleet_row list \<Rightarrow> fleet_row list" where
  "insert_row r [] = [r]"
| "insert_row r (x # xs) = (if row_before r x then r # x # xs else x # insert_row r xs)"

definition fleet_rows :: "outside \<Rightarrow> network option \<Rightarrow> disk \<Rightarrow> fleet_row list" where
  "fleet_rows os filter_net s =
    foldr insert_row
      (concat (List.map (\<lambda>name.
         case read_config (os_public os) s name of
           Inl _ \<Rightarrow> []
         | Inr c \<Rightarrow>
             if is_standalone (wc_engine c) then []
             else if filter_net \<noteq> None \<and> filter_net \<noteq> Some (wc_network c) then []
             else [fleet_row_of os s name c]) (list_dbs s))) []"

definition fleet_state_of :: "fleet_row \<Rightarrow> str" where
  "fleet_state_of r =
    (case fr_engine r of
       Fleet \<Rightarrow>
         if fr_shard r \<noteq> None then ''shared''
         else if fr_manifest r then ''importing'' else ''no manifest''
     | FleetPending \<Rightarrow>
         if fr_shard r \<noteq> None then ''joining (shard ready)''
         else if fr_manifest r then ''joining'' else ''joining (no manifest)''
     | _ \<Rightarrow> ''own'')"

fun rebuild_members :: "outside \<Rightarrow> network \<Rightarrow> fleet_row list \<Rightarrow> unit io" where
  "rebuild_members os net [] = io_return ()"
| "rebuild_members os net (r # rows) =
    io_bind (io_look (\<lambda>s. read_config (os_public os) s (fr_name r))) (\<lambda>c.
    io_bind (remove_manifest net (fr_name r)) (\<lambda>_.
    io_bind (io_of (manifest_for c)) (\<lambda>m.
    io_bind (os_write_manifest os (manifest_dir net) (fr_name r) m) (\<lambda>_.
    io_bind (forget_shard (os_pid os) c) (\<lambda>_.
    rebuild_members os net rows)))))"

fun rebuild_networks :: "outside \<Rightarrow> fleet_row list \<Rightarrow> network list \<Rightarrow> unit io" where
  "rebuild_networks os rows [] = io_return ()"
| "rebuild_networks os rows (net # nets) =
    io_bind (io_look (\<lambda>s. Ok (path_exists s (shards_dir net)))) (\<lambda>there.
    io_bind (io_when there (io_change (disk_del_all (shards_dir net)))) (\<lambda>_.
    io_bind (rebuild_members os net (filter (\<lambda>r. fr_network r = net) rows)) (\<lambda>_.
    rebuild_networks os rows nets)))"

definition rebuild_command :: "outside \<Rightarrow> network option \<Rightarrow> bool \<Rightarrow> unit io" where
  "rebuild_command os filter_net yes =
    io_bind (io_look (\<lambda>s. Ok (fleet_rows os filter_net s))) (\<lambda>rows.
    if rows = [] \<or> \<not> yes then io_return ()
    else rebuild_networks os rows (remdups_adj (List.map fr_network rows)))"

section \<open>The viewing-key pin\<close>

datatype adoption = AlreadyAdopted | Pinned

definition ufvk_in_db :: "disk \<Rightarrow> wallet_config \<Rightarrow> str option" where
  "ufvk_in_db s c =
    (case engine_dir_in s (wc_dir c) of
       Inl _ \<Rightarrow> None
     | Inr dir \<Rightarrow>
         (case open_wallet_db s dir of
            Inl _ \<Rightarrow> None
          | Inr a \<Rightarrow>
              (case select_account a c [] of
                 Inl _ \<Rightarrow> None
               | Inr i \<Rightarrow> (case map_of a i of Some (Some (Some k)) \<Rightarrow> Some k | _ \<Rightarrow> None))))"

definition derive_ufvk ::
  "outside \<Rightarrow> (wallet_config \<Rightarrow> str + str) \<Rightarrow> wallet_config \<Rightarrow> disk \<Rightarrow> data_error + str" where
  "derive_ufvk os seed_key c s =
    (case wc_role c of
       Admin \<Rightarrow> (case seed_key c of Inl e \<Rightarrow> Err (Upstream e) | Inr k \<Rightarrow> Ok k)
     | Watch \<Rightarrow>
         (case wc_zkv_address c of
            Some addr \<Rightarrow>
              (case os_parse os addr of
                 Inl e \<Rightarrow> Err (BadAddress e) | Inr p \<Rightarrow> Ok (pa_ufvk p (wc_network c)))
          | None \<Rightarrow> ok_or AddressMissing (ufvk_in_db s c)))"

definition ensure_adopted ::
  "outside \<Rightarrow> (wallet_config \<Rightarrow> str + str) \<Rightarrow> wallet_config \<Rightarrow> (adoption \<times> wallet_config) io" where
  "ensure_adopted os seed_key c =
    (if wc_ufvk c \<noteq> None then io_return (AlreadyAdopted, c)
     else io_bind (io_look (derive_ufvk os seed_key c)) (\<lambda>k.
          io_bind (pin_ufvk (os_pid os) k c) (\<lambda>c1. io_return (Pinned, c1))))"

section \<open>The engine that serves a database\<close>

text \<open>The registry of shared nodes, one per network; the connection of the first caller stays.\<close>

datatype 'conn engine_handle = SharedEngine network 'conn | OwnEngine str 'conn

definition shared_engine ::
  "network \<Rightarrow> 'conn \<Rightarrow> (network \<rightharpoonup> 'conn) \<Rightarrow> 'conn engine_handle \<times> (network \<rightharpoonup> 'conn)" where
  "shared_engine net conn reg =
    (case reg net of
       Some c \<Rightarrow> (SharedEngine net c, reg)
     | None \<Rightarrow> (SharedEngine net conn, reg(net \<mapsto> conn)))"

definition engine_for ::
  "str \<Rightarrow> wallet_config \<Rightarrow> 'conn \<Rightarrow> (network \<rightharpoonup> 'conn) \<Rightarrow> 'conn engine_handle \<times> (network \<rightharpoonup> 'conn)" where
  "engine_for name c conn reg =
    (if is_fleet_member (wc_engine c) then shared_engine (wc_network c) conn reg
     else (OwnEngine name conn, reg))"

end
