(* ===== verification/Fleet_Facts.thy ===== *)
theory Fleet_Facts
  imports Fleet_Moves
begin

text \<open>
  Facts the properties of the shared scan share: which paths the operations touch, the traces
  of the rewriting of \<open>keys.toml\<close>, and the reading of a database as the code composes it.
\<close>

named_theorems path_simps \<open>which of the data directory's paths differ\<close>

section \<open>Paths\<close>

lemma tmp_not_keys [path_simps]: "rewrite_tmp pid dir \<noteq> dir @ [KEYS_FILE]"
  "dir @ [KEYS_FILE] \<noteq> rewrite_tmp pid dir"
  by (simp_all add: rewrite_tmp_def)

lemma valid_name_not_fleet [path_simps]:
  "validate_db_name name = Ok () \<Longrightarrow> name \<noteq> FLEET_DIR"
  using valid_name_no_dot [of name] by auto

text \<open>Two disks that agree but for the configuration file of one database and its temporary.\<close>

definition same_but_keys :: "nat \<Rightarrow> path \<Rightarrow> disk \<Rightarrow> disk \<Rightarrow> bool" where
  "same_but_keys pid dir s s' \<longleftrightarrow>
    (\<forall>p. p \<noteq> dir @ [KEYS_FILE] \<longrightarrow> p \<noteq> rewrite_tmp pid dir \<longrightarrow> disk_get s' p = disk_get s p)"

lemma same_but_keysD:
  "same_but_keys pid dir s s' \<Longrightarrow> p \<noteq> dir @ [KEYS_FILE] \<Longrightarrow> p \<noteq> rewrite_tmp pid dir
   \<Longrightarrow> disk_get s' p = disk_get s p"
  by (simp add: same_but_keys_def)

lemma same_but_keys_refl [simp]: "same_but_keys pid dir s s"
  by (simp add: same_but_keys_def)

section \<open>Rewriting the configuration\<close>

lemma rewrite_config_Ok [simp]: "snd (rewrite_config pid dir enc s) = Ok ()"
  by (simp add: rewrite_config_def Let_def io_bind_change)

lemma rewrite_config_trace:
  "fst (rewrite_config pid dir enc s) =
    (let tmp = rewrite_tmp pid dir; p = dir @ [KEYS_FILE];
         s1 = disk_del tmp s;
         s2 = disk_put tmp (KeysFile (Some empty_encoding)) s1;
         s3 = disk_put tmp (KeysFile (Some enc)) s2 in
     [s1, s2, s3, disk_put p (KeysFile (Some enc)) (disk_del tmp s3)])"
  by (simp add: rewrite_config_def Let_def io_bind_change)

lemma rewrite_config_states:
  assumes "s' \<in> List.set (fst (rewrite_config pid dir enc s))"
  shows "same_but_keys pid dir s s'"
    and "disk_get s' (dir @ [KEYS_FILE]) = disk_get s (dir @ [KEYS_FILE])
      \<or> disk_get s' (dir @ [KEYS_FILE]) = Some (KeysFile (Some enc))"
  using assms
  by (auto simp: rewrite_config_trace Let_def same_but_keys_def path_simps)

lemma rewrite_config_final:
  "disk_get (last (s # fst (rewrite_config pid dir enc s))) (dir @ [KEYS_FILE]) = Some (KeysFile (Some enc))"
  "same_but_keys pid dir s (last (s # fst (rewrite_config pid dir enc s)))"
  by (simp_all add: rewrite_config_trace Let_def same_but_keys_def)

text \<open>The writers of the configuration change the struct and rewrite the file.\<close>

lemma rewrite_then:
  "io_bind (rewrite_config pid dir enc) (\<lambda>_. io_return c1) s =
    (fst (rewrite_config pid dir enc s), Ok c1)"
  using rewrite_config_Ok [of pid dir enc s] by (simp add: io_bind_def Let_def)

lemma set_engine_run:
  "set_engine pid e c s =
    (fst (rewrite_config pid (wc_dir c) (to_encoding (with_engine e c)) s), Ok (with_engine e c))"
  by (simp add: set_engine_def Let_def rewrite_then)

lemma pin_ufvk_run:
  "pin_ufvk pid k c s =
    (fst (rewrite_config pid (wc_dir c) (to_encoding (with_ufvk k c)) s), Ok (with_ufvk k c))"
  by (simp add: pin_ufvk_def Let_def rewrite_then)

lemma cache_shard_run:
  "cache_shard pid sh c s =
    (if wc_shard c = Some sh then ([], Ok c)
     else (fst (rewrite_config pid (wc_dir c) (to_encoding (with_shard (Some sh) c)) s),
           Ok (with_shard (Some sh) c)))"
  by (simp add: cache_shard_def Let_def rewrite_then)

section \<open>Reading back\<close>

lemma read_config_dir: "read_config pub s name = Ok c \<Longrightarrow> wc_dir c = [name] \<and> config_ok c \<and> validate_db_name name = Ok ()"
  by (auto simp: read_config_def read_at_def try_ok_Inr db_dir_Ok dest: config_of_encoding_ok
      split: if_splits option.splits node.splits sum.splits)

lemma read_config_cong:
  "disk_get s' [name, KEYS_FILE] = disk_get s [name, KEYS_FILE] \<Longrightarrow> read_config pub s' name = read_config pub s name"
  by (cases "validate_db_name name") (simp_all add: read_config_def read_at_def path_exists_def db_dir_def)

lemma read_config_saved:
  assumes "disk_get s' [name, KEYS_FILE] = Some (KeysFile (Some (to_encoding c)))"
    and "validate_db_name name = Ok ()" "config_ok c" "wc_dir c = [name]"
  shows "read_config pub s' name = Ok c"
  using assms to_encoding_read [OF assms(3), of pub]
  by (simp add: read_config_def read_at_def path_exists_def db_dir_def)

text \<open>What a rewrite of the configuration makes readable at each of its states.\<close>

lemma rewrite_reads:
  assumes r: "read_config pub s name = Ok c" and ok: "config_ok c1" and d: "wc_dir c1 = [name]"
    and s': "s' \<in> crash_states (rewrite_config pid [name] (to_encoding c1)) s"
  shows "read_config pub s' name = Ok c \<or> read_config pub s' name = Ok c1"
    and "same_but_keys pid [name] s s'"
proof -
  have v: "validate_db_name name = Ok ()" using read_config_dir [OF r] by simp
  show "read_config pub s' name = Ok c \<or> read_config pub s' name = Ok c1"
    using s' rewrite_config_states(2) [of s' pid "[name]" "to_encoding c1" s] r
      read_config_cong [of s' name s pub] read_config_saved [OF _ v ok d, of s' pub]
    by (auto simp: crash_states_def)
  show "same_but_keys pid [name] s s'"
    using s' rewrite_config_states(1) [of s' pid "[name]" "to_encoding c1" s]
    by (auto simp: crash_states_def)
qed

lemma engine_dir_cong:
  assumes "disk_get s' (root @ [DATA_DB]) = disk_get s (root @ [DATA_DB])"
    and "disk_get s' (nested_engine_dir root @ [DATA_DB]) = disk_get s (nested_engine_dir root @ [DATA_DB])"
  shows "engine_dir_in s' root = engine_dir_in s root"
  using assms by (simp add: engine_dir_in_def Let_def path_is_file_def path_exists_def path_is_dir_def)

lemma same_but_keys_engine_dir:
  assumes "same_but_keys pid [name] s s'"
  shows "engine_dir_in s' [name] = engine_dir_in s [name]"
  by (rule engine_dir_cong)
    (auto intro!: same_but_keysD [OF assms] simp: rewrite_tmp_def nested_engine_dir_def)

text \<open>The shard directories that exist are a matter of what is a directory.\<close>

lemma existing_shard_dirs_cong:
  assumes "\<And>i. disk_get s' (root @ [shard_dir_name i]) = disk_get s (root @ [shard_dir_name i])"
  shows "existing_shard_dirs_in s' root = existing_shard_dirs_in s root"
proof -
  obtain n where n: "existing_shard_dirs_in s root = List.map (\<lambda>j. root @ [shard_dir_name j]) [0..<n]"
    "\<forall>j < n. path_is_dir s (root @ [shard_dir_name j])" "\<not> path_is_dir s (root @ [shard_dir_name n])"
    by (rule existing_shard_dirs_char)
  obtain m where m: "existing_shard_dirs_in s' root = List.map (\<lambda>j. root @ [shard_dir_name j]) [0..<m]"
    "\<forall>j < m. path_is_dir s' (root @ [shard_dir_name j])" "\<not> path_is_dir s' (root @ [shard_dir_name m])"
    by (rule existing_shard_dirs_char)
  have eq: "path_is_dir s' (root @ [shard_dir_name i]) = path_is_dir s (root @ [shard_dir_name i])" for i
    using assms by (simp add: path_is_dir_def)
  have "m = n"
    using n(2,3) m(2,3) eq by (metis linorder_neqE_nat)
  with n m show ?thesis by simp
qed

text \<open>Two disks with the same shared scan.\<close>

definition same_fleet :: "disk \<Rightarrow> disk \<Rightarrow> bool" where
  "same_fleet s s' \<longleftrightarrow> (\<forall>p. take 1 p = [FLEET_DIR] \<longrightarrow> disk_get s' p = disk_get s p)"

lemma open_wallet_db_cong:
  "disk_get s' (d @ [DATA_DB]) = disk_get s (d @ [DATA_DB]) \<Longrightarrow> disk_get s' d = disk_get s d
   \<Longrightarrow> open_wallet_db s' d = open_wallet_db s d"
  by (simp add: open_wallet_db_def path_is_dir_def)

text \<open>Two disks with the same shards of a network.\<close>

definition same_shards :: "network \<Rightarrow> disk \<Rightarrow> disk \<Rightarrow> bool" where
  "same_shards n s s' \<longleftrightarrow> (\<forall>p. take 3 p = shards_dir n \<longrightarrow> disk_get s' p = disk_get s p)"

lemma same_fleet_shards: "same_fleet s s' \<Longrightarrow> same_shards n s s'"
  unfolding same_fleet_def same_shards_def
proof (intro allI impI)
  fix p :: path
  assume all: "\<forall>p. take 1 p = [FLEET_DIR] \<longrightarrow> disk_get s' p = disk_get s p" and p: "take 3 p = shards_dir n"
  have "take 1 p = take 1 (take 3 p)" by simp
  then have "take 1 p = [FLEET_DIR]" using p by (simp add: shards_dir_def fleet_dir_def)
  with all show "disk_get s' p = disk_get s p" by blast
qed

lemma take_shards_append:
  assumes "take 3 d = shards_dir n"
  shows "take 3 (d @ q) = shards_dir n"
proof -
  have "length (take 3 d) = 3" unfolding assms by (simp add: shards_dir_def fleet_dir_def)
  then have "3 \<le> length d" by simp
  with assms show ?thesis by simp
qed

lemma account_in_shard_cong:
  assumes "same_shards n s s'" "take 3 d = shards_dir n"
  shows "account_in_shard s' d want = account_in_shard s d want"
proof -
  have "take 3 (d @ q) = shards_dir n" for q using take_shards_append [OF assms(2)] .
  then have "disk_get s' (d @ q) = disk_get s (d @ q)" for q
    using assms(1) by (simp add: same_shards_def)
  then have "open_wallet_db s' (shard_engine_dir d) = open_wallet_db s (shard_engine_dir d)"
    by (intro open_wallet_db_cong) (simp_all add: shard_engine_dir_def)
  then show ?thesis by (simp add: account_in_shard_def)
qed

lemma search_in_cong:
  assumes "same_shards n s s'" "\<forall>d \<in> List.set ds. take 3 d = shards_dir n"
  shows "search_in s' want ds = search_in s want ds"
  using assms(2)
proof (induction ds)
  case (Cons d ds)
  then have "search_in s' want ds = search_in s want ds" by simp
  moreover have "account_in_shard s' d want = account_in_shard s d want"
    using account_in_shard_cong [OF assms(1)] Cons.prems by simp
  ultimately show ?case by simp
qed simp

lemma shards_under: "d \<in> List.set (existing_shard_dirs_in s (shards_dir n)) \<Longrightarrow> take 3 d = shards_dir n"
  by (rule existing_shard_dirs_char [of s "shards_dir n"]) (auto simp: shards_dir_def fleet_dir_def)

lemma search_shards_cong:
  assumes "same_shards n s s'"
  shows "search_shards s' (existing_shard_dirs_in s' (shards_dir n)) want cached =
    search_shards s (existing_shard_dirs_in s (shards_dir n)) want cached"
proof -
  have "existing_shard_dirs_in s' (shards_dir n) = existing_shard_dirs_in s (shards_dir n)"
    using assms by (intro existing_shard_dirs_cong) (simp add: same_shards_def shards_dir_def fleet_dir_def)
  then show ?thesis
    using search_in_cong [OF assms] shards_under by (simp add: search_shards_def)
qed

lemma same_but_keys_fleet:
  assumes "same_but_keys pid [name] s s'" "validate_db_name name = Ok ()"
  shows "same_fleet s s'"
  unfolding same_fleet_def
proof (intro allI impI)
  fix p :: path assume "take 1 p = [FLEET_DIR]"
  moreover have "name \<noteq> FLEET_DIR" using valid_name_not_fleet [OF assms(2)] .
  ultimately show "disk_get s' p = disk_get s p"
    by (intro same_but_keysD [OF assms(1)]) (auto simp: rewrite_tmp_def)
qed

lemma read_manifest_cong:
  "same_fleet s s' \<Longrightarrow> read_manifest s' n name = read_manifest s n name"
  by (simp add: same_fleet_def read_manifest_def read_manifest_at_def manifest_path_def manifest_path_in_def
      manifest_dir_def fleet_dir_def)

section \<open>The account a reader opens\<close>

text \<open>
  \<open>account_keys\<close> for a configuration the caller holds: the paths, the wallet database there, and
  the account in it. The result is the account's id.
\<close>

definition reader_account :: "outside \<Rightarrow> wallet_config \<Rightarrow> str \<Rightarrow> bytes io" where
  "reader_account os c name =
    io_bind (get_db_paths os name) (\<lambda>(dir, data).
    io_bind (io_look (\<lambda>s. open_wallet_db s dir)) (\<lambda>a.
    io_of (select_account a c name)))"

lemma locate_own:
  assumes "\<not> is_fleet_member (wc_engine c)"
  shows "locate os c name s = ([], try_ok (engine_dir s name) (\<lambda>d. Ok (OwnHome d)))"
  using assms by (cases "engine_dir s name") (simp_all add: locate_def io_bind_look)

lemma wallet_home_own:
  assumes "read_config (os_public os) s name = Ok c" "\<not> is_fleet_member (wc_engine c)"
    and "engine_dir s name = Ok d"
  shows "wallet_home_dir os name s = ([], Ok d)"
proof -
  have l: "locate os c name s = ([], Ok (OwnHome d))"
    using locate_own [OF assms(2), of os name s] assms(3) by simp
  show ?thesis
    using assms(1) by (simp add: wallet_home_dir_def io_bind_look io_bind_Ok [of "locate os c name", OF l])
qed

text \<open>What a lookup of a member returns, and that it leaves the shared scan as it is.\<close>

lemma locate_member_run:
  assumes r: "read_config (os_public os) s name = Ok c" and k: "wc_ufvk c = Some k"
    and f: "search_shards s (existing_shard_dirs_in s (shards_dir (wc_network c))) k (wc_shard c) = Ok (Some (d, u))"
  shows "\<exists>t. locate_member os c name s = (t, Ok (Some (d, u)))
    \<and> (\<forall>s' \<in> List.set t. same_but_keys (os_pid os) [name] s s')"
proof -
  have dir: "wc_dir c = [name]" using read_config_dir [OF r] by simp
  show ?thesis
  proof (cases "wc_shard c = Some (last d)")
    case True
    then show ?thesis using k f by (simp add: locate_member_def io_bind_look)
  next
    case False
    have "locate_member os c name s =
      (fst (rewrite_config (os_pid os) [name] (to_encoding (with_shard (Some (last d)) c)) s), Ok (Some (d, u)))"
      using False k f r dir
      by (simp add: locate_member_def io_bind_look Let_def io_bind_try cache_shard_run)
    then show ?thesis
      using rewrite_config_states(1) [of _ "os_pid os" "[name]"] by auto
  qed
qed

lemma locate_member_none:
  assumes "wc_ufvk c = Some k"
    and "search_shards s (existing_shard_dirs_in s (shards_dir (wc_network c))) k (wc_shard c) = Ok None"
  shows "locate_member os c name s = ([], Ok None)"
  using assms by (simp add: locate_member_def io_bind_look)

lemma search_shards_found:
  assumes "search_shards s shards want cached = Ok (Some (d, u))"
  shows "d \<in> List.set shards" "account_in_shard s d want = Ok (Some u)"
  using search_in_found [OF assms [unfolded search_shards_def]] by simp_all

lemma account_in_shard_found:
  assumes "account_in_shard s d want = Ok (Some u)"
  obtains a where "open_wallet_db s (shard_engine_dir d) = Ok a" "account_with_key a want = Some u"
  using assms by (auto simp: account_in_shard_def try_ok_Inr)

lemma select_account_key:
  "wc_ufvk c = Some k \<Longrightarrow> account_with_key a k = Some i \<Longrightarrow> select_account a c name = Ok i"
  by (simp add: select_account_def Let_def)

text \<open>A reader of a database with its own files, and of a member.\<close>

lemma reader_own:
  assumes "read_config (os_public os) s name = Ok c" "\<not> is_fleet_member (wc_engine c)"
    and "engine_dir s name = Ok d" "disk_get s (d @ [DATA_DB]) = Some (WalletFile a)"
    and "select_account a h name = Ok i"
  shows "reader_account os h name s = ([], Ok i)"
proof -
  have p: "get_db_paths os name s = ([] @ [], Ok (d, d @ [DATA_DB]))"
    unfolding get_db_paths_def by (rule io_bind_run, rule wallet_home_own [OF assms(1-3)]) simp
  have w: "open_wallet_db s d = Ok a" by (simp add: open_wallet_db_def assms(4))
  have "reader_account os h name s = ([] @ [], Ok i)"
    unfolding reader_account_def
    using p w assms(5)
    by (intro io_bind_run [of "get_db_paths os name"]) (simp, simp add: io_bind_look del: last.simps, simp)
  then show ?thesis by simp
qed

lemma wallet_home_fleet:
  assumes r: "read_config (os_public os) s name = Ok c" and e: "is_fleet_member (wc_engine c)"
    and k: "wc_ufvk c = Some k"
    and f: "search_shards s (existing_shard_dirs_in s (shards_dir (wc_network c))) k (wc_shard c) = Ok (Some (d, u))"
  shows "\<exists>t. get_db_paths os name s = (t, Ok (shard_engine_dir d, shard_engine_dir d @ [DATA_DB]))
    \<and> (\<forall>s' \<in> List.set t. same_but_keys (os_pid os) [name] s s')"
proof -
  obtain t where t: "locate_member os c name s = (t, Ok (Some (d, u)))"
    "\<forall>s' \<in> List.set t. same_but_keys (os_pid os) [name] s s'"
    using locate_member_run [OF r k f] by blast
  have "locate os c name s = (t @ [], Ok (FleetHome (shard_engine_dir d)))"
    using e unfolding locate_def by (simp only: if_False not_True_eq_False) (rule io_bind_run [of "locate_member os c name", OF t(1)], simp)
  then have l: "locate os c name s = (t, Ok (FleetHome (shard_engine_dir d)))" by simp
  have "io_bind (locate os c name) (\<lambda>home. case home of OwnHome d \<Rightarrow> io_return d
      | FleetHome d \<Rightarrow> io_return d | ImportingHome \<Rightarrow> io_fail (ImportPending name)) s
    = (t @ [], Ok (shard_engine_dir d))"
    by (rule io_bind_run [of "locate os c name", OF l]) (simp del: last.simps)
  then have "wallet_home_dir os name s = (t, Ok (shard_engine_dir d))"
    using r by (simp add: wallet_home_dir_def io_bind_look)
  then have "get_db_paths os name s = (t @ [], Ok (shard_engine_dir d, shard_engine_dir d @ [DATA_DB]))"
    unfolding get_db_paths_def by (rule io_bind_run) simp
  with t(2) show ?thesis by simp
qed

lemma last_same_but_keys:
  "(\<forall>s' \<in> List.set t. same_but_keys pid dir s s') \<Longrightarrow> same_but_keys pid dir s (last (s # t))"
  by auto

lemma reader_fleet_wallet:
  assumes r: "read_config (os_public os) s name = Ok c" and e: "is_fleet_member (wc_engine c)"
    and k: "wc_ufvk c = Some k"
    and f: "search_shards s (existing_shard_dirs_in s (shards_dir (wc_network c))) k (wc_shard c) = Ok (Some (d, u))"
    and a: "open_wallet_db s (shard_engine_dir d) = Ok a"
  shows "snd (reader_account os h name s) = select_account a h name"
proof -
  obtain t where t: "get_db_paths os name s = (t, Ok (shard_engine_dir d, shard_engine_dir d @ [DATA_DB]))"
    "\<forall>s' \<in> List.set t. same_but_keys (os_pid os) [name] s s'"
    using wallet_home_fleet [OF r e k f] by blast
  have v: "validate_db_name name = Ok ()" using read_config_dir [OF r] by simp
  have sf: "same_fleet s (last (s # t))"
    by (rule same_but_keys_fleet [OF last_same_but_keys [OF t(2)] v])
  have d: "take 3 d = shards_dir (wc_network c)"
    using shards_under search_shards_found(1) [OF f] by blast
  have "take 3 (d @ q) = shards_dir (wc_network c)" for q using take_shards_append [OF d] .
  then have "open_wallet_db (last (s # t)) (shard_engine_dir d) = Ok a"
    using same_fleet_shards [OF sf, of "wc_network c"] a
    by (subst open_wallet_db_cong) (simp_all add: same_shards_def shard_engine_dir_def del: last.simps)
  then have "reader_account os h name s = (t @ [], select_account a h name)"
    unfolding reader_account_def
    by (intro io_bind_run [of "get_db_paths os name", OF t(1)]) (simp add: io_bind_look del: last.simps)
  then show ?thesis by simp
qed

lemma reader_fleet:
  assumes r: "read_config (os_public os) s name = Ok c" and e: "is_fleet_member (wc_engine c)"
    and k: "wc_ufvk c = Some k" "wc_ufvk h = Some k"
    and f: "search_shards s (existing_shard_dirs_in s (shards_dir (wc_network c))) k (wc_shard c) = Ok (Some (d, u))"
  shows "snd (reader_account os h name s) = Ok u"
proof -
  obtain a where a: "open_wallet_db s (shard_engine_dir d) = Ok a" "account_with_key a k = Some u"
    using search_shards_found(2) [OF f] by (rule account_in_shard_found)
  show ?thesis
    using reader_fleet_wallet [OF r e k(1) f a(1)] select_account_key [OF k(2) a(2)] by simp
qed

section \<open>What the operations leave alone\<close>

lemma io_keeps_look:
  assumes "\<And>s x. P s \<Longrightarrow> f s = Ok x \<Longrightarrow> io_keeps P (k x)"
  shows "io_keeps P (io_bind (io_look f) k)"
  unfolding io_keeps_def
proof (intro allI impI)
  fix s assume P: "P s"
  show "\<forall>s' \<in> List.set (fst (io_bind (io_look f) k s)). P s'"
  proof (cases "f s")
    case (Inr x)
    have "io_keeps P (k x)" using P Inr by (rule assms)
    with P show ?thesis by (simp add: io_bind_look Inr io_keeps_def)
  qed (simp add: io_bind_look)
qed

lemma io_keeps_of: "(\<And>x. r = Ok x \<Longrightarrow> io_keeps P (k x)) \<Longrightarrow> io_keeps P (io_bind (io_of r) k)"
  by (cases r; simp only: io_bind_quiet) (blast intro: io_keeps_quiet)+

lemma io_keeps_del: "(\<And>s. P s \<Longrightarrow> P (disk_del p s)) \<Longrightarrow> io_keeps P (remove_if_there p)"
  unfolding remove_if_there_def by (intro io_keeps_look io_keeps_when io_keeps_change) simp

lemma io_keeps_del_all: "(\<And>s. P s \<Longrightarrow> P (disk_del_all p s)) \<Longrightarrow> io_keeps P (remove_dir_if_there p)"
  unfolding remove_dir_if_there_def by (intro io_keeps_look io_keeps_when io_keeps_change) simp

text \<open>
  Whatever does not depend on the wallet files below a database's directory survives the
  discarding of them.
\<close>

definition wallet_path :: "str \<Rightarrow> path \<Rightarrow> bool" where
  "wallet_path name p \<longleftrightarrow>
    (\<exists>x r. p = name # x # r \<and> x \<in> {DATA_DB, BLOCKMETA_DB, BLOCKS_FOLDER, ENGINE_COIN_DIR})"

lemma engine_dir_in_cases: "engine_dir_in s root = Ok d \<Longrightarrow> d = root \<or> d = nested_engine_dir root"
  by (auto simp: engine_dir_in_def Let_def split: if_splits)

lemma discard_keeps:
  assumes "\<And>s s'. P s \<Longrightarrow> (\<And>p. \<not> wallet_path name p \<Longrightarrow> disk_get s' p = disk_get s p) \<Longrightarrow> P s'"
  shows "io_keeps P (discard_own_wallet_files name)"
proof -
  have del: "P s \<Longrightarrow> wallet_path name p \<Longrightarrow> P (disk_del p s)" for s p
    by (erule assms) auto
  have under: "wallet_path name q" if "under p q" "wallet_path name p" for p q
  proof -
    from that(2) obtain x r where "p = name # x # r" "x \<in> {DATA_DB, BLOCKMETA_DB, BLOCKS_FOLDER, ENGINE_COIN_DIR}"
      by (auto simp: wallet_path_def)
    moreover from this that(1) obtain r2 where "q = name # x # r2"
      by (metis append_Cons append_take_drop_id under_def)
    ultimately show ?thesis by (auto simp: wallet_path_def)
  qed
  have del_all: "P s \<Longrightarrow> wallet_path name p \<Longrightarrow> P (disk_del_all p s)" for s p
    by (erule assms) (auto dest: under)
  have paths: "wallet_path name (d @ [DATA_DB])" "wallet_path name (d @ [BLOCKMETA_DB])"
      "wallet_path name (d @ [BLOCKS_FOLDER])" if "engine_dir_in s [name] = Ok d" for s d
    using engine_dir_in_cases [OF that] by (auto simp: wallet_path_def nested_engine_dir_def)
  show ?thesis
    unfolding discard_own_wallet_files_def db_dir_def
  proof (cases "validate_db_name name", goal_cases)
    case (2 u)
    then show ?case
      by (auto intro!: io_keeps_look io_keeps_bind io_keeps_del io_keeps_del_all del del_all paths
          simp: wallet_path_def)
  qed auto
qed

end
