(* ===== verification/Fleet_Props.thy ===== *)
theory Fleet_Props
  imports Fleet_Facts
begin

text \<open>
  What makes the shared scan correct: a member reads its own account and nobody else's, the
  lookup depends on no hint, and no crash of an enrolment or of a change-over takes a database
  out of its reader's sight.
\<close>

section \<open>The engine's manifest writer\<close>

text \<open>
  What the code relies on of upstream's writer: it refuses to replace a manifest, it touches
  nothing outside the manifest directory but its parents, and the manifest appears whole.
\<close>

definition manifest_writer_ok :: "outside \<Rightarrow> bool" where
  "manifest_writer_ok os \<longleftrightarrow>
    (\<forall>d name m s.
      (path_exists s (manifest_path_in d name) \<longrightarrow>
        (\<exists>e. os_write_manifest os d name m s = ([], Err e)))
      \<and> (\<forall>s' \<in> List.set (fst (os_write_manifest os d name m s)).
          (\<forall>p. \<not> under d p \<longrightarrow> \<not> under p d \<longrightarrow> disk_get s' p = disk_get s p)
          \<and> (\<forall>other. other \<noteq> name \<longrightarrow>
               disk_get s' (manifest_path_in d other) = disk_get s (manifest_path_in d other)))
      \<and> (snd (os_write_manifest os d name m s) = Ok () \<longrightarrow>
          disk_get (last (s # fst (os_write_manifest os d name m s))) (manifest_path_in d name)
            = Some (ManifestFile (Some m))))"

text \<open>A writer of that kind: it makes the directory and renames a finished file into place.\<close>

definition plain_writer :: "path \<Rightarrow> str \<Rightarrow> manifest \<Rightarrow> unit io" where
  "plain_writer d name m =
    (let p = manifest_path_in d name in
     io_bind (io_look (\<lambda>s. if path_exists s p then Err (FileExists p) else Ok ())) (\<lambda>_.
     io_bind (io_change (disk_put d Dir)) (\<lambda>_.
     io_change (disk_put p (ManifestFile (Some m))))))"

definition plain_outside :: outside where
  "plain_outside =
    \<lparr>os_public = (\<lambda>n. 419200), os_pid = 7,
     os_parse = (\<lambda>a. Ok \<lparr>pa_network = TestNet, pa_ufvk = (\<lambda>n. ''uview'' @ a), pa_pool = Orchard,
                        pa_birthday = 3000000\<rparr>),
     os_write_manifest = plain_writer,
     os_import = (\<lambda>a k. Ok (a @ [([CHR ''i''], Some (Some k))])),
     os_birthday = (\<lambda>n b. Ok ())\<rparr>"

lemma plain_writer_run:
  "plain_writer d name m s =
    (if path_exists s (manifest_path_in d name) then ([], Err (FileExists (manifest_path_in d name)))
     else ([disk_put d Dir s, disk_put (manifest_path_in d name) (ManifestFile (Some m)) (disk_put d Dir s)], Ok ()))"
  by (simp add: plain_writer_def Let_def io_bind_look io_bind_change)

lemma plain_writer_ok: "manifest_writer_ok plain_outside"
  unfolding manifest_writer_ok_def
proof (intro allI)
  fix d name m s
  have ne: "manifest_path_in d other \<noteq> d" for other by (simp add: manifest_path_in_def)
  have inj: "manifest_path_in d other = manifest_path_in d name \<longleftrightarrow> other = name" for other
    by (simp add: manifest_path_in_def)
  have un: "under d (manifest_path_in d name)" "under d d" by (simp_all add: under_def manifest_path_in_def)
  have w: "os_write_manifest plain_outside = plain_writer" by (simp add: plain_outside_def)
  show "(path_exists s (manifest_path_in d name) \<longrightarrow>
        (\<exists>e. os_write_manifest plain_outside d name m s = ([], Err e)))
      \<and> (\<forall>s' \<in> List.set (fst (os_write_manifest plain_outside d name m s)).
          (\<forall>p. \<not> under d p \<longrightarrow> \<not> under p d \<longrightarrow> disk_get s' p = disk_get s p)
          \<and> (\<forall>other. other \<noteq> name \<longrightarrow>
               disk_get s' (manifest_path_in d other) = disk_get s (manifest_path_in d other)))
      \<and> (snd (os_write_manifest plain_outside d name m s) = Ok () \<longrightarrow>
          disk_get (last (s # fst (os_write_manifest plain_outside d name m s))) (manifest_path_in d name)
            = Some (ManifestFile (Some m)))"
    unfolding w plain_writer_run using un ne inj by auto
qed

text \<open>What follows of the shared scan and of the databases' own directories.\<close>

lemma writer_states:
  assumes "manifest_writer_ok os" "s' \<in> List.set (fst (os_write_manifest os (manifest_dir n) name m s))"
    and "take 1 p \<noteq> [FLEET_DIR]" "p \<noteq> []"
  shows "disk_get s' p = disk_get s p"
proof -
  have "\<not> under (manifest_dir n) p" "\<not> under p (manifest_dir n)"
    using assms(3,4) by (cases p; auto simp: under_def manifest_dir_def fleet_dir_def)+
  then show ?thesis using assms(1,2) unfolding manifest_writer_ok_def by blast
qed

lemma writer_final:
  assumes "manifest_writer_ok os" "snd (os_write_manifest os (manifest_dir n) name m s) = Ok ()"
  shows "read_manifest (last (s # fst (os_write_manifest os (manifest_dir n) name m s))) n name = Ok (Some m)"
  using assms unfolding manifest_writer_ok_def read_manifest_def read_manifest_at_def manifest_path_def
  by (simp del: last.simps)

section \<open>The lookup\<close>

text \<open>
  The scan for shards, a loop over all indices, ends at the first gap with every shard before it.
\<close>

lemma shard_scan_stops_at_first_gap:
  "\<exists>n. existing_shard_dirs_in s root = List.map (\<lambda>i. root @ [shard_dir_name i]) [0..<n]
     \<and> (\<forall>i < n. path_is_dir s (root @ [shard_dir_name i]))
     \<and> \<not> path_is_dir s (root @ [shard_dir_name n])"
  by (rule existing_shard_dirs_char [of s root]) blast

text \<open>
  The remembered shard is a hint: whichever it is, the search finds the same account.
\<close>

lemma shard_hint_is_only_a_hint:
  assumes opens: "\<forall>d \<in> List.set shards. \<exists>r. account_in_shard s d want = Ok r"
    and unique: "\<forall>d \<in> List.set shards. \<forall>e \<in> List.set shards. \<forall>u v.
      account_in_shard s d want = Ok (Some u) \<longrightarrow> account_in_shard s e want = Ok (Some v) \<longrightarrow> d = e"
  shows "search_shards s shards want cached = search_shards s shards want None"
proof -
  have open1: "\<exists>r. search_shards s shards want h = Ok r" for h
    unfolding search_shards_def by (rule search_in_opens) (simp add: opens)
  have none: "search_shards s shards want h = Ok None \<longleftrightarrow>
      (\<forall>d \<in> List.set shards. account_in_shard s d want = Ok None)" for h
    by (simp add: search_shards_def search_in_None)
  obtain r q where r: "search_shards s shards want cached = Ok r" and q: "search_shards s shards want None = Ok q"
    using open1 by blast
  show ?thesis
  proof (cases r)
    case None
    with r none [of cached] none [of None] show ?thesis by simp
  next
    case (Some du)
    then obtain d u where du: "search_shards s shards want cached = Ok (Some (d, u))" using r by (cases du) auto
    have "q \<noteq> None"
    proof
      assume "q = None"
      then have "search_shards s shards want cached = Ok None"
        using q none [of None] none [of cached] by simp
      with du show False by simp
    qed
    then obtain e v where ev: "search_shards s shards want None = Ok (Some (e, v))" using q by (cases q) auto
    have d: "d \<in> List.set shards" "account_in_shard s d want = Ok (Some u)"
      using search_shards_found [OF du] .
    have e: "e \<in> List.set shards" "account_in_shard s e want = Ok (Some v)"
      using search_shards_found [OF ev] .
    have "d = e" using unique d e by blast
    with d e du ev show ?thesis by simp
  qed
qed


section \<open>Changing over\<close>

text \<open>A member's shard as the lookup finds it: the shard and the account with the key \<open>k\<close>.\<close>

definition shard_serves :: "disk \<Rightarrow> network \<Rightarrow> str \<Rightarrow> bytes \<Rightarrow> bool" where
  "shard_serves s n k u \<longleftrightarrow>
    (\<forall>cached. \<exists>d. search_shards s (existing_shard_dirs_in s (shards_dir n)) k cached = Ok (Some (d, u)))"

lemma shard_serves_cong: "same_fleet s s' \<Longrightarrow> shard_serves s' n k u = shard_serves s n k u"
  by (simp add: shard_serves_def search_shards_cong [OF same_fleet_shards])

lemma reader_shard:
  assumes "read_config (os_public os) s name = Ok c" "wc_engine c = Fleet" "wc_ufvk c = Some k"
    and "shard_serves s (wc_network c) k u"
  shows "io_result (reader_account os c name) s = Ok u"
proof -
  obtain d where "search_shards s (existing_shard_dirs_in s (shards_dir (wc_network c))) k (wc_shard c) = Ok (Some (d, u))"
    using assms(4) unfolding shard_serves_def by blast
  then show ?thesis using reader_fleet [OF assms(1) _ assms(3) assms(3)] assms(2) by (simp add: io_result_def)
qed

lemma flip_run:
  assumes "wc_engine c = FleetPending" "own \<le> shard"
  shows "flip_if_caught_up os c name own shard s =
    (let t = fst (rewrite_config (os_pid os) (wc_dir c) (to_encoding (with_engine Fleet c)) s);
         s1 = last (s # t) in (t @ fst (discard_own_wallet_files name s1), Ok True))"
  using assms
  by (simp add: flip_if_caught_up_def io_bind_Ok [OF set_engine_run] io_bind_try Let_def del: last.simps)

text \<open>
  C27. A converting database never goes dark: whenever the change-over to a shard that holds its
  account is interrupted, the next reader finds a wallet with the database's account, in its
  own files until the switch is recorded and in the shard from then on.
\<close>

theorem flip_never_goes_dark:
  assumes r: "read_config (os_public os) s name = Ok c" and k: "wc_ufvk c = Some k"
    and own: "engine_dir s name = Ok d" "disk_get s (d @ [DATA_DB]) = Some (WalletFile a)"
      "account_with_key a k = Some i"
    and shard: "shard_serves s (wc_network c) k u" and e: "wc_engine c \<noteq> Fleet"
    and s': "s' \<in> crash_states (flip_if_caught_up os c name own_scanned shard_scanned) s"
  shows "\<exists>c'. read_config (os_public os) s' name = Ok c'
    \<and> io_result (reader_account os c' name) s' = Ok (if wc_engine c' = Fleet then u else i)"
proof (cases "wc_engine c = FleetPending \<and> own_scanned \<le> shard_scanned")
  case False
  then have "s' = s" using s' by (auto simp: crash_states_def flip_if_caught_up_def)
  moreover have "io_result (reader_account os c name) s = Ok i"
    using reader_own [OF r _ own(1,2) select_account_key [OF k own(3)]] e
    by (simp add: io_result_def is_fleet_member_def)
  ultimately show ?thesis using r e by auto
next
  case True
  define c1 where "c1 = with_engine Fleet c"
  define t where "t = fst (rewrite_config (os_pid os) [name] (to_encoding c1) s)"
  define s1 where "s1 = last (s # t)"
  have ne: "\<not> is_fleet_member (wc_engine c)" using e by (simp add: is_fleet_member_def)
  have d: "wc_dir c = [name]" "config_ok c" and v: "validate_db_name name = Ok ()"
    using read_config_dir [OF r] by simp_all
  have watch: "wc_role c = Watch" using d(2) True by (simp add: config_ok_def)
  have c1: "config_ok c1" "wc_dir c1 = [name]" "wc_engine c1 = Fleet" "wc_ufvk c1 = Some k" "wc_network c1 = wc_network c"
    using watch k d by (auto simp: c1_def intro: config_ok_with)
  have states: "s' \<in> List.set (s # t) \<or> s' \<in> List.set (fst (discard_own_wallet_files name s1))"
    using s' True d flip_run [of c own_scanned shard_scanned os name s]
    by (auto simp: crash_states_def t_def s1_def c1_def Let_def simp del: last.simps)
  have in_shard: "io_result (reader_account os c1 name) x = Ok u"
    if "read_config (os_public os) x name = Ok c1" "same_fleet s x" for x
    using reader_shard [OF that(1) c1(3,4)] shard shard_serves_cong [OF that(2)] c1(5) by simp
  have before: ?thesis if "x \<in> List.set (s # t)" "s' = x" for x
  proof -
    have x: "x \<in> crash_states (rewrite_config (os_pid os) [name] (to_encoding c1)) s"
      using that(1) by (simp add: crash_states_def t_def)
    have same: "same_but_keys (os_pid os) [name] s x" by (rule rewrite_reads(2) [OF r c1(1,2) x])
    from rewrite_reads(1) [OF r c1(1,2) x] show ?thesis
    proof
      assume rx: "read_config (os_public os) x name = Ok c"
      have "engine_dir x name = Ok d"
        using own(1) same_but_keys_engine_dir [OF same] v by (simp add: engine_dir_def db_dir_def)
      moreover have "disk_get x (d @ [DATA_DB]) = Some (WalletFile a)"
        using same_but_keysD [OF same, of "d @ [DATA_DB]"] own(1,2) engine_dir_in_cases [of s "[name]" d] v
        by (auto simp: engine_dir_def db_dir_def rewrite_tmp_def nested_engine_dir_def)
      ultimately have "io_result (reader_account os c name) x = Ok i"
        using reader_own [OF rx ne _ _ select_account_key [OF k own(3)]] by (simp add: io_result_def)
      with rx e that(2) show ?thesis by auto
    next
      assume "read_config (os_public os) x name = Ok c1"
      with in_shard [OF this same_but_keys_fleet [OF same v]] c1(3) that(2) show ?thesis by auto
    qed
  qed
  have after: ?thesis if x: "s' \<in> List.set (fst (discard_own_wallet_files name s1))"
  proof -
    let ?P = "\<lambda>x. read_config (os_public os) x name = Ok c1 \<and> same_fleet s x"
    have "io_keeps ?P (discard_own_wallet_files name)"
    proof (rule discard_keeps)
      fix y y' assume y: "?P y" and eq: "\<And>p. \<not> wallet_path name p \<Longrightarrow> disk_get y' p = disk_get y p"
      have "disk_get y' [name, KEYS_FILE] = disk_get y [name, KEYS_FILE]"
        by (rule eq) (simp add: wallet_path_def)
      moreover have "disk_get y' p = disk_get y p" if "take 1 p = [FLEET_DIR]" for p
        using that valid_name_not_fleet [OF v] by (intro eq) (auto simp: wallet_path_def)
      ultimately show "?P y'"
        using y read_config_cong [of y' name y] by (simp add: same_fleet_def)
    qed
    moreover have "?P s1"
      using read_config_saved [OF _ v c1(1,2), of s1 "os_public os"]
        rewrite_config_final [where s = s and pid = "os_pid os" and dir = "[name]" and enc = "to_encoding c1"]
        same_but_keys_fleet [OF _ v]
      by (simp add: s1_def t_def del: last.simps)
    ultimately have "?P s'" using x unfolding io_keeps_def by blast
    with in_shard c1(3) show ?thesis by auto
  qed
  from states before after show ?thesis by blast
qed

section \<open>Enrolling\<close>

text \<open>Two disks with the same directory of a database but for its configuration.\<close>

definition same_own :: "nat \<Rightarrow> str \<Rightarrow> disk \<Rightarrow> disk \<Rightarrow> bool" where
  "same_own pid name s s' \<longleftrightarrow>
    (\<forall>p. take 1 p = [name] \<longrightarrow> p \<noteq> [name, KEYS_FILE] \<longrightarrow> p \<noteq> rewrite_tmp pid [name]
      \<longrightarrow> disk_get s' p = disk_get s p)"

lemma same_own_trans [trans]: "same_own pid name s t \<Longrightarrow> same_own pid name t u \<Longrightarrow> same_own pid name s u"
  by (simp add: same_own_def)

lemma same_but_keys_own: "same_but_keys pid [name] s s' \<Longrightarrow> same_own pid name s s'"
  by (simp add: same_but_keys_def same_own_def)

lemma same_own_wallet:
  assumes "same_own pid name s s'" "engine_dir s name = Ok d"
  shows "engine_dir s' name = Ok d" "disk_get s' (d @ [DATA_DB]) = disk_get s (d @ [DATA_DB])"
proof -
  have v: "validate_db_name name = Ok ()" and d: "engine_dir_in s [name] = Ok d"
    using assms(2) by (auto simp: engine_dir_def db_dir_Ok try_ok_Inr)
  have "engine_dir_in s' [name] = engine_dir_in s [name]"
    by (rule engine_dir_cong)
      (use assms(1) in \<open>simp_all add: same_own_def rewrite_tmp_def nested_engine_dir_def\<close>)
  then show "engine_dir s' name = Ok d" using v d by (simp add: engine_dir_def db_dir_def)
  show "disk_get s' (d @ [DATA_DB]) = disk_get s (d @ [DATA_DB])"
    using assms(1) engine_dir_in_cases [OF d] by (auto simp: same_own_def rewrite_tmp_def nested_engine_dir_def)
qed

lemma crash_states_bind:
  "crash_states (io_bind m k) s = crash_states m s \<union>
    (case snd (m s) of Inl e \<Rightarrow> {} | Inr x \<Rightarrow> crash_states (k x) (last (s # fst (m s))))"
  by (auto simp: crash_states_def io_bind_def Let_def split: sum.splits if_splits)

lemma final_in_crash_states: "last (s # fst (m s)) \<in> crash_states m s"
  by (auto simp: crash_states_def)

lemma crash_states_return [simp]: "crash_states (io_return x) s = {s}" "crash_states (io_fail e) s = {s}"
  by (simp_all add: crash_states_def)

lemma writer_same_own:
  assumes "manifest_writer_ok os" "validate_db_name name = Ok ()"
    and "s' \<in> crash_states (os_write_manifest os (manifest_dir n) name m) s"
  shows "same_own (os_pid os) name s s'" "disk_get s' [name, KEYS_FILE] = disk_get s [name, KEYS_FILE]"
proof -
  have same: "disk_get s' p = disk_get s p" if "take 1 p = [name]" for p
  proof -
    have "take 1 p \<noteq> [FLEET_DIR]" "p \<noteq> []" using that valid_name_not_fleet [OF assms(2)] by auto
    then show ?thesis using assms(3) writer_states [OF assms(1), where s' = s' and n = n and name = name and m = m and s = s and p = p]
      by (auto simp: crash_states_def)
  qed
  then show "same_own (os_pid os) name s s'" "disk_get s' [name, KEYS_FILE] = disk_get s [name, KEYS_FILE]"
    by (simp_all add: same_own_def)
qed

text \<open>What every state of an enrolment of the configuration \<open>c\<close> looks like.\<close>

definition enrolling :: "outside \<Rightarrow> str \<Rightarrow> wallet_config \<Rightarrow> disk \<Rightarrow> disk \<Rightarrow> bool" where
  "enrolling os name c s s' \<longleftrightarrow>
    same_own (os_pid os) name s s'
    \<and> (\<exists>c'. read_config (os_public os) s' name = Ok c'
        \<and> (wc_engine c' = wc_engine c
           \<or> wc_engine c' = FleetPending
             \<and> (\<exists>m. manifest_for c' = Ok m \<and> read_manifest s' (wc_network c') name = Ok (Some m))))"

lemma enrol_key_cases:
  obtains "enrol_key os c s = ([], Ok c)" "wc_ufvk c \<noteq> None"
  | e where "enrol_key os c s = ([], Err e)"
  | k where "enrol_key os c s =
      (fst (rewrite_config (os_pid os) (wc_dir c) (to_encoding (with_ufvk k c)) s), Ok (with_ufvk k c))"
proof (cases "wc_ufvk c")
  case (Some k)
  then show thesis by (intro that(1)) (simp_all add: enrol_key_def)
next
  case None
  show thesis
  proof (cases "wc_zkv_address c")
    case (Some addr)
    with None that(2,3) show thesis
      by (cases "os_parse os addr") (simp_all add: enrol_key_def pin_ufvk_run)
  next
    case (None)
    with \<open>wc_ufvk c = None\<close> that(2) show thesis by (simp add: enrol_key_def)
  qed
qed

lemma crash_states_quiet: "m s = ([], r) \<Longrightarrow> crash_states m s = {s}"
  by (simp add: crash_states_def)

lemma enrolling_start: "read_config (os_public os) s name = Ok c \<Longrightarrow> enrolling os name c s s"
  by (auto simp: enrolling_def same_own_def)

text \<open>The first half leaves a configuration with its key, as read back and as returned.\<close>

lemma enrol_key_states:
  assumes r: "read_config (os_public os) s name = Ok c"
    and s': "s' \<in> crash_states (enrol_key os c) s"
  shows "enrolling os name c s s'"
proof (cases rule: enrol_key_cases [of os c s])
  case 1
  with s' enrolling_start [OF r] show ?thesis by (simp add: crash_states_quiet)
next
  case (2 e)
  with s' enrolling_start [OF r] show ?thesis by (simp add: crash_states_quiet)
next
  case (3 k)
  have d: "wc_dir c = [name]" "config_ok c" using read_config_dir [OF r] by simp_all
  have s'1: "s' \<in> crash_states (rewrite_config (os_pid os) [name] (to_encoding (with_ufvk k c))) s"
    using s' 3 d by (simp add: crash_states_def)
  have ok: "config_ok (with_ufvk k c)" "wc_dir (with_ufvk k c) = [name]" using d by auto
  show ?thesis
    using rewrite_reads [OF r ok s'1] same_but_keys_own by (auto simp: enrolling_def)
qed

lemma enrol_key_result:
  assumes r: "read_config (os_public os) s name = Ok c" and res: "snd (enrol_key os c s) = Ok c1"
  shows "read_config (os_public os) (last (s # fst (enrol_key os c s))) name = Ok c1"
    and "wc_ufvk c1 \<noteq> None" "wc_engine c1 = wc_engine c" "wc_role c1 = wc_role c"
    "wc_network c1 = wc_network c"
proof -
  have d: "wc_dir c = [name]" "config_ok c" "validate_db_name name = Ok ()" using read_config_dir [OF r] by simp_all
  have "read_config (os_public os) (last (s # fst (enrol_key os c s))) name = Ok c1 \<and> wc_ufvk c1 \<noteq> None
    \<and> wc_engine c1 = wc_engine c \<and> wc_role c1 = wc_role c \<and> wc_network c1 = wc_network c"
  proof (cases rule: enrol_key_cases [of os c s])
    case 1
    with res r show ?thesis by simp
  next
    case (2 e)
    with res show ?thesis by simp
  next
    case (3 k)
    have "read_config (os_public os)
        (last (s # fst (rewrite_config (os_pid os) [name] (to_encoding (with_ufvk k c)) s))) name = Ok (with_ufvk k c)"
      by (rule read_config_saved) (use d rewrite_config_final(1) [where s = s and pid = "os_pid os" and dir = "[name]"] in auto)
    with 3 res d show ?thesis by (auto simp del: last.simps)
  qed
  then show "read_config (os_public os) (last (s # fst (enrol_key os c s))) name = Ok c1"
    and "wc_ufvk c1 \<noteq> None" "wc_engine c1 = wc_engine c" "wc_role c1 = wc_role c"
    "wc_network c1 = wc_network c" by simp_all
qed

text \<open>
  The second half: once the manifest is there, the rewriting of the configuration shows one
  state or the other, both with the manifest.
\<close>

lemma enrol_mark_states:
  assumes r: "read_config (os_public os) s name = Ok c" and m: "manifest_for c = Ok m"
    and there: "read_manifest s (wc_network c) name = Ok (Some m)" and watch: "wc_role c = Watch"
    and s': "s' \<in> crash_states (set_engine (os_pid os) FleetPending c) s"
  shows "enrolling os name c s s'"
proof -
  have d: "wc_dir c = [name]" "config_ok c" and v: "validate_db_name name = Ok ()"
    using read_config_dir [OF r] by simp_all
  have u: "wc_ufvk c \<noteq> None" using m by (cases "wc_ufvk c") (simp_all add: manifest_for_def)
  have s'1: "s' \<in> crash_states (rewrite_config (os_pid os) [name] (to_encoding (with_engine FleetPending c))) s"
    using s' d by (simp add: crash_states_def set_engine_run)
  have ok: "config_ok (with_engine FleetPending c)" "wc_dir (with_engine FleetPending c) = [name]"
    using d watch u by auto
  have same: "same_but_keys (os_pid os) [name] s s'" by (rule rewrite_reads(2) [OF r ok s'1])
  have man: "read_manifest s' (wc_network c) name = Ok (Some m)"
    using there read_manifest_cong [OF same_but_keys_fleet [OF same v]] by simp
  have "manifest_for (with_engine FleetPending c) = Ok m" using m by (simp add: manifest_for_def)
  with rewrite_reads(1) [OF r ok s'1] same_but_keys_own [OF same] man show ?thesis
    by (auto simp: enrolling_def)
qed

lemma enrolling_trans:
  assumes "same_own (os_pid os) name s t" "enrolling os name c1 t u" "wc_engine c1 = wc_engine c"
  shows "enrolling os name c s u"
  using assms same_own_trans unfolding enrolling_def by metis

lemma enrol_state_states:
  assumes w: "manifest_writer_ok os" and r: "read_config (os_public os) s name = Ok c"
    and u: "wc_ufvk c \<noteq> None" and watch: "wc_role c = Watch"
    and s': "s' \<in> crash_states (enrol_state os c name) s"
  shows "enrolling os name c s s'"
proof -
  have v: "validate_db_name name = Ok ()" using read_config_dir [OF r] by simp
  obtain m where m: "manifest_for c = Ok m" using u by (auto simp: manifest_for_def)
  define wm where "wm = os_write_manifest os (manifest_dir (wc_network c)) name m"
  define s1 where "s1 = last (s # fst (wm s))"
  have same: "same_own (os_pid os) name s x \<and> read_config (os_public os) x name = Ok c"
    if "x \<in> crash_states wm s" for x
    using writer_same_own [OF w v that [unfolded wm_def]] read_config_cong r by metis
  then have quiet: "enrolling os name c s x" if "x \<in> crash_states wm s" for x
    using that by (auto simp: enrolling_def)
  have s1: "same_own (os_pid os) name s s1" "read_config (os_public os) s1 name = Ok c"
    using same [of s1] final_in_crash_states [of s wm] by (simp_all add: s1_def)
  have mark: "enrolling os name c s x"
    if "read_manifest s1 (wc_network c) name = Ok (Some m)"
      "x \<in> crash_states (set_engine (os_pid os) FleetPending c) s1" for x
    using enrolling_trans [OF s1(1) enrol_mark_states [OF s1(2) m that(1) watch that(2)]] by simp
  have tr: "fst (io_try wm s) = fst (wm s)" "snd (io_try wm s) = Ok (snd (wm s))" by (simp_all add: io_try_def)
  have "s' \<in> crash_states wm s \<or> s' \<in> crash_states (case snd (wm s) of
      Inr _ \<Rightarrow> set_engine (os_pid os) FleetPending c
    | Inl e \<Rightarrow> io_bind (io_look (\<lambda>s. read_manifest s (wc_network c) name)) (\<lambda>old.
        if old = Some m then set_engine (os_pid os) FleetPending c else io_fail e)) s1"
    using s' m tr
    by (auto simp: enrol_state_def crash_states_bind wm_def [symmetric] s1_def crash_states_def [of "io_try wm"]
        crash_states_def [of wm] simp del: last.simps)
  then show ?thesis
  proof
    assume "s' \<in> crash_states wm s" then show ?thesis by (rule quiet)
  next
    assume x: "s' \<in> crash_states (case snd (wm s) of
      Inr _ \<Rightarrow> set_engine (os_pid os) FleetPending c
    | Inl e \<Rightarrow> io_bind (io_look (\<lambda>s. read_manifest s (wc_network c) name)) (\<lambda>old.
        if old = Some m then set_engine (os_pid os) FleetPending c else io_fail e)) s1"
    have q: "enrolling os name c s s1"
      using quiet final_in_crash_states [of s wm] by (simp add: s1_def)
    show ?thesis
    proof (cases "snd (wm s)")
      case (Inr y)
      then have "read_manifest s1 (wc_network c) name = Ok (Some m)"
        using writer_final [OF w, of "wc_network c" name m s] by (simp add: wm_def s1_def del: last.simps)
      with mark x Inr show ?thesis by simp
    next
      case (Inl e)
      show ?thesis
      proof (cases "read_manifest s1 (wc_network c) name = Ok (Some m)")
        case True
        with mark x Inl show ?thesis by (simp add: crash_states_def io_bind_look)
      next
        case False
        then have "s' = s1" using x Inl
          by (auto simp: crash_states_def io_bind_look split: sum.splits if_splits)
        with q show ?thesis by simp
      qed
    qed
  qed
qed

text \<open>
  An interrupted enrolment changes nothing for a reader: in every state on the way the database
  is still served from its own files, as they were, and a database that believes it is
  converting has the manifest of its viewing key, so there is always something to convert into.
\<close>

lemma enrol_is_crash_safe:
  assumes w: "manifest_writer_ok os" and r: "read_config (os_public os) s name = Ok c"
    and st: "is_standalone (wc_engine c)" and watch: "wc_role c = Watch"
    and own: "engine_dir s name = Ok d" "disk_get s (d @ [DATA_DB]) = Some (WalletFile [(i, acct)])"
    and s': "s' \<in> crash_states (enrol os c name) s"
  shows "\<exists>c'. read_config (os_public os) s' name = Ok c'
    \<and> wc_engine c' \<in> {wc_engine c, FleetPending}
    \<and> (wc_engine c' = FleetPending \<longrightarrow>
        (\<exists>m. manifest_for c' = Ok m \<and> read_manifest s' (wc_network c') name = Ok (Some m)))
    \<and> io_result (reader_account os c' name) s' = Ok i"
proof -
  have "enrolling os name c s s'"
  proof (cases "s' \<in> crash_states (enrol_key os c) s")
    case True
    then show ?thesis by (rule enrol_key_states [OF r])
  next
    case False
    then obtain c1 where c1: "snd (enrol_key os c s) = Ok c1"
      "s' \<in> crash_states (enrol_state os c1 name) (last (s # fst (enrol_key os c s)))"
      using s' by (auto simp: enrol_def crash_states_bind simp del: last.simps split: sum.splits)
    have "same_own (os_pid os) name s (last (s # fst (enrol_key os c s)))"
      using enrol_key_states [OF r final_in_crash_states] by (simp add: enrolling_def)
    moreover have "enrolling os name c1 (last (s # fst (enrol_key os c s))) s'"
      using enrol_state_states [OF w enrol_key_result(1,2) [OF r c1(1)] _ c1(2)] enrol_key_result(4) [OF r c1(1)]
        watch by simp
    ultimately show ?thesis using enrolling_trans enrol_key_result(3) [OF r c1(1)] by blast
  qed
  then obtain c' where c': "same_own (os_pid os) name s s'" "read_config (os_public os) s' name = Ok c'"
    "wc_engine c' = wc_engine c \<or> wc_engine c' = FleetPending
       \<and> (\<exists>m. manifest_for c' = Ok m \<and> read_manifest s' (wc_network c') name = Ok (Some m))"
    unfolding enrolling_def by blast
  have ne: "\<not> is_fleet_member (wc_engine c')" using c'(3) st by (auto simp: is_standalone_def)
  have "select_account [(i, acct)] c' name = Ok i"
    using ne by (auto simp: select_account_def Let_def split: option.splits)
  then have "io_result (reader_account os c' name) s' = Ok i"
    using reader_own [OF c'(2) ne] same_own_wallet [OF c'(1) own(1)] own(2) by (simp add: io_result_def)
  moreover have "wc_engine c = FleetPending \<Longrightarrow> False" using st by simp
  ultimately show ?thesis using c'(2,3) by auto
qed

section \<open>A database and a shard of two members\<close>

definition sample_config :: "wallet_engine \<Rightarrow> wallet_config" where
  "sample_config e =
    \<lparr>wc_network = TestNet, wc_role = Watch, wc_birthday = 3000000, wc_zkv_address = Some ''addr'',
     wc_pool = Orchard, wc_ufvk = Some ''uview1'', wc_engine = e, wc_shard = None,
     wc_seed = None, wc_dir = [''w'']\<rparr>"

definition sample_disk :: "wallet_config \<Rightarrow> disk" where
  "sample_disk c =
    [([''w''], Dir), ([''w'', ''keys.toml''], KeysFile (Some (to_encoding c))),
     ([''w'', ''data.sqlite''], WalletFile [(''own'', Some (Some ''uview1''))]),
     ([''.fleet'', ''testnet'', ''shards'', ''shard-0000''], Dir),
     ([''.fleet'', ''testnet'', ''shards'', ''shard-0000'', ''lrz''], Dir),
     ([''.fleet'', ''testnet'', ''shards'', ''shard-0000'', ''lrz'', ''data.sqlite''],
       WalletFile [(''other'', Some (Some ''uview9'')), (''shared'', Some (Some ''uview1''))])]"

lemma sample_name: "validate_db_name ''w'' = Ok ()"
  by code_simp

lemma sample_read: "config_ok c \<Longrightarrow> wc_dir c = [''w''] \<Longrightarrow> read_config pub (sample_disk c) ''w'' = Ok c"
  by (rule read_config_saved [OF _ sample_name]) (simp_all add: sample_disk_def disk_get_def)

lemma sample_config_ok: "config_ok (sample_config e)" "wc_dir (sample_config e) = [''w'']"
  by (simp_all add: config_ok_def sample_config_def)

lemma sample_own:
  "engine_dir (sample_disk c) ''w'' = Ok [''w'']"
  "disk_get (sample_disk c) ([''w''] @ [DATA_DB]) = Some (WalletFile [(''own'', Some (Some ''uview1''))])"
  by (simp_all add: engine_dir_def db_dir_def sample_name engine_dir_in_def nested_engine_dir_def
      sample_disk_def disk_get_def path_is_file_def path_is_dir_def path_exists_def)

lemma shard_dir_name_0: "shard_dir_name 0 = ''shard-0000''" "shard_dir_name 1 = ''shard-0001''"
  by code_simp+

lemma existing_shard_dirs_one:
  assumes "path_is_dir s (root @ [''shard-0000''])" "\<not> path_is_dir s (root @ [''shard-0001''])"
  shows "existing_shard_dirs_in s root = [root @ [''shard-0000'']]"
  using assms shard_dir_name_0 by (cases s) (simp_all add: existing_shard_dirs_in_def path_is_dir_def disk_get_def)

lemma hinted_order_one: "hinted_order [d] cached = [d]"
  by (cases cached) (auto simp: hinted_order_def swap_front_def)

lemma sample_shards:
  "existing_shard_dirs_in (sample_disk c) (shards_dir TestNet) = [[''.fleet'', ''testnet'', ''shards'', ''shard-0000'']]"
  using existing_shard_dirs_one [of "sample_disk c" "shards_dir TestNet"]
  by (simp add: shards_dir_def fleet_dir_def sample_disk_def path_is_dir_def disk_get_def)

lemma sample_found:
  "account_in_shard (sample_disk c) [''.fleet'', ''testnet'', ''shards'', ''shard-0000''] ''uview1'' = Ok (Some ''shared'')"
  by (simp add: account_in_shard_def open_wallet_db_def shard_engine_dir_def sample_disk_def disk_get_def)

lemma sample_serves: "shard_serves (sample_disk c) TestNet ''uview1'' ''shared''"
  by (simp add: shard_serves_def sample_shards search_shards_def hinted_order_one sample_found)


theorem flip_never_goes_dark_witness:
  "\<exists>c'. read_config (os_public plain_outside)
      (io_final (flip_if_caught_up plain_outside (sample_config FleetPending) ''w'' 10 20)
        (sample_disk (sample_config FleetPending))) ''w'' = Ok c'
    \<and> io_result (reader_account plain_outside c' ''w'')
      (io_final (flip_if_caught_up plain_outside (sample_config FleetPending) ''w'' 10 20)
        (sample_disk (sample_config FleetPending))) = Ok (if wc_engine c' = Fleet then ''shared'' else ''own'')"
  unfolding io_final_def
  by (rule flip_never_goes_dark [OF sample_read [OF sample_config_ok], where k = "''uview1''" and d = "[''w'']",
        OF _ sample_own _ _ _ final_in_crash_states])
    (simp_all add: sample_serves, simp_all add: sample_config_def sample_serves)

end
