(* ===== verification/Fleet_Safety.thy ===== *)
theory Fleet_Safety
  imports Fleet_Props
begin

text \<open>
  The databases beside each other: what an operation on one leaves of the others, what a wipe
  and an erasure leave of their own, that \<open>keys.toml\<close> loses nothing when it is rewritten, and
  the states in which a database is a member that no manifest imports.
\<close>

section \<open>Rewriting loses nothing\<close>

text \<open>
  A configuration that was read back and written again reads the same: seed, address, key and
  shard are the strings of the file, and the other fields have one spelling each.
\<close>

lemma config_rewrite_loses_nothing:
  assumes "config_of_encoding public dir e = Ok c"
  shows "config_of_encoding public dir (to_encoding c) = Ok c
    \<and> ce_mnemonic (to_encoding c) = ce_mnemonic e \<and> ce_zkv_address (to_encoding c) = ce_zkv_address e
    \<and> ce_ufvk (to_encoding c) = ce_ufvk e \<and> ce_shard (to_encoding c) = ce_shard e"
proof (intro conjI)
  show "config_of_encoding public dir (to_encoding c) = Ok c"
    using to_encoding_read [OF config_of_encoding_ok(1) [OF assms], of public] config_of_encoding_ok(2) [OF assms]
    by simp
  show "ce_mnemonic (to_encoding c) = ce_mnemonic e" "ce_zkv_address (to_encoding c) = ce_zkv_address e"
    "ce_ufvk (to_encoding c) = ce_ufvk e" "ce_shard (to_encoding c) = ce_shard e"
    using assms by (auto simp: config_of_encoding_def try_ok_Inr Let_def to_encoding_def split: if_splits)
qed

section \<open>Other databases\<close>

text \<open>What belongs to a database: its directory and its manifests.\<close>

definition same_database :: "str \<Rightarrow> disk \<Rightarrow> disk \<Rightarrow> bool" where
  "same_database other s s' \<longleftrightarrow>
    (\<forall>p. take 1 p = [other] \<longrightarrow> disk_get s' p = disk_get s p)
    \<and> (\<forall>n. disk_get s' (manifest_path n other) = disk_get s (manifest_path n other))"

text \<open>
  One operation on the database \<open>name\<close>, completed or cut off after any of its changes: opening
  it, joining and leaving the shared scan, the attempt to change over after a sync, adopting
  it, wiping its files and erasing it.
\<close>

inductive database_step :: "outside \<Rightarrow> str \<Rightarrow> disk \<Rightarrow> disk \<Rightarrow> bool" for os name where
  step_open: "s' \<in> crash_states (open_database os name) s \<Longrightarrow> database_step os name s s'"
| step_join: "s' \<in> crash_states (join_command os (Some name)) s \<Longrightarrow> database_step os name s s'"
| step_leave: "s' \<in> crash_states (leave_command os (Some name)) s \<Longrightarrow> database_step os name s s'"
| step_drive: "s' \<in> crash_states (drive_pending_fleet os handle name own shard) s \<Longrightarrow> database_step os name s s'"
| step_adopt: "read_config (os_public os) s name = Ok c \<Longrightarrow> s' \<in> crash_states (ensure_adopted os seed_key c) s
    \<Longrightarrow> database_step os name s s'"
| step_wipe: "s' \<in> crash_states (wipe_sidecars name) s \<Longrightarrow> database_step os name s s'"
| step_erase: "s' \<in> crash_states (erase_wallet_state os name) s \<Longrightarrow> database_step os name s s'"

text \<open>A path an operation on \<open>name\<close> may change.\<close>

definition own_path :: "str \<Rightarrow> path \<Rightarrow> bool" where
  "own_path name p \<longleftrightarrow> take 1 p = [name] \<or> (\<exists>n. p = manifest_path n name)"

lemma own_path_other:
  assumes "other \<noteq> name" "validate_db_name name = Ok ()" "validate_db_name other = Ok ()"
  shows "take 1 p = [other] \<Longrightarrow> \<not> own_path name p" "\<not> own_path name (manifest_path n other)"
  using assms valid_name_not_fleet [OF assms(2)] valid_name_not_fleet [OF assms(3)]
  by (auto simp: own_path_def manifest_path_def manifest_path_in_def manifest_dir_def fleet_dir_def)

text \<open>An invariant of the rest of the disk.\<close>

definition rest_fixed :: "str \<Rightarrow> (disk \<Rightarrow> bool) \<Rightarrow> bool" where
  "rest_fixed name P \<longleftrightarrow>
    (\<forall>s s'. P s \<longrightarrow> (\<forall>p. \<not> own_path name p \<longrightarrow> disk_get s' p = disk_get s p) \<longrightarrow> P s')"

lemma rest_fixedD: "rest_fixed name P \<Longrightarrow> P s \<Longrightarrow> (\<And>p. \<not> own_path name p \<Longrightarrow> disk_get s' p = disk_get s p) \<Longrightarrow> P s'"
  unfolding rest_fixed_def by blast

lemma keeps_put_del:
  assumes "rest_fixed name P" "own_path name p" "P s"
  shows "P (disk_put p n s)" "P (disk_del p s)"
  by (rule rest_fixedD [OF assms(1,3)], use assms(2) in auto)+

lemma keeps_del_all:
  assumes "rest_fixed name P" "take 1 d = [name]" "P s"
  shows "P (disk_del_all d s)"
proof (rule rest_fixedD [OF assms(1,3)])
  fix p assume p: "\<not> own_path name p"
  have "\<not> under d p"
  proof
    assume "under d p"
    then have "take 1 p = take 1 d" using assms(2) by (cases d; cases p) (auto simp: under_def)
    with p assms(2) show False by (simp add: own_path_def)
  qed
  then show "disk_get (disk_del_all d s) p = disk_get s p" by simp
qed

lemma keeps_rewrite:
  assumes "rest_fixed name P"
  shows "io_keeps P (rewrite_config pid [name] enc)"
proof -
  have own: "own_path name ([name] @ [KEYS_FILE])" "own_path name (rewrite_tmp pid [name])"
    by (simp_all add: own_path_def rewrite_tmp_def)
  note put = keeps_put_del(1) [OF assms] and del = keeps_put_del(2) [OF assms]
  show ?thesis
    unfolding rewrite_config_def Let_def by (intro io_keeps_bind io_keeps_change put del own)
qed

lemma keeps_save:
  assumes "rest_fixed name P" "wc_dir c = [name]"
  shows "io_keeps P (set_engine pid e c)" "io_keeps P (pin_ufvk pid k c)"
  unfolding set_engine_def pin_ufvk_def Let_def assms(2)
  by (intro io_keeps_bind keeps_rewrite [OF assms(1)] io_keeps_quiet)+

lemma keeps_remove_manifest:
  assumes "rest_fixed name P"
  shows "io_keeps P (remove_manifest n name)"
proof -
  have own: "own_path name (manifest_path n name)" by (auto simp: own_path_def)
  show ?thesis
    unfolding remove_manifest_def Let_def
    by (intro io_keeps_look io_keeps_when io_keeps_change keeps_put_del(2) [OF assms own])
qed

lemma keeps_discard:
  assumes "rest_fixed name P"
  shows "io_keeps P (discard_own_wallet_files name)"
proof (rule discard_keeps)
  fix s s' assume P: "P s" and eq: "\<And>p. \<not> wallet_path name p \<Longrightarrow> disk_get s' p = disk_get s p"
  show "P s'"
    by (rule rest_fixedD [OF assms P]) (rule eq, auto simp: own_path_def wallet_path_def)
qed

lemma keeps_flip:
  assumes "rest_fixed name P" "wc_dir c = [name]"
  shows "io_keeps P (flip_if_caught_up os c name own shard)"
  unfolding flip_if_caught_up_def
  by (cases "wc_engine c \<noteq> FleetPending \<or> shard < own"; simp only: if_True if_False)
    (intro io_keeps_bind io_keeps_try keeps_save [OF assms] keeps_discard [OF assms(1)] io_keeps_quiet)+

lemma keeps_sqlite:
  assumes "rest_fixed name P" "take 1 d = [name]"
  shows "io_keeps P (remove_sqlite_db d file)"
proof -
  have own: "own_path name (d @ q)" for q using assms(2) by (cases d) (auto simp: own_path_def)
  show ?thesis
    unfolding remove_sqlite_db_def by (intro io_keeps_bind io_keeps_change keeps_put_del(2) [OF assms(1) own])
qed

lemma keeps_wipe:
  assumes "rest_fixed name P"
  shows "io_keeps P (wipe_sidecars name)"
proof -
  have d: "take 1 d = [name]" "take 1 (d @ q) = [name]" if "engine_dir_in s [name] = Ok d" for s d q
    using engine_dir_in_cases [OF that] by (auto simp: nested_engine_dir_def)
  have root: "take 1 [name] = [name]" by simp
  show ?thesis
    unfolding wipe_sidecars_def
  proof (rule io_keeps_of)
    fix r assume "db_dir name = Ok r"
    then have r: "r = [name]" by (simp add: db_dir_Ok)
    show "io_keeps P (wipe_sidecars_in r)"
      unfolding wipe_sidecars_in_def r
      by (intro io_keeps_look io_keeps_bind keeps_sqlite [OF assms] io_keeps_when io_keeps_change
          keeps_del_all [OF assms]) (erule d | rule root)+
  qed
qed

lemma keeps_erase:
  assumes "rest_fixed name P"
  shows "io_keeps P (erase_wallet_state os name)"
proof (cases "db_dir name")
  case (Inl e)
  then show ?thesis by (simp add: erase_wallet_state_def io_keeps_quiet)
next
  case (Inr r)
  then have r: "r = [name]" by (simp add: db_dir_Ok)
  have root: "take 1 [name] = [name]" by simp
  show ?thesis
    unfolding erase_wallet_state_def Inr sum.case r
    by (intro io_keeps_look io_keeps_bind io_keeps_change keeps_del_all [OF assms root])
      (auto split: sum.split intro!: io_keeps_bind io_keeps_try keeps_remove_manifest [OF assms] io_keeps_quiet)
qed

lemma keeps_enrol:
  assumes "rest_fixed name P" "wc_dir c = [name]"
    and "\<And>n m. io_keeps P (os_write_manifest os (manifest_dir n) name m)"
  shows "io_keeps P (enrol_key os c)" "io_keeps P (enrol_state os c name)"
proof -
  show "io_keeps P (enrol_key os c)"
    unfolding enrol_key_def
    by (auto split: sum.split intro!: io_keeps_of keeps_save(2) [OF assms(1,2)] io_keeps_quiet)
  have mark: "io_keeps P (set_engine (os_pid os) FleetPending c)" by (rule keeps_save(1) [OF assms(1,2)])
  show "io_keeps P (enrol_state os c name)"
    unfolding enrol_state_def
    by (intro io_keeps_of io_keeps_bind io_keeps_try assms(3))
      (auto split: sum.split intro!: io_keeps_look mark io_keeps_quiet)
qed

lemma enrol_key_dir: "snd (enrol_key os c s) = Ok c1 \<Longrightarrow> wc_dir c1 = wc_dir c"
  by (rule enrol_key_cases [of os c s]) auto

lemma io_keeps_bind_result:
  assumes "io_keeps P m" "\<And>s x. P s \<Longrightarrow> snd (m s) = Ok x \<Longrightarrow> io_keeps P (k x)"
  shows "io_keeps P (io_bind m k)"
  unfolding io_keeps_def
proof (intro allI impI ballI)
  fix s s' assume P: "P s" and s': "s' \<in> List.set (fst (io_bind m k s))"
  show "P s'"
  proof (cases "snd (m s)")
    case (Inl e)
    with s' P assms(1) show ?thesis by (simp add: io_bind_def io_keeps_def)
  next
    case (Inr x)
    have "s' \<in> List.set (fst (m s)) \<or> s' \<in> List.set (fst (k x (last (s # fst (m s)))))"
      using s' Inr by (auto simp: io_bind_def Let_def)
    with assms(2) [OF P Inr] assms(1) P io_keeps_last [OF assms(1) P] show ?thesis
      unfolding io_keeps_def by blast
  qed
qed

lemma keeps_enrol_all:
  assumes "rest_fixed name P" "wc_dir c = [name]"
    and "\<And>n m. io_keeps P (os_write_manifest os (manifest_dir n) name m)"
  shows "io_keeps P (enrol os c name)" "io_keeps P (enrol_if_unchosen os c name)"
proof -
  have key: "io_keeps P (enrol_key os c)" by (rule keeps_enrol(1) [OF assms])
  have st: "io_keeps P (enrol_state os x name)" if "snd (enrol_key os c s) = Ok x" for s x
    using keeps_enrol(2) [OF assms(1) _ assms(3)] enrol_key_dir [OF that] assms(2) by simp
  show "io_keeps P (enrol os c name)"
    unfolding enrol_def by (rule io_keeps_bind_result [OF key]) (rule st)
  have r: "io_keeps P (io_bind (io_try (enrol_key os c)) (\<lambda>r. case r of
      Inl _ \<Rightarrow> io_return c
    | Inr c1 \<Rightarrow> io_bind (io_try (enrol_state os c1 name)) (\<lambda>r2.
        case r2 of Inl _ \<Rightarrow> io_return c1 | Inr c2 \<Rightarrow> io_return c2)))"
  proof (rule io_keeps_bind_result)
    show "io_keeps P (io_try (enrol_key os c))" using key by (rule io_keeps_try)
    fix s x assume x: "snd (io_try (enrol_key os c) s) = Ok x"
    show "io_keeps P (case x of Inl _ \<Rightarrow> io_return c
      | Inr c1 \<Rightarrow> io_bind (io_try (enrol_state os c1 name)) (\<lambda>r2.
          case r2 of Inl _ \<Rightarrow> io_return c1 | Inr c2 \<Rightarrow> io_return c2))"
      using st [of s] x
      by (auto simp: io_try_def split: sum.split intro!: io_keeps_bind io_keeps_quiet)
        (simp add: io_keeps_def)
  qed
  show "io_keeps P (enrol_if_unchosen os c name)"
    unfolding enrol_if_unchosen_def by (intro io_keeps_look) (auto intro: r io_keeps_quiet)
qed

lemma rest_fixed_same_database:
  assumes "other \<noteq> name" "validate_db_name name = Ok ()" "validate_db_name other = Ok ()"
  shows "rest_fixed name (same_database other s0)"
  unfolding rest_fixed_def
proof (intro allI impI)
  fix s s' assume "same_database other s0 s" "\<forall>p. \<not> own_path name p \<longrightarrow> disk_get s' p = disk_get s p"
  then show "same_database other s0 s'"
    using own_path_other [OF assms] by (simp add: same_database_def)
qed

lemma writer_keeps_database:
  assumes w: "manifest_writer_ok os" and ne: "other \<noteq> name" and v: "validate_db_name other = Ok ()"
  shows "io_keeps (same_database other s0) (os_write_manifest os (manifest_dir n) name m)"
  unfolding io_keeps_def
proof (intro allI impI ballI)
  fix s s' assume P: "same_database other s0 s" and s': "s' \<in> List.set (fst (os_write_manifest os (manifest_dir n) name m s))"
  have "disk_get s' p = disk_get s p" if "take 1 p = [other]" for p
    by (rule writer_states [OF w s']) (use that valid_name_not_fleet [OF v] in auto)
  moreover have "disk_get s' (manifest_path k other) = disk_get s (manifest_path k other)" for k
  proof (cases "k = n")
    case True
    then show ?thesis using w s' ne unfolding manifest_writer_ok_def manifest_path_def by blast
  next
    case False
    then have "\<not> under (manifest_dir n) (manifest_path k other)" "\<not> under (manifest_path k other) (manifest_dir n)"
      by (auto simp: under_def manifest_path_def manifest_path_in_def manifest_dir_def fleet_dir_def)
    then show ?thesis using w s' unfolding manifest_writer_ok_def by blast
  qed
  ultimately show "same_database other s0 s'" using P by (simp add: same_database_def)
qed

text \<open>An operation refused for its name changes nothing.\<close>

lemma invalid_name_quiet:
  assumes "validate_db_name name \<noteq> Ok ()" and step: "database_step os name s s'"
  shows "s' = s"
proof -
  obtain e where d: "db_dir name = Err e"
    using assms(1) by (cases "validate_db_name name") (auto simp: db_dir_def)
  then have r: "read_config pub x name = Err e" for pub x by (simp add: read_config_def)
  from step show ?thesis
    by cases (auto simp: crash_states_def open_database_def join_command_def leave_command_def
        drive_pending_fleet_def resolve_db_def io_bind_look wipe_sidecars_def erase_wallet_state_def d r
        split: if_splits option.splits)
qed

lemma keeps_after:
  "io_keeps (same_database other s) m \<Longrightarrow> s' \<in> crash_states m s \<Longrightarrow> same_database other s s'"
  using io_keeps_crash [of "same_database other s" m s] by (simp add: same_database_def)



section \<open>Wiping and erasing\<close>

lemma remove_sqlite_db_run:
  "remove_sqlite_db d file s =
    ([disk_del (d @ [file]) s, disk_del (d @ [file @ ''-wal'']) (disk_del (d @ [file]) s),
      disk_del (d @ [file @ ''-shm'']) (disk_del (d @ [file @ ''-wal'']) (disk_del (d @ [file]) s))], Ok ())"
  by (simp add: remove_sqlite_db_def io_bind_change)

text \<open>A database file and its companions.\<close>

definition companions :: "path \<Rightarrow> str \<Rightarrow> path set" where
  "companions d f = {d @ [f], d @ [f @ ''-wal''], d @ [f @ ''-shm'']}"

lemma disk_get_fold_del: "disk_get (fold disk_del ps s) p = (if p \<in> List.set ps then None else disk_get s p)"
  by (induction ps arbitrary: s) auto

definition wiped_files :: "path \<Rightarrow> path \<Rightarrow> path list" where
  "wiped_files root d =
    [d @ [DATA_DB], d @ [DATA_DB @ ''-wal''], d @ [DATA_DB @ ''-shm''],
     d @ [BLOCKMETA_DB], d @ [BLOCKMETA_DB @ ''-wal''], d @ [BLOCKMETA_DB @ ''-shm''],
     root @ [ZKV_STATE_DB], root @ [ZKV_STATE_DB @ ''-wal''], root @ [ZKV_STATE_DB @ ''-shm'']]"

lemma wiped_files_companions:
  "List.set (wiped_files root d) = companions d DATA_DB \<union> companions d BLOCKMETA_DB \<union> companions root ZKV_STATE_DB"
  by (auto simp: wiped_files_def companions_def)

lemma wipe_final:
  assumes "engine_dir_in s root = Ok d"
  shows "disk_get (io_final (wipe_sidecars_in root) s) p =
    (if p \<in> List.set (wiped_files root d) \<or> under (d @ [BLOCKS_FOLDER]) p \<and> path_exists s (d @ [BLOCKS_FOLDER])
     then None else disk_get s p)"
proof -
  define t where "t = fold disk_del (wiped_files root d) s"
  have "d @ [BLOCKS_FOLDER] \<notin> List.set (wiped_files root d)"
    using engine_dir_in_cases [OF assms] by (auto simp: wiped_files_def nested_engine_dir_def)
  then have blocks: "path_exists t (d @ [BLOCKS_FOLDER]) = path_exists s (d @ [BLOCKS_FOLDER])"
    by (simp add: t_def path_exists_def disk_get_fold_del)
  have "io_final (wipe_sidecars_in root) s =
      (if path_exists s (d @ [BLOCKS_FOLDER]) then disk_del_all (d @ [BLOCKS_FOLDER]) t else t)"
    using assms blocks
    by (simp add: io_final_def wipe_sidecars_in_def io_bind_look io_bind_Ok [OF remove_sqlite_db_run] t_def
        wiped_files_def)
  then show ?thesis
    by (simp add: t_def disk_get_fold_del)
qed

text \<open>
  A wipe takes each of the database's SQLite files with the companions that would bring it back,
  wherever the engine keeps them, and keeps what the database is rebuilt from: its
  configuration and its identity; what is left resolves to the root, where a fresh wallet is
  laid down.
\<close>

lemma wipe_keeps_only_what_rebuilds:
  assumes v: "validate_db_name name = Ok ()" and d: "engine_dir_in s [name] = Ok d"
  shows "p \<in> companions d DATA_DB \<union> companions d BLOCKMETA_DB \<union> companions [name] ZKV_STATE_DB
      \<Longrightarrow> disk_get (io_final (wipe_sidecars name) s) p = None"
    and "disk_get (io_final (wipe_sidecars name) s) [name, KEYS_FILE] = disk_get s [name, KEYS_FILE]"
    and "disk_get (io_final (wipe_sidecars name) s) [name, ''security-theater-key'']
      = disk_get s [name, ''security-theater-key'']"
    and "engine_dir_in (io_final (wipe_sidecars name) s) [name] = Ok [name]"
proof -
  define s' where "s' = io_final (wipe_sidecars name) s"
  have s': "disk_get s' p =
    (if p \<in> List.set (wiped_files [name] d) \<or> under (d @ [BLOCKS_FOLDER]) p \<and> path_exists s (d @ [BLOCKS_FOLDER])
     then None else disk_get s p)" for p
    using wipe_final [OF d, of p] v by (simp add: s'_def wipe_sidecars_def db_dir_def io_final_def)
  have dc: "d = [name] \<or> d = [name, ENGINE_COIN_DIR, ENGINE_STORAGE_DIR]"
    using engine_dir_in_cases [OF d] by (simp add: nested_engine_dir_def)
  show "p \<in> companions d DATA_DB \<union> companions d BLOCKMETA_DB \<union> companions [name] ZKV_STATE_DB
      \<Longrightarrow> disk_get (io_final (wipe_sidecars name) s) p = None"
    using s' [of p] by (auto simp: wiped_files_companions s'_def [symmetric])
  show "disk_get (io_final (wipe_sidecars name) s) [name, KEYS_FILE] = disk_get s [name, KEYS_FILE]"
    "disk_get (io_final (wipe_sidecars name) s) [name, ''security-theater-key'']
      = disk_get s [name, ''security-theater-key'']"
    using s' dc by (auto simp: under_def wiped_files_def s'_def [symmetric])
  show "engine_dir_in (io_final (wipe_sidecars name) s) [name] = Ok [name]"
  proof (rule disjE [OF dc])
    assume root: "d = [name]"
    have "disk_get s' [name, ENGINE_COIN_DIR, ENGINE_STORAGE_DIR, DATA_DB]
        = disk_get s [name, ENGINE_COIN_DIR, ENGINE_STORAGE_DIR, DATA_DB]"
      unfolding s' root by (auto simp: under_def wiped_files_def)
    with d root show ?thesis
      by (auto simp: engine_dir_in_def nested_engine_dir_def path_is_file_def path_exists_def path_is_dir_def
          Let_def s'_def [symmetric] split: if_splits)
  next
    assume nested: "d = [name, ENGINE_COIN_DIR, ENGINE_STORAGE_DIR]"
    have "disk_get s' [name, ENGINE_COIN_DIR, ENGINE_STORAGE_DIR, DATA_DB] = None"
      unfolding s' nested by (simp add: wiped_files_def)
    then show ?thesis
      by (simp add: engine_dir_in_def nested_engine_dir_def path_is_file_def path_exists_def Let_def
          s'_def [symmetric])
  qed
qed

text \<open>An erased database leaves no file, and no manifest where it was enrolled.\<close>

lemma erase_leaves_nothing:
  assumes v: "validate_db_name name = Ok ()"
  shows "take 1 p = [name] \<Longrightarrow> disk_get (io_final (erase_wallet_state os name) s) p = None"
    and "read_config (os_public os) s name = Ok c \<Longrightarrow> \<not> is_standalone (wc_engine c)
      \<Longrightarrow> \<not> path_is_dir s (manifest_path (wc_network c) name)
      \<Longrightarrow> disk_get (io_final (erase_wallet_state os name) s) (manifest_path (wc_network c) name) = None"
proof -
  define pre :: "unit io" where "pre = (case read_config (os_public os) s name of
      Inr c \<Rightarrow> if \<not> is_standalone (wc_engine c)
        then io_bind (io_try (remove_manifest (wc_network c) name)) (\<lambda>_. io_return ()) else io_return ()
    | Inl _ \<Rightarrow> io_return ())"
  have pre_ok: "snd (pre s) = Ok ()"
    by (auto simp: pre_def io_bind_try split: sum.split)
  have run: "io_final (erase_wallet_state os name) s = disk_del_all [name] (last (s # fst (pre s)))"
  proof -
    have "fst (io_bind pre (\<lambda>_. io_change (disk_del_all [name])) s) =
        fst (pre s) @ [disk_del_all [name] (last (s # fst (pre s)))]"
      using pre_ok by (simp add: io_bind_def Let_def)
    then show ?thesis
      using v by (simp add: io_final_def erase_wallet_state_def db_dir_def io_bind_look pre_def)
  qed
  show "take 1 p = [name] \<Longrightarrow> disk_get (io_final (erase_wallet_state os name) s) p = None"
    unfolding run by (cases p) (simp_all add: under_def)
  assume r: "read_config (os_public os) s name = Ok c" and e: "\<not> is_standalone (wc_engine c)"
    and nd: "\<not> path_is_dir s (manifest_path (wc_network c) name)"
  have "disk_get (last (s # fst (pre s))) (manifest_path (wc_network c) name) = None"
    using nd unfolding pre_def r sum.case
    by (simp add: e io_bind_try remove_manifest_def Let_def io_bind_look path_exists_def io_when_def)
  then show "disk_get (io_final (erase_wallet_state os name) s) (manifest_path (wc_network c) name) = None"
    unfolding run by simp
qed

end
