(* ===== verification/Fleet_Gaps.thy ===== *)
theory Fleet_Gaps
  imports Fleet_Safety
begin

text \<open>
  What creation makes of a member, and the runs that show where the shared scan's own rules are
  not kept: a member without a manifest, a member by the engine's reserved name, a
  configuration held from before a conversion, and the files a change-over and a rebuild leave
  or lose.
\<close>

section \<open>Creating a member\<close>

lemma ensure_db_dir_result: "io_result (ensure_db_dir name) s = Ok d \<longleftrightarrow> validate_db_name name = Ok () \<and> d = [name]"
  by (auto simp: ensure_db_dir_def io_result_bind db_dir_Ok create_private_dir_def io_when_def)

lemma ensure_db_dir_final:
  "validate_db_name name = Ok () \<Longrightarrow>
    io_final (ensure_db_dir name) s = (if path_exists s [name] then s else disk_put [name] Dir s)"
  by (simp add: ensure_db_dir_def db_dir_def create_private_dir_def io_when_def io_final_def io_bind_look
      io_bind_def Let_def)

lemma write_config_result:
  "io_result (write_config dir cfg) s = Ok u \<longleftrightarrow> \<not> path_exists s (dir @ [KEYS_FILE])"
  by (simp add: write_config_def Let_def io_result_bind)

lemma write_config_final:
  assumes "\<not> path_exists s (dir @ [KEYS_FILE])"
  shows "io_final (write_config dir cfg) s =
    disk_put (dir @ [KEYS_FILE]) (KeysFile (Some cfg)) (disk_put (dir @ [KEYS_FILE]) (KeysFile (Some empty_encoding)) s)"
  using assms by (simp add: write_config_def Let_def io_final_def io_bind_look io_bind_change)

text \<open>The configuration \<open>init_watch\<close> writes for a member, as it is read back.\<close>

definition member_config :: "str \<Rightarrow> parsed_addr \<Rightarrow> str \<Rightarrow> wallet_config" where
  "member_config name p addr =
    \<lparr>wc_network = pa_network p, wc_role = Watch, wc_birthday = pa_birthday p, wc_zkv_address = Some addr,
     wc_pool = pa_pool p, wc_ufvk = Some (pa_ufvk p (pa_network p)), wc_engine = Fleet, wc_shard = None,
     wc_seed = None, wc_dir = [name]\<rparr>"

lemma member_config_encoding:
  "watch_encoding (pa_birthday p) (pa_network p) addr (pa_pool p) Fleet (Some (pa_ufvk p (pa_network p)))
    = to_encoding (member_config name p addr)"
  by (simp add: watch_encoding_def to_encoding_def member_config_def)

lemma init_watch_config_member:
  assumes "os_parse os addr = Ok p"
    and "io_result (init_watch_config os name (pa_birthday p) (pa_network p) addr (pa_pool p) Fleet) s = Ok u"
  defines "s1 \<equiv> io_final (init_watch_config os name (pa_birthday p) (pa_network p) addr (pa_pool p) Fleet) s"
  shows "read_config pub s1 name = Ok (member_config name p addr)"
    and "q \<noteq> [name] \<Longrightarrow> q \<noteq> [name, KEYS_FILE] \<Longrightarrow> disk_get s1 q = disk_get s q"
    and "validate_db_name name = Ok ()"
proof -
  let ?cfg = "watch_encoding (pa_birthday p) (pa_network p) addr (pa_pool p) Fleet (Some (pa_ufvk p (pa_network p)))"
  show v: "validate_db_name name = Ok ()"
    using assms(2) by (auto simp: init_watch_config_def io_result_bind ensure_db_dir_result)
  have e: "io_result (ensure_db_dir name) s = Ok [name]" by (simp add: ensure_db_dir_result v)
  let ?s0 = "io_final (ensure_db_dir name) s"
  have w: "\<not> path_exists ?s0 ([name] @ [KEYS_FILE])"
    using assms(1,2) e by (auto simp: init_watch_config_def io_result_bind write_config_result)
  have s1: "s1 = io_final (write_config [name] ?cfg) ?s0"
    unfolding s1_def init_watch_config_def by (subst io_final_bind [OF e]) (simp add: assms(1))
  have "config_ok (member_config name p addr)" "wc_dir (member_config name p addr) = [name]"
    by (simp_all add: config_ok_def member_config_def)
  then show "read_config pub s1 name = Ok (member_config name p addr)"
    by (intro read_config_saved [OF _ v]) (simp_all add: s1 write_config_final [OF w] member_config_encoding)
  show "q \<noteq> [name] \<Longrightarrow> q \<noteq> [name, KEYS_FILE] \<Longrightarrow> disk_get s1 q = disk_get s q"
    unfolding s1 write_config_final [OF w] by (simp add: ensure_db_dir_final [OF v])
qed

lemma promote_current_final:
  assumes "io_result (promote_current name) s = Ok u" "q \<noteq> [CURRENT_MARKER]"
  shows "disk_get (io_final (promote_current name) s) q = disk_get s q"
proof -
  have set: "disk_get (io_final (set_current_db name) s) q = disk_get s q"
    using assms(2) by (cases "validate_db_name name") (simp_all add: set_current_db_def io_final_def io_bind_change io_change_def)
  show ?thesis
  proof (cases "current_db s")
    case (Inl e)
    then show ?thesis by (simp add: promote_current_def io_final_def io_bind_look)
  next
    case (Inr cur)
    then have "io_final (promote_current name) s =
        io_final (case cur of None \<Rightarrow> set_current_db name
          | Some c \<Rightarrow> if c = DEMO_DB_NAME then set_current_db name else io_return ()) s"
      by (simp add: promote_current_def io_final_def io_bind_look)
    with set show ?thesis by (simp split: option.split)
  qed
qed

lemma open_member:
  assumes "read_config (os_public os) s name = Ok c" "wc_engine c = Fleet"
  shows "open_database os name s = ([], Ok c)"
  using assms by (simp add: open_database_def io_bind_look enrol_if_unchosen_def should_enrol_def is_unset_def)

text \<open>
  Creating a watch-only database as a member: when it succeeds, its configuration is that of a
  member with its viewing key pinned, its manifest has that key and the birthday of the
  address, and nothing else was put in its directory: it has no wallet files of its own.
\<close>

lemma creation_makes_a_member:
  assumes w: "manifest_writer_ok os" and p: "os_parse os addr = Ok p"
    and res: "io_result (init_watch_with os receiver identity name addr Fleet) s = Ok c"
  shows "c = member_config name p addr
    \<and> read_config (os_public os) (io_final (init_watch_with os receiver identity name addr Fleet) s) name = Ok c
    \<and> read_manifest (io_final (init_watch_with os receiver identity name addr Fleet) s) (pa_network p) name =
        Ok (Some \<lparr>mf_ufvk = pa_ufvk p (pa_network p), mf_birthday = pa_birthday p\<rparr>)
    \<and> (\<forall>q. take 1 q = [name] \<longrightarrow> q \<noteq> [name] \<longrightarrow> q \<noteq> [name, KEYS_FILE] \<longrightarrow>
        disk_get (io_final (init_watch_with os receiver identity name addr Fleet) s) q = disk_get s q)"
proof -
  define s' where "s' = io_final (init_watch_with os receiver identity name addr Fleet) s"
  let ?n = "pa_network p"
  let ?cfg = "init_watch_config os name (pa_birthday p) ?n addr (pa_pool p) Fleet"
  let ?c = "member_config name p addr"
  let ?m = "\<lparr>mf_ufvk = pa_ufvk p ?n, mf_birthday = pa_birthday p\<rparr>"
  let ?wm = "os_write_manifest os (manifest_dir ?n) name ?m"
  let ?put = "io_bind (io_look (\<lambda>s. read_config (os_public os) s name)) (\<lambda>c.
              io_bind (io_of (manifest_for c)) (\<lambda>m. os_write_manifest os (manifest_dir ?n) name m))"
  have man: "manifest_for ?c = Ok ?m" by (simp add: manifest_for_def member_config_def)
  obtain u where u: "io_result ?cfg s = Ok u"
    using res by (auto simp: init_watch_with_def p Let_def io_result_bind io_final_bind)
  define s1 where "s1 = io_final ?cfg s"
  have v: "validate_db_name name = Ok ()" by (rule init_watch_config_member(3) [OF p u])
  have r1: "read_config pub s1 name = Ok ?c" for pub
    unfolding s1_def by (rule init_watch_config_member(1) [OF p u])
  have same1: "disk_get s1 q = disk_get s q" if "q \<noteq> [name]" "q \<noteq> [name, KEYS_FILE]" for q
    unfolding s1_def by (rule init_watch_config_member(2) [OF p u that])
  have put: "?put s1 = ?wm s1" by (simp add: io_bind_look r1 man)
  then have put_rf: "io_result ?put s1 = io_result ?wm s1" "io_final ?put s1 = io_final ?wm s1"
    by (simp_all add: io_result_def io_final_def)
  have whole: "io_result (init_watch_with os receiver identity name addr Fleet) s = Ok c \<and>
      s' = io_final (open_database os name) (io_final (promote_current name) (io_final ?wm s1))
      \<and> (\<exists>a. io_result ?wm s1 = Ok a) \<and> (\<exists>b. io_result (promote_current name) (io_final ?wm s1) = Ok b)
      \<and> io_result (open_database os name) (io_final (promote_current name) (io_final ?wm s1)) = Ok c"
    using res put_rf unfolding s'_def
    by (auto simp: init_watch_with_def p Let_def io_result_bind io_final_bind s1_def [symmetric])
  define s2 where "s2 = io_final ?wm s1"
  define s3 where "s3 = io_final (promote_current name) s2"
  have wr: "io_result ?wm s1 = Ok ()" and pr: "\<exists>b. io_result (promote_current name) s2 = Ok b"
    and op: "io_result (open_database os name) s3 = Ok c" "s' = io_final (open_database os name) s3"
    using whole by (auto simp: s2_def s3_def)
  have in2: "s2 \<in> crash_states ?wm s1" unfolding s2_def io_final_def by (rule final_in_crash_states)
  have keys2: "disk_get s2 q = disk_get s1 q" if "take 1 q = [name]" for q
  proof -
    have "take 1 q \<noteq> [FLEET_DIR]" "q \<noteq> []" using that valid_name_not_fleet [OF v] by auto
    then show ?thesis using in2 writer_states [OF w, where p = q] by (auto simp: crash_states_def)
  qed
  have nc: "name \<noteq> CURRENT_MARKER" by (rule validate_db_name_Ok(4) [OF v])
  have same3: "disk_get s3 q = disk_get s2 q" if "q \<noteq> [CURRENT_MARKER]" for q
    using pr promote_current_final [of name s2 _ q] that by (auto simp: s3_def)
  have "disk_get s3 [name, KEYS_FILE] = disk_get s1 [name, KEYS_FILE]" using same3 keys2 by simp
  then have r3: "read_config pub s3 name = Ok ?c" for pub using read_config_cong r1 by metis
  have open3: "open_database os name s3 = ([], Ok ?c)"
    by (rule open_member [OF r3]) (simp add: member_config_def)
  then have c: "c = member_config name p addr" using op(1) by (simp add: io_result_def)
  have s': "s' = s3" using op(2) open3 by (simp add: io_final_def)
  have rd: "read_config (os_public os) s' name = Ok c" unfolding s' c by (rule r3)
  have "read_manifest s2 ?n name = Ok (Some ?m)"
    using writer_final [OF w, of ?n name ?m s1] wr by (simp add: s2_def io_final_def io_result_def del: last.simps)
  moreover have "same_fleet s2 s3"
    unfolding same_fleet_def by (intro allI impI, rule same3) auto
  ultimately have mn: "read_manifest s' ?n name = Ok (Some ?m)" using read_manifest_cong s' by simp
  have "disk_get s' q = disk_get s q" if q: "take 1 q = [name]" "q \<noteq> [name]" "q \<noteq> [name, KEYS_FILE]" for q
  proof -
    have "q \<noteq> [CURRENT_MARKER]" using q(1) nc by auto
    then show ?thesis using same3 [of q] keys2 [of q] same1 [of q] q unfolding s' by simp
  qed
  with c rd mn show ?thesis unfolding s'_def by blast
qed

lemma no_databases: "list_dbs [] = []"
  by (simp add: list_dbs_def)

lemma creation_succeeds:
  "io_result (init_watch_with plain_outside (\<lambda>_ _ _. None) identity ''default'' ''a'' Fleet) [] =
    Ok (member_config ''default'' \<lparr>pa_network = TestNet, pa_ufvk = (\<lambda>n. ''uviewa''), pa_pool = Orchard,
                        pa_birthday = 3000000\<rparr> ''a'')"
proof -
  let ?p = "\<lparr>pa_network = TestNet, pa_ufvk = (\<lambda>n. ''uviewa''), pa_pool = Orchard, pa_birthday = 3000000\<rparr>"
  let ?cfg = "init_watch_config plain_outside ''default'' 3000000 TestNet ''a'' Orchard Fleet"
  have p: "os_parse plain_outside ''a'' = Ok ?p" by (simp add: plain_outside_def)
  have v: "validate_db_name ''default'' = Ok ()" by code_simp
  have u: "io_result ?cfg [] = Ok ()"
    by (simp add: init_watch_config_def io_result_bind ensure_db_dir_result v p write_config_result
        ensure_db_dir_final [OF v] path_exists_def)
  define s1 where "s1 = io_final ?cfg []"
  have r1: "read_config pub s1 ''default'' = Ok (member_config ''default'' ?p ''a'')" for pub
    using init_watch_config_member(1) [OF p, of "''default''" "[]" "()" pub] u by (simp add: s1_def)
  have same1: "disk_get s1 q = None" if "q \<noteq> [''default'']" "q \<noteq> [''default'', KEYS_FILE]" for q
    using init_watch_config_member(2) [OF p, of "''default''" "[]" "()" q] u that by (simp add: s1_def)
  have man: "manifest_for (member_config ''default'' ?p ''a'') = Ok \<lparr>mf_ufvk = ''uviewa'', mf_birthday = 3000000\<rparr>"
    by (simp add: manifest_for_def member_config_def)
  let ?mp = "manifest_path_in (manifest_dir TestNet) ''default''"
  let ?s2 = "disk_put ?mp (ManifestFile (Some \<lparr>mf_ufvk = ''uviewa'', mf_birthday = 3000000\<rparr>))
      (disk_put (manifest_dir TestNet) Dir s1)"
  have mp: "disk_get s1 ?mp = None"
    by (rule same1) (simp_all add: manifest_path_in_def manifest_dir_def fleet_dir_def)
  have wm: "os_write_manifest plain_outside (manifest_dir TestNet) ''default'' \<lparr>mf_ufvk = ''uviewa'', mf_birthday = 3000000\<rparr> s1
      = ([disk_put (manifest_dir TestNet) Dir s1, ?s2], Ok ())"
    using mp by (simp add: plain_outside_def plain_writer_run path_exists_def)
  let ?put = "io_bind (io_look (\<lambda>s. read_config (os_public plain_outside) s ''default'')) (\<lambda>c.
              io_bind (io_of (manifest_for c)) (\<lambda>m. os_write_manifest plain_outside (manifest_dir TestNet) ''default'' m))"
  have put: "io_result ?put s1 = Ok ()" "io_final ?put s1 = ?s2"
    using wm by (simp_all add: io_result_def io_final_def io_bind_look r1 man)
  have cur: "current_db ?s2 = Ok None"
    using same1 [of "[''current'']"] by (simp add: current_db_def manifest_path_in_def manifest_dir_def fleet_dir_def)
  let ?s3 = "disk_put [CURRENT_MARKER] (RawFile ''default'') ?s2"
  have pr: "io_result (promote_current ''default'') ?s2 = Ok ()" "io_final (promote_current ''default'') ?s2 = ?s3"
    using cur by (simp_all add: io_result_def io_final_def promote_current_def io_bind_look set_current_db_def v)
  have "disk_get ?s3 [''default'', KEYS_FILE] = disk_get s1 [''default'', KEYS_FILE]"
    by (simp add: manifest_path_in_def manifest_dir_def fleet_dir_def)
  then have r3: "read_config pub ?s3 ''default'' = Ok (member_config ''default'' ?p ''a'')" for pub
    using read_config_cong r1 by metis
  have op: "io_result (open_database plain_outside ''default'') ?s3 = Ok (member_config ''default'' ?p ''a'')"
    using open_member [OF r3] by (simp add: io_result_def member_config_def)
  have none: "find_duplicate plain_outside (\<lambda>_ _ _. None) identity [] = None"
    by (simp add: find_duplicate_def no_databases)
  have "io_result (init_watch_with plain_outside (\<lambda>_ _ _. None) identity ''default'' ''a'' Fleet) [] =
      Ok (member_config ''default'' ?p ''a'')"
    unfolding init_watch_with_def p sum.case
    using u put pr op none s1_def
    by (simp add: io_result_bind io_final_bind Let_def db_dir_def v path_exists_def)
      (simp add: plain_outside_def)
  then show ?thesis .
qed

text \<open>
  So the facade makes a member by the name \<open>default\<close>, which the automatic enrolment never takes:
  the manifest collides with the wallet the engine always has.
\<close>

lemma reserved_name_is_not_enrolled: "\<not> should_enrol c ''default'' s"
  by (simp add: should_enrol_def WALLET_def)

section \<open>A member no manifest imports\<close>

text \<open>The state the comments of \<open>fleet.rs\<close> call the one that reads as importing forever.\<close>

definition stranded :: "outside \<Rightarrow> disk \<Rightarrow> str \<Rightarrow> bool" where
  "stranded os s name \<longleftrightarrow>
    (\<exists>c. read_config (os_public os) s name = Ok c \<and> wc_engine c = Fleet
      \<and> read_manifest s (wc_network c) name = Ok None \<and> io_result (locate os c name) s = Ok ImportingHome)"

lemma strandedI:
  assumes "read_config (os_public os) s name = Ok c" "wc_engine c = Fleet" "wc_ufvk c = Some k"
    and "disk_get s (manifest_path (wc_network c) name) = None"
    and "search_shards s (existing_shard_dirs_in s (shards_dir (wc_network c))) k (wc_shard c) = Ok None"
  shows "stranded os s name"
proof -
  have "locate os c name s = ([], Ok ImportingHome)"
    using assms(2) locate_member_none [OF assms(3,5), of os name] by (simp add: locate_def io_bind_Ok)
  with assms(1,2,4) show ?thesis
    by (auto simp: stranded_def io_result_def read_manifest_def read_manifest_at_def)
qed

lemma crash_states_look: "f s = Ok x \<Longrightarrow> crash_states (io_bind (io_look f) k) s = crash_states (k x) s"
  by (simp add: crash_states_def io_bind_look)

lemma crash_states_of: "r = Ok x \<Longrightarrow> crash_states (io_bind (io_of r) k) s = crash_states (k x) s"
  by simp

text \<open>Creation writes the configuration first: cut off before the manifest, the member is stranded.\<close>

lemma creation_can_strand:
  assumes p: "os_parse os addr = Ok p"
    and u: "io_result (init_watch_config os name (pa_birthday p) (pa_network p) addr (pa_pool p) Fleet) s = Ok u"
    and pre: "\<not> path_exists s [name, KEYS_FILE]" "find_duplicate os receiver identity s = None"
      "os_birthday os (pa_network p) (pa_birthday p) = Ok ()"
    and new: "disk_get s (manifest_path (pa_network p) name) = None"
      "search_shards s (existing_shard_dirs_in s (shards_dir (pa_network p))) (pa_ufvk p (pa_network p)) None = Ok None"
  shows "\<exists>s' \<in> crash_states (init_watch_with os receiver identity name addr Fleet) s. stranded os s' name"
proof
  let ?cfg = "init_watch_config os name (pa_birthday p) (pa_network p) addr (pa_pool p) Fleet"
  let ?s1 = "io_final ?cfg s"
  have v: "validate_db_name name = Ok ()" by (rule init_watch_config_member(3) [OF p u])
  have "?s1 \<in> crash_states ?cfg s" unfolding io_final_def by (rule final_in_crash_states)
  then show "?s1 \<in> crash_states (init_watch_with os receiver identity name addr Fleet) s"
    using pre v
    by (simp add: init_watch_with_def p Let_def db_dir_def crash_states_look crash_states_bind [of ?cfg])
  have same: "disk_get ?s1 q = disk_get s q" if "take 1 q = [FLEET_DIR]" for q
    by (rule init_watch_config_member(2) [OF p u]) (use that valid_name_not_fleet [OF v] in auto)
  then have fleet: "same_fleet s ?s1" by (simp add: same_fleet_def)
  have mp: "disk_get ?s1 (manifest_path (pa_network p) name) = None"
    using same [of "manifest_path (pa_network p) name"] new(1)
    by (simp add: manifest_path_def manifest_path_in_def manifest_dir_def fleet_dir_def)
  show "stranded os ?s1 name"
    by (rule strandedI [OF init_watch_config_member(1) [OF p u], where k = "pa_ufvk p (pa_network p)"])
      (use mp new(2) search_shards_cong [OF same_fleet_shards [OF fleet]] in \<open>simp_all add: member_config_def\<close>)
qed

text \<open>
  Leaving removes the manifest first: cut off before the configuration is rewritten, a member
  that was still waiting for its import is stranded.
\<close>

lemma leaving_can_strand:
  assumes r: "read_config (os_public os) s name = Ok c" and e: "wc_engine c = Fleet" and k: "wc_ufvk c = Some k"
    and there: "path_is_file s (manifest_path (wc_network c) name)"
    and none: "search_shards s (existing_shard_dirs_in s (shards_dir (wc_network c))) k (wc_shard c) = Ok None"
  shows "\<exists>s' \<in> crash_states (leave_command os (Some name)) s. stranded os s' name"
proof
  let ?mp = "manifest_path (wc_network c) name"
  let ?s1 = "disk_del ?mp s"
  have v: "validate_db_name name = Ok ()" using read_config_dir [OF r] by simp
  have rm: "remove_manifest (wc_network c) name s = ([?s1], Ok ())"
    using there by (simp add: remove_manifest_def Let_def io_bind_look path_is_file_def)
  then have "?s1 \<in> crash_states (remove_manifest (wc_network c) name) s" by (simp add: crash_states_def)
  then show "?s1 \<in> crash_states (leave_command os (Some name)) s"
    using r e by (simp add: leave_command_def crash_states_look [of _ _ name] crash_states_look [of _ _ c]
        resolve_db_def leave_def crash_states_bind)
  have "[name, KEYS_FILE] \<noteq> ?mp"
    by (simp add: manifest_path_def manifest_path_in_def manifest_dir_def fleet_dir_def)
  then have r1: "read_config (os_public os) ?s1 name = Ok c"
    using r read_config_cong [of ?s1 name s] by simp
  have "same_shards (wc_network c) s ?s1"
    by (auto simp: same_shards_def shards_dir_def manifest_path_def manifest_path_in_def manifest_dir_def fleet_dir_def)
  from search_shards_cong [OF this] none
  show "stranded os ?s1 name" by (intro strandedI [OF r1 e k]) simp_all
qed

section \<open>What else the rules do not cover\<close>

text \<open>
  A configuration read before the viewing key was pinned, used after the database has become a
  member: the reader gets the first account of the shard, another member's.
\<close>

lemma stale_handle_reads_first_account:
  assumes "read_config (os_public os) s name = Ok c" "wc_engine c = Fleet" "wc_ufvk c = Some k"
    and "search_shards s (existing_shard_dirs_in s (shards_dir (wc_network c))) k (wc_shard c) = Ok (Some (d, u))"
    and "open_wallet_db s (shard_engine_dir d) = Ok ((first, acct) # rest)" and "wc_ufvk h = None"
  shows "io_result (reader_account os h name) s = Ok first"
  using reader_fleet_wallet [OF assms(1) _ assms(3-5)] assms(2,6)
  by (simp add: io_result_def select_account_def)

text \<open>The change-over removes \<open>data.sqlite\<close> without the write-ahead log beside it.\<close>

lemma change_over_leaves_wal:
  "disk_get (io_final (discard_own_wallet_files name) s) [name, DATA_DB @ ''-wal''] = disk_get s [name, DATA_DB @ ''-wal'']"
proof -
  let ?P = "\<lambda>s'. disk_get s' [name, DATA_DB @ ''-wal''] = disk_get s [name, DATA_DB @ ''-wal'']"
  have "io_keeps ?P (discard_own_wallet_files name)"
  proof (rule discard_keeps)
    fix x x' assume "?P x" and eq: "\<And>p. \<not> wallet_path name p \<Longrightarrow> disk_get x' p = disk_get x p"
    then show "?P x'" using eq [of "[name, DATA_DB @ ''-wal'']"] by (simp add: wallet_path_def)
  qed
  then show ?thesis unfolding io_final_def by (rule io_keeps_last) simp
qed

text \<open>
  A member whose file has its address and no key is accepted; a rebuild removes its manifest and
  then fails to write it back.
\<close>

lemma rebuild_can_lose_manifest:
  assumes "read_config (os_public os) s (fr_name row) = Ok c" "wc_ufvk c = None"
    and "\<not> path_is_dir s (manifest_path net (fr_name row))"
  shows "io_result (rebuild_members os net (row # rows)) s = Err NoViewingKey"
    "disk_get (io_final (rebuild_members os net (row # rows)) s) (manifest_path net (fr_name row)) = None"
  using assms
  by (simp_all add: io_result_def io_final_def io_bind_look remove_manifest_def Let_def manifest_for_def
      io_bind_def io_when_def path_exists_def)

end
