(* ===== verification/Address.thy ===== *)
theory Address
  imports Wallet_Config "HOL-Library.Multiset" "HOL-Library.List_Lexorder"
begin

text \<open>
  The zkv address (\<open>protocol/address.rs\<close>): a unified viewing key of one shielded pool with an extra
  item that holds the birthday, under a prefix of its own. The codec of unified keys and Bech32 are
  third-party, a record of functions with their documented laws.
\<close>

section \<open>The codec\<close>

datatype network_type = NetMain | NetTest | NetRegtest

datatype fvk_item = FTransparent bytes | FSapling bytes | FOrchard bytes | FUnknown u32 bytes

fun typecode :: "fvk_item \<Rightarrow> u32" where
  "typecode (FTransparent _) = 0"
| "typecode (FSapling _) = 2"
| "typecode (FOrchard _) = 3"
| "typecode (FUnknown t _) = t"

text \<open>The components of a \<open>UnifiedFullViewingKey\<close>.\<close>

record ufvk =
  uf_transparent :: "bytes option"
  uf_sapling :: "bytes option"
  uf_orchard :: "bytes option"
  uf_unknown :: "(u32 \<times> bytes) list"

definition items_of :: "ufvk \<Rightarrow> fvk_item list" where
  "items_of k =
    map FTransparent (case uf_transparent k of None \<Rightarrow> [] | Some b \<Rightarrow> [b])
    @ map FSapling (case uf_sapling k of None \<Rightarrow> [] | Some b \<Rightarrow> [b])
    @ map FOrchard (case uf_orchard k of None \<Rightarrow> [] | Some b \<Rightarrow> [b])
    @ map (\<lambda>(t, b). FUnknown t b) (uf_unknown k)"

record codec =
  co_bech32_decode :: "str \<Rightarrow> (str \<times> bytes) option"        \<comment> \<open>\<open>bech32::decode\<close>\<close>
  co_bech32_encode :: "str \<Rightarrow> bytes \<Rightarrow> str option"          \<comment> \<open>\<open>bech32::encode::<Bech32m>\<close>\<close>
  co_decode :: "str \<Rightarrow> (network_type \<times> fvk_item list) option"  \<comment> \<open>\<open>unified::Ufvk::decode\<close>\<close>
  co_encode :: "network_type \<Rightarrow> fvk_item list \<Rightarrow> str"           \<comment> \<open>its \<open>encode\<close>\<close>
  co_from_items :: "fvk_item list \<Rightarrow> fvk_item list option"      \<comment> \<open>\<open>try_from_items\<close>\<close>
  co_parse_key :: "fvk_item list \<Rightarrow> ufvk option"                \<comment> \<open>\<open>UnifiedFullViewingKey::parse\<close>\<close>
  co_encode_key :: "ufvk \<Rightarrow> network_type \<Rightarrow> str"                \<comment> \<open>its \<open>encode\<close>\<close>
  co_valid_item :: "fvk_item \<Rightarrow> bool"                        \<comment> \<open>the bytes are a key of that kind\<close>

section \<open>Prefixes\<close>

definition TC_ZKV_META :: u32 where "TC_ZKV_META = 8022893"

fun zkv_hrp :: "network_type \<Rightarrow> str" where
  "zkv_hrp NetMain = ''zkv''"
| "zkv_hrp NetTest = ''zkvtest''"
| "zkv_hrp NetRegtest = ''zkvregtest''"

fun uview_hrp :: "network_type \<Rightarrow> str" where
  "uview_hrp NetMain = ''uview''"
| "uview_hrp NetTest = ''uviewtest''"
| "uview_hrp NetRegtest = ''uviewregtest''"

definition net_from_zkv_hrp :: "str \<Rightarrow> network_type option" where
  "net_from_zkv_hrp hrp =
    (if hrp = ''zkv'' then Some NetMain
     else if hrp = ''zkvtest'' then Some NetTest
     else if hrp = ''zkvregtest'' then Some NetRegtest
     else None)"

definition is_uview_hrp :: "str \<Rightarrow> bool" where
  "is_uview_hrp hrp \<longleftrightarrow> hrp = ''uview'' \<or> hrp = ''uviewtest'' \<or> hrp = ''uviewregtest''"

text \<open>The errors; \<open>AddrPanic\<close> is an \<open>expect\<close> that does not hold.\<close>

datatype addr_error =
    NotBech32 | PlainViewingKey str | WrongPrefix str | NotReencodable | NotAViewingKey | MissingMeta
  | BadItems | UnparsedKey | NoTransparentPart | NoShieldedPart | AddrPanic

definition relabel_hrp :: "codec \<Rightarrow> str \<Rightarrow> str \<Rightarrow> addr_error + str" where
  "relabel_hrp C src new_hrp =
    (case co_bech32_decode C src of
       None \<Rightarrow> Err NotBech32
     | Some (_, data) \<Rightarrow> ok_or NotReencodable (co_bech32_encode C new_hrp data))"

section \<open>Encoding\<close>

definition keeps_item :: "shielded_pool \<Rightarrow> fvk_item \<Rightarrow> bool" where
  "keeps_item pool item =
    (case pool of
       Sapling \<Rightarrow> (case item of FOrchard _ \<Rightarrow> False | _ \<Rightarrow> True)
     | _ \<Rightarrow> (case item of FSapling _ \<Rightarrow> False | _ \<Rightarrow> True))"

definition encode_ufvk_for_pool :: "codec \<Rightarrow> ufvk \<Rightarrow> network_type \<Rightarrow> shielded_pool \<Rightarrow> addr_error + str" where
  "encode_ufvk_for_pool C key params pool =
    try_ok (ok_or AddrPanic (co_decode C (co_encode_key C key params))) (\<lambda>(net, items).
    try_ok (ok_or AddrPanic (co_from_items C (filter (keeps_item pool) items))) (\<lambda>stripped.
      Ok (co_encode C net stripped)))"

definition u32_to_be_bytes :: "u32 \<Rightarrow> bytes" where
  "u32_to_be_bytes n = map (\<lambda>i. char_of (n div 256 ^ i)) (rev [0..<4])"

definition u32_from_be_bytes :: "bytes \<Rightarrow> u32" where
  "u32_from_be_bytes bs = foldl (\<lambda>a b. a * 256 + byte b) 0 bs"

definition zkv_container ::
  "codec \<Rightarrow> ufvk \<Rightarrow> network_type \<Rightarrow> shielded_pool \<Rightarrow> u32 \<Rightarrow> addr_error + network_type \<times> fvk_item list" where
  "zkv_container C key params pool birthday =
    try_ok (encode_ufvk_for_pool C key params pool) (\<lambda>stripped.
    try_ok (ok_or AddrPanic (co_decode C stripped)) (\<lambda>(net, items).
    try_ok (ok_or BadItems (co_from_items C (items @ [FUnknown TC_ZKV_META (u32_to_be_bytes birthday)])))
      (\<lambda>with_meta. Ok (net, with_meta))))"

definition encode_zkv_addr :: "codec \<Rightarrow> ufvk \<Rightarrow> network_type \<Rightarrow> shielded_pool \<Rightarrow> u32 \<Rightarrow> addr_error + str" where
  "encode_zkv_addr C key params pool birthday =
    try_ok (zkv_container C key params pool birthday) (\<lambda>(net, with_meta).
      relabel_hrp C (co_encode C net with_meta) (zkv_hrp net))"

definition zkv_addr_to_uview :: "codec \<Rightarrow> str \<Rightarrow> addr_error + str" where
  "zkv_addr_to_uview C addr =
    (case co_bech32_decode C addr of
       None \<Rightarrow> Err NotBech32
     | Some (hrp, _) \<Rightarrow>
         (case net_from_zkv_hrp hrp of
            None \<Rightarrow> Err (WrongPrefix hrp)
          | Some net \<Rightarrow> relabel_hrp C addr (uview_hrp net)))"

section \<open>Parsing\<close>

fun network_from_type :: "network_type \<Rightarrow> network" where
  "network_from_type NetMain = MainNet"
| "network_from_type NetTest = TestNet"
| "network_from_type NetRegtest = Regtest"

definition meta_birthday :: "fvk_item \<Rightarrow> u32 option" where
  "meta_birthday item =
    (case item of
       FUnknown t data \<Rightarrow> if t = TC_ZKV_META \<and> length data = 4 then Some (u32_from_be_bytes data) else None
     | _ \<Rightarrow> None)"

fun find_birthday :: "fvk_item list \<Rightarrow> u32 option" where
  "find_birthday [] = None"
| "find_birthday (i # items) = (case meta_birthday i of Some b \<Rightarrow> Some b | None \<Rightarrow> find_birthday items)"

definition is_meta :: "fvk_item \<Rightarrow> bool" where
  "is_meta item = (case item of FUnknown t _ \<Rightarrow> t = TC_ZKV_META | _ \<Rightarrow> False)"

definition pool_of_key :: "network_type \<Rightarrow> ufvk \<Rightarrow> addr_error + shielded_pool" where
  "pool_of_key net key =
    (if uf_orchard key \<noteq> None
     then Ok (if ironwood_available (network_from_type net) then Ironwood else Orchard)
     else if uf_sapling key \<noteq> None then Ok Sapling
     else Err NoShieldedPart)"

record parsed_zkv_addr =
  pz_raw :: str
  pz_network :: network_type
  pz_ufvk :: ufvk
  pz_birthday :: u32
  pz_pool :: shielded_pool

definition parse_zkv_addr :: "codec \<Rightarrow> str \<Rightarrow> addr_error + parsed_zkv_addr" where
  "parse_zkv_addr C s =
    (case co_bech32_decode C s of
       None \<Rightarrow> Err NotBech32
     | Some (hrp, _) \<Rightarrow>
         (case net_from_zkv_hrp hrp of
            None \<Rightarrow> Err (if is_uview_hrp hrp then PlainViewingKey hrp else WrongPrefix hrp)
          | Some network \<Rightarrow>
              try_ok (relabel_hrp C s (uview_hrp network)) (\<lambda>uview.
              try_ok (ok_or NotAViewingKey (co_decode C uview)) (\<lambda>(net2, items).
              try_ok (ok_or MissingMeta (find_birthday items)) (\<lambda>birthday.
              try_ok (ok_or BadItems (co_from_items C (filter (\<lambda>i. \<not> is_meta i) items))) (\<lambda>clean.
              try_ok (ok_or UnparsedKey (co_parse_key C clean)) (\<lambda>key.
                if uf_transparent key = None then Err NoTransparentPart
                else try_ok (pool_of_key network key) (\<lambda>pool.
                  Ok \<lparr>pz_raw = s, pz_network = network, pz_ufvk = key, pz_birthday = birthday,
                      pz_pool = pool\<rparr>))))))))"

text \<open>The receivers a database's address asks for: transparent never, and its one pool.\<close>

datatype receiver_requirement = Require | Omit

record address_request =
  rq_orchard :: receiver_requirement
  rq_sapling :: receiver_requirement
  rq_p2pkh :: receiver_requirement

definition ua_request_for_pool :: "shielded_pool \<Rightarrow> address_request" where
  "ua_request_for_pool pool =
    (case pool of
       Sapling \<Rightarrow> \<lparr>rq_orchard = Omit, rq_sapling = Require, rq_p2pkh = Omit\<rparr>
     | _ \<Rightarrow> \<lparr>rq_orchard = Require, rq_sapling = Omit, rq_p2pkh = Omit\<rparr>)"

section \<open>The laws of the codec\<close>

text \<open>
  Documented behaviour: a container takes items with distinct typecodes among which one is shielded,
  and keeps them in an order of its own; what it encodes decodes again, and is Bech32m under the
  standard prefix, which an item list of a Bech32m code's length can change; a key is encoded as the
  container of its components and parsed from it.
\<close>

definition is_shielded :: "fvk_item \<Rightarrow> bool" where
  "is_shielded item = (case item of FSapling _ \<Rightarrow> True | FOrchard _ \<Rightarrow> True | _ \<Rightarrow> False)"

fun item_data :: "fvk_item \<Rightarrow> bytes" where
  "item_data (FTransparent b) = b"
| "item_data (FSapling b) = b"
| "item_data (FOrchard b) = b"
| "item_data (FUnknown _ b) = b"

definition items_fit :: "fvk_item list \<Rightarrow> bool" where
  "items_fit items \<longleftrightarrow> distinct (map typecode items) \<and> list_ex is_shielded items"

definition items_size :: "fvk_item list \<Rightarrow> nat" where
  "items_size items = (\<Sum>i\<leftarrow>items. 10 + length (item_data i))"

definition codec_laws :: "codec \<Rightarrow> bool" where
  "codec_laws C \<longleftrightarrow>
    (\<forall>hrp data s. co_bech32_encode C hrp data = Some s \<longrightarrow> co_bech32_decode C s = Some (hrp, data)) \<and>
    (\<forall>items. items_fit items \<longrightarrow> co_from_items C items \<noteq> None) \<and>
    (\<forall>net items c. co_from_items C items = Some c \<longrightarrow>
        mset c = mset items \<and> co_decode C (co_encode C net c) = Some (net, c)) \<and>
    (\<forall>net items c. co_from_items C items = Some c \<longrightarrow> items_size c \<le> 500 \<longrightarrow>
        (\<exists>data. co_bech32_decode C (co_encode C net c) = Some (uview_hrp net, data)
          \<and> co_bech32_encode C (uview_hrp net) data = Some (co_encode C net c)
          \<and> co_bech32_encode C (zkv_hrp net) data \<noteq> None)) \<and>
    (\<forall>key items. items_fit items \<longrightarrow> list_all (co_valid_item C) items \<longrightarrow> sorted (uf_unknown key) \<longrightarrow>
        mset items = mset (items_of key) \<longrightarrow> co_parse_key C items = Some key) \<and>
    (\<forall>key net c. co_from_items C (items_of key) = Some c \<longrightarrow> co_encode_key C key net = co_encode C net c)"

text \<open>A key a database can be published with: it has a transparent part and a component in the pool.\<close>

definition pool_item :: "shielded_pool \<Rightarrow> ufvk \<Rightarrow> bytes option" where
  "pool_item pool key = (if pool = Sapling then uf_sapling key else uf_orchard key)"

definition key_fits :: "codec \<Rightarrow> shielded_pool \<Rightarrow> ufvk \<Rightarrow> bool" where
  "key_fits C pool key \<longleftrightarrow>
    uf_transparent key \<noteq> None \<and> pool_item pool key \<noteq> None \<and>
    distinct (map typecode (items_of key)) \<and> TC_ZKV_META \<notin> set (map typecode (items_of key)) \<and>
    sorted (uf_unknown key) \<and> list_all (co_valid_item C) (items_of key) \<and>
    items_size (items_of key) \<le> 480"

end
