(* ===== verification/Address_Props.thy ===== *)
theory Address_Props
  imports Address
begin

text \<open>That an address parses back to the key, the pool and the birthday it was made from.\<close>

section \<open>Parts\<close>

lemma net_from_zkv_hrp [simp]: "net_from_zkv_hrp (zkv_hrp net) = Some net"
  by (cases net) (simp_all add: net_from_zkv_hrp_def)

lemma uview_not_zkv [simp]: "net_from_zkv_hrp (uview_hrp net) = None" "is_uview_hrp (uview_hrp net)"
  by (cases net; simp add: net_from_zkv_hrp_def is_uview_hrp_def)+

lemma u32_bytes_roundtrip:
  assumes "n < 2 ^ 32"
  shows "u32_from_be_bytes (u32_to_be_bytes n) = n" "length (u32_to_be_bytes n) = 4"
proof -
  have d: "byte (char_of m) = m mod 256" for m by (simp add: byte_def of_char_of)
  define a where "a = n mod 256"
  define b where "b = n div 256"
  have u: "rev [0..<4] = [3, 2, 1, 0::nat]" by (simp add: upt_rec)
  show "length (u32_to_be_bytes n) = 4" by (simp add: u32_to_be_bytes_def)
  have "n div 256 ^ 3 mod 256 = n div 256 ^ 3" using assms by simp
  moreover have "n = (((n div 256 ^ 3) * 256 + n div 256 ^ 2 mod 256) * 256 + n div 256 mod 256) * 256 + n mod 256"
  proof -
    have "n div 256 = (n div 256 div 256) * 256 + n div 256 mod 256"
      "n div 256 div 256 = (n div 256 div 256 div 256) * 256 + n div 256 div 256 mod 256"
      "n = (n div 256) * 256 + n mod 256"
      by (simp_all only: div_mult_mod_eq)
    then show ?thesis by (simp add: div_mult2_eq [symmetric] power_numeral_reduce)
  qed
  ultimately show "u32_from_be_bytes (u32_to_be_bytes n) = n"
    by (simp add: u32_from_be_bytes_def u32_to_be_bytes_def u d)
qed

text \<open>The key with the other shielded component gone.\<close>

definition strip_key :: "shielded_pool \<Rightarrow> ufvk \<Rightarrow> ufvk" where
  "strip_key pool key = (if pool = Sapling then key\<lparr>uf_orchard := None\<rparr> else key\<lparr>uf_sapling := None\<rparr>)"

lemma strip_key_sel [simp]:
  "uf_transparent (strip_key pool key) = uf_transparent key"
  "uf_unknown (strip_key pool key) = uf_unknown key"
  "uf_orchard (strip_key pool key) = (if pool = Sapling then None else uf_orchard key)"
  "uf_sapling (strip_key pool key) = (if pool = Sapling then uf_sapling key else None)"
  by (simp_all add: strip_key_def)

lemma filter_keeps_unknown: "filter (keeps_item pool) (map (\<lambda>(t, b). FUnknown t b) us) = map (\<lambda>(t, b). FUnknown t b) us"
  by (induction us) (auto simp: keeps_item_def split: shielded_pool.splits)

lemma items_of_strip: "items_of (strip_key pool key) = filter (keeps_item pool) (items_of key)"
  by (cases pool; cases "uf_transparent key"; cases "uf_sapling key"; cases "uf_orchard key")
    (simp_all add: items_of_def filter_keeps_unknown strip_key_def keeps_item_def)

lemma items_of_shielded: "list_ex is_shielded (items_of key) \<longleftrightarrow> uf_sapling key \<noteq> None \<or> uf_orchard key \<noteq> None"
  by (auto simp: items_of_def list_ex_iff is_shielded_def split: option.splits)

lemma mset_filter_cong: "mset xs = mset ys \<Longrightarrow> mset (filter P xs) = mset (filter P ys)"
  by (simp add: mset_filter)

lemma items_fit_mset: "mset xs = mset ys \<Longrightarrow> items_fit xs \<longleftrightarrow> items_fit ys"
proof -
  assume m: "mset xs = mset ys"
  then have "mset (map typecode xs) = mset (map typecode ys)" by simp
  then have "distinct (map typecode xs) \<longleftrightarrow> distinct (map typecode ys)" by (rule mset_eq_imp_distinct_iff)
  moreover have "set xs = set ys" by (rule mset_eq_setD [OF m])
  ultimately show ?thesis by (simp add: items_fit_def list_ex_iff)
qed

lemma items_size_mset: "mset xs = mset ys \<Longrightarrow> items_size xs = items_size ys"
  unfolding items_size_def by (metis mset_map sum_mset_sum_list)

lemma items_size_filter: "items_size (filter P xs) \<le> items_size xs"
  by (induction xs) (auto simp: items_size_def)

lemma find_birthday_unique:
  assumes "i \<in> set items" "meta_birthday i = Some b" "\<And>j. j \<in> set items \<Longrightarrow> is_meta j \<Longrightarrow> j = i"
  shows "find_birthday items = Some b"
  using assms
proof (induction items)
  case (Cons j items)
  show ?case
  proof (cases "is_meta j")
    case True
    then have "j = i" using Cons.prems(3) by simp
    then show ?thesis using Cons.prems(2) by simp
  next
    case False
    then have "meta_birthday j = None" "j \<noteq> i"
      using Cons.prems(2) by (auto simp: meta_birthday_def is_meta_def split: fvk_item.splits)
    then show ?thesis using Cons by auto
  qed
qed simp

lemma is_meta_typecode: "is_meta i \<Longrightarrow> typecode i = TC_ZKV_META"
  by (auto simp: is_meta_def split: fvk_item.splits)

section \<open>The round trip\<close>

lemma codec_lawsD:
  assumes "codec_laws C"
  shows "co_bech32_encode C hrp data = Some s \<Longrightarrow> co_bech32_decode C s = Some (hrp, data)"
    "items_fit items \<Longrightarrow> \<exists>c. co_from_items C items = Some c"
    "co_from_items C items = Some c \<Longrightarrow> mset c = mset items"
    "co_from_items C items = Some c \<Longrightarrow> co_decode C (co_encode C net c) = Some (net, c)"
    "co_from_items C items = Some c \<Longrightarrow> items_size c \<le> 500 \<Longrightarrow>
      \<exists>data. co_bech32_decode C (co_encode C net c) = Some (uview_hrp net, data)
          \<and> co_bech32_encode C (uview_hrp net) data = Some (co_encode C net c)
          \<and> co_bech32_encode C (zkv_hrp net) data \<noteq> None"
    "items_fit items \<Longrightarrow> list_all (co_valid_item C) items \<Longrightarrow> sorted (uf_unknown key) \<Longrightarrow>
      mset items = mset (items_of key) \<Longrightarrow> co_parse_key C items = Some key"
    "co_from_items C (items_of key) = Some c \<Longrightarrow> co_encode_key C key net = co_encode C net c"
  using assms unfolding codec_laws_def by blast+

lemma strip_fits:
  assumes "key_fits C pool key"
  shows "items_fit (items_of key)" "items_fit (items_of (strip_key pool key))"
proof -
  have d: "distinct (map typecode (items_of key))" and p: "pool_item pool key \<noteq> None"
    using assms by (simp_all add: key_fits_def)
  from p have "uf_sapling key \<noteq> None \<or> uf_orchard key \<noteq> None" by (auto simp: pool_item_def split: if_splits)
  with d show "items_fit (items_of key)" by (simp add: items_fit_def items_of_shielded)
  have "distinct (map typecode (items_of (strip_key pool key)))"
    using d by (simp add: items_of_strip distinct_map_filter)
  moreover have "list_ex is_shielded (items_of (strip_key pool key))"
    using p by (auto simp: items_of_shielded pool_item_def split: if_splits)
  ultimately show "items_fit (items_of (strip_key pool key))" by (simp add: items_fit_def)
qed

lemma stripped_encoding:
  assumes C: "codec_laws C" and k: "key_fits C pool key"
  shows "\<exists>c. encode_ufvk_for_pool C key net pool = Ok (co_encode C net c)
    \<and> mset c = mset (items_of (strip_key pool key)) \<and> co_decode C (co_encode C net c) = Some (net, c)"
proof -
  obtain c0 where c0: "co_from_items C (items_of key) = Some c0"
    using codec_lawsD(2) [OF C strip_fits(1) [OF k]] by blast
  note m0 = codec_lawsD(3) [OF C c0] and d0 = codec_lawsD(4) [OF C c0, of net]
    and e0 = codec_lawsD(7) [OF C c0, of net]
  have m1: "mset (filter (keeps_item pool) c0) = mset (items_of (strip_key pool key))"
    using mset_filter_cong [OF m0] by (simp add: items_of_strip)
  then have "items_fit (filter (keeps_item pool) c0)"
    using items_fit_mset strip_fits(2) [OF k] by blast
  then obtain c where c: "co_from_items C (filter (keeps_item pool) c0) = Some c"
    using codec_lawsD(2) [OF C] by blast
  have "mset c = mset (items_of (strip_key pool key))" using codec_lawsD(3) [OF C c] m1 by simp
  with c d0 e0 codec_lawsD(4) [OF C c, of net] show ?thesis
    by (auto simp: encode_ufvk_for_pool_def)
qed


lemma container:
  assumes C: "codec_laws C" and k: "key_fits C pool key"
  shows "\<exists>c c2. zkv_container C key net pool birthday = Ok (net, c2)
    \<and> mset c = mset (items_of (strip_key pool key))
    \<and> co_from_items C (c @ [FUnknown TC_ZKV_META (u32_to_be_bytes birthday)]) = Some c2"
proof -
  obtain c where e: "encode_ufvk_for_pool C key net pool = Ok (co_encode C net c)"
    and m: "mset c = mset (items_of (strip_key pool key))" and d: "co_decode C (co_encode C net c) = Some (net, c)"
    using stripped_encoding [OF assms] by blast
  let ?items = "c @ [FUnknown TC_ZKV_META (u32_to_be_bytes birthday)]"
  have fit: "items_fit c" using items_fit_mset [OF m] strip_fits(2) [OF k] by simp
  have "set c \<subseteq> set (items_of key)" using mset_eq_setD [OF m] by (auto simp: items_of_strip)
  moreover have "TC_ZKV_META \<notin> typecode ` set (items_of key)" using k by (simp add: key_fits_def)
  ultimately have "TC_ZKV_META \<notin> typecode ` set c" by blast
  with fit have "items_fit ?items" by (auto simp: items_fit_def)
  then obtain c2 where "co_from_items C ?items = Some c2" using codec_lawsD(2) [OF C] by blast
  with e m d show ?thesis by (auto simp: zkv_container_def)
qed

definition published_pool :: "shielded_pool \<Rightarrow> shielded_pool" where
  "published_pool pool = (if pool = Sapling then Sapling else Ironwood)"

lemma not_meta:
  assumes "key_fits C pool key" "mset c = mset (items_of (strip_key pool key))" "i \<in> set c"
  shows "\<not> is_meta i"
proof
  assume "is_meta i"
  then have "typecode i = TC_ZKV_META" by (rule is_meta_typecode)
  moreover have "i \<in> set (items_of key)" using mset_eq_setD [OF assms(2)] assms(3) by (auto simp: items_of_strip)
  ultimately have "TC_ZKV_META \<in> set (map typecode (items_of key))" by (metis image_eqI set_map)
  with assms(1) show False by (simp add: key_fits_def)
qed

lemma parse_clean:
  assumes C: "codec_laws C" and k: "key_fits C pool key" and m: "mset c = mset (items_of (strip_key pool key))"
  shows "\<exists>clean. co_from_items C c = Some clean \<and> co_parse_key C clean = Some (strip_key pool key)"
proof -
  have fit: "items_fit c" using items_fit_mset [OF m] strip_fits(2) [OF k] by simp
  then obtain clean where clean: "co_from_items C c = Some clean" using codec_lawsD(2) [OF C] by blast
  have mc: "mset clean = mset (items_of (strip_key pool key))" using codec_lawsD(3) [OF C clean] m by simp
  have "co_parse_key C clean = Some (strip_key pool key)"
  proof (rule codec_lawsD(6) [OF C _ _ _ mc])
    show "items_fit clean" using items_fit_mset [OF mc] strip_fits(2) [OF k] by simp
    show "list_all (co_valid_item C) clean"
      using mset_eq_setD [OF mc] k by (auto simp: items_of_strip key_fits_def list_all_iff)
    show "sorted (uf_unknown (strip_key pool key))" using k by (simp add: key_fits_def)
  qed
  with clean show ?thesis by blast
qed

lemma parse_published:
  assumes C: "codec_laws C" and k: "key_fits C pool key" and b: "birthday < 2 ^ 32"
    and m: "mset c = mset (items_of (strip_key pool key))"
    and c2: "co_from_items C (c @ [FUnknown TC_ZKV_META (u32_to_be_bytes birthday)]) = Some c2"
    and dec: "co_bech32_decode C s = Some (zkv_hrp net, data)"
    and data: "co_bech32_encode C (uview_hrp net) data = Some (co_encode C net c2)"
  shows "parse_zkv_addr C s = Ok \<lparr>pz_raw = s, pz_network = net, pz_ufvk = strip_key pool key,
      pz_birthday = birthday, pz_pool = published_pool pool\<rparr>"
proof -
  let ?meta = "FUnknown TC_ZKV_META (u32_to_be_bytes birthday)"
  note m2 = codec_lawsD(3) [OF C c2] and d2 = codec_lawsD(4) [OF C c2, of net]
  have set2: "set c2 = insert ?meta (set c)" using mset_eq_setD [OF m2] by simp
  have birth: "find_birthday c2 = Some birthday"
    by (rule find_birthday_unique [of ?meta])
      (use set2 not_meta [OF k m] u32_bytes_roundtrip [OF b] in \<open>auto simp: meta_birthday_def\<close>)
  have "filter (\<lambda>i. \<not> is_meta i) (c @ [?meta]) = c"
    using not_meta [OF k m] by (simp add: filter_id_conv is_meta_def)
  then have "mset (filter (\<lambda>i. \<not> is_meta i) c2) = mset c"
    using mset_filter_cong [OF m2, of "\<lambda>i. \<not> is_meta i"] by simp
  then obtain clean where clean: "co_from_items C (filter (\<lambda>i. \<not> is_meta i) c2) = Some clean"
    "co_parse_key C clean = Some (strip_key pool key)"
    using parse_clean [OF C k, of "filter (\<lambda>i. \<not> is_meta i) c2"] m by auto
  have "pool_of_key net (strip_key pool key) = Ok (published_pool pool)"
    using k by (auto simp: pool_of_key_def published_pool_def key_fits_def pool_item_def ironwood_available_def)
  with dec data d2 birth clean k show ?thesis
    by (simp add: parse_zkv_addr_def relabel_hrp_def key_fits_def)
qed

text \<open>The address of a publishable key, and the containers it is made from.\<close>

lemma published_address:
  assumes C: "codec_laws C" and k: "key_fits C pool key" and b: "birthday < 2 ^ 32"
  obtains c c2 data s where
    "zkv_container C key net pool birthday = Ok (net, c2)" "mset c = mset (items_of (strip_key pool key))"
    "co_from_items C (c @ [FUnknown TC_ZKV_META (u32_to_be_bytes birthday)]) = Some c2"
    "co_bech32_encode C (uview_hrp net) data = Some (co_encode C net c2)"
    "co_bech32_encode C (zkv_hrp net) data = Some s" "encode_zkv_addr C key net pool birthday = Ok s"
proof -
  let ?meta = "FUnknown TC_ZKV_META (u32_to_be_bytes birthday)"
  obtain c c2 where con: "zkv_container C key net pool birthday = Ok (net, c2)"
    and m: "mset c = mset (items_of (strip_key pool key))" and c2: "co_from_items C (c @ [?meta]) = Some c2"
    using container [OF C k] by blast
  have "items_size c2 = items_size (c @ [?meta])" by (rule items_size_mset [OF codec_lawsD(3) [OF C c2]])
  also have "\<dots> \<le> 500"
    using items_size_mset [OF m] items_size_filter [of "keeps_item pool" "items_of key"] k u32_bytes_roundtrip(2) [OF b]
    by (simp add: items_size_def items_of_strip key_fits_def)
  finally obtain data s
    where data: "co_bech32_decode C (co_encode C net c2) = Some (uview_hrp net, data)"
      "co_bech32_encode C (uview_hrp net) data = Some (co_encode C net c2)"
      and s: "co_bech32_encode C (zkv_hrp net) data = Some s"
    using codec_lawsD(5) [OF C c2, of net] by auto
  have "encode_zkv_addr C key net pool birthday = Ok s"
    using con data s by (simp add: encode_zkv_addr_def relabel_hrp_def)
  with con m c2 data(2) s show thesis using that by blast
qed

text \<open>
  C32. An address parses back: whatever key a database is published with, its address is made without a
  panic, and reading it gives the network, the key with the one pool it was published for, and the
  birthday. A pool of Orchard receivers is read as Ironwood, which shares them.
\<close>

theorem address_round_trip:
  assumes C: "codec_laws C" and k: "key_fits C pool key" and b: "birthday < 2 ^ 32"
  shows "\<exists>s. encode_zkv_addr C key net pool birthday = Ok s \<and>
    parse_zkv_addr C s = Ok \<lparr>pz_raw = s, pz_network = net, pz_ufvk = strip_key pool key,
      pz_birthday = birthday, pz_pool = published_pool pool\<rparr>"
proof -
  obtain c c2 data s where m: "mset c = mset (items_of (strip_key pool key))"
    and c2: "co_from_items C (c @ [FUnknown TC_ZKV_META (u32_to_be_bytes birthday)]) = Some c2"
    and data: "co_bech32_encode C (uview_hrp net) data = Some (co_encode C net c2)"
    and s: "co_bech32_encode C (zkv_hrp net) data = Some s" and e: "encode_zkv_addr C key net pool birthday = Ok s"
    using published_address [OF C k b] by metis
  with parse_published [OF C k b m c2 codec_lawsD(1) [OF C s] data] show ?thesis by blast
qed

section \<open>A codec\<close>

text \<open>A codec that has the laws: every byte escaped, items behind a letter, sorted by typecode.\<close>

definition enc_bytes :: "bytes \<Rightarrow> str" where
  "enc_bytes b = concat (map (\<lambda>c. [CHR ''x'', c]) b) @ ''.''"

fun dec_bytes :: "str \<Rightarrow> (bytes \<times> str) option" where
  "dec_bytes [] = None"
| "dec_bytes [a] = (if a = CHR ''.'' then Some ([], []) else None)"
| "dec_bytes (a # c # r) =
    (if a = CHR ''.'' then Some ([], c # r) else map_option (\<lambda>(b, s). (c # b, s)) (dec_bytes r))"

lemma dec_enc_bytes [simp]: "dec_bytes (enc_bytes b @ s) = Some (b, s)"
proof (induction b)
  case Nil
  then show ?case by (cases s) (simp_all add: enc_bytes_def)
qed (simp add: enc_bytes_def)

fun enc_item :: "fvk_item \<Rightarrow> str" where
  "enc_item (FTransparent b) = ''T'' @ enc_bytes b"
| "enc_item (FSapling b) = ''S'' @ enc_bytes b"
| "enc_item (FOrchard b) = ''O'' @ enc_bytes b"
| "enc_item (FUnknown t b) = ''U'' @ enc_bytes (dec t) @ enc_bytes b"

fun dec_items :: "nat \<Rightarrow> str \<Rightarrow> fvk_item list option" where
  "dec_items n [] = Some []"
| "dec_items 0 (a # s) = None"
| "dec_items (Suc n) (a # s) =
    (case dec_bytes s of
       None \<Rightarrow> None
     | Some (b, r) \<Rightarrow>
         if a = CHR ''T'' then map_option (Cons (FTransparent b)) (dec_items n r)
         else if a = CHR ''S'' then map_option (Cons (FSapling b)) (dec_items n r)
         else if a = CHR ''O'' then map_option (Cons (FOrchard b)) (dec_items n r)
         else (case dec_bytes r of
                 None \<Rightarrow> None
               | Some (d, r') \<Rightarrow> map_option (Cons (FUnknown (dec_value b) d)) (dec_items n r')))"

lemma dec_enc_items: "length items \<le> n \<Longrightarrow> dec_items n (concat (map enc_item items)) = Some items"
proof (induction items arbitrary: n)
  case (Cons i items)
  then obtain k where "n = Suc k" "length items \<le> k" by (cases n) auto
  with Cons.IH show ?case by (cases i) simp_all
qed simp

lemma length_enc_items: "length items \<le> length (concat (map enc_item items))"
proof (induction items)
  case (Cons i items)
  then show ?case by (cases i) simp_all
qed simp

definition first_of :: "'a list \<Rightarrow> 'a option" where
  "first_of xs = (case xs of [] \<Rightarrow> None | x # _ \<Rightarrow> Some x)"

definition transparents where
  "transparents = List.map_filter (\<lambda>i. case i of FTransparent b \<Rightarrow> Some b | _ \<Rightarrow> None)"

definition saplings where
  "saplings = List.map_filter (\<lambda>i. case i of FSapling b \<Rightarrow> Some b | _ \<Rightarrow> None)"

definition orchards where
  "orchards = List.map_filter (\<lambda>i. case i of FOrchard b \<Rightarrow> Some b | _ \<Rightarrow> None)"

definition unknowns where
  "unknowns = List.map_filter (\<lambda>i. case i of FUnknown t b \<Rightarrow> Some (t, b) | _ \<Rightarrow> None)"

definition model_codec :: codec where
  "model_codec =
    \<lparr>co_bech32_decode = (\<lambda>s. split_once (CHR ''1'') s),
     co_bech32_encode = (\<lambda>h d. if CHR ''1'' \<in> set h then None else Some (h @ CHR ''1'' # d)),
     co_decode = (\<lambda>s. case split_once (CHR ''1'') s of
        None \<Rightarrow> None
      | Some (h, d) \<Rightarrow>
          map_option (Pair (if h = ''uview'' then NetMain else if h = ''uviewtest'' then NetTest else NetRegtest))
            (dec_items (length d) d)),
     co_encode = (\<lambda>net items. uview_hrp net @ CHR ''1'' # concat (map enc_item items)),
     co_from_items = (\<lambda>items. if items_fit items then Some (sort_key typecode items) else None),
     co_parse_key = (\<lambda>items. Some \<lparr>uf_transparent = first_of (transparents items),
        uf_sapling = first_of (saplings items), uf_orchard = first_of (orchards items),
        uf_unknown = sort (unknowns items)\<rparr>),
     co_encode_key = (\<lambda>key net. uview_hrp net @ CHR ''1'' # concat (map enc_item (sort_key typecode (items_of key)))),
     co_valid_item = (\<lambda>_. True)\<rparr>"

lemma mset_map_filter: "mset xs = mset ys \<Longrightarrow> mset (List.map_filter f xs) = mset (List.map_filter f ys)"
  by (simp add: List.map_filter_def mset_filter)

lemma parts_of_items:
  "transparents (items_of key) = (case uf_transparent key of None \<Rightarrow> [] | Some b \<Rightarrow> [b])"
  "saplings (items_of key) = (case uf_sapling key of None \<Rightarrow> [] | Some b \<Rightarrow> [b])"
  "orchards (items_of key) = (case uf_orchard key of None \<Rightarrow> [] | Some b \<Rightarrow> [b])"
  "unknowns (items_of key) = uf_unknown key"
proof -
  have u: "List.map_filter (\<lambda>i. case i of FTransparent b \<Rightarrow> Some b | _ \<Rightarrow> None) (map (\<lambda>(t, b). FUnknown t b) us) = []"
    "List.map_filter (\<lambda>i. case i of FSapling b \<Rightarrow> Some b | _ \<Rightarrow> None) (map (\<lambda>(t, b). FUnknown t b) us) = []"
    "List.map_filter (\<lambda>i. case i of FOrchard b \<Rightarrow> Some b | _ \<Rightarrow> None) (map (\<lambda>(t, b). FUnknown t b) us) = []"
    "List.map_filter (\<lambda>i. case i of FUnknown t b \<Rightarrow> Some (t, b) | _ \<Rightarrow> None) (map (\<lambda>(t, b). FUnknown t b) us) = us"
    for us by (induction us) (auto simp: List.map_filter_simps)
  have a: "List.map_filter f (xs @ ys) = List.map_filter f xs @ List.map_filter f ys" for f :: "fvk_item \<Rightarrow> 'x option" and xs ys
    by (simp add: List.map_filter_def)
  show "transparents (items_of key) = (case uf_transparent key of None \<Rightarrow> [] | Some b \<Rightarrow> [b])"
    "saplings (items_of key) = (case uf_sapling key of None \<Rightarrow> [] | Some b \<Rightarrow> [b])"
    "orchards (items_of key) = (case uf_orchard key of None \<Rightarrow> [] | Some b \<Rightarrow> [b])"
    "unknowns (items_of key) = uf_unknown key"
    by (simp_all add: transparents_def saplings_def orchards_def unknowns_def items_of_def a u
        List.map_filter_simps split: option.splits)
qed

lemma first_of_mset: "mset xs = mset (case o1 of None \<Rightarrow> [] | Some b \<Rightarrow> [b]) \<Longrightarrow> first_of xs = o1"
  by (cases o1) (auto simp: first_of_def)

lemma model_parse:
  assumes "mset items = mset (items_of key)" "sorted (uf_unknown key)"
  shows "co_parse_key model_codec items = Some key"
proof -
  note m = mset_map_filter [OF assms(1)]
  have "first_of (transparents items) = uf_transparent key" "first_of (saplings items) = uf_sapling key"
    "first_of (orchards items) = uf_orchard key"
    by (rule first_of_mset; simp only: parts_of_items [symmetric] transparents_def saplings_def orchards_def m)+
  moreover have "mset (unknowns items) = mset (uf_unknown key)"
    by (simp only: parts_of_items(4) [symmetric]) (simp only: unknowns_def m)
  then have "sort (unknowns items) = uf_unknown key"
    using assms(2) by (metis properties_for_sort)
  ultimately show ?thesis by (simp add: model_codec_def)
qed

lemma hrp_no_1: "CHR ''1'' \<notin> set (uview_hrp net)" "CHR ''1'' \<notin> set (zkv_hrp net)"
  by (cases net; simp)+

lemma model_codec_laws: "codec_laws model_codec"
  unfolding codec_laws_def
proof (intro conjI allI impI)
  fix hrp data s assume "co_bech32_encode model_codec hrp data = Some s"
  then show "co_bech32_decode model_codec s = Some (hrp, data)"
    by (auto simp: model_codec_def split_once_hit split: if_splits)
next
  fix items assume "items_fit items"
  then show "co_from_items model_codec items \<noteq> None" by (simp add: model_codec_def)
next
  fix items c assume "co_from_items model_codec items = Some c"
  then show "mset c = mset items" by (auto simp: model_codec_def split: if_splits)
next
  fix net items c
  have "(if uview_hrp net = ''uview'' then NetMain else if uview_hrp net = ''uviewtest'' then NetTest else NetRegtest) = net"
    by (cases net) simp_all
  then show "co_decode model_codec (co_encode model_codec net c) = Some (net, c)"
    by (simp add: model_codec_def split_once_hit hrp_no_1 dec_enc_items length_enc_items)
next
  fix net items c
  show "\<exists>data. co_bech32_decode model_codec (co_encode model_codec net c) = Some (uview_hrp net, data)
      \<and> co_bech32_encode model_codec (uview_hrp net) data = Some (co_encode model_codec net c)
      \<and> co_bech32_encode model_codec (zkv_hrp net) data \<noteq> None"
    by (simp add: model_codec_def split_once_hit hrp_no_1)
next
  fix key items assume "sorted (uf_unknown key)" "mset items = mset (items_of key)"
  then show "co_parse_key model_codec items = Some key" by (simp add: model_parse)
next
  fix key net c assume "co_from_items model_codec (items_of key) = Some c"
  then show "co_encode_key model_codec key net = co_encode model_codec net c"
    by (auto simp: model_codec_def split: if_splits)
qed

definition demo_key :: ufvk where
  "demo_key = \<lparr>uf_transparent = Some ''t'', uf_sapling = Some ''s'', uf_orchard = Some ''o'', uf_unknown = []\<rparr>"

lemma demo_key_fits: "key_fits model_codec Ironwood demo_key"
  by (simp add: key_fits_def demo_key_def pool_item_def items_of_def items_size_def TC_ZKV_META_def model_codec_def)

theorem address_round_trip_witness:
  "\<exists>s. encode_zkv_addr model_codec demo_key NetTest Ironwood 280000 = Ok s \<and>
    parse_zkv_addr model_codec s = Ok \<lparr>pz_raw = s, pz_network = NetTest, pz_ufvk = strip_key Ironwood demo_key,
      pz_birthday = 280000, pz_pool = published_pool Ironwood\<rparr>"
  by (rule address_round_trip [OF model_codec_laws demo_key_fits]) simp

section \<open>The standard form\<close>

text \<open>
  The standard form of an address is no address: reading it is refused with the error that names a
  plain viewing key, and it keeps the bytes of the address.
\<close>

lemma uview_is_refused:
  assumes C: "codec_laws C" and "zkv_addr_to_uview C addr = Ok u"
  shows "\<exists>net data. co_bech32_decode C addr = Some (zkv_hrp net, data)
    \<and> co_bech32_decode C u = Some (uview_hrp net, data)
    \<and> parse_zkv_addr C u = Err (PlainViewingKey (uview_hrp net))"
proof -
  obtain hrp data net where h: "co_bech32_decode C addr = Some (hrp, data)" "net_from_zkv_hrp hrp = Some net"
    and u: "co_bech32_encode C (uview_hrp net) data = Some u"
    using assms(2)
    by (auto simp: zkv_addr_to_uview_def relabel_hrp_def ok_or_Inr split: option.splits)
  have "hrp = zkv_hrp net" using h(2) by (auto simp: net_from_zkv_hrp_def split: if_splits)
  with h codec_lawsD(1) [OF C u] show ?thesis by (auto simp: parse_zkv_addr_def)
qed

end
