(* ===== verification/Funding.thy ===== *)
theory Funding
  imports Address
begin

text \<open>
  The funding ledger (\<open>internal/funding.rs\<close>): the wallet's transactions as deposits, payments,
  self-transfers and bare-fee writes, from the rows of the two views the code queries; and the
  plain transfer with its amount and recipient (\<open>internal/send.rs\<close>).
\<close>

section \<open>The rows\<close>

text \<open>A row of \<open>v_tx_outputs\<close> and of \<open>v_transactions\<close>, the columns the two statements read.\<close>

record output_row =
  or_txid :: "bytes option"
  or_memo :: "bytes option"
  or_to_address :: "str option"
  or_to_account :: "bytes option"
  or_from_account :: "bytes option"
  or_is_change :: "int option"
  or_value :: "int option"

record ledger_row =
  lr_account :: bytes
  lr_txid :: "bytes option"
  lr_mined_height :: "int option"
  lr_expiry_height :: "int option"
  lr_block_time :: "int option"
  lr_delta :: "int option"
  lr_fee :: "int option"

definition TRUSTED_CONFIRMATIONS :: u32 where "TRUSTED_CONFIRMATIONS = 3"
definition UNTRUSTED_CONFIRMATIONS :: u32 where "UNTRUSTED_CONFIRMATIONS = 10"

datatype funding_direction = Received | Sent | SelfTransfer | ZkvOperation

record funding_tx =
  ft_txid :: str
  ft_height :: "u32 option"
  ft_timestamp :: "u32 option"
  ft_direction :: funding_direction
  ft_amount :: nat
  ft_self_sent :: "nat option"
  ft_fee :: "nat option"
  ft_memo :: "str option"
  ft_recipients :: "str list"
  ft_is_zkv :: bool
  ft_pending :: bool
  ft_confirmations :: u32
  ft_required :: u32
  ft_confirmed :: bool

record funding_result =
  fg_entries :: "funding_tx list"
  fg_total :: nat
  fg_offset :: u32
  fg_limit :: "u32 option"

record outputs_agg =
  oa_is_zkv :: bool
  oa_memo :: "str option"
  oa_recipients :: "str list"
  oa_self_value :: nat

definition outputs_agg_default :: outputs_agg where
  "outputs_agg_default = \<lparr>oa_is_zkv = False, oa_memo = None, oa_recipients = [], oa_self_value = 0\<rparr>"

section \<open>Aggregating the outputs\<close>

definition agg_memo :: "str option \<Rightarrow> outputs_agg \<Rightarrow> outputs_agg" where
  "agg_memo memo e =
    (case memo of
       None \<Rightarrow> e
     | Some t \<Rightarrow>
         if looks_like_zkv t then e\<lparr>oa_is_zkv := True\<rparr>
         else if oa_memo e = None \<and> t \<noteq> [] then e\<lparr>oa_memo := Some t\<rparr> else e)"

definition agg_leg :: "output_row \<Rightarrow> outputs_agg \<Rightarrow> outputs_agg" where
  "agg_leg r e =
    (let is_change = (unwrap_or (or_is_change r) 0 \<noteq> 0) in
     if or_to_account r = None \<and> \<not> is_change then
       (case or_to_address r of
          None \<Rightarrow> e
        | Some a \<Rightarrow>
            if a = [] \<or> a \<in> List.set (oa_recipients e) then e
            else e\<lparr>oa_recipients := oa_recipients e @ [a]\<rparr>)
     else if or_to_account r \<noteq> None \<and> \<not> is_change then
       e\<lparr>oa_self_value := min (oa_self_value e + nat (max (unwrap_or (or_value r) 0) 0)) u64_max\<rparr>
     else e)"

text \<open>The loop over the outputs of the account; \<open>agg\<close> is the \<open>HashMap\<close> of the entries so far.\<close>

fun agg_outputs ::
  "(bytes \<Rightarrow> str option) \<Rightarrow> output_row list \<Rightarrow> (bytes \<rightharpoonup> outputs_agg) \<Rightarrow> (bytes \<rightharpoonup> outputs_agg)" where
  "agg_outputs decode [] agg = agg"
| "agg_outputs decode (r # rows) agg =
    (case or_txid r of
       None \<Rightarrow> agg_outputs decode rows agg
     | Some txid \<Rightarrow>
         if txid = [] then agg_outputs decode rows agg
         else agg_outputs decode rows
           (agg(txid \<mapsto> agg_leg r (agg_memo (Option.bind (or_memo r) decode)
                          (unwrap_or (agg txid) outputs_agg_default)))))"

definition account_outputs :: "bytes \<Rightarrow> output_row list \<Rightarrow> output_row list" where
  "account_outputs uuid rows =
    filter (\<lambda>r. or_to_account r = Some uuid \<or> or_from_account r = Some uuid) rows"

section \<open>Classifying a transaction\<close>

text \<open>The value moved, the fee put back on the outgoing side.\<close>

definition raw_fee :: "ledger_row \<Rightarrow> nat option" where
  "raw_fee r = (case lr_fee r of Some f \<Rightarrow> if 0 \<le> f then Some (nat f) else None | None \<Rightarrow> None)"

definition is_outgoing :: "ledger_row \<Rightarrow> bool" where
  "is_outgoing r \<longleftrightarrow> unwrap_or (lr_delta r) 0 < 0"

definition signed_value :: "ledger_row \<Rightarrow> int" where
  "signed_value r =
    (let delta = unwrap_or (lr_delta r) 0 in
     if is_outgoing r then delta + int (unwrap_or (raw_fee r) 0) else delta)"

definition own_fee :: "ledger_row \<Rightarrow> nat option" where
  "own_fee r = (if is_outgoing r then raw_fee r else None)"

definition classify_funding ::
  "outputs_agg option \<Rightarrow> ledger_row \<Rightarrow> (funding_direction \<times> nat \<times> nat option) option" where
  "classify_funding outputs r =
    (let is_zkv = (case outputs of Some e \<Rightarrow> oa_is_zkv e | None \<Rightarrow> False);
         self_value = (case outputs of Some e \<Rightarrow> oa_self_value e | None \<Rightarrow> 0);
         signed = signed_value r in
     if 0 < signed then Some (Received, nat \<bar>signed\<bar>, None)
     else if signed < 0 then Some (Sent, nat \<bar>signed\<bar>, None)
     else if 0 < self_value then Some (SelfTransfer, unwrap_or (own_fee r) 0, Some self_value)
     else if is_zkv \<and> is_outgoing r then Some (ZkvOperation, unwrap_or (own_fee r) 0, None)
     else None)"

definition required_confirmations :: "funding_direction \<Rightarrow> u32" where
  "required_confirmations d =
    (case d of Received \<Rightarrow> UNTRUSTED_CONFIRMATIONS | _ \<Rightarrow> TRUSTED_CONFIRMATIONS)"

definition funding_confirmations :: "u32 \<Rightarrow> u32 option \<Rightarrow> u32" where
  "funding_confirmations tip height =
    (case height of None \<Rightarrow> 0 | Some h \<Rightarrow> sat_add32 (tip - h) 1)"

definition funding_entry ::
  "(bytes \<Rightarrow> str) \<Rightarrow> u32 \<Rightarrow> (bytes \<rightharpoonup> outputs_agg) \<Rightarrow> ledger_row \<Rightarrow> funding_tx option" where
  "funding_entry hex tip agg r =
    (case lr_txid r of
       None \<Rightarrow> None
     | Some txid \<Rightarrow>
         if txid = [] then None
         else (case classify_funding (agg txid) r of
            None \<Rightarrow> None
          | Some (direction, amount, self_sent) \<Rightarrow>
              let height = positive (lr_mined_height r);
                  confirmations = funding_confirmations tip height;
                  required = required_confirmations direction in
              Some \<lparr>ft_txid = hex txid, ft_height = height, ft_timestamp = positive (lr_block_time r),
                    ft_direction = direction, ft_amount = amount, ft_self_sent = self_sent,
                    ft_fee = own_fee r,
                    ft_memo = (case agg txid of Some e \<Rightarrow> oa_memo e | None \<Rightarrow> None),
                    ft_recipients = (case agg txid of Some e \<Rightarrow> oa_recipients e | None \<Rightarrow> []),
                    ft_is_zkv = (case agg txid of Some e \<Rightarrow> oa_is_zkv e | None \<Rightarrow> False),
                    ft_pending = (height = None), ft_confirmations = confirmations,
                    ft_required = required,
                    ft_confirmed = (height \<noteq> None \<and> required \<le> confirmations)\<rparr>))"

text \<open>The rows the second statement selects: of the account, mined or not expired.\<close>

definition in_ledger :: "bytes \<Rightarrow> u32 \<Rightarrow> ledger_row \<Rightarrow> bool" where
  "in_ledger uuid tip r \<longleftrightarrow>
    lr_account r = uuid \<and>
    (lr_mined_height r \<noteq> None \<or> lr_expiry_height r = None \<or> lr_expiry_height r = Some 0
     \<or> (case lr_expiry_height r of None \<Rightarrow> False | Some e \<Rightarrow> int tip \<le> e))"

section \<open>The page\<close>

text \<open>Newest first with the mempool on top: a stable sort by the descending key.\<close>

definition funding_key :: "funding_tx \<Rightarrow> bool \<times> u32 \<times> str" where
  "funding_key t = (ft_pending t, unwrap_or (ft_height t) u32_max, ft_txid t)"

definition newest_first :: "funding_tx list \<Rightarrow> funding_tx list" where
  "newest_first es = rev (sort_key funding_key (rev es))"

definition funding_page :: "u32 option \<Rightarrow> u32 \<Rightarrow> funding_tx list \<Rightarrow> funding_tx list" where
  "funding_page limit offset es =
    (case limit of None \<Rightarrow> drop offset es | Some l \<Rightarrow> take l (drop offset es))"

definition load_funding ::
  "('pk, 'sk) crates \<Rightarrow> bytes \<Rightarrow> u32 \<Rightarrow> output_row list \<Rightarrow> ledger_row list
   \<Rightarrow> u32 option \<Rightarrow> u32 \<Rightarrow> funding_result" where
  "load_funding E uuid tip outputs txs limit offset =
    (let agg = agg_outputs (memo_decode E) (account_outputs uuid outputs) Map.empty;
         entries = newest_first
           (List.map_filter (funding_entry (txid_hex E) tip agg) (filter (in_ledger uuid tip) txs)) in
     \<lparr>fg_entries = funding_page limit offset entries, fg_total = length entries,
      fg_offset = offset, fg_limit = limit\<rparr>)"

section \<open>The amount of a transfer\<close>

text \<open>The bound of \<open>Zatoshis::from_u64\<close>: 21 million coins of \<open>10^8\<close> zatoshi.\<close>

definition MAX_MONEY :: nat where
  "MAX_MONEY = 2100000000000000"

datatype amount_error = EnterAmount | TooManyDecimals | NotAnAmount | AmountTooLarge | AmountZero

definition split_amount :: "str \<Rightarrow> str \<times> str" where
  "split_amount s = (case split_once (CHR ''.'') s of Some p \<Rightarrow> p | None \<Rightarrow> (s, []))"

text \<open>\<open>format!("{frac:0<8}")\<close>\<close>

definition pad_frac :: "str \<Rightarrow> str" where
  "pad_frac frac = frac @ replicate (8 - length frac) (CHR ''0'')"

definition whole_zats :: "str \<Rightarrow> amount_error + nat" where
  "whole_zats whole =
    (if whole = [] then Ok 0
     else (case parse_uint u64_max whole of
        None \<Rightarrow> Err AmountTooLarge
      | Some w \<Rightarrow> if w * 100000000 \<le> u64_max then Ok (w * 100000000) else Err AmountTooLarge))"

definition frac_zats :: "str \<Rightarrow> amount_error + nat" where
  "frac_zats frac = (if frac = [] then Ok 0 else ok_or NotAnAmount (parse_uint u64_max (pad_frac frac)))"

definition parse_zec :: "str \<Rightarrow> amount_error + nat" where
  "parse_zec input =
    (let s = trim input in
     if s = [] then Err EnterAmount
     else (let (whole, frac) = split_amount s in
       if 8 < length frac then Err TooManyDecimals
       else if \<not> list_all is_digit whole \<or> \<not> list_all is_digit frac then Err NotAnAmount
       else
         try_ok (whole_zats whole) (\<lambda>w.
         try_ok (frac_zats frac) (\<lambda>f.
           if u64_max < w + f then Err AmountTooLarge
           else if w + f = 0 then Err AmountZero
           else if w + f \<le> MAX_MONEY then Ok (w + f) else Err AmountTooLarge))))"

text \<open>
  \<open>format_zec_decimal\<close> of \<open>commands/init.rs\<close> and \<open>format_zec\<close> of \<open>ui.rs\<close>, the amounts a user is
  shown. \<open>trim_end_matches\<close> removes the zeros at the end; \<open>{zec:3}\<close> fills to three characters on
  the left and prints the sign of the whole part.
\<close>

definition pad8 :: "nat \<Rightarrow> str" where
  "pad8 n = replicate (8 - length (dec n)) (CHR ''0'') @ dec n"

definition trim_end_zeros :: "str \<Rightarrow> str" where
  "trim_end_zeros s = rev (dropWhile (\<lambda>c. c = CHR ''0'') (rev s))"

definition format_zec_decimal :: "nat \<Rightarrow> str" where
  "format_zec_decimal zats =
    (let whole = zats div 100000000; frac = zats mod 100000000 in
     if frac = 0 then dec whole else trim_end_zeros (dec whole @ ''.'' @ pad8 frac))"

definition COIN :: nat where "COIN = 100000000"

definition show_int :: "int \<Rightarrow> str" where
  "show_int z = (if z < 0 then CHR ''-'' # dec (nat (- z)) else dec (nat z))"

definition format_zec :: "int \<Rightarrow> network \<Rightarrow> str" where
  "format_zec v net =
    (let abs_value = nat \<bar>v\<bar>; abs_zec = abs_value div COIN; frac = abs_value mod COIN;
         zec = (if v < 0 then - int abs_zec else int abs_zec);
         shown = show_int zec in
     replicate (3 - length shown) (CHR '' '') @ shown @ ''.'' @ pad8 frac @ '' '' @ ticker net)"

section \<open>The recipient\<close>

fun net_label :: "network_type \<Rightarrow> str" where
  "net_label NetMain = ''mainnet''"
| "net_label NetTest = ''testnet''"
| "net_label NetRegtest = ''regtest''"

text \<open>
  What \<open>ZcashAddress::from_str\<close> and \<open>convert_if_network\<close> say of a string: \<open>None\<close> when it is no
  address, else the kind it converts to on that network or why it does not.
\<close>

datatype recipient_address =
    RUnified (has_orchard: bool) (has_sapling: bool) | RSapling | RTransparent | RTex

datatype conversion_error = IncorrectNetwork (expected_net: network_type) (actual_net: network_type) | OtherConversion

type_synonym address_reader = "str \<Rightarrow> (network_type \<Rightarrow> conversion_error + recipient_address) option"

record recipient_info =
  ri_kind :: str
  ri_network :: str
  ri_pool :: "str option"

datatype recipient_error =
    EnterRecipient | NotAnAddress | WrongNetwork (actual_label: str) (expected_label: str) | UnsupportedAddress

definition describe_recipient ::
  "address_reader \<Rightarrow> str \<Rightarrow> network_type \<Rightarrow> recipient_error + recipient_info" where
  "describe_recipient reader recipient net =
    (let r = trim recipient in
     if r = [] then Err EnterRecipient
     else (case reader r of
        None \<Rightarrow> Err NotAnAddress
      | Some convert \<Rightarrow>
          (case convert net of
             Inr (RUnified orchard sapling) \<Rightarrow>
               Ok \<lparr>ri_kind = ''unified'', ri_network = net_label net,
                   ri_pool = Some (if orchard then ''ironwood/orchard''
                                   else if sapling then ''sapling'' else ''transparent'')\<rparr>
           | Inr RSapling \<Rightarrow> Ok \<lparr>ri_kind = ''sapling'', ri_network = net_label net, ri_pool = Some ''sapling''\<rparr>
           | Inr RTransparent \<Rightarrow> Ok \<lparr>ri_kind = ''transparent'', ri_network = net_label net, ri_pool = None\<rparr>
           | Inr RTex \<Rightarrow> Ok \<lparr>ri_kind = ''TEX'', ri_network = net_label net, ri_pool = None\<rparr>
           | Inl (IncorrectNetwork e a) \<Rightarrow> Err (WrongNetwork (net_label a) (net_label e))
           | Inl OtherConversion \<Rightarrow> Err UnsupportedAddress)))"

definition validate_recipient :: "address_reader \<Rightarrow> str \<Rightarrow> network_type \<Rightarrow> recipient_error + str" where
  "validate_recipient reader recipient net =
    try_ok (describe_recipient reader recipient net) (\<lambda>info. Ok (ri_kind info))"

datatype send_error =
    BadRecipient recipient_error | SyncFailed | BadAddressText | BadMemo | RecipientTakesNoMemo
  | BadTransferRequest | ShipFailed engine_error

text \<open>
  \<open>send_funds\<close>. \<open>synced\<close> is the answer of \<open>sync_to_tip\<close>, \<open>memo_ok\<close> whether a text is a memo and
  \<open>ship\<close> the engine's answer to the request, which is one payment.
\<close>

definition send_payment :: "zip321 \<Rightarrow> (str \<Rightarrow> bool) \<Rightarrow> str \<Rightarrow> nat \<Rightarrow> str option \<Rightarrow> send_error + payment" where
  "send_payment Z memo_ok recipient amount memo =
    (let text1 = (case memo of None \<Rightarrow> [] | Some m \<Rightarrow> trim m) in
     if text1 \<noteq> [] then
       (if \<not> memo_ok text1 then Err BadMemo
        else if \<not> payment_accepts Z recipient text1 then Err RecipientTakesNoMemo
        else Ok \<lparr>pay_recipient = recipient, pay_zatoshis = amount, pay_memo = text1\<rparr>)
     else Ok \<lparr>pay_recipient = recipient, pay_zatoshis = amount, pay_memo = []\<rparr>)"

definition send_funds ::
  "address_reader \<Rightarrow> zip321 \<Rightarrow> (str \<Rightarrow> bool) \<Rightarrow> (unit \<Rightarrow> bool) \<Rightarrow> (payment list \<Rightarrow> engine_error + str)
   \<Rightarrow> network_type \<Rightarrow> str \<Rightarrow> nat \<Rightarrow> str option \<Rightarrow> bool \<Rightarrow> send_error + str" where
  "send_funds reader Z memo_ok synced ship net recipient amount memo no_sync =
    (let r = trim recipient in
     case validate_recipient reader r net of
       Inl e \<Rightarrow> Err (BadRecipient e)
     | Inr _ \<Rightarrow>
         if \<not> no_sync \<and> \<not> synced () then Err SyncFailed
         else if \<not> address_parses Z r then Err BadAddressText
         else try_ok (send_payment Z memo_ok r amount memo) (\<lambda>p.
           if \<not> request_accepts Z [p] then Err BadTransferRequest
           else (case ship [p] of Inl e \<Rightarrow> Err (ShipFailed e) | Inr txid \<Rightarrow> Ok txid)))"

end
