(* ===== verification/Funding_Props.thy ===== *)
theory Funding_Props
  imports Funding "HOL-Library.Multiset"
begin

text \<open>
  That the ledger accounts for every value moved and shows it page by page, and that an amount
  reads back as it is shown.
\<close>

section \<open>The ledger\<close>

text \<open>The value an entry says has entered the wallet, or left it as a negative number.\<close>

definition transfer_of :: "funding_tx \<Rightarrow> int" where
  "transfer_of t =
    (case ft_direction t of Received \<Rightarrow> int (ft_amount t) | Sent \<Rightarrow> - int (ft_amount t) | _ \<Rightarrow> 0)"

lemma classify_funding_transfer:
  "classify_funding oa r = Some (d, a, s) \<Longrightarrow>
    (case d of Received \<Rightarrow> int a | Sent \<Rightarrow> - int a | _ \<Rightarrow> 0) = signed_value r"
  by (auto simp: classify_funding_def Let_def split: if_splits)

lemma classify_funding_None: "classify_funding oa r = None \<Longrightarrow> signed_value r = 0"
  by (auto simp: classify_funding_def Let_def split: if_splits)

lemma funding_entry_transfer:
  assumes "funding_entry hex tip agg r = Some t"
  shows "transfer_of t = signed_value r" "ft_fee t = own_fee r"
    "ft_direction t \<in> {SelfTransfer, ZkvOperation} \<Longrightarrow> ft_amount t = unwrap_or (own_fee r) 0"
  using assms classify_funding_transfer [of _ r]
  by (auto simp: funding_entry_def transfer_of_def classify_funding_def Let_def
      split: option.splits if_splits prod.splits)

lemma funding_entry_None:
  "funding_entry hex tip agg r = None \<longleftrightarrow>
    lr_txid r = None \<or> lr_txid r = Some [] \<or>
    (\<exists>x. lr_txid r = Some x \<and> classify_funding (agg x) r = None)"
  by (auto simp: funding_entry_def Let_def split: option.splits if_splits prod.splits)

text \<open>The rows with a transaction id.\<close>

definition named_row :: "ledger_row \<Rightarrow> bool" where
  "named_row r \<longleftrightarrow> lr_txid r \<noteq> None \<and> lr_txid r \<noteq> Some []"

lemma sum_transfers:
  "(\<Sum>t\<leftarrow>List.map_filter (funding_entry hex tip agg) rows. transfer_of t)
    = (\<Sum>r\<leftarrow>filter named_row rows. signed_value r)"
proof (induction rows)
  case (Cons r rows)
  show ?case
  proof (cases "funding_entry hex tip agg r")
    case None
    then have "named_row r \<Longrightarrow> signed_value r = 0"
      by (auto simp: funding_entry_None named_row_def dest: classify_funding_None)
    with None Cons show ?thesis by (simp add: map_filter_def)
  next
    case (Some t)
    then have "named_row r" using funding_entry_None [of hex tip agg r] by (auto simp: named_row_def)
    with Some Cons funding_entry_transfer(1) [OF Some] show ?thesis by (simp add: map_filter_def)
  qed
qed (simp add: map_filter_def)

lemma mset_newest_first [simp]: "mset (newest_first es) = mset es"
  by (simp add: newest_first_def)

lemma length_newest_first [simp]: "length (newest_first es) = length es"
  by (simp add: newest_first_def)

lemma newest_first_order: "sorted (map funding_key (rev (newest_first es)))"
  by (simp add: newest_first_def)

lemma sum_list_mset_eq:
  fixes f :: "'a \<Rightarrow> int"
  shows "mset xs = mset ys \<Longrightarrow> (\<Sum>x\<leftarrow>xs. f x) = (\<Sum>y\<leftarrow>ys. f y)"
  by (metis mset_map sum_mset_sum_list)


text \<open>
  Pages tile the ledger: pages of one size, read one after the other, are its entries newest
  first with the mempool on top, none twice and none left out, and each page knows the total.
\<close>

lemma concat_pages:
  "concat (map (\<lambda>i. take l (drop (i * l) xs)) [0..<n]) = take (n * l) xs"
proof (induction n)
  case (Suc n)
  have "take (Suc n * l) xs = take (n * l) xs @ take l (drop (n * l) xs)"
    using take_add [of "n * l" l xs] by (simp add: add.commute)
  with Suc show ?case by simp
qed simp

lemma pages_tile_the_ledger:
  "concat (map (\<lambda>i. fg_entries (load_funding E uuid tip outputs txs (Some l) (i * l))) [0..<n])
      = take (n * l) (fg_entries (load_funding E uuid tip outputs txs None 0))
   \<and> fg_total (load_funding E uuid tip outputs txs limit k)
      = length (fg_entries (load_funding E uuid tip outputs txs None 0))
   \<and> sorted (map funding_key (rev (fg_entries (load_funding E uuid tip outputs txs None 0))))"
  by (simp add: load_funding_def Let_def funding_page_def concat_pages newest_first_order)

section \<open>Amounts\<close>

lemma dec_value_zeros_end: "dec_value (replicate n (CHR ''0'')) = 0"
proof (induction n)
  case (Suc n)
  have "dec_value (replicate n (CHR ''0'') @ [CHR ''0'']) = 0" using Suc by (simp only: dec_value_snoc) (simp add: byte_def)
  then show ?case by (simp add: replicate_append_same)
qed (simp add: dec_value_def)

text \<open>The zatoshi a numeral with a decimal point stands for.\<close>

definition zats_of :: "str \<Rightarrow> str \<Rightarrow> nat" where
  "zats_of whole frac = dec_value whole * 10 ^ 8 + dec_value frac * 10 ^ (8 - length frac)"

lemma parse_uint_digits:
  assumes "list_all is_digit s" "s \<noteq> []"
  shows "parse_uint m s = (if dec_value s \<le> m then Some (dec_value s) else None)"
  using assms by (cases s) (auto simp: parse_uint_def Let_def is_digit_def byte_def)

lemma dec_value_bound: "list_all is_digit s \<Longrightarrow> dec_value s < 10 ^ length s"
proof (induction s rule: rev_induct)
  case (snoc c s)
  then have "dec_value s + 1 \<le> 10 ^ length s" "byte c - 48 \<le> 9" by (auto simp: is_digit_def)
  then show ?case using snoc by (simp add: algebra_simps)
qed (simp add: dec_value_def)

lemma dec_value_Nil [simp]: "dec_value [] = 0"
  by (simp add: dec_value_def)

lemma whole_zats_value:
  assumes "list_all is_digit whole"
  shows "whole_zats whole =
    (if dec_value whole * 10 ^ 8 \<le> u64_max then Ok (dec_value whole * 10 ^ 8) else Err AmountTooLarge)"
  using parse_uint_digits [OF assms, of u64_max] by (cases "whole = []") (auto simp: whole_zats_def)

lemma pad_frac_facts:
  assumes "list_all is_digit frac"
  shows "list_all is_digit (pad_frac frac)" "dec_value (pad_frac frac) = dec_value frac * 10 ^ (8 - length frac)"
    "length frac \<le> 8 \<Longrightarrow> length (pad_frac frac) = 8"
  using assms by (auto simp: pad_frac_def dec_value_append dec_value_zeros_end list_all_iff is_digit_def byte_def)

lemma frac_zats_value:
  assumes "list_all is_digit frac" "length frac \<le> 8"
  shows "frac_zats frac = Ok (dec_value frac * 10 ^ (8 - length frac))"
proof (cases "frac = []")
  case False
  have "dec_value (pad_frac frac) < 10 ^ 8"
    using dec_value_bound [OF pad_frac_facts(1) [OF assms(1)]] pad_frac_facts(3) [OF assms] by simp
  then have "dec_value (pad_frac frac) \<le> u64_max" by (simp add: u64_max_def)
  moreover have "pad_frac frac \<noteq> []" using False by (simp add: pad_frac_def)
  ultimately show ?thesis
    using parse_uint_digits [OF pad_frac_facts(1) [OF assms(1)], of u64_max] False
    by (simp add: frac_zats_def pad_frac_facts(2) [OF assms(1)])
qed (simp add: frac_zats_def)

lemma parse_zec_value:
  assumes "split_amount (trim input) = (whole, frac)" "trim input \<noteq> []" "length frac \<le> 8"
    and "list_all is_digit whole" "list_all is_digit frac"
  shows "parse_zec input =
    (if zats_of whole frac = 0 then Err AmountZero
     else if zats_of whole frac \<le> MAX_MONEY then Ok (zats_of whole frac) else Err AmountTooLarge)"
proof -
  let ?w = "dec_value whole * 10 ^ 8" and ?f = "dec_value frac * 10 ^ (8 - length frac)"
  have m: "MAX_MONEY \<le> u64_max" by (simp add: MAX_MONEY_def u64_max_def)
  have z: "zats_of whole frac = ?w + ?f" by (simp add: zats_of_def)
  show ?thesis
  proof (cases "?w \<le> u64_max")
    case True
    then show ?thesis
      using assms m by (auto simp: parse_zec_def Let_def whole_zats_value frac_zats_value z)
  next
    case False
    then show ?thesis
      using assms m by (auto simp: parse_zec_def Let_def whole_zats_value z)
  qed
qed

text \<open>
  An amount is read exactly: what is accepted has at most eight decimals, is positive, is at
  most all the money there is, and is the number the digits stand for.
\<close>

lemma parse_zec_exact:
  assumes "parse_zec input = Ok zats"
  shows "\<exists>whole frac. split_amount (trim input) = (whole, frac) \<and> length frac \<le> 8
    \<and> list_all is_digit whole \<and> list_all is_digit frac
    \<and> zats = zats_of whole frac \<and> 0 < zats \<and> zats \<le> MAX_MONEY"
proof -
  obtain whole frac where sp: "split_amount (trim input) = (whole, frac)" by fastforce
  have ok: "trim input \<noteq> []" "length frac \<le> 8" "list_all is_digit whole" "list_all is_digit frac"
    using assms sp by (auto simp: parse_zec_def Let_def split: if_splits)
  show ?thesis
    using parse_zec_value [OF sp ok] assms sp ok by (auto split: if_splits)
qed

section \<open>Amounts as they are shown\<close>

lemma digit_no_dot: "list_all is_digit s \<Longrightarrow> CHR ''.'' \<notin> List.set s"
  by (auto simp: list_all_iff is_digit_def byte_def)

lemma split_amount_dot: "list_all is_digit w \<Longrightarrow> split_amount (w @ ''.'' @ f) = (w, f)"
  by (simp add: split_amount_def split_once_hit digit_no_dot)

lemma split_amount_plain: "list_all is_digit w \<Longrightarrow> split_amount w = (w, [])"
  by (simp add: split_amount_def split_once_miss digit_no_dot)

lemma dot_plain: "plain (CHR ''.'')"
  by (simp add: plain_def byte_def)

lemma trim_numeral:
  assumes "list_all is_digit w" "list_all is_digit f"
  shows "trim (w @ ''.'' @ f) = w @ ''.'' @ f" "trim w = w"
proof -
  have p: "list_all plain w" "list_all plain f" using assms by (auto simp: list_all_iff digit_plain)
  show "trim w = w" by (rule trim_plain [OF p(1)])
  show "trim (w @ ''.'' @ f) = w @ ''.'' @ f" by (rule trim_plain) (use p dot_plain in simp)
qed

lemma pad8_facts:
  assumes "n < 10 ^ 8"
  shows "list_all is_digit (pad8 n)" "dec_value (pad8 n) = n" "length (pad8 n) = 8"
proof -
  have "length (dec n) \<le> 8"
  proof -
    have len: "n < 10 ^ k \<Longrightarrow> 0 < k \<Longrightarrow> length (dec n) \<le> k" for n k :: nat
    proof (induction k arbitrary: n)
      case (Suc k)
      show ?case
      proof (cases "n < 10")
        case False
        then have "n div 10 < 10 ^ k" "0 < k" using Suc.prems by (auto simp: div_less_iff_less_mult intro: Suc_leI gr0I)
        with Suc.IH [of "n div 10"] False show ?thesis by (subst dec.simps) simp
      qed (subst dec.simps, simp)
    qed simp
    show ?thesis using len [of n 8] assms by simp
  qed
  then show "length (pad8 n) = 8" by (simp add: pad8_def)
  show "list_all is_digit (pad8 n)"
    using dec_digits [of n] by (auto simp: pad8_def list_all_iff is_digit_def byte_def)
  show "dec_value (pad8 n) = n" by (simp add: pad8_def dec_value_append dec_value_zeros_end)
qed

text \<open>Zeros at the end of the decimals do not count, and never reach the point.\<close>

lemma trim_end_zeros_decomp: "\<exists>k. s = trim_end_zeros s @ replicate k (CHR ''0'')"
proof (induction s rule: rev_induct)
  case (snoc c s)
  show ?case
  proof (cases "c = CHR ''0''")
    case True
    from snoc obtain k where k: "s = trim_end_zeros s @ replicate k (CHR ''0'')" ..
    have "s @ [c] = trim_end_zeros s @ replicate (Suc k) (CHR ''0'')"
      using k True by (metis append_assoc replicate_app_Cons_same replicate_append_same replicate_Suc)
    moreover have "trim_end_zeros (s @ [c]) = trim_end_zeros s" using True by (simp add: trim_end_zeros_def)
    ultimately show ?thesis by metis
  next
    case False
    then show ?thesis by (intro exI [of _ 0]) (simp add: trim_end_zeros_def)
  qed
qed (simp add: trim_end_zeros_def)

lemma trim_end_zeros_append:
  assumes "trim_end_zeros f \<noteq> []"
  shows "trim_end_zeros (w @ f) = w @ trim_end_zeros f"
proof -
  obtain x where "x \<in> List.set (rev f)" "x \<noteq> CHR ''0''" using assms by (auto simp: trim_end_zeros_def)
  then have "dropWhile (\<lambda>c. c = CHR ''0'') (rev f @ rev w) = dropWhile (\<lambda>c. c = CHR ''0'') (rev f) @ rev w"
    by (rule dropWhile_append1)
  then show ?thesis by (simp add: trim_end_zeros_def)
qed

text \<open>
  The amount shown reads back: what \<open>zkv init\<close> asks for or reports, typed into the send form,
  is the same number of zatoshi.
\<close>

lemma shown_amount_reads_back:
  assumes "0 < z" "z \<le> MAX_MONEY"
  shows "parse_zec (format_zec_decimal z) = Ok z"
proof -
  define w where "w = z div 100000000"
  define f where "f = z mod 100000000"
  have z: "z = w * 10 ^ 8 + f" by (simp add: w_def f_def)
  have f: "f < 10 ^ 8" by (simp add: f_def)
  show ?thesis
  proof (cases "f = 0")
    case True
    then have s: "format_zec_decimal z = dec w" by (simp add: format_zec_decimal_def w_def f_def)
    have "parse_zec (dec w) = Ok z"
      using assms z True
      by (subst parse_zec_value [of _ "dec w" "[]"])
        (auto simp: trim_numeral(2) [OF dec_digits dec_digits] split_amount_plain dec_digits zats_of_def)
    with s show ?thesis by simp
  next
    case False
    define g where "g = trim_end_zeros (pad8 f)"
    obtain k where k: "pad8 f = g @ replicate k (CHR ''0'')" using trim_end_zeros_decomp [of "pad8 f"] g_def by blast
    have len: "length g + k = 8" using pad8_facts(3) [OF f] k by (metis length_append length_replicate)
    have dg: "list_all is_digit g" using pad8_facts(1) [OF f] by (simp add: k)
    have val: "dec_value g * 10 ^ k = f"
      using pad8_facts(2) [OF f] by (simp add: k dec_value_append dec_value_zeros_end)
    then have ne: "g \<noteq> []" using False by auto
    have s: "format_zec_decimal z = dec w @ ''.'' @ g"
      using False trim_end_zeros_append [of "pad8 f" "dec w @ ''.''"] ne
      by (simp add: format_zec_decimal_def w_def [symmetric] f_def [symmetric] g_def)
    have z2: "zats_of (dec w) g = z"
      using val z len by (simp add: zats_of_def) (metis add_diff_cancel_left' )
    have "parse_zec (dec w @ ''.'' @ g) = Ok z"
      by (subst parse_zec_value [of _ "dec w" g])
        (use assms z2 len dg in \<open>auto simp: trim_numeral(1) [OF dec_digits dg] split_amount_dot dec_digits
          simp del: append_Cons\<close>)
    with s show ?thesis by simp
  qed
qed

text \<open>
  The balance formatter keeps the sign with the whole coins only: an amount between minus one
  coin and zero is shown as a positive one.
\<close>

lemma small_negative_loses_sign: "format_zec (- 5000000) net = format_zec 5000000 net"
  by (simp add: format_zec_def COIN_def show_int_def)

section \<open>The transfer\<close>

lemma send_payment_fields:
  "send_payment Z memo_ok r amount memo = Ok p \<Longrightarrow> pay_recipient p = r \<and> pay_zatoshis p = amount"
  by (auto simp: send_payment_def Let_def split: if_splits)

text \<open>
  A transfer ships one payment, to the recipient that was validated for the database's own
  network, and of the amount asked for.
\<close>

lemma transfer_pays_what_was_asked:
  assumes "send_funds reader Z memo_ok synced ship net recipient amount memo no_sync = Ok txid"
  shows "\<exists>kind p. validate_recipient reader (trim recipient) net = Ok kind \<and> ship [p] = Ok txid
    \<and> pay_recipient p = trim recipient \<and> pay_zatoshis p = amount
    \<and> (no_sync \<or> synced ())"
proof -
  obtain kind where k: "validate_recipient reader (trim recipient) net = Ok kind"
    using assms by (auto simp: send_funds_def Let_def split: sum.splits)
  have s: "no_sync \<or> synced ()" "address_parses Z (trim recipient)"
    using assms k by (auto simp: send_funds_def Let_def split: if_splits)
  then obtain p where p: "send_payment Z memo_ok (trim recipient) amount memo = Ok p"
    "(if \<not> request_accepts Z [p] then Err BadTransferRequest
      else (case ship [p] of Inl e \<Rightarrow> Err (ShipFailed e) | Inr txid \<Rightarrow> Ok txid)) = Ok txid"
    using assms k by (auto simp: send_funds_def Let_def try_ok_Inr)
  have "ship [p] = Ok txid" using p(2) by (auto split: if_splits sum.splits)
  with k s send_payment_fields [OF p(1)] show ?thesis by blast
qed

end
