(* ===== verification/Sync_Skip.thy ===== *)
theory Sync_Skip
  imports Facade Fleet_Moves
begin

text \<open>
  Synchronising before a read: when a scan may be skipped (\<open>internal/sync.rs\<close>), the loop that waits
  for the node (\<open>engine/node.rs\<close>), the entry points of the facade (\<open>db.rs\<close>), and the choice of a
  birthday against the live tip.
\<close>

section \<open>Tolerances\<close>

definition NEAR_TIP_TOLERANCE :: u32 where "NEAR_TIP_TOLERANCE = 1"

text \<open>\<open>saturating_sub\<close> is the subtraction of \<open>nat\<close>.\<close>

definition read_tip_tolerance :: "u32 \<Rightarrow> u32" where
  "read_tip_tolerance min_confs = min_confs - 1"

definition read_sync_tolerance :: "u32 \<Rightarrow> u32 option" where
  "read_sync_tolerance min_confs = (if min_confs = 0 then None else Some (read_tip_tolerance min_confs))"

section \<open>A fresh tip and the birthday\<close>

definition TIP_MAX_AGE :: nat where "TIP_MAX_AGE = 300"

text \<open>The clock, \<open>None\<close> when it stands before the epoch; the sum saturates as a \<open>u64\<close>.\<close>

definition tip_time_is_fresh :: "nat option \<Rightarrow> u32 \<Rightarrow> bool" where
  "tip_time_is_fresh clock block_time =
    (case clock of None \<Rightarrow> False | Some now \<Rightarrow> now \<le> min (block_time + TIP_MAX_AGE) u64_max)"

definition BIRTHDAY_SAFETY_BUFFER :: u32 where "BIRTHDAY_SAFETY_BUFFER = 10"

datatype tip_error = StaleTip | TipOther str

record tip_status =
  ts_height :: u32
  ts_time :: u32

text \<open>
  The two probes: \<open>tip_status\<close>, and \<open>account_birthday\<close> at a height with the tip as the end of the
  recovery.
\<close>

record 'b probes =
  pb_tip :: "str + tip_status"
  pb_birthday :: "u32 \<Rightarrow> u32 option \<Rightarrow> str + 'b"

definition fresh_chain_tip :: "'b probes \<Rightarrow> nat option \<Rightarrow> network \<Rightarrow> tip_error + u32" where
  "fresh_chain_tip P clock net =
    try_ok (map_err TipOther (pb_tip P)) (\<lambda>tip.
      if net = Regtest then Ok (ts_height tip)
      else if \<not> tip_time_is_fresh clock (ts_time tip) then Err StaleTip
      else Ok (ts_height tip))"

definition account_birthday_at :: "'b probes \<Rightarrow> u32 \<Rightarrow> u32 \<Rightarrow> tip_error + 'b" where
  "account_birthday_at P birthday_height chain_tip =
    map_err TipOther (pb_birthday P birthday_height (Some chain_tip))"

definition near_tip_birthday :: "'b probes \<Rightarrow> nat option \<Rightarrow> network \<Rightarrow> tip_error + 'b" where
  "near_tip_birthday P clock net =
    try_ok (fresh_chain_tip P clock net) (\<lambda>tip. account_birthday_at P (tip - BIRTHDAY_SAFETY_BUFFER) tip)"

definition pinned_birthday :: "'b probes \<Rightarrow> nat option \<Rightarrow> network \<Rightarrow> u32 \<Rightarrow> tip_error + 'b" where
  "pinned_birthday P clock net birthday_height =
    try_ok (fresh_chain_tip P clock net) (\<lambda>tip. account_birthday_at P birthday_height tip)"

definition pinned_birthday_unchecked :: "'b probes \<Rightarrow> u32 \<Rightarrow> tip_error + 'b" where
  "pinned_birthday_unchecked P birthday_height =
    try_ok (map_err TipOther (pb_tip P)) (\<lambda>tip. account_birthday_at P birthday_height (ts_height tip))"

section \<open>Waiting for the node\<close>

text \<open>
  One answer of \<open>wait_for_sync\<close>. An observation is the cancel flag as it stands before the call,
  and what the call answers.
\<close>

record node_state =
  ns_height :: u32
  ns_chain_tip :: "u32 option"
  ns_synced :: bool
  ns_imported :: "bool option"
  ns_import_error :: "str option"

type_synonym observation = "bool \<times> (engine_error + node_state)"

record sync_outcome =
  so_scanned_height :: u32
  so_chain_tip :: u32

record sync_progress =
  sp_scanned :: u32
  sp_tip :: u32

definition progress_store :: "u32 \<Rightarrow> u32 option \<Rightarrow> sync_progress" where
  "progress_store scanned tip = \<lparr>sp_scanned = scanned, sp_tip = unwrap_or tip 0\<rparr>"

definition progress_read :: "sync_progress \<Rightarrow> u32 \<times> u32 option" where
  "progress_read p = (sp_scanned p, if sp_tip p = 0 then None else Some (sp_tip p))"

text \<open>
  The loop over the observations: the progress published, and the result, \<open>None\<close> while it still
  waits.
\<close>

fun sync_wallet_loop ::
  "str \<Rightarrow> observation list \<Rightarrow> sync_progress list \<times> (engine_error + sync_outcome) option" where
  "sync_wallet_loop wallet [] = ([], None)"
| "sync_wallet_loop wallet ((cancelled, answer) # obs) =
    (if cancelled then ([], Some (Err Cancelled))
     else (case answer of
        Inl e \<Rightarrow> ([], Some (Err e))
      | Inr st \<Rightarrow>
          (case ns_import_error st of
             Some reason \<Rightarrow> ([], Some (Err (ImportFailed wallet reason)))
           | None \<Rightarrow>
               if ns_imported st = Some False then ([], Some (Err (NotImported wallet)))
               else (let seen = progress_store (ns_height st) (ns_chain_tip st) in
                 if ns_synced st
                 then ([seen], Some (Ok \<lparr>so_scanned_height = ns_height st,
                         so_chain_tip = unwrap_or (ns_chain_tip st) (ns_height st)\<rparr>))
                 else map_prod (Cons seen) id (sync_wallet_loop wallet obs)))))"

text \<open>The node, started if it is not running: \<open>start\<close> is the error of the attempt.\<close>

definition sync_wallet_once ::
  "engine_error option \<Rightarrow> str \<Rightarrow> observation list
   \<Rightarrow> sync_progress list \<times> (engine_error + sync_outcome) option" where
  "sync_wallet_once start wallet obs =
    (case start of Some e \<Rightarrow> ([], Some (Err e)) | None \<Rightarrow> sync_wallet_loop wallet obs)"

datatype engine_kind = OwnKind | FleetKind network

text \<open>
  A shared node that does not know the member is asked to load it, once. \<open>code\<close> is the node's code
  for an unknown wallet.
\<close>

definition sync_wallet ::
  "int \<Rightarrow> engine_kind \<Rightarrow> engine_error option \<Rightarrow> (engine_error + unit) \<Rightarrow> str
   \<Rightarrow> observation list \<Rightarrow> observation list
   \<Rightarrow> sync_progress list \<times> (engine_error + sync_outcome) option" where
  "sync_wallet code kind start load_member wallet obs again =
    (let first = sync_wallet_once start wallet obs in
     case snd first of
       Some (Inl (Rpc c _ _)) \<Rightarrow>
         if c = code \<and> kind \<noteq> OwnKind
         then (case load_member of
                 Inl e \<Rightarrow> (fst first, Some (Err e))
               | Inr _ \<Rightarrow> map_prod ((@) (fst first)) id (sync_wallet_once None wallet again))
         else first
     | _ \<Rightarrow> first)"

text \<open>
  Starting the node against another process that holds the directory: the attempts with the time of
  each, \<open>None\<close> while it still retries.
\<close>

datatype start_attempt = Started | HeldLock | StartFailed

fun start_attempts :: "str \<Rightarrow> nat option \<Rightarrow> (nat \<times> start_attempt) list \<Rightarrow> (engine_error + unit) option" where
  "start_attempts db deadline [] = None"
| "start_attempts db deadline ((now, attempt) # rest) =
    (case attempt of
       Started \<Rightarrow> Some (Ok ())
     | StartFailed \<Rightarrow> Some (Err EngineOther)
     | HeldLock \<Rightarrow>
         (case deadline of
            None \<Rightarrow> Some (Err (Busy db))
          | Some d \<Rightarrow> if d \<le> now then Some (Err (Busy db)) else start_attempts db deadline rest))"

definition start_node ::
  "str \<Rightarrow> nat option \<Rightarrow> nat \<Rightarrow> (nat \<times> start_attempt) list \<Rightarrow> (engine_error + unit) option" where
  "start_node db busy_wait begun attempts = start_attempts db (map_option ((+) begun) busy_wait) attempts"

section \<open>Skipping a scan\<close>

datatype sync_error =
    SyncPaths data_error | SyncWallet str | SyncRpc str | TipOutOfRange | SyncEngine engine_error
  | SyncCache snap_error

text \<open>
  What a sync asks: the paths of the database, the wallet's own answers \<open>chain_height\<close> and
  \<open>suggest_scan_ranges\<close>, and the height of \<open>GetLatestBlock\<close>, a \<open>u64\<close>.
\<close>

record wallet_world =
  ww_paths :: "data_error + path \<times> path"
  ww_height :: "local_db \<Rightarrow> str + u32 option"
  ww_ranges :: "local_db \<Rightarrow> str + (u32 \<times> u32) list"
  ww_latest :: "str + nat"

definition latest_height :: "wallet_world \<Rightarrow> sync_error + u32" where
  "latest_height W =
    try_ok (map_err SyncRpc (ww_latest W)) (\<lambda>h. if h \<le> u32_max then Ok h else Err TipOutOfRange)"

definition is_import_pending :: "data_error \<Rightarrow> bool" where
  "is_import_pending e = (case e of ImportPending _ \<Rightarrow> True | _ \<Rightarrow> False)"

definition read_sync_skippable :: "wallet_world \<Rightarrow> u32 \<Rightarrow> local_db \<Rightarrow> sync_error + u32 option" where
  "read_sync_skippable W tolerance L =
    (case ww_paths W of
       Inl e \<Rightarrow> if is_import_pending e then Ok None else Err (SyncPaths e)
     | Inr _ \<Rightarrow>
         try_ok (map_err SyncWallet (ww_height W L)) (\<lambda>height.
           case height of
             None \<Rightarrow> Ok None
           | Some wallet_tip \<Rightarrow>
               try_ok (map_err SyncWallet (ww_ranges W L)) (\<lambda>ranges.
                 if ranges \<noteq> [] then Ok None
                 else try_ok (latest_height W) (\<lambda>rpc_tip.
                   if rpc_tip - wallet_tip \<le> tolerance then Ok (Some wallet_tip) else Ok None))))"

definition wallet_synced_to_tip :: "wallet_world \<Rightarrow> local_db \<Rightarrow> sync_error + bool" where
  "wallet_synced_to_tip W L =
    try_ok (map_err SyncPaths (ww_paths W)) (\<lambda>_.
    try_ok (map_err SyncWallet (ww_height W L)) (\<lambda>wallet_tip.
    try_ok (map_err SyncWallet (ww_ranges W L)) (\<lambda>ranges.
    try_ok (latest_height W) (\<lambda>rpc_tip.
      Ok ((wallet_tip \<noteq> None \<and> rpc_tip - unwrap_or wallet_tip 0 \<le> NEAR_TIP_TOLERANCE) \<and> ranges = [])))))"

section \<open>The sync of a read\<close>

text \<open>
  An engine as the sync uses it: what it serves, and what \<open>sync_wallet\<close> for a wallet name does to
  the wallet and answers.
\<close>

record sync_engine =
  se_kind :: engine_kind
  se_sync :: "str \<Rightarrow> bool \<Rightarrow> wallet_db \<times> u32 \<times> u32 \<Rightarrow> (wallet_db \<times> u32 \<times> u32) \<times> (engine_error + sync_outcome)"

definition engine_wallet_name :: "engine_kind \<Rightarrow> str \<Rightarrow> str" where
  "engine_wallet_name kind db_name = (case kind of OwnKind \<Rightarrow> WALLET | FleetKind _ \<Rightarrow> db_name)"

definition prune_pending :: "('pk, 'sk) crates \<Rightarrow> wallet_world \<Rightarrow> bool \<Rightarrow> nat \<Rightarrow> local_db \<Rightarrow> local_db" where
  "prune_pending E W io now L =
    (case ww_paths W of
       Inl _ \<Rightarrow> L
     | Inr _ \<Rightarrow> L\<lparr>lo_pending := gc_pending E io now (lo_wallet L) (lo_pending L)\<rparr>)"

definition read_sync ::
  "('pk, 'sk) crates \<Rightarrow> wallet_world \<Rightarrow> sync_engine \<Rightarrow> bool \<Rightarrow> nat \<Rightarrow> str \<Rightarrow> u32 option \<Rightarrow> bool \<Rightarrow> local_db
   \<Rightarrow> local_db \<times> (sync_error + u32)" where
  "read_sync E W eng io now db_name tolerance cancel L =
    (case (case tolerance of None \<Rightarrow> Ok None | Some t \<Rightarrow> read_sync_skippable W t L) of
       Inl e \<Rightarrow> (L, Err e)
     | Inr (Some height) \<Rightarrow> (prune_pending E W io now L, Ok height)
     | Inr None \<Rightarrow>
         (let ((w, tip, scanned), res) =
                se_sync eng (engine_wallet_name (se_kind eng) db_name) cancel
                  (lo_wallet L, lo_tip L, lo_scanned L);
              L' = L\<lparr>lo_wallet := w, lo_tip := tip, lo_scanned := scanned\<rparr>
          in case res of
               Inl e \<Rightarrow> (L', Err (SyncEngine e))
             | Inr out \<Rightarrow> (prune_pending E W io now L', Ok (so_scanned_height out))))"

section \<open>The facade\<close>

text \<open>The variants of \<open>ZkvError\<close> a sync ends in; \<open>SyncOther\<close> is \<open>Other\<close> with its cause.\<close>

datatype sync_failure = SyncImporting | SyncOther sync_error | SyncOpen zkv_error

definition is_cancelled :: "sync_error \<Rightarrow> bool" where
  "is_cancelled e \<longleftrightarrow> e = SyncEngine Cancelled"

definition classify_sync_error :: "sync_error \<Rightarrow> sync_failure" where
  "classify_sync_error e =
    (case e of SyncPaths p \<Rightarrow> if is_import_pending p then SyncImporting else SyncOther e | _ \<Rightarrow> SyncOther e)"

definition wallet_tip :: "wallet_world \<Rightarrow> local_db \<Rightarrow> sync_error + u32" where
  "wallet_tip W L =
    try_ok (map_err SyncPaths (ww_paths W)) (\<lambda>_.
    try_ok (map_err SyncWallet (ww_height W L)) (\<lambda>h. Ok (unwrap_or h 0)))"

definition skip_sync_if_blocked :: "wallet_world \<Rightarrow> local_db \<Rightarrow> sync_failure + u32 option" where
  "skip_sync_if_blocked W L =
    try_ok (map_err (\<lambda>e. SyncOther (SyncCache e)) (cached_version (Some (lo_snapshot L)))) (\<lambda>cached.
      if blocks_sync cached then try_ok (map_err SyncOther (wallet_tip W L)) (\<lambda>tip. Ok (Some tip))
      else Ok None)"

text \<open>\<open>synced_height\<close>: the fully scanned height of the summary, when the wallet has one.\<close>

definition synced_height :: "wallet_world \<Rightarrow> (local_db \<Rightarrow> str + u32 option) \<Rightarrow> local_db \<Rightarrow> sync_error + u32 option" where
  "synced_height W summary L =
    try_ok (map_err SyncPaths (ww_paths W)) (\<lambda>_.
    try_ok (map_err SyncWallet (summary L)) (\<lambda>s.
      case s of
        Some h \<Rightarrow> Ok (Some h)
      | None \<Rightarrow> map_err SyncWallet (ww_height W L)))"

text \<open>
  \<open>sync_through_engine\<close>, on the local database and the disk of the configurations: \<open>start\<close> is the
  error of opening the engine, \<open>shard\<close> the height the shared node answers a converting database.
\<close>

definition sync_through_engine ::
  "('pk, 'sk) crates \<Rightarrow> wallet_world \<Rightarrow> (local_db \<Rightarrow> str + u32 option) \<Rightarrow> outside \<Rightarrow> wallet_config
   \<Rightarrow> engine_error option \<Rightarrow> sync_engine \<Rightarrow> u32 option \<Rightarrow> bool \<Rightarrow> nat \<Rightarrow> str \<Rightarrow> u32 option \<Rightarrow> bool
   \<Rightarrow> local_db \<times> disk \<Rightarrow> (local_db \<times> disk) \<times> (sync_failure + u32)" where
  "sync_through_engine E W summary os handle start eng shard io now db_name tolerance cancel =
    (\<lambda>(L, d).
      case skip_sync_if_blocked W L of
        Inl e \<Rightarrow> ((L, d), Err e)
      | Inr (Some tip) \<Rightarrow> ((L, d), Ok tip)
      | Inr None \<Rightarrow>
          (case start of
             Some e \<Rightarrow> ((L, d), Err (SyncOpen (map_engine_error e)))
           | None \<Rightarrow>
               (let (L', out) = read_sync E W eng io now db_name tolerance cancel L in
                case out of
                  Inr height \<Rightarrow> ((L', io_final (drive_pending_fleet os handle db_name height shard) d), Ok height)
                | Inl e \<Rightarrow>
                    ((L', d),
                     if is_cancelled e
                     then try_ok (map_err SyncOther (synced_height W summary L')) (\<lambda>h. Ok (unwrap_or h 0))
                     else Err (classify_sync_error e)))))"

definition sync_cancellable where
  "sync_cancellable E W summary os handle start eng shard io now db_name cancel =
    sync_through_engine E W summary os handle start eng shard io now db_name (Some NEAR_TIP_TOLERANCE) cancel"

definition sync_db where
  "sync_db E W summary os handle start eng shard io now db_name =
    sync_through_engine E W summary os handle start eng shard io now db_name (Some NEAR_TIP_TOLERANCE) False"

definition sync_with_mempool where
  "sync_with_mempool E W summary os handle start eng shard io now db_name =
    (\<lambda>(L, d).
      case skip_sync_if_blocked W L of
        Inl e \<Rightarrow> ((L, d), Err e)
      | Inr (Some tip) \<Rightarrow> ((L, d), Ok tip)
      | Inr None \<Rightarrow>
          sync_through_engine E W summary os handle start eng shard io now db_name None False (L, d))"

definition chain_tip :: "wallet_world \<Rightarrow> sync_error + u32" where
  "chain_tip W = latest_height W"

definition blocksync_skip :: "local_db \<Rightarrow> snap_error + bool" where
  "blocksync_skip L = try_ok (cached_version (Some (lo_snapshot L))) (\<lambda>cached. Ok (blocks_sync cached))"

end
