(* ===== verification/Sync_Props.thy ===== *)
theory Sync_Props
  imports Sync_Skip Read_Props Demo_Client
begin

text \<open>
  What a skipped scan is worth to the read after it, what the loop on the node answers, and what the
  facade makes of it.
\<close>

section \<open>A skip\<close>

lemma read_sync_skippable_Some:
  assumes "read_sync_skippable W tolerance L = Ok (Some h)"
  shows "ww_height W L = Ok (Some h)" "ww_ranges W L = Ok []"
    "\<exists>T. latest_height W = Ok T \<and> T - h \<le> tolerance"
  using assms
  by (auto simp: read_sync_skippable_def try_ok_Inr split: sum.splits option.splits if_splits
      elim!: map_err.elims)

lemma skip_distance:
  assumes "read_sync_skippable W (read_tip_tolerance c) L = Ok (Some h)" "latest_height W = Ok T" "0 < c"
  shows "T - h < c"
  using read_sync_skippable_Some(3) [OF assms(1)] assms(2,3) by (auto simp: read_tip_tolerance_def)

section \<open>The status of a row at two tips\<close>

lemma row_status_Confirmed:
  "row_status E tip c uuid row = Some Confirmed \<longleftrightarrow>
    mined_u32 row \<noteq> None \<and> effective_min_confs (is_init_memo E (dr_text row)) c \<le> confirmations tip row"
  by (auto simp: row_status_def Let_def)

lemma confirmations_below:
  assumes "mined_u32 row = Some k" "tip < u32_max"
  shows "confirmations tip row = tip - k + 1"
  using assms by (simp add: confirmations_def sat_add32_def)

lemma effective_init: "0 < c \<Longrightarrow> effective_min_confs True c = 1"
  by (simp add: effective_min_confs_def INIT_CONFIRMATIONS_def)

lemma effective_other [simp]: "effective_min_confs False c = c"
  by (simp add: effective_min_confs_def)

lemma status_at_two_tips:
  assumes "0 < c" "max h T < u32_max" "\<And>k. mined_u32 row = Some k \<Longrightarrow> k \<le> h"
  shows "row_status E h c uuid row = Some Confirmed \<longleftrightarrow>
    row_status E (max h T) (c + (T - h)) uuid row = Some Confirmed"
proof (cases "mined_u32 row")
  case (Some k)
  have k: "k \<le> h" by (rule assms(3) [OF Some])
  have conf: "confirmations h row = h - k + 1" "confirmations (max h T) row = max h T - k + 1"
    using assms(2) confirmations_below [OF Some, of h] confirmations_below [OF Some, of "max h T"] by auto
  show ?thesis
  proof (cases "is_init_memo E (dr_text row)")
    case True
    then show ?thesis using assms(1) Some conf by (simp add: row_status_Confirmed effective_init)
  next
    case False
    then show ?thesis using Some conf k by (auto simp: row_status_Confirmed max_def)
  qed
qed (simp add: row_status_Confirmed)

definition confirmed_entries :: "replay_entry list \<Rightarrow> replay_entry list" where
  "confirmed_entries es = filter (\<lambda>e. re_status e = Confirmed) es"

lemma confirmed_full_stream:
  "confirmed_entries (full_stream E tip c uuid rows) =
    map (\<lambda>row. \<lparr>re_text = dr_text row, re_status = Confirmed, re_txid = txid_hex E (dr_txid row),
                 re_block_time = positive (dr_block_time row)\<rparr>)
      (filter (\<lambda>row. row_status E tip c uuid row = Some Confirmed) rows)"
proof (induction rows)
  case (Cons row rows)
  then show ?case
    by (cases "row_status E tip c uuid row")
      (auto simp: confirmed_entries_def full_stream_def tail_entry_def List.map_filter_simps)
qed (simp add: confirmed_entries_def full_stream_def List.map_filter_simps)


definition near_world :: wallet_world where
  "near_world = \<lparr>ww_paths = Ok ([], []), ww_height = (\<lambda>_. Ok (Some 7)), ww_ranges = (\<lambda>_. Ok []), ww_latest = Ok 9\<rparr>"

lemma near_world_skips:
  "read_sync_skippable near_world (read_tip_tolerance 3) demo_local = Ok (Some 7)"
  "latest_height near_world = Ok 9"
  by (simp_all add: read_sync_skippable_def near_world_def latest_height_def read_tip_tolerance_def u32_max_def)

lemma demo_memos_mined: "\<forall>row\<in>set demo_memos. \<forall>k. mined_u32 row = Some k \<longrightarrow> k \<le> 7"
  by (simp add: demo_memos_def)


text \<open>
  A skip never invents a confirmation, and hides one only of the newest memos: of those the wallet
  has scanned, the ones mined in its last blocks, fewer than the depth asked for, and of those it has
  not scanned, an \<open>INIT\<close>.
\<close>

lemma skip_hides_only_the_newest:
  assumes "read_sync_skippable W (read_tip_tolerance c) L = Ok (Some h)"
    and "latest_height W = Ok T" "0 < c" "max h T < u32_max"
    and "mined_u32 row = Some k" "k \<le> max h T"
  shows "(k \<le> h \<and> row_status E h c uuid row = Some Confirmed \<longrightarrow>
        row_status E (max h T) c uuid row = Some Confirmed)
    \<and> (row_status E (max h T) c uuid row = Some Confirmed
        \<and> \<not> (k \<le> h \<and> row_status E h c uuid row = Some Confirmed) \<longrightarrow>
        (k \<le> h \<and> h + 1 < k + c) \<or> (h < k \<and> is_init_memo E (dr_text row)))"
proof -
  have near: "T - h < c" by (rule skip_distance [OF assms(1-3)])
  have conf: "confirmations h row = h - k + 1" "confirmations (max h T) row = max h T - k + 1"
    using assms(4) confirmations_below [OF assms(5), of h] confirmations_below [OF assms(5), of "max h T"]
    by auto
  show ?thesis
  proof (cases "is_init_memo E (dr_text row)")
    case True
    then show ?thesis using assms(3,5) conf by (auto simp: row_status_Confirmed effective_init)
  next
    case False
    then show ?thesis using assms(5,6) conf near by (auto simp: row_status_Confirmed max_def split: if_splits)
  qed
qed


definition near_row :: decoded_row where
  "near_row = demo_memo 1 Set ''k'' (Some ''v'')"

text \<open>
  That is less than the skip is meant to keep. A memo in the wallet's last block has three
  confirmations once the chain is two blocks further, and the default read still takes it for
  unconfirmed, because it counts from the wallet's own tip; and an \<open>INIT\<close>, confirmed by one block, is
  missed by a read that skipped its block and by the check before another \<open>INIT\<close> is sent.
\<close>

lemma skip_hides_a_confirmed_write:
  assumes "ww_paths W = Ok p" "ww_height W L = Ok (Some h)" "ww_ranges W L = Ok []" "ww_latest W = Ok (h + 2)"
    and "h + 2 < u32_max" "mined_u32 row = Some h" "\<not> is_init_memo E (dr_text row)"
  shows "read_sync_skippable W (read_tip_tolerance 3) L = Ok (Some h)"
    and "row_status E (h + 2) 3 uuid row = Some Confirmed"
    and "row_status E h 3 uuid row \<noteq> Some Confirmed"
  using assms
  by (simp_all add: read_sync_skippable_def latest_height_def read_tip_tolerance_def row_status_Confirmed
      confirmations_below)

lemma synced_wallet_misses_init:
  assumes "ww_paths W = Ok p" "ww_height W L = Ok (Some h)" "ww_ranges W L = Ok []" "ww_latest W = Ok (h + 1)"
    and "h + 1 < u32_max" "mined_u32 row = Some (h + 1)" "is_init_memo E (dr_text row)" "0 < c"
  shows "wallet_synced_to_tip W L = Ok True" and "row_status E (h + 1) c uuid row = Some Confirmed"
  using assms
  by (simp_all add: wallet_synced_to_tip_def latest_height_def row_status_Confirmed NEAR_TIP_TOLERANCE_def
      confirmations_below effective_init)

section \<open>The wait\<close>

text \<open>An observation that ends the wait, and what it ends in.\<close>

definition decisive :: "observation \<Rightarrow> bool" where
  "decisive ob \<longleftrightarrow> fst ob \<or>
    (case snd ob of
       Inl _ \<Rightarrow> True
     | Inr st \<Rightarrow> ns_import_error st \<noteq> None \<or> ns_imported st = Some False \<or> ns_synced st)"

definition verdict :: "str \<Rightarrow> observation \<Rightarrow> engine_error + sync_outcome" where
  "verdict wallet ob =
    (if fst ob then Err Cancelled
     else (case snd ob of
       Inl e \<Rightarrow> Err e
     | Inr st \<Rightarrow>
         (case ns_import_error st of
            Some reason \<Rightarrow> Err (ImportFailed wallet reason)
          | None \<Rightarrow>
              if ns_imported st = Some False then Err (NotImported wallet)
              else Ok \<lparr>so_scanned_height = ns_height st,
                       so_chain_tip = unwrap_or (ns_chain_tip st) (ns_height st)\<rparr>)))"

text \<open>
  The wait for the node ends at the first observation that settles it, and with that one's answer:
  a cancellation, an error, an import that failed or has not happened, or the node's word that it is
  synced. It never loops on an answer that cannot change, and never reports a height before that word.
\<close>

theorem wait_ends_at_the_first_answer:
  "snd (sync_wallet_loop wallet obs) = map_option (verdict wallet) (List.find decisive obs)"
  by (induction wallet obs rule: sync_wallet_loop.induct)
    (auto simp: decisive_def verdict_def Let_def split: sum.splits option.splits)

lemma sync_wallet_success:
  assumes "snd (sync_wallet_once start wallet obs) = Some (Ok out)"
  shows "\<exists>st. (False, Ok st) \<in> List.set obs \<and> ns_synced st \<and> ns_imported st \<noteq> Some False
    \<and> ns_import_error st = None \<and> so_scanned_height out = ns_height st"
proof -
  from assms have l: "snd (sync_wallet_loop wallet obs) = Some (Ok out)"
    by (auto simp: sync_wallet_once_def split: option.splits)
  have "snd (sync_wallet_loop wallet obs) = Some (Ok out) \<Longrightarrow> ?thesis"
    by (induction wallet obs rule: sync_wallet_loop.induct)
      (auto simp: Let_def split: sum.splits option.splits if_splits)
  with l show ?thesis by simp
qed

text \<open>A busy database is given up only once the wait allowed for it is over.\<close>

lemma start_node_waits:
  assumes "start_node db (Some w) begun attempts = Some (Err (Busy db))"
  shows "\<exists>now. (now, HeldLock) \<in> List.set attempts \<and> begun + w \<le> now"
proof -
  have "start_attempts db (Some d) attempts = Some (Err (Busy db)) \<Longrightarrow>
      \<exists>now. (now, HeldLock) \<in> List.set attempts \<and> d \<le> now" for d
    by (induction db "Some d" attempts rule: start_attempts.induct)
      (auto split: start_attempt.splits if_splits)
  with assms show ?thesis by (simp add: start_node_def)
qed

lemma progress_reads_back: "tip \<noteq> Some 0 \<Longrightarrow> progress_read (progress_store s tip) = (s, tip)"
  by (cases tip) (auto simp: progress_read_def progress_store_def)

section \<open>The facade\<close>

text \<open>
  A sync that ends in \<open>Importing\<close> comes from opening the engine only. A member the node has not
  imported yet ends the wait in \<open>NotImported\<close>, which the facade reports as any other failure.
\<close>

lemma try_ok_Err: "try_ok r k = Err e \<longleftrightarrow> r = Err e \<or> (\<exists>x. r = Ok x \<and> k x = Err e)"
  by (cases r) auto

lemma map_err_Err: "map_err f r = Err e \<longleftrightarrow> (\<exists>e'. r = Err e' \<and> e = f e')"
  by (cases r) auto

lemma latest_height_Err: "latest_height W = Err e \<Longrightarrow> (\<exists>m. e = SyncRpc m) \<or> e = TipOutOfRange"
  by (auto simp: latest_height_def try_ok_Err map_err_Err split: if_splits)

lemma read_sync_skippable_Err:
  "read_sync_skippable W t L = Err e \<Longrightarrow> classify_sync_error e = SyncOther e"
  by (auto simp: read_sync_skippable_def classify_sync_error_def try_ok_Err map_err_Err
      dest!: latest_height_Err split: sum.splits option.splits if_splits)

lemma read_sync_Err:
  assumes "read_sync E W eng io now db_name tolerance cancel L = (L', Err e)"
  shows "classify_sync_error e = SyncOther e"
proof (cases "case tolerance of None \<Rightarrow> Ok None | Some t \<Rightarrow> read_sync_skippable W t L")
  case (Inl e')
  with assms have "e = e'" by (simp add: read_sync_def)
  with Inl show ?thesis by (auto dest: read_sync_skippable_Err split: option.splits)
next
  case (Inr h)
  with assms have "\<exists>x. e = SyncEngine x"
    by (cases h) (auto simp: read_sync_def Let_def split: prod.splits sum.splits)
  then show ?thesis by (auto simp: classify_sync_error_def)
qed

lemma sync_never_says_importing:
  "snd (sync_through_engine E W summary os handle start eng shard io now db_name tolerance cancel (L, d))
    \<noteq> Err SyncImporting"
proof -
  have "skip_sync_if_blocked W L \<noteq> Err SyncImporting"
    by (auto simp: skip_sync_if_blocked_def try_ok_Err map_err_Err)
  moreover have "try_ok (map_err SyncOther r) (\<lambda>h. Ok (unwrap_or h 0)) \<noteq> Err SyncImporting"
    for r :: "sync_error + u32 option"
    by (cases r) simp_all
  moreover have "classify_sync_error e \<noteq> SyncImporting"
    if "snd (read_sync E W eng io now db_name tolerance cancel L) = Err e" for e
    using that read_sync_Err [of E W eng io now db_name tolerance cancel L _ e] by (metis prod.collapse sync_failure.distinct(1))
  ultimately show ?thesis
    by (auto simp: sync_through_engine_def Let_def split: sum.splits option.splits prod.splits)
qed

lemma not_imported_is_other:
  assumes "skip_sync_if_blocked W L = Ok None" "read_sync_skippable W t L = Ok None"
    and "snd (se_sync eng (engine_wallet_name (se_kind eng) db_name) cancel (lo_wallet L, lo_tip L, lo_scanned L))
      = Err (NotImported w)"
  shows "snd (sync_through_engine E W summary os handle None eng shard io now db_name (Some t) cancel (L, d))
    = Err (SyncOther (SyncEngine (NotImported w)))"
  using assms
  by (auto simp: sync_through_engine_def read_sync_def Let_def is_cancelled_def classify_sync_error_def
      split: prod.splits)

text \<open>A database whose epoch blocks syncing is left as it is, and so is its configuration.\<close>

lemma blocked_sync_changes_nothing:
  assumes "cached_version (Some (lo_snapshot L)) = Ok v" "blocks_sync v"
  shows "fst (sync_through_engine E W summary os handle start eng shard io now db_name tolerance cancel (L, d)) = (L, d)"
  using assms
  by (cases "wallet_tip W L") (simp_all add: sync_through_engine_def skip_sync_if_blocked_def)

section \<open>The birthday\<close>

text \<open>A birthday is never pinned against a stale tip, except where the harness controls the blocks.\<close>

lemma fresh_chain_tip_Ok:
  "fresh_chain_tip P clock net = Ok tip \<longleftrightarrow>
    (\<exists>st. pb_tip P = Ok st \<and> tip = ts_height st \<and> (net = Regtest \<or> tip_time_is_fresh clock (ts_time st)))"
  by (cases "pb_tip P") (auto simp: fresh_chain_tip_def)

lemma near_tip_birthday_Ok:
  assumes "near_tip_birthday P clock net = Ok b"
  shows "\<exists>st. pb_tip P = Ok st \<and> (net = Regtest \<or> tip_time_is_fresh clock (ts_time st))
    \<and> pb_birthday P (ts_height st - BIRTHDAY_SAFETY_BUFFER) (Some (ts_height st)) = Ok b"
proof -
  obtain tip where t: "fresh_chain_tip P clock net = Ok tip"
    "account_birthday_at P (tip - BIRTHDAY_SAFETY_BUFFER) tip = Ok b"
    using assms by (auto simp: near_tip_birthday_def try_ok_Inr)
  then show ?thesis
    by (cases "pb_birthday P (tip - BIRTHDAY_SAFETY_BUFFER) (Some tip)")
      (auto simp: fresh_chain_tip_Ok account_birthday_at_def)
qed

end
