(* ===== verification/Connection.thy ===== *)
theory Connection
  imports Wallet_Config Fleet
begin

text \<open>
  Which server a database talks to and how (\<open>remote.rs\<close>), and the configuration of the node that
  serves it (\<open>engine/config.rs\<close>). Dialling, the answers of a server and the reading of a socket
  address are parameters.
\<close>

section \<open>Servers\<close>

record server =
  sv_host :: str
  sv_port :: nat

definition show_server :: "server \<Rightarrow> str" where
  "show_server s = sv_host s @ '':'' @ dec (sv_port s)"

definition fixed :: "str \<Rightarrow> nat \<Rightarrow> server" where
  "fixed host port = \<lparr>sv_host = host, sv_port = port\<rparr>"

definition ECC_TESTNET :: "server list" where
  "ECC_TESTNET = [fixed ''lightwalletd.testnet.electriccoin.co'' 9067]"

definition YWALLET_MAINNET :: "server list" where
  "YWALLET_MAINNET =
    [fixed ''lwd1.zcash-infra.com'' 9067, fixed ''lwd2.zcash-infra.com'' 9067,
     fixed ''lwd3.zcash-infra.com'' 9067, fixed ''lwd4.zcash-infra.com'' 9067]"

definition ZEC_ROCKS_MAINNET :: "server list" where
  "ZEC_ROCKS_MAINNET =
    [fixed ''zec.rocks'' 443, fixed ''ap.zec.rocks'' 443, fixed ''eu.zec.rocks'' 443,
     fixed ''na.zec.rocks'' 443, fixed ''sa.zec.rocks'' 443]"

definition ZEC_ROCKS_TESTNET :: "server list" where
  "ZEC_ROCKS_TESTNET = [fixed ''testnet.zec.rocks'' 443]"

datatype server_operator = Ecc | YWallet | ZecRocks

fun operator_servers :: "server_operator \<Rightarrow> network \<Rightarrow> server list" where
  "operator_servers Ecc MainNet = []"
| "operator_servers Ecc TestNet = ECC_TESTNET"
| "operator_servers YWallet MainNet = YWALLET_MAINNET"
| "operator_servers YWallet TestNet = []"
| "operator_servers ZecRocks MainNet = ZEC_ROCKS_MAINNET"
| "operator_servers ZecRocks TestNet = ZEC_ROCKS_TESTNET"
| "operator_servers _ Regtest = []"

datatype servers = Hosted server_operator | Custom "server list"

text \<open>The errors; \<open>PickPanic\<close> is the \<open>expect\<close> of a list that is not empty.\<close>

datatype conn_error =
    BadServerList str | NotServed server_operator network | PickPanic | DialFailed str | InfoFailed str
  | WrongChain network network

definition parse_server :: "str \<Rightarrow> server option" where
  "parse_server sub =
    (case rsplit_once (\<lambda>c. c = CHR '':'') sub of
       None \<Rightarrow> None
     | Some (host, port_str) \<Rightarrow>
         map_option (\<lambda>port. \<lparr>sv_host = host, sv_port = port\<rparr>) (parse_uint 65535 port_str))"

definition parse_servers :: "str \<Rightarrow> conn_error + servers" where
  "parse_servers s =
    (if s = ''ecc'' then Ok (Hosted Ecc)
     else if s = ''ywallet'' then Ok (Hosted YWallet)
     else if s = ''zecrocks'' then Ok (Hosted ZecRocks)
     else (case those (map parse_server (split_on (CHR '','') s)) of
             None \<Rightarrow> Err (BadServerList s)
           | Some ss \<Rightarrow> Ok (Custom ss)))"

definition pick :: "servers \<Rightarrow> network \<Rightarrow> conn_error + server" where
  "pick ss net =
    (case ss of
       Hosted op \<Rightarrow> (case operator_servers op net of [] \<Rightarrow> Err (NotServed op net) | s # _ \<Rightarrow> Ok s)
     | Custom xs \<Rightarrow> (case xs of [] \<Rightarrow> Err PickPanic | s # _ \<Rightarrow> Ok s))"

definition ends_with :: "str \<Rightarrow> str \<Rightarrow> bool" where
  "ends_with s suf \<longleftrightarrow> length suf \<le> length s \<and> drop (length s - length suf) s = suf"

definition use_tls :: "server \<Rightarrow> bool" where
  "use_tls s \<longleftrightarrow> sv_host s \<notin> {''localhost'', ''127.0.0.1'', ''::1''} \<and> \<not> ends_with (sv_host s) ''.onion''"

definition endpoint :: "server \<Rightarrow> str" where
  "endpoint s = (if use_tls s then ''https'' else ''http'') @ ''://'' @ sv_host s @ '':'' @ dec (sv_port s)"

section \<open>How to connect\<close>

datatype connection_mode = Direct | SocksProxy str

text \<open>\<open>is_socket_addr\<close> is the parser of \<open>SocketAddr\<close>, which keeps what it reads.\<close>

definition socks_prefix :: str where "socks_prefix = ''socks5://''"

datatype mode_error = BadProxyAddress str | BadMode

definition parse_connection_mode :: "(str \<Rightarrow> bool) \<Rightarrow> str \<Rightarrow> mode_error + connection_mode" where
  "parse_connection_mode is_socket_addr s =
    (if s = ''direct'' then Ok Direct
     else (case strip_prefix socks_prefix s of
             Some addr \<Rightarrow>
               if is_socket_addr addr then Ok (SocksProxy addr) else Err (BadProxyAddress s)
           | None \<Rightarrow> Err BadMode))"

record connection_args =
  ca_server :: servers
  ca_mainnet :: "servers option"
  ca_testnet :: "servers option"
  ca_connection :: connection_mode

definition default_connection :: connection_args where
  "default_connection =
    \<lparr>ca_server = Hosted ZecRocks, ca_mainnet = None, ca_testnet = None, ca_connection = Direct\<rparr>"

definition servers_for :: "connection_args \<Rightarrow> network \<Rightarrow> servers" where
  "servers_for ca net =
    (case net of
       MainNet \<Rightarrow> unwrap_or (ca_mainnet ca) (ca_server ca)
     | TestNet \<Rightarrow> unwrap_or (ca_testnet ca) (ca_server ca)
     | Regtest \<Rightarrow> ca_server ca)"

section \<open>The chain of a server\<close>

record lightd_info =
  li_chain_name :: str
  li_block_height :: nat
  li_subversion :: str
  li_vendor :: str

definition network_from_chain_name :: "str \<Rightarrow> network option" where
  "network_from_chain_name s =
    (if s = ''main'' then Some MainNet else if s = ''test'' then Some TestNet
     else if s = ''regtest'' then Some Regtest else None)"

definition verify_server_network :: "str + lightd_info \<Rightarrow> network \<Rightarrow> conn_error + unit" where
  "verify_server_network answer expected =
    (case answer of
       Inl e \<Rightarrow> Err (InfoFailed e)
     | Inr info \<Rightarrow>
         (case network_from_chain_name (li_chain_name info) of
            None \<Rightarrow> Ok ()
          | Some actual \<Rightarrow>
              if actual = expected then Ok ()
              else if actual = TestNet \<and> expected = Regtest then Ok ()
              else Err (WrongChain actual expected)))"

text \<open>
  The transport: a dial to an endpoint, with or without TLS, directly or through a proxy, gives a
  channel or an error, and a channel answers \<open>GetLightdInfo\<close>.
\<close>

record 'chan transport =
  tr_direct :: "str \<Rightarrow> bool \<Rightarrow> str + 'chan"
  tr_socks :: "str \<Rightarrow> str \<Rightarrow> bool \<Rightarrow> str + 'chan"
  tr_info :: "'chan \<Rightarrow> str + lightd_info"

definition dial_direct :: "'chan transport \<Rightarrow> server \<Rightarrow> conn_error + 'chan" where
  "dial_direct T s = (case tr_direct T (endpoint s) (use_tls s) of Inl e \<Rightarrow> Err (DialFailed e) | Inr c \<Rightarrow> Ok c)"

definition dial_over_socks :: "'chan transport \<Rightarrow> str \<Rightarrow> server \<Rightarrow> conn_error + 'chan" where
  "dial_over_socks T addr s =
    (case tr_socks T addr (endpoint s) (use_tls s) of Inl e \<Rightarrow> Err (DialFailed e) | Inr c \<Rightarrow> Ok c)"

definition open_channel :: "'chan transport \<Rightarrow> connection_mode \<Rightarrow> server \<Rightarrow> conn_error + 'chan" where
  "open_channel T mode s = (case mode of Direct \<Rightarrow> dial_direct T s | SocksProxy addr \<Rightarrow> dial_over_socks T addr s)"

definition connect :: "'chan transport \<Rightarrow> connection_args \<Rightarrow> network \<Rightarrow> conn_error + 'chan" where
  "connect T ca net =
    try_ok (pick (servers_for ca net) net) (\<lambda>s.
    try_ok (open_channel T (ca_connection ca) s) (\<lambda>chan.
    try_ok (verify_server_network (tr_info T chan) net) (\<lambda>_. Ok chan)))"

text \<open>\<open>dial\<close> stops at the channel instead of wrapping it; the steps are those of \<open>connect\<close>.\<close>

definition dial :: "'chan transport \<Rightarrow> connection_args \<Rightarrow> network \<Rightarrow> conn_error + 'chan" where
  "dial T ca net =
    try_ok (pick (servers_for ca net) net) (\<lambda>s.
    try_ok (open_channel T (ca_connection ca) s) (\<lambda>chan.
    try_ok (verify_server_network (tr_info T chan) net) (\<lambda>_. Ok chan)))"

definition trim_slashes :: "str \<Rightarrow> str" where
  "trim_slashes s = rev (dropWhile (\<lambda>c. c = CHR ''/'') (rev (dropWhile (\<lambda>c. c = CHR ''/'') s)))"

definition backend_label :: "str \<Rightarrow> str \<Rightarrow> str" where
  "backend_label subversion vendor =
    (let trimmed = trim_slashes subversion in
     case split_once (CHR '':'') trimmed of
       Some (name, version) \<Rightarrow>
         (let pretty = (if name = ''MagicBean'' then ''zcashd'' else name); v = trim version in
          if v = [] then pretty else pretty @ '' '' @ v)
     | None \<Rightarrow>
         if trimmed \<noteq> [] then trimmed else if vendor \<noteq> [] then vendor else ''unknown'')"

record server_info =
  si_endpoint :: str
  si_block_height :: nat
  si_backend :: str

definition server_info_of :: "'chan transport \<Rightarrow> connection_args \<Rightarrow> network \<Rightarrow> conn_error + server_info" where
  "server_info_of T ca net =
    try_ok (pick (servers_for ca net) net) (\<lambda>s.
    try_ok (open_channel T (ca_connection ca) s) (\<lambda>chan.
      case tr_info T chan of
        Inl e \<Rightarrow> Err (InfoFailed e)
      | Inr info \<Rightarrow>
          Ok \<lparr>si_endpoint = show_server s, si_block_height = li_block_height info,
              si_backend = backend_label (li_subversion info) (li_vendor info)\<rparr>))"

section \<open>The node's configuration\<close>

definition REGTEST_NU6_3_HEIGHT :: u32 where "REGTEST_NU6_3_HEIGHT = 8"

text \<open>
  The environment variable of the node's regtest height, before and after: the code sets it when it
  is absent.
\<close>

datatype setup_error = RegtestHeight str | NoServer conn_error | Resolve str | NoWalletEntry | BadReceivers str | BadSplitting str

definition align_regtest_activation :: "network \<Rightarrow> str option \<Rightarrow> str option \<times> (setup_error + unit)" where
  "align_regtest_activation net var =
    (if net \<noteq> Regtest then (var, Ok ())
     else (let want = dec REGTEST_NU6_3_HEIGHT in
       case var of
         Some found \<Rightarrow> (var, if trim found = want then Ok () else Err (RegtestHeight found))
       | None \<Rightarrow> (Some want, Ok ())))"

fun network_token :: "network \<Rightarrow> str" where
  "network_token MainNet = ''main''"
| "network_token TestNet = ''test''"
| "network_token Regtest = ''regtest''"

definition upstream_token :: "network \<Rightarrow> connection_args \<Rightarrow> setup_error + str" where
  "upstream_token net ca =
    (let ss = (case net of
         MainNet \<Rightarrow> unwrap_or (ca_mainnet ca) (ca_server ca)
       | TestNet \<Rightarrow> unwrap_or (ca_testnet ca) (ca_server ca)
       | Regtest \<Rightarrow> ca_server ca)
     in (case pick ss net of Inl e \<Rightarrow> Err (NoServer e) | Inr s \<Rightarrow> Ok (show_server s)))"

definition proxy_token :: "connection_args \<Rightarrow> str option" where
  "proxy_token ca =
    (case ca_connection ca of Direct \<Rightarrow> None | SocksProxy addr \<Rightarrow> Some (''socks5://'' @ addr))"

datatype receiver_kind = RxSapling | RxOrchard

definition receiver_set :: "shielded_pool \<Rightarrow> receiver_kind list" where
  "receiver_set pool = (if pool = Sapling then [RxSapling] else [RxOrchard])"

definition TARGET_NOTE_COUNT :: nat where "TARGET_NOTE_COUNT = 4"
definition FLEET_COHORT_DEPTH :: u32 where "FLEET_COHORT_DEPTH = 1000"

fun min_split_output_value :: "network \<Rightarrow> nat" where
  "min_split_output_value MainNet = 500000"
| "min_split_output_value TestNet = 50000"
| "min_split_output_value Regtest = 50000"

record overrides =
  ov_datadir :: path
  ov_network :: str
  ov_server :: str
  ov_proxy :: "str option"
  ov_identity :: "path option"

text \<open>The fields of \<open>AppConfig\<close> the code sets; what it leaves is the node's.\<close>

record wallet_entry =
  we_dir :: path
  we_pools :: "receiver_kind list"
  we_default_receivers :: "receiver_kind list"
  we_transparent :: bool
  we_transparent_default :: bool

record app_config =
  ap_wallets :: "str \<rightharpoonup> wallet_entry"
  ap_action_limit :: nat
  ap_note_count :: nat
  ap_min_split :: nat
  ap_cache_proving_key :: bool
  ap_drain_secs :: nat
  ap_fetch_memos :: bool
  ap_fleet_enabled :: bool
  ap_manifest_dir :: path
  ap_shards_dir :: path
  ap_cohort_depth :: u32
  ap_pools :: "receiver_kind list"
  ap_default_receivers :: "receiver_kind list"

text \<open>
  \<open>resolve\<close> is \<open>AppConfig::resolve_overrides\<close>, \<open>splitting_ok\<close> the node's check of the splitting policy,
  and \<open>ENGINE_WALLET\<close> the one wallet of a database's own node.
\<close>

definition ENGINE_WALLET :: str where "ENGINE_WALLET = ''default''"

definition build_app ::
  "(overrides \<Rightarrow> str + app_config) \<Rightarrow> (app_config \<Rightarrow> str + unit) \<Rightarrow> path \<Rightarrow> path \<Rightarrow> network \<Rightarrow> shielded_pool
   \<Rightarrow> connection_args \<Rightarrow> setup_error + app_config" where
  "build_app resolve splitting_ok base identity net pool ca =
    try_ok (upstream_token net ca) (\<lambda>server.
      case resolve \<lparr>ov_datadir = base, ov_network = network_token net, ov_server = server,
                    ov_proxy = proxy_token ca, ov_identity = Some identity\<rparr> of
        Inl e \<Rightarrow> Err (Resolve e)
      | Inr app \<Rightarrow>
          (case ap_wallets app ENGINE_WALLET of
             None \<Rightarrow> Err NoWalletEntry
           | Some entry \<Rightarrow>
               (let entry' = entry\<lparr>we_dir := base, we_pools := receiver_set pool,
                      we_default_receivers := receiver_set pool, we_transparent := False,
                      we_transparent_default := False\<rparr>;
                    app1 = app\<lparr>ap_wallets := (ap_wallets app)(ENGINE_WALLET \<mapsto> entry'), ap_action_limit := 0,
                      ap_note_count := TARGET_NOTE_COUNT, ap_min_split := min_split_output_value net\<rparr>
                in (case splitting_ok app1 of
                      Inl e \<Rightarrow> Err (BadSplitting e)
                    | Inr _ \<Rightarrow> Ok (app1\<lparr>ap_fetch_memos := True, ap_fleet_enabled := False\<rparr>)))))"

definition app_config_for ::
  "(overrides \<Rightarrow> str + app_config) \<Rightarrow> (app_config \<Rightarrow> str + unit) \<Rightarrow> path \<Rightarrow> path \<Rightarrow> network \<Rightarrow> shielded_pool
   \<Rightarrow> connection_args \<Rightarrow> str option \<Rightarrow> str option \<times> (setup_error + app_config)" where
  "app_config_for resolve splitting_ok base identity net pool ca var =
    (let (var', aligned) = align_regtest_activation net var in
     (var', try_ok aligned (\<lambda>_. build_app resolve splitting_ok base identity net pool ca)))"

definition fleet_app_config ::
  "(overrides \<Rightarrow> str + app_config) \<Rightarrow> (receiver_kind list \<Rightarrow> str + receiver_kind list) \<Rightarrow> path \<Rightarrow> network
   \<Rightarrow> connection_args \<Rightarrow> str option \<Rightarrow> str option \<times> (setup_error + app_config)" where
  "fleet_app_config resolve receivers base net ca var =
    (let (var', aligned) = align_regtest_activation net var in
     (var',
      try_ok aligned (\<lambda>_.
      try_ok (upstream_token net ca) (\<lambda>server.
        case resolve \<lparr>ov_datadir = base, ov_network = network_token net, ov_server = server,
                      ov_proxy = proxy_token ca, ov_identity = None\<rparr> of
          Inl e \<Rightarrow> Err (Resolve e)
        | Inr app \<Rightarrow>
            (let app1 = app\<lparr>ap_fleet_enabled := True, ap_manifest_dir := base @ [''wallets.d''],
                   ap_shards_dir := base @ [''shards''], ap_cohort_depth := FLEET_COHORT_DEPTH\<rparr>
             in (case receivers [RxSapling, RxOrchard] of
                   Inl e \<Rightarrow> Err (BadReceivers e)
                 | Inr rs \<Rightarrow>
                     Ok (app1\<lparr>ap_pools := rs, ap_default_receivers := rs, ap_fetch_memos := True,
                              ap_cache_proving_key := False, ap_drain_secs := 0\<rparr>)))))))"

end
