(* ===== verification/Connection_Props.thy ===== *)
theory Connection_Props
  imports Connection
begin

text \<open>
  That a server list is never empty, that a proxy is never bypassed, that no server of another chain is
  used, and that the node is configured for the database it serves.
\<close>

section \<open>Server lists\<close>

lemma split_on_nonempty: "split_on d s \<noteq> []"
  by (induction s) (auto split: list.splits)

lemma those_map: "those (map f xs) = Some ys \<Longrightarrow> length ys = length xs"
  by (induction xs arbitrary: ys) (auto split: option.splits)

lemma parse_servers_nonempty:
  assumes "parse_servers s = Ok ss"
  shows "ss \<noteq> Custom []"
  using assms those_map [of parse_server "split_on (CHR '','') s" "[]"] split_on_nonempty [of "CHR '',''" s]
  by (auto simp: parse_servers_def split: if_splits option.splits)

lemma pick_parsed: "parse_servers s = Ok ss \<Longrightarrow> pick ss net \<noteq> Err PickPanic"
  using parse_servers_nonempty [of s ss]
  by (auto simp: pick_def split: servers.splits list.splits)

lemma digits_no: "list_all is_digit s \<Longrightarrow> \<not> is_digit c \<Longrightarrow> c \<notin> set s"
  by (auto simp: list_all_iff)

definition plain_host :: "str \<Rightarrow> bool" where
  "plain_host h \<longleftrightarrow> CHR '','' \<notin> set h"

lemma parse_show_server:
  assumes "sv_port s \<le> 65535"
  shows "parse_server (show_server s) = Some s"
proof -
  have "CHR '':'' \<notin> set (dec (sv_port s))"
    using digits_no [OF dec_digits] by (simp add: is_digit_def byte_def)
  then have "rsplit_once (\<lambda>c. c = CHR '':'') (show_server s) = Some (sv_host s, dec (sv_port s))"
    using rsplit_once_hit [of "\<lambda>c. c = CHR '':''" "CHR '':''" "dec (sv_port s)" "sv_host s"]
    by (auto simp: show_server_def)
  with assms show ?thesis by (simp add: parse_server_def parse_uint_dec)
qed

lemma show_server_no_comma: "plain_host (sv_host s) \<Longrightarrow> CHR '','' \<notin> set (show_server s)"
  using digits_no [OF dec_digits, of "CHR '',''" "sv_port s"]
  by (auto simp: show_server_def plain_host_def is_digit_def byte_def)

lemma those_map_Some: "\<forall>x \<in> set xs. f x = Some (g x) \<Longrightarrow> those (map f xs) = Some (map g xs)"
  by (induction xs) auto

text \<open>A list of servers, written with commas between, reads back.\<close>

lemma server_list_roundtrip:
  assumes "ss \<noteq> []" "\<forall>s \<in> set ss. plain_host (sv_host s) \<and> sv_port s \<le> 65535"
    and "join_with '','' (map show_server ss) \<notin> {''ecc'', ''ywallet'', ''zecrocks''}"
  shows "parse_servers (join_with '','' (map show_server ss)) = Ok (Custom ss)"
proof -
  have "split_on (CHR '','') (join_with '','' (map show_server ss)) = map show_server ss"
    by (rule split_on_join) (use assms(1,2) show_server_no_comma in auto)
  moreover have "those (map parse_server (map show_server ss)) = Some (map id ss)"
    using those_map_Some [of ss "parse_server \<circ> show_server" id] parse_show_server assms(2) by auto
  ultimately show ?thesis using assms(3) by (simp add: parse_servers_def)
qed

section \<open>Connecting\<close>

lemma open_channel_proxy:
  "open_channel (T\<lparr>tr_direct := d\<rparr>) (SocksProxy addr) s = open_channel T (SocksProxy addr) s"
  by (simp add: open_channel_def dial_over_socks_def)

lemma proxy_token_set: "ca_connection ca = SocksProxy addr \<Longrightarrow> proxy_token ca = Some (''socks5://'' @ addr)"
  by (simp add: proxy_token_def)


text \<open>
  A channel the code hands on serves the chain of the database, unless the server does not name its
  chain, or the database is a regtest one and the chain calls itself test.
\<close>

lemma verified:
  assumes "verify_server_network answer net = Ok ()" "answer = Ok info"
    and "network_from_chain_name (li_chain_name info) = Some actual"
  shows "actual = net \<or> (actual = TestNet \<and> net = Regtest)"
  using assms by (auto simp: verify_server_network_def split: if_splits)

lemma connect_serves_the_chain:
  assumes "connect T ca net = Ok chan"
  shows "\<exists>info. tr_info T chan = Ok info \<and>
    (network_from_chain_name (li_chain_name info) = None
     \<or> network_from_chain_name (li_chain_name info) = Some net
     \<or> (network_from_chain_name (li_chain_name info) = Some TestNet \<and> net = Regtest))"
proof -
  have v: "verify_server_network (tr_info T chan) net = Ok ()" using assms by (auto simp: connect_def try_ok_Inr)
  then obtain info where i: "tr_info T chan = Ok info" by (auto simp: verify_server_network_def split: sum.splits)
  with v verified [OF v i] show ?thesis by (cases "network_from_chain_name (li_chain_name info)") auto
qed

text \<open>A mainnet database is never given a server that says it serves another chain.\<close>

lemma mainnet_refuses_other_chains:
  "connect T ca MainNet = Ok chan \<Longrightarrow> tr_info T chan = Ok info \<Longrightarrow>
    li_chain_name info \<noteq> ''test'' \<and> li_chain_name info \<noteq> ''regtest''"
  by (drule connect_serves_the_chain) (auto simp: network_from_chain_name_def split: if_splits)

text \<open>The node and the code's own transport use the same server.\<close>

lemma node_and_transport_agree:
  "upstream_token net ca = (case pick (servers_for ca net) net of Inl e \<Rightarrow> Err (NoServer e) | Inr s \<Rightarrow> Ok (show_server s))"
  by (cases net) (simp_all add: upstream_token_def servers_for_def Let_def)

text \<open>
  A loopback host in the form an address of that family needs in a URI is not recognised, so that TLS
  is asked of it; and without the brackets the port runs into the address.
\<close>

lemma ipv6_loopback:
  assumes "port \<le> 65535"
  shows "parse_server (''[::1]:'' @ dec port) = Some \<lparr>sv_host = ''[::1]'', sv_port = port\<rparr>"
    and "use_tls \<lparr>sv_host = ''[::1]'', sv_port = port\<rparr>"
    and "endpoint \<lparr>sv_host = ''::1'', sv_port = port\<rparr> = ''http://::1:'' @ dec port"
  using parse_show_server [of "\<lparr>sv_host = ''[::1]'', sv_port = port\<rparr>"] assms
  by (simp_all add: show_server_def use_tls_def endpoint_def ends_with_def)

section \<open>The configuration of the node\<close>

lemma build_app_facts:
  assumes "build_app resolve splitting_ok base identity net pool ca = Ok app"
  shows "ap_fetch_memos app \<and> \<not> ap_fleet_enabled app \<and> ap_action_limit app = 0 \<and>
    ap_min_split app = min_split_output_value net \<and>
    (\<exists>entry. ap_wallets app ENGINE_WALLET = Some entry \<and> we_dir entry = base
      \<and> we_pools entry = receiver_set pool \<and> \<not> we_transparent entry)"
proof -
  obtain server where u: "upstream_token net ca = Ok server"
    using assms by (auto simp: build_app_def try_ok_Inr)
  let ?ov = "\<lparr>ov_datadir = base, ov_network = network_token net, ov_server = server,
    ov_proxy = proxy_token ca, ov_identity = Some identity\<rparr>"
  obtain app0 where r: "resolve ?ov = Ok app0"
    using assms u by (cases "resolve ?ov") (simp_all add: build_app_def)
  obtain entry where e: "ap_wallets app0 ENGINE_WALLET = Some entry"
    using assms u r by (cases "ap_wallets app0 ENGINE_WALLET") (simp_all add: build_app_def)
  show ?thesis using assms by (auto simp: build_app_def u r e Let_def split: sum.splits)
qed

text \<open>The regtest heights agree afterwards, or the set-up has failed.\<close>

lemma regtest_aligned:
  assumes "align_regtest_activation Regtest var = (var', Ok ())"
  shows "\<exists>v. var' = Some v \<and> trim v = dec REGTEST_NU6_3_HEIGHT"
proof -
  have "trim (dec REGTEST_NU6_3_HEIGHT) = dec REGTEST_NU6_3_HEIGHT"
    by (rule trim_plain) (use dec_digits [of REGTEST_NU6_3_HEIGHT] in \<open>auto simp: list_all_iff digit_plain\<close>)
  with assms show ?thesis by (auto simp: align_regtest_activation_def Let_def split: option.splits if_splits)
qed

end
