(* ===== verification/Provision.thy ===== *)
theory Provision
  imports Fleet_Safety
begin

text \<open>
  The demonstration database that a fresh installation provides itself with, once (\<open>demo.rs\<close>), and the
  expiry of a build (\<open>freshness.rs\<close>).
\<close>

section \<open>The demonstration database\<close>

definition DEMO_ZKV_ADDRESS :: str where
  "DEMO_ZKV_ADDRESS =
     ''zkvtest1p3ertmjzsdccjjstmkud0cvx5mnm9kgl557qnjnewfh5pc5nxzmpu9s3pq724y'' @
     ''z2dzddp5gq8q73vjm3ruluway08e379zsevzghg3cuny3pnm0sakml78sfn6v2c9t0qwu8'' @
     ''c40mrpcjllntt84p2zdv4c23a6ufumh775f7l84zkeyf46jq3hq45kadlt7hjatqv0jymj'' @
     ''6thkrxytd82j622w6kgscn6uknhvphxgu75mmj2z50q4qkmn85gcrmanjzp3zwtnyjml3y'' @
     ''wc594srjzm0sqwcrx42cqly5tp7szyrxpptzja8luvj0u8t8lztawenek3v4p5lyhhp2j3'' @
     ''eekj0sg6zkgrgf2plj8cw''"

definition PROVISIONED_MARKER :: str where "PROVISIONED_MARKER = ''.demo-oracles-provisioned''"

definition marker_path :: path where "marker_path = [PROVISIONED_MARKER]"

definition was_provisioned :: "disk \<Rightarrow> bool" where
  "was_provisioned s = path_exists s marker_path"

definition demo_exists :: "disk \<Rightarrow> bool" where
  "demo_exists s \<longleftrightarrow> DEMO_DB_NAME \<in> List.set (list_dbs s)"

definition is_our_demo :: "outside \<Rightarrow> disk \<Rightarrow> bool" where
  "is_our_demo os s =
    (case read_config (os_public os) s DEMO_DB_NAME of
       Inl _ \<Rightarrow> False
     | Inr c \<Rightarrow> wc_zkv_address c = Some DEMO_ZKV_ADDRESS)"

definition mark_provisioned :: "unit io" where
  "mark_provisioned = io_change (disk_put marker_path (RawFile []))"

definition should_offer_reimport :: "disk \<Rightarrow> bool" where
  "should_offer_reimport s \<longleftrightarrow> was_provisioned s \<and> \<not> demo_exists s"

definition parsed_demo :: "outside \<Rightarrow> data_error + parsed_addr" where
  "parsed_demo os = (case os_parse os DEMO_ZKV_ADDRESS of Inl e \<Rightarrow> Err (BadAddress e) | Inr p \<Rightarrow> Ok p)"

definition write_config_and_init :: "outside \<Rightarrow> unit io" where
  "write_config_and_init os =
    io_bind (io_of (parsed_demo os)) (\<lambda>parsed.
    io_bind (init_watch_config os DEMO_DB_NAME (pa_birthday parsed) (pa_network parsed) DEMO_ZKV_ADDRESS
      (pa_pool parsed) Unset) (\<lambda>_.
    io_bind (init_dbs os DEMO_DB_NAME) (\<lambda>_.
    set_current_db_if_unset DEMO_DB_NAME)))"

text \<open>\<open>data::open_wallet_db\<close> at the path of the data file, which is created where it is missing.\<close>

definition open_at :: "path \<Rightarrow> path \<Rightarrow> wallet_accounts io" where
  "open_at dir data =
    io_bind (io_look (\<lambda>s. open_wallet_db s dir)) (\<lambda>a.
    io_bind (io_look (\<lambda>s. Ok (path_exists s data))) (\<lambda>there.
    io_bind (io_when (\<not> there) (io_change (disk_put data (WalletFile [])))) (\<lambda>_. io_return a)))"

definition import_account :: "outside \<Rightarrow> unit io" where
  "import_account os =
    io_bind (io_of (parsed_demo os)) (\<lambda>parsed.
    io_bind (get_db_paths os DEMO_DB_NAME) (\<lambda>(dir, data).
    io_bind (io_try (open_at dir data)) (\<lambda>opened.
    if (case opened of Inr a \<Rightarrow> a \<noteq> [] | Inl _ \<Rightarrow> False) then io_return ()
    else
      io_bind (io_of (case os_birthday os (pa_network parsed) (pa_birthday parsed) of
          Inl e \<Rightarrow> Err (Upstream e) | Inr u \<Rightarrow> Ok u)) (\<lambda>_.
      io_bind (open_at dir data) (\<lambda>_.
      import_account_ufvk os data (pa_ufvk parsed (pa_network parsed)))))))"

definition ensure_demo :: "outside \<Rightarrow> bool io" where
  "ensure_demo os =
    io_bind (io_look (\<lambda>s. Ok (was_provisioned s))) (\<lambda>already.
    if already then io_return False
    else
      io_bind (io_look (\<lambda>s. Ok (demo_exists s))) (\<lambda>there.
      if there then
        io_bind (io_look (\<lambda>s. Ok (is_our_demo os s))) (\<lambda>ours.
        io_bind (io_when ours (import_account os)) (\<lambda>_.
        io_bind mark_provisioned (\<lambda>_. io_return False)))
      else
        io_bind (write_config_and_init os) (\<lambda>_.
        io_bind (import_account os) (\<lambda>_.
        io_bind mark_provisioned (\<lambda>_. io_return True)))))"

section \<open>The expiry of a build\<close>

definition FRESH_WINDOW_SECS :: nat where "FRESH_WINDOW_SECS = 90 * 24 * 60 * 60"
definition ANCHOR_HEIGHT :: u32 where "ANCHOR_HEIGHT = 3455954"
definition ANCHOR_UNIX :: nat where "ANCHOR_UNIX = 1787343999"
definition TARGET_BLOCK_SECS :: nat where "TARGET_BLOCK_SECS = 75"

text \<open>
  \<open>parse_unix\<close> on the stamp: \<open>None\<close> is a failed assertion, or an overflow, which in a constant is an error
  of the compiler too.
\<close>

definition parse_digit :: "nat \<Rightarrow> char \<Rightarrow> nat option" where
  "parse_digit acc c =
    (if is_digit c then (if acc * 10 + (byte c - 48) \<le> u64_max then Some (acc * 10 + (byte c - 48)) else None)
     else None)"

fun parse_digits :: "nat \<Rightarrow> str \<Rightarrow> nat option" where
  "parse_digits acc [] = Some acc"
| "parse_digits acc (c # cs) = Option.bind (parse_digit acc c) (\<lambda>a. parse_digits a cs)"

definition parse_unix :: "str \<Rightarrow> nat option" where
  "parse_unix s = (if s = [] then None else parse_digits 0 s)"

definition expiry_unix :: "nat \<Rightarrow> nat" where
  "expiry_unix build_unix = build_unix + FRESH_WINDOW_SECS"

definition expiry_height :: "nat \<Rightarrow> u32" where
  "expiry_height build_unix =
    (let expiry = expiry_unix build_unix in
     if expiry \<le> ANCHOR_UNIX then ANCHOR_HEIGHT
     else (let blocks = (expiry - ANCHOR_UNIX) div TARGET_BLOCK_SECS in
           if u32_max < blocks then u32_max else sat_add32 ANCHOR_HEIGHT blocks))"

definition out_of_date_at :: "nat \<Rightarrow> nat \<Rightarrow> u32 option \<Rightarrow> bool" where
  "out_of_date_at build_unix now_unix chain_tip \<longleftrightarrow>
    expiry_unix build_unix \<le> now_unix
    \<or> (case chain_tip of None \<Rightarrow> False | Some h \<Rightarrow> expiry_height build_unix \<le> h)"

text \<open>The clock, \<open>None\<close> before the epoch.\<close>

definition build_out_of_date :: "nat \<Rightarrow> nat option \<Rightarrow> u32 option \<Rightarrow> bool" where
  "build_out_of_date build_unix clock chain_tip = out_of_date_at build_unix (unwrap_or clock 0) chain_tip"

section \<open>What provisioning writes\<close>

definition unmarked :: "disk \<Rightarrow> bool" where
  "unmarked s \<longleftrightarrow> disk_get s marker_path = None"

lemma unmarked_iff: "unmarked s \<longleftrightarrow> \<not> was_provisioned s"
  by (simp add: unmarked_def was_provisioned_def path_exists_def)

lemma unmarked_put: "p \<noteq> marker_path \<Longrightarrow> unmarked s \<Longrightarrow> unmarked (disk_put p n s)"
  by (simp add: unmarked_def)

lemma unmarked_del: "unmarked s \<Longrightarrow> unmarked (disk_del p s)"
  by (simp add: unmarked_def)

lemma demo_dir: "db_dir DEMO_DB_NAME = Ok [DEMO_DB_NAME]"
  unfolding DEMO_DB_NAME_def by code_simp

lemma keeps_rewrite_demo: "io_keeps unmarked (rewrite_config pid dir enc)" if "dir \<noteq> []"
  unfolding rewrite_config_def Let_def
  using that by (intro io_keeps_bind io_keeps_change unmarked_put unmarked_del)
    (auto simp: rewrite_tmp_def marker_path_def append_eq_Cons_conv)

lemma keeps_cache_shard: "wc_dir c \<noteq> [] \<Longrightarrow> io_keeps unmarked (cache_shard pid sh c)"
  unfolding cache_shard_def Let_def
  by (auto intro!: io_keeps_bind keeps_rewrite_demo io_keeps_quiet)

lemma keeps_locate:
  assumes "\<And>s c. read_config (os_public os) s name = Ok c \<Longrightarrow> wc_dir c \<noteq> []"
  shows "io_keeps unmarked (locate_member os c name)" "io_keeps unmarked (locate os c name)"
proof -
  show l: "io_keeps unmarked (locate_member os c name)"
    unfolding locate_member_def
    by (intro io_keeps_bind io_keeps_quiet)
      (auto split: option.split intro!: io_keeps_quiet io_keeps_look io_keeps_bind io_keeps_try keeps_cache_shard
        dest: assms simp: Let_def)
  show "io_keeps unmarked (locate os c name)"
    unfolding locate_def by (auto split: option.split intro!: io_keeps_bind io_keeps_quiet l)
qed

lemma keeps_paths: "io_keeps unmarked (get_db_paths os DEMO_DB_NAME)"
proof -
  have d: "wc_dir c \<noteq> []" if "read_config (os_public os) s DEMO_DB_NAME = Ok c" for s c
    using read_config_dir [OF that] by simp
  have "io_keeps unmarked (wallet_home_dir os DEMO_DB_NAME)"
    unfolding wallet_home_dir_def
    by (intro io_keeps_look)
      (auto split: sum.split wallet_home.split intro!: io_keeps_bind io_keeps_quiet keeps_locate d)
  then show ?thesis unfolding get_db_paths_def by (intro io_keeps_bind io_keeps_quiet)
qed

lemma paths_data:
  "snd (get_db_paths os name s) = Ok (dir, data) \<Longrightarrow> data = dir @ [DATA_DB]"
  by (auto simp: get_db_paths_def io_bind_def Let_def split: sum.splits)

lemma data_not_marker: "dir @ [DATA_DB] \<noteq> marker_path" "dir @ [BLOCKMETA_DB] \<noteq> marker_path"
  by (cases dir; simp add: marker_path_def PROVISIONED_MARKER_def)+

lemma keeps_open_at: "data \<noteq> marker_path \<Longrightarrow> io_keeps unmarked (open_at dir data)"
  unfolding open_at_def
  by (intro io_keeps_bind io_keeps_quiet io_keeps_when io_keeps_change unmarked_put)

lemma keeps_import: "io_keeps unmarked (import_account os)"
proof -
  have i: "data \<noteq> marker_path \<Longrightarrow> io_keeps unmarked (import_account_ufvk os data k)" for data k
    unfolding import_account_ufvk_def by (intro io_keeps_bind io_keeps_quiet io_keeps_change unmarked_put)
  show ?thesis
    unfolding import_account_def
  proof (intro io_keeps_bind io_keeps_quiet io_keeps_bind_result [OF keeps_paths], clarify)
    fix parsed s dir data assume "snd (get_db_paths os DEMO_DB_NAME s) = Ok (dir, data)"
    then have "data = dir @ [DATA_DB]" by (rule paths_data)
    then have d: "data \<noteq> marker_path" by (simp only: data_not_marker not_False_eq_True)
    show "io_keeps unmarked (io_bind (io_try (open_at dir data)) (\<lambda>opened.
        if (case opened of Inr a \<Rightarrow> a \<noteq> [] | Inl _ \<Rightarrow> False) then io_return ()
        else io_bind (io_of (case os_birthday os (pa_network parsed) (pa_birthday parsed) of
            Inl e \<Rightarrow> Err (Upstream e) | Inr u \<Rightarrow> Ok u)) (\<lambda>_.
          io_bind (open_at dir data) (\<lambda>_. import_account_ufvk os data (pa_ufvk parsed (pa_network parsed))))))"
      by (intro io_keeps_bind io_keeps_try keeps_open_at [OF d])
        (auto intro!: io_keeps_quiet io_keeps_bind keeps_open_at [OF d] i [OF d])
  qed
qed

lemma keeps_init_watch: "io_keeps unmarked (init_watch_config os DEMO_DB_NAME b n a p e)"
proof -
  have "io_keeps unmarked (ensure_db_dir DEMO_DB_NAME)"
    unfolding ensure_db_dir_def demo_dir create_private_dir_def
    by (auto intro!: io_keeps_bind io_keeps_quiet io_keeps_when io_keeps_change unmarked_put
        simp: marker_path_def PROVISIONED_MARKER_def DEMO_DB_NAME_def)
  moreover have "io_keeps unmarked (write_config dir enc)" if "dir \<noteq> []" for dir enc
    unfolding write_config_def Let_def
    by (intro io_keeps_bind io_keeps_quiet io_keeps_change unmarked_put)
      (use that in \<open>auto simp: marker_path_def append_eq_Cons_conv\<close>)
  ultimately show ?thesis
    unfolding init_watch_config_def
    by (intro io_keeps_bind_result)
      (auto split: sum.split intro!: io_keeps_quiet
        simp: ensure_db_dir_def demo_dir io_bind_def Let_def create_private_dir_def split: sum.splits)
qed


lemma keeps_init_dbs: "io_keeps unmarked (init_dbs os DEMO_DB_NAME)"
proof -
  have e: "io_keeps unmarked (ensure_db_dir DEMO_DB_NAME)"
    unfolding ensure_db_dir_def demo_dir create_private_dir_def
    by (auto intro!: io_keeps_bind io_keeps_quiet io_keeps_when io_keeps_change unmarked_put
        simp: marker_path_def PROVISIONED_MARKER_def DEMO_DB_NAME_def)
  have "io_keeps unmarked (io_bind (get_db_paths os DEMO_DB_NAME) (\<lambda>(dir, data).
         io_bind (io_look (\<lambda>s. Ok (path_exists s data))) (\<lambda>there.
         io_bind (io_when (\<not> there) (io_change (\<lambda>s. disk_put (dir @ [BLOCKMETA_DB]) (RawFile [])
                    (disk_put data (WalletFile []) s)))) (\<lambda>_.
         io_return data))))"
  proof (intro io_keeps_bind_result [OF keeps_paths], clarify)
    fix s dir data assume "snd (get_db_paths os DEMO_DB_NAME s) = Ok (dir, data)"
    then have "data = dir @ [DATA_DB]" by (rule paths_data)
    then have d: "data \<noteq> marker_path" by (simp only: data_not_marker not_False_eq_True)
    show "io_keeps unmarked (io_bind (io_look (\<lambda>s. Ok (path_exists s data))) (\<lambda>there.
         io_bind (io_when (\<not> there) (io_change (\<lambda>s. disk_put (dir @ [BLOCKMETA_DB]) (RawFile [])
                    (disk_put data (WalletFile []) s)))) (\<lambda>_. io_return data)))"
      by (intro io_keeps_bind io_keeps_quiet io_keeps_when io_keeps_change unmarked_put data_not_marker d)
  qed
  then show ?thesis
    unfolding init_dbs_def by (intro io_keeps_bind e io_keeps_quiet) (auto intro: io_keeps_quiet)
qed

lemma keeps_set_current: "io_keeps unmarked (set_current_db_if_unset name)"
  unfolding set_current_db_if_unset_def set_current_db_def
  by (intro io_keeps_bind io_keeps_quiet io_keeps_when io_keeps_change unmarked_put)
    (simp_all add: marker_path_def PROVISIONED_MARKER_def)

lemma keeps_phase_one: "io_keeps unmarked (write_config_and_init os)"
  unfolding write_config_and_init_def
  by (intro io_keeps_bind io_keeps_quiet keeps_init_watch keeps_init_dbs keeps_set_current)

text \<open>The run before the marker: what \<open>ensure_demo\<close> does on a disk without it.\<close>

definition provision :: "outside \<Rightarrow> disk \<Rightarrow> unit io" where
  "provision os s =
    (if demo_exists s then io_when (is_our_demo os s) (import_account os)
     else io_bind (write_config_and_init os) (\<lambda>_. import_account os))"

lemma keeps_provision: "io_keeps unmarked (provision os s)"
  unfolding provision_def
  by (auto intro!: io_keeps_when io_keeps_bind keeps_import keeps_phase_one)

lemma io_bind_assoc: "io_bind (io_bind m k) l = io_bind m (\<lambda>x. io_bind (k x) l)"
  by (simp add: io_bind_def fun_eq_iff Let_def split: sum.splits)

lemma ensure_unmarked:
  assumes "unmarked s"
  shows "ensure_demo os s =
    io_bind (provision os s) (\<lambda>_. io_bind mark_provisioned (\<lambda>_. io_return (\<not> demo_exists s))) s"
  using assms
  by (simp add: ensure_demo_def io_bind_look unmarked_iff provision_def io_bind_assoc del: last.simps)

text \<open>
  The demonstration database is provided once. A run that succeeds leaves the marker; one that fails,
  or is cut off before its end, leaves none, so that the next run tries again; and with the marker
  there a run changes nothing, so that a user's deletion stays.
\<close>

lemma demo_is_provided_once:
  "(case io_result (ensure_demo os) s of
      Inl _ \<Rightarrow> (\<forall>s' \<in> crash_states (ensure_demo os) s. was_provisioned s' = was_provisioned s)
    | Inr _ \<Rightarrow> was_provisioned (io_final (ensure_demo os) s)
        \<and> (\<forall>s' \<in> List.set (butlast (s # fst (ensure_demo os s))). was_provisioned s' = was_provisioned s))
    \<and> (was_provisioned s \<longrightarrow> ensure_demo os s = ([], Ok False))"
proof (cases "was_provisioned s")
  case True
  then have "ensure_demo os s = ([], Ok False)" by (simp add: ensure_demo_def io_bind_look)
  then show ?thesis using True by (simp add: io_result_def io_final_def crash_states_def)
next
  case False
  then have u: "unmarked s" by (simp add: unmarked_iff)
  let ?m = "provision os s"
  have k: "\<forall>s' \<in> List.set (s # fst (?m s)). \<not> was_provisioned s'"
    using keeps_provision [of os s] u by (auto simp: io_keeps_def unmarked_iff)
  show ?thesis
  proof (cases "snd (?m s)")
    case (Inl e)
    then have "ensure_demo os s = (fst (?m s), Err e)"
      by (simp add: ensure_unmarked [OF u] io_bind_def)
    with k False show ?thesis by (simp add: io_result_def crash_states_def)
  next
    case (Inr x)
    define l where "l = last (s # fst (?m s))"
    have "ensure_demo os s = (fst (?m s) @ [disk_put marker_path (RawFile []) l], Ok (\<not> demo_exists s))"
      by (simp add: ensure_unmarked [OF u] io_bind_def Inr Let_def mark_provisioned_def l_def del: last.simps)
    moreover have "was_provisioned (disk_put marker_path (RawFile []) l)"
      by (simp add: was_provisioned_def path_exists_def)
    ultimately show ?thesis using k False by (simp add: io_result_def io_final_def butlast_append)
  qed
qed


text \<open>A database of that name which is not the demonstration is left alone.\<close>

lemma foreign_demo_untouched:
  assumes "\<not> was_provisioned s" "demo_exists s" "\<not> is_our_demo os s"
  shows "ensure_demo os s = ([disk_put marker_path (RawFile []) s], Ok False)"
  using assms by (simp add: ensure_demo_def io_bind_look mark_provisioned_def io_bind_change)

text \<open>
  So is a half-made one. A run cut off while it writes \<open>keys.toml\<close> leaves the file empty, and the next
  run takes the database for somebody else's and sets the marker: it is never finished, and the button
  that would import it again is not offered.
\<close>

lemma half_made_demo_is_foreign:
  assumes "\<not> was_provisioned s" "demo_exists s"
    and "disk_get s [DEMO_DB_NAME, KEYS_FILE] = Some (KeysFile (Some empty_encoding))"
  shows "ensure_demo os s = ([disk_put marker_path (RawFile []) s], Ok False)"
    and "\<not> should_offer_reimport (disk_put marker_path (RawFile []) s)"
proof -
  have "\<not> is_our_demo os s"
    using assms(3)
    by (auto simp: is_our_demo_def read_config_def demo_dir path_exists_def read_at_def config_of_encoding_def
        empty_encoding_def Let_def try_ok_Inr split: sum.splits if_splits)
  with assms(1,2) show "ensure_demo os s = ([disk_put marker_path (RawFile []) s], Ok False)"
    by (rule foreign_demo_untouched)
  have "DEMO_DB_NAME \<in> List.set (list_dbs (disk_put marker_path (RawFile []) s))"
    using assms(2)
    by (auto simp: demo_exists_def list_dbs_iff disk_put_def path_exists_def disk_get_def marker_path_def
        PROVISIONED_MARKER_def DEMO_DB_NAME_def map_of_filter_key [of "\<lambda>q. q \<noteq> p" for p])
  then show "\<not> should_offer_reimport (disk_put marker_path (RawFile []) s)"
    by (simp add: should_offer_reimport_def demo_exists_def)
qed

lemma trace_of_first: "List.set (fst (m s)) \<subseteq> List.set (fst (io_bind m k s))"
  by (auto simp: io_bind_def Let_def split: sum.splits)

lemma half_made_demo_arises:
  assumes "os_parse os DEMO_ZKV_ADDRESS = Ok p"
  shows "disk_put [DEMO_DB_NAME, KEYS_FILE] (KeysFile (Some empty_encoding)) (disk_put [DEMO_DB_NAME] Dir [])
    \<in> crash_states (ensure_demo os) []"
proof -
  let ?dir = "disk_put [DEMO_DB_NAME] Dir []"
  let ?torn = "disk_put [DEMO_DB_NAME, KEYS_FILE] (KeysFile (Some empty_encoding)) ?dir"
  have dir: "ensure_db_dir DEMO_DB_NAME [] = ([?dir] @ [], Ok [DEMO_DB_NAME])"
    unfolding ensure_db_dir_def demo_dir io_bind_quiet
    by (rule io_bind_run) (simp_all add: create_private_dir_def io_bind_look path_exists_def)
  have "?torn \<in> List.set (fst (write_config [DEMO_DB_NAME] enc ?dir))" for enc
    by (simp add: write_config_def Let_def io_bind_look io_bind_change path_exists_def)
  then have "?torn \<in> List.set (fst (init_watch_config os DEMO_DB_NAME b n a pl Unset []))" for b n a pl
    unfolding init_watch_config_def by (simp add: io_bind_def dir Let_def)
  then have "?torn \<in> List.set (fst (write_config_and_init os []))"
    using assms unfolding write_config_and_init_def
    by (auto simp: parsed_demo_def intro: subsetD [OF trace_of_first])
  moreover have "ensure_demo os [] =
      io_bind (write_config_and_init os) (\<lambda>_. io_bind (import_account os) (\<lambda>_.
        io_bind mark_provisioned (\<lambda>_. io_return True))) []"
    by (simp add: ensure_demo_def io_bind_look was_provisioned_def path_exists_def demo_exists_def list_dbs_def)
  ultimately show ?thesis
    using trace_of_first [of "write_config_and_init os" "[]"] by (auto simp: crash_states_def)
qed

section \<open>Expiry\<close>

text \<open>A stamp reads as the number it spells.\<close>

lemma dec_value_prefix: "dec_value ds \<le> dec_value (ds @ cs)"
proof -
  have "dec_value ds * 1 \<le> dec_value ds * 10 ^ length cs" by (intro mult_le_mono2) simp
  then show ?thesis unfolding dec_value_append by linarith
qed

lemma parse_digits_value:
  "\<lbrakk>list_all is_digit cs; dec_value (ds @ cs) \<le> u64_max\<rbrakk> \<Longrightarrow>
   parse_digits (dec_value ds) cs = Some (dec_value (ds @ cs))"
proof (induction cs arbitrary: ds)
  case (Cons c cs)
  have snoc: "dec_value ds * 10 + (byte c - 48) = dec_value (ds @ [c])" by (simp only: dec_value_snoc)
  have cat: "(ds @ [c]) @ cs = ds @ c # cs" by simp
  have "dec_value (ds @ [c]) \<le> u64_max"
    using dec_value_prefix [of "ds @ [c]" cs] Cons.prems(2) unfolding cat by linarith
  moreover have "parse_digits (dec_value (ds @ [c])) cs = Some (dec_value (ds @ c # cs))"
    using Cons.IH [of "ds @ [c]"] Cons.prems unfolding cat by simp
  moreover have "is_digit c" using Cons.prems(1) by simp
  ultimately show ?case
    unfolding parse_digits.simps parse_digit_def snoc by simp
qed simp

lemma parse_digits_dec: "parse_unix (dec n) = Some n" if "n \<le> u64_max"
  using parse_digits_value [of "dec n" "[]"] dec_digits [of n] dec_value_dec [of n] that dec_not_Nil [of n]
  by (simp add: parse_unix_def dec_value_def del: dec_value_snoc)

lemma expiry_height_bounds: "ANCHOR_HEIGHT \<le> expiry_height b" "expiry_height b \<le> u32_max"
  by (auto simp: expiry_height_def Let_def sat_add32_def ANCHOR_HEIGHT_def u32_max_def)

lemma build_is_fresh_for_its_window:
  "out_of_date_at b now None \<longleftrightarrow> b + FRESH_WINDOW_SECS \<le> now"
  "expiry_height b \<le> h \<Longrightarrow> out_of_date_at b now (Some h)"
  by (simp_all add: out_of_date_at_def expiry_unix_def)

end
