(* ===== verification/Admin_Create.thy ===== *)
theory Admin_Create
  imports Fleet_Gaps Provision Address
begin

text \<open>
  The identity of a database (\<open>receiver_domain\<close> of \<open>protocol/sign.rs\<close>, \<open>account_keys\<close> of
  \<open>internal/account.rs\<close>), and creating and restoring an admin database (\<open>db.rs\<close>). The derivations of
  the Zcash crates, the phrase list and the wallet's account creation are parameters.
\<close>

section \<open>What a viewing key identifies\<close>

record unified_address =
  ua_orchard :: "bytes option"
  ua_sapling :: "bytes option"
  ua_text :: "network \<Rightarrow> str"

record ('pk, 'sk) seed_world =
  sw_lower :: "str \<Rightarrow> str"
  sw_phrase :: "str \<Rightarrow> str + str"                            \<comment> \<open>\<open>Mnemonic::from_phrase\<close>\<close>
  sw_generate :: str                                        \<comment> \<open>\<open>Mnemonic::generate(Words24)\<close>\<close>
  sw_fresh :: str                                           \<comment> \<open>\<open>Identity::generate\<close>, as it is written\<close>
  sw_identity_ok :: "str \<Rightarrow> bool"                           \<comment> \<open>\<open>Identity::from_str\<close> succeeds\<close>
  sw_encrypt :: "str \<Rightarrow> str \<Rightarrow> str"                         \<comment> \<open>the phrase under the identity, armored\<close>
  sw_decrypt :: "str \<Rightarrow> str \<Rightarrow> str + str"
  sw_can_rename :: bool                                     \<comment> \<open>the file system can be written\<close>
  sw_ufvk :: "network \<Rightarrow> str \<Rightarrow> str + ufvk"                 \<comment> \<open>the key of account 0 of a phrase\<close>
  sw_secret :: "network \<Rightarrow> str \<Rightarrow> nat \<Rightarrow> str + 'sk"          \<comment> \<open>its transparent key at the zkv index\<close>
  sw_near_tip :: "network \<Rightarrow> str + u32"                     \<comment> \<open>\<open>near_tip_birthday\<close>\<close>
  sw_account :: "wallet_accounts \<Rightarrow> ufvk \<Rightarrow> network \<Rightarrow> str + wallet_accounts"  \<comment> \<open>\<open>create_account\<close>\<close>
  sw_key_of :: "str \<Rightarrow> ufvk"                                \<comment> \<open>the key the wallet file holds\<close>
  sw_index :: "str \<Rightarrow> nat option"                           \<comment> \<open>the account's derivation\<close>
  sw_default_address :: "ufvk \<Rightarrow> address_request \<Rightarrow> str + unified_address"
  sw_pubkey :: "ufvk \<Rightarrow> (str + 'pk) option"                 \<comment> \<open>of the transparent part, where there is one\<close>
  sw_codec :: codec
  sw_hex :: "bytes \<Rightarrow> str"

fun network_tag :: "network_type \<Rightarrow> str" where
  "network_tag NetMain = ''main''"
| "network_tag NetTest = ''test''"
| "network_tag NetRegtest = ''regtest''"

fun network_type_of :: "network \<Rightarrow> network_type" where
  "network_type_of MainNet = NetMain"
| "network_type_of TestNet = NetTest"
| "network_type_of Regtest = NetRegtest"

definition receiver_domain ::
  "('pk, 'sk) seed_world \<Rightarrow> ufvk \<Rightarrow> shielded_pool \<Rightarrow> network_type \<Rightarrow> data_error + str" where
  "receiver_domain sw key pool net =
    (case sw_default_address sw key (ua_request_for_pool pool) of
       Inl e \<Rightarrow> Err (Underivable e)
     | Inr ua \<Rightarrow>
         try_ok (case pool of
                   Sapling \<Rightarrow> ok_or (Underivable ''no Sapling receiver'') (ua_sapling ua)
                 | _ \<Rightarrow> ok_or (Underivable ''no Orchard receiver'') (ua_orchard ua)) (\<lambda>raw.
         Ok (network_tag net @ '':'' @ sw_hex sw raw)))"

definition zkv_verifying_pubkey :: "('pk, 'sk) seed_world \<Rightarrow> ufvk \<Rightarrow> data_error + 'pk" where
  "zkv_verifying_pubkey sw key =
    (case sw_pubkey sw key of
       None \<Rightarrow> Err (Underivable ''no transparent component'')
     | Some (Inl e) \<Rightarrow> Err (Underivable e)
     | Some (Inr pk) \<Rightarrow> Ok pk)"

record 'pk account_keys =
  ak_zkv_addr :: str
  ak_receiver_hex :: str
  ak_recipient_ua :: str
  ak_account_uuid_bytes :: bytes
  ak_verifying_pubkey :: 'pk
  ak_account_index :: "nat option"

definition keys_of_account ::
  "('pk, 'sk) seed_world \<Rightarrow> wallet_config \<Rightarrow> bytes \<Rightarrow> str \<Rightarrow> data_error + 'pk account_keys" where
  "keys_of_account sw c i k =
    (let key = sw_key_of sw k; net = network_type_of (wc_network c) in
     try_ok (zkv_verifying_pubkey sw key) (\<lambda>pk.
     case encode_zkv_addr (sw_codec sw) key net (wc_pool c) (wc_birthday c) of
       Inl e \<Rightarrow> Err (Underivable ''zkv address'')
     | Inr addr \<Rightarrow>
         try_ok (receiver_domain sw key (wc_pool c) net) (\<lambda>receiver.
         case sw_default_address sw key (ua_request_for_pool (wc_pool c)) of
           Inl e \<Rightarrow> Err (Underivable e)
         | Inr ua \<Rightarrow>
             Ok \<lparr>ak_zkv_addr = addr, ak_receiver_hex = receiver, ak_recipient_ua = ua_text ua (wc_network c),
                 ak_account_uuid_bytes = i, ak_verifying_pubkey = pk, ak_account_index = sw_index sw k\<rparr>)))"

text \<open>An account of the wallet file may have vanished, or have no viewing key.\<close>

definition key_in :: "wallet_accounts \<Rightarrow> bytes \<Rightarrow> data_error + str" where
  "key_in a i =
    (case map_of a i of
       Some (Some (Some k)) \<Rightarrow> Ok k
     | Some (Some None) \<Rightarrow> Err (Underivable ''no UFVK'')
     | _ \<Rightarrow> Err (Underivable ''account vanished''))"

definition account_keys ::
  "outside \<Rightarrow> ('pk, 'sk) seed_world \<Rightarrow> wallet_config \<Rightarrow> str \<Rightarrow> 'pk account_keys io" where
  "account_keys os sw c name =
    io_bind (get_db_paths os name) (\<lambda>(dir, data).
    io_bind (open_at dir data) (\<lambda>a.
    io_bind (io_of (select_account a c name)) (\<lambda>i.
    io_bind (io_of (key_in a i)) (\<lambda>k.
    io_of (keys_of_account sw c i k)))))"

section \<open>The identity and the seed\<close>

definition LEGACY_IDENTITY_FILE :: str where "LEGACY_IDENTITY_FILE = ''.id''"

definition identity_path :: "('pk, 'sk) seed_world \<Rightarrow> path \<Rightarrow> path io" where
  "identity_path sw dir =
    (let current = dir @ [IDENTITY_FILE]; legacy = dir @ [LEGACY_IDENTITY_FILE] in
     io_bind (io_look (\<lambda>s. Ok (path_exists s current, disk_get s legacy))) (\<lambda>(there, old).
     if there then io_return current
     else (case old of
             None \<Rightarrow> io_return current
           | Some node \<Rightarrow>
               if sw_can_rename sw
               then io_bind (io_change (\<lambda>s. disk_put current node (disk_del legacy s))) (\<lambda>_. io_return current)
               else io_return legacy)))"

definition read_identity :: "('pk, 'sk) seed_world \<Rightarrow> path \<Rightarrow> str io" where
  "read_identity sw dir =
    io_bind (identity_path sw dir) (\<lambda>p.
    io_look (\<lambda>s.
      case disk_get s p of
        Some (RawFile b) \<Rightarrow>
          if \<not> utf8_valid b then Err (Underivable ''could not read'')
          else (case List.find (\<lambda>l. \<not> (l \<noteq> [] \<and> hd l = CHR ''#'') \<and> trim l \<noteq> []) (split_on (CHR 0x0A) b) of
                  None \<Rightarrow> Err (Underivable ''identity file is empty'')
                | Some line \<Rightarrow>
                    if sw_identity_ok sw (trim line) then Ok (trim line) else Err (Underivable ''invalid identity''))
      | _ \<Rightarrow> Err (Underivable ''could not read'')))"

definition decrypt_mnemonic_phrase :: "('pk, 'sk) seed_world \<Rightarrow> wallet_config \<Rightarrow> str io" where
  "decrypt_mnemonic_phrase sw c =
    io_bind (io_of (ok_or (Underivable ''no seed'') (wc_seed c))) (\<lambda>ciphertext.
    io_bind (read_identity sw (wc_dir c)) (\<lambda>identity.
    io_of (case sw_decrypt sw identity ciphertext of
             Inl e \<Rightarrow> Err (Underivable e)
           | Inr m \<Rightarrow> if utf8_valid m then Ok m else Err (Underivable ''not UTF-8''))))"

text \<open>\<open>decrypt_seed\<close> parses the phrase again; the seed stays with the phrase here.\<close>

definition decrypt_seed :: "('pk, 'sk) seed_world \<Rightarrow> wallet_config \<Rightarrow> str io" where
  "decrypt_seed sw c =
    io_bind (decrypt_mnemonic_phrase sw c) (\<lambda>m.
    io_of (case sw_phrase sw m of Inl e \<Rightarrow> Err (InvalidPhrase e) | Inr seed \<Rightarrow> Ok seed))"

definition signing_key :: "('pk, 'sk) seed_world \<Rightarrow> wallet_config \<Rightarrow> nat \<Rightarrow> 'sk io" where
  "signing_key sw c index =
    io_bind (decrypt_seed sw c) (\<lambda>seed.
    io_of (case sw_secret sw (wc_network c) seed index of Inl e \<Rightarrow> Err (Underivable e) | Inr sk \<Rightarrow> Ok sk))"

text \<open>\<open>Database::zkv_address\<close>.\<close>

definition db_zkv_address :: "outside \<Rightarrow> ('pk, 'sk) seed_world \<Rightarrow> wallet_config \<Rightarrow> str \<Rightarrow> str io" where
  "db_zkv_address os sw c name =
    (case wc_zkv_address c of
       Some addr \<Rightarrow> io_return addr
     | None \<Rightarrow> io_bind (account_keys os sw c name) (\<lambda>k. io_return (ak_zkv_addr k)))"

section \<open>Creating and restoring\<close>

text \<open>\<open>split_whitespace\<close> on the characters of a string.\<close>

fun split_whitespace :: "str list \<Rightarrow> str \<Rightarrow> str list" where
  "split_whitespace [] cur = (if cur = [] then [] else [cur])"
| "split_whitespace (c # cs) cur =
    (if is_whitespace c
     then (if cur = [] then split_whitespace cs [] else cur # split_whitespace cs [])
     else split_whitespace cs (cur @ c))"

definition normalize_phrase :: "('pk, 'sk) seed_world \<Rightarrow> str \<Rightarrow> str" where
  "normalize_phrase sw phrase = join_with '' '' (split_whitespace (scalars (sw_lower sw phrase)) [])"

text \<open>
  The duplicate check reads each database the way \<open>account_keys\<close> does and passes over those that
  cannot be read; the files it may create on the way are empty.
\<close>

definition receiver_of :: "outside \<Rightarrow> ('pk, 'sk) seed_world \<Rightarrow> disk \<Rightarrow> wallet_config \<Rightarrow> str \<Rightarrow> str option" where
  "receiver_of os sw s c name =
    (case io_result (account_keys os sw c name) s of Inl _ \<Rightarrow> None | Inr k \<Rightarrow> Some (ak_receiver_hex k))"

definition find_duplicate_by_ufvk ::
  "outside \<Rightarrow> ('pk, 'sk) seed_world \<Rightarrow> ufvk \<Rightarrow> shielded_pool \<Rightarrow> network \<Rightarrow> disk \<Rightarrow> data_error + str option" where
  "find_duplicate_by_ufvk os sw key pool net s =
    try_ok (receiver_domain sw key pool (network_type_of net)) (\<lambda>identity.
      Ok (find_duplicate os (receiver_of os sw) identity s))"

definition key_of_phrase :: "('pk, 'sk) seed_world \<Rightarrow> network \<Rightarrow> str \<Rightarrow> data_error + ufvk" where
  "key_of_phrase sw net phrase =
    (case sw_ufvk sw net phrase of Inl e \<Rightarrow> Err (Underivable e) | Inr key \<Rightarrow> Ok key)"

definition parsed_phrase :: "('pk, 'sk) seed_world \<Rightarrow> str \<Rightarrow> data_error + str" where
  "parsed_phrase sw phrase =
    (case sw_phrase sw (normalize_phrase sw phrase) of Inl e \<Rightarrow> Err (InvalidPhrase e) | Inr m \<Rightarrow> Ok m)"

definition find_duplicate_database ::
  "outside \<Rightarrow> ('pk, 'sk) seed_world \<Rightarrow> str \<Rightarrow> shielded_pool \<Rightarrow> network \<Rightarrow> disk \<Rightarrow> data_error + str option" where
  "find_duplicate_database os sw phrase pool net s =
    try_ok (parsed_phrase sw phrase) (\<lambda>m.
    try_ok (key_of_phrase sw net m) (\<lambda>key. find_duplicate_by_ufvk os sw key pool net s))"

definition find_duplicate_watch_database ::
  "outside \<Rightarrow> ('pk, 'sk) seed_world \<Rightarrow> str \<Rightarrow> disk \<Rightarrow> data_error + str option" where
  "find_duplicate_watch_database os sw addr s =
    (case os_parse os addr of
       Inl e \<Rightarrow> Err (BadAddress e)
     | Inr p \<Rightarrow> find_duplicate_by_ufvk os sw (sw_key_of sw (pa_ufvk p (pa_network p))) (pa_pool p) (pa_network p) s)"

definition birthday_for ::
  "outside \<Rightarrow> ('pk, 'sk) seed_world \<Rightarrow> network \<Rightarrow> u32 option \<Rightarrow> data_error + u32" where
  "birthday_for os sw net birthday =
    (case birthday of
       Some h \<Rightarrow> (case os_birthday os net h of Inl e \<Rightarrow> Err (Upstream e) | Inr _ \<Rightarrow> Ok h)
     | None \<Rightarrow> (case sw_near_tip sw net of Inl e \<Rightarrow> Err (Upstream e) | Inr h \<Rightarrow> Ok h))"

definition create_account :: "('pk, 'sk) seed_world \<Rightarrow> path \<Rightarrow> ufvk \<Rightarrow> network \<Rightarrow> unit io" where
  "create_account sw data key net =
    io_bind (io_look (\<lambda>s. case disk_get s data of
        Some (WalletFile a) \<Rightarrow> (case sw_account sw a key net of Inl e \<Rightarrow> Err (Upstream e) | Inr a1 \<Rightarrow> Ok a1)
      | _ \<Rightarrow> Err (CannotOpenWallet data)))
      (\<lambda>a. io_change (disk_put data (WalletFile a)))"

definition create_admin ::
  "outside \<Rightarrow> ('pk, 'sk) seed_world \<Rightarrow> str \<Rightarrow> network \<Rightarrow> str \<Rightarrow> u32 option \<Rightarrow> shielded_pool \<Rightarrow> wallet_config io" where
  "create_admin os sw name net mnemonic birthday pool =
    io_bind (io_of (db_dir name)) (\<lambda>dir.
    io_bind (io_look (\<lambda>s. if path_exists s (dir @ [KEYS_FILE])
                          then Err (FileExists (dir @ [KEYS_FILE])) else Ok ())) (\<lambda>_.
    io_bind (io_of (key_of_phrase sw net mnemonic)) (\<lambda>key.
    io_bind (io_look (find_duplicate_by_ufvk os sw key pool net)) (\<lambda>dup.
    io_bind (io_of (case dup of Some old \<Rightarrow> Err (AlreadyImported old) | None \<Rightarrow> Ok ())) (\<lambda>_.
    io_bind (io_of (birthday_for os sw net birthday)) (\<lambda>height.
    io_bind (init_admin_config name (sw_fresh sw) (sw_encrypt sw (sw_fresh sw) mnemonic) height net pool) (\<lambda>_.
    io_bind (init_dbs os name) (\<lambda>data.
    io_bind (create_account sw data key net) (\<lambda>_.
    io_bind (promote_current name) (\<lambda>_.
    io_bind (io_look (\<lambda>s. read_config (os_public os) s name)) (\<lambda>c.
    io_bind (account_keys os sw c name) (\<lambda>_.
    open_database os name))))))))))))"

fun pool_refused :: "pool_error + unit \<Rightarrow> data_error + unit" where
  "pool_refused (Inl e) = Err (PoolRefused e)"
| "pool_refused (Inr u) = Ok u"

definition init_admin_with_pool ::
  "outside \<Rightarrow> ('pk, 'sk) seed_world \<Rightarrow> str \<Rightarrow> network \<Rightarrow> shielded_pool \<Rightarrow> (wallet_config \<times> str) io" where
  "init_admin_with_pool os sw name net pool =
    io_bind (io_of (pool_refused (ensure_pool_available pool net))) (\<lambda>_.
    io_bind (io_of (pool_refused (ensure_pool_creatable pool))) (\<lambda>_.
    io_bind (create_admin os sw name net (sw_generate sw) None pool) (\<lambda>c.
    io_return (c, sw_generate sw))))"

definition init_admin :: "outside \<Rightarrow> ('pk, 'sk) seed_world \<Rightarrow> str \<Rightarrow> network \<Rightarrow> (wallet_config \<times> str) io" where
  "init_admin os sw name net = init_admin_with_pool os sw name net (default_pool_for_network net)"

definition restore_admin_with_pool ::
  "outside \<Rightarrow> ('pk, 'sk) seed_world \<Rightarrow> str \<Rightarrow> network \<Rightarrow> str \<Rightarrow> u32 option \<Rightarrow> shielded_pool \<Rightarrow> wallet_config io" where
  "restore_admin_with_pool os sw name net phrase birthday pool =
    io_bind (io_of (pool_refused (ensure_pool_available pool net))) (\<lambda>_.
    io_bind (io_of (parsed_phrase sw phrase)) (\<lambda>mnemonic.
    create_admin os sw name net mnemonic birthday pool))"

definition restore_admin ::
  "outside \<Rightarrow> ('pk, 'sk) seed_world \<Rightarrow> str \<Rightarrow> network \<Rightarrow> str \<Rightarrow> u32 option \<Rightarrow> wallet_config io" where
  "restore_admin os sw name net phrase birthday =
    restore_admin_with_pool os sw name net phrase birthday (default_pool_for_network net)"

end
