(* ===== verification/Admin_Props.thy ===== *)
theory Admin_Props
  imports Admin_Create Address_Props
begin

text \<open>
  What creating an admin database makes and leaves: the configuration, the seed that can be read back,
  the account, and the rest of the disk; and the state a creation that is cut off leaves.
\<close>

section \<open>What creation makes\<close>

definition admin_config :: "str \<Rightarrow> str \<Rightarrow> u32 \<Rightarrow> network \<Rightarrow> shielded_pool \<Rightarrow> wallet_config" where
  "admin_config name ciphertext height net pool =
    \<lparr>wc_network = net, wc_role = Admin, wc_birthday = height, wc_zkv_address = None, wc_pool = pool,
     wc_ufvk = None, wc_engine = Unset, wc_shard = None, wc_seed = Some ciphertext, wc_dir = [name]\<rparr>"

lemma admin_config_encoding: "admin_encoding ciphertext height net pool = to_encoding (admin_config name ciphertext height net pool)"
  by (simp add: admin_encoding_def to_encoding_def admin_config_def)

lemma admin_config_own [simp]:
  "\<not> is_fleet_member (wc_engine (admin_config name w h net pool))"
  "wc_role (admin_config name w h net pool) = Admin"
  by (simp_all add: admin_config_def is_fleet_member_def)

lemma write_identity_run:
  "io_result (write_identity dir i) s = Ok u \<longleftrightarrow> \<not> path_exists s (dir @ [IDENTITY_FILE])"
  "\<not> path_exists s (dir @ [IDENTITY_FILE]) \<Longrightarrow> io_final (write_identity dir i) s =
    disk_put (dir @ [IDENTITY_FILE]) (RawFile (i @ [CHR 0x0A])) (disk_put (dir @ [IDENTITY_FILE]) (RawFile []) s)"
  by (simp_all add: write_identity_def Let_def io_result_bind io_final_def io_bind_look io_bind_change)

lemma init_admin_config_written:
  assumes "io_result (init_admin_config name i w h net pool) s = Ok u"
  defines "s1 \<equiv> io_final (init_admin_config name i w h net pool) s"
  shows "read_config pub s1 name = Ok (admin_config name w h net pool)"
    and "q \<notin> {[name], [name, KEYS_FILE], [name, IDENTITY_FILE]} \<Longrightarrow> disk_get s1 q = disk_get s q"
    and "validate_db_name name = Ok ()" and "path_exists s1 [name]"
    and "disk_get s1 [name, IDENTITY_FILE] = Some (RawFile (i @ [CHR 0x0A]))"
proof -
  let ?cfg = "admin_encoding w h net pool"
  show v: "validate_db_name name = Ok ()"
    using assms(1) by (auto simp: init_admin_config_def io_result_bind ensure_db_dir_result)
  have e: "io_result (ensure_db_dir name) s = Ok [name]" by (simp add: ensure_db_dir_result v)
  let ?s0 = "io_final (ensure_db_dir name) s"
  let ?i = "[name, IDENTITY_FILE]"
  let ?s' = "disk_put ?i (RawFile (i @ [CHR 0x0A])) (disk_put ?i (RawFile []) ?s0)"
  have i: "\<not> path_exists ?s0 ([name] @ [IDENTITY_FILE])"
    using assms(1) e by (auto simp: init_admin_config_def io_result_bind write_identity_run)
  then have w: "\<not> path_exists ?s' ([name] @ [KEYS_FILE])"
    using assms(1) e
    by (auto simp: init_admin_config_def io_result_bind write_identity_run(2) write_config_result)
  have wi: "io_result (write_identity [name] i) ?s0 = Ok ()" using i by (simp add: write_identity_run(1))
  have s1: "s1 = io_final (write_config [name] ?cfg) ?s'"
    using i unfolding s1_def init_admin_config_def
    by (simp add: io_final_bind [OF e] io_final_bind [OF wi] write_identity_run(2))
  have "config_ok (admin_config name w h net pool)" "wc_dir (admin_config name w h net pool) = [name]"
    by (simp_all add: config_ok_def admin_config_def)
  then show "read_config pub s1 name = Ok (admin_config name w h net pool)"
    by (intro read_config_saved [OF _ v]) (simp_all add: s1 write_config_final [OF w] admin_config_encoding)
  show "q \<notin> {[name], [name, KEYS_FILE], ?i} \<Longrightarrow> disk_get s1 q = disk_get s q"
    unfolding s1 write_config_final [OF w] by (simp add: ensure_db_dir_final [OF v])
  show "path_exists s1 [name]"
    unfolding s1 write_config_final [OF w]
    by (simp add: ensure_db_dir_final [OF v] path_exists_def)
  show "disk_get s1 ?i = Some (RawFile (i @ [CHR 0x0A]))"
    unfolding s1 write_config_final [OF w] by (simp add: IDENTITY_FILE_def)
qed

text \<open>The steps on a database with a node of its own.\<close>

lemma get_db_paths_own:
  assumes "read_config (os_public os) s name = Ok c" "\<not> is_fleet_member (wc_engine c)"
  shows "get_db_paths os name s = ([], try_ok (engine_dir s name) (\<lambda>d. Ok (d, d @ [DATA_DB])))"
  using assms locate_own [OF assms(2), of os name s]
  by (cases "engine_dir s name") (simp_all add: get_db_paths_def wallet_home_dir_def io_bind_look io_bind_def Let_def)

lemma init_dbs_own:
  assumes "read_config (os_public os) s name = Ok c" "\<not> is_fleet_member (wc_engine c)"
    and "path_exists s [name]" and "io_result (init_dbs os name) s = Ok data"
  obtains d where "engine_dir s name = Ok d" "data = d @ [DATA_DB]"
    "io_final (init_dbs os name) s =
      (if path_exists s data then s
       else disk_put (d @ [BLOCKMETA_DB]) (RawFile []) (disk_put data (WalletFile []) s))"
proof -
  have v: "validate_db_name name = Ok ()" using assms(4) by (auto simp: init_dbs_def io_result_bind ensure_db_dir_result)
  have e: "ensure_db_dir name s = ([], Ok [name])"
    using assms(3) by (simp add: ensure_db_dir_def db_dir_def v create_private_dir_def io_bind_look io_bind_def)
  show thesis
  proof (cases "engine_dir s name")
    case (Inl x)
    then show ?thesis
      using assms e get_db_paths_own [OF assms(1,2)] by (simp add: init_dbs_def io_result_def io_bind_def)
  next
    case (Inr d)
    have p: "get_db_paths os name s = ([], Ok (d, d @ [DATA_DB]))"
      using get_db_paths_own [OF assms(1,2)] Inr by simp
    have "init_dbs os name s =
        (if path_exists s (d @ [DATA_DB]) then ([], Ok (d @ [DATA_DB]))
         else ([disk_put (d @ [BLOCKMETA_DB]) (RawFile []) (disk_put (d @ [DATA_DB]) (WalletFile []) s)], Ok (d @ [DATA_DB])))"
      using assms(1,2) e p by (simp add: init_dbs_def io_bind_def Let_def)
    then show ?thesis
      using that [OF Inr] assms(4) by (auto simp: io_result_def io_final_def split: if_splits)
  qed
qed

lemma create_account_run:
  assumes "io_result (create_account sw data key net) s = Ok u"
  obtains a a1 where "disk_get s data = Some (WalletFile a)" "sw_account sw a key net = Ok a1"
    "io_final (create_account sw data key net) s = disk_put data (WalletFile a1) s"
proof -
  from assms obtain a a1 where a: "disk_get s data = Some (WalletFile a)" "sw_account sw a key net = Ok a1"
    by (auto simp: create_account_def io_result_bind split: option.splits node.splits sum.splits)
  then show thesis by (intro that [OF a]) (simp add: create_account_def io_final_def io_bind_look)
qed

lemma account_keys_own:
  assumes "read_config (os_public os) s name = Ok c" "\<not> is_fleet_member (wc_engine c)"
    and "engine_dir s name = Ok d" "path_exists s (d @ [DATA_DB])"
  shows "fst (account_keys os sw c' name s) = []"
proof -
  have p: "get_db_paths os name s = ([], Ok (d, d @ [DATA_DB]))"
    using get_db_paths_own [OF assms(1,2)] assms(3) by simp
  have "fst (open_at d (d @ [DATA_DB]) s) = []"
    using assms(4) by (simp add: open_at_def io_bind_look split: sum.split)
  then show ?thesis
    by (simp add: account_keys_def io_bind_def p Let_def split: sum.splits)
qed

lemma open_admin:
  assumes "read_config (os_public os) s name = Ok c" "wc_role c = Admin"
  shows "open_database os name s = ([], Ok c)"
  using assms by (simp add: open_database_def io_bind_look enrol_if_unchosen_def should_enrol_def)

text \<open>
  The crate that wraps the seed: a fresh identity is a printable line that is no comment and reads
  back, and what is wrapped under it unwraps.
\<close>

definition age_laws :: "('pk, 'sk) seed_world \<Rightarrow> bool" where
  "age_laws sw \<longleftrightarrow>
    (let i = sw_fresh sw in i \<noteq> [] \<and> list_all plain i \<and> hd i \<noteq> CHR ''#'' \<and> sw_identity_ok sw i
       \<and> (\<forall>m. sw_decrypt sw i (sw_encrypt sw i m) = Ok m))"

lemma split_on_line: "list_all plain i \<Longrightarrow> split_on (CHR 0x0A) (i @ [CHR 0x0A]) = [i, []]"
proof -
  assume "list_all plain i"
  then have n: "CHR 0x0A \<notin> List.set i" by (auto simp: list_all_iff plain_def byte_def)
  have "split_on (CHR 0x0A) (join_with [CHR 0x0A] [i, []]) = [i, []]"
    by (rule split_on_join) (use n in auto)
  then show ?thesis by simp
qed

lemma read_identity_fresh:
  assumes "age_laws sw" and "disk_get s [name, IDENTITY_FILE] = Some (RawFile (sw_fresh sw @ [CHR 0x0A]))"
  shows "read_identity sw [name] s = ([], Ok (sw_fresh sw))"
proof -
  let ?i = "sw_fresh sw"
  have p: "list_all plain ?i" and i: "?i \<noteq> []" "hd ?i \<noteq> CHR ''#''" "sw_identity_ok sw ?i"
    using assms(1) by (auto simp: age_laws_def Let_def)
  have u: "utf8_valid (?i @ [CHR 0x0A])"
    using p plain_ascii by (intro utf8_valid_ascii) (auto simp: list_all_iff is_ascii_def byte_def)
  have t: "trim ?i = ?i" using p by (simp add: text_simps)
  have "identity_path sw [name] s = ([], Ok [name, IDENTITY_FILE])"
    using assms(2) by (simp add: identity_path_def Let_def io_bind_look path_exists_def)
  then show ?thesis
    using u i t assms(2) by (simp add: read_identity_def io_bind_def split_on_line [OF p])
qed

text \<open>The states a creation that succeeds passes through.\<close>

lemma create_admin_steps:
  assumes "io_result (create_admin os sw name net mnemonic birthday pool) s = Ok c"
  obtains h key data s1 s2 s3 s4 c1 k u1 u3 u4 where
    "birthday_for os sw net birthday = Ok h" "key_of_phrase sw net mnemonic = Ok key"
    "io_result (init_admin_config name (sw_fresh sw) (sw_encrypt sw (sw_fresh sw) mnemonic) h net pool) s = Ok u1"
    "s1 = io_final (init_admin_config name (sw_fresh sw) (sw_encrypt sw (sw_fresh sw) mnemonic) h net pool) s"
    "io_result (init_dbs os name) s1 = Ok data" "s2 = io_final (init_dbs os name) s1"
    "io_result (create_account sw data key net) s2 = Ok u3" "s3 = io_final (create_account sw data key net) s2"
    "io_result (promote_current name) s3 = Ok u4" "s4 = io_final (promote_current name) s3"
    "read_config (os_public os) s4 name = Ok c1" "io_result (account_keys os sw c1 name) s4 = Ok k"
    "io_result (open_database os name) (io_final (account_keys os sw c1 name) s4) = Ok c"
    "io_final (create_admin os sw name net mnemonic birthday pool) s =
      io_final (open_database os name) (io_final (account_keys os sw c1 name) s4)"
  using assms that
  by (auto simp: create_admin_def io_result_bind io_final_bind)

lemma engine_dir_stays:
  assumes "engine_dir s name = Ok d"
    and "disk_get s' (d @ [DATA_DB]) = Some (WalletFile a)"
    and "\<And>q. q \<noteq> d @ [DATA_DB] \<Longrightarrow> last q = DATA_DB \<Longrightarrow> disk_get s' q = disk_get s q"
  shows "engine_dir s' name = Ok d"
proof -
  have v: "validate_db_name name = Ok ()" and e: "engine_dir_in s [name] = Ok d"
    using assms(1) by (auto simp: engine_dir_def try_ok_Inr db_dir_Ok)
  let ?n = "nested_engine_dir [name]"
  have other: "path_is_file s' (r @ [DATA_DB]) = path_is_file s (r @ [DATA_DB])" if "r \<noteq> d" for r
    using assms(3) [of "r @ [DATA_DB]"] that by (simp add: path_is_file_def path_exists_def path_is_dir_def)
  have own: "path_is_file s' (d @ [DATA_DB])"
    using assms(2) by (simp add: path_is_file_def path_exists_def path_is_dir_def)
  have ne: "[name] \<noteq> ?n" by (simp add: nested_engine_dir_def)
  from e own other [of "[name]"] other [of ?n] ne have "engine_dir_in s' [name] = Ok d"
    by (auto simp: engine_dir_in_def Let_def split: if_splits)
  then show ?thesis by (simp add: engine_dir_def db_dir_def v)
qed

text \<open>What it leaves.\<close>

lemma created_admin:
  assumes "age_laws sw" and "utf8_valid mnemonic"
    and "io_result (create_admin os sw name net mnemonic birthday pool) s = Ok c"
  defines "s' \<equiv> io_final (create_admin os sw name net mnemonic birthday pool) s"
  shows "(\<exists>h. birthday_for os sw net birthday = Ok h
        \<and> c = admin_config name (sw_encrypt sw (sw_fresh sw) mnemonic) h net pool)
    \<and> read_config (os_public os) s' name = Ok c
    \<and> decrypt_mnemonic_phrase sw c s' = ([], Ok mnemonic)
    \<and> (\<exists>d key a a1. engine_dir s' name = Ok d \<and> key_of_phrase sw net mnemonic = Ok key
        \<and> sw_account sw a key net = Ok a1 \<and> disk_get s' (d @ [DATA_DB]) = Some (WalletFile a1))
    \<and> (\<forall>q. take 1 q \<noteq> [name] \<longrightarrow> q \<noteq> [CURRENT_MARKER] \<longrightarrow> disk_get s' q = disk_get s q)"
proof -
  from create_admin_steps [OF assms(3)] obtain h key data s1 s2 s3 s4 c1 k u1 u3 u4 where
    h: "birthday_for os sw net birthday = Ok h" and key: "key_of_phrase sw net mnemonic = Ok key"
    and i: "io_result (init_admin_config name (sw_fresh sw) (sw_encrypt sw (sw_fresh sw) mnemonic) h net pool) s = Ok u1"
    and s1: "s1 = io_final (init_admin_config name (sw_fresh sw) (sw_encrypt sw (sw_fresh sw) mnemonic) h net pool) s"
    and r2: "io_result (init_dbs os name) s1 = Ok data" and s2: "s2 = io_final (init_dbs os name) s1"
    and r3: "io_result (create_account sw data key net) s2 = Ok u3" and s3: "s3 = io_final (create_account sw data key net) s2"
    and r4: "io_result (promote_current name) s3 = Ok u4" and s4: "s4 = io_final (promote_current name) s3"
    and c1: "read_config (os_public os) s4 name = Ok c1" and ak: "io_result (account_keys os sw c1 name) s4 = Ok k"
    and op: "io_result (open_database os name) (io_final (account_keys os sw c1 name) s4) = Ok c"
    and s': "s' = io_final (open_database os name) (io_final (account_keys os sw c1 name) s4)"
    unfolding s'_def by metis
  let ?c = "admin_config name (sw_encrypt sw (sw_fresh sw) mnemonic) h net pool"
  note w = init_admin_config_written [OF i, folded s1]
  have v: "validate_db_name name = Ok ()" by (rule w(3))
  then have nc: "name \<noteq> CURRENT_MARKER" by (rule validate_db_name_Ok(4))
  have read1: "read_config (os_public os) s1 name = Ok ?c" by (rule w(1))
  obtain d where d: "engine_dir s1 name = Ok d" "data = d @ [DATA_DB]"
    and s2': "s2 = (if path_exists s1 data then s1
        else disk_put (d @ [BLOCKMETA_DB]) (RawFile []) (disk_put data (WalletFile []) s1))"
    using init_dbs_own [OF read1 _ w(4) r2] s2 by auto
  obtain a a1 where a: "sw_account sw a key net = Ok a1" and s3': "s3 = disk_put data (WalletFile a1) s2"
    using create_account_run [OF r3] s3 by metis
  have dn: "take 1 d = [name]" "d \<noteq> []"
    using d(1) engine_dir_in_cases [of s1 "[name]" d] by (auto simp: engine_dir_def try_ok_Inr db_dir_Ok nested_engine_dir_def)
  have same4: "disk_get s4 q = disk_get s3 q" if "q \<noteq> [CURRENT_MARKER]" for q
    using promote_current_final [OF r4 that] s4 by simp
  have same3: "disk_get s3 q = disk_get s1 q" if "q \<noteq> data" "q \<noteq> d @ [BLOCKMETA_DB]" for q
    using that unfolding s3' s2' by simp
  have same: "disk_get s4 q = disk_get s1 q" if "q \<noteq> data" "q \<noteq> d @ [BLOCKMETA_DB]" "q \<noteq> [CURRENT_MARKER]" for q
    using same4 same3 that by simp
  have data4: "disk_get s4 data = Some (WalletFile a1)"
    using same4 [of data] dn nc unfolding d(2) s3' by (cases d) auto
  have keys: "disk_get s4 [name, KEYS_FILE] = disk_get s1 [name, KEYS_FILE]"
    "disk_get s4 [name, IDENTITY_FILE] = disk_get s1 [name, IDENTITY_FILE]"
    by (rule same; auto simp: d(2) IDENTITY_FILE_def dest!: arg_cong [where f = last])+
  then have read4: "read_config (os_public os) s4 name = Ok ?c" using read_config_cong read1 by metis
  have dir4: "engine_dir s4 name = Ok d"
  proof (rule engine_dir_stays [OF d(1)])
    show "disk_get s4 (d @ [DATA_DB]) = Some (WalletFile a1)" using data4 d(2) by simp
    show "disk_get s4 q = disk_get s1 q" if "q \<noteq> d @ [DATA_DB]" "last q = DATA_DB" for q
      using same [of q] that d(2) by force
  qed
  have "fst (account_keys os sw c1 name s4) = []"
    by (rule account_keys_own [OF read4 _ dir4]) (use data4 d(2) in \<open>simp_all add: path_exists_def\<close>)
  then have quiet: "io_final (account_keys os sw c1 name) s4 = s4" by (simp add: io_final_def)
  have open4: "open_database os name s4 = ([], Ok ?c)" by (rule open_admin [OF read4]) simp
  then have c: "c = ?c" and end4: "s' = s4"
    using op s' unfolding quiet by (simp_all add: io_result_def io_final_def)
  have "read_identity sw [name] s4 = ([], Ok (sw_fresh sw))"
    by (rule read_identity_fresh [OF assms(1)]) (simp add: keys w(5))
  moreover have "sw_decrypt sw (sw_fresh sw) (sw_encrypt sw (sw_fresh sw) mnemonic) = Ok mnemonic"
    using assms(1) by (simp add: age_laws_def Let_def)
  ultimately have "decrypt_mnemonic_phrase sw c s' = ([], Ok mnemonic)"
    using assms(2) by (simp add: decrypt_mnemonic_phrase_def c end4 admin_config_def io_bind_def)
  moreover have "disk_get s' q = disk_get s q" if "take 1 q \<noteq> [name]" "q \<noteq> [CURRENT_MARKER]" for q
  proof -
    have "q \<noteq> d @ [x]" for x using dn that(1) by (cases d) auto
    then have "disk_get s4 q = disk_get s1 q" using same [of q] that(2) by (simp add: d(2))
    moreover have "q \<notin> {[name], [name, KEYS_FILE], [name, IDENTITY_FILE]}" using that(1) by auto
    ultimately show ?thesis using w(2) [of q] by (simp add: end4)
  qed
  ultimately show ?thesis
    using h c read4 dir4 key a data4 by (simp add: end4 d(2)) blast
qed


text \<open>A creation that succeeds, on an empty disk.\<close>

definition demo_seed :: "(char, char) seed_world" where
  "demo_seed =
    \<lparr>sw_lower = id, sw_phrase = Ok, sw_generate = ''p'', sw_fresh = ''AGE'', sw_identity_ok = (\<lambda>i. i = ''AGE''),
     sw_encrypt = (\<lambda>i m. i @ m),
     sw_decrypt = (\<lambda>i c. case strip_prefix i c of None \<Rightarrow> Err ''no'' | Some m \<Rightarrow> Ok m),
     sw_can_rename = True, sw_ufvk = (\<lambda>n m. if m = ''p'' then Ok demo_key else Err ''no''),
     sw_secret = (\<lambda>n m i. Ok CHR ''s''), sw_near_tip = (\<lambda>n. Ok 7),
     sw_account = (\<lambda>a k n. Ok (a @ [(''u'', Some (Some ''k''))])), sw_key_of = (\<lambda>k. demo_key),
     sw_index = (\<lambda>k. Some 0),
     sw_default_address = (\<lambda>k r. Ok \<lparr>ua_orchard = Some ''o'', ua_sapling = None, ua_text = (\<lambda>n. ''u1'')\<rparr>),
     sw_pubkey = (\<lambda>k. Some (Ok CHR ''A'')), sw_codec = model_codec, sw_hex = id\<rparr>"

lemma demo_age: "age_laws demo_seed"
  by (auto simp: age_laws_def demo_seed_def Let_def plain_def byte_def strip_prefix_append simp del: append.simps)

lemma demo_keys:
  "\<exists>k. keys_of_account demo_seed (admin_config ''a'' w 5 TestNet Ironwood) i x = Ok k"
proof -
  obtain addr where "encode_zkv_addr model_codec demo_key NetTest Ironwood 5 = Ok addr"
    by (rule published_address [OF model_codec_laws demo_key_fits, of 5 NetTest]) simp_all
  then show ?thesis
    by (simp add: keys_of_account_def demo_seed_def zkv_verifying_pubkey_def receiver_domain_def admin_config_def Let_def)
qed

lemma demo_creation:
  "io_result (create_admin plain_outside demo_seed ''a'' TestNet ''p'' (Some 5) Ironwood) [] =
    Ok (admin_config ''a'' ''AGEp'' 5 TestNet Ironwood)"
proof -
  let ?c = "admin_config ''a'' ''AGEp'' 5 TestNet Ironwood"
  let ?os = plain_outside and ?d = "[''a'']"
  let ?init = "init_admin_config ''a'' ''AGE'' ''AGEp'' 5 TestNet Ironwood"
  have v: "validate_db_name ''a'' = Ok ()" by code_simp
  have i: "io_result ?init [] = Ok ()"
    by (simp add: init_admin_config_def io_result_bind ensure_db_dir_result v write_identity_run(1) write_identity_run(2)
        write_config_result ensure_db_dir_final [OF v] path_exists_def IDENTITY_FILE_def)
  define s1 where "s1 = io_final ?init []"
  note w = init_admin_config_written [OF i, folded s1_def]
  have none: "disk_get s1 q = None" if "q \<notin> {?d, [''a'', KEYS_FILE], [''a'', IDENTITY_FILE]}" for q
    using w(2) [OF that] by simp
  have eng: "engine_dir s1 ''a'' = Ok ?d"
    by (simp add: engine_dir_def db_dir_def v engine_dir_in_def Let_def path_is_file_def path_exists_def
        nested_engine_dir_def none IDENTITY_FILE_def)
  have paths: "get_db_paths ?os ''a'' s1 = ([], Ok (?d, ?d @ [DATA_DB]))"
    using get_db_paths_own [OF w(1)] eng by simp
  let ?s2 = "disk_put (?d @ [BLOCKMETA_DB]) (RawFile []) (disk_put (?d @ [DATA_DB]) (WalletFile []) s1)"
  have dir: "ensure_db_dir ''a'' s1 = ([], Ok ?d)"
    using w(4) by (simp add: ensure_db_dir_def db_dir_def v create_private_dir_def io_bind_look io_bind_def)
  have dbs: "init_dbs ?os ''a'' s1 = ([?s2], Ok (?d @ [DATA_DB]))"
    using paths dir w(1) none [of "[''a'', DATA_DB]"]
    by (simp add: init_dbs_def io_bind_def Let_def path_exists_def IDENTITY_FILE_def)
  let ?a = "[(''u'', Some (Some ''k''))]"
  let ?s3 = "disk_put (?d @ [DATA_DB]) (WalletFile ?a) ?s2"
  have acc: "create_account demo_seed (?d @ [DATA_DB]) demo_key TestNet ?s2 = ([?s3], Ok ())"
    by (simp add: create_account_def io_bind_look demo_seed_def)
  have cur: "current_db ?s3 = Ok None"
    by (simp add: current_db_def none IDENTITY_FILE_def)
  let ?s4 = "disk_put [CURRENT_MARKER] (RawFile ''a'') ?s3"
  have pr: "promote_current ''a'' ?s3 = ([?s4], Ok ())"
    using cur by (simp add: promote_current_def io_bind_look set_current_db_def v)
  have r4: "read_config pub ?s4 ''a'' = Ok ?c" for pub
    using w(1) read_config_cong [of ?s4 "''a''" s1 pub] by simp
  have eng4: "engine_dir ?s4 ''a'' = Ok ?d"
    by (rule engine_dir_stays [OF eng, where a = ?a]) auto
  have paths4: "get_db_paths ?os ''a'' ?s4 = ([], Ok (?d, ?d @ [DATA_DB]))"
    using get_db_paths_own [OF r4] eng4 by simp
  obtain k where k: "keys_of_account demo_seed ?c ''u'' ''k'' = Ok k" using demo_keys by blast
  have "open_at ?d (?d @ [DATA_DB]) ?s4 = ([], Ok ?a)"
    by (simp add: open_at_def io_bind_look open_wallet_db_def path_exists_def)
  then have ak: "account_keys ?os demo_seed ?c ''a'' ?s4 = ([], Ok k)"
    using k paths4 by (simp add: account_keys_def io_bind_def select_account_def key_in_def admin_config_def)
  have op: "open_database ?os ''a'' ?s4 = ([], Ok ?c)" by (rule open_admin [OF r4]) simp
  have key: "key_of_phrase demo_seed TestNet ''p'' = Ok demo_key" by (simp add: key_of_phrase_def demo_seed_def)
  have dup: "find_duplicate_by_ufvk ?os demo_seed demo_key Ironwood TestNet [] = Ok None"
    by (simp add: find_duplicate_by_ufvk_def receiver_domain_def demo_seed_def find_duplicate_def no_databases)
  have h: "birthday_for ?os demo_seed TestNet (Some 5) = Ok 5" by (simp add: birthday_for_def plain_outside_def)
  have i': "io_result (init_admin_config ''a'' (sw_fresh demo_seed) (sw_encrypt demo_seed (sw_fresh demo_seed) ''p'') 5
      TestNet Ironwood) [] = Ok ()" and f': "io_final (init_admin_config ''a'' (sw_fresh demo_seed)
      (sw_encrypt demo_seed (sw_fresh demo_seed) ''p'') 5 TestNet Ironwood) [] = s1"
    using i by (simp_all add: demo_seed_def s1_def)
  have run: "io_result (init_dbs ?os ''a'') s1 = Ok (?d @ [DATA_DB])" "io_final (init_dbs ?os ''a'') s1 = ?s2"
    "io_result (create_account demo_seed (?d @ [DATA_DB]) demo_key TestNet) ?s2 = Ok ()"
    "io_final (create_account demo_seed (?d @ [DATA_DB]) demo_key TestNet) ?s2 = ?s3"
    "io_result (promote_current ''a'') ?s3 = Ok ()" "io_final (promote_current ''a'') ?s3 = ?s4"
    "io_result (account_keys ?os demo_seed ?c ''a'') ?s4 = Ok k" "io_final (account_keys ?os demo_seed ?c ''a'') ?s4 = ?s4"
    "io_result (open_database ?os ''a'') ?s4 = Ok ?c"
    using dbs acc pr ak op by (simp_all add: io_result_def io_final_def)
  show ?thesis
    unfolding create_admin_def
    by (simp add: io_result_bind io_final_bind db_dir_def v path_exists_def key dup h i' f' run r4 del: append.simps)
qed


text \<open>
  A creation cut off between the identity and \<open>keys.toml\<close> leaves a name that is neither a database nor
  free: it does not open, and creating or restoring by that name fails on the identity file.
\<close>

lemma half_made_admin_is_stuck:
  assumes "path_exists s [name, IDENTITY_FILE]" "\<not> path_exists s [name, KEYS_FILE]" "validate_db_name name = Ok ()"
  shows "open_database os name s = ([], Err (NoDatabase name))"
    and "io_result (create_admin os sw name net mnemonic birthday pool) s \<noteq> Ok c"
proof -
  show "open_database os name s = ([], Err (NoDatabase name))"
    using assms(2,3) by (simp add: open_database_def io_bind_look read_config_def db_dir_def)
  have e: "path_exists (io_final (ensure_db_dir name) s) [name, IDENTITY_FILE]"
    using assms(1) by (simp add: ensure_db_dir_final [OF assms(3)] path_exists_def)
  have "io_result (init_admin_config name i w h net pool) s \<noteq> Ok u" for i w h u
    using e by (auto simp: init_admin_config_def io_result_bind ensure_db_dir_result write_identity_run(1))
  then show "io_result (create_admin os sw name net mnemonic birthday pool) s \<noteq> Ok c"
    by (auto elim: create_admin_steps)
qed

lemma half_made_admin_arises:
  assumes "validate_db_name name = Ok ()" "\<not> path_exists s [name]" "\<not> path_exists s [name, IDENTITY_FILE]"
    "\<not> path_exists s [name, KEYS_FILE]"
  shows "\<exists>s' \<in> crash_states (init_admin_config name i w h net pool) s.
    path_exists s' [name, IDENTITY_FILE] \<and> \<not> path_exists s' [name, KEYS_FILE]"
proof -
  have d: "ensure_db_dir name s = ([disk_put [name] Dir s], Ok [name])"
    using assms(1,2) by (simp add: ensure_db_dir_def db_dir_def create_private_dir_def io_bind_look io_bind_def)
  let ?s = "disk_put [name, IDENTITY_FILE] (RawFile []) (disk_put [name] Dir s)"
  have "?s \<in> List.set (fst (init_admin_config name i w h net pool s))"
    using assms(3) d
    by (simp add: init_admin_config_def write_identity_def Let_def io_bind_def path_exists_def split: sum.split)
  moreover have "path_exists ?s [name, IDENTITY_FILE]" "\<not> path_exists ?s [name, KEYS_FILE]"
    using assms(4) by (simp_all add: path_exists_def IDENTITY_FILE_def)
  ultimately show ?thesis by (auto simp: crash_states_def)
qed

end
