(* ===== verification/Version_Oracle.thy ===== *)
theory Version_Oracle
  imports Facade_Props "HOL-Library.Sublist"
begin

text \<open>
  The version oracle (\<open>crates/zkv-version-oracle\<close>): it lists the tags of a container registry, selects
  the version of a channel and publishes it into a zkv database when it differs from what this client
  has published already. Semantic versions and the registry are parameters.
\<close>

section \<open>The watch list\<close>

datatype channel = Stable | Latest

fun key_suffix :: "channel \<Rightarrow> str" where
  "key_suffix Stable = ''stable''"
| "key_suffix Latest = ''latest''"

record project =
  pj_name :: str
  pj_repo :: str
  pj_key_prefix :: str
  pj_channels :: "channel list"
  pj_ignore :: "str list"

definition key_for :: "project \<Rightarrow> channel \<Rightarrow> str" where
  "key_for p ch = pj_key_prefix p @ ''/'' @ key_suffix ch"

definition default_projects :: "project list" where
  "default_projects =
    [\<lparr>pj_name = ''zebra'', pj_repo = ''zfnd/zebra'', pj_key_prefix = ''versions/zebra'',
      pj_channels = [Stable], pj_ignore = []\<rparr>,
     \<lparr>pj_name = ''zcashd'', pj_repo = ''electriccoinco/zcashd'', pj_key_prefix = ''versions/zcashd'',
      pj_channels = [Stable], pj_ignore = []\<rparr>,
     \<lparr>pj_name = ''lightwalletd'', pj_repo = ''electriccoinco/lightwalletd'',
      pj_key_prefix = ''versions/lightwalletd'', pj_channels = [Stable], pj_ignore = []\<rparr>,
     \<lparr>pj_name = ''zallet'', pj_repo = ''electriccoinco/zallet'', pj_key_prefix = ''versions/zallet'',
      pj_channels = [Latest, Stable], pj_ignore = []\<rparr>,
     \<lparr>pj_name = ''zaino'', pj_repo = ''zingodevops/zaino'', pj_key_prefix = ''versions/zaino'',
      pj_channels = [Latest, Stable], pj_ignore = [''-no-tls'']\<rparr>]"

datatype http_reply = SendFailed str | HttpStatus nat | BadPage str | TagsPage "str option" "str list"

datatype oracle_error =
    ReadConfig str | ParseConfig str | NoProjects
  | GetFailed str | BadStatus nat | BadDecode str | TooManyPages
  | OpenFailed zkv_error | OracleWatchOnly | OracleZkv zkv_error

text \<open>The file is given as the outcome of reading and of parsing it.\<close>

definition load_projects :: "(str + (str + project list)) option \<Rightarrow> oracle_error + project list" where
  "load_projects file =
    (case file of
       None \<Rightarrow> Ok default_projects
     | Some (Inl e) \<Rightarrow> Err (ReadConfig e)
     | Some (Inr (Inl e)) \<Rightarrow> Err (ParseConfig e)
     | Some (Inr (Inr ps)) \<Rightarrow> if ps = [] then Err NoProjects else Ok ps)"

section \<open>Listing tags\<close>

definition DEFAULT_BASE :: str where "DEFAULT_BASE = ''https://hub.docker.com/v2''"
definition PAGE_SIZE :: nat where "PAGE_SIZE = 100"
definition MAX_PAGES :: nat where "MAX_PAGES = 50"

definition first_page_url :: "str \<Rightarrow> str \<Rightarrow> str" where
  "first_page_url base repo = base @ ''/repositories/'' @ repo @ ''/tags?page_size='' @ dec PAGE_SIZE"

fun fetch_pages :: "(str \<Rightarrow> http_reply) \<Rightarrow> nat \<Rightarrow> str \<Rightarrow> str list \<Rightarrow> oracle_error + str list" where
  "fetch_pages get 0 url tags = Err TooManyPages"
| "fetch_pages get (Suc n) url tags =
    (case get url of
       SendFailed e \<Rightarrow> Err (GetFailed e)
     | HttpStatus code \<Rightarrow> Err (BadStatus code)
     | BadPage e \<Rightarrow> Err (BadDecode e)
     | TagsPage page_next names \<Rightarrow>
         (case page_next of
            None \<Rightarrow> Ok (tags @ names)
          | Some url' \<Rightarrow> if url' \<noteq> [] then fetch_pages get n url' (tags @ names) else Ok (tags @ names)))"

definition fetch_tags :: "(str \<Rightarrow> http_reply) \<Rightarrow> str \<Rightarrow> str \<Rightarrow> oracle_error + str list" where
  "fetch_tags get base repo = fetch_pages get MAX_PAGES (first_page_url base repo) []"

section \<open>Selecting a version\<close>

text \<open>The crate \<open>semver\<close>: its parser, the test for a pre-release, the printer, and the total order.\<close>

record 'v semver =
  sv_parse :: "str \<Rightarrow> 'v option"
  sv_pre_is_empty :: "'v \<Rightarrow> bool"
  sv_show :: "'v \<Rightarrow> str"

definition parse_tag :: "'v semver \<Rightarrow> str \<Rightarrow> 'v option" where
  "parse_tag sv tag =
    sv_parse sv
      (case strip_prefix ''v'' tag of
         Some s \<Rightarrow> s
       | None \<Rightarrow> (case strip_prefix ''V'' tag of Some s \<Rightarrow> s | None \<Rightarrow> tag))"

definition ignored_tag :: "str list \<Rightarrow> str \<Rightarrow> bool" where
  "ignored_tag ignore tag \<longleftrightarrow> list_ex (\<lambda>pat. pat \<noteq> [] \<and> sublist pat tag) ignore"

definition in_channel :: "'v semver \<Rightarrow> channel \<Rightarrow> 'v \<Rightarrow> bool" where
  "in_channel sv ch v = (case ch of Latest \<Rightarrow> True | Stable \<Rightarrow> sv_pre_is_empty sv v)"

fun max_of :: "'v::linorder list \<Rightarrow> 'v option" where
  "max_of [] = None"
| "max_of (v # vs) = Some (fold max vs v)"

definition select :: "'v::linorder semver \<Rightarrow> str list \<Rightarrow> channel \<Rightarrow> str list \<Rightarrow> 'v option" where
  "select sv tags ch ignore =
    max_of (filter (in_channel sv ch)
      (List.map_filter (parse_tag sv) (filter (\<lambda>t. \<not> ignored_tag ignore t) tags)))"

definition value_string :: "'v semver \<Rightarrow> 'v \<Rightarrow> str" where
  "value_string sv v = sv_show sv v"

section \<open>Publishing\<close>

definition effective_value ::
    "('pk, 'sk) crates \<Rightarrow> 'pk \<Rightarrow> 'sk client \<Rightarrow> str \<Rightarrow> local_db \<Rightarrow> local_db \<times> (zkv_error + str option)" where
  "effective_value E pk c key L =
    map_prod id (\<lambda>res. try_ok res (\<lambda>r.
      Ok (case rr_state r key of
            None \<Rightarrow> None
          | Some ks \<Rightarrow>
              (if pending ks \<noteq> []
               then (case last (pending ks) of PSet v _ _ _ \<Rightarrow> Some v | PDel _ _ _ \<Rightarrow> None)
               else confirmed ks))))
    (read_db E pk c Mempool L)"

definition reconcile ::
    "('pk, 'sk) crates \<Rightarrow> 'v::linorder semver \<Rightarrow> 'pk \<Rightarrow> 'sk client \<Rightarrow> engine_error option \<Rightarrow> bool \<Rightarrow>
     project \<Rightarrow> channel \<Rightarrow> str list \<Rightarrow> local_db \<Rightarrow> local_db \<times> (oracle_error + unit)" where
  "reconcile E sv pk c start dry_run p ch tags L =
    (let key = key_for p ch in
     case select sv tags ch (pj_ignore p) of
       None \<Rightarrow> (L, Ok ())
     | Some desired \<Rightarrow>
         (let want = value_string sv desired; (L1, res) = effective_value E pk c key L in
          case res of
            Inl e \<Rightarrow> (L1, Err (OracleZkv e))
          | Inr current \<Rightarrow>
              if current = Some want then (L1, Ok ())
              else if dry_run then (L1, Ok ())
              else (let (L2, sent) = set_key E pk c start True key want L1 in
                    case sent of
                      Inr txid \<Rightarrow> (L2, Ok ())
                    | Inl (ZInsufficientFunds _ _ _) \<Rightarrow> (L2, Ok ())
                    | Inl (ZInitializing _ _) \<Rightarrow> (L2, Ok ())
                    | Inl e \<Rightarrow> (L2, Err (OracleZkv e)))))"

text \<open>
  What happens to a tick: the sync of the facade, the registry, and whether the engine starts. The
  results of the loops say whether the run ends.
\<close>

record 'sk tick =
  tk_client :: "'sk client"
  tk_start :: "engine_error option"
  tk_sync :: "local_db \<Rightarrow> local_db \<times> (zkv_error + unit)"
  tk_get :: "str \<Rightarrow> http_reply"

fun channels_loop ::
    "('pk, 'sk) crates \<Rightarrow> 'v::linorder semver \<Rightarrow> 'pk \<Rightarrow> bool \<Rightarrow> bool \<Rightarrow> 'sk tick \<Rightarrow> project \<Rightarrow> str list \<Rightarrow>
     channel list \<Rightarrow> local_db \<Rightarrow> local_db \<times> (oracle_error + unit)" where
  "channels_loop E sv pk once dry_run tk p tags [] L = (L, Ok ())"
| "channels_loop E sv pk once dry_run tk p tags (ch # chs) L =
    (let (L1, res) = reconcile E sv pk (tk_client tk) (tk_start tk) dry_run p ch tags L in
     case res of
       Inl e \<Rightarrow> if once then (L1, Err e) else channels_loop E sv pk once dry_run tk p tags chs L1
     | Inr _ \<Rightarrow> channels_loop E sv pk once dry_run tk p tags chs L1)"

fun projects_loop ::
    "('pk, 'sk) crates \<Rightarrow> 'v::linorder semver \<Rightarrow> 'pk \<Rightarrow> bool \<Rightarrow> bool \<Rightarrow> 'sk tick \<Rightarrow> project list \<Rightarrow>
     local_db \<Rightarrow> local_db \<times> (oracle_error + unit)" where
  "projects_loop E sv pk once dry_run tk [] L = (L, Ok ())"
| "projects_loop E sv pk once dry_run tk (p # ps) L =
    (case fetch_tags (tk_get tk) DEFAULT_BASE (pj_repo p) of
       Inl e \<Rightarrow> if once then (L, Err e) else projects_loop E sv pk once dry_run tk ps L
     | Inr tags \<Rightarrow>
         (let (L1, res) = channels_loop E sv pk once dry_run tk p tags (pj_channels p) L in
          case res of
            Inl e \<Rightarrow> (L1, Err e)
          | Inr _ \<Rightarrow> projects_loop E sv pk once dry_run tk ps L1))"

text \<open>The loop of \<open>run\<close>, on the ticks that happen; \<open>None\<close> is a run that still waits for its next one.\<close>

fun tick_loop ::
    "('pk, 'sk) crates \<Rightarrow> 'v::linorder semver \<Rightarrow> 'pk \<Rightarrow> bool \<Rightarrow> bool \<Rightarrow> project list \<Rightarrow> 'sk tick list \<Rightarrow>
     local_db \<Rightarrow> local_db \<times> (oracle_error + unit) option" where
  "tick_loop E sv pk once dry_run ps [] L = (L, None)"
| "tick_loop E sv pk once dry_run ps (tk # tks) L =
    (let (L1, synced) = (if dry_run then (L, Ok ()) else tk_sync tk L) in
     case synced of
       Inl e \<Rightarrow>
         if once then (L1, Some (Err (OracleZkv e))) else tick_loop E sv pk once dry_run ps tks L1
     | Inr _ \<Rightarrow>
         (let (L2, res) = projects_loop E sv pk once dry_run tk ps L1 in
          case res of
            Inl e \<Rightarrow> (L2, Some (Err e))
          | Inr _ \<Rightarrow> if once then (L2, Some (Ok ())) else tick_loop E sv pk once dry_run ps tks L2))"

definition run_version_oracle ::
    "('pk, 'sk) crates \<Rightarrow> 'v::linorder semver \<Rightarrow> 'pk \<Rightarrow> bool \<Rightarrow> bool \<Rightarrow> (str + (str + project list)) option \<Rightarrow>
     zkv_error + role \<Rightarrow> zkv_error + str \<Rightarrow> 'sk tick list \<Rightarrow> local_db \<Rightarrow>
     local_db \<times> (oracle_error + unit) option" where
  "run_version_oracle E sv pk once dry_run file opened address tks L =
    (case load_projects file of
       Inl e \<Rightarrow> (L, Some (Err e))
     | Inr ps \<Rightarrow>
         (case opened of
            Inl e \<Rightarrow> (L, Some (Err (OpenFailed e)))
          | Inr r \<Rightarrow>
              (case address of
                 Inl e \<Rightarrow> (L, Some (Err (OracleZkv e)))
               | Inr _ \<Rightarrow>
                   if \<not> dry_run \<and> r \<noteq> Admin then (L, Some (Err OracleWatchOnly))
                   else tick_loop E sv pk once dry_run ps tks L)))"

section \<open>What is selected\<close>

text \<open>The highest of the versions that qualify.\<close>

definition eligible :: "'v semver \<Rightarrow> str list \<Rightarrow> channel \<Rightarrow> str list \<Rightarrow> 'v set" where
  "eligible sv tags ch ignore =
    {v. \<exists>t \<in> List.set tags. \<not> ignored_tag ignore t \<and> parse_tag sv t = Some v \<and> in_channel sv ch v}"

lemma max_of_Some: "max_of vs = Some v \<longleftrightarrow> v \<in> List.set vs \<and> (\<forall>w \<in> List.set vs. w \<le> v)"
proof (cases vs)
  case (Cons a as)
  have "fold max as a = Max (List.set vs)"
    using Max.set_eq_fold [of a as] by (simp add: Cons)
  then have m: "max_of vs = Some (Max (List.set vs))" by (simp add: Cons)
  have "Max (List.set vs) = v \<longleftrightarrow> v \<in> List.set vs \<and> (\<forall>w \<in> List.set vs. w \<le> v)"
    by (rule Max_eq_iff) (simp_all add: Cons)
  with m show ?thesis by simp
qed simp

lemma max_of_None [simp]: "max_of vs = None \<longleftrightarrow> vs = []"
  by (cases vs) auto

lemma selected_from:
  "List.set (filter (in_channel sv ch) (List.map_filter (parse_tag sv) (filter (\<lambda>t. \<not> ignored_tag ignore t) tags)))
   = eligible sv tags ch ignore"
  by (induction tags) (auto simp: eligible_def split: option.splits)

lemma select_highest:
  "select sv tags ch ignore = Some v \<longleftrightarrow>
     v \<in> eligible sv tags ch ignore \<and> (\<forall>w \<in> eligible sv tags ch ignore. w \<le> v)"
  "select sv tags ch ignore = None \<longleftrightarrow> eligible sv tags ch ignore = {}"
  unfolding select_def selected_from [symmetric] by (simp_all add: max_of_Some del: set_filter)

text \<open>A stable version is never above the latest.\<close>

lemma stable_below_latest:
  assumes "select sv tags Stable ignore = Some v"
  shows "\<exists>w. select sv tags Latest ignore = Some w \<and> v \<le> w"
proof -
  have v: "v \<in> eligible sv tags Latest ignore"
    using assms by (auto simp: select_highest eligible_def in_channel_def)
  then obtain w where "select sv tags Latest ignore = Some w"
    using select_highest(2) [of sv tags Latest ignore] by fastforce
  with v show ?thesis by (auto simp: select_highest(1))
qed

section \<open>Listing\<close>

text \<open>
  A registry that pages a list of tags is read whole, in order, when it has at most fifty pages; with
  more the tick fails rather than select from a part.
\<close>

fun serves_pages :: "(str \<Rightarrow> http_reply) \<Rightarrow> str \<Rightarrow> str list list \<Rightarrow> bool" where
  "serves_pages get url [] \<longleftrightarrow> False"
| "serves_pages get url [names] \<longleftrightarrow> get url = TagsPage None names"
| "serves_pages get url (names # later) \<longleftrightarrow>
    (\<exists>url'. url' \<noteq> [] \<and> get url = TagsPage (Some url') names \<and> serves_pages get url' later)"

lemma fetch_pages_all:
  "serves_pages get url pages \<Longrightarrow>
   fetch_pages get n url tags = (if length pages \<le> n then Ok (tags @ concat pages) else Err TooManyPages)"
proof (induction get url pages arbitrary: n tags rule: serves_pages.induct)
  case (2 get url names)
  then show ?case by (cases n) auto
next
  case (3 get url names p ps)
  then obtain url' where u: "url' \<noteq> []" "get url = TagsPage (Some url') names" "serves_pages get url' (p # ps)"
    by auto
  show ?case using 3(1) [OF u(3)] u(1,2) by (cases n) auto
qed simp

section \<open>Publishing once\<close>

text \<open>A dry run changes nothing but the cache of the reader.\<close>

definition same_but_cache :: "local_db \<Rightarrow> local_db \<Rightarrow> bool" where
  "same_but_cache L L' \<longleftrightarrow> L'\<lparr>lo_snapshot := lo_snapshot L\<rparr> = L"

lemma same_but_cache [simp, intro]: "same_but_cache L L" "same_but_cache L (L\<lparr>lo_snapshot := f\<rparr>)"
  by (simp_all add: same_but_cache_def)

lemma same_but_cache_trans: "same_but_cache L1 L2 \<Longrightarrow> same_but_cache L2 L3 \<Longrightarrow> same_but_cache L1 L3"
  by (cases L1; cases L2; cases L3) (simp add: same_but_cache_def)

lemma effective_value_reads: "effective_value E pk c key L = (L', res) \<Longrightarrow> same_but_cache L L'"
  by (auto simp: effective_value_def read_db_def read_at_def Let_def split: prod.splits)

lemma reconcile_dry: "reconcile E sv pk c start True p ch tags L = (L', res) \<Longrightarrow> same_but_cache L L'"
  by (auto simp: reconcile_def Let_def dest: effective_value_reads
      split: option.splits prod.splits sum.splits if_splits)

lemma channels_dry: "channels_loop E sv pk once True tk p tags chs L = (L', res) \<Longrightarrow> same_but_cache L L'"
  by (induction chs arbitrary: L)
     (auto simp: Let_def dest!: reconcile_dry intro: same_but_cache_trans split: prod.splits sum.splits if_splits)

lemma projects_dry: "projects_loop E sv pk once True tk ps L = (L', res) \<Longrightarrow> same_but_cache L L'"
  by (induction ps arbitrary: L)
     (auto simp: Let_def dest!: channels_dry intro: same_but_cache_trans split: prod.splits sum.splits if_splits)

lemma dry_run_publishes_nothing:
  "tick_loop E sv pk once True ps tks L = (L', res) \<Longrightarrow> same_but_cache L L'"
  by (induction tks arbitrary: L)
     (auto simp: Let_def dest!: projects_dry intro: same_but_cache_trans split: prod.splits sum.splits if_splits)

text \<open>A one-shot run ends with its first tick.\<close>

lemma once_ends: "tks \<noteq> [] \<Longrightarrow> snd (tick_loop E sv pk True dry_run ps tks L) \<noteq> None"
  by (cases tks) (auto simp: Let_def split: prod.splits sum.splits)

text \<open>A looping run never ends by an error of a tick.\<close>

lemma channels_go_on: "channels_loop E sv pk False dry_run tk p tags chs L = (L', res) \<Longrightarrow> res = Ok ()"
  by (induction chs arbitrary: L) (auto simp: Let_def split: prod.splits sum.splits)

lemma projects_go_on: "projects_loop E sv pk False dry_run tk ps L = (L', res) \<Longrightarrow> res = Ok ()"
  by (induction ps arbitrary: L)
     (auto simp: Let_def dest: channels_go_on split: prod.splits sum.splits)

lemma loop_goes_on: "tick_loop E sv pk False dry_run ps tks L = (L', res) \<Longrightarrow> res = None"
  by (induction tks arbitrary: L)
     (auto simp: Let_def dest: projects_go_on split: prod.splits sum.splits if_splits)


definition demo_semver :: "nat semver" where
  "demo_semver = \<lparr>sv_parse = parse_uint 255, sv_pre_is_empty = (\<lambda>_. True), sv_show = dec\<rparr>"

definition demo_project :: project where
  "demo_project = \<lparr>pj_name = ''z'', pj_repo = ''z/z'', pj_key_prefix = ''z'', pj_channels = [Latest], pj_ignore = []\<rparr>"

lemma demo_key: "key_for demo_project Latest = ''z/latest''"
  by (simp add: key_for_def demo_project_def)

lemma demo_select: "select demo_semver [''6'', ''latest'', ''v7''] Latest [] = Some 7"
  by (simp add: select_def demo_semver_def parse_tag_def ignored_tag_def in_channel_def parse_uint_def
      List.map_filter_def dec_value_def is_digit_def byte_def)

lemma demo_seven: "value_string demo_semver 7 = ''7''"
  by code_simp

lemma demo_value: "effective_value model_crates CHR ''A'' demo_client ''z/latest'' demo_local = (demo_local, Ok None)"
  using demo_load [of 0]
  by (simp add: effective_value_def read_db_def read_at_def demo_local_def merge_pending_def merge_init_def)


end
