(* ===== verification/Price_Oracle.thy ===== *)
theory Price_Oracle
  imports Admin_Props Facade_Props Connection
begin

text \<open>
  The price oracle (\<open>crates/zkv-oracle\<close>): its configuration from the environment, the health it
  reports, the tick that fetches a quote and publishes it with retries, and the opening or restoring
  of its database. The price server, the clock and the environment are parameters.
\<close>

section \<open>Configuration\<close>

datatype env_error = MissingVar str | EmptyVar str | BadVar str | BadHealthAddr | DurationPanic

definition env_required :: "(str \<Rightarrow> str option) \<Rightarrow> str \<Rightarrow> env_error + str" where
  "env_required env key =
    try_ok (ok_or (MissingVar key) (env key)) (\<lambda>v. if trim v = [] then Err (EmptyVar key) else Ok v)"

definition env_or :: "(str \<Rightarrow> str option) \<Rightarrow> str \<Rightarrow> str \<Rightarrow> str" where
  "env_or env key fallback =
    (case env key of Some v \<Rightarrow> if trim v \<noteq> [] then v else fallback | None \<Rightarrow> fallback)"

text \<open>The parser of the target type is given by the largest value it reads.\<close>

definition env_opt_parse :: "(str \<Rightarrow> str option) \<Rightarrow> str \<Rightarrow> nat \<Rightarrow> env_error + nat option" where
  "env_opt_parse env key largest =
    (case env key of
       Some v \<Rightarrow>
         if trim v \<noteq> []
         then (case parse_uint largest (trim v) of Some n \<Rightarrow> Ok (Some n) | None \<Rightarrow> Err (BadVar key))
         else Ok None
     | None \<Rightarrow> Ok None)"

record oracle_config =
  oc_seed :: str
  oc_api_key :: str
  oc_db_name :: str
  oc_data_dir :: str
  oc_zkv_address :: "str option"
  oc_birthday :: "u32 option"
  oc_server :: str
  oc_interval :: nat
  oc_health_addr :: str
  oc_max_lag_blocks :: u32
  oc_max_write_age :: nat
  oc_tick_attempts :: u32
  oc_retry_backoff :: nat

text \<open>
  Durations are seconds. The default of the age is computed also when it is not used, and a product
  out of range panics.
\<close>

definition from_env :: "(str \<Rightarrow> str option) \<Rightarrow> (str \<Rightarrow> bool) \<Rightarrow> env_error + oracle_config" where
  "from_env env is_socket_addr =
    try_ok (env_required env ''ZKV_ORACLE_SEED'') (\<lambda>seed.
    try_ok (env_required env ''COINGECKO_API_KEY'') (\<lambda>api_key.
    (let addr = Option.bind (env ''ZKV_ADDRESS'') (\<lambda>v. if trim v = [] then None else Some (trim v)) in
    try_ok (env_opt_parse env ''ZKV_BIRTHDAY'' u32_max) (\<lambda>birthday.
    try_ok (env_opt_parse env ''ZKV_INTERVAL_SECS'' u64_max) (\<lambda>secs.
    (let interval = (case secs of Some n \<Rightarrow> n | None \<Rightarrow> 15 * 60);
         health_addr = env_or env ''ZKV_HEALTH_ADDR'' ''0.0.0.0:8099'' in
    if \<not> is_socket_addr health_addr then Err BadHealthAddr
    else
    try_ok (env_opt_parse env ''ZKV_MAX_LAG_BLOCKS'' u32_max) (\<lambda>lag.
    try_ok (env_opt_parse env ''ZKV_MAX_WRITE_AGE_SECS'' u64_max) (\<lambda>age.
    if u64_max < interval * 2 then Err DurationPanic
    else
    try_ok (env_opt_parse env ''ZKV_TICK_ATTEMPTS'' u32_max) (\<lambda>attempts.
    try_ok (env_opt_parse env ''ZKV_RETRY_BACKOFF_SECS'' u64_max) (\<lambda>backoff.
    Ok \<lparr>oc_seed = seed, oc_api_key = api_key, oc_db_name = env_or env ''ZKV_DB'' ''oracle-testnet'',
        oc_data_dir = env_or env ''ZKV_DATA'' ''/data'', oc_zkv_address = addr, oc_birthday = birthday,
        oc_server = env_or env ''ZKV_SERVER'' ''zecrocks'', oc_interval = interval,
        oc_health_addr = health_addr, oc_max_lag_blocks = unwrap_or lag 50,
        oc_max_write_age = unwrap_or age (interval * 2),
        oc_tick_attempts = max (unwrap_or attempts 4) 1, oc_retry_backoff = unwrap_or backoff 30\<rparr>))))))))))"

definition oracle_connection :: "oracle_config \<Rightarrow> conn_error + connection_args" where
  "oracle_connection cfg =
    try_ok (parse_servers (oc_server cfg)) (\<lambda>ss.
      Ok \<lparr>ca_server = ss, ca_mainnet = None, ca_testnet = None, ca_connection = Direct\<rparr>)"

section \<open>Health\<close>

datatype tick_error = PriceFetch str | SyncFailed zkv_error | WriteFailed zkv_error

record health =
  he_max_lag_blocks :: u32
  he_max_write_age :: nat
  he_first_tick_done :: bool
  he_blocks_behind :: u32
  he_last_write_unix :: nat
  he_last_error :: "tick_error option"

definition new_health :: "oracle_config \<Rightarrow> health" where
  "new_health cfg =
    \<lparr>he_max_lag_blocks = oc_max_lag_blocks cfg, he_max_write_age = oc_max_write_age cfg,
     he_first_tick_done = False, he_blocks_behind = 0, he_last_write_unix = 0, he_last_error = None\<rparr>"

definition set_blocks_behind :: "u32 \<Rightarrow> health \<Rightarrow> health" where
  "set_blocks_behind n h = h\<lparr>he_blocks_behind := n\<rparr>"

definition mark_write_ok :: "nat \<Rightarrow> health \<Rightarrow> health" where
  "mark_write_ok now h = h\<lparr>he_last_write_unix := now, he_last_error := None\<rparr>"

definition set_error :: "tick_error \<Rightarrow> health \<Rightarrow> health" where
  "set_error e h = h\<lparr>he_last_error := Some e\<rparr>"

definition finish_tick :: "health \<Rightarrow> health" where
  "finish_tick h = h\<lparr>he_first_tick_done := True\<rparr>"

record health_report =
  hr_status :: str
  hr_healthy :: bool
  hr_blocks_behind :: u32
  hr_max_lag_blocks :: u32
  hr_last_write_secs_ago :: "nat option"
  hr_max_write_age_secs :: nat
  hr_last_error :: "tick_error option"

definition health_snapshot :: "nat \<Rightarrow> health \<Rightarrow> bool \<times> health_report" where
  "health_snapshot now h =
    (let behind = he_blocks_behind h;
         last_write = he_last_write_unix h;
         write_secs_ago = (if last_write = 0 then None else Some (now - last_write));
         (healthy, status) =
           (if \<not> he_first_tick_done h then (True, ''starting'')
            else (let lag_ok = behind \<le> he_max_lag_blocks h;
                      write_fresh = (case write_secs_ago of Some s \<Rightarrow> s \<le> he_max_write_age h | None \<Rightarrow> True)
                  in if lag_ok \<and> write_fresh then (True, ''ok'') else (False, ''unhealthy'')))
     in (healthy,
         \<lparr>hr_status = status, hr_healthy = healthy, hr_blocks_behind = behind,
          hr_max_lag_blocks = he_max_lag_blocks h, hr_last_write_secs_ago = write_secs_ago,
          hr_max_write_age_secs = he_max_write_age h, hr_last_error = he_last_error h\<rparr>))"

definition health_code :: "nat \<Rightarrow> health \<Rightarrow> nat" where
  "health_code now h = (if fst (health_snapshot now h) then 200 else 503)"

section \<open>Prices\<close>

text \<open>A JSON value as its readers see it: its members, its class as a number, and its text.\<close>

datatype price_class = NotFinite | NotPositive | Positive

record 'j json =
  js_get :: "'j \<Rightarrow> str \<Rightarrow> 'j option"
  js_number :: "'j \<Rightarrow> price_class option"
  js_text :: "'j \<Rightarrow> str"

definition extract_price :: "'j json \<Rightarrow> 'j \<Rightarrow> str \<Rightarrow> str + str" where
  "extract_price J v i =
    (case Option.bind (js_get J v i) (\<lambda>q. js_get J q ''usd'') of
       None \<Rightarrow> Err ''missing price''
     | Some usd \<Rightarrow>
         (case js_number J usd of
            None \<Rightarrow> Err ''not a number''
          | Some n \<Rightarrow> if n \<noteq> Positive then Err ''implausible price'' else Ok (js_text J usd)))"

datatype 'j quote_reply = QSendFailed | QReadFailed | QStatus nat | QBadJson | QBody 'j

definition fetch_prices :: "'j json \<Rightarrow> 'j quote_reply \<Rightarrow> str + str \<times> str" where
  "fetch_prices J reply =
    (case reply of
       QSendFailed \<Rightarrow> Err ''request failed''
     | QReadFailed \<Rightarrow> Err ''reading body''
     | QStatus code \<Rightarrow> Err ''HTTP status''
     | QBadJson \<Rightarrow> Err ''invalid JSON''
     | QBody v \<Rightarrow>
         try_ok (extract_price J v ''zcash'') (\<lambda>zec.
         try_ok (extract_price J v ''bitcoin'') (\<lambda>btc. Ok (zec, btc))))"

section \<open>The tick\<close>

definition ZEC_KEY :: str where "ZEC_KEY = ''rates/zec_usd/coingecko''"
definition BTC_KEY :: str where "BTC_KEY = ''rates/btc_usd/coingecko''"

text \<open>
  What an attempt meets. The time since the tick began, in nanoseconds, is asked for after a failure.
\<close>

record ('sk, 'j) attempt =
  at_reply :: "'j quote_reply"
  at_sync :: "local_db \<Rightarrow> local_db \<times> (zkv_error + unit)"
  at_tip :: "zkv_error + u32"
  at_synced :: "local_db \<Rightarrow> zkv_error + u32 option"
  at_client :: "'sk client"
  at_start :: "engine_error option"
  at_now :: nat
  at_elapsed :: nat

definition backoff_before_retry :: "u32 \<Rightarrow> oracle_config \<Rightarrow> nat \<Rightarrow> bool" where
  "backoff_before_retry attempt cfg elapsed =
    (if oc_tick_attempts cfg \<le> attempt then False
     else if oc_interval cfg * 10 ^ 9 \<le> elapsed + oc_retry_backoff cfg * 10 ^ 9 then False
     else True)"

definition measure_lag :: "zkv_error + u32 \<Rightarrow> zkv_error + u32 option \<Rightarrow> health \<Rightarrow> health" where
  "measure_lag tip synced h =
    (case (tip, synced) of
       (Inr t, Inr s) \<Rightarrow> set_blocks_behind (t - unwrap_or s 0) h
     | _ \<Rightarrow> h)"

text \<open>One attempt: the database, the health, and whether it published or how it failed.\<close>

definition try_publish ::
  "('pk, 'sk) crates \<Rightarrow> 'j json \<Rightarrow> 'pk \<Rightarrow> ('sk, 'j) attempt \<Rightarrow> local_db \<Rightarrow> health \<Rightarrow> local_db \<times> health \<times> bool" where
  "try_publish E J pk at L h =
    (case fetch_prices J (at_reply at) of
       Inl e \<Rightarrow> (L, set_error (PriceFetch e) h, False)
     | Inr (zec, btc) \<Rightarrow>
         (case at_sync at L of
            (L1, Inl e) \<Rightarrow> (L1, set_error (SyncFailed e) h, False)
          | (L1, Inr _) \<Rightarrow>
              (let h1 = measure_lag (at_tip at) (at_synced at L1) h in
               case set_many E pk (at_client at) (at_start at) True [(ZEC_KEY, zec), (BTC_KEY, btc)] L1 of
                 (L2, Inl e) \<Rightarrow> (L2, set_error (WriteFailed e) h1, False)
               | (L2, Inr txid) \<Rightarrow> (L2, mark_write_ok (at_now at) h1, True))))"

fun attempts_loop ::
  "('pk, 'sk) crates \<Rightarrow> 'j json \<Rightarrow> 'pk \<Rightarrow> oracle_config \<Rightarrow> (nat \<Rightarrow> ('sk, 'j) attempt) \<Rightarrow> nat \<Rightarrow> nat \<Rightarrow>
   local_db \<Rightarrow> health \<Rightarrow> local_db \<times> health \<times> bool" where
  "attempts_loop E J pk cfg at n 0 L h = (L, h, False)"
| "attempts_loop E J pk cfg at n (Suc left) L h =
    (case try_publish E J pk (at n) L h of
       (L1, h1, True) \<Rightarrow> (L1, h1, True)
     | (L1, h1, False) \<Rightarrow>
         if backoff_before_retry n cfg (at_elapsed (at n))
         then attempts_loop E J pk cfg at (Suc n) left L1 h1
         else (L1, h1, False))"

definition run_tick ::
  "('pk, 'sk) crates \<Rightarrow> 'j json \<Rightarrow> 'pk \<Rightarrow> oracle_config \<Rightarrow> (nat \<Rightarrow> ('sk, 'j) attempt) \<Rightarrow> local_db \<Rightarrow> health \<Rightarrow>
   local_db \<times> health \<times> bool" where
  "run_tick E J pk cfg at L h =
    (let (L1, h1, published) = attempts_loop E J pk cfg at 1 (oc_tick_attempts cfg) L h
     in (L1, finish_tick h1, published))"

section \<open>Opening or restoring\<close>

datatype restore_error =
    BadOracleServer conn_error | OpeningFailed data_error | AddressUnset | AddressUnparsed str
  | RestoreFailed data_error | AddressUnderivable data_error | SeedMismatch str | OracleNotAdmin

type_synonym 'a restore_io = "disk \<Rightarrow> disk list \<times> (restore_error + 'a)"

definition restore_step :: "'a io \<Rightarrow> (data_error \<Rightarrow> restore_error) \<Rightarrow> ('a \<Rightarrow> 'b restore_io) \<Rightarrow> 'b restore_io" where
  "restore_step m f k s =
    (case m s of
       (t, Inl e) \<Rightarrow> (t, Err (f e))
     | (t, Inr x) \<Rightarrow> (let (t1, r) = k x (last (s # t)) in (t @ t1, r)))"

definition restore_from_address ::
  "outside \<Rightarrow> ('pk, 'sk) seed_world \<Rightarrow> oracle_config \<Rightarrow> wallet_config restore_io" where
  "restore_from_address os sw cfg s =
    (case oc_zkv_address cfg of
       None \<Rightarrow> ([], Err AddressUnset)
     | Some addr \<Rightarrow>
         (case os_parse os addr of
            Inl e \<Rightarrow> ([], Err (AddressUnparsed e))
          | Inr parsed \<Rightarrow>
              (let birthday = (case oc_birthday cfg of Some b \<Rightarrow> Some b | None \<Rightarrow> Some (pa_birthday parsed)) in
               restore_step
                 (restore_admin_with_pool os sw (oc_db_name cfg) (pa_network parsed) (oc_seed cfg) birthday (pa_pool parsed))
                 RestoreFailed (\<lambda>c.
                 if oc_birthday cfg = None
                 then restore_step (db_zkv_address os sw c (oc_db_name cfg)) AddressUnderivable (\<lambda>derived s1.
                        if derived \<noteq> addr then ([], Err (SeedMismatch derived)) else ([], Ok c))
                 else (\<lambda>s1. ([], Ok c))) s)))"

text \<open>Only an unknown database is restored (\<open>classify_open_error\<close>).\<close>

definition open_or_restore ::
  "outside \<Rightarrow> ('pk, 'sk) seed_world \<Rightarrow> oracle_config \<Rightarrow> wallet_config restore_io" where
  "open_or_restore os sw cfg s =
    (case oracle_connection cfg of
       Inl e \<Rightarrow> ([], Err (BadOracleServer e))
     | Inr conn \<Rightarrow>
         (let (t, opened) =
            (case open_database os (oc_db_name cfg) s of
               (t, Inr c) \<Rightarrow> (t, Ok c)
             | (t, Inl (NoDatabase _)) \<Rightarrow>
                 (let (t1, r) = restore_from_address os sw cfg (last (s # t)) in (t @ t1, r))
             | (t, Inl e) \<Rightarrow> (t, Err (OpeningFailed e)))
          in (t, try_ok opened (\<lambda>c. if wc_role c \<noteq> Admin then Err OracleNotAdmin else Ok c))))"

section \<open>What a tick does\<close>

text \<open>An attempt that does not publish leaves the time of the last publication.\<close>

lemma measure_lag_sel [simp]:
  "he_last_write_unix (measure_lag t s h) = he_last_write_unix h"
  by (simp add: measure_lag_def set_blocks_behind_def split: sum.split)

lemma try_publish_fails:
  "try_publish E J pk at L h = (L1, h1, False) \<Longrightarrow>
    he_last_write_unix h1 = he_last_write_unix h \<and> he_last_error h1 \<noteq> None"
  by (auto simp: try_publish_def set_error_def mark_write_ok_def Let_def split: sum.splits prod.splits)

lemma try_publish_succeeds:
  assumes "try_publish E J pk at L h = (L2, h1, True)"
  shows "\<exists>zec btc L1 txid. fetch_prices J (at_reply at) = Ok (zec, btc) \<and> at_sync at L = (L1, Ok ())
    \<and> set_many E pk (at_client at) (at_start at) True [(ZEC_KEY, zec), (BTC_KEY, btc)] L1 = (L2, Ok txid)
    \<and> he_last_write_unix h1 = at_now at \<and> he_last_error h1 = None"
  using assms
  by (auto simp: try_publish_def set_error_def mark_write_ok_def Let_def split: sum.splits prod.splits)

lemma attempts_published:
  "attempts_loop E J pk cfg at n left L h = (L', h', True) \<Longrightarrow>
    \<exists>k Lk hk. n \<le> k \<and> k < n + left \<and> try_publish E J pk (at k) Lk hk = (L', h', True)"
proof (induction left arbitrary: n L h)
  case (Suc left)
  show ?case
  proof (cases "try_publish E J pk (at n) L h")
    case (fields L1 h1 b)
    show ?thesis
    proof (cases b)
      case True
      then have "L' = L1" "h' = h1" using Suc.prems fields by auto
      with True fields show ?thesis by (intro exI [of _ n] exI [of _ L] exI [of _ h]) simp
    next
      case False
      with Suc.prems fields have "attempts_loop E J pk cfg at (Suc n) left L1 h1 = (L', h', True)"
        by (auto split: if_splits)
      from Suc.IH [OF this] obtain k Lk hk where "Suc n \<le> k" "k < Suc n + left"
        "try_publish E J pk (at k) Lk hk = (L', h', True)" by blast
      then show ?thesis by (intro exI [of _ k] exI [of _ Lk] exI [of _ hk]) simp
    qed
  qed
qed simp

lemma attempts_failed:
  "attempts_loop E J pk cfg at n left L h = (L', h', False) \<Longrightarrow> he_last_write_unix h' = he_last_write_unix h"
proof (induction left arbitrary: n L h)
  case (Suc left)
  obtain L1 h1 b where t: "try_publish E J pk (at n) L h = (L1, h1, b)" by (cases "try_publish E J pk (at n) L h")
  then have b: "\<not> b" using Suc.prems by (cases b) auto
  then have "try_publish E J pk (at n) L h = (L1, h1, False)" using t by simp
  then have "he_last_write_unix h1 = he_last_write_unix h" by (rule try_publish_fails [THEN conjunct1])
  then show ?case using Suc.prems Suc.IH t b by (auto split: if_splits)
qed simp

text \<open>
  A tick publishes both prices in one transaction or none, and only prices of the quote that the very
  attempt fetched; the health's time of the last publication is that attempt's, and moves for no
  other reason.
\<close>

lemma tick_publishes_its_own_quote:
  assumes "run_tick E J pk cfg at L h = (L', h', published)"
  shows "if published
    then \<exists>k L0 L1 zec btc txid. 1 \<le> k \<and> k \<le> oc_tick_attempts cfg \<and> fetch_prices J (at_reply (at k)) = Ok (zec, btc)
      \<and> at_sync (at k) L0 = (L1, Ok ())
      \<and> set_many E pk (at_client (at k)) (at_start (at k)) True [(ZEC_KEY, zec), (BTC_KEY, btc)] L1 = (L', Ok txid)
      \<and> he_last_write_unix h' = at_now (at k)
    else he_last_write_unix h' = he_last_write_unix h"
proof -
  obtain L1 h1 where a: "attempts_loop E J pk cfg at 1 (oc_tick_attempts cfg) L h = (L1, h1, published)"
    and L': "L' = L1" and h': "h' = finish_tick h1"
    using assms by (auto simp: run_tick_def split: prod.splits)
  have f: "he_last_write_unix h' = he_last_write_unix h1" by (simp add: h' finish_tick_def)
  show ?thesis
  proof (cases published)
    case True
    with a obtain k Lk hk where k: "1 \<le> k" "k < 1 + oc_tick_attempts cfg"
      "try_publish E J pk (at k) Lk hk = (L', h1, True)"
      using attempts_published [of E J pk cfg at 1 "oc_tick_attempts cfg" L h] L' by auto
    from try_publish_succeeds [OF k(3)] k(1,2) f True show ?thesis by fastforce
  next
    case False
    then show ?thesis using attempts_failed [of E J pk cfg at 1 "oc_tick_attempts cfg" L h] a f by simp
  qed
qed

text \<open>The health gate: never closed before the first tick ends, and by age only after a publication.\<close>

lemma unhealthy_iff:
  "fst (health_snapshot now h) \<longleftrightarrow>
    (he_first_tick_done h \<longrightarrow> he_blocks_behind h \<le> he_max_lag_blocks h
      \<and> (he_last_write_unix h \<noteq> 0 \<longrightarrow> now - he_last_write_unix h \<le> he_max_write_age h))"
  by (auto simp: health_snapshot_def Let_def split: if_splits)

section \<open>A seed that is not the database's\<close>

text \<open>
  A restore whose address is not the configured one fails, but leaves the database it made; the next
  run opens it and asks no more: the check the code makes guards one run only.
\<close>

lemma open_unknown:
  assumes "open_database os name s = (t, Err (NoDatabase n))"
  shows "t = []"
proof (cases "read_config (os_public os) s name")
  case (Inr c)
  have "\<exists>c'. snd (enrol_if_unchosen os c name s) = Ok c'"
    by (auto simp: enrol_if_unchosen_def io_bind_look io_bind_try split: sum.split)
  with assms Inr show ?thesis by (auto simp: open_database_def io_bind_look)
qed (use assms in \<open>simp add: open_database_def io_bind_look\<close>)

lemma restored_is_created:
  assumes "io_result (restore_admin_with_pool os sw name net phrase birthday pool) s = Ok c"
  obtains m where "parsed_phrase sw phrase = Ok m" "io_result (create_admin os sw name net m birthday pool) s = Ok c"
    "io_final (restore_admin_with_pool os sw name net phrase birthday pool) s =
      io_final (create_admin os sw name net m birthday pool) s"
  using assms by (auto simp: restore_admin_with_pool_def io_result_bind io_final_bind)

lemma admin_gate:
  "try_ok r (\<lambda>c. if wc_role c \<noteq> Admin then Err OracleNotAdmin else Ok c) = Err (SeedMismatch d)
    \<longleftrightarrow> r = Err (SeedMismatch d)"
  by (cases r) auto

lemma mismatch_passes_next_run:
  assumes "age_laws sw" and "\<And>m. parsed_phrase sw (oc_seed cfg) = Ok m \<Longrightarrow> utf8_valid m"
    and "open_or_restore os sw cfg s = (t, Err (SeedMismatch derived))"
  shows "\<exists>c. open_or_restore os sw cfg (last (s # t)) = ([], Ok c)"
proof -
  let ?name = "oc_db_name cfg"
  obtain conn where conn: "oracle_connection cfg = Ok conn"
    using assms(3) by (cases "oracle_connection cfg") (auto simp: open_or_restore_def)
  obtain t0 n where "open_database os ?name s = (t0, Err (NoDatabase n))"
    and r0: "restore_from_address os sw cfg (last (s # t0)) = (t, Err (SeedMismatch derived)) \<or> t0 \<noteq> []"
    using assms(3) conn
    by (cases "open_database os ?name s")
      (auto simp: open_or_restore_def Let_def admin_gate split: sum.splits data_error.splits prod.splits if_splits)
  then have r: "restore_from_address os sw cfg s = (t, Err (SeedMismatch derived))"
    using open_unknown by fastforce
  obtain addr p where a: "oc_zkv_address cfg = Some addr" "os_parse os addr = Ok p"
    using r by (auto simp: restore_from_address_def split: option.splits sum.splits)
  define restore where "restore = restore_admin_with_pool os sw ?name (pa_network p) (oc_seed cfg)
      (case oc_birthday cfg of Some b \<Rightarrow> Some b | None \<Rightarrow> Some (pa_birthday p)) (pa_pool p)"
  obtain t1 c where c: "restore s = (t1, Ok c)" and none: "oc_birthday cfg = None"
    using r a
    by (cases "restore s")
      (auto simp: restore_from_address_def restore_step_def restore_def Let_def split: sum.splits if_splits)
  define s1 where "s1 = last (s # t1)"
  have "restore_admin_with_pool os sw ?name (pa_network p) (oc_seed cfg) (Some (pa_birthday p)) (pa_pool p) s = (t1, Ok c)"
    using c none by (simp add: restore_def)
  then have rest: "t = t1 @ fst (db_zkv_address os sw c ?name s1)"
    using r a none
    by (auto simp: restore_from_address_def restore_step_def Let_def s1_def
        simp del: last.simps split: sum.splits if_splits prod.splits)
  have res: "io_result restore s = Ok c" "io_final restore s = s1"
    using c by (simp_all add: io_result_def io_final_def s1_def del: last.simps)
  obtain m birthday where m: "parsed_phrase sw (oc_seed cfg) = Ok m"
    and made: "io_result (create_admin os sw ?name (pa_network p) m birthday (pa_pool p)) s = Ok c"
      "io_final (create_admin os sw ?name (pa_network p) m birthday (pa_pool p)) s = s1"
    using restored_is_created res unfolding restore_def by metis
  note left = created_admin [OF assms(1) assms(2) [OF m] made(1), unfolded made(2)]
  then obtain h where cc: "c = admin_config ?name (sw_encrypt sw (sw_fresh sw) m) h (pa_network p) (pa_pool p)"
    by blast
  have rd: "read_config (os_public os) s1 ?name = Ok c" using left by blast
  then have op: "open_database os ?name s1 = ([], Ok c)" by (rule open_admin) (simp add: cc)
  obtain d a1 where d: "engine_dir s1 ?name = Ok d" "disk_get s1 (d @ [DATA_DB]) = Some (WalletFile a1)"
    using left by blast
  have "fst (account_keys os sw c ?name s1) = []"
    by (rule account_keys_own [OF rd _ d(1)]) (simp_all add: cc path_exists_def d(2))
  then have "fst (db_zkv_address os sw c ?name s1) = []"
    by (simp add: db_zkv_address_def cc admin_config_def io_bind_def Let_def split: sum.split)
  then have "last (s # t) = s1" using rest s1_def by simp
  then show ?thesis using op conn cc by (simp add: open_or_restore_def)
qed

end
