(* ===== verification/Gui_Views.thy ===== *)
theory Gui_Views
  imports Facade History_Page Funding Connection
begin

text \<open>
  The mappings of \<open>gui/engine.rs\<close> from what the facade answers to what the pages show: the counts of
  the sidebar and the table of keys, the history, rejection, role and funding pages, the texts of the
  background errors, and the fingerprint of the pending file that the summaries are cached under. A
  \<open>BTreeMap\<close> is read in the order of its keys.
\<close>

section \<open>Labels\<close>

fun engine_str :: "wallet_engine \<Rightarrow> str" where
  "engine_str Unset = ''own''"
| "engine_str Own = ''own''"
| "engine_str FleetPending = ''joining''"
| "engine_str Fleet = ''fleet''"

fun role_str :: "role \<Rightarrow> str" where
  "role_str Admin = ''admin''"
| "role_str Watch = ''watch''"

fun operator_debug :: "server_operator \<Rightarrow> str" where
  "operator_debug Ecc = ''ecc''"
| "operator_debug YWallet = ''ywallet''"
| "operator_debug ZecRocks = ''zecrocks''"

text \<open>The base server list, whatever the overrides of a network say.\<close>

definition server_endpoint :: "connection_args \<Rightarrow> network \<Rightarrow> str" where
  "server_endpoint conn net =
     (case pick (ca_server conn) net of
        Inr s \<Rightarrow> show_server s
      | Inl _ \<Rightarrow> (case ca_server conn of Hosted op \<Rightarrow> operator_debug op | Custom _ \<Rightarrow> ''custom''))"

fun init_parts :: "init_state \<Rightarrow> str \<times> u32 \<times> u32" where
  "init_parts Uninitialized = (''uninitialized'', 0, 0)"
| "init_parts (Initializing d required) = (''initializing'', d, required)"
| "init_parts Initialized = (''initialized'', 0, 0)"

text \<open>\<open>char::is_ascii_alphanumeric\<close>, on a byte: those of longer scalars are above 127.\<close>

definition ascii_alnum :: "char \<Rightarrow> bool" where
  "ascii_alnum c \<longleftrightarrow>
     (48 \<le> byte c \<and> byte c \<le> 57) \<or> (65 \<le> byte c \<and> byte c \<le> 90) \<or> (97 \<le> byte c \<and> byte c \<le> 122)"

definition derive_watch_name :: "str \<Rightarrow> str" where
  "derive_watch_name addr =
     (let parts = split_on (CHR '':'') addr;
          second = (if 1 < length parts then parts ! 1 else []);
          suffix = take 8 (drop 6 (filter ascii_alnum second))
      in if suffix = [] then ''watch'' else ''watch-'' @ suffix)"

section \<open>The keys of a database\<close>

definition state_rows :: "(str \<rightharpoonup> key_state) \<Rightarrow> (str \<times> key_state) list" where
  "state_rows m = map (\<lambda>k. (k, unwrap_or (m k) default_key_state)) (sorted_list_of_set (dom m))"

definition last_op :: "key_state \<Rightarrow> pending_op option" where
  "last_op ks = (if pending ks = [] then None else Some (last (pending ks)))"

fun count_step :: "nat \<times> nat \<Rightarrow> key_state \<Rightarrow> nat \<times> nat" where
  "count_step (shown, unsynced) ks =
     (let has_set = (case last_op ks of Some (PSet _ _ _ _) \<Rightarrow> True | _ \<Rightarrow> False)
      in (if confirmed ks \<noteq> None \<or> has_set then shown + 1 else shown,
          if pending ks \<noteq> [] then unsynced + 1 else unsynced))"

definition count_keys :: "(str \<rightharpoonup> key_state) \<Rightarrow> nat \<times> nat" where
  "count_keys m = foldl count_step (0, 0) (map snd (state_rows m))"

text \<open>\<open>filter_map(updated_at).max()\<close>\<close>

definition last_update :: "(str \<rightharpoonup> key_state) \<Rightarrow> u32 option" where
  "last_update m =
     (case List.map_filter (\<lambda>r. updated_at (snd r)) (state_rows m) of
        [] \<Rightarrow> None
      | t # ts \<Rightarrow> Some (fold max ts t))"

record key_status =
  kt_kind :: str
  kt_done :: u32
  kt_required :: u32

record key_row =
  kr_key :: str
  kr_value :: "str option"
  kr_status :: key_status
  kr_txid :: "str option"
  kr_deleted :: bool
  kr_size :: "nat option"
  kr_updated_at :: "u32 option"

definition key_cell :: "key_state \<Rightarrow> str option \<times> key_status \<times> str option \<times> bool" where
  "key_cell ks =
     (case last_op ks of
        Some (PSet v d required txid) \<Rightarrow>
          (Some (unwrap_or (confirmed ks) v),
           \<lparr>kt_kind = (if d = 0 then ''pending'' else ''confirming''), kt_done = d, kt_required = required\<rparr>,
           Some txid, False)
      | Some (PDel d required txid) \<Rightarrow>
          (confirmed ks, \<lparr>kt_kind = ''deleting'', kt_done = d, kt_required = required\<rparr>, Some txid, True)
      | None \<Rightarrow>
          (confirmed ks, \<lparr>kt_kind = ''confirmed'', kt_done = 0, kt_required = 0\<rparr>, last_txid ks, False))"

definition key_row_of :: "str \<times> key_state \<Rightarrow> key_row option" where
  "key_row_of r =
     (let (v, status, txid, deleted) = key_cell (snd r)
      in if v = None \<and> \<not> deleted then None
         else Some \<lparr>kr_key = fst r, kr_value = v, kr_status = status, kr_txid = txid,
                    kr_deleted = deleted, kr_size = map_option length v,
                    kr_updated_at = updated_at (snd r)\<rparr>)"

definition key_rows :: "(str \<rightharpoonup> key_state) \<Rightarrow> key_row list" where
  "key_rows m = List.map_filter key_row_of (state_rows m)"

section \<open>The pages\<close>

record history_status_resp =
  ht_kind :: str
  ht_done :: u32
  ht_required :: u32
  ht_confirmations :: u32

fun history_status_resp_of :: "history_status \<Rightarrow> history_status_resp" where
  "history_status_resp_of (HConfirmed c) =
     \<lparr>ht_kind = ''confirmed'', ht_done = 0, ht_required = 0, ht_confirmations = c\<rparr>"
| "history_status_resp_of (HConfirming d q) =
     \<lparr>ht_kind = ''confirming'', ht_done = d, ht_required = q, ht_confirmations = 0\<rparr>"
| "history_status_resp_of HPending =
     \<lparr>ht_kind = ''pending'', ht_done = 0, ht_required = 0, ht_confirmations = 0\<rparr>"

record history_entry_resp =
  hp_op :: str
  hp_key :: str
  hp_value :: "str option"
  hp_height :: "u32 option"
  hp_timestamp :: "u32 option"
  hp_txid :: str
  hp_output_index :: u32
  hp_signature :: "str option"
  hp_seq :: "u64 option"
  hp_signer :: "str option"
  hp_signer_role :: "str option"
  hp_verified :: "bool option"
  hp_status :: history_status_resp
  hp_memo :: "str option"
  hp_fee :: "u64 option"
  hp_output_value :: "u64 option"

record history_resp =
  hv_creator :: str
  hv_entries :: "history_entry_resp list"
  hv_total :: nat
  hv_offset :: u32
  hv_limit :: "u32 option"

fun authority_label :: "authority \<Rightarrow> str" where
  "authority_label Owner = ''owner''"
| "authority_label (Writer s) = ''writer''"

definition signer_role_of :: "auth_registry option \<Rightarrow> str option \<Rightarrow> str option" where
  "signer_role_of auth signer =
     (case (auth, signer) of
        (Some a, Some s) \<Rightarrow> map_option authority_label (authority_of a s)
      | _ \<Rightarrow> None)"

definition history_entry_resp_of :: "auth_registry option \<Rightarrow> history_entry \<Rightarrow> history_entry_resp" where
  "history_entry_resp_of auth e =
     \<lparr>hp_op = op_as_str (he_op e), hp_key = he_key e, hp_value = he_value e, hp_height = he_height e,
      hp_timestamp = he_timestamp e, hp_txid = he_txid e, hp_output_index = he_output_index e,
      hp_signature = he_signature e, hp_seq = he_seq e, hp_signer = he_signer e,
      hp_signer_role = signer_role_of auth (he_signer e), hp_verified = he_verified e,
      hp_status = history_status_resp_of (he_status e), hp_memo = he_memo e, hp_fee = he_fee e,
      hp_output_value = he_output_value e\<rparr>"

definition history_resp_of :: "history_result \<Rightarrow> auth_registry option \<Rightarrow> history_resp" where
  "history_resp_of result auth =
     \<lparr>hv_creator = hr_signer result, hv_entries = map (history_entry_resp_of auth) (hr_entries result),
      hv_total = hr_total result, hv_offset = hr_offset result, hv_limit = hr_limit result\<rparr>"

text \<open>The text of a reason, \<open>Display\<close> of \<open>DropReason\<close>.\<close>

fun drop_reason_str :: "drop_reason \<Rightarrow> str" where
  "drop_reason_str (MalformedMemo f) = ''malformed memo: '' @ memo_format_str f"
| "drop_reason_str BadSignature = ''unrecoverable signature''"
| "drop_reason_str (DropUnsupportedVersion v) =
     ''ZKV protocol version '' @ dec v @
     '' not recognized, download the latest version of zkv''"
| "drop_reason_str ForgedInit = ''INIT not signed by the root key''"
| "drop_reason_str InitAddressInvalid = ''INIT embeds an invalid zkv address''"
| "drop_reason_str InitNetworkMismatch = ''INIT address is for a different network''"
| "drop_reason_str InitAddressMismatch = ''INIT address is for a different database''"
| "drop_reason_str DuplicateInit = ''database already initialized''"
| "drop_reason_str NotInitialized = ''database not initialized''"
| "drop_reason_str NoWriteAuthority = ''signer has no write authority''"
| "drop_reason_str StaleVersion = ''stale-version replay of an already-honored write''"
| "drop_reason_str (OutOfScope c) = ''writer scope lacks '' @ capability_as_str c"
| "drop_reason_str NotOwner = ''management op not signed by an owner''"
| "drop_reason_str LastOwnerProtected = ''attempt to remove the last owner''"
| "drop_reason_str WriterTargetIsOwner = ''writer target is already an owner''"
| "drop_reason_str InvalidTargetPubkey = ''invalid target pubkey''"
| "drop_reason_str InvalidScope = ''invalid writer scope''"
| "drop_reason_str Finalized = ''database is finalized''"
| "drop_reason_str VersionNotNumeric = ''VERSION number is not a u32''"
| "drop_reason_str VersionBadFlag = ''invalid VERSION block flags''"
| "drop_reason_str VersionBelowGenesis = ''VERSION below the genesis version''"
| "drop_reason_str VersionNoOp = ''VERSION already at this version''"
| "drop_reason_str (VersionJumpTooLarge current requested) =
     ''VERSION jumps from '' @ dec current @ '' to '' @ dec requested @
     '' (may only increase one step at a time)''"

record rejection_resp =
  rj_op :: "str option"
  rj_key :: "str option"
  rj_value :: "str option"
  rj_height :: "u32 option"
  rj_timestamp :: "u32 option"
  rj_txid :: str
  rj_raw :: str
  rj_reason :: str
  rj_signer :: "str option"
  rj_signature_valid :: bool

record rejections_resp =
  rp_entries :: "rejection_resp list"
  rp_total :: nat

definition rejection_of :: "audit_row \<Rightarrow> rejection_resp option" where
  "rejection_of r =
     (case ar_outcome r of
        Dropped reason \<Rightarrow>
          Some \<lparr>rj_op = map_option op_as_str (ar_op r), rj_key = ar_key r, rj_value = ar_value r,
                rj_height = ar_mined_height r, rj_timestamp = ar_timestamp r, rj_txid = ar_txid r,
                rj_raw = ar_raw r, rj_reason = drop_reason_str reason, rj_signer = ar_signer r,
                rj_signature_valid = (\<not> is_signature_failure reason)\<rparr>
      | _ \<Rightarrow> None)"

definition rejections_resp_of :: "audit_result \<Rightarrow> rejections_resp" where
  "rejections_resp_of audit =
     (let entries = rev (List.map_filter rejection_of (au_rows audit))
      in \<lparr>rp_entries = entries, rp_total = length entries\<rparr>)"

record role_row =
  ro_role :: str
  ro_pubkey :: str
  ro_capabilities :: "str list"
  ro_height :: "u32 option"
  ro_timestamp :: "u32 option"
  ro_granted_by :: "str option"

record revoked_role_row =
  rw_role :: str
  rw_pubkey :: str
  rw_capabilities :: "str list"
  rw_height :: "u32 option"
  rw_timestamp :: "u32 option"
  rw_revoked_by :: "str option"

record roles_resp =
  rl_creator :: "str option"
  rl_rows :: "role_row list"
  rl_revoked :: "revoked_role_row list"

text \<open>The \<open>HashMap\<close> collected from the grants: of two with one key the later counts.\<close>

definition provenance :: "granted_role list \<Rightarrow> str \<rightharpoonup> granted_role" where
  "provenance granted = map_of (rev (map (\<lambda>g. (gr_pubkey g, g)) granted))"

definition role_row_of :: "(str \<rightharpoonup> granted_role) \<Rightarrow> str \<Rightarrow> str \<Rightarrow> str list \<Rightarrow> role_row" where
  "role_row_of prov role pk caps =
     (let g = prov pk
      in \<lparr>ro_role = role, ro_pubkey = pk, ro_capabilities = caps,
          ro_height = Option.bind g gr_height, ro_timestamp = Option.bind g gr_timestamp,
          ro_granted_by = Option.bind g gr_granted_by\<rparr>)"

definition revoked_row_of :: "revoked_role \<Rightarrow> revoked_role_row" where
  "revoked_row_of r =
     \<lparr>rw_role = (if rv_was_owner r then ''owner'' else ''writer''), rw_pubkey = rv_pubkey r,
      rw_capabilities = rv_capabilities r, rw_height = rv_height r, rw_timestamp = rv_timestamp r,
      rw_revoked_by = rv_revoked_by r\<rparr>"

definition scope_capabilities :: "scope \<Rightarrow> str list" where
  "scope_capabilities sc = map capability_as_str (sorted_list_of_set sc)"

definition roles_resp_of ::
    "auth_registry \<Rightarrow> granted_role list \<Rightarrow> revoked_role list \<Rightarrow> str option \<Rightarrow> roles_resp" where
  "roles_resp_of auth granted revoked creator =
     (let prov = provenance granted
      in \<lparr>rl_creator = creator,
          rl_rows =
            map (\<lambda>pk. role_row_of prov ''owner'' pk []) (sorted_list_of_set (owners auth)) @
            map (\<lambda>pk. role_row_of prov ''writer'' pk (scope_capabilities (unwrap_or (writers auth pk) {})))
              (sorted_list_of_set (dom (writers auth))),
          rl_revoked = map revoked_row_of revoked\<rparr>)"

fun direction_label :: "funding_direction \<Rightarrow> str" where
  "direction_label Received = ''received''"
| "direction_label Sent = ''sent''"
| "direction_label SelfTransfer = ''self''"
| "direction_label ZkvOperation = ''zkv''"

record funding_tx_resp =
  fx_txid :: str
  fx_height :: "u32 option"
  fx_timestamp :: "u32 option"
  fx_direction :: str
  fx_amount :: nat
  fx_self_sent :: "nat option"
  fx_fee :: "nat option"
  fx_memo :: "str option"
  fx_recipients :: "str list"
  fx_is_zkv :: bool
  fx_pending :: bool
  fx_confirmations :: u32
  fx_required :: u32
  fx_confirmed :: bool

record funding_resp =
  fs_entries :: "funding_tx_resp list"
  fs_total :: nat
  fs_offset :: u32
  fs_limit :: "u32 option"

definition funding_tx_resp_of :: "funding_tx \<Rightarrow> funding_tx_resp" where
  "funding_tx_resp_of t =
     \<lparr>fx_txid = ft_txid t, fx_height = ft_height t, fx_timestamp = ft_timestamp t,
      fx_direction = direction_label (ft_direction t), fx_amount = ft_amount t,
      fx_self_sent = ft_self_sent t, fx_fee = ft_fee t, fx_memo = ft_memo t,
      fx_recipients = ft_recipients t, fx_is_zkv = ft_is_zkv t, fx_pending = ft_pending t,
      fx_confirmations = ft_confirmations t, fx_required = ft_required t, fx_confirmed = ft_confirmed t\<rparr>"

definition funding_resp_of :: "funding_result \<Rightarrow> funding_resp" where
  "funding_resp_of result =
     \<lparr>fs_entries = map funding_tx_resp_of (fg_entries result), fs_total = fg_total result,
      fs_offset = fg_offset result, fs_limit = fg_limit result\<rparr>"

section \<open>Background errors\<close>

definition is_benign_sync_error :: "str \<Rightarrow> bool" where
  "is_benign_sync_error raw =
     (let low = ascii_lower raw
      in sublist ''blocksource'' low \<or> sublist ''no such file'' low \<or> sublist ''notfound'' low)"

definition friendly_sync_error :: "str \<Rightarrow> str" where
  "friendly_sync_error raw =
     (let low = ascii_lower raw
      in if sublist ''in use by another process'' low
         then ''Another zkv process is using this database. It will sync once that finishes.''
         else if sublist ''no wallet key'' low \<or> sublist ''has no account'' low
         then ''This database's wallet key is missing; it rebuilds automatically on the next sync.''
         else if sublist ''transport error'' low \<or> sublist ''connect'' low \<or> sublist ''eof'' low \<or>
                 sublist ''timeout'' low \<or> sublist ''unavailable'' low \<or> sublist ''dns'' low
         then ''Can't reach the lightwalletd server right now; retrying automatically. ('' @ raw @ '')''
         else raw)"

text \<open>\<open>Display\<close> of \<open>EngineError::Busy\<close>.\<close>

definition busy_text :: "str \<Rightarrow> str" where
  "busy_text name = ''database '' @ [CHR 0x27] @ name @ [CHR 0x27] @ '' is in use by another process''"

section \<open>The fingerprint of the pending file\<close>

text \<open>
  What \<open>DefaultHasher\<close> is fed: \<open>usize\<close> and \<open>isize\<close> in eight bytes, a string and the byte 255, an
  option its discriminant first. The bytes of the digits are little-endian.
\<close>

fun le_bytes :: "nat \<Rightarrow> nat \<Rightarrow> nat list" where
  "le_bytes 0 n = []"
| "le_bytes (Suc k) n = n mod 256 # le_bytes k (n div 256)"

definition hash_str :: "str \<Rightarrow> nat list" where
  "hash_str s = map byte s @ [255]"

fun hash_opt :: "str option \<Rightarrow> nat list" where
  "hash_opt None = le_bytes 8 0"
| "hash_opt (Some s) = le_bytes 8 1 @ hash_str s"

definition hash_entry :: "pending_entry \<Rightarrow> nat list" where
  "hash_entry e =
     hash_str (pe_txid e) @ hash_str (pe_op e) @ hash_str (pe_key e) @ hash_opt (pe_value e)"

definition fingerprint_input :: "pending_error + pending_entry list \<Rightarrow> nat list" where
  "fingerprint_input loaded =
     (case loaded of
        Inr entries \<Rightarrow> le_bytes 8 (length entries) @ concat (map hash_entry entries)
      | Inl _ \<Rightarrow> le_bytes 8 (2 ^ 64 - 1))"

text \<open>\<open>hasher\<close> is the keyless \<open>SipHash\<close> of the standard library on the bytes it is fed.\<close>

definition pending_fingerprint :: "(nat list \<Rightarrow> u64) \<Rightarrow> nat \<Rightarrow> pending_disk \<Rightarrow> u64" where
  "pending_fingerprint hasher now disk = hasher (fingerprint_input (load_pending now disk))"

end
