(* ===== verification/Gui_Engine.thy ===== *)
theory Gui_Engine
  imports Gui_Views Admin_Create Sync_Skip
begin

text \<open>
  \<open>Engine\<close> of \<open>gui/engine.rs\<close>, behind both the browser server and the desktop window: its state and
  its operations over the disk and the databases. The locks and the background loop are in
  \<open>Gui_Loop\<close>. What an operation asks of the wallet, the chain and the faucet is an argument of it; the
  machine is the disk of the configurations and, for each name, the local files of that database.
\<close>

section \<open>State\<close>

definition DEFAULT_SYNC_WORKERS :: nat where "DEFAULT_SYNC_WORKERS = 5"
definition MAX_SYNC_WORKERS :: nat where "MAX_SYNC_WORKERS = 16"
definition DEFAULT_HISTORY_PAGE :: u32 where "DEFAULT_HISTORY_PAGE = 100"
definition SYNC_ERROR_THRESHOLD :: u32 where "SYNC_ERROR_THRESHOLD = 2"

record cached_summary =
  cs_synced :: "u32 option"
  cs_pending_fp :: u64
  cs_keys :: nat
  cs_unsynced :: nat
  cs_updated_at :: "u32 option"

record gui =
  gu_conn :: connection_args
  gu_server_label :: str
  gu_paused :: "str set"
  gu_workers :: nat
  gu_paused_all :: bool
  gu_cancel :: bool
  gu_cache :: "str \<rightharpoonup> cached_summary"
  gu_errors :: "str \<rightharpoonup> str"
  gu_fail_counts :: "str \<rightharpoonup> u32"
  gu_out_of_date :: "bool option"

definition new_engine :: "connection_args \<Rightarrow> gui" where
  "new_engine conn =
     \<lparr>gu_conn = conn, gu_server_label = server_endpoint conn MainNet, gu_paused = {},
      gu_workers = DEFAULT_SYNC_WORKERS, gu_paused_all = False, gu_cancel = False,
      gu_cache = Map.empty, gu_errors = Map.empty, gu_fail_counts = Map.empty,
      gu_out_of_date = None\<rparr>"

text \<open>One database as the facade has it, and everything the engine works with.\<close>

record ('pk, 'sk) gui_db =
  gd_key :: 'pk
  gd_client :: "'sk client"
  gd_start :: "engine_error option"
  gd_world :: wallet_world
  gd_summary :: "local_db \<Rightarrow> str + u32 option"

record ('pk, 'sk) gui_world =
  gw_crates :: "('pk, 'sk) crates"
  gw_os :: outside
  gw_seed :: "('pk, 'sk) seed_world"
  gw_db :: "str \<Rightarrow> ('pk, 'sk) gui_db"
  gw_hash :: "nat list \<Rightarrow> u64"

type_synonym machine = "disk \<times> (str \<Rightarrow> local_db)"

datatype gui_error =
    GUnknown str | GNotSynced | GStaleTip | GZkv zkv_error | GData data_error | GSync sync_error
  | GSyncFailed sync_failure | GSend send_error | GAmount amount_error | GRead read_error
  | GBadRequest str | GNoBirthday | GOther str

text \<open>The one \<open>data_error\<close> whose text says that there is no database of the name.\<close>

definition classify_unknown :: "str \<Rightarrow> data_error \<Rightarrow> gui_error" where
  "classify_unknown name e = (case e of NoDatabase _ \<Rightarrow> GUnknown name | _ \<Rightarrow> GData e)"

definition on_disk :: "'a io \<Rightarrow> machine \<Rightarrow> machine \<times> (gui_error + 'a)" where
  "on_disk m M = ((io_final m (fst M), snd M), map_err GData (io_result m (fst M)))"

text \<open>\<open>Database::open\<close>, then the rest on the database's files.\<close>

definition with_database ::
    "('pk, 'sk) gui_world \<Rightarrow> str \<Rightarrow> (wallet_config \<Rightarrow> local_db \<Rightarrow> local_db \<times> (gui_error + 'a)) \<Rightarrow>
     machine \<Rightarrow> machine \<times> (gui_error + 'a)" where
  "with_database G name f M =
     (let d = io_final (open_database (gw_os G) name) (fst M)
      in case io_result (open_database (gw_os G) name) (fst M) of
           Inl e \<Rightarrow> ((d, snd M), Err (classify_unknown name e))
         | Inr cfg \<Rightarrow>
             (let (L, r) = f cfg (snd M name) in ((d, (snd M)(name := L)), r)))"

section \<open>The sidebar\<close>

record db_summary =
  ds_name :: str
  ds_role :: str
  ds_network :: str
  ds_pool :: str
  ds_server :: str
  ds_birthday :: u32
  ds_keys :: nat
  ds_unsynced :: nat
  ds_paused :: bool
  ds_engine :: str
  ds_updated_at :: "u32 option"
  ds_synced :: "u32 option"
  ds_detailed :: bool

type_synonym counts = "nat \<times> nat \<times> u32 option"

definition cached_counts :: "u32 option \<Rightarrow> u64 \<Rightarrow> cached_summary option \<Rightarrow> counts option" where
  "cached_counts synced fp entry =
     (case entry of
        None \<Rightarrow> None
      | Some c \<Rightarrow>
          if cs_synced c = synced \<and> cs_pending_fp c = fp
          then Some (cs_keys c, cs_unsynced c, cs_updated_at c) else None)"

definition counts_of :: "replay_result \<Rightarrow> counts" where
  "counts_of r = (let (n, u) = count_keys (rr_state r) in (n, u, last_update (rr_state r)))"

definition gui_synced :: "('pk, 'sk) gui_db \<Rightarrow> local_db \<Rightarrow> u32 option" where
  "gui_synced D L =
     (case synced_height (gd_world D) (gd_summary D) L of Inl _ \<Rightarrow> None | Inr h \<Rightarrow> h)"

text \<open>The counts of an open database: cached, or read and then cached.\<close>

definition summary_counts ::
    "('pk, 'sk) gui_world \<Rightarrow> str \<Rightarrow> local_db \<times> (str \<rightharpoonup> cached_summary) \<Rightarrow>
     (local_db \<times> (str \<rightharpoonup> cached_summary)) \<times> counts \<times> u32 option" where
  "summary_counts G name S =
     (let D = gw_db G name; (L, cache) = S;
          synced = gui_synced D L;
          fp = pending_fingerprint (gw_hash G) (cl_now (gd_client D)) (lo_pending L)
      in case cached_counts synced fp (cache name) of
           Some c \<Rightarrow> ((L, cache), c, synced)
         | None \<Rightarrow>
             (let (L1, res) = read_db (gw_crates G) (gd_key D) (gd_client D) DefaultDepth L
              in case res of
                   Inl _ \<Rightarrow> ((L1, cache), (0, 0, None), synced)
                 | Inr r \<Rightarrow>
                     (let (n, u, t) = counts_of r
                      in ((L1, cache(name \<mapsto> \<lparr>cs_synced = synced, cs_pending_fp = fp, cs_keys = n,
                                              cs_unsynced = u, cs_updated_at = t\<rparr>)),
                          (n, u, t), synced))))"

definition summary_of ::
    "connection_args \<Rightarrow> str set \<Rightarrow> str \<Rightarrow> wallet_config \<Rightarrow> counts \<Rightarrow> u32 option \<Rightarrow> bool \<Rightarrow> db_summary" where
  "summary_of conn paused name cfg c synced detailed =
     \<lparr>ds_name = name, ds_role = role_str (wc_role cfg), ds_network = network_name (wc_network cfg),
      ds_pool = pool_label (wc_pool cfg), ds_server = server_endpoint conn (wc_network cfg),
      ds_birthday = wc_birthday cfg, ds_keys = fst c, ds_unsynced = fst (snd c),
      ds_paused = (name \<in> paused), ds_engine = engine_str (wc_engine cfg),
      ds_updated_at = snd (snd c), ds_synced = synced, ds_detailed = detailed\<rparr>"

text \<open>
  \<open>summarize_db_full\<close>. The label of the engine is that of the configuration read first: opening may
  enrol the database after it.
\<close>

definition summarize_db_full ::
    "('pk, 'sk) gui_world \<Rightarrow> connection_args \<Rightarrow> str set \<Rightarrow> str \<Rightarrow>
     machine \<times> (str \<rightharpoonup> cached_summary) \<Rightarrow> (machine \<times> (str \<rightharpoonup> cached_summary)) \<times> db_summary option" where
  "summarize_db_full G conn paused name S =
     (let (M, cache) = S
      in case read_config (os_public (gw_os G)) (fst M) name of
           Inl _ \<Rightarrow> (S, None)
         | Inr cfg \<Rightarrow>
             (let m = open_database (gw_os G) name; d = io_final m (fst M)
              in case io_result m (fst M) of
                   Inl _ \<Rightarrow> (((d, snd M), cache), Some (summary_of conn paused name cfg (0, 0, None) None True))
                 | Inr _ \<Rightarrow>
                     (let ((L, cache'), c, synced) = summary_counts G name (snd M name, cache)
                      in (((d, (snd M)(name := L)), cache'),
                          Some (summary_of conn paused name cfg c synced True)))))"

text \<open>
  One thread per database, joined in the order of the names; each works on its own files and its own
  entry of the cache, so they are taken one after the other.
\<close>

fun summarize_all ::
    "('pk, 'sk) gui_world \<Rightarrow> connection_args \<Rightarrow> str set \<Rightarrow> str list \<Rightarrow>
     machine \<times> (str \<rightharpoonup> cached_summary) \<Rightarrow> (machine \<times> (str \<rightharpoonup> cached_summary)) \<times> db_summary list" where
  "summarize_all G conn paused [] S = (S, [])"
| "summarize_all G conn paused (name # names) S =
     (let (S1, row) = summarize_db_full G conn paused name S;
          (S2, rows) = summarize_all G conn paused names S1
      in (S2, (case row of None \<Rightarrow> rows | Some r \<Rightarrow> r # rows)))"

definition list_databases ::
    "('pk, 'sk) gui_world \<Rightarrow> gui \<times> machine \<Rightarrow> (gui \<times> machine) \<times> (gui_error + db_summary list)" where
  "list_databases G S =
     (let (g, M) = S;
          ((M1, cache), rows) =
            summarize_all G (gu_conn g) (gu_paused g) (list_dbs (fst M)) (M, gu_cache g)
      in ((g\<lparr>gu_cache := cache\<rparr>, M1), Ok rows))"

definition list_databases_basic :: "('pk, 'sk) gui_world \<Rightarrow> gui \<Rightarrow> disk \<Rightarrow> gui_error + db_summary list" where
  "list_databases_basic G g s =
     Ok (List.map_filter (\<lambda>name.
           case read_config (os_public (gw_os G)) s name of
             Inl _ \<Rightarrow> None
           | Inr cfg \<Rightarrow> Some (summary_of (gu_conn g) (gu_paused g) name cfg (0, 0, None) None False))
         (list_dbs s))"

section \<open>One database\<close>

record db_detail =
  dd_name :: str
  dd_role :: str
  dd_network :: str
  dd_pool :: str
  dd_server :: str
  dd_birthday :: u32
  dd_address :: str
  dd_funding_address :: "str option"
  dd_signer :: "str option"
  dd_init :: "str \<times> u32 \<times> u32"
  dd_balance :: "nat option"
  dd_confirming :: "nat option"
  dd_synced :: "u32 option"
  dd_synced_to_tip :: bool
  dd_keys :: "key_row list"
  dd_history_available :: bool
  dd_paused :: bool
  dd_db_version :: u32
  dd_client_max_version :: u32
  dd_block_flags :: str
  dd_blocks_sync :: bool
  dd_blocks_read :: bool
  dd_blocks_write :: bool
  dd_sync_error :: "str option"

text \<open>An answer that a watch-only database has not got.\<close>

definition unless_watch_only :: "zkv_error + 'a \<Rightarrow> gui_error + 'a option" where
  "unless_watch_only r =
     (case r of Inr x \<Rightarrow> Ok (Some x) | Inl e \<Rightarrow> if e = ZWatchOnly then Ok None else Err (GZkv e))"

text \<open>
  \<open>probe\<close> is the answer of \<open>synced_to_tip\<close> if it came in time, \<open>balances\<close> those of \<open>balance\<close> and
  \<open>balance_confirming\<close>, and \<open>ids\<close> the funding address, the address and the signer.
\<close>

record detail_answers =
  da_probe :: "(sync_error + bool) option"
  da_balance :: "zkv_error + nat"
  da_confirming :: "zkv_error + nat"
  da_funding :: "zkv_error + str"
  da_address :: "data_error + str"
  da_signer :: "data_error + str"

definition tip_verdict :: "init_state \<Rightarrow> (sync_error + bool) option \<Rightarrow> bool" where
  "tip_verdict init probe = (if init = Uninitialized then probe = Some (Ok True) else False)"

definition detail ::
    "('pk, 'sk) gui_world \<Rightarrow> gui \<Rightarrow> detail_answers \<Rightarrow> str \<Rightarrow> machine \<Rightarrow> machine \<times> (gui_error + db_detail)" where
  "detail G g A name M =
     (case read_config (os_public (gw_os G)) (fst M) name of
        Inl e \<Rightarrow> (M, Err (classify_unknown name e))
      | Inr cfg \<Rightarrow>
          with_database G name (\<lambda>handle L.
            (let D = gw_db G name;
                 (L1, res) = read_db (gw_crates G) (gd_key D) (gd_client D) DefaultDepth L
             in (L1,
                 try_ok (map_err GZkv res) (\<lambda>r.
                 try_ok (unless_watch_only (da_balance A)) (\<lambda>balance.
                 try_ok (unless_watch_only (da_confirming A)) (\<lambda>confirming.
                 try_ok (unless_watch_only (da_funding A)) (\<lambda>funding.
                 try_ok (map_err GData (da_address A)) (\<lambda>address.
                 try_ok (map_err GSync (synced_height (gd_world D) (gd_summary D) L1)) (\<lambda>synced.
                   Ok \<lparr>dd_name = name, dd_role = role_str (wc_role cfg),
                       dd_network = network_name (wc_network handle), dd_pool = pool_label (wc_pool cfg),
                       dd_server = server_endpoint (gu_conn g) (wc_network handle),
                       dd_birthday = wc_birthday cfg, dd_address = address,
                       dd_funding_address = funding,
                       dd_signer = (case da_signer A of Inl _ \<Rightarrow> None | Inr s \<Rightarrow> Some s),
                       dd_init = init_parts (rr_init r), dd_balance = balance,
                       dd_confirming = confirming, dd_synced = synced,
                       dd_synced_to_tip = tip_verdict (rr_init r) (da_probe A),
                       dd_keys = key_rows (rr_state r), dd_history_available = True,
                       dd_paused = (name \<in> gu_paused g), dd_db_version = vs_version (rr_version r),
                       dd_client_max_version = MAX_DB_VERSION,
                       dd_block_flags = block_set_to_wire (vs_blocks (rr_version r)),
                       dd_blocks_sync = blocks_sync (rr_version r),
                       dd_blocks_read = blocks_read (rr_version r),
                       dd_blocks_write = blocks_write (rr_version r),
                       dd_sync_error = gu_errors g name\<rparr>))))))))) M)"

text \<open>The pages. \<open>lower\<close> is \<open>to_lowercase\<close>, \<open>addr\<close> the address of the database.\<close>

definition history ::
    "('pk, 'sk) gui_world \<Rightarrow> (str \<Rightarrow> str) \<Rightarrow> str \<Rightarrow> str \<Rightarrow> str option \<Rightarrow> u32 option \<Rightarrow> u32 \<Rightarrow> str option \<Rightarrow>
     machine \<Rightarrow> machine \<times> (gui_error + history_resp)" where
  "history G lower addr name filter_text limit offset txid =
     with_database G name (\<lambda>cfg L.
       let D = gw_db G name; c = gd_client D; l = unwrap_or limit DEFAULT_HISTORY_PAGE;
           q = \<lparr>hq_min_confs = as_u32 DefaultDepth, hq_filter = filter_text, hq_ops = None, hq_order = Desc,
                hq_limit = Some l, hq_offset = (if txid = None then offset else 0), hq_locate = txid\<rparr>;
           (snap, res) = load_history_page (gw_crates G) lower (cl_reader c) (gd_key D) addr
             (lo_wallet L) (lo_tip L) (pending_rows (cl_now c) (lo_pending L)) q (lo_snapshot L);
           L1 = L\<lparr>lo_snapshot := snap\<rparr>
       in case res of
            Inl e \<Rightarrow> (L1, Err (GRead e))
          | Inr result \<Rightarrow>
              (let (L2, auth) = roles_of (gw_crates G) (gd_key D) c DefaultDepth L1
               in (L2, Ok (history_resp_of result (case auth of Inl _ \<Rightarrow> None | Inr a \<Rightarrow> Some a)))))"

definition rejections ::
    "('pk, 'sk) gui_world \<Rightarrow> str \<Rightarrow> machine \<Rightarrow> machine \<times> (gui_error + rejections_resp)" where
  "rejections G name =
     with_database G name (\<lambda>cfg L.
       let D = gw_db G name
       in (L, try_ok (map_err GZkv (audit_db (gw_crates G) (gd_key D) (gd_client D) DefaultDepth L))
                (\<lambda>audit. Ok (rejections_resp_of audit))))"

definition roles ::
    "('pk, 'sk) gui_world \<Rightarrow> (data_error + str) \<Rightarrow> str \<Rightarrow> machine \<Rightarrow> machine \<times> (gui_error + roles_resp)" where
  "roles G signer name =
     with_database G name (\<lambda>cfg L.
       let D = gw_db G name;
           (L1, res) = roles_of (gw_crates G) (gd_key D) (gd_client D) DefaultDepth L
       in (L1,
           try_ok (map_err GZkv res) (\<lambda>auth.
           try_ok (map_err GZkv (audit_db (gw_crates G) (gd_key D) (gd_client D) DefaultDepth L1)) (\<lambda>audit.
             Ok (roles_resp_of auth (granted_roles audit) (revoked_roles audit)
                   (case signer of Inl _ \<Rightarrow> None | Inr s \<Rightarrow> Some s))))))"

definition funding ::
    "('pk, 'sk) gui_world \<Rightarrow> bytes \<Rightarrow> output_row list \<Rightarrow> ledger_row list \<Rightarrow> str \<Rightarrow> u32 option \<Rightarrow> u32 \<Rightarrow>
     machine \<Rightarrow> machine \<times> (gui_error + funding_resp)" where
  "funding G uuid outputs txs name limit offset =
     with_database G name (\<lambda>cfg L.
       (L, if wc_role cfg \<noteq> Admin then Err (GZkv ZWatchOnly)
           else Ok (funding_resp_of (load_funding (gw_crates G) uuid (lo_tip L) outputs txs
                      (Some (unwrap_or limit DEFAULT_HISTORY_PAGE)) offset))))"

end
