(* ===== verification/Gui_Actions.thy ===== *)
theory Gui_Actions
  imports Gui_Engine
begin

text \<open>
  The operations of \<open>Engine\<close> that change something: synchronising, writing, signing, creating,
  watching, restoring and forgetting a database, the faucet, the pause switches and the settings; and
  those that look outside, the status line, the servers, addresses and phrases.
\<close>

section \<open>Synchronising and writing\<close>

text \<open>\<open>Database::open\<close>, then an operation on the files and the disk.\<close>

definition with_database_disk ::
    "('pk, 'sk) gui_world \<Rightarrow> str \<Rightarrow>
     (wallet_config \<Rightarrow> local_db \<times> disk \<Rightarrow> (local_db \<times> disk) \<times> (gui_error + 'a)) \<Rightarrow>
     machine \<Rightarrow> machine \<times> (gui_error + 'a)" where
  "with_database_disk G name f M =
     (let d = io_final (open_database (gw_os G) name) (fst M)
      in case io_result (open_database (gw_os G) name) (fst M) of
           Inl e \<Rightarrow> ((d, snd M), Err (classify_unknown name e))
         | Inr cfg \<Rightarrow>
             (let ((L, d'), r) = f cfg (snd M name, d) in ((d', (snd M)(name := L)), r)))"

text \<open>\<open>eng\<close> is the database's engine and \<open>shard\<close> the height the shared node answers.\<close>

definition sync ::
    "('pk, 'sk) gui_world \<Rightarrow> sync_engine \<Rightarrow> u32 option \<Rightarrow> str \<Rightarrow> bool \<Rightarrow> machine \<Rightarrow> machine \<times> (gui_error + u32)" where
  "sync G eng shard name mempool =
     with_database_disk G name (\<lambda>cfg S.
       let D = gw_db G name; c = gd_client D;
           run = (if mempool then sync_with_mempool else sync_db);
           (S1, res) = run (gw_crates G) (gd_world D) (gd_summary D) (gw_os G) cfg (gd_start D) eng shard
             (cl_io c) (cl_now c) name S
       in (S1, map_err GSyncFailed res))"

text \<open>The auto-sync of a database, under the engine's cancel flag.\<close>

definition background_sync ::
    "('pk, 'sk) gui_world \<Rightarrow> sync_engine \<Rightarrow> u32 option \<Rightarrow> str \<Rightarrow> bool \<Rightarrow> machine \<Rightarrow> machine \<times> (gui_error + u32)" where
  "background_sync G eng shard name cancel =
     with_database_disk G name (\<lambda>cfg S.
       let D = gw_db G name; c = gd_client D;
           (S1, res) = sync_cancellable (gw_crates G) (gd_world D) (gd_summary D) (gw_os G) cfg (gd_start D)
             eng shard (cl_io c) (cl_now c) name cancel S
       in (S1, map_err GSyncFailed res))"

definition init ::
    "('pk, 'sk) gui_world \<Rightarrow> str \<Rightarrow> bool \<Rightarrow> machine \<Rightarrow> machine \<times> (gui_error + str)" where
  "init G name require_sync =
     with_database G name (\<lambda>cfg L.
       let D = gw_db G name
       in if require_sync \<and> wallet_synced_to_tip (gd_world D) L \<noteq> Ok True
          then (L, case wallet_synced_to_tip (gd_world D) L of Inl e \<Rightarrow> Err (GSync e) | Inr _ \<Rightarrow> Err GNotSynced)
          else map_prod id (map_err GZkv) (init_db (gw_crates G) (gd_client D) (gd_start D) L))"

definition set_key_gui ::
    "('pk, 'sk) gui_world \<Rightarrow> str \<Rightarrow> str \<Rightarrow> str \<Rightarrow> bool \<Rightarrow> machine \<Rightarrow> machine \<times> (gui_error + str)" where
  "set_key_gui G name key value offline =
     with_database G name (\<lambda>cfg L.
       let D = gw_db G name
       in map_prod id (map_err GZkv)
            (set_key (gw_crates G) (gd_key D) (gd_client D) (gd_start D) offline key value L))"

definition del_key_gui ::
    "('pk, 'sk) gui_world \<Rightarrow> str \<Rightarrow> str \<Rightarrow> machine \<Rightarrow> machine \<times> (gui_error + str)" where
  "del_key_gui G name key =
     with_database G name (\<lambda>cfg L.
       let D = gw_db G name
       in map_prod id (map_err GZkv)
            (del_key (gw_crates G) (gd_key D) (gd_client D) (gd_start D) False key L))"

record addr_check_resp =
  ac_valid :: bool
  ac_kind :: "str option"
  ac_network :: "str option"
  ac_pool :: "str option"
  ac_error :: "recipient_error option"

definition check_address ::
    "('pk, 'sk) gui_world \<Rightarrow> address_reader \<Rightarrow> str \<Rightarrow> str \<Rightarrow> machine \<Rightarrow> machine \<times> (gui_error + addr_check_resp)" where
  "check_address G reader name address =
     with_database G name (\<lambda>cfg L.
       (L, Ok (case describe_recipient reader address (network_type_of (wc_network cfg)) of
                 Inr info \<Rightarrow>
                   \<lparr>ac_valid = True, ac_kind = Some (ri_kind info), ac_network = Some (ri_network info),
                    ac_pool = ri_pool info, ac_error = None\<rparr>
               | Inl reason \<Rightarrow>
                   \<lparr>ac_valid = False, ac_kind = None, ac_network = None, ac_pool = None,
                    ac_error = Some reason\<rparr>)))"

text \<open>
  What the node says of its funds becomes the error of a write; \<open>memo_ok\<close> says what is a memo. The
  recipient is looked at before the wallet is synchronised.
\<close>

definition lift_send :: "nat \<times> nat \<Rightarrow> send_error \<Rightarrow> gui_error" where
  "lift_send balances e =
     (case e of
        ShipFailed err \<Rightarrow> GZkv (map_write_error (insufficient_from_engine balances err))
      | _ \<Rightarrow> GSend e)"

definition send_sync ::
    "'sk client \<Rightarrow> address_reader \<Rightarrow> network_type \<Rightarrow> str \<Rightarrow> local_db \<Rightarrow> local_db \<times> bool" where
  "send_sync c reader net recipient L =
     (case validate_recipient reader (trim recipient) net of
        Inl _ \<Rightarrow> (L, False)
      | Inr _ \<Rightarrow>
          (let ((w, tip, scanned), res) =
                 eng_sync_to_tip (cl_engine c) (lo_wallet L, lo_tip L, lo_scanned L)
           in (L\<lparr>lo_wallet := w, lo_tip := tip, lo_scanned := scanned\<rparr>, res = Ok ())))"

definition send ::
    "('pk, 'sk) gui_world \<Rightarrow> address_reader \<Rightarrow> (str \<Rightarrow> bool) \<Rightarrow> str \<Rightarrow> str \<Rightarrow> str \<Rightarrow>
     str option \<Rightarrow> machine \<Rightarrow> machine \<times> (gui_error + str)" where
  "send G reader memo_ok name recipient amount memo =
     with_database G name (\<lambda>cfg L.
       let D = gw_db G name; c = gd_client D; net = network_type_of (wc_network cfg)
       in if wc_role cfg \<noteq> Admin then (L, Err (GZkv ZWatchOnly))
          else (case parse_zec amount of
                  Inl e \<Rightarrow> (L, Err (GAmount e))
                | Inr zats \<Rightarrow>
                    (case gd_start D of
                       Some e \<Rightarrow> (L, Err (GZkv (map_engine_error e)))
                     | None \<Rightarrow>
                         (let (L1, synced) = send_sync c reader net recipient L
                          in (L1, map_err (lift_send (cl_balances c))
                                (send_funds reader (cl_zip321 c) memo_ok (\<lambda>_. synced)
                                   (eng_ship (cl_engine c)) net recipient zats memo False))))))"

section \<open>Signing without broadcasting\<close>

record sign_memo_resp =
  sm_unsigned :: str
  sm_signed :: str
  sm_recipient_ua :: str
  sm_zkv_addr :: str

definition unsigned_body :: "str \<Rightarrow> str" where
  "unsigned_body memo =
     (case rsplit_once (\<lambda>c. c = CHR 0x0A) memo of Some (body, _) \<Rightarrow> body | None \<Rightarrow> memo)"

definition sign_memo_resp_of :: "prepared_write \<Rightarrow> sign_memo_resp" where
  "sign_memo_resp_of p =
     \<lparr>sm_unsigned = unsigned_body (pw_memo_text p), sm_signed = pw_memo_text p,
      sm_recipient_ua = pw_recipient_ua p, sm_zkv_addr = pw_zkv_addr p\<rparr>"

text \<open>The opcodes, in upper case; \<open>need\<close> is the closure \<open>need_key\<close>.\<close>

definition prepare_op ::
    "('pk, 'sk) gui_world \<Rightarrow> str \<Rightarrow> str \<Rightarrow> str option \<Rightarrow> str option \<Rightarrow> str option \<Rightarrow> local_db \<Rightarrow>
     local_db \<times> (gui_error + prepared_write)" where
  "prepare_op G name op key value scope L =
     (let D = gw_db G name; E = gw_crates G; pk = gd_key D; c = gd_client D; up = ascii_upper op;
          need = (\<lambda>f. case key of
                    None \<Rightarrow> (L, Err (GBadRequest (op @ '' requires a key'')))
                  | Some k \<Rightarrow> map_prod id (map_err GZkv) (f k L))
      in if up = ''SET'' then need (\<lambda>k. prepare_set E pk c k (unwrap_or value []))
         else if up = ''SETL'' then need (\<lambda>k. prepare_setl E pk c k (unwrap_or value []))
         else if up = ''DEL'' then need (\<lambda>k. prepare_del E pk c k)
         else if up = ''INIT'' then (L, map_err GZkv (prepare_init_db E c))
         else if up = ''OWNERADD'' then need (\<lambda>k. prepare_management_db E pk c OwnerAdd k None)
         else if up = ''OWNERDEL'' then need (\<lambda>k. prepare_management_db E pk c OwnerDel k None)
         else if up = ''WRITERDEL'' then need (\<lambda>k. prepare_management_db E pk c WriterDel k None)
         else if up = ''FINALIZE''
         then map_prod id (map_err GZkv) (prepare_management_db E pk c Finalize [] None L)
         else if up = ''WRITERADD''
         then (case scope of
                 None \<Rightarrow> (L, Err (GBadRequest ''WRITERADD requires a scope''))
               | Some s \<Rightarrow>
                   (case scope_parse s of
                      None \<Rightarrow> (L, Err (GBadRequest (''invalid scope '' @ s)))
                    | Some parsed \<Rightarrow> need (\<lambda>k. prepare_management_db E pk c WriterAdd k (Some parsed))))
         else (L, Err (GBadRequest (''opcode '' @ up @ '' cannot be signed''))))"

definition sign_memo ::
    "('pk, 'sk) gui_world \<Rightarrow> str \<Rightarrow> str \<Rightarrow> str option \<Rightarrow> str option \<Rightarrow> str option \<Rightarrow> machine \<Rightarrow>
     machine \<times> (gui_error + sign_memo_resp)" where
  "sign_memo G name op key value scope =
     with_database G name (\<lambda>cfg L.
       let (L1, res) = prepare_op G name op key value scope L
       in (L1, try_ok res (\<lambda>p. Ok (sign_memo_resp_of p))))"

definition sign_preview ::
    "('pk, 'sk) gui_world \<Rightarrow> str \<Rightarrow> str \<Rightarrow> str \<Rightarrow> str option \<Rightarrow> machine \<Rightarrow> machine \<times> (gui_error + str \<times> str)" where
  "sign_preview G name op key value =
     with_database G name (\<lambda>cfg L.
       let D = gw_db G name; E = gw_crates G; pk = gd_key D; c = gd_client D;
           (L1, res) =
             (if op = ''set'' \<or> op = ''setl''
              then map_prod id (map_err GZkv) (prepare_set E pk c key (unwrap_or value []) L)
              else if op = ''del'' then map_prod id (map_err GZkv) (prepare_del E pk c key L)
              else if op = ''init'' then (L, map_err GZkv (prepare_init_db E c))
              else (L, Err (GBadRequest (''sign_preview: unknown op '' @ op))))
       in (L1, try_ok res (\<lambda>p. Ok (pw_memo_text p, pw_recipient_ua p))))"

section \<open>The faucet\<close>

datatype faucet_call = FaucetOk str | FaucetOutdated | FaucetError

text \<open>The answer is a status and a body, or no answer.\<close>

definition classify_faucet :: "(nat \<times> str) option \<Rightarrow> faucet_call" where
  "classify_faucet answer =
     (case answer of
        None \<Rightarrow> FaucetOutdated
      | Some (status, body) \<Rightarrow>
          if sublist ''update'' (ascii_lower body) then FaucetOutdated
          else if \<not> (200 \<le> status \<and> status < 300) then FaucetError
          else FaucetOk body)"

fun faucet_outcome :: "faucet_call \<Rightarrow> str" where
  "faucet_outcome (FaucetOk body) = ''ok''"
| "faucet_outcome FaucetOutdated = ''outdated''"
| "faucet_outcome FaucetError = ''error''"

record faucet_resp =
  fr_outcome :: str
  fr_txid :: "str option"

text \<open>\<open>post\<close> answers a request; \<open>json_txid\<close> reads the field \<open>txid\<close> of a JSON body.\<close>

definition faucet_funds ::
    "('pk, 'sk) gui_world \<Rightarrow> (str \<Rightarrow> (nat \<times> str) option) \<Rightarrow> str \<Rightarrow> machine \<Rightarrow> machine \<times> (gui_error + faucet_resp)" where
  "faucet_funds G post name M =
     (let m = io_bind (open_database (gw_os G) name) (\<lambda>cfg. db_zkv_address (gw_os G) (gw_seed G) cfg name)
      in ((io_final m (fst M), snd M),
          try_ok (map_err (classify_unknown name) (io_result m (fst M))) (\<lambda>addr.
            Ok \<lparr>fr_outcome = faucet_outcome (classify_faucet (post addr)), fr_txid = None\<rparr>)))"

definition init_entry :: "nat \<Rightarrow> str \<Rightarrow> prepared_write \<Rightarrow> pending_entry" where
  "init_entry now txid p =
     \<lparr>pe_txid = txid, pe_op = ''INIT'', pe_key = pw_zkv_addr p, pe_value = None,
      pe_memo = Some (pw_memo_text p), pe_broadcast_at_unix = now\<rparr>"

definition faucet_init ::
    "('pk, 'sk) gui_world \<Rightarrow> (str \<Rightarrow> (nat \<times> str) option) \<Rightarrow> (str \<Rightarrow> str option) \<Rightarrow> str \<Rightarrow> machine \<Rightarrow>
     machine \<times> (gui_error + faucet_resp)" where
  "faucet_init G post json_txid name =
     with_database G name (\<lambda>cfg L.
       let D = gw_db G name; c = gd_client D
       in case prepare_init_db (gw_crates G) c of
            Inl e \<Rightarrow> (L, Err (GZkv e))
          | Inr p \<Rightarrow>
              (let call = classify_faucet (post (pw_memo_text p));
                   txid = (case call of FaucetOk body \<Rightarrow> json_txid body | _ \<Rightarrow> None);
                   L1 = (case txid of
                           None \<Rightarrow> L
                         | Some t \<Rightarrow>
                             L\<lparr>lo_pending := fst (append_pending (cl_io c) (cl_now c)
                                 (init_entry (cl_now c) t p) (lo_pending L))\<rparr>)
               in (L1, Ok \<lparr>fr_outcome = faucet_outcome call, fr_txid = txid\<rparr>)))"

section \<open>Creating, watching, restoring\<close>

record create_resp =
  cp_name :: str
  cp_address :: str
  cp_phrase :: str
  cp_funding_address :: str

definition create ::
    "('pk, 'sk) gui_world \<Rightarrow> str \<Rightarrow> network \<Rightarrow> shielded_pool \<Rightarrow> str option \<Rightarrow> create_resp io" where
  "create G name net pool phrase =
     (let os = gw_os G; sw = gw_seed G
      in io_bind (case phrase of
             Some p \<Rightarrow> io_bind (restore_admin_with_pool os sw name net p None pool) (\<lambda>cfg. io_return (cfg, p))
           | None \<Rightarrow> init_admin_with_pool os sw name net pool) (\<lambda>(cfg, words).
         io_bind (io_try (promote_current name)) (\<lambda>_.
         io_bind (db_zkv_address os sw cfg name) (\<lambda>addr.
         io_bind (account_keys os sw cfg name) (\<lambda>k.
           io_return \<lparr>cp_name = name, cp_address = addr, cp_phrase = words,
                      cp_funding_address = ak_recipient_ua k\<rparr>)))))"

definition generate_phrase :: "('pk, 'sk) gui_world \<Rightarrow> str" where
  "generate_phrase G = sw_generate (gw_seed G)"

text \<open>The name of a watched database, and the facade's import; \<open>identity\<close> is its receiver domain.\<close>

definition watch_name :: "str \<Rightarrow> str option \<Rightarrow> str" where
  "watch_name addr name =
     (case name of
        Some n \<Rightarrow> if trim n \<noteq> [] then n else derive_watch_name addr
      | None \<Rightarrow> derive_watch_name addr)"

definition watch ::
    "('pk, 'sk) gui_world \<Rightarrow> str \<Rightarrow> str \<Rightarrow> str option \<Rightarrow> (str \<times> str) io" where
  "watch G identity addr name0 =
     (let os = gw_os G; name = watch_name addr name0
      in io_bind (init_watch os (receiver_of os (gw_seed G)) identity name addr) (\<lambda>cfg.
         io_bind (io_try (promote_current name)) (\<lambda>_.
           io_return (name, role_str (wc_role cfg)))))"

definition reimport_demo :: "('pk, 'sk) gui_world \<Rightarrow> str \<Rightarrow> (str \<times> str) io" where
  "reimport_demo G identity =
     io_bind (watch G identity DEMO_ZKV_ADDRESS (Some DEMO_DB_NAME)) (\<lambda>resp.
     io_bind (io_try mark_provisioned) (\<lambda>_. io_return resp))"

definition inspect_address :: "codec \<Rightarrow> str \<Rightarrow> addr_error + (str \<times> str \<times> u32)" where
  "inspect_address C address =
     try_ok (parse_zkv_addr C (trim address)) (\<lambda>parsed.
       Ok (network_name (network_from_type (pz_network parsed)), pool_label (pz_pool parsed),
           pz_birthday parsed))"

definition verify_phrase :: "('pk, 'sk) gui_world \<Rightarrow> str \<Rightarrow> str \<Rightarrow> data_error + bool" where
  "verify_phrase G phrase address =
     (let sw = gw_seed G
      in try_ok (map_err (\<lambda>_. BadAddress address) (parse_zkv_addr (sw_codec sw) (trim address))) (\<lambda>parsed.
         try_ok (parsed_phrase sw phrase) (\<lambda>m.
         try_ok (key_of_phrase sw (network_from_type (pz_network parsed)) m) (\<lambda>key.
         try_ok (receiver_domain sw (pz_ufvk parsed) (pz_pool parsed) (pz_network parsed)) (\<lambda>want.
         try_ok (receiver_domain sw key (pz_pool parsed) (pz_network parsed)) (\<lambda>got.
           Ok (want = got)))))))"

definition restore ::
    "('pk, 'sk) gui_world \<Rightarrow> str \<Rightarrow> str \<Rightarrow> network \<Rightarrow> shielded_pool \<Rightarrow> u32 option \<Rightarrow> machine \<Rightarrow>
     machine \<times> (gui_error + str \<times> str)" where
  "restore G name phrase net pool birthday M =
     (case birthday of
        None \<Rightarrow> (M, Err GNoBirthday)
      | Some h \<Rightarrow>
          on_disk
            (io_bind (restore_admin_with_pool (gw_os G) (gw_seed G) name net phrase (Some h) pool) (\<lambda>cfg.
             io_bind (io_try (promote_current name)) (\<lambda>_.
               io_return (name, role_str (wc_role cfg))))) M)"

section \<open>Forgetting\<close>

text \<open>
  What is left of the local files when the directory is gone. The wallet of a member is in its shard
  and stays.
\<close>

definition erased_files :: "wallet_config \<Rightarrow> local_db \<Rightarrow> local_db" where
  "erased_files cfg L =
     (let gone = L\<lparr>lo_snapshot := empty_file, lo_pending := NoFile\<rparr>
      in if wc_engine cfg = Fleet then gone
         else gone\<lparr>lo_wallet := \<lparr>wd_notes = [], wd_sent_notes = [], wd_transactions = [], wd_accounts = [],
                     wd_block_time = Map.empty, wd_spends = []\<rparr>, lo_tip := 0, lo_scanned := 0\<rparr>)"

definition clear_current :: "str \<Rightarrow> disk \<Rightarrow> disk" where
  "clear_current name s =
     (if current_db s = Ok (Some name) then disk_del [CURRENT_MARKER] s else s)"

definition forget ::
    "('pk, 'sk) gui_world \<Rightarrow> str \<Rightarrow> gui \<times> machine \<Rightarrow> (gui \<times> machine) \<times> (gui_error + unit)" where
  "forget G name S =
     (let (g, M) = S
      in case read_config (os_public (gw_os G)) (fst M) name of
           Inl e \<Rightarrow> (S, Err (classify_unknown name e))
         | Inr cfg \<Rightarrow>
             (let d = clear_current name (io_final (erase_wallet_state (gw_os G) name) (fst M))
              in ((g\<lparr>gu_paused := gu_paused g - {name}, gu_cache := (gu_cache g)(name := None)\<rparr>,
                   (d, (snd M)(name := erased_files cfg (snd M name)))), Ok ())))"

definition reveal_phrase :: "('pk, 'sk) gui_world \<Rightarrow> str \<Rightarrow> machine \<Rightarrow> machine \<times> (gui_error + str \<times> str)" where
  "reveal_phrase G name M =
     (case read_config (os_public (gw_os G)) (fst M) name of
        Inl e \<Rightarrow> (M, Err (classify_unknown name e))
      | Inr cfg \<Rightarrow>
          if wc_role cfg = Watch then (M, Err (GZkv ZWatchOnly))
          else map_prod id (\<lambda>r. try_ok r (\<lambda>phrase. Ok (name, phrase)))
                 (on_disk (decrypt_mnemonic_phrase (gw_seed G) cfg) M))"

definition set_current :: "str \<Rightarrow> machine \<Rightarrow> machine \<times> (gui_error + unit)" where
  "set_current name = on_disk (set_current_db name)"

section \<open>Pausing and settings\<close>

text \<open>Beside the state: whether the shared nodes are shut down.\<close>

definition set_pause :: "str \<Rightarrow> bool \<Rightarrow> gui \<Rightarrow> gui \<times> bool" where
  "set_pause name paused g =
     (let g1 = g\<lparr>gu_paused := (if paused then insert name (gu_paused g) else gu_paused g - {name})\<rparr>
      in if paused then (g1\<lparr>gu_cancel := True\<rparr>, True) else (g1, False))"

definition set_pause_all :: "bool \<Rightarrow> gui \<Rightarrow> gui \<times> bool" where
  "set_pause_all paused g =
     (let g1 = g\<lparr>gu_paused_all := paused\<rparr>
      in (if paused then g1\<lparr>gu_cancel := True\<rparr> else g1, False))"

definition clamp_workers :: "nat \<Rightarrow> nat" where
  "clamp_workers n = max 1 (min n MAX_SYNC_WORKERS)"

definition set_settings ::
    "nat \<Rightarrow> bool option \<Rightarrow> gui \<times> machine \<Rightarrow> (gui \<times> machine) \<times> (nat \<times> bool)" where
  "set_settings workers fleet_watch S =
     (let (g, M) = S; n = clamp_workers workers;
          d = (case fleet_watch of None \<Rightarrow> fst M | Some on \<Rightarrow> io_final (set_fleet_default on) (fst M))
      in ((g\<lparr>gu_workers := n\<rparr>, (d, snd M)), (n, fleet_is_default d)))"

section \<open>The status line\<close>

record status_resp =
  st_server :: str
  st_current :: "str option"
  st_databases :: nat
  st_network :: "str option"
  st_chain_tip :: "u32 option"
  st_synced :: "u32 option"
  st_sync_workers :: nat
  st_paused_all :: bool
  st_demo_reimport :: bool
  st_onboarded :: bool
  st_out_of_date :: bool

text \<open>
  \<open>mainnet_probe\<close> is the height a mainnet server reports, if it answers, and \<open>build\<close> and \<open>clock\<close> what
  \<open>build_out_of_date\<close> reads. The verdict is kept once it has been reached.
\<close>

definition status ::
    "('pk, 'sk) gui_world \<Rightarrow> u32 option \<Rightarrow> nat \<Rightarrow> nat option \<Rightarrow> gui \<times> machine \<Rightarrow>
     (gui \<times> machine) \<times> (gui_error + status_resp)" where
  "status G mainnet_probe build clock S =
     (let (g, M) = S; names = list_dbs (fst M)
      in case current_db (fst M) of
           Inl e \<Rightarrow> (S, Err (GData e))
         | Inr current \<Rightarrow>
             (let opened = (case current of
                    None \<Rightarrow> None
                  | Some name \<Rightarrow>
                      Some (name, io_final (open_database (gw_os G) name) (fst M),
                            io_result (open_database (gw_os G) name) (fst M)));
                  d = (case opened of None \<Rightarrow> fst M | Some (_, d, _) \<Rightarrow> d);
                  handle = (case opened of Some (name, _, Inr cfg) \<Rightarrow> Some (name, cfg) | _ \<Rightarrow> None);
                  net = map_option (\<lambda>(_, cfg). wc_network cfg) handle;
                  tip = (case handle of
                           None \<Rightarrow> None
                         | Some (name, _) \<Rightarrow>
                             (case chain_tip (gd_world (gw_db G name)) of Inl _ \<Rightarrow> None | Inr t \<Rightarrow> Some t));
                  synced = (case handle of
                           None \<Rightarrow> None
                         | Some (name, _) \<Rightarrow> gui_synced (gw_db G name) (snd M name));
                  mainnet_tip = (if net = Some MainNet then tip else mainnet_probe);
                  verdict = (case gu_out_of_date g of
                           Some b \<Rightarrow> b
                         | None \<Rightarrow> build_out_of_date build clock mainnet_tip)
              in ((g\<lparr>gu_out_of_date := Some verdict\<rparr>, (d, snd M)),
                  Ok \<lparr>st_server = (case net of None \<Rightarrow> gu_server_label g
                                    | Some n \<Rightarrow> server_endpoint (gu_conn g) n),
                      st_current = current, st_databases = length names,
                      st_network = map_option network_name net, st_chain_tip = tip, st_synced = synced,
                      st_sync_workers = gu_workers g, st_paused_all = gu_paused_all g,
                      st_demo_reimport = should_offer_reimport d, st_onboarded = was_onboarded d,
                      st_out_of_date = verdict\<rparr>)))"

record server_row =
  sr_server :: str
  sr_online :: bool
  sr_block_height :: "nat option"
  sr_backend :: "str option"

definition probe_server :: "'chan transport \<Rightarrow> connection_args \<Rightarrow> network \<Rightarrow> server_row" where
  "probe_server T conn net =
     (case server_info_of T conn net of
        Inr info \<Rightarrow>
          \<lparr>sr_server = si_endpoint info, sr_online = True, sr_block_height = Some (si_block_height info),
           sr_backend = Some (si_backend info)\<rparr>
      | Inl _ \<Rightarrow>
          \<lparr>sr_server = server_endpoint conn net, sr_online = False, sr_block_height = None,
           sr_backend = None\<rparr>)"

definition probe_servers :: "'chan transport \<Rightarrow> gui \<Rightarrow> server_row \<times> server_row" where
  "probe_servers T g = (probe_server T (gu_conn g) MainNet, probe_server T (gu_conn g) TestNet)"

text \<open>The drawing of a code of \<open>n\<close> modules a side; \<open>dark\<close> is the list of its colours.\<close>

definition qr_path :: "nat \<Rightarrow> bool list \<Rightarrow> str" where
  "qr_path n dark =
     concat [''M'' @ dec (x + 4) @ '' '' @ dec (y + 4) @ ''h1v1h-1z''.
             y \<leftarrow> [0..<n], x \<leftarrow> [0..<n], dark ! (y * n + x)]"

definition qr_svg :: "nat \<Rightarrow> bool list \<Rightarrow> str" where
  "qr_svg n dark =
     (let dim = dec (n + 8); q = [CHR 0x22]
      in ''<svg xmlns='' @ q @ ''http://www.w3.org/2000/svg'' @ q @ '' viewBox='' @ q @ ''0 0 '' @ dim @ '' '' @ dim @ q @
         '' shape-rendering='' @ q @ ''crispEdges'' @ q @ '' role='' @ q @ ''img'' @ q @ '' aria-label='' @ q @
         ''QR code'' @ q @ ''><rect width='' @ q @ dim @ q @ '' height='' @ q @ dim @ q @ '' fill='' @ q @
         ''#ffffff'' @ q @ ''/><path d='' @ q @ qr_path n dark @ q @ '' fill='' @ q @ ''#000000'' @ q @
         ''/></svg>'')"

end
