(* ===== verification/Gui_Loop.thy ===== *)
theory Gui_Loop
  imports Gui_Actions
begin

text \<open>
  \<open>run_auto_sync\<close> of \<open>gui/engine.rs\<close> and what may happen beside it, as steps. A cycle lists the
  databases, drops the paused ones, clears the cancel flag and spawns one task for each; a task takes
  one of the permits, looks at the pauses again, waits for the lock of its database, scans, and records
  the outcome. The interactive operations hold the same locks, and the pauses may be changed at any
  moment. The order of the steps is left open.
\<close>

section \<open>Outcomes\<close>

datatype scan_outcome = ScanOk | ScanFailed str

definition clear_failure :: "str \<Rightarrow> gui \<Rightarrow> gui" where
  "clear_failure name g =
     g\<lparr>gu_errors := (gu_errors g)(name := None), gu_fail_counts := (gu_fail_counts g)(name := None)\<rparr>"

definition record_outcome :: "str \<Rightarrow> scan_outcome \<Rightarrow> gui \<Rightarrow> gui" where
  "record_outcome name out g =
     (case out of
        ScanOk \<Rightarrow> clear_failure name g
      | ScanFailed raw \<Rightarrow>
          if is_benign_sync_error raw then clear_failure name g
          else (let strikes = unwrap_or (gu_fail_counts g name) 0 + 1;
                    g1 = g\<lparr>gu_fail_counts := (gu_fail_counts g)(name \<mapsto> strikes)\<rparr>
                in if SYNC_ERROR_THRESHOLD \<le> strikes
                   then g1\<lparr>gu_errors := (gu_errors g1)(name \<mapsto> friendly_sync_error raw)\<rparr> else g1))"

section \<open>The loop\<close>

datatype phase = Asleep | Listed "str list" | Chosen "str list" | Draining

record auto_sync =
  as_gui :: gui
  as_phase :: phase
  as_permits :: nat
  as_queued :: "str list"       \<comment> \<open>spawned, without a permit\<close>
  as_waiting :: "str list"      \<comment> \<open>past the check, waiting for the lock\<close>
  as_scanning :: "str list"     \<comment> \<open>the lock held, the scan running\<close>
  as_held :: "str set"          \<comment> \<open>locks of interactive operations\<close>

definition start_loop :: "gui \<Rightarrow> auto_sync" where
  "start_loop g =
     \<lparr>as_gui = g, as_phase = Asleep, as_permits = 0, as_queued = [], as_waiting = [], as_scanning = [],
      as_held = {}\<rparr>"

text \<open>The check of a task that has got its permit.\<close>

definition must_not_start :: "gui \<Rightarrow> str \<Rightarrow> bool" where
  "must_not_start g name \<longleftrightarrow> gu_paused_all g \<or> gu_cancel g \<or> name \<in> gu_paused g"

definition lock_free :: "auto_sync \<Rightarrow> str \<Rightarrow> bool" where
  "lock_free S name \<longleftrightarrow> name \<notin> as_held S \<and> name \<notin> List.set (as_scanning S)"

definition unpaused :: "gui \<Rightarrow> str list \<Rightarrow> str list" where
  "unpaused g names = filter (\<lambda>n. n \<notin> gu_paused g) names"

definition spawn :: "str list \<Rightarrow> auto_sync \<Rightarrow> auto_sync" where
  "spawn names S =
     S\<lparr>as_gui := (as_gui S)\<lparr>gu_cancel := False\<rparr>, as_phase := Draining,
       as_permits := max (gu_workers (as_gui S)) 1, as_queued := names\<rparr>"

datatype cycle_step =
    Wake "str list" | Choose | Spawn | Skip str | Admit str | Begin str | Finish str scan_outcome | Drained

text \<open>The listing of a directory names no database twice; when it fails the list is empty.\<close>

fun cycle_next :: "cycle_step \<Rightarrow> auto_sync \<Rightarrow> auto_sync option" where
  "cycle_next (Wake names) S =
     (if as_phase S = Asleep \<and> distinct names
      then Some (if gu_paused_all (as_gui S) then S else S\<lparr>as_phase := Listed names\<rparr>) else None)"
| "cycle_next Choose S =
     (case as_phase S of Listed names \<Rightarrow> Some (S\<lparr>as_phase := Chosen (unpaused (as_gui S) names)\<rparr>) | _ \<Rightarrow> None)"
| "cycle_next Spawn S = (case as_phase S of Chosen names \<Rightarrow> Some (spawn names S) | _ \<Rightarrow> None)"
| "cycle_next (Skip n) S =
     (if n \<in> List.set (as_queued S) \<and> 0 < as_permits S \<and> must_not_start (as_gui S) n
      then Some (S\<lparr>as_queued := remove1 n (as_queued S)\<rparr>) else None)"
| "cycle_next (Admit n) S =
     (if n \<in> List.set (as_queued S) \<and> 0 < as_permits S \<and> \<not> must_not_start (as_gui S) n
      then Some (S\<lparr>as_queued := remove1 n (as_queued S), as_waiting := n # as_waiting S,
                   as_permits := as_permits S - 1\<rparr>) else None)"
| "cycle_next (Begin n) S =
     (if n \<in> List.set (as_waiting S) \<and> lock_free S n
      then Some (S\<lparr>as_waiting := remove1 n (as_waiting S), as_scanning := n # as_scanning S\<rparr>) else None)"
| "cycle_next (Finish n out) S =
     (if n \<in> List.set (as_scanning S)
      then Some (S\<lparr>as_scanning := remove1 n (as_scanning S), as_permits := as_permits S + 1,
                   as_gui := record_outcome n out (as_gui S)\<rparr>) else None)"
| "cycle_next Drained S =
     (if as_phase S = Draining \<and> as_queued S = [] \<and> as_waiting S = [] \<and> as_scanning S = []
      then Some (S\<lparr>as_phase := Asleep\<rparr>) else None)"

text \<open>What the pages do meanwhile; \<open>forget\<close> holds the lock while it works.\<close>

datatype page_step =
    Acquire str | Release str | Pause str bool | PauseAll bool | Settings nat | Forgotten str | Polled "str \<rightharpoonup> cached_summary"

fun page_next :: "page_step \<Rightarrow> auto_sync \<Rightarrow> auto_sync option" where
  "page_next (Acquire n) S = (if lock_free S n then Some (S\<lparr>as_held := insert n (as_held S)\<rparr>) else None)"
| "page_next (Release n) S = (if n \<in> as_held S then Some (S\<lparr>as_held := as_held S - {n}\<rparr>) else None)"
| "page_next (Pause n b) S = Some (S\<lparr>as_gui := fst (set_pause n b (as_gui S))\<rparr>)"
| "page_next (PauseAll b) S = Some (S\<lparr>as_gui := fst (set_pause_all b (as_gui S))\<rparr>)"
| "page_next (Settings k) S = Some (S\<lparr>as_gui := (as_gui S)\<lparr>gu_workers := clamp_workers k\<rparr>\<rparr>)"
| "page_next (Forgotten n) S =
     (if n \<in> as_held S
      then Some (S\<lparr>as_gui := (as_gui S)\<lparr>gu_paused := gu_paused (as_gui S) - {n},
                     gu_cache := (gu_cache (as_gui S))(n := None)\<rparr>\<rparr>) else None)"
| "page_next (Polled cache) S = Some (S\<lparr>as_gui := (as_gui S)\<lparr>gu_cache := cache\<rparr>\<rparr>)"

inductive sync_step :: "auto_sync \<Rightarrow> auto_sync \<Rightarrow> bool" where
  cycle: "cycle_next c S = Some S' \<Longrightarrow> sync_step S S'"
| page: "page_next p S = Some S' \<Longrightarrow> sync_step S S'"

inductive reached :: "auto_sync \<Rightarrow> bool" where
  start: "reached (start_loop (new_engine conn))"
| step: "reached S \<Longrightarrow> sync_step S S' \<Longrightarrow> reached S'"

inductive_cases sync_stepE: "sync_step S S'"

section \<open>The invariant\<close>

definition in_flight :: "auto_sync \<Rightarrow> str list" where
  "in_flight S = as_waiting S @ as_scanning S"

definition quiet :: "auto_sync \<Rightarrow> bool" where
  "quiet S \<longleftrightarrow> as_queued S = [] \<and> as_waiting S = [] \<and> as_scanning S = []"

definition loop_inv :: "auto_sync \<Rightarrow> bool" where
  "loop_inv S \<longleftrightarrow>
     distinct (as_queued S @ in_flight S) \<and>
     (as_phase S \<noteq> Draining \<longrightarrow> quiet S) \<and>
     (\<forall>ns. as_phase S = Listed ns \<or> as_phase S = Chosen ns \<longrightarrow> distinct ns) \<and>
     as_permits S + length (in_flight S) \<le> MAX_SYNC_WORKERS \<and>
     (as_phase S = Draining \<longrightarrow> 0 < as_permits S + length (in_flight S)) \<and>
     gu_workers (as_gui S) \<le> MAX_SYNC_WORKERS \<and>
     as_held S \<inter> List.set (as_scanning S) = {} \<and>
     (\<forall>n \<in> List.set (in_flight S).
        gu_paused_all (as_gui S) \<or> n \<in> gu_paused (as_gui S) \<longrightarrow> gu_cancel (as_gui S))"

lemma clear_failure_simps [simp]:
  "gu_paused (clear_failure n g) = gu_paused g" "gu_cancel (clear_failure n g) = gu_cancel g"
  "gu_paused_all (clear_failure n g) = gu_paused_all g" "gu_workers (clear_failure n g) = gu_workers g"
  "gu_errors (clear_failure n g) = (gu_errors g)(n := None)"
  "gu_fail_counts (clear_failure n g) = (gu_fail_counts g)(n := None)"
  by (simp_all add: clear_failure_def)

lemma record_outcome_simps [simp]:
  "gu_paused (record_outcome n out g) = gu_paused g" "gu_cancel (record_outcome n out g) = gu_cancel g"
  "gu_paused_all (record_outcome n out g) = gu_paused_all g"
  "gu_workers (record_outcome n out g) = gu_workers g"
  by (simp_all add: record_outcome_def Let_def split: scan_outcome.splits)

lemma set_pause_simps [simp]:
  "gu_paused (fst (set_pause n b g)) = (if b then insert n (gu_paused g) else gu_paused g - {n})"
  "gu_cancel (fst (set_pause n b g)) = (b \<or> gu_cancel g)"
  "gu_paused_all (fst (set_pause n b g)) = gu_paused_all g"
  "gu_workers (fst (set_pause n b g)) = gu_workers g"
  by (simp_all add: set_pause_def Let_def)

lemma set_pause_all_simps [simp]:
  "gu_paused (fst (set_pause_all b g)) = gu_paused g"
  "gu_cancel (fst (set_pause_all b g)) = (b \<or> gu_cancel g)"
  "gu_paused_all (fst (set_pause_all b g)) = b"
  "gu_workers (fst (set_pause_all b g)) = gu_workers g"
  by (simp_all add: set_pause_all_def Let_def)

lemma clamp_workers_bounds: "1 \<le> clamp_workers k" "clamp_workers k \<le> MAX_SYNC_WORKERS"
  by (simp_all add: clamp_workers_def MAX_SYNC_WORKERS_def)

lemma length_remove1_less: "x \<in> List.set xs \<Longrightarrow> Suc (length (remove1 x xs)) = length xs"
  by (induction xs) auto

lemma loop_inv_start: "loop_inv (start_loop (new_engine conn))"
  by (simp add: loop_inv_def start_loop_def in_flight_def quiet_def new_engine_def MAX_SYNC_WORKERS_def
      DEFAULT_SYNC_WORKERS_def)

lemma loop_inv_cycle:
  assumes "loop_inv S" "cycle_next c S = Some S'"
  shows "loop_inv S'"
proof (cases c)
  case (Wake names)
  with assms show ?thesis by (auto simp: loop_inv_def in_flight_def quiet_def split: if_splits)
next
  case Choose
  with assms show ?thesis
    by (auto simp: loop_inv_def in_flight_def quiet_def unpaused_def split: phase.splits)
next
  case Spawn
  with assms show ?thesis
    by (auto simp: loop_inv_def in_flight_def quiet_def spawn_def MAX_SYNC_WORKERS_def split: phase.splits)
next
  case (Skip n)
  then have S': "S' = S\<lparr>as_queued := remove1 n (as_queued S)\<rparr>" and n: "n \<in> List.set (as_queued S)"
    using assms(2) by (simp_all split: if_splits)
  have "List.set (remove1 n (as_queued S)) \<subseteq> List.set (as_queued S)" by (rule set_remove1_subset)
  moreover have "\<not> quiet S" using n by (auto simp: quiet_def)
  ultimately show ?thesis
    using assms(1) unfolding loop_inv_def S' by (simp add: in_flight_def distinct_remove1) blast
next
  case (Admit n)
  then have S': "S' = S\<lparr>as_queued := remove1 n (as_queued S), as_waiting := n # as_waiting S,
        as_permits := as_permits S - 1\<rparr>"
    and n: "n \<in> List.set (as_queued S)" "0 < as_permits S" "\<not> must_not_start (as_gui S) n"
    using assms(2) by (simp_all split: if_splits)
  note I = assms(1) [unfolded loop_inv_def in_flight_def]
  have d: "distinct (as_queued S)" using I by simp
  have r: "List.set (remove1 n (as_queued S)) = List.set (as_queued S) - {n}" by (rule set_remove1_eq [OF d])
  have "distinct (as_queued S' @ in_flight S')"
    using I n(1) by (auto simp: in_flight_def S' r distinct_remove1)
  moreover have "\<not> quiet S" using n by (auto simp: quiet_def)
  moreover have "\<forall>m \<in> List.set (in_flight S').
      gu_paused_all (as_gui S') \<or> m \<in> gu_paused (as_gui S') \<longrightarrow> gu_cancel (as_gui S')"
    using I n(3) by (simp add: S' in_flight_def must_not_start_def)
  moreover have "as_permits S' + length (in_flight S') = as_permits S + length (in_flight S)"
    using n(2) by (simp add: S' in_flight_def)
  ultimately show ?thesis
    using assms(1) unfolding loop_inv_def by (simp add: S')
next
  case (Begin n)
  then have S': "S' = S\<lparr>as_waiting := remove1 n (as_waiting S), as_scanning := n # as_scanning S\<rparr>"
    and n: "n \<in> List.set (as_waiting S)" "lock_free S n"
    using assms(2) by (simp_all split: if_splits)
  note I = assms(1) [unfolded loop_inv_def in_flight_def]
  have d: "distinct (as_waiting S)" using I by simp
  have r: "List.set (remove1 n (as_waiting S)) = List.set (as_waiting S) - {n}" by (rule set_remove1_eq [OF d])
  have s: "List.set (in_flight S') = List.set (in_flight S)" using n(1) by (auto simp: in_flight_def S' r)
  have l: "length (in_flight S') = length (in_flight S)"
    using length_remove1_less [OF n(1)] by (simp add: in_flight_def S')
  have "distinct (as_queued S' @ in_flight S')"
    using I n(1) by (auto simp: in_flight_def S' r distinct_remove1)
  moreover have "\<not> quiet S" using n(1) by (auto simp: quiet_def)
  moreover have "as_held S' \<inter> List.set (as_scanning S') = {}" using I n(2) by (simp add: S' lock_free_def)
  ultimately show ?thesis
    using assms(1) unfolding loop_inv_def s l by (simp add: S')
next
  case (Finish n out)
  then have S': "S' = S\<lparr>as_scanning := remove1 n (as_scanning S), as_permits := as_permits S + 1,
        as_gui := record_outcome n out (as_gui S)\<rparr>" and n: "n \<in> List.set (as_scanning S)"
    using assms(2) by (simp_all split: if_splits)
  note I = assms(1) [unfolded loop_inv_def in_flight_def]
  have sub: "List.set (remove1 n (as_scanning S)) \<subseteq> List.set (as_scanning S)" by (rule set_remove1_subset)
  have s: "List.set (in_flight S') \<subseteq> List.set (in_flight S)" using sub by (auto simp: in_flight_def S')
  have l: "as_permits S' + length (in_flight S') = as_permits S + length (in_flight S)"
    using length_remove1_less [OF n] by (simp add: in_flight_def S')
  have "distinct (as_queued S' @ in_flight S')"
    using I sub by (auto simp: in_flight_def S' distinct_remove1)
  moreover have "\<not> quiet S" using n by (auto simp: quiet_def)
  moreover have "as_held S' \<inter> List.set (as_scanning S') = {}" using I sub by (auto simp: S')
  moreover have "\<forall>m \<in> List.set (in_flight S').
      gu_paused_all (as_gui S') \<or> m \<in> gu_paused (as_gui S') \<longrightarrow> gu_cancel (as_gui S')"
    using assms(1) s by (auto simp: loop_inv_def S')
  ultimately show ?thesis
    using assms(1) unfolding loop_inv_def l by (simp add: S')
next
  case Drained
  then have S': "S' = S\<lparr>as_phase := Asleep\<rparr>"
    and e: "as_queued S = []" "as_waiting S = []" "as_scanning S = []"
    using assms(2) by (simp_all split: if_splits)
  show ?thesis using assms(1) unfolding loop_inv_def S' in_flight_def quiet_def by (simp add: e)
qed

text \<open>The pages leave the tasks alone; what they change of the state only cancels.\<close>

lemma loop_inv_gui:
  assumes "loop_inv S" "gu_workers g \<le> MAX_SYNC_WORKERS"
    and "\<And>n. n \<in> List.set (in_flight S) \<Longrightarrow> gu_paused_all g \<or> n \<in> gu_paused g \<Longrightarrow> gu_cancel g"
  shows "loop_inv (S\<lparr>as_gui := g\<rparr>)"
  using assms by (simp add: loop_inv_def in_flight_def quiet_def)

lemma loop_inv_held:
  assumes "loop_inv S" "H \<inter> List.set (as_scanning S) = {}"
  shows "loop_inv (S\<lparr>as_held := H\<rparr>)"
  using assms by (simp add: loop_inv_def in_flight_def quiet_def)

lemma loop_inv_cancels:
  "loop_inv S \<Longrightarrow> n \<in> List.set (in_flight S) \<Longrightarrow>
   gu_paused_all (as_gui S) \<or> n \<in> gu_paused (as_gui S) \<Longrightarrow> gu_cancel (as_gui S)"
  unfolding loop_inv_def by blast

lemma loop_inv_workers: "loop_inv S \<Longrightarrow> gu_workers (as_gui S) \<le> MAX_SYNC_WORKERS"
  by (simp add: loop_inv_def)

lemma loop_inv_locks: "loop_inv S \<Longrightarrow> as_held S \<inter> List.set (as_scanning S) = {}"
  by (simp add: loop_inv_def)

lemma loop_inv_page:
  assumes "loop_inv S" "page_next p S = Some S'"
  shows "loop_inv S'"
proof (cases p)
  case (Acquire n)
  with assms loop_inv_locks [OF assms(1)] show ?thesis
    by (auto simp: lock_free_def split: if_splits intro!: loop_inv_held)
next
  case (Release n)
  with assms loop_inv_locks [OF assms(1)] show ?thesis
    by (auto split: if_splits intro!: loop_inv_held)
next
  case (Pause n b)
  with assms loop_inv_cancels [OF assms(1)] loop_inv_workers [OF assms(1)] show ?thesis
    by (auto intro!: loop_inv_gui split: if_splits)
next
  case (PauseAll b)
  with assms loop_inv_cancels [OF assms(1)] loop_inv_workers [OF assms(1)] show ?thesis
    by (auto intro!: loop_inv_gui)
next
  case (Settings k)
  with assms loop_inv_cancels [OF assms(1)] clamp_workers_bounds(2) [of k] show ?thesis
    by (auto intro!: loop_inv_gui)
next
  case (Forgotten n)
  with assms loop_inv_cancels [OF assms(1)] loop_inv_workers [OF assms(1)] show ?thesis
    by (auto intro!: loop_inv_gui split: if_splits)
next
  case (Polled cache)
  with assms loop_inv_cancels [OF assms(1)] loop_inv_workers [OF assms(1)] show ?thesis
    by (auto intro!: loop_inv_gui)
qed

lemma reached_inv: "reached S \<Longrightarrow> loop_inv S"
proof (induction rule: reached.induct)
  case (start conn)
  show ?case by (rule loop_inv_start)
next
  case (step S S')
  from step(2) step(3) show ?case by (cases rule: sync_step.cases) (blast intro: loop_inv_cycle loop_inv_page)+
qed

end
