(* ===== verification/Gui_Server.thy ===== *)
theory Gui_Server
  imports Gui_Actions
begin

text \<open>
  The browser transport of \<open>gui/mod.rs\<close>: the guard of \<open>/api\<close>, the routes, the page and its assets, and
  the answers errors become. A request has its path split at the slashes and the two headers the guard
  reads, where their bytes are text. The framework's matching is modelled as its documentation has it:
  a nested path that no route matches goes to the fallback, and the guard is around the routes only.
\<close>

section \<open>The guard\<close>

record app_state =
  ap_token :: str
  ap_port :: nat

record request =
  rq_method :: str
  rq_path :: "str list"
  rq_host :: "str option"
  rq_token :: "str option"

definition host_is_local :: "str option \<Rightarrow> nat \<Rightarrow> bool" where
  "host_is_local host port =
     (case host of
        None \<Rightarrow> False
      | Some h \<Rightarrow>
          List.member [''127.0.0.1:'' @ dec port, ''localhost:'' @ dec port, ''[::1]:'' @ dec port] h)"

text \<open>The bytes in eight bits, their differences collected by \<open>OR\<close>.\<close>

definition byte_word :: "char \<Rightarrow> 8 word" where
  "byte_word c = word_of_nat (byte c)"

definition constant_time_eq :: "bytes \<Rightarrow> bytes \<Rightarrow> bool" where
  "constant_time_eq a b =
     (if length a \<noteq> length b then False
      else foldl (\<lambda>diff (x, y). or diff (xor (byte_word x) (byte_word y))) 0 (zip a b) = 0)"

datatype guard_verdict = Admitted | Forbidden | Unauthenticated

definition guard :: "app_state \<Rightarrow> request \<Rightarrow> guard_verdict" where
  "guard st req =
     (if \<not> host_is_local (rq_host req) (ap_port st) then Forbidden
      else if \<not> constant_time_eq (unwrap_or (rq_token req) []) (ap_token st) then Unauthenticated
      else Admitted)"

section \<open>The routes\<close>

datatype handler =
    HStatus | HServers | HLicenses | HList | HCreate | HGeneratePhrase | HOpenDataDir | HDetail | HForget
  | HRevealPhrase | HHistory | HRejections | HRoles | HFunding | HSync | HPause | HInit | HFaucetFunds
  | HFaucetInit | HSignPreview | HSet | HDel | HSignMemo | HSend | HCheckAddress | HWatch | HReimportDemo
  | HMarkOnboarded | HInspectAddress | HVerifyPhrase | HRestore | HCurrent | HSettings | HPauseAll | HQr

datatype segment = Lit str | Param

definition routes :: "(str \<times> segment list \<times> handler) list" where
  "routes =
     (let db = (\<lambda>rest. [Lit ''databases'', Param] @ rest)
      in [(''GET'', [Lit ''status''], HStatus), (''GET'', [Lit ''servers''], HServers),
          (''GET'', [Lit ''licenses''], HLicenses), (''GET'', [Lit ''databases''], HList),
          (''POST'', [Lit ''databases''], HCreate), (''POST'', [Lit ''phrase''], HGeneratePhrase),
          (''POST'', [Lit ''open-data-dir''], HOpenDataDir), (''GET'', db [], HDetail),
          (''DELETE'', db [], HForget), (''POST'', db [Lit ''reveal-phrase''], HRevealPhrase),
          (''GET'', db [Lit ''history''], HHistory), (''GET'', db [Lit ''rejections''], HRejections),
          (''GET'', db [Lit ''roles''], HRoles), (''GET'', db [Lit ''funding''], HFunding),
          (''POST'', db [Lit ''sync''], HSync), (''POST'', db [Lit ''pause''], HPause),
          (''POST'', db [Lit ''init''], HInit), (''POST'', db [Lit ''faucet''], HFaucetFunds),
          (''POST'', db [Lit ''faucet-init''], HFaucetInit),
          (''POST'', db [Lit ''sign-preview''], HSignPreview), (''POST'', db [Lit ''keys''], HSet),
          (''DELETE'', db [Lit ''keys'', Param], HDel), (''POST'', db [Lit ''sign''], HSignMemo),
          (''POST'', db [Lit ''send''], HSend), (''POST'', db [Lit ''check-address''], HCheckAddress),
          (''POST'', [Lit ''watch''], HWatch), (''POST'', [Lit ''reimport-demo''], HReimportDemo),
          (''POST'', [Lit ''onboarded''], HMarkOnboarded),
          (''POST'', [Lit ''inspect-address''], HInspectAddress),
          (''POST'', [Lit ''verify-phrase''], HVerifyPhrase), (''POST'', [Lit ''restore''], HRestore),
          (''POST'', [Lit ''current''], HCurrent), (''POST'', [Lit ''settings''], HSettings),
          (''POST'', [Lit ''pause-all''], HPauseAll), (''GET'', [Lit ''qr''], HQr)])"

fun match_path :: "segment list \<Rightarrow> str list \<Rightarrow> str list option" where
  "match_path [] [] = Some []"
| "match_path (Lit l # ps) (s # ss) = (if s = l then match_path ps ss else None)"
| "match_path (Param # ps) (s # ss) = (if s = [] then None else map_option ((#) s) (match_path ps ss))"
| "match_path _ _ = None"

text \<open>A \<open>get\<close> route answers \<open>HEAD\<close> as well.\<close>

definition method_fits :: "str \<Rightarrow> str \<Rightarrow> bool" where
  "method_fits route_method m \<longleftrightarrow> m = route_method \<or> (route_method = ''GET'' \<and> m = ''HEAD'')"

definition path_known :: "str list \<Rightarrow> bool" where
  "path_known path = list_ex (\<lambda>(m, pat, h). match_path pat path \<noteq> None) routes"

definition find_handler :: "str \<Rightarrow> str list \<Rightarrow> (handler \<times> str list) option" where
  "find_handler method path =
     Option.bind (List.find (\<lambda>(m, pat, h). method_fits m method \<and> match_path pat path \<noteq> None) routes)
       (\<lambda>(m, pat, h). map_option (\<lambda>args. (h, args)) (match_path pat path))"

section \<open>The page and its assets\<close>

definition CSS :: str where "CSS = ''text/css; charset=utf-8''"
definition JS :: str where "JS = ''text/javascript; charset=utf-8''"
definition SVG :: str where "SVG = ''image/svg+xml''"
definition WOFF2 :: str where "WOFF2 = ''font/woff2''"
definition TXT :: str where "TXT = ''text/plain; charset=utf-8''"

text \<open>The paths and types of the embedded files.\<close>

definition ASSETS :: "(str \<times> str) list" where
  "ASSETS =
     [(''styles.css'', CSS), (''api.js'', JS), (''forms.js'', JS), (''design-system/app.css'', CSS),
      (''design-system/colors_and_type.css'', CSS), (''design-system/assets/logo-mark-dark.svg'', SVG),
      (''vendor/react.production.min.js'', JS), (''vendor/react-dom.production.min.js'', JS),
      (''vendor/lucide.min.js'', JS), (''js/icon.js'', JS), (''js/chrome.js'', JS),
      (''js/dashboard.js'', JS), (''js/keys.js'', JS), (''js/writeflow.js'', JS), (''js/flows.js'', JS),
      (''js/discover.js'', JS), (''js/reference.js'', JS), (''js/app.js'', JS),
      (''fonts/ibm-plex-sans-latin-400-normal.woff2'', WOFF2),
      (''fonts/ibm-plex-sans-latin-500-normal.woff2'', WOFF2),
      (''fonts/ibm-plex-sans-latin-600-normal.woff2'', WOFF2),
      (''fonts/ibm-plex-sans-latin-700-normal.woff2'', WOFF2),
      (''fonts/ibm-plex-mono-latin-400-normal.woff2'', WOFF2),
      (''fonts/ibm-plex-mono-latin-500-normal.woff2'', WOFF2),
      (''fonts/ibm-plex-mono-latin-600-normal.woff2'', WOFF2),
      (''fonts/ibm-plex-serif-latin-400-normal.woff2'', WOFF2),
      (''fonts/ibm-plex-serif-latin-500-normal.woff2'', WOFF2),
      (''fonts/ibm-plex-serif-latin-400-italic.woff2'', WOFF2),
      (''fonts/ibm-plex-serif-latin-500-italic.woff2'', WOFF2), (''fonts/OFL.txt'', TXT)]"

definition asset_lookup :: "str \<Rightarrow> (str \<times> str) option" where
  "asset_lookup path = List.find (\<lambda>(p, mime). p = path) ASSETS"

definition content_security_policy :: "str \<Rightarrow> str" where
  "content_security_policy nonce =
     (let q = [CHR 0x27]; self = q @ ''self'' @ q; none = q @ ''none'' @ q
      in ''default-src '' @ self @ ''; script-src '' @ self @ '' '' @ q @ ''nonce-'' @ nonce @ q @
         ''; object-src '' @ none @ ''; base-uri '' @ none @ ''; frame-ancestors '' @ none @
         ''; form-action '' @ self)"

datatype response =
    Page str str                     \<comment> \<open>\<open>index.html\<close> with the token, and its policy\<close>
  | AssetFile str str
  | NotFound
  | ErrorAnswer nat str
  | MethodNotAllowed
  | Answer str

text \<open>\<open>nonce\<close> is the fresh one of the answer.\<close>

definition static_handler :: "app_state \<Rightarrow> str \<Rightarrow> str list \<Rightarrow> response" where
  "static_handler st nonce path =
     (let p = join_with ''/'' path
      in if p = [] \<or> p = ''index.html'' then Page (ap_token st) (content_security_policy nonce)
         else (case asset_lookup (dropWhile (\<lambda>c. c = CHR ''/'') p) of
                 Some (file, mime) \<Rightarrow> AssetFile file mime
               | None \<Rightarrow> NotFound))"

section \<open>Serving a request\<close>

text \<open>\<open>run\<close> is the handler: it may change the state and answers.\<close>

definition serve ::
    "(handler \<Rightarrow> str list \<Rightarrow> 's \<Rightarrow> 's \<times> response) \<Rightarrow> app_state \<Rightarrow> str \<Rightarrow> request \<Rightarrow> 's \<Rightarrow> 's \<times> response" where
  "serve run st nonce req s =
     (case rq_path req of
        p # path \<Rightarrow>
          if p = ''api'' \<and> path_known path
          then (case guard st req of
                  Forbidden \<Rightarrow> (s, ErrorAnswer 403 ''bad_host'')
                | Unauthenticated \<Rightarrow> (s, ErrorAnswer 401 ''bad_token'')
                | Admitted \<Rightarrow>
                    (case find_handler (rq_method req) path of
                       None \<Rightarrow> (s, MethodNotAllowed)
                     | Some (h, args) \<Rightarrow> run h args s))
          else (s, static_handler st nonce (rq_path req))
      | [] \<Rightarrow> (s, static_handler st nonce []))"

section \<open>Requests and errors\<close>

definition api_network :: "str \<Rightarrow> (nat \<times> str \<times> str) + network" where
  "api_network name = map_err (\<lambda>msg. (400, ''bad_network'', msg)) (network_parse name)"

definition api_pool :: "str option \<Rightarrow> network \<Rightarrow> (nat \<times> str \<times> str) + shielded_pool" where
  "api_pool label net =
     (case label of
        None \<Rightarrow> Ok (default_pool_for_network net)
      | Some v \<Rightarrow> map_err (\<lambda>msg. (400, ''bad_pool'', msg)) (parse_pool v))"

definition default_network :: str where "default_network = ''mainnet''"

fun zkv_api_code :: "zkv_error \<Rightarrow> nat \<times> str" where
  "zkv_api_code ZNotInitialized = (409, ''not_initialized'')"
| "zkv_api_code (ZInitializing d r) = (409, ''initializing'')"
| "zkv_api_code ZWatchOnly = (403, ''watch_only'')"
| "zkv_api_code Importing = (409, ''importing'')"
| "zkv_api_code (ZImportFailed r) = (422, ''import_failed'')"
| "zkv_api_code (Unauthorized e) = (403, ''unauthorized'')"
| "zkv_api_code (ZInsufficientFunds a r p) = (402, ''insufficient_funds'')"
| "zkv_api_code (ZClientUpgradeRequired r s operation) = (426, ''client_upgrade_required'')"
| "zkv_api_code e = (500, ''error'')"

fun api_code :: "gui_error \<Rightarrow> nat \<times> str" where
  "api_code (GUnknown name) = (404, ''unknown_database'')"
| "api_code GNotSynced = (409, ''not_synced'')"
| "api_code GStaleTip = (503, ''stale_tip'')"
| "api_code (GZkv e) = zkv_api_code e"
| "api_code (GSyncFailed SyncImporting) = (409, ''importing'')"
| "api_code (GSyncFailed (SyncOpen e)) = zkv_api_code e"
| "api_code e = (500, ''error'')"

fun api_amounts :: "gui_error \<Rightarrow> (nat \<times> nat \<times> nat) option" where
  "api_amounts (GZkv (ZInsufficientFunds available required incoming)) = Some (available, required, incoming)"
| "api_amounts e = None"

section \<open>Properties of the guard\<close>

lemma byte_word_inject: "byte_word x = byte_word y \<longleftrightarrow> x = y"
proof -
  have b: "byte c < 256" for c by (simp add: byte_def)
  have u: "unat (byte_word c) = byte c" for c
    using b [of c] by (simp add: byte_word_def unsigned_of_nat take_bit_nat_eq_self)
  have "byte_word x = byte_word y \<longleftrightarrow> byte x = byte y" by (metis u byte_word_def)
  then show ?thesis by (simp add: byte_def)
qed

lemma xor_byte_zero: "xor (byte_word x) (byte_word y) = 0 \<longleftrightarrow> x = y"
proof
  assume "xor (byte_word x) (byte_word y) = 0"
  then have "xor (xor (byte_word x) (byte_word y)) (byte_word y) = byte_word y" by simp
  then show "x = y" by (simp add: xor.assoc byte_word_inject)
qed simp

lemma or_fold_zero:
  fixes d :: "8 word"
  shows "foldl (\<lambda>diff (x, y). or diff (xor (byte_word x) (byte_word y))) d xs = 0 \<longleftrightarrow>
    d = 0 \<and> list_all (\<lambda>(x, y). x = y) xs"
proof (induction xs arbitrary: d)
  case (Cons p xs)
  obtain x y where p: "p = (x, y)" by force
  show ?case by (simp add: p Cons.IH or_eq_0_iff xor_byte_zero)
qed simp

lemma constant_time_eq_iff: "constant_time_eq a b \<longleftrightarrow> a = b"
proof -
  have "length a = length b \<Longrightarrow> list_all (\<lambda>(x, y). x = y) (zip a b) \<longleftrightarrow> a = b"
    by (induction a b rule: list_induct2) auto
  then show ?thesis by (auto simp: constant_time_eq_def or_fold_zero)
qed

lemma guard_admits:
  "guard st req = Admitted \<longleftrightarrow>
     (\<exists>h. rq_host req = Some h \<and>
        h \<in> {''127.0.0.1:'' @ dec (ap_port st), ''localhost:'' @ dec (ap_port st), ''[::1]:'' @ dec (ap_port st)}) \<and>
     unwrap_or (rq_token req) [] = ap_token st"
  by (auto simp: guard_def host_is_local_def constant_time_eq_iff split: option.splits)

text \<open>Whatever the handlers do, a request the guard does not admit does not reach one.\<close>

lemma serve_unguarded:
  assumes "guard st req \<noteq> Admitted"
  shows "fst (serve run st nonce req s) = s"
    and "snd (serve run st nonce req s) \<noteq> Answer a"
  using assms
  by (auto simp: serve_def static_handler_def Let_def split: list.splits guard_verdict.splits option.splits)

text \<open>
  The page is outside the guard: it hands the token to whoever asks, for whatever host, and only the
  host check of the API is left to a page of another site that has rebound its name.
\<close>

lemma page_needs_no_host:
  "serve run st nonce \<lparr>rq_method = ''GET'', rq_path = [''index.html''], rq_host = Some ''evil.example'',
     rq_token = None\<rparr> s = (s, Page (ap_token st) (content_security_policy nonce))"
  by (simp add: serve_def static_handler_def Let_def)

text \<open>On port 80 a browser names the host without its port, and every call is refused.\<close>

lemma port_80_is_refused:
  "guard \<lparr>ap_token = t, ap_port = 80\<rparr>
     \<lparr>rq_method = m, rq_path = p, rq_host = Some ''127.0.0.1'', rq_token = Some t\<rparr> = Forbidden"
  by (simp add: guard_def host_is_local_def)

text \<open>Leaving the pool out means Ironwood, not Orchard.\<close>

lemma absent_pool_is_ironwood: "api_pool None net = Ok Ironwood"
  by (simp add: api_pool_def default_pool_for_network_def ironwood_available_def)

text \<open>Every route is reached, and by its own path.\<close>

lemma routes_distinct: "distinct (map (\<lambda>(m, pat, h). (m, pat)) routes)"
  by (simp add: routes_def)

lemma routes_total: "List.set (map (\<lambda>(m, pat, h). h) routes) = UNIV"
proof -
  have "h \<in> List.set (map (\<lambda>(m, pat, h). h) routes)" for h
    by (cases h) (simp_all add: routes_def)
  then show ?thesis by blast
qed

end
