(* ===== verification/Gui_Props.thy ===== *)
theory Gui_Props
  imports Gui_Loop Gui_Server Demo_Client
begin

text \<open>
  What the pages and the background loop may rely on: the sidebar counts the table, a rejection says
  truly whether there was a signer, the loop never runs two operations on a database and cancels what
  has been paused, its cycles end, and a failure is shown when it has come twice in a row.
\<close>

section \<open>The table and its counts\<close>

definition shown :: "key_state \<Rightarrow> bool" where
  "shown ks \<longleftrightarrow> confirmed ks \<noteq> None \<or> (case last_op ks of Some (PSet _ _ _ _) \<Rightarrow> True | _ \<Rightarrow> False)"

lemma last_op_None [simp]: "pending ks = [] \<Longrightarrow> last_op ks = None"
  by (simp add: last_op_def)

lemma last_op_Some: "last_op ks = Some p \<Longrightarrow> pending ks \<noteq> []"
  by (auto simp: last_op_def split: if_splits)

lemma last_op_NoneD: "last_op ks = None \<Longrightarrow> pending ks = []"
  by (auto simp: last_op_def split: if_splits)

lemma key_row_of_cases:
  "key_row_of (k, ks) =
     (if \<not> shown ks \<and> pending ks = [] then None
      else Some \<lparr>kr_key = k, kr_value = fst (key_cell ks), kr_status = fst (snd (key_cell ks)),
             kr_txid = fst (snd (snd (key_cell ks))), kr_deleted = snd (snd (snd (key_cell ks))),
             kr_size = map_option length (fst (key_cell ks)), kr_updated_at = updated_at ks\<rparr>)"
  by (auto simp: key_row_of_def key_cell_def shown_def Let_def dest: last_op_Some last_op_NoneD
      split: option.splits pending_op.splits)

lemma cell_value: "fst (key_cell ks) \<noteq> None \<longleftrightarrow> shown ks"
  by (auto simp: key_cell_def shown_def split: option.splits pending_op.splits)

lemma cell_kind: "kt_kind (fst (snd (key_cell ks))) = ''confirmed'' \<longleftrightarrow> pending ks = []"
proof (cases "last_op ks")
  case None
  then have "pending ks = []" by (auto simp: last_op_def split: if_splits)
  with None show ?thesis by (simp add: key_cell_def)
next
  case (Some p)
  then have "pending ks \<noteq> []" by (auto simp: last_op_def split: if_splits)
  with Some show ?thesis by (cases p) (auto simp: key_cell_def)
qed

lemma count_step_eq:
  "count_step (a, b) ks = (a + (if shown ks then 1 else 0), b + (if pending ks \<noteq> [] then 1 else 0))"
  by (auto simp: shown_def Let_def split: option.splits pending_op.splits)

lemma count_fold:
  "foldl count_step (a, b) (map snd rows) =
     (a + length (filter (\<lambda>r. kr_value r \<noteq> None) (List.map_filter key_row_of rows)),
      b + length (filter (\<lambda>r. kt_kind (kr_status r) \<noteq> ''confirmed'') (List.map_filter key_row_of rows)))"
proof (induction rows arbitrary: a b)
  case Nil
  show ?case by (simp add: List.map_filter_simps)
next
  case (Cons r rows)
  obtain k ks where r: "r = (k, ks)" by force
  show ?case
    by (simp only: r list.map foldl_Cons snd_conv count_step_eq Cons.IH List.map_filter_simps key_row_of_cases)
       (simp add: cell_value cell_kind del: not_None_eq)
qed

text \<open>
  the two numbers the sidebar shows for a database are those of its table: the keys that have a
  value to show, confirmed or on the way, and the rows that are not settled.
\<close>

theorem sidebar_counts_the_table:
  "count_keys m =
     (length (filter (\<lambda>r. kr_value r \<noteq> None) (key_rows m)),
      length (filter (\<lambda>r. kt_kind (kr_status r) \<noteq> ''confirmed'') (key_rows m)))"
  by (simp add: count_keys_def key_rows_def count_fold)

text \<open>
  The second number is not a part of the first, as its comment says: a key set and deleted before
  either is confirmed is unsynced and not counted as a key.
\<close>

lemma unsynced_is_no_part:
  "count_keys [''k'' \<mapsto> \<lparr>confirmed = None, pending = [PSet ''v'' 0 3 ''t1'', PDel 0 3 ''t2''],
     updated_at = None, last_txid = None\<rparr>] = (0, 1)"
  by (simp add: count_keys_def state_rows_def count_step_eq shown_def last_op_def)

section \<open>Rejections\<close>

lemma classify_signer:
  assumes "classify_in_memory E text ws receiver root_hex r = Some c"
  shows "cl_signer_hex c = None \<longleftrightarrow> (\<exists>reason. cl_outcome c = Dropped reason \<and> is_signature_failure reason)"
proof (cases "parse_text_memo_detailed E text")
  case (Inl e)
  with assms show ?thesis by (cases e) (auto simp: classify_in_memory_def unparsed_def)
next
  case (Inr cmd)
  have ok: "\<not> is_signature_failure reason" if "authorize a s op ex = Err reason" for a s op ex reason
    using that by (auto simp: authorize_def Let_def split: option.splits authority.splits if_splits)
  have "\<not> is_signature_failure reason"
    if "decide op key signer root_hex ws i a f ex = Dropped reason" for op key signer i a f ex reason
    using that ok by (auto simp: decide_def Let_def split: if_splits write_status.splits sum.splits)
  with assms Inr show ?thesis
    by (auto simp: classify_in_memory_def classify_parsed_def Let_def split: option.splits if_splits)
qed

lemma apply_management_reason:
  "snd (apply_management E op key v a) = Err reason \<Longrightarrow> \<not> is_signature_failure reason"
  by (auto simp: apply_management_def Let_def split: option.splits op.splits if_splits)

lemma apply_version_reason:
  "snd (apply_version key v s) = Err reason \<Longrightarrow> \<not> is_signature_failure reason"
  by (auto simp: apply_version_def transition_allowed_def Let_def split: option.splits if_splits sum.splits)

lemma applied_reason:
  assumes "snd (apply_applied E op c txid bt root r) = Dropped reason"
  shows "\<not> is_signature_failure reason"
proof -
  have r: "result_outcome x = Dropped reason \<longleftrightarrow> x = Err reason" for x by (cases x) simp_all
  from assms show ?thesis
    using apply_management_reason [of E _ _ _ _ reason] apply_version_reason [of _ _ _ reason]
    by (cases op) (auto simp: apply_applied_def Let_def case_prod_beta r)
qed

lemma audit_row_signer:
  assumes "classify_in_memory E text ws receiver root r = Some c"
    and "apply_in_memory E c ws txid bt root r = Some (r', Dropped reason)"
  shows "cl_signer_hex c = None \<longleftrightarrow> is_signature_failure reason"
proof (cases "cl_outcome c")
  case Applied
  with assms(2) have "\<exists>op. snd (apply_applied E op c txid bt root r) = Dropped reason"
    by (cases "cl_op c") (auto simp: apply_in_memory_def, metis snd_conv)
  with applied_reason [of E _ c txid bt root r reason] classify_signer [OF assms(1)] Applied show ?thesis
    by auto
next
  case Pending
  with assms show ?thesis
    by (cases "cl_op c") (auto simp: apply_in_memory_def split: write_status.splits)
next
  case (Dropped d)
  with assms classify_signer [OF assms(1)] show ?thesis by (auto simp: apply_in_memory_def)
qed

lemma audit_loop_signers:
  assumes "audit_loop E receiver root es r = Some (rows, r')" "row \<in> List.set rows"
    and "ar_outcome row = Dropped reason"
  shows "ar_signer row = None \<longleftrightarrow> is_signature_failure reason"
  using assms
proof (induction es arbitrary: r rows)
  case (Cons e es r rows)
  show ?case
  proof (cases "classify_in_memory E (ae_text e) (ae_status e) receiver root r")
    case None
    with Cons show ?thesis by simp
  next
    case (Some c)
    obtain r1 out rows1 r2 where a: "apply_in_memory E c (ae_status e) (ae_txid e) None root r = Some (r1, out)"
      and l: "audit_loop E receiver root es r1 = Some (rows1, r2)"
      and rows: "rows = audit_row_of e c out # rows1"
      using Cons.prems(1) Some by (auto split: option.splits)
    show ?thesis
    proof (cases "row = audit_row_of e c out")
      case True
      with Cons.prems(3) a audit_row_signer [OF Some] show ?thesis by (auto simp: audit_row_of_def)
    next
      case False
      with rows Cons.prems(2) have "row \<in> List.set rows1" by simp
      moreover have "r2 = r'" using Cons.prems(1) Some a l by simp
      ultimately show ?thesis using Cons.IH [of r1 rows1] Cons.prems(3) l by simp
    qed
  qed
qed simp

lemma rejection_entries:
  "rj \<in> List.set (rp_entries (rejections_resp_of audit)) \<longleftrightarrow>
     (\<exists>row \<in> List.set (au_rows audit). rejection_of row = Some rj)"
proof -
  have "rj \<in> List.set (List.map_filter f xs) \<longleftrightarrow> (\<exists>x \<in> List.set xs. f x = Some rj)" for f xs
    by (induction xs) (auto simp: List.map_filter_simps split: option.splits)
  then show ?thesis by (simp add: rejections_resp_of_def Let_def)
qed

text \<open>
  on the page of rejections a write is marked as validly signed exactly when it names its signer,
  and the page has every dropped memo of the audit, the newest first.
\<close>

lemma rejections_name_the_signer:
  assumes "replay_audit E entries receiver pk = Some audit"
    and "rj \<in> List.set (rp_entries (rejections_resp_of audit))"
  shows "(rj_signature_valid rj \<longleftrightarrow> rj_signer rj \<noteq> None) \<and>
     rp_total (rejections_resp_of audit) =
       length (filter (\<lambda>row. \<exists>reason. ar_outcome row = Dropped reason) (au_rows audit)) \<and>
     map rj_raw (rp_entries (rejections_resp_of audit)) =
       rev (map ar_raw (filter (\<lambda>row. \<exists>reason. ar_outcome row = Dropped reason) (au_rows audit)))"
proof -
  obtain rows r where l: "audit_loop E receiver (pubkey_bech32 E pk) entries empty_replay = Some (rows, r)"
    and rows: "au_rows audit = rows"
    using assms(1) by (auto simp: replay_audit_def)
  obtain row where row: "row \<in> List.set rows" "rejection_of row = Some rj"
    using assms(2) rows by (auto simp: rejection_entries)
  then obtain reason where o: "ar_outcome row = Dropped reason"
    and v: "rj_signature_valid rj = (\<not> is_signature_failure reason)" "rj_signer rj = ar_signer row"
    by (auto simp: rejection_of_def split: row_outcome.splits)
  have f: "List.map_filter rejection_of xs = map (the \<circ> rejection_of)
      (filter (\<lambda>row. \<exists>reason. ar_outcome row = Dropped reason) xs)" for xs
    by (induction xs) (auto simp: List.map_filter_simps rejection_of_def split: row_outcome.splits)
  have w: "map rj_raw (List.map_filter rejection_of xs) =
      map ar_raw (filter (\<lambda>row. \<exists>reason. ar_outcome row = Dropped reason) xs)" for xs
    by (induction xs) (auto simp: List.map_filter_simps rejection_of_def split: row_outcome.splits)
  show ?thesis
    using audit_loop_signers [OF l row(1) o] v w [of rows] f [of rows]
    by (simp add: rejections_resp_of_def Let_def rows rev_map)
qed

text \<open>A write of the root before the database is initialised.\<close>

definition demo_early :: audit_entry where
  "demo_early =
     \<lparr>ae_mined_height = Some 1, ae_timestamp = None, ae_txid = ''t'',
      ae_text = re_text (demo_put 0 Confirmed), ae_status = Confirmed\<rparr>"

lemma demo_early_audit:
  "\<exists>audit row. replay_audit model_crates [demo_early] ''main:00'' CHR ''A'' = Some audit \<and>
     au_rows audit = [row] \<and> ar_outcome row = Dropped NotInitialized \<and> ar_signer row = Some demo_root"
proof -
  let ?E = "model_crates" and ?cmd = "demo_command Set ''k'' (Some ''v'') 0"
  have p: "parse_text_memo_detailed ?E (re_text (demo_put 0 Confirmed)) = Ok ?cmd"
    using demo_parse [OF demo_ok_put, of 0] by (simp add: demo_put_def)
  have "classify_parsed ?E ?cmd Confirmed ''main:00'' demo_root empty_replay =
      (Some demo_root, Dropped NotInitialized)"
    by (simp add: classify_parsed_def demo_recover empty_replay_def seq_in_window_def demo_root_def decide_def)
  with p have "\<exists>c. classify_in_memory ?E (re_text (demo_put 0 Confirmed)) Confirmed ''main:00'' demo_root empty_replay =
      Some c \<and> cl_signer_hex c = Some demo_root \<and> cl_outcome c = Dropped NotInitialized"
    by (simp add: classify_in_memory_def)
  then show ?thesis
    by (auto simp: replay_audit_def demo_early_def audit_row_of_def apply_in_memory_def demo_root_def)
qed

section \<open>Errors of the background loop\<close>

text \<open>The outcomes of a database's scans, the last one first.\<close>

definition clears :: "scan_outcome \<Rightarrow> bool" where
  "clears out = (case out of ScanOk \<Rightarrow> True | ScanFailed raw \<Rightarrow> is_benign_sync_error raw)"

definition strikes_of :: "scan_outcome list \<Rightarrow> str list" where
  "strikes_of outs =
     List.map_filter (\<lambda>out. case out of ScanOk \<Rightarrow> None | ScanFailed raw \<Rightarrow> Some raw)
       (takeWhile (\<lambda>out. \<not> clears out) outs)"

fun banner :: "str list \<Rightarrow> str option" where
  "banner (raw # before # rest) = Some (friendly_sync_error raw)"
| "banner _ = None"

definition fail_count :: "str list \<Rightarrow> u32 option" where
  "fail_count raws = (if raws = [] then None else Some (length raws))"

lemma strikes_Cons:
  "strikes_of (out # outs) =
     (case out of ScanOk \<Rightarrow> []
      | ScanFailed raw \<Rightarrow> if is_benign_sync_error raw then [] else raw # strikes_of outs)"
  by (simp add: strikes_of_def clears_def List.map_filter_simps split: scan_outcome.splits)

lemma outcomes_fold:
  assumes "gu_errors g n = None" "gu_fail_counts g n = None"
  shows "gu_errors (foldr (record_outcome n) outs g) n = banner (strikes_of outs) \<and>
    gu_fail_counts (foldr (record_outcome n) outs g) n = fail_count (strikes_of outs)"
proof (induction outs)
  case Nil
  then show ?case using assms by (simp add: strikes_of_def fail_count_def List.map_filter_simps)
next
  case (Cons out outs)
  show ?case
  proof (cases out)
    case ScanOk
    then show ?thesis by (simp add: strikes_Cons record_outcome_def fail_count_def)
  next
    case (ScanFailed raw)
    show ?thesis
    proof (cases "is_benign_sync_error raw")
      case True
      with ScanFailed show ?thesis by (simp add: strikes_Cons record_outcome_def fail_count_def)
    next
      case False
      then show ?thesis
        using Cons.IH ScanFailed
        by (cases "strikes_of outs")
           (auto simp: strikes_Cons record_outcome_def fail_count_def SYNC_ERROR_THRESHOLD_def Let_def)
    qed
  qed
qed

lemma record_other:
  "m \<noteq> n \<Longrightarrow> gu_errors (record_outcome n out g) m = gu_errors g m"
  by (auto simp: record_outcome_def clear_failure_def Let_def split: scan_outcome.splits)

text \<open>
  the warning of a database is shown exactly when its last two scans at least failed with an error
  that is not a passing one, and it is the text of the last of them; no scan touches the warning of
  another database.
\<close>

lemma banner_needs_two_failures:
  assumes "gu_errors g n = None" "gu_fail_counts g n = None"
  shows "gu_errors (foldr (record_outcome n) outs g) n = banner (strikes_of outs) \<and>
     (m = n \<or> gu_errors (foldr (record_outcome n) outs g) m = gu_errors g m)"
proof -
  have "m \<noteq> n \<Longrightarrow> gu_errors (foldr (record_outcome n) outs g) m = gu_errors g m"
    by (induction outs) (simp_all add: record_other)
  with outcomes_fold [OF assms, of outs] show ?thesis by blast
qed

text \<open>A database that another process holds is told so.\<close>

lemma busy_is_told:
  "friendly_sync_error (busy_text name) =
     ''Another zkv process is using this database. It will sync once that finishes.''"
proof -
  have "ascii_lower (busy_text name) =
      ''database '' @ [CHR 0x27] @ ascii_lower name @ [CHR 0x27] @ '' is in use by another process''"
    by (simp add: busy_text_def ascii_lower_def byte_def)
  moreover have "sublist ''in use by another process'' (a @ ''in use by another process'')" for a
    by (simp add: sublist_def) blast
  from this [of "''database '' @ [CHR 0x27] @ ascii_lower name @ [CHR 0x27] @ '' is ''"]
  have "sublist ''in use by another process''
      (''database '' @ [CHR 0x27] @ ascii_lower name @ [CHR 0x27] @ '' is in use by another process'')"
    by simp
  ultimately show ?thesis by (simp add: friendly_sync_error_def Let_def)
qed

text \<open>
  Forgetting a database clears its pause and its summary, so that a database of the same name does not
  inherit them; its warning and its strikes stay for the next one.
\<close>

lemma forget_keeps_the_warning:
  assumes "forget G n (g, M) = ((g', M'), Ok u)"
  shows "gu_errors g' n = gu_errors g n \<and> gu_fail_counts g' n = gu_fail_counts g n \<and>
    n \<notin> gu_paused g' \<and> gu_cache g' n = None"
  using assms by (auto simp: forget_def Let_def split: sum.splits)

text \<open>
  Pausing one database cancels the scans of all and shuts the shared nodes down, which the comment gives
  as the effect of pausing everything; pausing everything does not.
\<close>

lemma one_pause_shuts_the_nodes_down: "snd (set_pause n True g) \<and> \<not> snd (set_pause_all True g)"
  by (simp add: set_pause_def set_pause_all_def Let_def)

text \<open>The name of a watched database: a \<open>zkv1\<close> address has no colon, so all get the same one.\<close>

lemma watch_name_is_fixed: "CHR '':'' \<notin> List.set addr \<Longrightarrow> watch_name addr None = ''watch''"
  by (simp add: watch_name_def derive_watch_name_def text_simps)

text \<open>The server shown is the base one, also where the network has one of its own.\<close>

lemma override_is_not_shown:
  assumes "ca_server conn = Hosted ZecRocks" "ca_mainnet conn = Some (Custom [fixed ''my.node'' 9067])"
  shows "server_endpoint conn MainNet = show_server (fixed ''zec.rocks'' 443)"
    and "pick (servers_for conn MainNet) MainNet = Ok (fixed ''my.node'' 9067)"
  using assms by (simp_all add: server_endpoint_def pick_def servers_for_def ZEC_ROCKS_MAINNET_def)

section \<open>The loop\<close>

text \<open>
  C37. in every state the loop and the pages can reach together, at most \<open>MAX_SYNC_WORKERS\<close> databases
  are in flight and none twice, a scan and an interactive operation never hold the same database, and a
  scan of a database that has been paused, alone or with all, is under a raised cancel flag.
\<close>

theorem sync_loop_is_safe:
  assumes "reached S" and "n \<in> List.set (in_flight S)"
  shows "length (in_flight S) \<le> MAX_SYNC_WORKERS \<and> distinct (in_flight S) \<and>
     (n \<notin> List.set (as_scanning S) \<or> n \<notin> as_held S) \<and>
     (gu_cancel (as_gui S) \<or> \<not> gu_paused_all (as_gui S) \<and> n \<notin> gu_paused (as_gui S))"
proof -
  note I = reached_inv [OF assms(1)]
  show ?thesis
    using I loop_inv_cancels [OF I assms(2)] loop_inv_locks [OF I] by (auto simp: loop_inv_def)
qed

text \<open>One database is scanned when a page pauses it.\<close>

lemma reached_cycle: "reached S \<Longrightarrow> cycle_next c S = Some S' \<Longrightarrow> reached S'"
  by (rule reached.step [OF _ sync_step.cycle])

lemma reached_page: "reached S \<Longrightarrow> page_next p S = Some S' \<Longrightarrow> reached S'"
  by (rule reached.step [OF _ sync_step.page])

definition demo_scanning :: auto_sync where
  "demo_scanning =
     \<lparr>as_gui = new_engine default_connection, as_phase = Draining, as_permits = 4, as_queued = [],
      as_waiting = [], as_scanning = [''a''], as_held = {}\<rparr>"

lemma demo_scanning_reached: "reached demo_scanning"
proof -
  let ?g = "new_engine default_connection"
  have "reached (start_loop ?g)" by (rule reached.start)
  then have "reached ((start_loop ?g)\<lparr>as_phase := Listed [''a'']\<rparr>)"
    by (rule reached_cycle [of _ "Wake [''a'']"]) (simp add: start_loop_def new_engine_def)
  then have "reached ((start_loop ?g)\<lparr>as_phase := Chosen [''a'']\<rparr>)"
    by (rule reached_cycle [of _ Choose]) (simp add: start_loop_def new_engine_def unpaused_def)
  then have "reached ((start_loop ?g)\<lparr>as_phase := Draining, as_permits := 5, as_queued := [''a'']\<rparr>)"
    by (rule reached_cycle [of _ Spawn]) (simp add: start_loop_def new_engine_def spawn_def DEFAULT_SYNC_WORKERS_def)
  then have "reached ((start_loop ?g)\<lparr>as_phase := Draining, as_permits := 4, as_waiting := [''a'']\<rparr>)"
    by (rule reached_cycle [of _ "Admit ''a''"]) (simp add: start_loop_def new_engine_def must_not_start_def)
  then show ?thesis
    by (rule reached_cycle [of _ "Begin ''a''"]) (simp add: start_loop_def demo_scanning_def lock_free_def)
qed

theorem sync_loop_is_safe_witness:
  "\<exists>S. page_next (Pause ''a'' True) demo_scanning = Some S \<and> in_flight S = [''a''] \<and>
     ''a'' \<in> gu_paused (as_gui S) \<and> gu_cancel (as_gui S) \<and> ''a'' \<notin> as_held S"
proof -
  let ?S = "demo_scanning\<lparr>as_gui := fst (set_pause ''a'' True (new_engine default_connection))\<rparr>"
  have p: "page_next (Pause ''a'' True) demo_scanning = Some ?S" by (simp add: demo_scanning_def)
  have "''a'' \<in> List.set (in_flight ?S)" by (simp add: demo_scanning_def in_flight_def)
  from sync_loop_is_safe [OF reached_page [OF demo_scanning_reached p] this] p show ?thesis
    by (simp add: demo_scanning_def in_flight_def)
qed

text \<open>The steps left in a cycle, and that one can always be taken.\<close>

definition steps_left :: "auto_sync \<Rightarrow> nat" where
  "steps_left S =
     (if as_phase S = Draining then 1 else 0) +
     3 * length (as_queued S) + 2 * length (as_waiting S) + length (as_scanning S)"

lemma length_remove1_pred: "x \<in> List.set xs \<Longrightarrow> length (remove1 x xs) < length xs"
  using length_remove1_less [of x xs] by simp

lemma cycle_step_less:
  assumes "cycle_next c S = Some S'" "as_phase S = Draining"
  shows "steps_left S' < steps_left S"
proof (cases c)
  case (Begin n)
  with assms length_remove1_less [of n "as_waiting S"] show ?thesis
    by (auto simp: steps_left_def split: if_splits)
next
  case (Finish n out)
  with assms length_remove1_less [of n "as_scanning S"] show ?thesis
    by (auto simp: steps_left_def split: if_splits)
next
  case (Skip n)
  with assms length_remove1_less [of n "as_queued S"] show ?thesis
    by (auto simp: steps_left_def split: if_splits)
next
  case (Admit n)
  with assms length_remove1_less [of n "as_queued S"] show ?thesis
    by (auto simp: steps_left_def split: if_splits)
qed (use assms in \<open>auto simp: steps_left_def split: if_splits\<close>)

text \<open>
  C38. a cycle ends. Whatever the answers of its scans, every step of its tasks brings it nearer to its
  end, and as long as no page holds a database that a task waits for there is a step to take.
\<close>

theorem cycle_always_ends:
  assumes "reached S" "as_phase S = Draining" "as_held S \<inter> List.set (as_waiting S) = {}"
  shows "(\<exists>c S'. cycle_next c S = Some S') \<and>
     (\<forall>c S'. cycle_next c S = Some S' \<longrightarrow> steps_left S' < steps_left S)"
proof
  note I = reached_inv [OF assms(1)]
  show "\<exists>c S'. cycle_next c S = Some S'"
  proof (cases "as_scanning S")
    case (Cons n ns)
    then have "cycle_next (Finish n ScanOk) S \<noteq> None" by simp
    then show ?thesis by blast
  next
    case Nil
    show ?thesis
    proof (cases "as_waiting S")
      case (Cons n ns)
      then have "lock_free S n" using Nil assms(3) by (auto simp: lock_free_def)
      then have "cycle_next (Begin n) S \<noteq> None" using Cons by simp
      then show ?thesis by blast
    next
      case none: Nil
      have p: "0 < as_permits S" using I assms(2) Nil none by (simp add: loop_inv_def in_flight_def)
      show ?thesis
      proof (cases "as_queued S")
        case (Cons n ns)
        then have "cycle_next (if must_not_start (as_gui S) n then Skip n else Admit n) S \<noteq> None"
          using p by simp
        then show ?thesis by blast
      next
        case q: Nil
        then have "cycle_next Drained S \<noteq> None" using assms(2) Nil none by simp
        then show ?thesis by blast
      qed
    qed
  qed
qed (use assms(2) cycle_step_less in blast)

theorem cycle_always_ends_witness:
  "\<exists>c S'. cycle_next c demo_scanning = Some S' \<and> steps_left S' < steps_left demo_scanning"
proof -
  have "as_phase demo_scanning = Draining" "as_held demo_scanning \<inter> List.set (as_waiting demo_scanning) = {}"
    by (simp_all add: demo_scanning_def)
  from cycle_always_ends [OF demo_scanning_reached this] show ?thesis by blast
qed

section \<open>The guard\<close>

text \<open>
  C39. Whatever the handlers do, a request that changes anything or gets an answer of the API names one of
  the three loopback aliases with the bound port as its host and carries the very token of the session,
  and what happens is what the handler of its route does.
\<close>

theorem api_needs_host_and_token:
  assumes "serve run st nonce req s = (s', resp)" and "s' \<noteq> s \<or> (\<exists>a. resp = Answer a)"
  shows "(\<exists>h. rq_host req = Some h \<and>
        h \<in> {''127.0.0.1:'' @ dec (ap_port st), ''localhost:'' @ dec (ap_port st), ''[::1]:'' @ dec (ap_port st)}) \<and>
     unwrap_or (rq_token req) [] = ap_token st \<and>
     (\<exists>path h args. rq_path req = ''api'' # path \<and> find_handler (rq_method req) path = Some (h, args) \<and>
        run h args s = (s', resp))"
proof -
  have g: "guard st req = Admitted"
    using assms serve_unguarded [of st req run nonce s] by (metis fst_conv snd_conv)
  have "\<exists>path h args. rq_path req = ''api'' # path \<and> find_handler (rq_method req) path = Some (h, args) \<and>
      run h args s = (s', resp)"
    using assms g
    by (auto simp: serve_def static_handler_def Let_def split: list.splits if_splits option.splits)
  with g show ?thesis by (simp only: guard_admits)
qed

text \<open>The page pauses everything; the handler counts its calls.\<close>

definition demo_request :: request where
  "demo_request =
     \<lparr>rq_method = ''POST'', rq_path = [''api'', ''pause-all''], rq_host = Some (''localhost:'' @ dec 8080),
      rq_token = Some ''tok''\<rparr>"

definition demo_app :: app_state where
  "demo_app = \<lparr>ap_token = ''tok'', ap_port = 8080\<rparr>"

lemma demo_request_serve:
  "serve (\<lambda>h args n. (Suc n, Answer [])) demo_app ''n'' demo_request 3 = (4, Answer [])"
proof -
  have g: "guard demo_app demo_request = Admitted"
    by (simp add: guard_admits demo_app_def demo_request_def)
  have k: "path_known [''pause-all'']" by (simp add: path_known_def routes_def)
  have "find_handler ''POST'' [''pause-all''] = Some (HPauseAll, [])"
    by (simp add: find_handler_def routes_def method_fits_def)
  with g k show ?thesis by (simp add: serve_def demo_request_def)
qed

theorem api_needs_host_and_token_witness:
  "serve (\<lambda>h args n. (Suc n, Answer [])) demo_app ''n'' demo_request (3 :: nat) = (4, Answer []) \<and>
   unwrap_or (rq_token demo_request) [] = ap_token demo_app"
  using api_needs_host_and_token [OF demo_request_serve] demo_request_serve by simp

end
