(* ===== verification/Gui_Cache.thy ===== *)
theory Gui_Cache
  imports Gui_Engine Demo_Client Admin_Props Sync_Props
begin

text \<open>
  The summaries of the sidebar are kept under the height the wallet has scanned to and a fingerprint of
  the pending file (\<open>summarize_db_full\<close> of \<open>gui/engine.rs\<close>). Here is what that is worth: as long as the
  wallet's tables and its tip are those of the cached poll, and the hash does not collide, the counts
  that are shown are the counts of a fresh read.
\<close>

section \<open>What the fingerprint is taken of\<close>

lemma valid_scalar_below_255: "valid_scalar_bytes xs \<Longrightarrow> x \<in> List.set xs \<Longrightarrow> x < 255"
  by (cases xs rule: valid_scalar_bytes.cases) (auto simp: utf8_cont_def)

lemma utf8_no_255: "utf8_valid s \<Longrightarrow> 255 \<notin> byte ` List.set s"
proof -
  assume v: "utf8_valid s"
  have "byte c < 255" if c: "c \<in> List.set s" for c
  proof -
    have "c \<in> (\<Union>sc \<in> List.set (scalars s). List.set sc)" using c by (metis set_concat concat_scalars)
    then obtain sc where "sc \<in> List.set (scalars s)" "c \<in> List.set sc" by blast
    then show ?thesis
      using v valid_scalar_below_255 [of "map byte sc" "byte c"] by (auto simp: utf8_valid_def list_all_iff)
  qed
  then show ?thesis by force
qed

lemma cut_at:
  "c \<notin> List.set as \<Longrightarrow> c \<notin> List.set bs \<Longrightarrow> as @ c # xs = bs @ c # ys \<Longrightarrow> as = bs \<and> xs = ys"
proof (induction as arbitrary: bs)
  case Nil
  then show ?case by (cases bs) auto
next
  case (Cons a as)
  then show ?case by (cases bs) auto
qed

lemma hash_str_cut:
  assumes "utf8_valid s" "utf8_valid t" "hash_str s @ xs = hash_str t @ ys"
  shows "s = t \<and> xs = ys"
proof -
  have "map byte s = map byte t \<and> xs = ys"
    by (rule cut_at [of 255]) (use assms utf8_no_255 in \<open>auto simp: hash_str_def\<close>)
  then show ?thesis by (auto simp: map_eq_conv inj_on_def dest: map_injective)
qed

lemma le_bytes_8: "le_bytes 8 n = n mod 256 # le_bytes 7 (n div 256)"
  using le_bytes.simps(2) [of 7 n] by simp

lemma hash_opt_cut:
  assumes "case s of None \<Rightarrow> True | Some v \<Rightarrow> utf8_valid v" "case t of None \<Rightarrow> True | Some v \<Rightarrow> utf8_valid v"
    and "hash_opt s @ xs = hash_opt t @ ys"
  shows "s = t \<and> xs = ys"
  using assms by (cases s; cases t) (auto simp: le_bytes_8 dest: hash_str_cut)

definition row_text :: "pending_entry \<Rightarrow> bool" where
  "row_text e \<longleftrightarrow> utf8_valid (pe_txid e) \<and> utf8_valid (pe_op e) \<and> utf8_valid (pe_key e) \<and>
     (case pe_value e of None \<Rightarrow> True | Some v \<Rightarrow> utf8_valid v)"

definition shown_row :: "pending_entry \<Rightarrow> str \<times> str \<times> str \<times> str option" where
  "shown_row e = (pe_txid e, pe_op e, pe_key e, pe_value e)"

lemma hash_entry_cut:
  assumes "row_text e" "row_text f" "hash_entry e @ xs = hash_entry f @ ys"
  shows "shown_row e = shown_row f \<and> xs = ys"
proof -
  note t = assms(1,2) [unfolded row_text_def]
  have 1: "pe_txid e = pe_txid f \<and>
      hash_str (pe_op e) @ hash_str (pe_key e) @ hash_opt (pe_value e) @ xs =
      hash_str (pe_op f) @ hash_str (pe_key f) @ hash_opt (pe_value f) @ ys"
    by (rule hash_str_cut) (use assms(3) t in \<open>auto simp: hash_entry_def\<close>)
  have 2: "pe_op e = pe_op f \<and>
      hash_str (pe_key e) @ hash_opt (pe_value e) @ xs = hash_str (pe_key f) @ hash_opt (pe_value f) @ ys"
    by (rule hash_str_cut) (use 1 t in auto)
  have 3: "pe_key e = pe_key f \<and> hash_opt (pe_value e) @ xs = hash_opt (pe_value f) @ ys"
    by (rule hash_str_cut) (use 2 t in auto)
  have "pe_value e = pe_value f \<and> xs = ys"
    by (rule hash_opt_cut) (use 3 t in auto)
  with 1 2 3 show ?thesis by (simp add: shown_row_def)
qed

lemma hash_entry_ne [simp]: "hash_entry e \<noteq> []"
  by (simp add: hash_entry_def hash_str_def)

lemma hash_rows_cut:
  assumes "list_all row_text es" "list_all row_text fs"
    and "concat (map hash_entry es) = concat (map hash_entry fs)"
  shows "map shown_row es = map shown_row fs"
  using assms
proof (induction es arbitrary: fs)
  case Nil
  then show ?case by (cases fs) auto
next
  case (Cons e es)
  then obtain f fs' where fs: "fs = f # fs'" by (cases fs) auto
  have "shown_row e = shown_row f \<and> concat (map hash_entry es) = concat (map hash_entry fs')"
    by (rule hash_entry_cut) (use Cons.prems fs in auto)
  with Cons fs show ?case by auto
qed

text \<open>An unreadable file never looks like one with rows.\<close>

lemma fingerprint_decides:
  assumes "\<And>es. x = Ok es \<Longrightarrow> list_all row_text es" "\<And>es. y = Ok es \<Longrightarrow> list_all row_text es"
    and "fingerprint_input x = fingerprint_input y"
  shows "map_sum (\<lambda>_. ()) (map shown_row) x = map_sum (\<lambda>_. ()) (map shown_row) y"
proof -
  have l: "length (le_bytes k n) = k" for k n by (induction k arbitrary: n) auto
  have bad: "le_bytes 8 (2 ^ 64 - 1) \<noteq> le_bytes 8 (length es) @ concat (map hash_entry es)"
    for es :: "pending_entry list"
  proof
    assume e: "le_bytes 8 (2 ^ 64 - 1) = le_bytes 8 (length es) @ concat (map hash_entry es)"
    from arg_cong [OF this, of length] have "concat (map hash_entry es) = []" by (simp add: l)
    then have "es = []" by (cases es) auto
    with e show False by (simp add: le_bytes_8)
  qed
  have fp: "fingerprint_input (Inl e) = le_bytes 8 (2 ^ 64 - 1)"
    "fingerprint_input (Inr es) = le_bytes 8 (length es) @ concat (map hash_entry es)" for e es
    by (simp_all only: fingerprint_input_def sum.case)
  show ?thesis
  proof (cases x)
    case x: (Inl e)
    have "y \<noteq> Inr fs" for fs
      using assms(3) bad [of fs] unfolding x by (auto simp only: fp)
    with x show ?thesis by (cases y) auto
  next
    case x: (Inr es)
    have "y \<noteq> Inl e" for e
      using assms(3) bad [of es, symmetric] unfolding x by (auto simp only: fp)
    then obtain fs where y: "y = Inr fs" by (cases y) auto
    have len: "length (le_bytes 8 (length es)) = length (le_bytes 8 (length fs))" by (simp only: l)
    have "concat (map hash_entry es) = concat (map hash_entry fs)"
      using assms(3) unfolding x y fp append_eq_append_conv [OF disjI1 [OF len]] by (rule conjunct2)
    from hash_rows_cut [OF assms(1) [OF x] assms(2) [OF y] this] show ?thesis by (simp add: x y)
  qed
qed

section \<open>What the counts depend on\<close>

definition has_value :: "key_state \<Rightarrow> bool" where
  "has_value ks \<longleftrightarrow> confirmed ks \<noteq> None \<or> (case last_op ks of Some (PSet _ _ _ _) \<Rightarrow> True | _ \<Rightarrow> False)"

text \<open>Two maps that show the same values and have the same queues.\<close>

definition alike :: "(str \<rightharpoonup> key_state) \<Rightarrow> (str \<rightharpoonup> key_state) \<Rightarrow> bool" where
  "alike m n \<longleftrightarrow>
     (\<forall>k. confirmed (entry_or_default m k) = confirmed (entry_or_default n k) \<and>
          pending (entry_or_default m k) = pending (entry_or_default n k))"

lemma alikeD:
  assumes "alike m n"
  shows "confirmed (entry_or_default m k) = confirmed (entry_or_default n k)"
    and "pending (entry_or_default m k) = pending (entry_or_default n k)"
  using assms by (simp_all add: alike_def)

lemma alike_sym: "alike m n \<Longrightarrow> alike n m"
  by (simp add: alike_def)

lemma alike_trans: "alike m n \<Longrightarrow> alike n p \<Longrightarrow> alike m p"
  by (simp add: alike_def)

lemma same_db_alike: "same_db r s \<Longrightarrow> alike (rr_state r) (rr_state s)"
  unfolding alike_def same_db_def using settled_eqD by blast

lemma default_entry [simp]:
  "confirmed default_key_state = None" "pending default_key_state = []"
  by (simp_all add: default_key_state_def)

lemma count_card:
  assumes "finite (dom m)"
  shows "count_keys m =
     (card {k. has_value (entry_or_default m k)}, card {k. pending (entry_or_default m k) \<noteq> []})"
proof -
  let ?xs = "sorted_list_of_set (dom m)"
  have step: "count_step (a, b) ks = (a + (if has_value ks then 1 else 0), b + (if pending ks \<noteq> [] then 1 else 0))"
    for a b ks
    by (auto simp: has_value_def Let_def split: option.splits pending_op.splits)
  have f: "foldl count_step (a, b) (map (\<lambda>k. entry_or_default m k) ks) =
      (a + length (filter (\<lambda>k. has_value (entry_or_default m k)) ks),
       b + length (filter (\<lambda>k. pending (entry_or_default m k) \<noteq> []) ks))" for a b ks
    by (induction ks arbitrary: a b) (simp_all add: step del: count_step.simps)
  have c: "length (filter P ?xs) = card {k \<in> dom m. P k}" for P
  proof -
    have "distinct (filter P ?xs)" by simp
    from distinct_card [OF this] have "length (filter P ?xs) = card {k \<in> List.set ?xs. P k}" by simp
    with assms show ?thesis by simp
  qed
  have o: "k \<in> dom m \<or> entry_or_default m k = default_key_state" for k
    by (cases "m k") (auto simp: entry_or_default_def)
  have d: "{k \<in> dom m. P (entry_or_default m k)} = {k. P (entry_or_default m k)}" if "\<not> P default_key_state" for P
    by (rule Collect_cong) (use o that in metis)
  have "map snd (state_rows m) = map (\<lambda>k. entry_or_default m k) ?xs"
    by (simp add: state_rows_def entry_or_default_def)
  moreover have "\<not> has_value default_key_state" by (simp add: has_value_def last_op_def)
  ultimately show ?thesis
    using d [of has_value] d [of "\<lambda>ks. pending ks \<noteq> []"] by (simp add: count_keys_def f c)
qed

lemma count_alike:
  assumes "alike m n" "finite (dom m)" "finite (dom n)"
  shows "count_keys m = count_keys n"
proof -
  have "has_value (entry_or_default m k) = has_value (entry_or_default n k)" for k
    using alikeD [OF assms(1), of k] by (simp add: has_value_def last_op_def)
  with alikeD(2) [OF assms(1)] show ?thesis by (simp add: count_card assms(2,3))
qed

section \<open>The merge of the pending rows\<close>

lemma entry_retain:
  "entry_or_default (retain_visible own m) k =
     (let ks = retain_own own (entry_or_default m k) in if m k \<noteq> None \<and> retained ks then ks else default_key_state)"
  by (cases "m k") (simp_all add: retain_visible_def prune_def entry_or_default_def Let_def)

lemma alike_retain:
  assumes "alike m n"
  shows "alike (retain_visible own m) (retain_visible own n)"
proof -
  have e: "confirmed (entry_or_default (retain_visible own p) k) = confirmed (entry_or_default p k) \<and>
      pending (entry_or_default (retain_visible own p) k) =
        (let q = filter (\<lambda>x. 1 \<le> pending_done x \<or> pending_txid x \<in> List.set own) (pending (entry_or_default p k))
         in if confirmed (entry_or_default p k) \<noteq> None \<or> list_ex is_pending_set q then q else [])" for p k
    unfolding entry_retain
    by (cases "p k") (auto simp: retained_def retain_own_def Let_def entry_or_default_def)
  show ?thesis unfolding alike_def using e alikeD [OF assms] by simp
qed

lemma seen_entries: "seen_txids m = (\<Union>k. pending_txid ` List.set (pending (entry_or_default m k)))"
proof -
  have "(\<Union>k. pending_txid ` List.set (pending (entry_or_default m k))) =
      (\<Union>k. case m k of None \<Rightarrow> {} | Some ks \<Rightarrow> pending_txid ` List.set (pending ks))"
    by (intro SUP_cong) (simp_all add: entry_or_default_def split: option.splits)
  also have "\<dots> = seen_txids m"
    by (force simp: seen_txids_def ran_def split: option.splits)
  finally show ?thesis ..
qed

lemma alike_seen: "alike m n \<Longrightarrow> seen_txids m = seen_txids n"
  using alikeD(2) by (simp add: seen_entries)

lemma alike_merge_entry:
  assumes "alike m n" "shown_row e = shown_row f"
  shows "alike (merge_entry seen mc e m) (merge_entry seen mc f n)"
  using assms alikeD [OF assms(1)]
  by (auto simp: merge_entry_def synthesized_def shown_row_def alike_def Let_def)

lemma alike_merge_entries:
  "alike m n \<Longrightarrow> map shown_row es = map shown_row fs \<Longrightarrow>
   alike (fold (merge_entry seen mc) es m) (fold (merge_entry seen mc) fs n)"
proof (induction es arbitrary: fs m n)
  case (Cons e es)
  then obtain f fs' where "fs = f # fs'" by (cases fs) auto
  with Cons alike_merge_entry show ?case by simp
qed (cases fs, simp_all)

lemma alike_merge:
  assumes "alike (rr_state r) (rr_state s)"
    and "map_sum (\<lambda>_. ()) (map shown_row) (load_pending now disk) =
      map_sum (\<lambda>_. ()) (map shown_row) (load_pending now' disk')"
  shows "alike (rr_state (merge_pending now disk mc r)) (rr_state (merge_pending now' disk' mc s))"
proof (cases "load_pending now disk")
  case (Inl e)
  with assms show ?thesis by (cases "load_pending now' disk'") (simp_all add: merge_pending_def)
next
  case (Inr es)
  with assms(2) obtain fs where fs: "load_pending now' disk' = Inr fs" and m: "map shown_row es = map shown_row fs"
    by (cases "load_pending now' disk'") auto
  have "map pe_txid es = map fst (map shown_row es)" for es by (simp add: shown_row_def)
  with m have t: "map pe_txid es = map pe_txid fs" by metis
  let ?m = "\<lambda>es q. if 1 \<le> mc then retain_visible (map pe_txid es) (rr_state q) else rr_state q"
  have a: "alike (?m es r) (?m fs s)" using assms(1) alike_retain t by simp
  have i: "rr_state (merge_init es mc q) = rr_state q" for es q by (simp add: merge_init_def)
  have l: "rr_state (merge_pending now disk mc r) = fold (merge_entry (seen_txids (?m es r)) mc) es (?m es r)"
    by (simp add: merge_pending_def Inr Let_def i split del: if_split cong: if_cong)
  have f: "rr_state (merge_pending now' disk' mc s) = fold (merge_entry (seen_txids (?m fs s)) mc) fs (?m fs s)"
    by (simp add: merge_pending_def fs Let_def i split del: if_split cong: if_cong)
  show ?thesis unfolding l f alike_seen [OF a] by (rule alike_merge_entries [OF a m])
qed

section \<open>Finitely many keys\<close>

lemma finite_apply:
  assumes "apply_in_memory E c ws txid bt root r = Some (r', out)" "finite (dom (rr_state r))"
  shows "finite (dom (rr_state r'))"
proof -
  have a: "finite (dom (rr_state (fst (apply_applied E op c txid bt root r))))" for op
    using assms(2) by (cases op) (simp_all add: apply_applied_def Let_def case_prod_beta)
  have p: "finite (dom (rr_state (apply_pending op c d q txid r)))" for op d q
    using assms(2) by (cases op) (simp_all add: apply_pending_def Let_def)
  show ?thesis
  proof (cases "cl_outcome c")
    case Applied
    with assms(1) obtain op where "apply_applied E op c txid bt root r = (r', out)"
      by (auto simp: apply_in_memory_def)
    then show ?thesis using a [of op] by simp
  next
    case Pending
    with assms p show ?thesis by (cases ws) (auto simp: apply_in_memory_def)
  next
    case (Dropped reason)
    with assms show ?thesis by (simp add: apply_in_memory_def)
  qed
qed

lemma finite_loop:
  "replay_loop E receiver root strict es r = Ok r' \<Longrightarrow> finite (dom (rr_state r)) \<Longrightarrow> finite (dom (rr_state r'))"
proof (induction es arbitrary: r)
  case (Cons e es)
  then show ?case
    by (fastforce split: option.splits if_splits dest: finite_apply)
qed simp

lemma finite_prune: "finite (dom m) \<Longrightarrow> finite (dom (prune m))"
  by (rule finite_subset [of _ "dom m"]) (auto simp: prune_def split: option.splits)

lemma finite_replay:
  assumes "replay_with_seed E es seed receiver pk strict = Ok r"
    and "\<And>s. seed = Some s \<Longrightarrow> finite (dom (rr_state s))"
  shows "finite (dom (rr_state r))"
proof -
  have "dom (clear_pending m) = dom m" for m by (auto simp: clear_pending_def)
  then have "finite (dom (rr_state (replay_start seed)))"
    using assms(2) by (cases seed) (simp_all add: replay_start_def empty_replay_def)
  with assms(1) finite_loop finite_prune show ?thesis by (fastforce simp: replay_with_seed_def try_ok_Inr)
qed

lemma finite_merge:
  assumes "finite (dom (rr_state r))"
  shows "finite (dom (rr_state (merge_pending now disk mc r)))"
proof -
  have e: "finite (dom m) \<Longrightarrow> finite (dom (merge_entry seen mc e m))" for seen e m
    by (simp add: merge_entry_def Let_def split: option.splits)
  have f: "finite (dom m) \<Longrightarrow> finite (dom (fold (merge_entry seen mc) es m))" for seen es m
    by (induction es arbitrary: m) (simp_all add: e)
  have v: "finite (dom m) \<Longrightarrow> finite (dom (retain_visible own m))" for own m
    unfolding retain_visible_def
    by (rule finite_prune) (erule rev_finite_subset, auto)
  have i: "rr_state (merge_init es mc r) = rr_state r" for es by (simp add: merge_init_def)
  show ?thesis using assms by (simp add: merge_pending_def Let_def f v i split: sum.splits)
qed

section \<open>A read of a file in use\<close>

lemma lift_Ok [simp]:
  "lift_snap x = Ok y \<longleftrightarrow> x = Ok y" "lift_replay z = Ok v \<longleftrightarrow> z = Ok v"
  by (cases x; simp) (cases z; simp)

lemma load_state_seed:
  assumes "load_state_with_height E rd pk w tip fs file mc strict = (s2, Ok (v, t))"
  shows "t = tip \<and> (\<exists>seed rest. load_seed E s2 = Ok seed \<and>
     replay_with_seed E rest (Some seed) (rd_receiver rd) pk strict = Ok v)"
proof -
  obtain s1 where h: "heal tip (open_snapshot file) = Inr s1"
    using assms by (cases "heal tip (open_snapshot file)") (simp_all add: load_state_with_height_def)
  obtain wm where wm: "read_watermark s1 = Inr wm"
    using assms h by (cases "read_watermark s1") (simp_all add: load_state_with_height_def)
  obtain P rest where part: "partition_rows E (promote_cutoff tip fs (unenhanced_floor w (rd_account_uuid rd) (rd_pool rd)))
      tip mc (rd_account_uuid rd) (scan_memos_past_watermark E w (rd_account_uuid rd) tip wm (rd_pool rd)) = (P, rest)"
    by force
  obtain s3 pr where p: "(if P = [] then (s1, Ok ()) else promote E s1 P (rd_receiver rd) pk) = (s3, pr)" by force
  have "(s3, try_ok (lift_snap pr) (\<lambda>_. try_ok (lift_snap (load_seed E s3)) (\<lambda>seed.
      try_ok (lift_replay (replay_with_seed E rest (Some seed) (rd_receiver rd) pk strict)) (\<lambda>r. Ok (r, tip))))) =
      (s2, Ok (v, t))"
    using assms by (auto simp: load_state_with_height_def h wm part p)
  then show ?thesis by (auto simp: try_ok_Inr)
qed

lemma read_in_use:
  assumes "bech32_laws E" and "key_laws E" and "in_use E rd pk rows tip file"
    and "rows = all_memos E w (rd_account_uuid rd) tip (rd_pool rd)" and "mc \<le> SAFE_DEPTH + 1"
    and "replay_with_seed E (full_stream E tip mc (rd_account_uuid rd) rows) None (rd_receiver rd) pk False = Ok full"
  shows "\<exists>s2 v. load_state_with_height E rd pk w tip fs file mc False = (s2, Ok (v, tip)) \<and>
     finite (dom (rr_state v)) \<and> alike (rr_state v) (rr_state full)"
proof -
  obtain wm r where u: "stream rows" "257 * length rows < 2 ^ 63"
      "caches E (rd_receiver rd) pk rows file wm r" "deep_enough tip wm"
    using in_use_caches [OF assms(3,1,2)] by blast
  obtain s2 wm2 r2 v where s2: "fst (load_state E rd pk w tip fs file mc False) = s2"
    and c2: "caches E (rd_receiver rd) pk rows s2 wm2 r2"
    and v: "snd (load_state E rd pk w tip fs file mc False) = Ok v" and same: "same_db v full"
    using caches_load [OF assms(1,2) u(1,3,4) assms(5) u(2) assms(4), of fs False] assms(6) by auto
  obtain t where l: "load_state_with_height E rd pk w tip fs file mc False = (s2, Ok (v, t))"
    using s2 v by (cases "load_state_with_height E rd pk w tip fs file mc False")
      (auto simp: load_state_def try_ok_Inr)
  moreover obtain seed rest where t: "t = tip" and "load_seed E s2 = Ok seed"
      and rep: "replay_with_seed E rest (Some seed) (rd_receiver rd) pk False = Ok v"
    using load_state_seed [OF l] by blast
  then have "seed = r2" using c2 by (simp add: caches_def snap_state_def)
  moreover have "finite (dom (rr_state r2))"
    using c2 finite_replay by (fastforce simp: caches_def)
  ultimately show ?thesis using l t finite_replay [OF rep] same_db_alike [OF same] by auto
qed

section \<open>The polls\<close>

text \<open>The machine at an hour: the clock is the only thing a poll asks that moves by itself.\<close>

definition at_time :: "nat \<Rightarrow> str \<Rightarrow> ('pk, 'sk) gui_world \<Rightarrow> ('pk, 'sk) gui_world" where
  "at_time now name G =
     G\<lparr>gw_db := (gw_db G)(name := (gw_db G name)\<lparr>gd_client := (gd_client (gw_db G name))\<lparr>cl_now := now\<rparr>\<rparr>)\<rparr>"

text \<open>A database that has been read and synchronised only, and whose pending file is text.\<close>

definition in_order :: "('pk, 'sk) gui_world \<Rightarrow> str \<Rightarrow> decoded_row list \<Rightarrow> local_db \<Rightarrow> bool" where
  "in_order G name rows L \<longleftrightarrow>
     (let D = gw_db G name; rd = cl_reader (gd_client D)
      in in_use (gw_crates G) rd (gd_key D) rows (lo_tip L) (lo_snapshot L) \<and>
         rows = all_memos (gw_crates G) (lo_wallet L) (rd_account_uuid rd) (lo_tip L) (rd_pool rd)) \<and>
     (case lo_pending L of Rows es \<Rightarrow> list_all row_text es | _ \<Rightarrow> True)"

definition fresh_counts :: "('pk, 'sk) gui_world \<Rightarrow> str \<Rightarrow> local_db \<Rightarrow> zkv_error + nat \<times> nat" where
  "fresh_counts G name L =
     (let D = gw_db G name
      in map_sum id (\<lambda>r. count_keys (rr_state r))
           (snd (read_db (gw_crates G) (gd_key D) (gd_client D) DefaultDepth L)))"

lemma at_time_simps [simp]:
  "gw_crates (at_time now name G) = gw_crates G" "gw_hash (at_time now name G) = gw_hash G"
  "gw_db (at_time now name G) name = (gw_db G name)\<lparr>gd_client := (gd_client (gw_db G name))\<lparr>cl_now := now\<rparr>\<rparr>"
  by (simp_all add: at_time_def)

lemma read_at_time:
  assumes "bech32_laws (gw_crates G)" "key_laws (gw_crates G)" "in_order G name rows L"
  shows "\<exists>L1 full v. read_db (gw_crates G) (gd_key (gw_db G name))
        ((gd_client (gw_db G name))\<lparr>cl_now := now\<rparr>) DefaultDepth L =
      (L1, Ok (merge_pending now (lo_pending L) 3 v)) \<and>
     replay_with_seed (gw_crates G)
       (full_stream (gw_crates G) (lo_tip L) 3 (rd_account_uuid (cl_reader (gd_client (gw_db G name)))) rows)
       None (rd_receiver (cl_reader (gd_client (gw_db G name)))) (gd_key (gw_db G name)) False = Ok full \<and>
     finite (dom (rr_state v)) \<and> alike (rr_state v) (rr_state full)"
proof -
  let ?rd = "cl_reader (gd_client (gw_db G name))"
  note o = assms(3) [unfolded in_order_def Let_def]
  obtain full where full: "replay_with_seed (gw_crates G)
      (full_stream (gw_crates G) (lo_tip L) 3 (rd_account_uuid ?rd) rows) None (rd_receiver ?rd)
      (gd_key (gw_db G name)) False = Ok full"
    by (simp add: replay_lenient)
  have mc: "(3 :: nat) \<le> SAFE_DEPTH + 1" by (simp add: SAFE_DEPTH_def)
  from read_in_use [OF assms(1,2) _ _ mc full, of "lo_snapshot L" "lo_wallet L" "lo_scanned L"] o
  obtain s2 v where "load_state_with_height (gw_crates G) ?rd (gd_key (gw_db G name)) (lo_wallet L) (lo_tip L)
      (lo_scanned L) (lo_snapshot L) 3 False = (s2, Ok (v, lo_tip L))"
    "finite (dom (rr_state v))" "alike (rr_state v) (rr_state full)" by blast
  with full show ?thesis by (auto simp: read_db_def Facade.read_at_def)
qed

lemma fresh_counts_eq:
  assumes "bech32_laws (gw_crates G)" "key_laws (gw_crates G)"
    and "in_order G name rows L" "in_order G name rows L'" "lo_tip L' = lo_tip L"
    and "map_sum (\<lambda>_. ()) (map shown_row) (load_pending now (lo_pending L)) =
      map_sum (\<lambda>_. ()) (map shown_row) (load_pending now' (lo_pending L'))"
  shows "\<exists>c. fresh_counts (at_time now name G) name L = Ok c \<and>
     fresh_counts (at_time now' name G) name L' = Ok c"
proof -
  from read_at_time [OF assms(1-3), of now] obtain L1 full v
    where r: "read_db (gw_crates G) (gd_key (gw_db G name))
        ((gd_client (gw_db G name))\<lparr>cl_now := now\<rparr>) DefaultDepth L =
      (L1, Ok (merge_pending now (lo_pending L) 3 v))"
    and f: "replay_with_seed (gw_crates G)
       (full_stream (gw_crates G) (lo_tip L) 3 (rd_account_uuid (cl_reader (gd_client (gw_db G name)))) rows)
       None (rd_receiver (cl_reader (gd_client (gw_db G name)))) (gd_key (gw_db G name)) False = Ok full"
    and v: "finite (dom (rr_state v))" "alike (rr_state v) (rr_state full)" by blast
  from read_at_time [OF assms(1,2,4), of now'] f obtain L2 v'
    where r': "read_db (gw_crates G) (gd_key (gw_db G name))
        ((gd_client (gw_db G name))\<lparr>cl_now := now'\<rparr>) DefaultDepth L' =
      (L2, Ok (merge_pending now' (lo_pending L') 3 v'))"
    and v': "finite (dom (rr_state v'))" "alike (rr_state v') (rr_state full)"
    unfolding assms(5) by auto
  have "alike (rr_state v) (rr_state v')" using v(2) v'(2) by (meson alike_sym alike_trans)
  from count_alike [OF alike_merge [OF this assms(6)] finite_merge finite_merge] v(1) v'(1)
  show ?thesis by (simp add: fresh_counts_def r r')
qed

text \<open>A poll that does not find its entry reads and keeps what it has read.\<close>

definition kept :: "('pk, 'sk) gui_world \<Rightarrow> str \<Rightarrow> local_db \<Rightarrow> counts \<Rightarrow> cached_summary" where
  "kept G name L c =
     \<lparr>cs_synced = gui_synced (gw_db G name) L,
      cs_pending_fp = pending_fingerprint (gw_hash G) (cl_now (gd_client (gw_db G name))) (lo_pending L),
      cs_keys = fst c, cs_unsynced = fst (snd c), cs_updated_at = snd (snd c)\<rparr>"

lemma poll_reads:
  assumes "fresh_counts G name L = Ok (k, u)"
    and "cached_counts (gui_synced (gw_db G name) L)
      (pending_fingerprint (gw_hash G) (cl_now (gd_client (gw_db G name))) (lo_pending L)) (cache name) = None"
  shows "\<exists>L1 t. summary_counts G name (L, cache) =
     ((L1, cache(name \<mapsto> kept G name L (k, u, t))), (k, u, t), gui_synced (gw_db G name) L)"
proof -
  obtain L1 res where r: "read_db (gw_crates G) (gd_key (gw_db G name)) (gd_client (gw_db G name)) DefaultDepth L =
      (L1, res)" by force
  with assms(1) obtain rr where "res = Ok rr" and "count_keys (rr_state rr) = (k, u)"
    by (cases res) (auto simp: fresh_counts_def)
  with r assms(2) show ?thesis by (simp add: summary_counts_def counts_of_def kept_def Let_def)
qed

lemma poll_hits:
  assumes "cached_counts (gui_synced (gw_db G name) L)
      (pending_fingerprint (gw_hash G) (cl_now (gd_client (gw_db G name))) (lo_pending L)) (cache name) = Some c"
  shows "summary_counts G name (L, cache) = ((L, cache), c, gui_synced (gw_db G name) L)"
  using assms by (simp add: summary_counts_def Let_def)

text \<open>
  C36. the cache of the sidebar is sound for as long as the stream of memos and the tip stay those of the
  poll that filled it. Whatever reads there have been since, and whatever has become of the pending
  file, a later poll shows the counts a fresh read would give, if the fingerprints of the two files do
  not collide; the text of the file need not be the same.
\<close>

theorem cached_counts_are_current:
  assumes "bech32_laws (gw_crates G)" "key_laws (gw_crates G)"
    and "in_order G name rows L" "in_order G name rows L'" "lo_tip L' = lo_tip L"
    and "cache name = None"
    and "summary_counts (at_time now name G) name (L, cache) = ((L1, cache1), c, synced)"
    and "pending_fingerprint (gw_hash G) now (lo_pending L) =
        pending_fingerprint (gw_hash G) now' (lo_pending L') \<Longrightarrow>
      fingerprint_input (load_pending now (lo_pending L)) = fingerprint_input (load_pending now' (lo_pending L'))"
  shows "\<exists>L2 cache2 k u t synced'.
     summary_counts (at_time now' name G) name (L', cache1) = ((L2, cache2), (k, u, t), synced') \<and>
     fresh_counts (at_time now' name G) name L' = Ok (k, u)"
proof -
  have rt: "\<And>es. load_pending t (lo_pending M) = Ok es \<Longrightarrow> list_all row_text es"
    if "in_order G name rows M" for t M
    using that by (cases "lo_pending M") (auto simp: in_order_def list_all_iff Let_def)
  obtain k u where 1: "fresh_counts (at_time now name G) name L = Ok (k, u)"
    using fresh_counts_eq [OF assms(1-3) assms(3) refl refl] by fastforce
  obtain k' u' where 2: "fresh_counts (at_time now' name G) name L' = Ok (k', u')"
    using fresh_counts_eq [OF assms(1,2,4,4) refl refl] by fastforce
  obtain t where c1: "cache1 = cache(name \<mapsto> kept (at_time now name G) name L (k, u, t))"
    using poll_reads [OF 1, of cache] assms(6,7) by (auto simp: cached_counts_def)
  let ?G = "at_time now' name G"
  let ?hit = "cached_counts (gui_synced (gw_db ?G name) L')
      (pending_fingerprint (gw_hash ?G) (cl_now (gd_client (gw_db ?G name))) (lo_pending L')) (cache1 name)"
  show ?thesis
  proof (cases ?hit)
    case None
    from poll_reads [where cache = cache1, OF 2 None] 2 show ?thesis by blast
  next
    case (Some d)
    then have "pending_fingerprint (gw_hash G) now (lo_pending L) =
        pending_fingerprint (gw_hash G) now' (lo_pending L')" and d: "d = (k, u, t)"
      by (auto simp: c1 cached_counts_def kept_def split: if_splits)
    from fingerprint_decides [OF rt [OF assms(3)] rt [OF assms(4)] assms(8) [OF this(1)]]
    have "map_sum (\<lambda>_. ()) (map shown_row) (load_pending now (lo_pending L)) =
        map_sum (\<lambda>_. ()) (map shown_row) (load_pending now' (lo_pending L'))" .
    from fresh_counts_eq [OF assms(1-5) this] 1 2 have "(k', u') = (k, u)" by auto
    with poll_hits [where cache = cache1, OF Some] 2 d show ?thesis by auto
  qed
qed

text \<open>A write is in flight at both polls; its row has been written anew with another hour.\<close>

definition demo_world :: "(char, char) gui_world" where
  "demo_world =
     \<lparr>gw_crates = model_crates, gw_os = plain_outside, gw_seed = demo_seed,
      gw_db = (\<lambda>_. \<lparr>gd_key = CHR ''A'', gd_client = demo_client, gd_start = None, gd_world = near_world,
                     gd_summary = (\<lambda>L. Ok (Some (lo_scanned L)))\<rparr>),
      gw_hash = (\<lambda>_. 0)\<rparr>"

definition demo_in_flight :: "nat \<Rightarrow> pending_entry" where
  "demo_in_flight hour =
     \<lparr>pe_txid = ''t9'', pe_op = ''SET'', pe_key = ''z'', pe_value = Some ''w'', pe_memo = None,
      pe_broadcast_at_unix = hour\<rparr>"

lemma demo_in_order: "in_order demo_world name demo_memos (demo_local\<lparr>lo_pending := Rows [demo_in_flight h]\<rparr>)"
proof -
  have "row_text (demo_in_flight h)"
    by (simp add: row_text_def demo_in_flight_def utf8_valid_ascii is_ascii_def byte_def)
  then show ?thesis
    using demo_in_use [of 7] demo_all_memos [of 7]
    by (simp add: in_order_def demo_world_def demo_local_def demo_reader_def)
qed

theorem cached_counts_are_current_witness:
  "\<exists>L1 cache1 c synced L2 cache2 k u t synced'.
     summary_counts (at_time 10 ''d'' demo_world) ''d''
       (demo_local\<lparr>lo_pending := Rows [demo_in_flight 5]\<rparr>, Map.empty) = ((L1, cache1), c, synced) \<and>
     summary_counts (at_time 20 ''d'' demo_world) ''d''
       (demo_local\<lparr>lo_pending := Rows [demo_in_flight 8]\<rparr>, cache1) = ((L2, cache2), (k, u, t), synced') \<and>
     fresh_counts (at_time 20 ''d'' demo_world) ''d'' (demo_local\<lparr>lo_pending := Rows [demo_in_flight 8]\<rparr>) = Ok (k, u)"
proof -
  let ?L = "\<lambda>h. demo_local\<lparr>lo_pending := Rows [demo_in_flight h]\<rparr>"
  obtain L1 cache1 c synced where p: "summary_counts (at_time 10 ''d'' demo_world) ''d'' (?L 5, Map.empty) =
      ((L1, cache1), c, synced)" by (metis prod.exhaust)
  have E: "bech32_laws (gw_crates demo_world)" "key_laws (gw_crates demo_world)" by (simp_all add: demo_world_def)
  have fp: "fingerprint_input (load_pending 10 (lo_pending (?L 5))) = fingerprint_input (load_pending 20 (lo_pending (?L 8)))"
    by (simp add: still_fresh_def demo_in_flight_def fingerprint_input_def hash_entry_def STALE_AFTER_SECS_def)
  from cached_counts_are_current [where name = "''d''" and cache = Map.empty, OF E demo_in_order demo_in_order _ _ p fp] p
  show ?thesis by fastforce
qed

end
