(* ===== verification/Cli_Read.thy ===== *)
theory Cli_Read
  imports Gui_Views Sync_Skip Admin_Create
begin

text \<open>
  The reading commands of the command line: \<open>zkv get\<close>, \<open>zkv verify\<close> and \<open>zkv history\<close>
  (\<open>commands/get.rs\<close>, \<open>verify.rs\<close>, \<open>history.rs\<close>, \<open>gate_read\<close> of \<open>commands.rs\<close>), after the sync that
  may come first. What is printed is a list of lines on the output, or records where JSON is asked for,
  and lines on the error stream; the exit code is a number. Colours and the table of the interactive
  terminal are left out.
\<close>

section \<open>What the commands share\<close>

datatype cli_error =
    LoadFailed read_error | ReadBlocked u32 | NotInit u32 | StillInit u32 | CliFailed zkv_error
  | UnknownOp str | FiltersWithAudit | AuditPanicked

definition gate_read :: "version_state \<Rightarrow> cli_error + unit" where
  "gate_read v = (if blocks_read v then Err (ReadBlocked (vs_version v)) else Ok ())"

datatype output_format = Friendly | Json

section \<open>\<open>zkv get\<close>\<close>

text \<open>The arrow is a scalar of three bytes.\<close>

definition deleted_mark :: str where
  "deleted_mark = '' '' @ [CHR 0xE2, CHR 0x86, CHR 0x92] @ '' (deleted)''"

fun pending_text :: "str \<Rightarrow> pending_op \<Rightarrow> str" where
  "pending_text key (PSet v d q t) =
     (if d = 0 then ''# mempool: '' @ key @ '' = '' @ v
      else ''# unconfirmed ('' @ dec d @ ''/'' @ dec q @ ''): '' @ key @ '' = '' @ v)"
| "pending_text key (PDel d q t) =
     (if d = 0 then ''# mempool: '' @ key @ deleted_mark
      else ''# unconfirmed ('' @ dec d @ ''/'' @ dec q @ ''): '' @ key @ deleted_mark)"

definition pending_line :: "str \<Rightarrow> key_state \<Rightarrow> str option" where
  "pending_line key ks =
     (case pending ks of
        [] \<Rightarrow> None
      | [p] \<Rightarrow> Some (pending_text key p)
      | _ \<Rightarrow> Some (''# multiple pending: '' @ key))"

record pending_op_json =
  oj_op :: str
  oj_value :: "str option"
  oj_done :: u32
  oj_required :: u32
  oj_txid :: str

fun pending_op_json_of :: "pending_op \<Rightarrow> pending_op_json" where
  "pending_op_json_of (PSet v d q t) =
     \<lparr>oj_op = ''SET'', oj_value = Some v, oj_done = d, oj_required = q, oj_txid = t\<rparr>"
| "pending_op_json_of (PDel d q t) =
     \<lparr>oj_op = ''DEL'', oj_value = None, oj_done = d, oj_required = q, oj_txid = t\<rparr>"

record key_state_json =
  kj_value :: "str option"
  kj_pending :: "pending_op_json list"

definition key_state_json_of :: "key_state \<Rightarrow> key_state_json" where
  "key_state_json_of ks = \<lparr>kj_value = confirmed ks, kj_pending = map pending_op_json_of (pending ks)\<rparr>"

record single_key_json =
  sj_key :: str
  sj_value :: "str option"
  sj_pending :: "pending_op_json list"

definition single_key_json_of :: "str \<Rightarrow> key_state option \<Rightarrow> single_key_json" where
  "single_key_json_of key ks =
     \<lparr>sj_key = key, sj_value = Option.bind ks confirmed,
      sj_pending = (case ks of None \<Rightarrow> [] | Some s \<Rightarrow> map pending_op_json_of (pending s))\<rparr>"

definition full_dump_json :: "(str \<rightharpoonup> key_state) \<Rightarrow> (str \<times> key_state_json) list" where
  "full_dump_json m = map (\<lambda>(k, ks). (k, key_state_json_of ks)) (state_rows m)"

datatype printed =
    Out str | Note str | OutKey single_key_json | OutDump "(str \<times> key_state_json) list"

text \<open>
  The rows of the pending file over the state, in the command's own loop; an unreadable file counts as
  empty.
\<close>

definition get_state :: "nat \<Rightarrow> pending_disk \<Rightarrow> u32 \<Rightarrow> (str \<rightharpoonup> key_state) \<Rightarrow> (str \<rightharpoonup> key_state)" where
  "get_state now disk min_confs state =
     (let local_pending = pending_rows now disk;
          local_txids = map pe_txid local_pending;
          m = (if 1 \<le> min_confs then retain_visible local_txids state else state)
      in fold (merge_entry (seen_txids m) min_confs) local_pending m)"

definition noted :: "str \<Rightarrow> key_state \<Rightarrow> printed list" where
  "noted key ks = (case pending_line key ks of None \<Rightarrow> [] | Some l \<Rightarrow> [Note l])"

definition dumped :: "str \<times> key_state \<Rightarrow> printed list" where
  "dumped r =
     (let (k, ks) = r
      in (case pending_line k ks of None \<Rightarrow> [] | Some l \<Rightarrow> [Out l]) @
         (case confirmed ks of None \<Rightarrow> [] | Some v \<Rightarrow> [Out (k @ '' = '' @ v)]))"

fun get_print :: "str option \<Rightarrow> output_format \<Rightarrow> (str \<rightharpoonup> key_state) \<Rightarrow> printed list \<times> nat" where
  "get_print (Some k) Friendly m =
     (case m k of
        None \<Rightarrow> ([], 1)
      | Some ks \<Rightarrow>
          (case confirmed ks of
             Some v \<Rightarrow> (Out v # noted k ks, 0)
           | None \<Rightarrow> (noted k ks, 1)))"
| "get_print (Some k) Json m =
     ([OutKey (single_key_json_of k (m k))], if Option.bind (m k) confirmed = None then 1 else 0)"
| "get_print None Friendly m =
     (if state_rows m = [] then ([Note ''(empty)''], 0) else (concat (map dumped (state_rows m)), 0))"
| "get_print None Json m = ([OutDump (full_dump_json m)], 0)"

definition get_run ::
    "('pk, 'sk) crates \<Rightarrow> 'pk \<Rightarrow> 'sk client \<Rightarrow> u32 \<Rightarrow> bool \<Rightarrow> str option \<Rightarrow> output_format \<Rightarrow> local_db \<Rightarrow>
     local_db \<times> (cli_error + printed list \<times> nat)" where
  "get_run E pk c min_confs strict key fmt L =
     (let (snap, res) = load_state E (cl_reader c) pk (lo_wallet L) (lo_tip L) (lo_scanned L)
            (lo_snapshot L) min_confs strict
      in (L\<lparr>lo_snapshot := snap\<rparr>,
          try_ok (map_err LoadFailed res) (\<lambda>r.
          try_ok (gate_read (rr_version r)) (\<lambda>_.
            case rr_init r of
              Uninitialized \<Rightarrow> Err (NotInit min_confs)
            | Initializing d q \<Rightarrow> Err (StillInit (q - d))
            | Initialized \<Rightarrow>
                Ok (get_print key fmt (get_state (cl_now c) (lo_pending L) min_confs (rr_state r)))))))"

section \<open>\<open>zkv verify\<close>\<close>

datatype verify_fail = VReject memo_reject | VBadAddress addr_error | VBadKey data_error

definition read_memo :: "str option \<Rightarrow> str \<Rightarrow> str option" where
  "read_memo arg stdin =
     (case arg of
        Some s \<Rightarrow> if s \<noteq> ''-'' then Some s else if trim stdin = [] then None else Some stdin
      | None \<Rightarrow> if trim stdin = [] then None else Some stdin)"

definition verify_raw ::
    "('pk, 'sk) crates \<Rightarrow> ('pk, 'sk) seed_world \<Rightarrow> str \<Rightarrow> str \<Rightarrow> verify_fail + memo_verification" where
  "verify_raw E sw address memo =
     try_ok (map_err VBadAddress (parse_zkv_addr (sw_codec sw) address)) (\<lambda>parsed.
     try_ok (map_err VBadKey (receiver_domain sw (pz_ufvk parsed) (pz_pool parsed) (pz_network parsed))) (\<lambda>receiver.
     try_ok (map_err VBadKey (zkv_verifying_pubkey sw (pz_ufvk parsed))) (\<lambda>pk.
       map_err VReject (verify_signature E memo receiver (pubkey_bech32 E pk)))))"

definition verify_imported ::
    "('pk, 'sk) crates \<Rightarrow> 'pk \<Rightarrow> 'sk client \<Rightarrow> u32 \<Rightarrow> str \<Rightarrow> local_db \<Rightarrow>
     local_db \<times> (cli_error + (verify_fail + memo_verification))" where
  "verify_imported E pk c min_confs memo L =
     (let (L1, version) = version_of E pk c (confirmations.Custom min_confs) L
      in case try_ok (map_err CliFailed version) gate_read of
           Inl e \<Rightarrow> (L1, Err e)
         | Inr _ \<Rightarrow>
             (let (L2, state) = read_db E pk c (confirmations.Custom min_confs) L1
              in (L2, try_ok (map_err CliFailed state) (\<lambda>r.
                   Ok (map_err VReject
                         (verify_memo E memo (rd_receiver (cl_reader c)) (pubkey_bech32 E pk) r))))))"

definition verified_ok :: "memo_verification \<Rightarrow> bool" where
  "verified_ok v \<longleftrightarrow>
     mv_signature_valid v \<and> (case mv_outcome v of None \<Rightarrow> True | Some out \<Rightarrow> out = Applied)"

definition verify_exit :: "verify_fail + memo_verification \<Rightarrow> nat" where
  "verify_exit outcome =
     (case outcome of Inl _ \<Rightarrow> 1 | Inr v \<Rightarrow> if verified_ok v then 0 else 1)"

fun reject_message :: "memo_reject \<Rightarrow> str" where
  "reject_message NotZkv =
     ''this isn'' @ [CHR 0x27] @ ''t a zkv memo: it doesn'' @ [CHR 0x27] @
     ''t start with the `ZKV0` wire marker''"
| "reject_message (Malformed fmt) =
     ''this is a zkv memo but it'' @ [CHR 0x27] @ ''s malformed: '' @ memo_format_str fmt"
| "reject_message (UnsupportedVersion n) =
     ''this memo is from a newer zkv protocol version ('' @ dec n @
     '') than this build understands; update zkv''"

fun key_label :: "op \<Rightarrow> str" where
  "key_label Init = ''Address''"
| "key_label OwnerAdd = ''Target''"
| "key_label OwnerDel = ''Target''"
| "key_label WriterAdd = ''Target''"
| "key_label WriterDel = ''Target''"
| "key_label Version = ''Version''"
| "key_label op = ''Key''"

text \<open>The rows of the report, and its verdict: whether it is good news, and the text.\<close>

definition report_rows :: "memo_verification \<Rightarrow> (str \<times> str) list" where
  "report_rows v =
     [(''Op'', op_as_str (mv_op v))] @
     (if mv_key v = [] then [] else [(key_label (mv_op v), mv_key v)]) @
     (case mv_value v of None \<Rightarrow> [] | Some x \<Rightarrow> [(''Value'', x)]) @
     (if mv_seq v = 0 then [] else [(''Sequence'', dec (unat (mv_seq v)))]) @
     (case mv_signer v of
        Some s \<Rightarrow>
          [(''Signer'', s @ (if mv_is_root v = Some True
             then ''  '' @ [CHR 0xC2, CHR 0xB7] @ '' database root key'' else []))]
      | None \<Rightarrow> [(''Signer'', ''(unrecoverable)'')])"

definition report_imported :: "memo_verification \<Rightarrow> (bool \<times> str) list" where
  "report_imported v =
     (if \<not> mv_signature_valid v then []
      else case mv_outcome v of
             Some Applied \<Rightarrow> [(True, ''Authorized and in order: this write would be applied'')]
           | Some (Dropped reason) \<Rightarrow> [(False, ''Would be rejected: '' @ drop_reason_str reason)]
           | _ \<Rightarrow> [(False, ''Could not determine authorization for this write'')])"

record verify_json =
  vj_op :: str
  vj_key :: str
  vj_value :: "str option"
  vj_seq :: u64
  vj_mode :: str
  vj_signature_valid :: bool
  vj_signer :: "str option"
  vj_is_root :: "bool option"
  vj_applied :: "bool option"
  vj_rejected_reason :: "str option"

definition verify_json_of :: "bool \<Rightarrow> memo_verification \<Rightarrow> verify_json" where
  "verify_json_of imported v =
     (let (applied, reason) =
            (if \<not> imported then (None, None)
             else case mv_outcome v of
                    Some Applied \<Rightarrow> (Some True, None)
                  | Some (Dropped r) \<Rightarrow> (Some False, Some (drop_reason_str r))
                  | _ \<Rightarrow> (Some False, None))
      in \<lparr>vj_op = op_as_str (mv_op v), vj_key = mv_key v, vj_value = mv_value v, vj_seq = mv_seq v,
          vj_mode = (if imported then ''imported'' else ''signature-only''),
          vj_signature_valid = mv_signature_valid v, vj_signer = mv_signer v,
          vj_is_root = mv_is_root v, vj_applied = applied, vj_rejected_reason = reason\<rparr>)"

end
