(* ===== verification/Cli_History.thy ===== *)
theory Cli_History
  imports Cli_Read
begin

text \<open>
  \<open>zkv history\<close> (\<open>commands/history.rs\<close>): the filters of its flags, the two views (the page of applied
  writes and the audit with the dropped ones), and what each prints, on a pipe and as JSON; of the view
  on an interactive terminal, the cells and their padding. Colours are left out.
\<close>

section \<open>Flags\<close>

definition push_op :: "str \<Rightarrow> str list \<Rightarrow> str list" where
  "push_op s out = (if list_ex (\<lambda>x. x = s) out then out else out @ [s])"

fun normalize_loop :: "str list \<Rightarrow> str list \<Rightarrow> cli_error + str list" where
  "normalize_loop [] out = Ok out"
| "normalize_loop (t # ts) out =
     (let other = ascii_upper (trim t)
      in if other = [] then normalize_loop ts out
         else if other = ''SET'' \<or> other = ''SETL''
         then normalize_loop ts (push_op ''SETL'' (push_op ''SET'' out))
         else if other = ''DEL'' then normalize_loop ts (push_op ''DEL'' out)
         else if other = ''INIT'' then normalize_loop ts (push_op ''INIT'' out)
         else Err (UnknownOp other))"

definition normalize_ops :: "str list \<Rightarrow> cli_error + str list" where
  "normalize_ops tokens = normalize_loop tokens []"

definition DEFAULT_LIMIT :: u32 where "DEFAULT_LIMIT = 20"

record history_flags =
  hf_key :: "str option"
  hf_limit :: "u32 option"
  hf_all :: bool
  hf_offset :: u32
  hf_op :: "str list"
  hf_order :: history_order
  hf_confirmations :: u32
  hf_output :: output_format
  hf_include_invalid :: bool

definition history_limit :: "history_flags \<Rightarrow> u32 option" where
  "history_limit f = (if hf_all f then None else Some (unwrap_or (hf_limit f) DEFAULT_LIMIT))"

section \<open>The page on a pipe\<close>

definition TAB :: str where "TAB = [CHR 0x09]"

definition height_cell :: "u32 option \<Rightarrow> str" where
  "height_cell height = (case height of None \<Rightarrow> ''mempool'' | Some h \<Rightarrow> dec h)"

fun raw_status :: "history_status \<Rightarrow> str" where
  "raw_status (HConfirmed c) = ''confirmed:'' @ dec c"
| "raw_status (HConfirming d q) = ''confirming:'' @ dec d @ ''/'' @ dec q"
| "raw_status HPending = ''pending''"

fun raw_verified :: "bool option \<Rightarrow> str" where
  "raw_verified (Some True) = ''ok''"
| "raw_verified (Some False) = ''UNVERIFIED''"
| "raw_verified None = ''pending''"

definition raw_row :: "history_entry \<Rightarrow> str" where
  "raw_row e =
     join_with TAB [height_cell (he_height e), op_as_str (he_op e), he_key e, unwrap_or (he_value e) [],
       raw_status (he_status e), raw_verified (he_verified e), unwrap_or (he_signer e) ''-'', he_txid e]"

definition friendly_notes :: "history_result \<Rightarrow> nat \<Rightarrow> str list" where
  "friendly_notes result invalid =
     (if hr_limit result \<noteq> None \<and> length (hr_entries result) < hr_total result
      then [''# showing '' @ dec (length (hr_entries result)) @ '' of '' @ dec (hr_total result) @
            '' (offset '' @ dec (hr_offset result) @ '')'']
      else []) @
     (if 0 < invalid
      then [''# '' @ dec invalid @
            '' invalid broadcast(s) detected, run `zkv history --include-invalid` to see them'']
      else []) @
     (if hr_entries result = [] then [''(no history)''] else [])"

section \<open>The page on a terminal\<close>

text \<open>The clock and the stamp are seconds since 1970.\<close>

definition humanize_when :: "nat \<Rightarrow> u32 option \<Rightarrow> str" where
  "humanize_when now timestamp =
     (case timestamp of
        None \<Rightarrow> ''pending''
      | Some ts \<Rightarrow>
          (let secs = now - ts; mins = secs div 60; hours = mins div 60; days = hours div 24;
               months = days div 30
           in if secs < 60 then ''just now''
              else if mins < 60 then dec mins @ ''m ago''
              else if hours < 24 then dec hours @ ''h ago''
              else if days < 30 then dec days @ ''d ago''
              else if months < 12 then dec months @ ''mo ago''
              else dec (days div 365) @ ''y ago''))"

definition ELLIPSIS :: str where "ELLIPSIS = [CHR 0xE2, CHR 0x80, CHR 0xA6]"

definition DASH :: str where "DASH = [CHR 0xE2, CHR 0x80, CHR 0x94]"

definition ellipsize :: "str \<Rightarrow> nat \<Rightarrow> str" where
  "ellipsize s max_chars =
     (if length (scalars s) \<le> max_chars then s
      else concat (take (max_chars - 1) (scalars s)) @ ELLIPSIS)"

text \<open>The slices of \<open>short_hash\<close> are at bytes; the signers it is given are ASCII.\<close>

definition short_hash :: "str \<Rightarrow> str" where
  "short_hash s =
     (if length s \<le> 8 + 9 + 1 then s else take 8 s @ ELLIPSIS @ drop (length s - 9) s)"

definition status_cell :: "history_entry \<Rightarrow> str" where
  "status_cell e =
     (case he_verified e of
        Some True \<Rightarrow> [CHR 0xE2, CHR 0x9C, CHR 0x93] @ '' ''
      | Some False \<Rightarrow> [CHR 0xE2, CHR 0x9C, CHR 0x97] @ '' ''
      | None \<Rightarrow> []) @
     (case he_status e of
        HConfirmed c \<Rightarrow> ''confirmed '' @ (if 99 < c then ''99+'' else dec c)
      | HConfirming d q \<Rightarrow> ''confirming '' @ dec d @ ''/'' @ dec q
      | HPending \<Rightarrow> ''pending'')"

definition table_row :: "nat \<Rightarrow> str \<Rightarrow> history_entry \<Rightarrow> str list" where
  "table_row now creator e =
     [humanize_when now (he_timestamp e), op_as_str (he_op e), ellipsize (he_key e) 28,
      (case he_value e of
         None \<Rightarrow> DASH
       | Some v \<Rightarrow> if v = [] then DASH else ellipsize v 28),
      status_cell e,
      (case he_signer e of
         None \<Rightarrow> DASH
       | Some s \<Rightarrow> if s = creator then ''creator'' else short_hash s)]"

definition table_headers :: "str list" where
  "table_headers = [''WHEN'', ''OP'', ''KEY'', ''VALUE'', ''STATUS'', ''BY'']"

definition widen :: "nat list \<Rightarrow> str list \<Rightarrow> nat list" where
  "widen w cells = map2 (\<lambda>n c. max n (length (scalars c))) w cells"

definition pad_right :: "nat \<Rightarrow> str \<Rightarrow> str" where
  "pad_right w c = c @ replicate (w - length (scalars c)) CHR 0x20"

fun spaced :: "str list \<Rightarrow> str" where
  "spaced [] = []"
| "spaced (c # cs) = ''  '' @ c @ spaced cs"

definition print_table :: "nat \<Rightarrow> history_result \<Rightarrow> str list" where
  "print_table now result =
     (let rows = map (table_row now (hr_signer result)) (hr_entries result);
          w = fold (\<lambda>r w. widen w r) rows (map (\<lambda>h. length (scalars h)) table_headers)
      in map (\<lambda>cells. spaced (map2 pad_right w cells)) (table_headers # rows))"

definition pretty_count :: "history_result \<Rightarrow> str" where
  "pretty_count result =
     (let shown = length (hr_entries result)
      in if hr_limit result \<noteq> None \<and> shown < hr_total result
         then ''showing '' @ dec shown @ '' of '' @ dec (hr_total result) @ '' writes''
         else dec (hr_total result) @ '' write'' @ (if hr_total result = 1 then [] else ''s''))"

definition print_pretty :: "nat \<Rightarrow> history_result \<Rightarrow> nat \<Rightarrow> str list" where
  "print_pretty now result invalid =
     [(let creator = trim (hr_signer result)
       in if creator = [] then pretty_count result
          else pretty_count result @ '' '' @ [CHR 0xC2, CHR 0xB7] @ '' creator '' @ creator)] @
     (if 0 < invalid
      then [[CHR 0xE2, CHR 0x9A, CHR 0xA0] @ '' '' @ dec invalid @
            '' invalid broadcast(s) hidden, run `zkv history --include-invalid` to see them'']
      else []) @
     [[]] @
     (if hr_entries result = [] then [''  (no writes yet)''] else print_table now result)"

section \<open>The page as JSON\<close>

record status_json =
  tj_kind :: str
  tj_confirmations :: "u32 option"
  tj_done :: "u32 option"
  tj_required :: "u32 option"

fun status_json_of :: "history_status \<Rightarrow> status_json" where
  "status_json_of (HConfirmed c) =
     \<lparr>tj_kind = ''confirmed'', tj_confirmations = Some c, tj_done = None, tj_required = None\<rparr>"
| "status_json_of (HConfirming d q) =
     \<lparr>tj_kind = ''confirming'', tj_confirmations = None, tj_done = Some d, tj_required = Some q\<rparr>"
| "status_json_of HPending =
     \<lparr>tj_kind = ''pending'', tj_confirmations = None, tj_done = None, tj_required = None\<rparr>"

record history_entry_json =
  ej_op :: str
  ej_key :: str
  ej_value :: "str option"
  ej_height :: "u32 option"
  ej_timestamp :: "u32 option"
  ej_txid :: str
  ej_output_index :: u32
  ej_seq :: "u64 option"
  ej_signature :: "str option"
  ej_signer :: "str option"
  ej_verified :: "bool option"
  ej_status :: status_json

definition history_entry_json_of :: "history_entry \<Rightarrow> history_entry_json" where
  "history_entry_json_of e =
     \<lparr>ej_op = op_as_str (he_op e), ej_key = he_key e, ej_value = he_value e, ej_height = he_height e,
      ej_timestamp = he_timestamp e, ej_txid = he_txid e, ej_output_index = he_output_index e,
      ej_seq = he_seq e, ej_signature = he_signature e, ej_signer = he_signer e,
      ej_verified = he_verified e, ej_status = status_json_of (he_status e)\<rparr>"

record history_json =
  yj_creator :: str
  yj_entries :: "history_entry_json list"

definition history_json_of :: "history_result \<Rightarrow> history_json" where
  "history_json_of r =
     \<lparr>yj_creator = hr_signer r, yj_entries = map history_entry_json_of (hr_entries r)\<rparr>"

section \<open>The audit\<close>

definition audit_shown :: "(str \<Rightarrow> str) \<Rightarrow> str option \<Rightarrow> audit_row \<Rightarrow> bool" where
  "audit_shown lower key_filter row =
     (case key_filter of
        Some f \<Rightarrow>
          if f \<noteq> [] then (case ar_key row of None \<Rightarrow> False | Some k \<Rightarrow> sublist (lower f) (lower k)) else True
      | None \<Rightarrow> True)"

definition audit_view :: "(str \<Rightarrow> str) \<Rightarrow> audit_result \<Rightarrow> str option \<Rightarrow> u32 option \<Rightarrow> audit_row list" where
  "audit_view lower audit key_filter limit =
     take_opt limit (filter (audit_shown lower key_filter) (rev (au_rows audit)))"

fun outcome_text :: "row_outcome \<Rightarrow> str" where
  "outcome_text Applied = ''APPLIED''"
| "outcome_text Pending = ''PENDING''"
| "outcome_text (Dropped reason) = ''DROPPED: '' @ drop_reason_str reason"

fun is_dropped :: "row_outcome \<Rightarrow> bool" where
  "is_dropped (Dropped reason) = True"
| "is_dropped _ = False"

definition audit_line :: "audit_row \<Rightarrow> str" where
  "audit_line r =
     join_with TAB [height_cell (ar_mined_height r), (case ar_op r of None \<Rightarrow> ''?'' | Some x \<Rightarrow> op_as_str x),
       unwrap_or (ar_key r) [], unwrap_or (ar_value r) [], outcome_text (ar_outcome r), ar_txid r]"

datatype 'j cli_line = Line str | Remark str | Object 'j

definition print_audit_friendly :: "audit_row list \<Rightarrow> 'j cli_line list" where
  "print_audit_friendly rows =
     [Remark (''# '' @ dec (length rows) @ '' rows ('' @
        dec (length (filter (\<lambda>r. is_dropped (ar_outcome r)) rows)) @ '' dropped)'')] @
     (if rows = [] then [Remark ''(no history)''] else map (\<lambda>r. Line (audit_line r)) rows)"

record audit_row_json =
  uj_height :: "u32 option"
  uj_txid :: str
  uj_op :: "str option"
  uj_key :: "str option"
  uj_value :: "str option"
  uj_outcome :: str
  uj_reason :: "str option"
  uj_signer :: "str option"
  uj_signature_valid :: bool

definition audit_row_json_of :: "audit_row \<Rightarrow> audit_row_json" where
  "audit_row_json_of r =
     (let (outcome, reason) =
            (case ar_outcome r of
               Applied \<Rightarrow> (''applied'', None)
             | Pending \<Rightarrow> (''pending'', None)
             | Dropped reason \<Rightarrow> (''dropped'', Some (drop_reason_str reason)))
      in \<lparr>uj_height = ar_mined_height r, uj_txid = ar_txid r, uj_op = map_option op_as_str (ar_op r),
          uj_key = ar_key r, uj_value = ar_value r, uj_outcome = outcome, uj_reason = reason,
          uj_signer = ar_signer r, uj_signature_valid = ar_signer r \<noteq> None\<rparr>)"

datatype history_object = PageJson history_json | AuditJson "audit_row_json list"

section \<open>The command\<close>

text \<open>
  After the sync. The state is replayed for its epoch, then the page is read from the snapshot that the
  replay has left, or the audit from the wallet. \<open>terminal\<close> is \<open>is_terminal\<close> of the output. The text
  view runs the audit too, only to count the dropped memos.
\<close>

definition invalid_count :: "audit_result \<Rightarrow> nat" where
  "invalid_count audit = length (filter (\<lambda>r. is_dropped (ar_outcome r)) (au_rows audit))"

definition print_friendly ::
    "bool \<Rightarrow> nat \<Rightarrow> history_result \<Rightarrow> nat \<Rightarrow> history_object cli_line list" where
  "print_friendly terminal now result invalid =
     (if terminal then map Line (print_pretty now result invalid)
      else map Remark (friendly_notes result invalid) @ map (\<lambda>e. Line (raw_row e)) (hr_entries result))"

definition history_print ::
    "bool \<Rightarrow> nat \<Rightarrow> history_flags \<Rightarrow> audit_result option \<Rightarrow> history_result \<Rightarrow>
     cli_error + history_object cli_line list" where
  "history_print terminal now f audit result =
     (case hf_output f of
        Friendly \<Rightarrow>
          (case audit of
             None \<Rightarrow> Err AuditPanicked
           | Some a \<Rightarrow> Ok (print_friendly terminal now result (invalid_count a)))
      | Json \<Rightarrow> Ok [Object (PageJson (history_json_of result))])"

definition audit_print :: "(str \<Rightarrow> str) \<Rightarrow> history_flags \<Rightarrow> audit_result \<Rightarrow> history_object cli_line list" where
  "audit_print lower f audit =
     (let rows = audit_view lower audit (hf_key f) (history_limit f)
      in case hf_output f of
           Friendly \<Rightarrow> print_audit_friendly rows
         | Json \<Rightarrow> [Object (AuditJson (map audit_row_json_of rows))])"

definition history_query_of :: "history_flags \<Rightarrow> str list \<Rightarrow> history_query" where
  "history_query_of f ops =
     \<lparr>hq_min_confs = hf_confirmations f, hq_filter = hf_key f,
      hq_ops = (if ops = [] then None else Some ops), hq_order = hf_order f,
      hq_limit = history_limit f, hq_offset = hf_offset f, hq_locate = None\<rparr>"

definition history_run ::
    "('pk, 'sk) crates \<Rightarrow> (str \<Rightarrow> str) \<Rightarrow> 'pk \<Rightarrow> str \<Rightarrow> 'sk client \<Rightarrow> bool \<Rightarrow> history_flags \<Rightarrow> local_db \<Rightarrow>
     local_db \<times> (cli_error + history_object cli_line list)" where
  "history_run E lower pk zkv_addr c terminal f L =
     (let conf = hf_confirmations f;
          (snap, res) = load_state E (cl_reader c) pk (lo_wallet L) (lo_tip L) (lo_scanned L)
            (lo_snapshot L) conf False;
          audit = load_audit E (cl_reader c) pk (lo_wallet L) (lo_tip L) conf;
          L1 = L\<lparr>lo_snapshot := snap\<rparr>
      in case try_ok (map_err LoadFailed res) (\<lambda>r.
              try_ok (gate_read (rr_version r)) (\<lambda>_. normalize_ops (hf_op f))) of
           Inl e \<Rightarrow> (L1, Err e)
         | Inr ops \<Rightarrow>
             (if hf_include_invalid f
              then (if ops \<noteq> [] \<or> hf_order f \<noteq> Desc then (L1, Err FiltersWithAudit)
                    else (L1, case audit of
                                None \<Rightarrow> Err AuditPanicked
                              | Some a \<Rightarrow> Ok (audit_print lower f a)))
              else
                (let (snap2, page) = load_history_page E lower (cl_reader c) pk zkv_addr (lo_wallet L)
                       (lo_tip L) (pending_rows (cl_now c) (lo_pending L)) (history_query_of f ops) snap
                 in (L\<lparr>lo_snapshot := snap2\<rparr>,
                     try_ok (map_err LoadFailed page) (\<lambda>result.
                       history_print terminal (cl_now c) f audit result)))))"

end
