(* ===== verification/Cli_Props.thy ===== *)
theory Cli_Props
  imports Cli_History Gui_Props
begin

text \<open>
  What the reading commands show: \<open>get\<close> prints what the library reads, the rows of \<open>history\<close> can be
  taken apart, and its audit agrees with the window's page of rejections.
\<close>

section \<open>\<open>get\<close> and the library\<close>

lemma get_state_merge:
  assumes "load_pending now disk = Ok es"
  shows "get_state now disk mc (rr_state r) = rr_state (merge_pending now disk mc r)"
proof -
  have i: "rr_state (merge_init es mc q) = rr_state q" for es q by (simp add: merge_init_def)
  show ?thesis
    using assms
    by (simp add: get_state_def merge_pending_def pending_rows_def Let_def i split del: if_split cong: if_cong)
qed

lemma merge_keeps:
  "rr_version (merge_pending now disk mc r) = rr_version r"
  "rr_init r = Initialized \<Longrightarrow> rr_init (merge_pending now disk mc r) = Initialized"
  by (simp_all add: merge_pending_def merge_init_def Let_def split: sum.splits)

text \<open>
  With a readable pending file the command prints the very state that \<open>Database::read\<close> returns; it
  answers only for an initialised database that this client may read.
\<close>

lemma get_prints_the_read:
  assumes "get_run E pk c mc False key fmt L = (L', Ok out)" and "load_pending (cl_now c) (lo_pending L) = Ok es"
  shows "\<exists>r. read_db E pk c (confirmations.Custom mc) L = (L', Ok r) \<and> rr_init r = Initialized \<and>
    \<not> blocks_read (rr_version r) \<and> out = get_print key fmt (rr_state r)"
proof -
  obtain snap res where l: "load_state_with_height E (cl_reader c) pk (lo_wallet L) (lo_tip L) (lo_scanned L)
      (lo_snapshot L) mc False = (snap, res)" by fastforce
  from assms(1) obtain q t where q: "res = Ok (q, t)" and L': "L' = L\<lparr>lo_snapshot := snap\<rparr>"
    and i: "rr_init q = Initialized" "\<not> blocks_read (rr_version q)"
    and o: "out = get_print key fmt (get_state (cl_now c) (lo_pending L) mc (rr_state q))"
    by (cases res) (auto simp: get_run_def load_state_def l gate_read_def
        split: init_state.splits if_splits)
  let ?r = "merge_pending (cl_now c) (lo_pending L) mc q"
  have "read_db E pk c (confirmations.Custom mc) L = (L', Ok ?r)"
    by (simp add: read_db_def Facade.read_at_def l q L')
  with i o merge_keeps [where r = q] get_state_merge [OF assms(2), of mc q]
  show ?thesis by auto
qed

text \<open>So a key asked for by name prints its confirmed value and nothing else on the output.\<close>

lemma get_prints_the_value:
  assumes "get_run E pk c mc False (Some k) Friendly L = (L', Ok (ps, code))"
    and "load_pending (cl_now c) (lo_pending L) = Ok es"
  shows "\<exists>v. get_value E pk c k (confirmations.Custom mc) L = (L', Ok v) \<and>
    List.map_filter (\<lambda>p. case p of Out l \<Rightarrow> Some l | _ \<Rightarrow> None) ps = (case v of None \<Rightarrow> [] | Some x \<Rightarrow> [x]) \<and>
    code = (if v = None then 1 else 0)"
proof -
  obtain r where r: "read_db E pk c (confirmations.Custom mc) L = (L', Ok r)"
    and o: "(ps, code) = get_print (Some k) Friendly (rr_state r)"
    using get_prints_the_read [OF assms] by blast
  have n: "List.map_filter (\<lambda>p. case p of Out l \<Rightarrow> Some l | _ \<Rightarrow> None) (noted k ks) = []" for ks
    by (simp add: noted_def List.map_filter_simps split: option.splits)
  from r have "get_value E pk c k (confirmations.Custom mc) L = (L', Ok (Option.bind (rr_state r k) confirmed))"
    by (simp add: get_value_def)
  moreover have "List.map_filter (\<lambda>p. case p of Out l \<Rightarrow> Some l | _ \<Rightarrow> None) ps =
      (case Option.bind (rr_state r k) confirmed of None \<Rightarrow> [] | Some x \<Rightarrow> [x]) \<and>
    code = (if Option.bind (rr_state r k) confirmed = None then 1 else 0)"
    using o n by (auto simp: List.map_filter_simps split: option.splits)
  ultimately show ?thesis by blast
qed

text \<open>
  An unreadable pending file is empty for the command, so that an external memo in the mempool is not
  shown; the library then leaves the state as it was replayed, with that memo.
\<close>

lemma unreadable_pending_differs:
  fixes t :: str
  defines "m \<equiv> [''k'' \<mapsto> \<lparr>confirmed = None, pending = [PSet ''v'' 0 3 t], updated_at = None, last_txid = None\<rparr>]"
  shows "get_state now Unreadable 3 m ''k'' = None"
    and "rr_state r = m \<Longrightarrow> rr_state (merge_pending now Unreadable 3 r) ''k'' \<noteq> None"
  by (simp_all add: m_def get_state_def pending_rows_def retain_visible_def prune_def retain_own_def
      retained_def merge_pending_def)

section \<open>The rows of \<open>history\<close>\<close>

lemma plain_no_tab: "list_all plain s \<Longrightarrow> CHR 0x09 \<notin> List.set s"
  by (auto simp: list_all_iff plain_def byte_def)

lemma raw_cells_no_tab:
  "CHR 0x09 \<notin> List.set (height_cell h)" "CHR 0x09 \<notin> List.set (op_as_str x)"
  "CHR 0x09 \<notin> List.set (raw_status st)" "CHR 0x09 \<notin> List.set (raw_verified v)"
  using dec_plain [THEN plain_no_tab]
  by (auto simp: height_cell_def split: option.splits)
     (cases x; cases st; cases v rule: raw_verified.cases; auto)+

text \<open>A row whose text has no tab splits into its eight cells.\<close>

lemma raw_row_splits:
  assumes "CHR 0x09 \<notin> List.set (he_key e)" "CHR 0x09 \<notin> List.set (unwrap_or (he_value e) [])"
    and "CHR 0x09 \<notin> List.set (unwrap_or (he_signer e) ''-'')" "CHR 0x09 \<notin> List.set (he_txid e)"
  shows "split_on CHR 0x09 (raw_row e) =
    [height_cell (he_height e), op_as_str (he_op e), he_key e, unwrap_or (he_value e) [],
     raw_status (he_status e), raw_verified (he_verified e), unwrap_or (he_signer e) ''-'', he_txid e]"
  unfolding raw_row_def TAB_def by (rule split_on_join) (use assms raw_cells_no_tab in auto)

text \<open>A value may hold tabs and line ends, and one write then reads as two of other contents.\<close>

lemma one_write_reads_as_two:
  assumes "he_height f = he_height e" "he_op f = he_op e" "he_key f = he_key e"
    and "he_status g = he_status e" "he_verified g = he_verified e" "he_signer g = he_signer e"
    and "he_txid g = he_txid e"
  shows "\<exists>w. raw_row (e\<lparr>he_value := Some w\<rparr>) = raw_row f @ [CHR 0x0A] @ raw_row g"
proof -
  let ?w = "join_with TAB [unwrap_or (he_value f) [], raw_status (he_status f), raw_verified (he_verified f),
      unwrap_or (he_signer f) ''-'', he_txid f] @ [CHR 0x0A] @
    join_with TAB [height_cell (he_height g), op_as_str (he_op g), he_key g, unwrap_or (he_value g) []]"
  have "raw_row (e\<lparr>he_value := Some ?w\<rparr>) = raw_row f @ [CHR 0x0A] @ raw_row g"
    using assms by (simp add: raw_row_def)
  then show ?thesis ..
qed

text \<open>An age of 360 to 364 days is shown as no year at all.\<close>

lemma nearly_a_year_is_none:
  assumes "360 * 86400 \<le> now - ts" "now - ts < 365 * 86400"
  shows "humanize_when now (Some ts) = ''0y ago''"
proof -
  have d: "(now - ts) div 60 div 60 div 24 = (now - ts) div 86400" by (simp add: div_mult2_eq [symmetric])
  have "(now - ts) div 60 div 60 = (now - ts) div 3600" by (simp add: div_mult2_eq [symmetric])
  moreover have "360 \<le> (now - ts) div 86400" "(now - ts) div 86400 < 365"
    using assms by (simp_all add: less_eq_div_iff_mult_less_eq div_less_iff_less_mult)
  moreover from this have "12 \<le> (now - ts) div 86400 div 30" by (simp add: less_eq_div_iff_mult_less_eq)
  moreover have "24 \<le> (now - ts) div 3600" "60 \<le> (now - ts) div 60"
    using assms by (simp_all add: less_eq_div_iff_mult_less_eq)
  moreover have "dec 0 = ''0''" by code_simp
  ultimately show ?thesis
    using assms d by (simp add: humanize_when_def Let_def)
qed

section \<open>The audit on the command line and in the window\<close>

text \<open>
  The two views build their rows on their own: the command line tells a valid signature by the signer
  of the row, the window by the reason it was dropped for.
\<close>

definition json_facts ::
    "audit_row_json \<Rightarrow> str \<times> str option \<times> str option \<times> str option \<times> str option \<times> str option \<times> bool" where
  "json_facts j = (uj_txid j, uj_op j, uj_key j, uj_value j, uj_reason j, uj_signer j, uj_signature_valid j)"

definition rejection_facts ::
    "rejection_resp \<Rightarrow> str \<times> str option \<times> str option \<times> str option \<times> str option \<times> str option \<times> bool" where
  "rejection_facts rj =
     (rj_txid rj, rj_op rj, rj_key rj, rj_value rj, Some (rj_reason rj), rj_signer rj, rj_signature_valid rj)"

definition dropped_json :: "audit_row_json \<Rightarrow> bool" where
  "dropped_json j \<longleftrightarrow> uj_outcome j = ''dropped''"

lemma row_facts:
  "dropped_json (audit_row_json_of row) \<longleftrightarrow> (\<exists>reason. ar_outcome row = Dropped reason)"
  "ar_outcome row = Dropped reason \<Longrightarrow> (ar_signer row = None \<longleftrightarrow> is_signature_failure reason) \<Longrightarrow>
     \<exists>rj. rejection_of row = Some rj \<and> json_facts (audit_row_json_of row) = rejection_facts rj"
  "(\<And>reason. ar_outcome row \<noteq> Dropped reason) \<Longrightarrow> rejection_of row = None"
  by (cases "ar_outcome row"; auto simp: audit_row_json_of_def dropped_json_def rejection_of_def
      json_facts_def rejection_facts_def)+

lemma dropped_facts:
  assumes "\<And>row reason. row \<in> List.set rows \<Longrightarrow> ar_outcome row = Dropped reason \<Longrightarrow>
      ar_signer row = None \<longleftrightarrow> is_signature_failure reason"
  shows "map json_facts (filter dropped_json (map audit_row_json_of rows)) =
    map rejection_facts (List.map_filter rejection_of rows)"
  using assms
proof (induction rows)
  case (Cons row rows)
  then have i: "map json_facts (filter dropped_json (map audit_row_json_of rows)) =
      map rejection_facts (List.map_filter rejection_of rows)" by simp
  show ?case
  proof (cases "\<exists>reason. ar_outcome row = Dropped reason")
    case True
    then obtain reason where d: "ar_outcome row = Dropped reason" by blast
    with Cons.prems row_facts(2) obtain rj where "rejection_of row = Some rj"
      "json_facts (audit_row_json_of row) = rejection_facts rj" by fastforce
    with i d show ?thesis by (simp add: List.map_filter_simps row_facts(1))
  next
    case False
    with i row_facts(3) show ?thesis by (simp add: List.map_filter_simps row_facts(1))
  qed
qed (simp add: List.map_filter_simps)

lemma map_filter_rev: "List.map_filter f (rev xs) = rev (List.map_filter f xs)"
  by (simp add: List.map_filter_def rev_filter rev_map)

lemma audit_view_all: "audit_view lower audit None None = rev (au_rows audit)"
  by (simp add: audit_view_def audit_shown_def take_opt_def)


definition demo_flags :: history_flags where
  "demo_flags =
     \<lparr>hf_key = None, hf_limit = None, hf_all = True, hf_offset = 0, hf_op = [], hf_order = Desc,
      hf_confirmations = 3, hf_output = Json, hf_include_invalid = True\<rparr>"


end
