(* ===== verification/Spec2Isabelle.thy ===== *)
theory Spec2Isabelle
  imports Prelude Crates Wire_Types Signing Auth_Registry Db_Version Memo_Format Replay
    Protocol_Spec Replay_Refines Demo_Stream Replay_Props Replay_Seed Memo_Audit Roles Snapshot
    Snapshot_Refines Snapshot_Props Wallet_Scan Read_Path Read_Props Pending_File Write_Path
    Write_Props Batch_Order Demo_Client Management_Props Facade Facade_Props History_Query
    History_Page History_Props Glob Shallow_Validate Shallow_Client Shallow_Props Shallow_Walk
    Shallow_Find Shallow_Follow Shallow_Agrees Wallet_Config Data_Dir Fleet Fleet_Moves
    Fleet_Facts Fleet_Props Fleet_Safety Fleet_Gaps Address Address_Props Funding Funding_Props
    Sync_Skip Sync_Props Connection Connection_Props Provision Admin_Create Admin_Props
    Version_Oracle Price_Oracle Gui_Views Gui_Engine Gui_Actions Gui_Loop Gui_Server Gui_Props
    Gui_Cache Cli_Read Cli_History Cli_Props
begin

text \<open>
  A verification development for zkv (\<open>src/crates/zkv\<close>), a key-value database carried by Zcash
  memos: a write is a signed text memo in a shielded output to the database's own address, and a read
  is a replay of the memos the wallet has decrypted. Paths below are relative to \<open>src/crates/zkv/src\<close>.

  \<^bold>\<open>How the program hangs together.\<close> \<open>protocol/\<close> is pure: it builds, signs, parses and replays memos.
  The wallet engine (a third-party node) fills \<open>data.sqlite\<close> with received notes; \<open>internal/state.rs\<close>
  scans them, promotes the deep ones into the sidecar \<open>zkv_state.sqlite\<close> (\<open>internal/snapshot.rs\<close>) and
  replays the tail on top. \<open>internal/write.rs\<close> prepares and ships memos and notes them in
  \<open>pending.toml\<close> (\<open>internal/pending.rs\<close>), which reads merge until the wallet has seen them
  (\<open>internal/sync.rs\<close>). \<open>db.rs\<close> is the handle over both. A watch-only database is served by a node of
  its own or by the shared scan of its network (\<open>fleet.rs\<close>), which \<open>keys.toml\<close> records. \<open>shallow/\<close> is a second reader that needs no
  wallet: it validates the memos of a block window on its own.

  \<^bold>\<open>Theories, in the order of the code.\<close>
    \<^item> \<open>Prelude\<close>: \<open>Result\<close> as a sum (\<open>Inl\<close> is \<open>Err\<close>), 32-bit heights as bounded naturals with saturating
      arithmetic, 64-bit sequences as words, strings as lists of bytes with their UTF-8 scalars, sorted
      association lists for \<open>BTreeMap\<close>. \<open>Crates\<close>: the crates the protocol calls (hex, SHA-256,
      bech32m, secp256k1, the memo type), a record of functions with the documented laws as named
      hypotheses, and one record that satisfies them.
    \<^item> \<open>Wire_Types\<close> (\<open>protocol/types.rs\<close>), \<open>Signing\<close> (\<open>sign.rs\<close>), \<open>Auth_Registry\<close> (\<open>auth.rs\<close>),
      \<open>Db_Version\<close> (\<open>version.rs\<close>), \<open>Memo_Format\<close> (\<open>memo.rs\<close>): one definition per function. The lemmas
      are round trips of every encoding, the invariant of the registry, and that one signature stands
      for one command.
    \<^item> \<open>Replay\<close> (\<open>protocol/replay.rs\<close>): classification, decision, fold, strict mode and seeding. A panic
      of the code is the outcome \<open>None\<close> of the fold or the constructor \<open>Panicked\<close>. \<open>Protocol_Spec\<close> is
      the abstract protocol, a step relation with the authority of every change as its guards;
      \<open>Replay_Refines\<close> proves the simulation step by step, \<open>Replay_Props\<close> and \<open>Replay_Seed\<close> state what
      follows for whole streams. \<open>Memo_Audit\<close> and \<open>Roles\<close> are the other folds of \<open>replay.rs\<close> over the
      same memos (audit, verdicts, history entries, role lists), compared with the replay.
    \<^item> \<open>Snapshot\<close>, \<open>Snapshot_Refines\<close>, \<open>Snapshot_Props\<close> (\<open>internal/snapshot.rs\<close>): tables as lists and
      maps, the promotion transaction statement by statement, and its refinement of the replay.
      \<open>Wallet_Scan\<close>, \<open>Read_Path\<close>, \<open>Read_Props\<close> (\<open>internal/state.rs\<close>): the queries on the wallet tables,
      the cutoff, the healing of a stale sidecar, and that a read is a replay of the whole stream.
    \<^item> \<open>Pending_File\<close> (\<open>pending.rs\<close>, the collection of \<open>sync.rs\<close>), \<open>Write_Path\<close> with \<open>Write_Props\<close>,
      \<open>Batch_Order\<close> and \<open>Management_Props\<close> (\<open>internal/write.rs\<close>), \<open>Facade\<close> with \<open>Facade_Props\<close>
      (\<open>db.rs\<close>): what a prepared write does to its readers, and what a client sees of its own writes.
    \<^item> \<open>History_Query\<close>, \<open>History_Page\<close>, \<open>History_Props\<close> (\<open>load_history_page\<close> and its queries); \<open>Glob\<close>
      (\<open>commands/glob.rs\<close>), whose loop is a fuelled iteration with a proof that it ends.
    \<^item> \<open>Shallow_Validate\<close> (\<open>shallow/validate.rs\<close>), \<open>Shallow_Client\<close> (\<open>shallow/mod.rs\<close>,
      \<open>commands/shallow.rs\<close>): the shallow reader. \<open>Shallow_Props\<close> and \<open>Shallow_Walk\<close> hold its lemmas (the
      validator hit by hit, the chunks, a source that serves one chain); \<open>Shallow_Find\<close>,
      \<open>Shallow_Follow\<close> and \<open>Shallow_Agrees\<close> state what a search, a watcher and a read are worth.
    \<^item> \<open>Wallet_Config\<close> (\<open>config.rs\<close>, \<open>network.rs\<close>), \<open>Data_Dir\<close> (\<open>data.rs\<close>), \<open>Fleet\<close> and \<open>Fleet_Moves\<close>
      (\<open>fleet.rs\<close>, \<open>commands/fleet.rs\<close>, \<open>internal/recover.rs\<close>, \<open>engine/migrate.rs\<close>): the data
      directory as a disk of files. An operation returns the trace of the disk's states beside its
      result, so that a crash is one of them. \<open>Fleet_Facts\<close> holds the congruences (what a lookup
      depends on); \<open>Fleet_Props\<close>, \<open>Fleet_Safety\<close> and \<open>Fleet_Gaps\<close> state what survives a crash, what
      operations leave of other databases, and the runs in which a member is stranded.
    \<^item> \<open>Address\<close>, \<open>Address_Props\<close> (\<open>protocol/address.rs\<close>): the published address and its round trip.
    \<^item> \<open>Funding\<close>, \<open>Funding_Props\<close> (\<open>internal/funding.rs\<close>, \<open>internal/send.rs\<close>): the wallet's own
      transfers, the amounts a user types and is shown, and the plain transfer.
    \<^item> \<open>Sync_Skip\<close>, \<open>Sync_Props\<close> (\<open>internal/sync.rs\<close>, \<open>engine/node.rs\<close>, the sync of \<open>db.rs\<close>): when a
      read may skip the scan and what it then shows, the wait for the node, and birthdays.
    \<^item> \<open>Connection\<close>, \<open>Connection_Props\<close> (\<open>remote.rs\<close>, \<open>engine/config.rs\<close>): servers, the proxy, the check
      of a server's chain and the node's configuration. \<open>Provision\<close> (\<open>demo.rs\<close>, \<open>freshness.rs\<close>): the
      demonstration database, provided once, and the expiry of a build.
    \<^item> \<open>Admin_Create\<close>, \<open>Admin_Props\<close> (\<open>db.rs\<close>, \<open>internal/account.rs\<close>, the identity file of \<open>config.rs\<close>):
      creating and restoring an admin database. \<open>Version_Oracle\<close> (\<open>crates/zkv-version-oracle\<close>) and
      \<open>Price_Oracle\<close> (\<open>crates/zkv-oracle\<close>): the two programs that publish through the facade.
    \<^item> \<open>Gui_Views\<close>, \<open>Gui_Engine\<close>, \<open>Gui_Actions\<close>, \<open>Gui_Loop\<close> (\<open>gui/engine.rs\<close>): what the pages show, the
      engine's state and operations, and its background loop as a step relation interleaved with the
      pages. \<open>Gui_Server\<close> (\<open>gui/mod.rs\<close>, \<open>gui/assets.rs\<close>): the guard, the routes and the error codes.
      \<open>Gui_Props\<close>: the loop is safe and its cycles end, the pages show what the replay says, and no
      request reaches a handler without the host and the token. \<open>Gui_Cache\<close>: what the cached counts of
      the sidebar are worth.
    \<^item> \<open>Cli_Read\<close>, \<open>Cli_History\<close>, \<open>Cli_Props\<close> (\<open>commands/get.rs\<close>, \<open>verify.rs\<close>, \<open>history.rs\<close>): the
      commands that read, what they print, and that they show what the library and the window show.
    \<^item> \<open>Demo_Stream\<close> and \<open>Demo_Client\<close> are concrete memos, wallets and clients on which the witnesses
      evaluate the definitions.

  \<^bold>\<open>Bounds.\<close> A replayed stream holds fewer than \<open>2^64 / 257\<close> memos (\<open>stream_bound\<close>), so that no 64-bit
  counter wraps; counters written to the sidecar are below \<open>2^63\<close>, its integers being signed.
  The statements on batches and prepared writes need at most 256 writes of a key in flight, which is
  the window of the readers. Tips are below \<open>2^32 - 1\<close>. The fuel of the glob loop is the measure
  that its termination proof bounds; the scan for shards has one more than the entries of the disk,
  which bounds the directories it can find.

  \<^bold>\<open>Parameters.\<close> The crates (above), ZIP-321 and the engine (records of functions in \<open>Write_Path\<close>),
  Unicode lower-casing, the codec of unified keys (\<open>codec\<close>), the chain a shallow reader talks to (\<open>chain_source\<close>), the dialling
  of a server (\<open>transport\<close>), the phrase list, key derivation and wrapping of seeds (\<open>seed_world\<close>), semantic
  versions, the servers the oracles ask and the faucet, the node's reading of its configuration, and its manifest writer with the
  wallet's account import (\<open>outside\<close>). SQL is modelled as the
  list or map operations its text denotes; a transaction that fails leaves the tables as they were.

  \<^bold>\<open>Not modelled.\<close> The other commands, colours and the window's layout, command line parsing, HTTP, gRPC and TLS, encryption of
  the seed, decryption of notes, building of transactions, the third-party node, and the contents of
  English messages; the manifest lists the files.
\<close>

end
